(* ===== verification/Prelude.thy ===== *)
theory Prelude
  imports Complex_Main "HOL-Library.AList" "HOL-Library.Multiset" "HOL-Library.List_Lexorder" "HOL-Library.Char_ord"
begin

section \<open>Shared vocabulary: handlers, transactions and tables\<close>

text \<open>
  What every component of the development uses:
  \<^item> \<open>tx\<close>: the code inside one database transaction (or one autocommitted statement), a
    function from the database to an error or a result with the new database; an error carries
    no database, which is the rollback;
  \<^item> \<open>io\<close>: the code of a service method as a whole, which may run several transactions and
    publish messages; an error keeps what was committed before it;
  \<^item> \<open>keeps\<close> and \<open>keeps_io\<close>: the invariants of handlers, with one rule per combinator;
  \<^item> lists of rows as tables, with the update, lookup and filter forms of the SQL the
    repositories send.
\<close>

named_theorems keeps_rules
named_theorems table_simps

subsection \<open>Transactions\<close>

type_synonym ('e, 's, 'a) tx = "'s \<Rightarrow> 'e + 'a \<times> 's"

definition return_tx :: "'a \<Rightarrow> ('e, 's, 'a) tx" where
  "return_tx x = (\<lambda>s. Inr (x, s))"

definition raise_tx :: "'e \<Rightarrow> ('e, 's, 'a) tx" where
  "raise_tx e = (\<lambda>s. Inl e)"

definition bind_tx :: "('e, 's, 'a) tx \<Rightarrow> ('a \<Rightarrow> ('e, 's, 'b) tx) \<Rightarrow> ('e, 's, 'b) tx" where
  "bind_tx m k = (\<lambda>s. case m s of Inl e \<Rightarrow> Inl e | Inr (x, s') \<Rightarrow> k x s')"

text \<open>A statement that only reads, one that only writes, and one that may fail.\<close>

definition read_tx :: "('s \<Rightarrow> 'a) \<Rightarrow> ('e, 's, 'a) tx" where
  "read_tx f = (\<lambda>s. Inr (f s, s))"

definition write_tx :: "('s \<Rightarrow> 's) \<Rightarrow> ('e, 's, unit) tx" where
  "write_tx f = (\<lambda>s. Inr ((), f s))"

definition lift_tx :: "'e + 'a \<Rightarrow> ('e, 's, 'a) tx" where
  "lift_tx r = (\<lambda>s. case r of Inl e \<Rightarrow> Inl e | Inr x \<Rightarrow> Inr (x, s))"

definition check_tx :: "('s \<Rightarrow> bool) \<Rightarrow> 'e \<Rightarrow> ('e, 's, unit) tx" where
  "check_tx P e = (\<lambda>s. if P s then Inr ((), s) else Inl e)"

fun for_tx :: "'b list \<Rightarrow> ('b \<Rightarrow> ('e, 's, unit) tx) \<Rightarrow> ('e, 's, unit) tx" where
  "for_tx [] f = return_tx ()"
| "for_tx (x # xs) f = bind_tx (f x) (\<lambda>_. for_tx xs f)"

fun map_tx :: "'b list \<Rightarrow> ('b \<Rightarrow> ('e, 's, 'a) tx) \<Rightarrow> ('e, 's, 'a list) tx" where
  "map_tx [] f = return_tx []"
| "map_tx (x # xs) f = bind_tx (f x) (\<lambda>y. bind_tx (map_tx xs f) (\<lambda>ys. return_tx (y # ys)))"

lemma bind_return_tx [simp]: "bind_tx (return_tx x) k = k x"
  by (simp add: bind_tx_def return_tx_def)

lemma bind_raise_tx [simp]: "bind_tx (raise_tx e) k = raise_tx e"
  by (simp add: bind_tx_def raise_tx_def)

lemma bind_read_tx [simp]: "bind_tx (read_tx f) k s = k (f s) s"
  by (simp add: bind_tx_def read_tx_def)

lemma bind_write_tx [simp]: "bind_tx (write_tx f) k s = k () (f s)"
  by (simp add: bind_tx_def write_tx_def)

lemma bind_lift_tx [simp]:
  "bind_tx (lift_tx (Inl e)) k = raise_tx e" "bind_tx (lift_tx (Inr x)) k = k x"
  by (simp_all add: bind_tx_def lift_tx_def raise_tx_def)

lemma bind_check_tx: "bind_tx (check_tx P e) k s = (if P s then k () s else Inl e)"
  by (simp add: bind_tx_def check_tx_def)

lemma bind_check_tx_pass [simp]: "P s \<Longrightarrow> bind_tx (check_tx P e) k s = k () s"
  and bind_check_tx_fail [simp]: "\<not> P s \<Longrightarrow> bind_tx (check_tx P e) k s = Inl e"
  by (simp_all add: bind_check_tx)

lemma bind_if_tx [simp]:
  "bind_tx (if c then m else n) k = (if c then bind_tx m k else bind_tx n k)"
  by simp

lemma bind_assoc_tx [simp]:
  "bind_tx (bind_tx m f) g = bind_tx m (\<lambda>x. bind_tx (f x) g)"
  by (auto simp: bind_tx_def fun_eq_iff split: sum.splits)

lemma run_tx [simp]:
  "return_tx x s = Inr (x, s)" "raise_tx e s = Inl e" "read_tx f s = Inr (f s, s)"
  "write_tx g s = Inr ((), g s)" "lift_tx (Inl e) s = Inl e" "lift_tx (Inr y) s = Inr (y, s)"
  by (simp_all add: return_tx_def raise_tx_def read_tx_def write_tx_def lift_tx_def)

lemma run_check_tx: "check_tx P e s = (if P s then Inr ((), s) else Inl e)"
  by (simp add: check_tx_def)

lemma bind_tx_Inr: "m s = Inr (x, s') \<Longrightarrow> bind_tx m k s = k x s'"
  by (simp add: bind_tx_def)

lemma bind_tx_Inl: "m s = Inl e \<Longrightarrow> bind_tx m k s = Inl e"
  by (simp add: bind_tx_def)

lemma bind_txE:
  assumes "bind_tx m k s = Inr r"
  obtains x s' where "m s = Inr (x, s')" "k x s' = Inr r"
  using assms by (auto simp: bind_tx_def split: sum.splits)

lemma bind_tx_cong [fundef_cong]:
  "m = m' \<Longrightarrow> (\<And>x. k x = k' x) \<Longrightarrow> bind_tx m k = bind_tx m' k'"
  by presburger

subsection \<open>Service methods\<close>

text \<open>
  A service method runs on the world: the database and what has been handed to the message
  broker. \<open>atomically\<close> opens a transaction, runs its body and commits or rolls back.
\<close>

type_synonym ('e, 'w, 'a) io = "'w \<Rightarrow> ('e + 'a) \<times> 'w"

definition return_io :: "'a \<Rightarrow> ('e, 'w, 'a) io" where
  "return_io x = (\<lambda>w. (Inr x, w))"

definition raise_io :: "'e \<Rightarrow> ('e, 'w, 'a) io" where
  "raise_io e = (\<lambda>w. (Inl e, w))"

definition bind_io :: "('e, 'w, 'a) io \<Rightarrow> ('a \<Rightarrow> ('e, 'w, 'b) io) \<Rightarrow> ('e, 'w, 'b) io" where
  "bind_io m k = (\<lambda>w. case m w of (Inl e, w') \<Rightarrow> (Inl e, w') | (Inr x, w') \<Rightarrow> k x w')"

definition lift_io :: "'e + 'a \<Rightarrow> ('e, 'w, 'a) io" where
  "lift_io r = (\<lambda>w. (r, w))"

record ('db, 'msg) world =
  wdb :: 'db
  wmq :: "'msg list"

definition atomically :: "('e, 'db, 'a) tx \<Rightarrow> ('e, ('db, 'msg) world, 'a) io" where
  "atomically m = (\<lambda>w. case m (wdb w) of
      Inl e \<Rightarrow> (Inl e, w) | Inr (x, d) \<Rightarrow> (Inr x, w\<lparr>wdb := d\<rparr>))"

definition send_io :: "'msg \<Rightarrow> ('e, ('db, 'msg) world, unit) io" where
  "send_io m = (\<lambda>w. (Inr (), w\<lparr>wmq := wmq w @ [m]\<rparr>))"

text \<open>\<open>try: m except Exception: h\<close>: what \<open>m\<close> committed stays.\<close>

definition catch_io :: "('e, 'w, 'a) io \<Rightarrow> ('e \<Rightarrow> ('e, 'w, 'a) io) \<Rightarrow> ('e, 'w, 'a) io" where
  "catch_io m h = (\<lambda>w. case m w of (Inl e, w') \<Rightarrow> h e w' | (Inr x, w') \<Rightarrow> (Inr x, w'))"

fun for_io :: "'b list \<Rightarrow> ('b \<Rightarrow> ('e, 'w, unit) io) \<Rightarrow> ('e, 'w, unit) io" where
  "for_io [] f = return_io ()"
| "for_io (x # xs) f = bind_io (f x) (\<lambda>_. for_io xs f)"

fun map_io :: "'b list \<Rightarrow> ('b \<Rightarrow> ('e, 'w, 'a) io) \<Rightarrow> ('e, 'w, 'a list) io" where
  "map_io [] f = return_io []"
| "map_io (x # xs) f = bind_io (f x) (\<lambda>y. bind_io (map_io xs f) (\<lambda>ys. return_io (y # ys)))"

lemma bind_return_io [simp]: "bind_io (return_io x) k = k x"
  by (simp add: bind_io_def return_io_def)

lemma bind_raise_io [simp]: "bind_io (raise_io e) k = raise_io e"
  by (simp add: bind_io_def raise_io_def)

lemma bind_lift_io [simp]:
  "bind_io (lift_io (Inl e)) k = raise_io e" "bind_io (lift_io (Inr x)) k = k x"
  by (simp_all add: bind_io_def lift_io_def raise_io_def)

lemma bind_if_io [simp]:
  "bind_io (if c then m else n) k = (if c then bind_io m k else bind_io n k)"
  by simp

lemma bind_assoc_io [simp]:
  "bind_io (bind_io m f) g = bind_io m (\<lambda>x. bind_io (f x) g)"
  by (auto simp: bind_io_def fun_eq_iff split: sum.splits prod.splits)

lemma run_io [simp]:
  "return_io x w = (Inr x, w)" "raise_io e w = (Inl e, w)" "lift_io r w = (r, w)"
  "send_io m w = (Inr (), w\<lparr>wmq := wmq w @ [m]\<rparr>)"
  by (simp_all add: return_io_def raise_io_def lift_io_def send_io_def)

lemma atomically_Inl: "m (wdb w) = Inl e \<Longrightarrow> atomically m w = (Inl e, w)"
  and atomically_Inr: "m (wdb w) = Inr (x, d) \<Longrightarrow> atomically m w = (Inr x, w\<lparr>wdb := d\<rparr>)"
  by (simp_all add: atomically_def)

lemma bind_atomically_Inl: "m (wdb w) = Inl e \<Longrightarrow> bind_io (atomically m) k w = (Inl e, w)"
  and bind_atomically_Inr:
    "m (wdb w) = Inr (x, d) \<Longrightarrow> bind_io (atomically m) k w = k x (w\<lparr>wdb := d\<rparr>)"
  by (simp_all add: atomically_def bind_io_def)

lemma atomically_read [simp]:
  "bind_io (atomically (read_tx f)) k w = k (f (wdb w)) w"
  by (simp add: atomically_def bind_io_def)

lemma bind_send_io [simp]: "bind_io (send_io m) k w = k () (w\<lparr>wmq := wmq w @ [m]\<rparr>)"
  by (simp add: bind_io_def)

lemma bind_ioE:
  assumes "bind_io m k w = (Inr r, w')"
  obtains x v where "m w = (Inr x, v)" "k x v = (Inr r, w')"
  using assms by (auto simp: bind_io_def split: sum.splits prod.splits)

subsection \<open>Parts of a state\<close>

text \<open>
  A statement, or a call of another service, on a part of the database: \<open>get\<close> reads the part and
  \<open>put\<close> writes it back.
\<close>

definition zoom_tx :: "('s \<Rightarrow> 't) \<Rightarrow> ('t \<Rightarrow> 's \<Rightarrow> 's) \<Rightarrow> ('e, 't, 'a) tx \<Rightarrow> ('e, 's, 'a) tx" where
  "zoom_tx get put m = (\<lambda>s. case m (get s) of Inl e \<Rightarrow> Inl e | Inr (x, t) \<Rightarrow> Inr (x, put t s))"

definition zoom_io ::
  "('s \<Rightarrow> 't) \<Rightarrow> ('t \<Rightarrow> 's \<Rightarrow> 's) \<Rightarrow> ('e, ('t, 'm) world, 'a) io \<Rightarrow> ('e, ('s, 'm) world, 'a) io" where
  "zoom_io get put m = (\<lambda>w. case m \<lparr>wdb = get (wdb w), wmq = wmq w\<rparr> of
      (r, v) \<Rightarrow> (r, \<lparr>wdb = put (wdb v) (wdb w), wmq = wmq v\<rparr>))"

subsection \<open>Invariants of handlers\<close>

text \<open>
  \<open>keeps P m\<close>: if \<open>m\<close> commits, what it commits satisfies \<open>P\<close> when what it started
  from did. With \<open>P\<close> of the form \<open>\<lambda>s. f s = c\<close> it is a frame condition: \<open>m\<close> does not
  touch \<open>f\<close>.
\<close>

definition keeps :: "('s \<Rightarrow> bool) \<Rightarrow> ('e, 's, 'a) tx \<Rightarrow> bool" where
  "keeps P m \<longleftrightarrow> (\<forall>s x s'. P s \<longrightarrow> m s = Inr (x, s') \<longrightarrow> P s')"

definition keeps_io :: "('db \<Rightarrow> bool) \<Rightarrow> ('e, ('db, 'msg) world, 'a) io \<Rightarrow> bool" where
  "keeps_io P m \<longleftrightarrow> (\<forall>w r w'. P (wdb w) \<longrightarrow> m w = (r, w') \<longrightarrow> P (wdb w'))"

lemma keepsI: "(\<And>s x s'. P s \<Longrightarrow> m s = Inr (x, s') \<Longrightarrow> P s') \<Longrightarrow> keeps P m"
  by (auto simp: keeps_def)

lemma keepsD: "keeps P m \<Longrightarrow> P s \<Longrightarrow> m s = Inr (x, s') \<Longrightarrow> P s'"
  by (auto simp: keeps_def)

lemma keeps_ioD: "keeps_io P m \<Longrightarrow> P (wdb w) \<Longrightarrow> P (wdb (snd (m w)))"
  unfolding keeps_io_def by (metis prod.collapse)

lemma keeps_basic [keeps_rules]:
  "keeps P (return_tx x)" "keeps P (raise_tx e)" "keeps P (read_tx f)"
  "keeps P (lift_tx r)" "keeps P (check_tx Q e)"
  by (auto simp: keeps_def run_check_tx lift_tx_def split: sum.splits if_splits)

lemma keeps_write: "(\<And>s. P s \<Longrightarrow> P (f s)) \<Longrightarrow> keeps P (write_tx f)"
  by (auto simp: keeps_def)

lemma keeps_bind [keeps_rules]:
  "keeps P m \<Longrightarrow> (\<And>x. keeps P (k x)) \<Longrightarrow> keeps P (bind_tx m k)"
  unfolding keeps_def by (metis bind_txE)

lemma keeps_if [keeps_rules]:
  "(c \<Longrightarrow> keeps P m) \<Longrightarrow> (\<not> c \<Longrightarrow> keeps P n) \<Longrightarrow> keeps P (if c then m else n)"
  by simp

lemma keeps_option [keeps_rules]:
  "keeps P m \<Longrightarrow> (\<And>x. keeps P (f x)) \<Longrightarrow> keeps P (case v of None \<Rightarrow> m | Some x \<Rightarrow> f x)"
  by (cases v) simp_all

lemma keeps_prod [keeps_rules]:
  "(\<And>x y. keeps P (f x y)) \<Longrightarrow> keeps P (case v of (x, y) \<Rightarrow> f x y)"
  by (cases v) simp

lemma keeps_let [keeps_rules]: "(\<And>x. keeps P (f x)) \<Longrightarrow> keeps P (Let v f)"
  by simp

lemma keeps_for [keeps_rules]: "(\<And>x. keeps P (f x)) \<Longrightarrow> keeps P (for_tx xs f)"
  by (induction xs) (auto intro: keeps_basic keeps_bind)

lemma keeps_map [keeps_rules]: "(\<And>x. keeps P (f x)) \<Longrightarrow> keeps P (map_tx xs f)"
  by (induction xs) (auto intro!: keeps_basic keeps_bind)

lemma keeps_io_basic [keeps_rules]:
  "keeps_io P (return_io x)" "keeps_io P (raise_io e)" "keeps_io P (lift_io r)"
  "keeps_io P (send_io m)"
  by (auto simp: keeps_io_def)

lemma keeps_io_bind [keeps_rules]:
  assumes "keeps_io P m" "\<And>x. keeps_io P (k x)"
  shows "keeps_io P (bind_io m k)"
  unfolding keeps_io_def
proof (intro allI impI)
  fix w r w'
  assume "P (wdb w)" and run: "bind_io m k w = (r, w')"
  obtain q v where mw: "m w = (q, v)" by fastforce
  with \<open>P (wdb w)\<close> assms(1) have v: "P (wdb v)" by (auto simp: keeps_io_def)
  show "P (wdb w')"
  proof (cases q)
    case (Inl e)
    with run mw v show ?thesis by (auto simp: bind_io_def)
  next
    case (Inr x)
    with run mw have "k x v = (r, w')" by (simp add: bind_io_def)
    with v assms(2) show ?thesis by (auto simp: keeps_io_def)
  qed
qed

lemma keeps_io_catch [keeps_rules]:
  assumes "keeps_io P m" "\<And>e. keeps_io P (h e)"
  shows "keeps_io P (catch_io m h)"
  unfolding keeps_io_def
proof (intro allI impI)
  fix w r w'
  assume "P (wdb w)" and run: "catch_io m h w = (r, w')"
  obtain q v where mw: "m w = (q, v)" by fastforce
  with \<open>P (wdb w)\<close> assms(1) have v: "P (wdb v)" by (auto simp: keeps_io_def)
  from run mw show "P (wdb w')"
    using v assms(2) by (cases q) (auto simp: catch_io_def keeps_io_def)
qed

lemma keeps_io_if [keeps_rules]:
  "(c \<Longrightarrow> keeps_io P m) \<Longrightarrow> (\<not> c \<Longrightarrow> keeps_io P n) \<Longrightarrow> keeps_io P (if c then m else n)"
  by simp

lemma keeps_io_option [keeps_rules]:
  "keeps_io P m \<Longrightarrow> (\<And>x. keeps_io P (f x)) \<Longrightarrow> keeps_io P (case v of None \<Rightarrow> m | Some x \<Rightarrow> f x)"
  by (cases v) simp_all

lemma keeps_io_prod [keeps_rules]:
  "(\<And>x y. keeps_io P (f x y)) \<Longrightarrow> keeps_io P (case v of (x, y) \<Rightarrow> f x y)"
  by (cases v) simp

lemma keeps_io_let [keeps_rules]: "(\<And>x. keeps_io P (f x)) \<Longrightarrow> keeps_io P (Let v f)"
  by simp

lemma keeps_atomically [keeps_rules]: "keeps P m \<Longrightarrow> keeps_io P (atomically m)"
  by (auto simp: keeps_def keeps_io_def atomically_def split: sum.splits)

lemma keeps_for_io [keeps_rules]: "(\<And>x. keeps_io P (f x)) \<Longrightarrow> keeps_io P (for_io xs f)"
  by (induction xs) (auto intro: keeps_io_basic keeps_io_bind)

lemma keeps_map_io [keeps_rules]: "(\<And>x. keeps_io P (f x)) \<Longrightarrow> keeps_io P (map_io xs f)"
  by (induction xs) (auto intro!: keeps_io_basic keeps_io_bind)

subsection \<open>Tables\<close>

text \<open>
  A table is the list of its rows in insertion order. The forms of the repositories' SQL:
  \<open>UPDATE t SET .. WHERE P\<close> is \<open>update_where P f\<close>, a \<open>SELECT .. WHERE P\<close> a \<open>filter\<close>,
  one row of it (\<open>fetchrow\<close>) \<open>first_where P\<close>, \<open>EXISTS\<close> and foreign keys \<open>has_row P\<close>,
  a nullable filter parameter (\<open>$1 IS NULL OR col = $1\<close>) \<open>opt_eq\<close>, and
  \<open>ORDER BY random()\<close> a sort by one random key per row.
\<close>

definition update_where :: "('r \<Rightarrow> bool) \<Rightarrow> ('r \<Rightarrow> 'r) \<Rightarrow> 'r list \<Rightarrow> 'r list" where
  "update_where P f rows = map (\<lambda>r. if P r then f r else r) rows"

definition first_where :: "('r \<Rightarrow> bool) \<Rightarrow> 'r list \<Rightarrow> 'r option" where
  "first_where P rows = List.find P rows"

definition has_row :: "('r \<Rightarrow> bool) \<Rightarrow> 'r list \<Rightarrow> bool" where
  "has_row P rows = list_ex P rows"

definition opt_eq :: "'a option \<Rightarrow> 'a \<Rightarrow> bool" where
  "opt_eq p v = (case p of None \<Rightarrow> True | Some x \<Rightarrow> v = x)"

definition opt_eq_null :: "'a option \<Rightarrow> 'a option \<Rightarrow> bool" where
  "opt_eq_null p v = (case p of None \<Rightarrow> True | Some x \<Rightarrow> v = Some x)"

definition order_by_random :: "(nat \<Rightarrow> nat) \<Rightarrow> 'r list \<Rightarrow> 'r list" where
  "order_by_random keys rows = map snd (sort_key fst (zip (map keys [0..<length rows]) rows))"

text \<open>
  \<open>DISTINCT ON\<close> keeps the first row of each key, \<open>LEFT JOIN\<close> pairs a row with its matches
  or with one missing row, \<open>DELETE .. LIMIT 1\<close> removes one row.
\<close>

fun distinct_on :: "('r \<Rightarrow> 'k) \<Rightarrow> 'k list \<Rightarrow> 'r list \<Rightarrow> 'r list" where
  "distinct_on f seen [] = []"
| "distinct_on f seen (r # rows) =
     (if f r \<in> set seen then distinct_on f seen rows else r # distinct_on f (f r # seen) rows)"

definition left_join :: "('r \<Rightarrow> bool) \<Rightarrow> 'r list \<Rightarrow> 'r option list" where
  "left_join P rows = (case filter P rows of [] \<Rightarrow> [None] | r # rs \<Rightarrow> map Some (r # rs))"

fun remove_first :: "('r \<Rightarrow> bool) \<Rightarrow> 'r list \<Rightarrow> 'r list" where
  "remove_first P [] = []"
| "remove_first P (r # rows) = (if P r then rows else r # remove_first P rows)"

lemma distinct_on_keys: "distinct (map f (distinct_on f seen rows)) \<and>
    set (map f (distinct_on f seen rows)) \<inter> set seen = {}"
  by (induction f seen rows rule: distinct_on.induct) auto

lemma set_distinct_on: "set (distinct_on f seen rows) \<subseteq> set rows"
  by (induction f seen rows rule: distinct_on.induct) auto

lemma left_join_nonempty [simp]: "left_join P rows \<noteq> []"
  by (simp add: left_join_def split: list.splits)

lemma hd_left_join: "hd (left_join P rows) = first_where P rows"
  by (induction rows) (auto simp: left_join_def first_where_def split: list.splits if_splits)

lemma set_remove_first: "set (remove_first P rows) \<subseteq> set rows"
  by (induction rows) auto

lemma length_filter_remove_first:
  "r \<in> set rows \<Longrightarrow> P r \<Longrightarrow> (\<And>x. P x \<Longrightarrow> Q x) \<Longrightarrow>
     Suc (length (filter Q (remove_first P rows))) = length (filter Q rows)"
  by (induction rows) auto

lemma filter_remove_first_other:
  "(\<And>x. P x \<Longrightarrow> \<not> Q x) \<Longrightarrow> filter Q (remove_first P rows) = filter Q rows"
  by (induction rows) auto

lemma has_row_iff: "has_row P rows \<longleftrightarrow> (\<exists>r \<in> set rows. P r)"
  by (simp add: has_row_def list_ex_iff)

lemma has_row_simps [simp]:
  "has_row P [] = False" "has_row P (r # rows) = (P r \<or> has_row P rows)"
  "has_row P (xs @ ys) = (has_row P xs \<or> has_row P ys)"
  by (auto simp: has_row_iff)

lemma first_where_simps [simp]:
  "first_where P [] = None" "first_where P (r # rows) = (if P r then Some r else first_where P rows)"
  by (simp_all add: first_where_def)

lemma first_where_SomeD: "first_where P rows = Some r \<Longrightarrow> r \<in> set rows \<and> P r"
  by (induction rows) (auto split: if_splits)

lemma first_where_None: "first_where P rows = None \<longleftrightarrow> (\<forall>r \<in> set rows. \<not> P r)"
  by (induction rows) auto

lemma first_where_append:
  "first_where P (xs @ ys) = (case first_where P xs of None \<Rightarrow> first_where P ys | Some r \<Rightarrow> Some r)"
  by (induction xs) auto

lemma update_where_simps [simp]:
  "update_where P f [] = []"
  "update_where P f (r # rows) = (if P r then f r else r) # update_where P f rows"
  "update_where P f (xs @ ys) = update_where P f xs @ update_where P f ys"
  "length (update_where P f rows) = length rows"
  by (simp_all add: update_where_def)

lemma set_update_where:
  "set (update_where P f rows) = f ` {r \<in> set rows. P r} \<union> {r \<in> set rows. \<not> P r}"
  by (auto simp: update_where_def)

lemma in_update_whereD:
  "r \<in> set (update_where P f rows) \<Longrightarrow> (\<exists>r0 \<in> set rows. r = (if P r0 then f r0 else r0))"
  by (auto simp: update_where_def)

lemma map_update_where:
  "(\<And>r. P r \<Longrightarrow> g (f r) = g r) \<Longrightarrow> map g (update_where P f rows) = map g rows"
  by (induction rows) auto

lemma filter_update_where:
  "(\<And>r. P r \<Longrightarrow> Q (f r) = Q r) \<Longrightarrow>
     filter Q (update_where P f rows) = update_where P f (filter Q rows)"
  by (induction rows) auto

lemma has_row_update_where:
  "(\<And>r. P r \<Longrightarrow> Q (f r) = Q r) \<Longrightarrow> has_row Q (update_where P f rows) = has_row Q rows"
  by (induction rows) auto

lemma first_where_update_where:
  "(\<And>r. P r \<Longrightarrow> Q (f r) = Q r) \<Longrightarrow>
     first_where Q (update_where P f rows) =
     map_option (\<lambda>r. if P r then f r else r) (first_where Q rows)"
  by (induction rows) auto

lemma update_where_cong:
  "(\<And>r. r \<in> set rows \<Longrightarrow> P r = Q r) \<Longrightarrow> update_where P f rows = update_where Q f rows"
  by (simp add: update_where_def)

lemma update_where_none: "\<not> has_row P rows \<Longrightarrow> update_where P f rows = rows"
  by (induction rows) auto

lemma sorted_wrt_update_where:
  assumes "sorted_wrt R xs" "\<And>x y. x \<in> set xs \<Longrightarrow> y \<in> set xs \<Longrightarrow> R x y \<Longrightarrow> R' (if P x then f x else x) (if P y then f y else y)"
  shows "sorted_wrt R' (update_where P f xs)"
  unfolding update_where_def sorted_wrt_map by (rule sorted_wrt_mono_rel [OF _ assms(1)]) (use assms(2) in blast)

lemma map_snd_sort_zip: "mset (order_by_random keys rows) = mset rows"
proof -
  have "mset (order_by_random keys rows) = mset (map snd (zip (map keys [0..<length rows]) rows))"
    unfolding order_by_random_def by (metis mset_map mset_sort)
  also have "\<dots> = mset rows" by simp
  finally show ?thesis .
qed

lemma set_order_by_random [simp]: "set (order_by_random keys rows) = set rows"
  by (metis map_snd_sort_zip mset_eq_setD)

lemma length_order_by_random [simp]: "length (order_by_random keys rows) = length rows"
  by (metis map_snd_sort_zip size_mset)

lemma order_by_random_Nil [simp]: "order_by_random keys rows = [] \<longleftrightarrow> rows = []"
  by (metis length_0_conv length_order_by_random)

lemma first_where_unique:
  "distinct (map g rows) \<Longrightarrow> r \<in> set rows \<Longrightarrow> first_where (\<lambda>x. g x = g r) rows = Some r"
  by (induction rows) (auto simp: image_iff)

lemma sum_list_update_where_at:
  fixes h :: "'r \<Rightarrow> int"
  assumes "distinct (map g rows)" "r \<in> set rows"
  shows "sum_list (map h (update_where (\<lambda>x. g x = g r) f rows)) =
         sum_list (map h rows) + (h (f r) - h r)"
  using assms
proof (induction rows)
  case Nil
  then show ?case by simp
next
  case (Cons x xs)
  show ?case
  proof (cases "x = r")
    case True
    with Cons.prems have "update_where (\<lambda>y. g y = g r) f xs = xs"
      by (intro update_where_none) (auto simp: has_row_iff image_iff)
    with True show ?thesis by simp
  next
    case False
    with Cons.prems have "g x \<noteq> g r" "r \<in> set xs" by (auto simp: image_iff)
    with Cons show ?thesis by simp
  qed
qed

subsection \<open>PostgreSQL integers\<close>

text \<open>
  An \<open>int\<close> column holds a 32-bit value; a statement that would store another one fails
  with an out-of-range error.
\<close>

definition int4_ok :: "int \<Rightarrow> bool" where
  "int4_ok x \<longleftrightarrow> - 2147483648 \<le> x \<and> x \<le> 2147483647"

text \<open>PostgreSQL's integer division and remainder truncate towards zero.\<close>

definition sql_div :: "int \<Rightarrow> int \<Rightarrow> int" where
  "sql_div a b = sgn a * sgn b * (\<bar>a\<bar> div \<bar>b\<bar>)"

definition sql_mod :: "int \<Rightarrow> int \<Rightarrow> int" where
  "sql_mod a b = a - b * sql_div a b"

lemma sql_div_nonneg: "0 \<le> a \<Longrightarrow> 0 < b \<Longrightarrow> sql_div a b = a div b"
  by (cases "a = 0") (auto simp: sql_div_def)

lemma sql_mod_nonneg: "0 \<le> a \<Longrightarrow> 0 < b \<Longrightarrow> sql_mod a b = a mod b"
  by (simp add: sql_mod_def sql_div_nonneg minus_mult_div_eq_mod)

end
