(* ===== verification/Float64.thy ===== *)
theory Float64
  imports Prelude "HOL-Library.Log_Nat"
begin

section \<open>Python floats: binary64 rounding\<close>

text \<open>
  A Python \<open>float\<close> is a binary64 number. Its finite values are rationals, so the model
  keeps them as \<open>rat\<close> and writes the rounding of every operation out: \<open>a * b\<close> of the
  source is \<open>fl (a * b)\<close>, with \<open>fl\<close> the rounding to 53 significant bits, ties to even,
  gradual underflow below \<open>2 powi -1022\<close>. Overflow to infinity (above \<open>1.8e308\<close>) is out
  of the range of every value of the program and is not modelled. A literal such as \<open>0.85\<close>
  is \<open>fl (85 / 100)\<close>.
\<close>

definition round_half_even :: "rat \<Rightarrow> int" where
  "round_half_even x =
     (let n = \<lfloor>x\<rfloor>; d = x - of_int n in
      if d < 1 / 2 then n else if d > 1 / 2 then n + 1 else if even n then n else n + 1)"

text \<open>The exponent of the leading bit of a positive rational.\<close>

definition ilog2 :: "rat \<Rightarrow> int" where
  "ilog2 x =
     (let (p, q) = quotient_of x; e = bitlen p - bitlen q
      in if 2 powi e \<le> x then e else e - 1)"

definition fl :: "rat \<Rightarrow> rat" where
  "fl x = (if x = 0 then 0
           else let s = 2 powi (max (ilog2 \<bar>x\<bar> - 52) (- 1074)) in of_int (round_half_even (x / s)) * s)"

text \<open>Python's \<open>int(x)\<close> on a float truncates towards zero.\<close>

definition py_trunc :: "rat \<Rightarrow> int" where
  "py_trunc x = (if 0 \<le> x then \<lfloor>x\<rfloor> else \<lceil>x\<rceil>)"

text \<open>
  \<open>str(x)\<close> of a float is the shortest decimal that reads back as \<open>x\<close>; \<open>float_text\<close> is the
  value of that text (the fewest decimals whose nearest float is \<open>x\<close> again). The pool sends
  floats to \<open>numeric\<close> parameters as this text and reads \<open>numeric\<close> columns with \<open>float\<close>.
\<close>

definition dec_round :: "nat \<Rightarrow> rat \<Rightarrow> rat" where
  "dec_round n x = of_int (round_half_even (x * 10 ^ n)) / 10 ^ n"

definition float_text :: "rat \<Rightarrow> rat" where
  "float_text x = (case List.find (\<lambda>n. fl (dec_round n x) = x) [0..<400] of
      Some n \<Rightarrow> dec_round n x | None \<Rightarrow> x)"

text \<open>
  \<open>sum\<close> of floats, since Python 3.12: the running sum and a compensation for what its additions lost
  (Neumaier), added at the end.
\<close>

definition sum_step :: "rat \<times> rat \<Rightarrow> rat \<Rightarrow> rat \<times> rat" where
  "sum_step = (\<lambda>(acc, c) x.
     let t = fl (acc + x)
     in (t, fl (c + (if \<bar>x\<bar> \<le> \<bar>acc\<bar> then fl (fl (acc - t) + x) else fl (fl (x - t) + acc)))))"

definition py_sum :: "rat list \<Rightarrow> rat" where
  "py_sum xs = (case xs of [] \<Rightarrow> 0 | x # rest \<Rightarrow> (case foldl sum_step (x, 0) rest of (acc, c) \<Rightarrow> fl (acc + c)))"

text \<open>Storing a value in a \<open>numeric(p, 2)\<close> column rounds half away from zero.\<close>

definition numeric_2 :: "rat \<Rightarrow> rat" where
  "numeric_2 x = sgn x * of_int \<lfloor>\<bar>x\<bar> * 100 + 1 / 2\<rfloor> / 100"

subsection \<open>Rounding to the nearest integer\<close>

lemma round_half_even_bound: "\<bar>of_int (round_half_even x) - x\<bar> \<le> 1 / 2"
proof -
  have "of_int \<lfloor>x\<rfloor> \<le> x" "x < of_int \<lfloor>x\<rfloor> + 1" by linarith+
  then show ?thesis
    by (auto simp: round_half_even_def Let_def abs_le_iff)
qed

lemma round_half_even_int [simp]: "round_half_even (of_int n) = n"
  by (simp add: round_half_even_def)

lemma round_half_even_nonneg: "0 \<le> x \<Longrightarrow> 0 \<le> round_half_even x"
  by (simp add: round_half_even_def Let_def)

lemma round_half_even_mono:
  assumes "x \<le> y" shows "round_half_even x \<le> round_half_even y"
proof (cases "\<lfloor>x\<rfloor> = \<lfloor>y\<rfloor>")
  case True
  with assms show ?thesis by (auto simp: round_half_even_def Let_def)
next
  case False
  with floor_mono [OF assms] have "\<lfloor>x\<rfloor> + 1 \<le> \<lfloor>y\<rfloor>" by linarith
  then show ?thesis by (auto simp: round_half_even_def Let_def)
qed

lemma round_half_even_le_int: "x \<le> of_int n \<Longrightarrow> round_half_even x \<le> n"
  using round_half_even_mono [of x "of_int n"] by simp

lemma round_half_even_ge_int: "of_int n \<le> x \<Longrightarrow> n \<le> round_half_even x"
  using round_half_even_mono [of "of_int n" x] by simp

subsection \<open>The leading bit\<close>

lemma bitlen_pow_bounds:
  assumes "0 < p"
  shows "2 powi (bitlen p - 1) \<le> (of_int p :: rat)" "(of_int p :: rat) < 2 powi (bitlen p)"
proof -
  from bitlen_bounds [OF assms]
  have b: "2 ^ nat (bitlen p - 1) \<le> p" "p < 2 ^ nat (bitlen p)" by auto
  from assms have "bitlen p \<noteq> 0" by (simp add: bitlen_eq_zero_iff)
  with bitlen_nonneg [of p] have "0 < bitlen p" by linarith
  then have "2 powi (bitlen p - 1) = (of_int (2 ^ nat (bitlen p - 1)) :: rat)"
    and "2 powi (bitlen p) = (of_int (2 ^ nat (bitlen p)) :: rat)"
    by (simp_all add: power_int_def)
  with b show "2 powi (bitlen p - 1) \<le> (of_int p :: rat)" "(of_int p :: rat) < 2 powi (bitlen p)"
    by (simp_all only: of_int_le_iff of_int_less_iff)
qed

lemma powi2_less_imp: "(2 :: rat) powi m < 2 powi n \<Longrightarrow> m < n"
  by (meson linorder_not_le power_int_increasing one_le_numeral)

lemma powi2_le_imp: "(2 :: rat) powi m \<le> 2 powi n \<Longrightarrow> m \<le> n"
  by (rule ccontr) (use power_int_strict_increasing [of n m "2 :: rat"] in simp)

lemma ilog2_bounds:
  assumes "0 < x"
  shows "2 powi (ilog2 x) \<le> x" "x < 2 powi (ilog2 x + 1)"
proof -
  obtain p q where pq: "quotient_of x = (p, q)" by fastforce
  then have q: "0 < q" by (rule quotient_of_denom_pos)
  have x: "x = of_int p / of_int q" using pq by (rule quotient_of_div)
  with assms q have p: "0 < p" by (simp add: zero_less_divide_iff)
  define e where "e = bitlen p - bitlen q"
  have up: "x < 2 powi (e + 1)"
  proof -
    have "x * of_int q < 2 powi (bitlen p)"
      using bitlen_pow_bounds(2) [OF p] q x by simp
    also have "\<dots> = 2 powi (e + 1) * 2 powi (bitlen q - 1)"
      by (simp add: e_def flip: power_int_add)
    also have "\<dots> \<le> 2 powi (e + 1) * of_int q"
      using bitlen_pow_bounds(1) [OF q] by (intro mult_left_mono) auto
    finally show ?thesis using q by simp
  qed
  have lo: "2 powi (e - 1) \<le> x"
  proof -
    have "2 powi (e - 1) * of_int q \<le> (2 powi (e - 1) * 2 powi (bitlen q) :: rat)"
      using bitlen_pow_bounds(2) [OF q] by (intro mult_left_mono) auto
    also have "\<dots> = 2 powi (bitlen p - 1)"
      by (simp add: e_def flip: power_int_add)
    also have "\<dots> \<le> of_int p" by (rule bitlen_pow_bounds(1) [OF p])
    finally show ?thesis using q by (simp add: x field_simps)
  qed
  show "2 powi (ilog2 x) \<le> x" "x < 2 powi (ilog2 x + 1)"
    using lo up by (auto simp: ilog2_def pq e_def [symmetric] Let_def)
qed

subsection \<open>Rounding to a float\<close>

lemma fl_0 [simp]: "fl 0 = 0"
  by (simp add: fl_def)

lemma fl_nonneg: "0 \<le> x \<Longrightarrow> 0 \<le> fl x"
  by (auto simp: fl_def Let_def intro!: mult_nonneg_nonneg round_half_even_nonneg)

text \<open>The relative error of one rounding is at most one part in \<open>2 ^ 53\<close>.\<close>

lemma fl_error:
  assumes "2 powi (- 1022) \<le> \<bar>x\<bar>"
  shows "\<bar>fl x - x\<bar> \<le> \<bar>x\<bar> / 2 ^ 53"
proof -
  have pos: "0 < (2 powi (- 1022) :: rat)" by simp
  with assms have "0 < \<bar>x\<bar>" "x \<noteq> 0" by auto
  define e where "e = ilog2 \<bar>x\<bar>"
  have lo: "2 powi e \<le> \<bar>x\<bar>" and up: "\<bar>x\<bar> < 2 powi (e + 1)"
    using ilog2_bounds [OF \<open>0 < \<bar>x\<bar>\<close>] by (auto simp: e_def)
  from assms up have "(2 powi (- 1022) :: rat) < 2 powi (e + 1)" by linarith
  then have "- 1022 \<le> e" using powi2_less_imp by fastforce
  then have m: "max (e - 52) (- 1074) = e - 52" by simp
  define s :: rat where "s = 2 powi (e - 52)"
  have s: "0 < s" by (simp add: s_def)
  have "fl x - x = (of_int (round_half_even (x / s)) - x / s) * s"
    using s \<open>x \<noteq> 0\<close> m by (simp add: fl_def e_def [symmetric] Let_def s_def [symmetric] left_diff_distrib)
  then have "\<bar>fl x - x\<bar> \<le> 1 / 2 * s"
    using round_half_even_bound [of "x / s"] s by (simp add: abs_mult mult_right_mono)
  also have "1 / 2 * s = 2 powi e / 2 ^ 53"
    by (simp add: s_def power_int_diff)
  also have "\<dots> \<le> \<bar>x\<bar> / 2 ^ 53" using lo by (simp add: divide_right_mono)
  finally show ?thesis .
qed

lemma fl_close:
  assumes "2 powi (- 1022) \<le> x"
  shows "fl x \<le> x * (1 + 1 / 2 ^ 53)" "x * (1 - 1 / 2 ^ 53) \<le> fl x"
proof -
  have "0 < (2 powi (- 1022) :: rat)" by simp
  with assms have "0 < x" by linarith
  with assms have "\<bar>fl x - x\<bar> \<le> x / 2 ^ 53" using fl_error [of x] by simp
  then have "fl x - x \<le> x / 2 ^ 53" "x - fl x \<le> x / 2 ^ 53" by linarith+
  then show "fl x \<le> x * (1 + 1 / 2 ^ 53)" "x * (1 - 1 / 2 ^ 53) \<le> fl x"
    by (simp_all add: algebra_simps)
qed

text \<open>Integers of up to 53 bits are floats.\<close>

lemma fl_of_int:
  assumes "\<bar>n\<bar> \<le> 2 ^ 53" shows "fl (of_int n) = of_int n"
proof (cases "n = 0")
  case True
  then show ?thesis by simp
next
  case False
  define e where "e = ilog2 \<bar>of_int n\<bar>"
  have "0 < \<bar>of_int n :: rat\<bar>" using False by simp
  from ilog2_bounds [OF this] have lo: "2 powi e \<le> \<bar>of_int n :: rat\<bar>"
    and up: "\<bar>of_int n :: rat\<bar> < 2 powi (e + 1)" by (auto simp: e_def)
  have "1 \<le> \<bar>of_int n :: rat\<bar>" using False by simp
  with up have "(2 powi 0 :: rat) < 2 powi (e + 1)" by simp
  then have e0: "0 \<le> e" using powi2_less_imp by fastforce
  have "(2 :: rat) powi e \<le> 2 powi 53"
    using lo assms by (simp add: power_int_def flip: of_int_abs)
  then have "e \<le> 53" by (rule powi2_le_imp)
  show ?thesis
  proof (cases "e = 53")
    case True
    have "\<bar>n\<bar> = 2 ^ 53"
    proof -
      have "(of_int (2 ^ 53) :: rat) \<le> of_int \<bar>n\<bar>"
        using lo True by simp
      then have "2 ^ 53 \<le> \<bar>n\<bar>" by (simp only: of_int_le_iff)
      with assms show ?thesis by simp
    qed
    then have "n = 9007199254740992 \<or> n = - 9007199254740992" by auto
    moreover have "fl 9007199254740992 = 9007199254740992" by code_simp
    moreover have "fl (- 9007199254740992) = - 9007199254740992" by code_simp
    ultimately show ?thesis by auto
  next
    case False2: False
    with \<open>e \<le> 53\<close> have "e - 52 \<le> 0" by simp
    define k where "k = nat (52 - e)"
    have "e - 52 = - int k" using \<open>e - 52 \<le> 0\<close> by (simp add: k_def)
    then have s: "(2 :: rat) powi (e - 52) = 1 / 2 ^ k"
      by (simp add: power_int_minus inverse_eq_divide)
    have "(of_int n :: rat) / (1 / 2 ^ k) = of_int (n * 2 ^ k)" by simp
    then have "round_half_even (of_int n / (2 powi (e - 52))) = n * 2 ^ k"
      unfolding s by (metis round_half_even_int)
    then show ?thesis
      using False e0 s by (simp add: fl_def e_def [symmetric] Let_def max_absorb1)
  qed
qed

lemma powi_multiple: "k \<le> m \<Longrightarrow> (2 :: rat) powi m / 2 powi k = of_int (2 ^ nat (m - k))"
proof -
  assume "k \<le> m"
  then have "(2 :: rat) powi (m - k) = of_int (2 ^ nat (m - k))" by (simp add: power_int_def)
  then show ?thesis by (simp add: power_int_diff)
qed

text \<open>Rounding is monotone: a power of two between two values separates their roundings.\<close>

lemma fl_mono:
  assumes "0 < x" "x \<le> y" shows "fl x \<le> fl y"
proof -
  define ex ey where "ex = ilog2 x" and "ey = ilog2 y"
  have x: "x < 2 powi (ex + 1)" "2 powi ex \<le> x" and y: "2 powi ey \<le> y" "y < 2 powi (ey + 1)"
    using ilog2_bounds [of x] ilog2_bounds [of y] assms by (auto simp: ex_def ey_def)
  define kx ky where "kx = max (ex - 52) (- 1074)" and "ky = max (ey - 52) (- 1074)"
  have s: "0 < (2 :: rat) powi kx" "0 < (2 :: rat) powi ky" by simp_all
  have flx: "fl x = of_int (round_half_even (x / 2 powi kx)) * 2 powi kx"
    and fly: "fl y = of_int (round_half_even (y / 2 powi ky)) * 2 powi ky"
    using assms by (simp_all add: fl_def Let_def kx_def ky_def ex_def ey_def)
  have "(2 :: rat) powi ex < 2 powi (ey + 1)" using x y assms by linarith
  then have le: "ex \<le> ey" using powi2_less_imp by fastforce
  show ?thesis
  proof (cases "kx = ky")
    case True
    have "round_half_even (x / 2 powi ky) \<le> round_half_even (y / 2 powi ky)"
      using assms(2) s by (intro round_half_even_mono divide_right_mono) auto
    then show ?thesis unfolding flx fly True using s by (intro mult_right_mono) auto
  next
    case False
    with le have ky: "ky = ey - 52" and lt: "ex + 1 \<le> ey" "kx \<le> ey" by (auto simp: kx_def ky_def)
    have "x \<le> 2 powi ey" using x(1) power_int_increasing [OF lt(1), of "2 :: rat"] by simp
    then have "x / 2 powi kx \<le> of_int (2 ^ nat (ey - kx))"
      using s powi_multiple [OF lt(2)] by (metis divide_right_mono less_imp_le)
    then have "of_int (round_half_even (x / 2 powi kx)) \<le> (2 :: rat) powi ey / 2 powi kx"
      unfolding powi_multiple [OF lt(2)] using round_half_even_le_int by (simp only: of_int_le_iff)
    then have "fl x \<le> 2 powi ey" unfolding flx using s by (simp add: pos_le_divide_eq)
    moreover have "2 powi ey \<le> fl y"
    proof -
      have p: "(2 :: rat) powi ey / 2 powi ky = of_int (2 ^ nat (ey - ky))" by (rule powi_multiple) (simp add: ky)
      have "of_int (2 ^ nat (ey - ky)) \<le> y / 2 powi ky"
        unfolding p [symmetric] using y(1) s by (intro divide_right_mono) auto
      then have "(2 :: rat) powi ey / 2 powi ky \<le> of_int (round_half_even (y / 2 powi ky))"
        unfolding p using round_half_even_ge_int by (simp only: of_int_le_iff)
      then show ?thesis unfolding fly using s by (simp add: pos_divide_le_eq)
    qed
    ultimately show ?thesis by simp
  qed
qed

lemma fl_numeral: "numeral m \<le> (2 ^ 53 :: int) \<Longrightarrow> fl (numeral m) = numeral m"
  using fl_of_int [of "numeral m"] by simp

lemma py_trunc_int [simp]: "py_trunc (of_int n) = n"
  by (simp add: py_trunc_def)

lemma py_trunc_nonneg: "0 \<le> x \<Longrightarrow> 0 \<le> py_trunc x"
  by (simp add: py_trunc_def)

subsection \<open>Two decimals\<close>

lemma numeric_2_hundredths: "numeric_2 (of_int k / 100) = of_int k / 100"
proof -
  have "\<bar>of_int k / 100\<bar> * 100 + 1 / 2 = (of_int \<bar>k\<bar> :: rat) + 1 / 2" by simp
  then have "\<lfloor>\<bar>of_int k / 100\<bar> * 100 + 1 / 2 :: rat\<rfloor> = \<bar>k\<bar>" by linarith
  then have "numeric_2 (of_int k / 100) = of_int (sgn k * \<bar>k\<bar>) / 100"
    by (simp add: numeric_2_def sgn_if)
  then show ?thesis by (simp add: sgn_mult_abs)
qed

lemma numeric_2_shape: "\<exists>k. numeric_2 x = of_int k / 100"
proof -
  have "numeric_2 x = of_int ((if x = 0 then 0 else if 0 < x then 1 else - 1) * \<lfloor>\<bar>x\<bar> * 100 + 1 / 2\<rfloor>) / 100"
    by (simp add: numeric_2_def sgn_if)
  then show ?thesis ..
qed

lemma numeric_2_idem [simp]: "numeric_2 (numeric_2 x) = numeric_2 x"
  using numeric_2_shape [of x] numeric_2_hundredths by metis

end
