(* ===== verification/Py_Json.thy ===== *)
theory Py_Json
  imports Float64
begin

section \<open>Python values: strings, numbers and JSON dictionaries\<close>

text \<open>
  Quest data, requirements and progress are JSONB columns that the code handles as Python
  dictionaries. The model keeps them as such: \<open>json\<close> is a decoded value, a dictionary an
  association list in insertion order (\<open>d[k] = v\<close> updates in place or appends), a missing
  key and an explicit \<open>null\<close> are different, and every operation that Python would refuse
  (adding to \<open>None\<close>, comparing a number with a string) is an error value.
\<close>

datatype py_error =
    TypeError
  | ValueError string
  | AttributeError
  | KeyError string
  | IndexError
  | RuntimeError string
  | ValidationError
  | ZeroDivisionError
  | OverflowError
  | OutsideModel string

text \<open>
  \<open>OutsideModel\<close> marks the few inputs the model does not follow (such as \<open>float\<close> of a
  string); no theorem says anything about what happens after it.
\<close>

datatype json =
    JNull
  | JBool bool
  | JInt int
  | JFloat rat
  | JStr string
  | JArr "json list"
  | JObj "(string \<times> json) list"

type_synonym dict = "(string \<times> json) list"

subsection \<open>Strings\<close>

definition char_code :: "char \<Rightarrow> nat" where
  "char_code c = of_char c"

definition is_upper_char :: "char \<Rightarrow> bool" where
  "is_upper_char c \<longleftrightarrow> 65 \<le> char_code c \<and> char_code c \<le> 90"

definition is_lower_char :: "char \<Rightarrow> bool" where
  "is_lower_char c \<longleftrightarrow> 97 \<le> char_code c \<and> char_code c \<le> 122"

definition is_digit_char :: "char \<Rightarrow> bool" where
  "is_digit_char c \<longleftrightarrow> 48 \<le> char_code c \<and> char_code c \<le> 57"

definition is_space_char :: "char \<Rightarrow> bool" where
  "is_space_char c \<longleftrightarrow> char_code c = 32 \<or> 9 \<le> char_code c \<and> char_code c \<le> 13
     \<or> 28 \<le> char_code c \<and> char_code c \<le> 31"

definition char_lower :: "char \<Rightarrow> char" where
  "char_lower c = (if is_upper_char c then char_of (char_code c + 32) else c)"

definition py_lower :: "string \<Rightarrow> string" where
  "py_lower s = map char_lower s"

definition py_strip :: "string \<Rightarrow> string" where
  "py_strip s = rev (dropWhile is_space_char (rev (dropWhile is_space_char s)))"

fun digits_of_nat :: "nat \<Rightarrow> string" where
  "digits_of_nat n = (if n < 10 then [char_of (48 + n)]
                      else digits_of_nat (n div 10) @ [char_of (48 + n mod 10)])"

declare digits_of_nat.simps [simp del]

definition str_of_int :: "int \<Rightarrow> string" where
  "str_of_int n = (if n < 0 then ''-'' @ digits_of_nat (nat (- n)) else digits_of_nat (nat n))"

text \<open>
  \<open>int(s)\<close>: surrounding white space, a sign, digits with single underscores between them.
\<close>

fun digits_value :: "nat \<Rightarrow> string \<Rightarrow> nat option" where
  "digits_value acc [] = Some acc"
| "digits_value acc (c # cs) =
     (if is_digit_char c then digits_value (10 * acc + (char_code c - 48)) cs
      else if c = CHR ''_'' \<and> (case cs of [] \<Rightarrow> False | d # _ \<Rightarrow> is_digit_char d)
      then digits_value acc cs else None)"

definition unsigned_value :: "string \<Rightarrow> nat option" where
  "unsigned_value s = (case s of [] \<Rightarrow> None
     | c # _ \<Rightarrow> if is_digit_char c then digits_value 0 s else None)"

definition py_int_of_string :: "string \<Rightarrow> py_error + int" where
  "py_int_of_string s =
     (case (case py_strip s of
              [] \<Rightarrow> None
            | c # cs \<Rightarrow> if c = CHR ''-'' then map_option (\<lambda>n. - int n) (unsigned_value cs)
                       else if c = CHR ''+'' then map_option int (unsigned_value cs)
                       else map_option int (unsigned_value (c # cs))) of
        None \<Rightarrow> Inl (ValueError ''invalid literal for int() with base 10'')
      | Some n \<Rightarrow> Inr n)"

lemma char_code_lower: "char_code (char_lower c) = (if is_upper_char c then char_code c + 32 else char_code c)"
  by (simp add: char_lower_def is_upper_char_def char_code_def)

lemma char_lower_idem [simp]: "char_lower (char_lower c) = char_lower c"
proof (cases "is_upper_char c")
  case True
  then have "char_code (char_of (char_code c + 32) :: char) = char_code c + 32"
    by (simp add: is_upper_char_def char_code_def)
  with True show ?thesis by (simp add: char_lower_def is_upper_char_def)
next
  case False
  then show ?thesis by (simp add: char_lower_def)
qed

lemma py_lower_idem [simp]: "py_lower (py_lower s) = py_lower s"
  by (simp add: py_lower_def)

lemma py_lower_Nil [simp]: "py_lower s = [] \<longleftrightarrow> s = []"
  by (simp add: py_lower_def)

subsection \<open>Dictionaries\<close>

definition dget :: "dict \<Rightarrow> string \<Rightarrow> json" where
  "dget d k = (case map_of d k of Some v \<Rightarrow> v | None \<Rightarrow> JNull)"

definition dget_or :: "dict \<Rightarrow> string \<Rightarrow> json \<Rightarrow> json" where
  "dget_or d k v = (case map_of d k of Some x \<Rightarrow> x | None \<Rightarrow> v)"

definition dhas :: "dict \<Rightarrow> string \<Rightarrow> bool" where
  "dhas d k \<longleftrightarrow> map_of d k \<noteq> None"

definition dset :: "string \<Rightarrow> json \<Rightarrow> dict \<Rightarrow> dict" where
  "dset k v d = AList.update k v d"

definition dpop :: "string \<Rightarrow> dict \<Rightarrow> dict" where
  "dpop k d = AList.delete k d"

text \<open>\<open>d.update(e)\<close>: the entries of \<open>e\<close> in order.\<close>

definition dupdate :: "dict \<Rightarrow> dict \<Rightarrow> dict" where
  "dupdate d e = fold (\<lambda>(k, v). dset k v) e d"

lemma map_of_dset [simp]: "map_of (dset k v d) = (map_of d)(k \<mapsto> v)"
  by (simp add: dset_def update_conv')

lemma map_of_dpop [simp]: "map_of (dpop k d) = (map_of d)(k := None)"
  by (simp add: dpop_def delete_conv')

lemma dget_dset [simp]: "dget (dset k v d) j = (if j = k then v else dget d j)"
  by (simp add: dget_def)

lemma dget_or_dset [simp]: "dget_or (dset k v d) j x = (if j = k then v else dget_or d j x)"
  by (simp add: dget_or_def)

lemma dhas_dset [simp]: "dhas (dset k v d) j = (j = k \<or> dhas d j)"
  by (auto simp: dhas_def)

lemma dget_dpop [simp]: "dget (dpop k d) j = (if j = k then JNull else dget d j)"
  by (simp add: dget_def)

lemma dget_or_dpop [simp]: "dget_or (dpop k d) j x = (if j = k then x else dget_or d j x)"
  by (simp add: dget_or_def)

lemma dhas_dpop [simp]: "dhas (dpop k d) j = (j \<noteq> k \<and> dhas d j)"
  by (auto simp: dhas_def)

lemma dget_or_dhas: "dhas d k \<Longrightarrow> dget_or d k v = dget d k"
  by (auto simp: dhas_def dget_def dget_or_def)

lemma dget_dhas: "dget d k \<noteq> JNull \<Longrightarrow> dhas d k"
  by (auto simp: dhas_def dget_def split: option.splits)

lemma dget_or_dget: "dget d k \<noteq> JNull \<Longrightarrow> dget_or d k v = dget d k"
  by (auto simp: dget_def dget_or_def split: option.splits)

lemma dupdate_Nil [simp]: "dupdate d [] = d"
  by (simp add: dupdate_def)

lemma map_of_dupdate: "distinct (map fst e) \<Longrightarrow> map_of (dupdate d e) = map_of d ++ map_of e"
proof (induction e arbitrary: d)
  case Nil
  then show ?case by simp
next
  case (Cons p e)
  obtain k v where p: "p = (k, v)" by fastforce
  have "map_of (dupdate d (p # e)) = map_of (dupdate (dset k v d) e)"
    by (simp add: p dupdate_def)
  also have "\<dots> = (map_of d)(k \<mapsto> v) ++ map_of e" using Cons by simp
  also have "\<dots> = map_of d ++ map_of (p # e)"
    using Cons.prems by (simp add: p map_add_upd_left dom_map_of_conv_image_fst)
  finally show ?case .
qed

subsection \<open>Truth, numbers and comparison\<close>

text \<open>Python's truth value of a decoded JSON value.\<close>

fun truthy :: "json \<Rightarrow> bool" where
  "truthy JNull = False"
| "truthy (JBool b) = b"
| "truthy (JInt n) = (n \<noteq> 0)"
| "truthy (JFloat r) = (r \<noteq> 0)"
| "truthy (JStr s) = (s \<noteq> [])"
| "truthy (JArr xs) = (xs \<noteq> [])"
| "truthy (JObj d) = (d \<noteq> [])"

text \<open>\<open>isinstance(v, (int, float))\<close>, which is true of booleans too, and the value.\<close>

fun num_of :: "json \<Rightarrow> rat option" where
  "num_of (JBool b) = Some (if b then 1 else 0)"
| "num_of (JInt n) = Some (of_int n)"
| "num_of (JFloat r) = Some r"
| "num_of _ = None"

text \<open>\<open>float(v)\<close>.\<close>

fun py_float :: "json \<Rightarrow> py_error + rat" where
  "py_float (JBool b) = Inr (if b then 1 else 0)"
| "py_float (JInt n) = Inr (fl (of_int n))"
| "py_float (JFloat r) = Inr r"
| "py_float (JStr s) = Inl (OutsideModel ''float of a string'')"
| "py_float _ = Inl TypeError"

text \<open>\<open>==\<close>: numbers by value, also across \<open>int\<close>, \<open>float\<close> and \<open>bool\<close>.\<close>

definition scalar_eq :: "json \<Rightarrow> json \<Rightarrow> bool" where
  "scalar_eq a b = (case (num_of a, num_of b) of
      (Some x, Some y) \<Rightarrow> x = y | _ \<Rightarrow> a = b)"

text \<open>\<open>==\<close> of any two values: lists element by element, dictionaries key by key.\<close>

fun py_eq :: "json \<Rightarrow> json \<Rightarrow> bool"
  and arr_eq :: "json list \<Rightarrow> json list \<Rightarrow> bool"
  and obj_le :: "(string \<times> json) list \<Rightarrow> (string \<times> json) list \<Rightarrow> bool" where
  "py_eq (JArr xs) (JArr ys) = arr_eq xs ys"
| "py_eq (JObj d) (JObj e) = (length d = length e \<and> obj_le d e)"
| "py_eq a b = scalar_eq a b"
| "arr_eq [] [] = True"
| "arr_eq (x # xs) (y # ys) = (py_eq x y \<and> arr_eq xs ys)"
| "arr_eq xs ys = False"
| "obj_le [] e = True"
| "obj_le ((k, v) # d) e = ((case map_of e k of None \<Rightarrow> False | Some u \<Rightarrow> py_eq v u) \<and> obj_le d e)"

text \<open>\<open>a >= b\<close>.\<close>

definition py_ge :: "json \<Rightarrow> json \<Rightarrow> py_error + bool" where
  "py_ge a b = (case (num_of a, num_of b) of
      (Some x, Some y) \<Rightarrow> Inr (y \<le> x)
    | _ \<Rightarrow> (case (a, b) of
          (JStr s, JStr t) \<Rightarrow> Inr (t \<le> s)
        | (JArr _, JArr _) \<Rightarrow> Inl (OutsideModel ''order of lists'')
        | _ \<Rightarrow> Inl TypeError))"

text \<open>\<open>v + 1\<close> and \<open>max(0, v - 1)\<close>.\<close>

fun py_inc :: "json \<Rightarrow> py_error + json" where
  "py_inc (JBool b) = Inr (JInt (if b then 2 else 1))"
| "py_inc (JInt n) = Inr (JInt (n + 1))"
| "py_inc (JFloat r) = Inr (JFloat (fl (r + 1)))"
| "py_inc _ = Inl TypeError"

fun py_dec0 :: "json \<Rightarrow> py_error + json" where
  "py_dec0 (JBool b) = Inr (JInt 0)"
| "py_dec0 (JInt n) = Inr (JInt (max 0 (n - 1)))"
| "py_dec0 (JFloat r) = Inr (if fl (r - 1) \<le> 0 then JInt 0 else JFloat (fl (r - 1)))"
| "py_dec0 _ = Inl TypeError"

text \<open>\<open>str(v)\<close> and the \<open>.lower()\<close> that follows it; \<open>(v or "").lower()\<close>.\<close>

fun py_str :: "json \<Rightarrow> py_error + string" where
  "py_str (JStr s) = Inr s"
| "py_str JNull = Inr ''None''"
| "py_str (JBool b) = Inr (if b then ''True'' else ''False'')"
| "py_str (JInt n) = Inr (str_of_int n)"
| "py_str _ = Inl (OutsideModel ''str of a float or a container'')"

definition lower_or_empty :: "json \<Rightarrow> py_error + string" where
  "lower_or_empty v = (if \<not> truthy v then Inr []
     else case v of JStr s \<Rightarrow> Inr (py_lower s) | _ \<Rightarrow> Inl AttributeError)"

text \<open>\<open>x or {}\<close> where a dictionary is expected, and a method call on what is not one.\<close>

definition dict_or_empty :: "json \<Rightarrow> py_error + dict" where
  "dict_or_empty v = (if \<not> truthy v then Inr []
     else case v of JObj d \<Rightarrow> Inr d | _ \<Rightarrow> Inl AttributeError)"

text \<open>A list where one is expected: \<open>x.append\<close> and iterating over \<open>x\<close> to call \<open>m.get\<close> on its elements.\<close>

definition append_json :: "json \<Rightarrow> json \<Rightarrow> py_error + json" where
  "append_json v x = (if \<not> truthy v then Inr (JArr [x])
     else case v of JArr xs \<Rightarrow> Inr (JArr (xs @ [x])) | _ \<Rightarrow> Inl AttributeError)"

definition objs_or_empty :: "json \<Rightarrow> py_error + dict list" where
  "objs_or_empty v = (if \<not> truthy v then Inr []
     else case v of
         JArr xs \<Rightarrow> if list_all (\<lambda>x. case x of JObj _ \<Rightarrow> True | _ \<Rightarrow> False) xs
           then Inr (map (\<lambda>x. case x of JObj d \<Rightarrow> d | _ \<Rightarrow> []) xs) else Inl AttributeError
       | JObj _ \<Rightarrow> Inl AttributeError
       | JStr _ \<Rightarrow> Inl AttributeError
       | _ \<Rightarrow> Inl TypeError)"

text \<open>
  \<open>set(v)\<close> of a list of map ids: a set of hashable values, kept as a list without
  duplicates. Python leaves the order of \<open>list(some_set)\<close> open; the model keeps the order of
  insertion, and nothing the program does depends on it.
\<close>

definition hashable :: "json \<Rightarrow> bool" where
  "hashable v = (case v of JArr _ \<Rightarrow> False | JObj _ \<Rightarrow> False | _ \<Rightarrow> True)"

fun dedup :: "json list \<Rightarrow> json list \<Rightarrow> json list" where
  "dedup acc [] = acc"
| "dedup acc (x # xs) = dedup (if list_ex (scalar_eq x) acc then acc else acc @ [x]) xs"

fun py_set :: "json \<Rightarrow> py_error + json list" where
  "py_set (JArr xs) = (if list_all hashable xs then Inr (dedup [] xs) else Inl TypeError)"
| "py_set (JStr _) = Inl (OutsideModel ''set of a string'')"
| "py_set (JObj _) = Inl (OutsideModel ''set of a dictionary'')"
| "py_set _ = Inl TypeError"

definition set_has :: "json \<Rightarrow> json list \<Rightarrow> bool" where
  "set_has x xs = list_ex (scalar_eq x) xs"

definition set_remove :: "json \<Rightarrow> json list \<Rightarrow> json list" where
  "set_remove x xs = filter (\<lambda>y. \<not> scalar_eq x y) xs"

text \<open>Errors of pure code: a sum as a monad.\<close>

definition bind_py :: "'e + 'a \<Rightarrow> ('a \<Rightarrow> 'e + 'b) \<Rightarrow> 'e + 'b" where
  "bind_py r f = (case r of Inl e \<Rightarrow> Inl e | Inr x \<Rightarrow> f x)"

lemma bind_py_simps [simp]: "bind_py (Inl e) f = Inl e" "bind_py (Inr x) f = f x"
  by (simp_all add: bind_py_def)

lemma bind_py_Inr: "bind_py r f = Inr y \<longleftrightarrow> (\<exists>x. r = Inr x \<and> f x = Inr y)"
  by (cases r) auto

lemma py_eq_JStr [simp]: "py_eq (JStr a) (JStr b) = (a = b)"
  by (simp add: scalar_eq_def)

lemma py_eq_JInt [simp]: "py_eq (JInt a) (JInt b) = (a = b)"
  by (simp add: scalar_eq_def)

lemma scalar_eq_JInt [simp]: "scalar_eq (JInt m) (JInt n) = (m = n)"
  by (simp add: scalar_eq_def)

lemma set_has_ints [simp]: "set_has (JInt n) (map JInt ns) = (n \<in> set ns)"
  by (auto simp: set_has_def list_ex_iff)

lemma set_remove_ints [simp]: "set_remove (JInt n) (map JInt ns) = map JInt (removeAll n ns)"
  by (induction ns) (auto simp: set_remove_def)

lemma dedup_ints: "distinct (ms @ ns) \<Longrightarrow> dedup (map JInt ms) (map JInt ns) = map JInt (ms @ ns)"
proof (induction ns arbitrary: ms)
  case Nil
  then show ?case by simp
next
  case (Cons n ns)
  have "\<not> list_ex (scalar_eq (JInt n)) (map JInt ms)"
    using Cons.prems by (auto simp: list_ex_iff)
  then have "dedup (map JInt ms) (map JInt (n # ns)) = dedup (map JInt (ms @ [n])) (map JInt ns)"
    by simp
  with Cons show ?case by (metis append.assoc append_Cons append_Nil)
qed

lemma py_set_ints [simp]: "distinct ns \<Longrightarrow> py_set (JArr (map JInt ns)) = Inr (map JInt ns)"
  using dedup_ints [of "[]" ns] by (simp add: py_set.simps list_all_iff hashable_def)

declare py_set.simps [simp del]

lemma py_set_Nil [simp]: "py_set (JArr []) = Inr []"
  by (simp add: py_set.simps)

lemma num_of_simps_scalar [simp]: "py_ge (JInt m) (JInt n) = Inr (n \<le> m)"
  by (simp add: py_ge_def)

subsection \<open>SQL's view of a JSON field\<close>

text \<open>\<open>(d->>'k')::int\<close>: \<open>NULL\<close> for a missing or null field, an error for what is not an integer.\<close>

datatype pg_error =
    ForeignKeyViolation string
  | UniqueViolation string
  | CheckViolation string
  | NotNullViolation string
  | NumericOutOfRange
  | InvalidText
  | RaisedException string
  | UndefinedColumn string
  | InFailedSqlTransaction

fun json_int4 :: "json \<Rightarrow> pg_error + int option" where
  "json_int4 JNull = Inr None"
| "json_int4 (JInt n) = (if int4_ok n then Inr (Some n) else Inl NumericOutOfRange)"
| "json_int4 (JStr s) = (case py_int_of_string s of
      Inl _ \<Rightarrow> Inl InvalidText
    | Inr n \<Rightarrow> if int4_ok n then Inr (Some n) else Inl NumericOutOfRange)"
| "json_int4 _ = Inl InvalidText"

end
