(* ===== verification/Economy_Db.thy ===== *)
theory Economy_Db
  imports Py_Json
begin

section \<open>The database of the economy, errors and the environment\<close>

text \<open>
  The tables the lootbox and store repositories query, one record per row type, with the
  columns of the migrations under \<open>apps/api/migrations\<close> (audit columns that no query reads
  are left out). Column names carry a prefix per table. Timestamps are microseconds since the
  epoch, UUIDs and snowflakes integers, \<open>numeric\<close> columns exact rationals.
\<close>

subsection \<open>Rows\<close>

record user_row =
  usr_id :: int
  usr_nickname :: "string option"
  usr_global_name :: "string option"
  usr_coins :: int

record map_row =
  mp_id :: int
  mp_code :: "string option"
  mp_name :: string
  mp_category :: string
  mp_difficulty :: string
  mp_official :: bool
  mp_archived :: bool
  mp_original_code :: "string option"

record completion_row =
  cp_map_id :: int
  cp_user_id :: int
  cp_time :: rat
  cp_verified :: bool
  cp_legacy :: bool
  cp_inserted_at :: int

record medals_row =
  md_map_id :: int
  md_gold :: "rat option"
  md_silver :: "rat option"
  md_bronze :: "rat option"

record mastery_row =
  my_user_id :: int
  my_map_name :: string
  my_medal :: string

record reward_type_row =
  rt_name :: string
  rt_type :: string
  rt_rarity :: "string option"
  rt_key_type :: string

record user_key_row =
  uk_user_id :: int
  uk_key_type :: string
  uk_earned_at :: int

record user_reward_row =
  uw_user_id :: int
  uw_reward_name :: string
  uw_earned_at :: int
  uw_reward_type :: string
  uw_key_type :: string

record xp_row =
  xp_user_id :: int
  xp_amount :: int

record tier_row =
  tr_threshold :: int
  tr_name :: string

record store_config_row =
  sc_rotation_period_days :: int
  sc_last_rotation_at :: int
  sc_next_rotation_at :: int
  sc_active_key_type :: string

record rotation_row =
  ro_rotation_id :: int
  ro_item_name :: string
  ro_item_type :: string
  ro_key_type :: string
  ro_rarity :: string
  ro_price :: int
  ro_available_from :: int
  ro_available_until :: int

record purchase_row =
  pu_id :: int
  pu_user_id :: int
  pu_purchase_type :: string
  pu_item_name :: "string option"
  pu_item_type :: "string option"
  pu_key_type :: string
  pu_quantity :: int
  pu_price_paid :: int
  pu_rotation_id :: "int option"
  pu_purchased_at :: int

record quest_row =
  qs_id :: int
  qs_name :: string
  qs_description :: string
  qs_quest_type :: string
  qs_difficulty :: string
  qs_coin_reward :: int
  qs_xp_reward :: int
  qs_requirements :: dict
  qs_is_active :: bool
  qs_created_at :: int

record quest_rotation_row =
  qr_id :: int
  qr_rotation_id :: int
  qr_quest_id :: "int option"
  qr_user_id :: "int option"
  qr_quest_data :: dict
  qr_available_from :: int
  qr_available_until :: int

record progress_row =
  pg_id :: int
  pg_user_id :: int
  pg_rotation_id :: int
  pg_quest_id :: "int option"
  pg_quest_data :: dict
  pg_progress :: dict
  pg_completed_at :: "int option"
  pg_claimed_at :: "int option"
  pg_coins_rewarded :: "int option"
  pg_xp_rewarded :: "int option"

record quest_config_row =
  qc_rotation_day :: int
  qc_rotation_hour :: int
  qc_current_rotation_id :: "int option"
  qc_last_rotation_at :: int
  qc_next_rotation_at :: int
  qc_easy_quest_count :: int
  qc_medium_quest_count :: int
  qc_hard_quest_count :: int

record job_row =
  jb_id :: int
  jb_action :: string

record notification_row =
  ne_user_id :: int
  ne_event_type :: string
  ne_title :: string
  ne_body :: string
  ne_metadata :: dict

subsection \<open>The database\<close>

record econ =
  users :: "user_row list"
  maps_tbl :: "map_row list"
  completions :: "completion_row list"
  medals :: "medals_row list"
  mastery :: "mastery_row list"
  key_types :: "string list"
  active_key :: "string list"
  reward_types :: "reward_type_row list"
  user_keys :: "user_key_row list"
  user_rewards :: "user_reward_row list"
  xp_multiplier :: "rat list"
  xp_tbl :: "xp_row list"
  main_tiers :: "tier_row list"
  sub_tiers :: "tier_row list"
  store_config :: "store_config_row option"
  rotations :: "rotation_row list"
  purchases :: "purchase_row list"
  quests :: "quest_row list"
  quest_rotation :: "quest_rotation_row list"
  quest_progress :: "progress_row list"
  quest_config :: "quest_config_row option"
  jobs :: "job_row list"
  notification_events :: "notification_row list"
  next_purchase_id :: int
  next_quest_rotation_id :: int
  next_progress_id :: int

text \<open>
  The tier tables are filled by the first migration and never written again.
\<close>

definition seeded_main_tiers :: "tier_row list" where
  "seeded_main_tiers = map (\<lambda>(t, n). \<lparr>tr_threshold = t, tr_name = n\<rparr>)
    [(0, ''Newcomer''), (1, ''Initiate''), (2, ''Apprentice''), (3, ''Disciple''),
     (4, ''Enthusiast''), (5, ''Explorer''), (6, ''Visionary''), (7, ''Aficionado''),
     (8, ''Virtuoso''), (9, ''Savant''), (10, ''Prodigy''), (11, ''Shadow''),
     (12, ''Shinobi''), (13, ''Assassin''), (14, ''Ronin''), (15, ''Shogun''),
     (16, ''Dragon''), (17, ''Cyber Ninja''), (18, ''Legend''), (19, ''Mythic'')]"

definition seeded_sub_tiers :: "tier_row list" where
  "seeded_sub_tiers = map (\<lambda>(t, n). \<lparr>tr_threshold = t, tr_name = n\<rparr>)
    [(0, ''I''), (1, ''II''), (2, ''III''), (3, ''IV''), (4, ''V'')]"

subsection \<open>Errors\<close>

datatype lootbox_error = InsufficientKeysError string

datatype store_error =
    InvalidQuantityError int
  | InsufficientCoinsError int int
  | ItemNotInRotationError string
  | RotationExpiredError
  | AlreadyOwnedError string
  | QuestNotFoundError int
  | QuestNotCompletedError int
  | QuestAlreadyClaimedError int
  | InvalidKeyTypeError string
  | InvalidQuestPatchError
  | InvalidRotationItemCountError int

text \<open>What a repository raises for a violated constraint: its name and the table.\<close>

datatype repository_error =
    UniqueConstraintViolationError string string
  | ForeignKeyViolationError string string
  | CheckConstraintViolationError string string

datatype tournament_error =
    TournamentCompletionNotFoundError int
  | AlreadyVerifiedError int
  | NoAwaitingResultsEditionError
  | CycleAlreadyLiveError int int
  | NoEligibleMapsError int

datatype skill_error =
    InvalidGammaError rat
  | SkillConfigNotSeededError string
  | InvalidPercentilesError string

datatype users_error = UserNotFoundError int

datatype notifications_error = NotificationEventNotFoundError int

datatype playtest_error =
    PlaytestNotFoundError int
  | VoteNotFoundError int int
  | VoteConstraintError
  | InvalidPatchError
  | PlaytestStateError string

datatype completions_error =
    MapNotFoundError string
  | DuplicateCompletionError int string
  | SlowerThanPendingError rat rat
  | CompletionNotFoundError int
  | DuplicateVerificationError int
  | DuplicateFlagError int
  | DuplicateUpvoteError int int
  | DuplicateQualityVoteError int int

datatype err =
    Lootbox lootbox_error
  | User users_error
  | Notify notifications_error
  | Playtests playtest_error
  | Runs completions_error
  | Tourney tournament_error
  | Skill skill_error
  | Store store_error
  | Repo repository_error
  | Pg pg_error
  | Py py_error
  | Amqp

definition lift_py :: "py_error + 'a \<Rightarrow> err + 'a" where
  "lift_py r = (case r of Inl e \<Rightarrow> Inl (Py e) | Inr x \<Rightarrow> Inr x)"

definition lift_pg :: "pg_error + 'a \<Rightarrow> err + 'a" where
  "lift_pg r = (case r of Inl e \<Rightarrow> Inl (Pg e) | Inr x \<Rightarrow> Inr x)"

lemma lift_py_simps [simp]: "lift_py (Inl e) = Inl (Py e)" "lift_py (Inr x) = Inr x"
  by (simp_all add: lift_py_def)

lemma lift_pg_simps [simp]: "lift_pg (Inl e) = Inl (Pg e)" "lift_pg (Inr x) = Inr x"
  by (simp_all add: lift_pg_def)

subsection \<open>The environment\<close>

text \<open>
  What a call takes from outside the program: the time of its transactions (\<open>now()\<close>), the
  clock Python reads (\<open>datetime.now\<close>), the identifiers \<open>gen_random_uuid()\<close> and \<open>uuid4()\<close>
  return (one job id per published message), the random keys of \<open>ORDER BY random()\<close>, and how
  the message broker answers: it may give no channel, or fail to take a message.
\<close>

datatype broker = BrokerUp | NoChannel | PublishFails

record env =
  env_now :: int
  env_clock :: int
  env_uuid :: int
  env_job_ids :: "nat \<Rightarrow> int"
  env_keys :: "nat \<Rightarrow> nat"
  env_broker :: broker

definition second_us :: int where
  "second_us = 1000000"

definition day_us :: int where
  "day_us = 86400 * second_us"

text \<open>Lookups by key that several repositories share.\<close>

definition user_exists :: "int \<Rightarrow> econ \<Rightarrow> bool" where
  "user_exists u db \<longleftrightarrow> has_row (\<lambda>r. usr_id r = u) (users db)"

definition coins_of :: "int \<Rightarrow> econ \<Rightarrow> int option" where
  "coins_of u db = map_option usr_coins (first_where (\<lambda>r. usr_id r = u) (users db))"

definition xp_of :: "int \<Rightarrow> econ \<Rightarrow> int option" where
  "xp_of u db = map_option xp_amount (first_where (\<lambda>r. xp_user_id r = u) (xp_tbl db))"

lemma coins_of_None: "coins_of u db = None \<longleftrightarrow> \<not> user_exists u db"
  by (auto simp: coins_of_def user_exists_def first_where_None has_row_iff)


subsection \<open>Well-formed databases\<close>

text \<open>
  The constraints of the schema: primary keys, unique indexes, foreign keys, check constraints
  and the range of the \<open>int\<close> columns. Every operation of the model has to keep them.
\<close>

definition users_ok :: "econ \<Rightarrow> bool" where
  "users_ok db \<longleftrightarrow> distinct (map usr_id (users db)) \<and> (\<forall>r \<in> set (users db). int4_ok (usr_coins r))"

definition reward_key :: "reward_type_row \<Rightarrow> string \<times> string \<times> string" where
  "reward_key r = (rt_name r, rt_type r, rt_key_type r)"

definition catalog_ok :: "econ \<Rightarrow> bool" where
  "catalog_ok db \<longleftrightarrow> distinct (key_types db) \<and> distinct (map reward_key (reward_types db))
     \<and> (\<forall>r \<in> set (reward_types db). rt_key_type r \<in> set (key_types db))
     \<and> set (active_key db) \<subseteq> set (key_types db)"

definition user_keys_ok :: "econ \<Rightarrow> bool" where
  "user_keys_ok db \<longleftrightarrow> (\<forall>k \<in> set (user_keys db).
     user_exists (uk_user_id k) db \<and> uk_key_type k \<in> set (key_types db))"

definition reward_exists :: "string \<Rightarrow> string \<Rightarrow> string \<Rightarrow> econ \<Rightarrow> bool" where
  "reward_exists name ty key_type db \<longleftrightarrow>
     has_row (\<lambda>rt. rt_name rt = name \<and> rt_type rt = ty \<and> rt_key_type rt = key_type) (reward_types db)"

definition user_rewards_ok :: "econ \<Rightarrow> bool" where
  "user_rewards_ok db \<longleftrightarrow> (\<forall>w \<in> set (user_rewards db). user_exists (uw_user_id w) db
     \<and> reward_exists (uw_reward_name w) (uw_reward_type w) (uw_key_type w) db)"

definition xp_ok :: "econ \<Rightarrow> bool" where
  "xp_ok db \<longleftrightarrow> distinct (map xp_user_id (xp_tbl db))
     \<and> (\<forall>r \<in> set (xp_tbl db). user_exists (xp_user_id r) db \<and> int4_ok (xp_amount r))
     \<and> (\<forall>v \<in> set (xp_multiplier db). \<bar>v\<bar> < 100 \<and> numeric_2 v = v)"

definition purchase_fields_ok :: "purchase_row \<Rightarrow> bool" where
  "purchase_fields_ok p \<longleftrightarrow>
     pu_purchase_type p = ''item'' \<and> pu_item_name p \<noteq> None \<and> pu_item_type p \<noteq> None
     \<or> pu_purchase_type p = ''key'' \<and> pu_item_name p = None \<and> pu_item_type p = None"

definition purchases_ok :: "econ \<Rightarrow> bool" where
  "purchases_ok db \<longleftrightarrow> distinct (map pu_id (purchases db))
     \<and> (\<forall>p \<in> set (purchases db). pu_id p < next_purchase_id db \<and> purchase_fields_ok p
          \<and> user_exists (pu_user_id p) db \<and> pu_key_type p \<in> set (key_types db))"

definition store_config_ok :: "econ \<Rightarrow> bool" where
  "store_config_ok db \<longleftrightarrow> (\<forall>c. store_config db = Some c \<longrightarrow>
     0 < sc_rotation_period_days c \<and> sc_active_key_type c \<in> set (key_types db))"

definition rotation_key :: "rotation_row \<Rightarrow> int \<times> string \<times> string \<times> string" where
  "rotation_key r = (ro_rotation_id r, ro_item_name r, ro_item_type r, ro_key_type r)"

definition rotations_ok :: "econ \<Rightarrow> bool" where
  "rotations_ok db \<longleftrightarrow> distinct (map rotation_key (rotations db))
     \<and> (\<forall>r \<in> set (rotations db). int4_ok (ro_price r)
          \<and> reward_exists (ro_item_name r) (ro_item_type r) (ro_key_type r) db)"

definition quest_exists :: "int \<Rightarrow> econ \<Rightarrow> bool" where
  "quest_exists q db \<longleftrightarrow> has_row (\<lambda>r. qs_id r = q) (quests db)"

definition global_rotation_keys :: "econ \<Rightarrow> (int \<times> int option) list" where
  "global_rotation_keys db = map (\<lambda>r. (qr_rotation_id r, qr_quest_id r))
     (filter (\<lambda>r. qr_user_id r = None) (quest_rotation db))"

definition bounty_rotation_keys :: "econ \<Rightarrow> (int \<times> int option) list" where
  "bounty_rotation_keys db = map (\<lambda>r. (qr_rotation_id r, qr_user_id r))
     (filter (\<lambda>r. qr_quest_id r = None) (quest_rotation db))"

definition quest_rotation_ok :: "econ \<Rightarrow> bool" where
  "quest_rotation_ok db \<longleftrightarrow> distinct (map qr_id (quest_rotation db))
     \<and> distinct (global_rotation_keys db) \<and> distinct (bounty_rotation_keys db)
     \<and> (\<forall>r \<in> set (quest_rotation db). qr_id r < next_quest_rotation_id db
          \<and> ((qr_quest_id r = None) \<noteq> (qr_user_id r = None))
          \<and> (\<forall>q. qr_quest_id r = Some q \<longrightarrow> quest_exists q db)
          \<and> (\<forall>u. qr_user_id r = Some u \<longrightarrow> user_exists u db))"

definition global_progress_keys :: "econ \<Rightarrow> (int \<times> int \<times> int option) list" where
  "global_progress_keys db = map (\<lambda>r. (pg_user_id r, pg_rotation_id r, pg_quest_id r))
     (filter (\<lambda>r. pg_quest_id r \<noteq> None) (quest_progress db))"

definition bounty_progress_keys :: "econ \<Rightarrow> (int \<times> int) list" where
  "bounty_progress_keys db = map (\<lambda>r. (pg_user_id r, pg_rotation_id r))
     (filter (\<lambda>r. pg_quest_id r = None) (quest_progress db))"

definition quest_progress_ok :: "econ \<Rightarrow> bool" where
  "quest_progress_ok db \<longleftrightarrow> distinct (map pg_id (quest_progress db))
     \<and> distinct (global_progress_keys db) \<and> distinct (bounty_progress_keys db)
     \<and> (\<forall>r \<in> set (quest_progress db). pg_id r < next_progress_id db
          \<and> user_exists (pg_user_id r) db
          \<and> (\<forall>q. pg_quest_id r = Some q \<longrightarrow> quest_exists q db))"

definition quest_config_ok :: "econ \<Rightarrow> bool" where
  "quest_config_ok db \<longleftrightarrow> distinct (map qs_id (quests db)) \<and> (\<forall>c. quest_config db = Some c \<longrightarrow>
     1 \<le> qc_rotation_day c \<and> qc_rotation_day c \<le> 7 \<and> 0 \<le> qc_rotation_hour c \<and> qc_rotation_hour c \<le> 23)"

definition db_ok :: "econ \<Rightarrow> bool" where
  "db_ok db \<longleftrightarrow> users_ok db \<and> catalog_ok db \<and> user_keys_ok db \<and> user_rewards_ok db \<and> xp_ok db
     \<and> purchases_ok db \<and> store_config_ok db \<and> rotations_ok db \<and> quest_rotation_ok db
     \<and> quest_progress_ok db \<and> quest_config_ok db"

lemmas db_ok_parts = users_ok_def catalog_ok_def user_keys_ok_def user_rewards_ok_def xp_ok_def
  purchases_ok_def store_config_ok_def rotations_ok_def quest_rotation_ok_def quest_progress_ok_def
  quest_config_ok_def

lemmas db_lookup_defs = user_exists_def reward_exists_def quest_exists_def global_rotation_keys_def
  bounty_rotation_keys_def global_progress_keys_def bounty_progress_keys_def coins_of_def xp_of_def

text \<open>
  A statement that writes one table has to re-establish that table's constraints only; one that
  writes the users must keep every user that is referred to.
\<close>

lemma user_exists_iff: "user_exists u db \<longleftrightarrow> u \<in> usr_id ` set (users db)"
  by (auto simp: user_exists_def has_row_iff)

lemma db_ok_users:
  assumes "db_ok db" "users_ok (db\<lparr>users := us\<rparr>)" "usr_id ` set (users db) \<subseteq> usr_id ` set us"
  shows "db_ok (db\<lparr>users := us\<rparr>)"
proof -
  have [simp]: "user_exists u (db\<lparr>users := us\<rparr>)" if "user_exists u db" for u
    using that assms(3) by (auto simp: user_exists_iff)
  have "xp_ok (db\<lparr>users := us\<rparr>)" "user_keys_ok (db\<lparr>users := us\<rparr>)" "user_rewards_ok (db\<lparr>users := us\<rparr>)"
    using assms(1) by (simp_all add: db_ok_def xp_ok_def user_keys_ok_def user_rewards_ok_def reward_exists_def)
  moreover have "purchases_ok (db\<lparr>users := us\<rparr>)" "quest_progress_ok (db\<lparr>users := us\<rparr>)"
      "quest_rotation_ok (db\<lparr>users := us\<rparr>)"
    using assms(1) by (simp_all add: db_ok_def purchases_ok_def quest_progress_ok_def
        quest_rotation_ok_def quest_exists_def global_rotation_keys_def bounty_rotation_keys_def
        global_progress_keys_def bounty_progress_keys_def)
  ultimately show ?thesis
    using assms(1,2) by (simp add: db_ok_def catalog_ok_def store_config_ok_def rotations_ok_def
        reward_exists_def quest_config_ok_def)
qed

named_theorems db_ok_frame

lemma db_ok_user_keys [db_ok_frame]:
  "db_ok db \<Longrightarrow> user_keys_ok (db\<lparr>user_keys := ks\<rparr>) \<Longrightarrow> db_ok (db\<lparr>user_keys := ks\<rparr>)"
  by (simp add: db_ok_def db_ok_parts db_lookup_defs)

lemma db_ok_user_rewards [db_ok_frame]:
  "db_ok db \<Longrightarrow> user_rewards_ok (db\<lparr>user_rewards := ws\<rparr>) \<Longrightarrow> db_ok (db\<lparr>user_rewards := ws\<rparr>)"
  by (simp add: db_ok_def db_ok_parts db_lookup_defs)

lemma db_ok_active_key [db_ok_frame]:
  "db_ok db \<Longrightarrow> set ks \<subseteq> set (key_types db) \<Longrightarrow> db_ok (db\<lparr>active_key := ks\<rparr>)"
  by (simp add: db_ok_def db_ok_parts db_lookup_defs)

lemma db_ok_xp [db_ok_frame]:
  "db_ok db \<Longrightarrow> xp_ok (db\<lparr>xp_tbl := xs\<rparr>) \<Longrightarrow> db_ok (db\<lparr>xp_tbl := xs\<rparr>)"
  by (simp add: db_ok_def db_ok_parts db_lookup_defs)

lemma db_ok_multiplier [db_ok_frame]:
  "db_ok db \<Longrightarrow> (\<And>v. v \<in> set vs \<Longrightarrow> \<bar>v\<bar> < 100 \<and> numeric_2 v = v) \<Longrightarrow> db_ok (db\<lparr>xp_multiplier := vs\<rparr>)"
  by (simp add: db_ok_def db_ok_parts db_lookup_defs)

lemma db_ok_purchases [db_ok_frame]:
  "db_ok db \<Longrightarrow> purchases_ok (db\<lparr>purchases := ps, next_purchase_id := n\<rparr>) \<Longrightarrow>
     db_ok (db\<lparr>purchases := ps, next_purchase_id := n\<rparr>)"
  by (simp add: db_ok_def db_ok_parts db_lookup_defs)

lemma db_ok_store_config [db_ok_frame]:
  "db_ok db \<Longrightarrow> store_config_ok (db\<lparr>store_config := c\<rparr>) \<Longrightarrow> db_ok (db\<lparr>store_config := c\<rparr>)"
  by (simp add: db_ok_def db_ok_parts db_lookup_defs)

lemma db_ok_rotations [db_ok_frame]:
  "db_ok db \<Longrightarrow> rotations_ok (db\<lparr>rotations := rs\<rparr>) \<Longrightarrow> db_ok (db\<lparr>rotations := rs\<rparr>)"
  by (simp add: db_ok_def db_ok_parts db_lookup_defs)

lemma db_ok_quest_rotation [db_ok_frame]:
  "db_ok db \<Longrightarrow> quest_rotation_ok (db\<lparr>quest_rotation := rs, next_quest_rotation_id := n\<rparr>) \<Longrightarrow>
     db_ok (db\<lparr>quest_rotation := rs, next_quest_rotation_id := n\<rparr>)"
  by (simp add: db_ok_def db_ok_parts db_lookup_defs)

lemma db_ok_quest_progress [db_ok_frame]:
  "db_ok db \<Longrightarrow> quest_progress_ok (db\<lparr>quest_progress := rs, next_progress_id := n\<rparr>) \<Longrightarrow>
     db_ok (db\<lparr>quest_progress := rs, next_progress_id := n\<rparr>)"
  by (simp add: db_ok_def db_ok_parts db_lookup_defs)

lemma db_ok_quest_config [db_ok_frame]:
  "db_ok db \<Longrightarrow> quest_config_ok (db\<lparr>quest_config := c\<rparr>) \<Longrightarrow> db_ok (db\<lparr>quest_config := c\<rparr>)"
  by (simp add: db_ok_def db_ok_parts db_lookup_defs)

lemma db_ok_unchecked [db_ok_frame]:
  "db_ok db \<Longrightarrow> db_ok (db\<lparr>jobs := js\<rparr>)"
  "db_ok db \<Longrightarrow> db_ok (db\<lparr>notification_events := ns\<rparr>)"
  by (simp_all add: db_ok_def db_ok_parts db_lookup_defs)

end
