(* ===== verification/Sdk_Tournament.thy ===== *)
theory Sdk_Tournament
  imports Prelude
begin

section \<open>SDK structs of the tournaments\<close>

text \<open>
  The structs of \<open>libs/sdk/src/genjishimada_sdk/tournaments.py\<close> that the reward service and the
  outbox exchange: XP tiers, leaderboard entries and the events for the bot.
\<close>

record placement_tier =
  pt_place :: int
  pt_xp :: int

record streak_tier =
  st_threshold :: int
  st_xp :: int

record leaderboard_entry =
  le_rank :: int
  le_user_id :: int
  le_name :: string
  le_time :: rat
  le_verified :: bool
  le_completion :: bool

text \<open>The code of a map without one is \<open>None\<close>: constructing a struct checks no types.\<close>

record cycle_started_event =
  cs_cycle_id :: int
  cs_category_id :: int
  cs_map_id :: int
  cs_map_code :: "string option"
  cs_map_name :: string
  cs_started_at :: int
  cs_ends_at :: int

record cycle_completed_event =
  ce_cycle_id :: int
  ce_category_id :: int
  ce_standings :: "leaderboard_entry list"
  ce_winner_user_id :: "int option"

record rollover_event =
  re_edition_id :: int
  re_results :: "cycle_completed_event list"
  re_started :: "cycle_started_event list"
  re_results_pending :: bool

record results_event =
  rs_edition_id :: int
  rs_results :: "cycle_completed_event list"

record verification_changed_event =
  vc_tournament_completion_id :: int
  vc_cycle_id :: int
  vc_user_id :: int
  vc_verified :: bool
  vc_time :: rat

end
