(* ===== verification/Sdk_Events.thy ===== *)
theory Sdk_Events
  imports Py_Json
begin

section \<open>SDK structs of the notifications and the playtests\<close>

text \<open>
  The events of \<open>libs/sdk/src/genjishimada_sdk/notifications.py\<close> and of the playtest half of
  \<open>maps.py\<close> that the services hand to the broker, and the difficulties of \<open>difficulties.py\<close>.
\<close>

subsection \<open>Notifications\<close>

datatype notification_channel = DISCORD_DM | DISCORD_PING | WEB

definition channel_value :: "notification_channel \<Rightarrow> string" where
  "channel_value c = (case c of DISCORD_DM \<Rightarrow> ''discord_dm'' | DISCORD_PING \<Rightarrow> ''discord_ping'' | WEB \<Rightarrow> ''web'')"

definition all_channels :: "notification_channel list" where
  "all_channels = [DISCORD_DM, DISCORD_PING, WEB]"

datatype notification_event_type =
    VERIFICATION_APPROVED | VERIFICATION_REJECTED | RECORD_REMOVED | RECORD_EDITED | AUTO_VERIFY_FAILED
  | SKILL_ROLE_UPDATE | XP_GAIN | RANK_UP | PRESTIGE | MASTERY_EARNED
  | LOOTBOX_EARNED
  | PLAYTEST_UPDATE
  | MAP_EDIT_APPROVED | MAP_EDIT_REJECTED
  | QUEST_COMPLETE | QUEST_ROTATION | QUEST_RIVAL_MENTION

text \<open>The members in the order of the class, with their values.\<close>

definition event_types :: "(notification_event_type \<times> string) list" where
  "event_types =
     [(VERIFICATION_APPROVED, ''verification_approved''), (VERIFICATION_REJECTED, ''verification_rejected''),
      (RECORD_REMOVED, ''record_removed''), (RECORD_EDITED, ''record_edited''),
      (AUTO_VERIFY_FAILED, ''auto_verify_failed''), (SKILL_ROLE_UPDATE, ''skill_role_update''), (XP_GAIN, ''xp_gain''),
      (RANK_UP, ''rank_up''), (PRESTIGE, ''prestige''), (MASTERY_EARNED, ''mastery_earned''),
      (LOOTBOX_EARNED, ''lootbox_earned''), (PLAYTEST_UPDATE, ''playtest_update''),
      (MAP_EDIT_APPROVED, ''map_edit_approved''), (MAP_EDIT_REJECTED, ''map_edit_rejected''),
      (QUEST_COMPLETE, ''quest_complete''), (QUEST_ROTATION, ''quest_rotation''),
      (QUEST_RIVAL_MENTION, ''quest_rival_mention'')]"

definition event_type_of :: "string \<Rightarrow> notification_event_type option" where
  "event_type_of s = map_of (map (\<lambda>(t, v). (v, t)) event_types) s"

definition event_type_default_channels :: "notification_event_type \<Rightarrow> notification_channel list" where
  "event_type_default_channels t = (case map_of
     [(VERIFICATION_APPROVED, [DISCORD_DM, WEB]), (VERIFICATION_REJECTED, [DISCORD_DM, WEB]),
      (RECORD_REMOVED, [DISCORD_DM, WEB]), (AUTO_VERIFY_FAILED, [DISCORD_DM, WEB]),
      (SKILL_ROLE_UPDATE, [DISCORD_DM, WEB]), (XP_GAIN, [DISCORD_PING, WEB]), (RANK_UP, [DISCORD_PING, WEB]),
      (PRESTIGE, [DISCORD_PING, WEB]), (MASTERY_EARNED, [DISCORD_PING, WEB]), (LOOTBOX_EARNED, [DISCORD_DM, WEB]),
      (PLAYTEST_UPDATE, [DISCORD_DM, WEB]), (MAP_EDIT_APPROVED, [DISCORD_DM, WEB]),
      (MAP_EDIT_REJECTED, [DISCORD_DM, WEB]), (QUEST_COMPLETE, [DISCORD_DM, DISCORD_PING, WEB]),
      (QUEST_ROTATION, [WEB]), (QUEST_RIVAL_MENTION, [DISCORD_DM, WEB])] t of
        None \<Rightarrow> [] | Some cs \<Rightarrow> cs)"

record create_request =
  nc_user_id :: int
  nc_event_type :: string
  nc_title :: string
  nc_body :: string
  nc_discord_message :: "string option"
  nc_metadata :: "dict option"

record delivery_event =
  de_event_id :: int
  de_user_id :: int
  de_event_type :: string
  de_title :: string
  de_body :: string
  de_discord_message :: "string option"
  de_metadata :: "dict option"
  de_channels :: "string list"

record event_response =
  er_id :: int
  er_user_id :: int
  er_event_type :: string
  er_title :: string
  er_body :: string
  er_metadata :: "dict option"
  er_created_at :: int
  er_read_at :: "int option"
  er_dismissed_at :: "int option"

record preferences_response =
  pf_event_type :: string
  pf_channels :: "(string \<times> bool) list"

subsection \<open>Playtests\<close>

record vote_cast_event =
  vc_thread_id :: int
  vc_voter_id :: int
  vc_difficulty_value :: rat

record vote_removed_event =
  vr_thread_id :: int
  vr_voter_id :: int

record approved_event =
  pa_verifier_id :: int
  pa_difficulty :: string
  pa_thread_id :: int
  pa_primary_creator_id :: int
  pa_code :: string

record force_accepted_event =
  fa_difficulty :: string
  fa_verifier_id :: int
  fa_thread_id :: int

record force_denied_event =
  fd_verifier_id :: int
  fd_reason :: string
  fd_thread_id :: int

record reset_event =
  rs_verifier_id :: int
  rs_reason :: string
  rs_remove_votes :: bool
  rs_remove_completions :: bool
  rs_thread_id :: int

subsection \<open>Difficulties\<close>

text \<open>Float literals are the doubles nearest to what is written.\<close>

definition hundredths :: "int \<Rightarrow> rat" where
  "hundredths n = of_int n / 100"

definition difficulty_ranges_all :: "(string \<times> rat \<times> rat) list" where
  "difficulty_ranges_all = map (\<lambda>(d, lo, hi). (d, fl (hundredths lo), fl (hundredths hi)))
     [(''Easy -'', 0, 118), (''Easy'', 118, 176), (''Easy +'', 176, 235),
      (''Medium -'', 235, 294), (''Medium'', 294, 353), (''Medium +'', 353, 412),
      (''Hard -'', 412, 471), (''Hard'', 471, 529), (''Hard +'', 529, 588),
      (''Very Hard -'', 588, 647), (''Very Hard'', 647, 706), (''Very Hard +'', 706, 765),
      (''Extreme -'', 765, 824), (''Extreme'', 824, 882), (''Extreme +'', 882, 941),
      (''Hell'', 941, 1000)]"

definition difficulty_midpoints :: "(string \<times> rat) list" where
  "difficulty_midpoints = map (\<lambda>(d, x). (d, fl (hundredths x)))
     [(''Easy -'', 89), (''Easy'', 147), (''Easy +'', 206),
      (''Medium -'', 265), (''Medium'', 323), (''Medium +'', 383),
      (''Hard -'', 442), (''Hard'', 500), (''Hard +'', 558),
      (''Very Hard -'', 617), (''Very Hard'', 676), (''Very Hard +'', 736),
      (''Extreme -'', 795), (''Extreme'', 853), (''Extreme +'', 912),
      (''Hell'', 971)]"

definition convert_raw_difficulty :: "(string \<times> rat \<times> rat) list \<Rightarrow> rat \<Rightarrow> py_error + string" where
  "convert_raw_difficulty mapping raw =
     (case first_where (\<lambda>(d, lo, hi). lo \<le> raw \<and> raw < hi) mapping of
        Some (d, _) \<Rightarrow> Inr d
      | None \<Rightarrow> if raw = 10 then Inr ''Hell'' else Inl (ValueError ''Unknown difficulty''))"

definition convert_raw_difficulty_to_difficulty_all :: "rat \<Rightarrow> py_error + string" where
  "convert_raw_difficulty_to_difficulty_all = convert_raw_difficulty difficulty_ranges_all"

end
