(* ===== verification/Sdk_Completions.thy ===== *)
theory Sdk_Completions
  imports Py_Json
begin

section \<open>SDK structs of the completions\<close>

text \<open>
  Requests, responses and events of \<open>libs/sdk/src/genjishimada_sdk/completions.py\<close>, the event of a
  submitted tournament run of \<open>tournaments.py\<close> and the in-process events of
  \<open>apps/api/events/schemas.py\<close>. A field that may be \<open>UNSET\<close> is an option.
\<close>

subsection \<open>Requests\<close>

record completion_create_request =
  cc_code :: string
  cc_user_id :: int
  cc_time :: rat
  cc_screenshot :: string
  cc_video :: "string option"

record completion_patch =
  cq_message_id :: "int option"
  cq_completion :: "bool option"
  cq_verification_id :: "int option"
  cq_legacy :: "bool option"
  cq_legacy_medal :: "string option option"
  cq_wr_xp_check :: "bool option"

record verification_update =
  vu_verified_by :: int
  vu_verified :: bool
  vu_reason :: "string option"

record moderate_request =
  mo_moderated_by :: int
  mo_time :: "rat option"
  mo_time_change_reason :: "string option"
  mo_verified :: "bool option"
  mo_verification_reason :: "string option option"
  mo_mark_suspicious :: bool
  mo_unmark_suspicious :: bool
  mo_suspicious_context :: "string option"
  mo_suspicious_flag_type :: "string option"

record flag_request =
  fq_context :: string
  fq_flag_type :: string
  fq_flagged_by :: int
  fq_message_id :: "int option"
  fq_verification_id :: "int option"

subsection \<open>Events for the broker\<close>

record verification_changed =
  vg_completion_id :: int
  vg_verified :: bool
  vg_verified_by :: int
  vg_reason :: "string option"

record upvote_update =
  uu_user_id :: int
  uu_message_id :: int

record extracted_result =
  ex_name :: "string option"
  ex_time :: "rat option"
  ex_code :: "string option"

record failed_autoverify =
  fv_submitted_code :: string
  fv_submitted_time :: rat
  fv_submitted_user_names :: "string list"
  fv_user_id :: int
  fv_extracted :: extracted_result
  fv_code_match :: bool
  fv_time_match :: bool
  fv_user_match :: bool
  fv_screenshot :: string

record tournament_completion_created =
  tv_completion_id :: int
  tv_cycle_id :: int
  tv_user_id :: int
  tv_time :: rat
  tv_video :: "string option"
  tv_screenshot :: string

subsection \<open>In-process events\<close>

record ocr_requested =
  oq_completion_id :: int
  oq_user_id :: int
  oq_code :: string
  oq_time :: rat
  oq_screenshot :: string

record tournament_ocr_requested =
  tq_tournament_completion_id :: int
  tq_cycle_id :: int
  tq_user_id :: int
  tq_code :: string
  tq_time :: rat
  tq_screenshot :: string

record skill_recompute_requested =
  sq_reason :: string
  sq_cause_category :: string
  sq_actor_user_id :: "int option"

datatype app_event =
    OcrRequested ocr_requested
  | TournamentOcrRequested tournament_ocr_requested
  | SkillRecomputeRequested skill_recompute_requested

subsection \<open>Difficulties\<close>

text \<open>\<open>s.replace(x, "")\<close> and \<open>s.upper()\<close> of ASCII text.\<close>

fun drop_prefix :: "string \<Rightarrow> string \<Rightarrow> string option" where
  "drop_prefix [] s = Some s"
| "drop_prefix (x # xs) [] = None"
| "drop_prefix (x # xs) (c # s) = (if x = c then drop_prefix xs s else None)"

lemma drop_prefix_length: "drop_prefix xs s = Some t \<Longrightarrow> length t + length xs = length s"
  by (induction xs s rule: drop_prefix.induct) (auto split: if_splits)

function remove_all :: "string \<Rightarrow> string \<Rightarrow> string" where
  "remove_all x [] = []"
| "remove_all x (c # s) = (if x = [] then c # s
     else case drop_prefix x (c # s) of Some t \<Rightarrow> remove_all x t | None \<Rightarrow> c # remove_all x s)"
  by pat_completeness auto
termination
  by (relation "measure (length \<circ> snd)") (auto dest!: drop_prefix_length simp: neq_Nil_conv)

definition convert_extended_difficulty_to_top_level :: "string \<Rightarrow> string" where
  "convert_extended_difficulty_to_top_level d = remove_all '' -'' (remove_all '' +'' d)"

definition char_upper :: "char \<Rightarrow> char" where
  "char_upper c = (if is_lower_char c then char_of (char_code c - 32) else c)"

definition py_upper :: "string \<Rightarrow> string" where
  "py_upper s = map char_upper s"

subsection \<open>Numbers in text\<close>

text \<open>
  \<open>f"{x:.2f}"\<close> rounds the double to two decimals, half to even; \<open>str(x)\<close> of a double writes its
  shortest decimal with at least one digit after the point.
\<close>

definition padded :: "nat \<Rightarrow> nat \<Rightarrow> string" where
  "padded n k = (let s = digits_of_nat k in replicate (n - length s) CHR ''0'' @ s)"

definition decimal_text :: "nat \<Rightarrow> rat \<Rightarrow> string" where
  "decimal_text n x = (let k = nat \<lfloor>\<bar>dec_round n x\<bar> * 10 ^ n\<rfloor>
     in (if x < 0 then ''-'' else []) @ digits_of_nat (k div 10 ^ n) @ ''.'' @ padded n (k mod 10 ^ n))"

definition fixed2 :: "rat \<Rightarrow> string" where
  "fixed2 x = decimal_text 2 x"

definition decimals_of :: "rat \<Rightarrow> nat" where
  "decimals_of x = (case List.find (\<lambda>n. fl (dec_round n x) = x) [1..<400] of Some n \<Rightarrow> n | None \<Rightarrow> 400)"

definition float_str :: "rat \<Rightarrow> string" where
  "float_str x = decimal_text (decimals_of x) x"

definition fixed2_of :: "json \<Rightarrow> py_error + string" where
  "fixed2_of v = (case num_of v of Some x \<Rightarrow> Inr (fixed2 (fl x))
     | None \<Rightarrow> (case v of JStr _ \<Rightarrow> Inl (ValueError ''Unknown format code'') | _ \<Rightarrow> Inl TypeError))"

text \<open>\<open>str(v)\<close> of a JSON value that is not a container.\<close>

fun str_of_json :: "json \<Rightarrow> py_error + string" where
  "str_of_json JNull = Inr ''None''"
| "str_of_json (JBool b) = Inr (if b then ''True'' else ''False'')"
| "str_of_json (JInt n) = Inr (str_of_int n)"
| "str_of_json (JFloat x) = Inr (float_str x)"
| "str_of_json (JStr s) = Inr s"
| "str_of_json _ = Inl (OutsideModel ''text of a container'')"

end
