(* ===== verification/Sdk_Lootbox.thy ===== *)
theory Sdk_Lootbox
  imports Economy_Db Sdk_Tournament Sdk_Events Sdk_Completions
begin

section \<open>SDK structs of the lootbox and XP endpoints\<close>

text \<open>
  The message types of \<open>libs/sdk\<close> that the lootbox service returns or publishes
  (\<open>lootbox.py\<close>, \<open>xp.py\<close>, \<open>internal.py\<close>) and the asset URLs they compute
  (\<open>helpers.py\<close>, \<open>utilities.py\<close>).
\<close>

subsection \<open>Asset URLs\<close>

definition is_alnum_char :: "char \<Rightarrow> bool" where
  "is_alnum_char c \<longleftrightarrow> is_lower_char c \<or> is_upper_char c \<or> is_digit_char c"

definition sanitize_string :: "string option \<Rightarrow> string" where
  "sanitize_string s = (case s of
      None \<Rightarrow> []
    | Some t \<Rightarrow>
        if t = [] then []
        else let kept = filter (\<lambda>c. is_alnum_char c \<or> is_space_char c) t;
                 joined = map (\<lambda>c. if c = CHR '' '' then CHR ''_'' else c) (py_strip kept)
             in py_lower joined)"

definition get_reward_url :: "string \<Rightarrow> string \<Rightarrow> string" where
  "get_reward_url ty name =
     (let sanitized_name = sanitize_string (Some name) in
      if ty = ''spray'' then
        ''https://cdn.genji.pk/assets/rank_card/spray/'' @ sanitized_name @ ''.webp''
      else if ty = ''skin'' then
        ''https://cdn.genji.pk/assets/rank_card/avatar/'' @ sanitized_name @ ''/heroic.webp''
      else if ty = ''pose'' then
        ''https://cdn.genji.pk/assets/rank_card/avatar/overwatch_1/'' @ sanitized_name @ ''.webp''
      else if ty = ''background'' then
        ''https://cdn.genji.pk/assets/rank_card/background/'' @ sanitized_name @ ''.webp''
      else if ty = ''coins'' then
        ''https://cdn.genji.pk/assets/rank_card/coins/'' @ sanitized_name @ ''.webp''
      else [])"

subsection \<open>Lootbox structs\<close>

record reward_type_response =
  rsp_name :: string
  rsp_key_type :: string
  rsp_rarity :: "string option"
  rsp_type :: string
  rsp_duplicate :: bool
  rsp_coin_amount :: int
  rsp_url :: string

text \<open>\<open>LootboxKeyType\<close>, the literal type the structs validate.\<close>

definition lootbox_key_types :: "string list" where
  "lootbox_key_types = [''Classic'', ''Winter'', ''Summer'', ''Halloween'', ''Spring'', ''Autumn'']"

text \<open>The constructor with its \<open>__post_init__\<close>.\<close>

definition mk_reward :: "string \<Rightarrow> string \<Rightarrow> string option \<Rightarrow> string \<Rightarrow> bool \<Rightarrow> int \<Rightarrow> reward_type_response" where
  "mk_reward name key_type rarity ty duplicate coin_amount =
     \<lparr>rsp_name = name, rsp_key_type = key_type, rsp_rarity = rarity, rsp_type = ty,
      rsp_duplicate = duplicate, rsp_coin_amount = coin_amount,
      rsp_url = get_reward_url ty name\<rparr>"

text \<open>A reward row as the repository returns it (the joined columns may be \<open>NULL\<close>) ..\<close>

record user_reward_sql =
  urs_user_id :: int
  urs_earned_at :: int
  urs_name :: "string option"
  urs_type :: "string option"
  urs_rarity :: "string option"
  urs_medal :: "string option"

text \<open>.. and as the API returns it.\<close>

record user_reward_response =
  urr_user_id :: int
  urr_earned_at :: int
  urr_name :: string
  urr_type :: string
  urr_rarity :: string
  urr_medal :: "string option"
  urr_url :: string

text \<open>The URL of a user reward: mastery images carry the medal in their name.\<close>

definition user_reward_url :: "string \<Rightarrow> string \<Rightarrow> string option \<Rightarrow> string" where
  "user_reward_url ty name medal =
     (if ty = ''mastery'' then
        ''https://cdn.genji.pk/assets/mastery/'' @ sanitize_string (Some name) @ ''_''
          @ sanitize_string medal @ ''.webp''
      else get_reward_url ty name)"

record user_key_amount =
  uka_key_type :: string
  uka_amount :: nat

subsection \<open>XP structs\<close>

datatype xp_type =
    MapSubmission | Playtest | Guide | Completion | Record | WorldRecord | Quest | Other | Tournament

fun xp_amounts :: "xp_type \<Rightarrow> int option" where
  "xp_amounts MapSubmission = Some 30"
| "xp_amounts Playtest = Some 35"
| "xp_amounts Guide = Some 35"
| "xp_amounts Completion = Some 5"
| "xp_amounts Record = Some 15"
| "xp_amounts WorldRecord = Some 50"
| "xp_amounts _ = None"

record xp_grant_request =
  xgr_amount :: int
  xgr_type :: xp_type
  xgr_reason :: "string option"

record xp_grant_response =
  xg_previous_amount :: int
  xg_new_amount :: int

record xp_grant_event =
  xe_user_id :: int
  xe_amount :: int
  xe_type :: xp_type
  xe_previous_amount :: int
  xe_new_amount :: int
  xe_reason :: "string option"

record tier_change =
  tc_old_xp :: int
  tc_new_xp :: int
  tc_old_main_tier_name :: string
  tc_new_main_tier_name :: string
  tc_old_sub_tier_name :: "string option"
  tc_new_sub_tier_name :: "string option"
  tc_old_prestige_level :: int
  tc_new_prestige_level :: int
  tc_rank_change_type :: "string option"
  tc_prestige_change :: bool

record xp_summary =
  xs_xp :: int
  xs_raw_tier :: int
  xs_normalized_tier :: int
  xs_prestige_level :: int
  xs_current_main_tier_name :: "string option"
  xs_current_sub_tier_name :: "string option"
  xs_current_full_tier_name :: "string option"
  xs_next_main_tier_name :: "string option"
  xs_next_sub_tier_name :: "string option"
  xs_next_full_tier_name :: "string option"
  xs_next_sub_tier_xp_required :: int
  xs_next_sub_tier_xp_total :: int
  xs_next_main_tier_xp_required :: int
  xs_next_main_tier_xp_total :: int

subsection \<open>Messages and job status\<close>

datatype job_status = Processing | Succeeded | Failed | Timeout | Queued

record job_status_response =
  js_id :: int
  js_status :: job_status
  js_error_code :: "string option"
  js_error_msg :: "string option"

text \<open>
  What \<open>publish_message\<close> hands to the broker: the events of the economy, the tournaments, the
  notifications and the playtests; the other services' payloads are opaque to it.
\<close>

datatype payload =
    XpGrant xp_grant_event
  | TournamentRollover rollover_event
  | TournamentEditionResults results_event
  | TournamentVerificationChanged verification_changed_event
  | NotificationDelivery delivery_event
  | PlaytestVoteCast vote_cast_event
  | PlaytestVoteRemoved vote_removed_event
  | PlaytestApproved approved_event
  | PlaytestForceAccepted force_accepted_event
  | PlaytestForceDenied force_denied_event
  | PlaytestReset reset_event
  | CompletionCreated int
  | VerificationChanged verification_changed
  | VerificationMessageDelete int
  | UpvoteUpdate upvote_update
  | FailedAutoverify failed_autoverify
  | TournamentCompletionCreated tournament_completion_created
  | OpaquePayload string

datatype message_id = IdempotencyKey string | JobKey int

record message =
  ms_routing_key :: string
  ms_payload :: payload
  ms_correlation_id :: int
  ms_message_id :: message_id

type_synonym econ_world = "(econ, message) world"
type_synonym 'a etx = "(err, econ, 'a) tx"
type_synonym 'a eio = "(err, econ_world, 'a) io"

subsection \<open>Sanitized names\<close>

definition url_safe_char :: "char \<Rightarrow> bool" where
  "url_safe_char c \<longleftrightarrow> is_lower_char c \<or> is_digit_char c \<or> c = CHR ''_'' \<or> is_space_char c"

lemma set_py_strip: "set (py_strip s) \<subseteq> set s"
  unfolding py_strip_def
  by (metis (no_types, lifting) set_dropWhileD set_rev subsetI)

lemma char_lower_alnum: "is_alnum_char c \<Longrightarrow> is_lower_char (char_lower c) \<or> is_digit_char (char_lower c)"
  by (auto simp: is_alnum_char_def char_lower_def is_upper_char_def is_lower_char_def
        is_digit_char_def char_code_def)

lemma char_lower_space: "is_space_char c \<Longrightarrow> char_lower c = c"
  by (auto simp: is_space_char_def char_lower_def is_upper_char_def)

lemma sanitize_string_chars:
  assumes "c \<in> set (sanitize_string s)" shows "url_safe_char c"
proof -
  from assms obtain t where t: "s = Some t" "t \<noteq> []"
    by (auto simp: sanitize_string_def split: option.splits if_splits)
  with assms obtain d where d: "d \<in> set t" "is_alnum_char d \<or> is_space_char d"
    and c: "c = char_lower (if d = CHR '' '' then CHR ''_'' else d)"
    using set_py_strip by (fastforce simp: sanitize_string_def Let_def py_lower_def)
  show ?thesis
  proof (cases "d = CHR '' ''")
    case True
    with c show ?thesis by (simp add: url_safe_char_def char_lower_def is_upper_char_def char_code_def)
  next
    case False
    with c d show ?thesis
      using char_lower_alnum char_lower_space by (auto simp: url_safe_char_def)
  qed
qed

lemma sanitize_no_blank: "CHR '' '' \<notin> set (sanitize_string s)"
proof
  assume "CHR '' '' \<in> set (sanitize_string s)"
  then obtain d where "CHR '' '' = char_lower d" "d \<noteq> CHR '' ''"
    by (auto simp: sanitize_string_def Let_def py_lower_def split: option.splits if_splits)
  then have "char_code (char_lower d) = char_code (CHR '' '')" by metis
  also have "\<dots> = 32" by (simp add: char_code_def)
  finally have "char_code d = 32"
    by (simp only: char_code_lower is_upper_char_def split: if_splits)
  also have "32 = char_code (CHR '' '')" by (simp add: char_code_def)
  finally show False using \<open>d \<noteq> CHR '' ''\<close>
    by (simp only: char_code_def of_char_eq_iff)
qed

end
