(* ===== verification/Ledger.thy ===== *)
theory Ledger
  imports Prelude
begin

section \<open>Ledgers: what the economy relies on when it moves coins\<close>

text \<open>
  The interface between the services that spend and pay coins and the repository that stores
  the balances. A ledger credits accounts and debits them; a debit that the balance does not
  cover is refused and changes nothing. A client runs entries in some order; \<open>run_entries\<close>
  returns the entries that took effect, and the balances move by exactly those.
\<close>

datatype 'k entry = Credit 'k int | Debit 'k int

fun net :: "'k \<Rightarrow> 'k entry list \<Rightarrow> int" where
  "net k [] = 0"
| "net k (Credit j n # es) = (if j = k then n else 0) + net k es"
| "net k (Debit j n # es) = (if j = k then - n else 0) + net k es"

fun run_entries ::
  "('k \<Rightarrow> int \<Rightarrow> ('e, 's, unit) tx) \<Rightarrow> ('k \<Rightarrow> int \<Rightarrow> ('e, 's, int option) tx) \<Rightarrow>
     'k entry list \<Rightarrow> ('e, 's, 'k entry list) tx" where
  "run_entries credit debit [] = return_tx []"
| "run_entries credit debit (Credit k n # es) =
     bind_tx (credit k n) (\<lambda>_. bind_tx (run_entries credit debit es) (\<lambda>took. return_tx (Credit k n # took)))"
| "run_entries credit debit (Debit k n # es) =
     bind_tx (debit k n) (\<lambda>r. bind_tx (run_entries credit debit es) (\<lambda>took.
       return_tx (if r = None then took else Debit k n # took)))"

fun entry_nonneg :: "'k entry \<Rightarrow> bool" where
  "entry_nonneg (Credit k n) = (0 \<le> n)"
| "entry_nonneg (Debit k n) = (0 \<le> n)"

locale ledger =
  fixes balance :: "'k \<Rightarrow> 's \<Rightarrow> int option"
    and credit :: "'k \<Rightarrow> int \<Rightarrow> ('e, 's, unit) tx"
    and debit :: "'k \<Rightarrow> int \<Rightarrow> ('e, 's, int option) tx"
    and inv :: "'s \<Rightarrow> bool"
  assumes credit_inv: "keeps inv (credit k n)"
    and credit_self: "inv s \<Longrightarrow> balance k s = Some c \<Longrightarrow> credit k n s = Inr (x, s') \<Longrightarrow>
          balance k s' = Some (c + n)"
    and credit_other: "inv s \<Longrightarrow> j \<noteq> k \<Longrightarrow> credit k n s = Inr (x, s') \<Longrightarrow> balance j s' = balance j s"
    and debit_inv: "keeps inv (debit k n)"
    and debit_paid: "inv s \<Longrightarrow> debit k n s = Inr (Some r, s') \<Longrightarrow>
          balance k s = Some (r + n) \<and> 0 \<le> r \<and> balance k s' = Some r"
    and debit_refused: "inv s \<Longrightarrow> debit k n s = Inr (None, s') \<Longrightarrow>
          s' = s \<and> (\<forall>c. balance k s = Some c \<longrightarrow> c < n)"
    and debit_other: "inv s \<Longrightarrow> j \<noteq> k \<Longrightarrow> debit k n s = Inr (q, s') \<Longrightarrow> balance j s' = balance j s"
begin

lemma debit_balance:
  assumes "inv s" "debit k n s = Inr (r, s')" "balance j s = Some c"
  shows "balance j s' = Some (if r = None \<or> j \<noteq> k then c else c - n)"
proof (cases "j = k")
  case False
  with assms debit_other [of s j k n r s'] show ?thesis by simp
next
  case True
  show ?thesis
  proof (cases r)
    case None
    with assms debit_refused [of s k n s'] show ?thesis by simp
  next
    case (Some v)
    with assms True debit_paid [of s k n v s'] show ?thesis by simp
  qed
qed

lemma credit_balance:
  assumes "inv s" "credit k n s = Inr (x, s')" "balance j s = Some c"
  shows "balance j s' = Some (if j = k then c + n else c)"
  using assms credit_self [of s k c n x s'] credit_other [of s j k n x s'] by (cases "j = k") simp_all

lemma run_entries_inv: "keeps inv (run_entries credit debit es)"
proof (induction es)
  case Nil
  show ?case unfolding run_entries.simps by (intro keeps_rules)
next
  case (Cons e es)
  then show ?case
    by (cases e) (simp only: run_entries.simps, intro keeps_rules credit_inv debit_inv, assumption)+
qed

text \<open>Nothing is lost or made: a balance moves by the entries that took effect.\<close>

lemma run_entries_balance:
  "inv s \<Longrightarrow> balance k s = Some c \<Longrightarrow> run_entries credit debit es s = Inr (took, s') \<Longrightarrow>
     balance k s' = Some (c + net k took)"
proof (induction es arbitrary: s c took)
  case Nil
  then show ?case by simp
next
  case (Cons e es)
  show ?case
  proof (cases e)
    case (Credit j n)
    with Cons.prems(3) obtain u took' where
      c: "credit j n s = Inr ((), u)" and r: "run_entries credit debit es u = Inr (took', s')"
      and took: "took = Credit j n # took'"
      by (auto elim!: bind_txE)
    have "inv u" using keepsD [OF credit_inv Cons.prems(1) c] .
    moreover have "balance k u = Some (if k = j then c + n else c)"
      using credit_balance [OF Cons.prems(1) c Cons.prems(2)] .
    ultimately show ?thesis using Cons.IH r took by fastforce
  next
    case (Debit j n)
    with Cons.prems(3) obtain x u took' where
      d: "debit j n s = Inr (x, u)" and r: "run_entries credit debit es u = Inr (took', s')"
      and took: "took = (if x = None then took' else Debit j n # took')"
      by (auto elim!: bind_txE)
    have "inv u" using keepsD [OF debit_inv Cons.prems(1) d] .
    moreover have "balance k u = Some (if x = None \<or> k \<noteq> j then c else c - n)"
      using debit_balance [OF Cons.prems(1) d Cons.prems(2)] .
    ultimately show ?thesis using Cons.IH r took by fastforce
  qed
qed

text \<open>No debit overdraws: with credits that pay something, a balance never falls below zero.\<close>

lemma run_entries_nonneg:
  "inv s \<Longrightarrow> balance k s = Some c \<Longrightarrow> 0 \<le> c \<Longrightarrow> list_all entry_nonneg es \<Longrightarrow>
     run_entries credit debit es s = Inr (took, s') \<Longrightarrow> 0 \<le> c + net k took"
proof (induction es arbitrary: s c took)
  case Nil
  then show ?case by simp
next
  case (Cons e es)
  show ?case
  proof (cases e)
    case (Credit j n)
    with Cons.prems(5) obtain u took' where
      c: "credit j n s = Inr ((), u)" and r: "run_entries credit debit es u = Inr (took', s')"
      and took: "took = Credit j n # took'"
      by (auto elim!: bind_txE)
    have "inv u" using keepsD [OF credit_inv Cons.prems(1) c] .
    moreover have "balance k u = Some (if k = j then c + n else c)"
      using credit_balance [OF Cons.prems(1) c Cons.prems(2)] .
    moreover have "0 \<le> (if k = j then c + n else c)" using Cons.prems Credit by simp
    ultimately have "0 \<le> (if k = j then c + n else c) + net k took'"
      using Cons.IH r Cons.prems(4) by simp
    then show ?thesis by (auto simp: took split: if_splits)
  next
    case (Debit j n)
    with Cons.prems(5) obtain x u took' where
      d: "debit j n s = Inr (x, u)" and r: "run_entries credit debit es u = Inr (took', s')"
      and took: "took = (if x = None then took' else Debit j n # took')"
      by (auto elim!: bind_txE)
    have "inv u" using keepsD [OF debit_inv Cons.prems(1) d] .
    moreover have b: "balance k u = Some (if x = None \<or> k \<noteq> j then c else c - n)"
      using debit_balance [OF Cons.prems(1) d Cons.prems(2)] .
    moreover have "0 \<le> (if x = None \<or> k \<noteq> j then c else c - n)"
      using d debit_paid [OF Cons.prems(1), of j n] Cons.prems(2,3) by (cases x) fastforce+
    ultimately have "0 \<le> (if x = None \<or> k \<noteq> j then c else c - n) + net k took'"
      using Cons.IH r Cons.prems(4) by simp
    then show ?thesis by (auto simp: took split: if_splits)
  qed
qed

end

end
