(* ===== verification/Lootbox_Repo.thy ===== *)
theory Lootbox_Repo
  imports Sdk_Lootbox Ledger
begin

section \<open>The lootbox repository\<close>

text \<open>
  \<open>apps/api/repository/lootbox_repository.py\<close>: one definition per method, the SQL of the
  method written as list operations on the tables. Queries are functions of the database (their
  transaction is \<open>read_tx\<close>), statements that write are transactions that check what PostgreSQL
  checks: foreign keys and the range of the \<open>int\<close> columns.
\<close>

subsection \<open>Reward and key definitions\<close>

definition fetch_all_rewards ::
  "string option \<Rightarrow> string option \<Rightarrow> string option \<Rightarrow> econ \<Rightarrow> reward_type_row list" where
  "fetch_all_rewards reward_type key_type rarity db =
     sort_key rt_key_type (sort_key rt_name
       (filter (\<lambda>r. opt_eq reward_type (rt_type r) \<and> opt_eq key_type (rt_key_type r)
                  \<and> opt_eq_null rarity (rt_rarity r)) (reward_types db)))"

definition fetch_all_key_types :: "string option \<Rightarrow> econ \<Rightarrow> string list" where
  "fetch_all_key_types key_type db = sort (filter (opt_eq key_type) (key_types db))"

subsection \<open>What a user owns\<close>

text \<open>
  Earned rewards are joined with their definition (a row without one has \<open>NULL\<close> fields, and
  no filter on such a field accepts it); mastery medals of the user are appended. The second
  half compares the requested reward type with the medal, as the query does.
\<close>

definition fetch_user_rewards ::
  "env \<Rightarrow> int \<Rightarrow> string option \<Rightarrow> string option \<Rightarrow> string option \<Rightarrow> econ \<Rightarrow> user_reward_sql list" where
  "fetch_user_rewards E user_id reward_type key_type rarity db =
     (let joined = concat (map (\<lambda>ur. map (\<lambda>rt. (ur, rt))
            (left_join (\<lambda>rt. rt_name rt = uw_reward_name ur \<and> rt_type rt = uw_reward_type ur
                           \<and> rt_key_type rt = uw_key_type ur) (reward_types db)))
            (user_rewards db));
          kept = filter (\<lambda>(ur, rt). uw_user_id ur = user_id
                   \<and> opt_eq_null reward_type (map_option rt_type rt)
                   \<and> opt_eq key_type (uw_key_type ur)
                   \<and> opt_eq_null rarity (Option.bind rt rt_rarity)) joined;
          owned = distinct_on (\<lambda>(ur, rt). (map_option rt_name rt, map_option rt_key_type rt,
                   map_option rt_type rt)) [] kept
      in map (\<lambda>(ur, rt). \<lparr>urs_user_id = uw_user_id ur, urs_earned_at = uw_earned_at ur,
               urs_name = map_option rt_name rt, urs_type = map_option rt_type rt,
               urs_rarity = Option.bind rt rt_rarity, urs_medal = None\<rparr>) owned
         @ map (\<lambda>m. \<lparr>urs_user_id = my_user_id m, urs_earned_at = env_now E,
               urs_name = Some (my_map_name m), urs_type = Some ''mastery'',
               urs_rarity = Some ''common'', urs_medal = Some (my_medal m)\<rparr>)
             (filter (\<lambda>m. my_user_id m = user_id \<and> my_medal m \<noteq> ''Placeholder''
                        \<and> opt_eq reward_type (my_medal m)) (mastery db)))"

definition fetch_user_keys :: "int \<Rightarrow> string option \<Rightarrow> econ \<Rightarrow> user_key_amount list" where
  "fetch_user_keys user_id key_type db =
     (let mine = filter (\<lambda>k. uk_user_id k = user_id \<and> opt_eq key_type (uk_key_type k)) (user_keys db)
      in map (\<lambda>t. \<lparr>uka_key_type = t, uka_amount = length (filter (\<lambda>k. uk_key_type k = t) mine)\<rparr>)
           (remdups (map uk_key_type mine)))"

definition fetch_user_key_count :: "int \<Rightarrow> string \<Rightarrow> econ \<Rightarrow> nat" where
  "fetch_user_key_count user_id key_type db =
     length (filter (\<lambda>k. uk_key_type k = key_type \<and> uk_user_id k = user_id) (user_keys db))"

definition fetch_user_coins :: "int \<Rightarrow> econ \<Rightarrow> int" where
  "fetch_user_coins user_id db = (case coins_of user_id db of Some c \<Rightarrow> c | None \<Rightarrow> 0)"

definition check_user_has_reward :: "int \<Rightarrow> string \<Rightarrow> string \<Rightarrow> string \<Rightarrow> econ \<Rightarrow> string option" where
  "check_user_has_reward user_id reward_type key_type reward_name db =
     (case concat (map (\<lambda>ur. filter (\<lambda>rt. rt_name rt = uw_reward_name ur
                  \<and> rt_type rt = uw_reward_type ur \<and> rt_key_type rt = uw_key_type ur) (reward_types db))
             (filter (\<lambda>ur. uw_user_id ur = user_id \<and> uw_reward_type ur = reward_type
                  \<and> uw_key_type ur = key_type \<and> uw_reward_name ur = reward_name) (user_rewards db)))
      of [] \<Rightarrow> None | rt # _ \<Rightarrow> rt_rarity rt)"

subsection \<open>XP tiers\<close>

text \<open>
  Both tier queries cut the XP into steps of 100: five sub-tiers make a main tier, twenty main
  tiers a prestige level. A query without a matching main tier returns no row.
\<close>

definition tier_rows :: "int \<Rightarrow> econ \<Rightarrow> (string \<times> string option) list" where
  "tier_rows xp db =
     concat (map (\<lambda>x. map (\<lambda>s. (tr_name x, map_option tr_name s))
         (left_join (\<lambda>s. sql_mod (sql_div xp 100) 5 = tr_threshold s) (sub_tiers db)))
       (filter (\<lambda>x. sql_div (sql_mod (sql_div xp 100) 100) 5 = tr_threshold x) (main_tiers db)))"

definition rank_change :: "string \<Rightarrow> string \<Rightarrow> string option \<Rightarrow> string option \<Rightarrow> string option" where
  "rank_change old_main new_main old_sub new_sub =
     (if old_main \<noteq> new_main then Some ''Main Tier Rank Up''
      else case (old_sub, new_sub) of
          (Some a, Some b) \<Rightarrow> if a \<noteq> b then Some ''Sub-Tier Rank Up'' else None
        | _ \<Rightarrow> None)"

definition fetch_xp_tier_change :: "int \<Rightarrow> int \<Rightarrow> econ \<Rightarrow> tier_change option" where
  "fetch_xp_tier_change old_xp new_xp db =
     (case [(x, y). x \<leftarrow> tier_rows old_xp db, y \<leftarrow> tier_rows new_xp db] of
        [] \<Rightarrow> None
      | ((old_main, old_sub), (new_main, new_sub)) # _ \<Rightarrow>
          (let old_prestige = sql_div (sql_div old_xp 100) 100;
               new_prestige = sql_div (sql_div new_xp 100) 100
           in Some \<lparr>tc_old_xp = old_xp, tc_new_xp = new_xp,
                tc_old_main_tier_name = old_main, tc_new_main_tier_name = new_main,
                tc_old_sub_tier_name = old_sub, tc_new_sub_tier_name = new_sub,
                tc_old_prestige_level = old_prestige, tc_new_prestige_level = new_prestige,
                tc_rank_change_type = rank_change old_main new_main old_sub new_sub,
                tc_prestige_change = (old_prestige \<noteq> new_prestige)\<rparr>))"

definition tier_name :: "int \<Rightarrow> tier_row list \<Rightarrow> string option" where
  "tier_name t rows = map_option tr_name (first_where (\<lambda>r. t = tr_threshold r) rows)"

definition full_name :: "string option \<Rightarrow> string option \<Rightarrow> string option" where
  "full_name a b = (case (a, b) of (Some m, Some s) \<Rightarrow> Some (m @ '' '' @ s) | _ \<Rightarrow> None)"

definition fetch_user_xp_summary :: "int \<Rightarrow> econ \<Rightarrow> xp_summary option" where
  "fetch_user_xp_summary user_id db =
     (if \<not> user_exists user_id db then None
      else let xp = (case xp_of user_id db of Some n \<Rightarrow> n | None \<Rightarrow> 0);
               raw_tier = sql_div xp 100;
               normalized_tier = sql_mod raw_tier 100;
               prestige_level = sql_div raw_tier 100;
               cm = tier_name (sql_div normalized_tier 5) (main_tiers db);
               cs = tier_name (sql_mod raw_tier 5) (sub_tiers db);
               nm = tier_name (sql_mod (sql_div normalized_tier 5 + 1) 20) (main_tiers db);
               ns = tier_name (sql_mod (raw_tier + 1) 5) (sub_tiers db);
               next_main = ((sql_div normalized_tier 5 + 1) * 5 + prestige_level * 100) * 100
           in Some \<lparr>xs_xp = xp, xs_raw_tier = raw_tier, xs_normalized_tier = normalized_tier,
                xs_prestige_level = prestige_level,
                xs_current_main_tier_name = cm, xs_current_sub_tier_name = cs,
                xs_current_full_tier_name = full_name cm cs,
                xs_next_main_tier_name = nm, xs_next_sub_tier_name = ns,
                xs_next_full_tier_name =
                  (if sql_mod raw_tier 5 = 4 then full_name nm ns else full_name cm ns),
                xs_next_sub_tier_xp_required = (raw_tier + 1) * 100 - xp,
                xs_next_sub_tier_xp_total = (raw_tier + 1) * 100,
                xs_next_main_tier_xp_required = next_main - xp,
                xs_next_main_tier_xp_total = next_main\<rparr>)"

text \<open>The multiplier column is read with \<open>float\<close>; a missing row and a zero read as \<open>1.0\<close>.\<close>

definition fetch_xp_multiplier :: "econ \<Rightarrow> rat" where
  "fetch_xp_multiplier db = (case xp_multiplier db of
      [] \<Rightarrow> 1 | v # _ \<Rightarrow> if fl v = 0 then 1 else fl v)"

subsection \<open>Keys\<close>

definition delete_oldest_user_key :: "int \<Rightarrow> string \<Rightarrow> bool etx" where
  "delete_oldest_user_key user_id key_type = (\<lambda>db.
     (case sort_key uk_earned_at (filter (\<lambda>k. uk_user_id k = user_id \<and> uk_key_type k = key_type)
             (user_keys db)) of
        [] \<Rightarrow> Inr (False, db)
      | k # _ \<Rightarrow> Inr (True, db\<lparr>user_keys := remove_first (\<lambda>r. r = k) (user_keys db)\<rparr>)))"

definition insert_user_key :: "env \<Rightarrow> int \<Rightarrow> string \<Rightarrow> unit etx" where
  "insert_user_key E user_id key_type =
     bind_tx (check_tx (user_exists user_id) (Pg (ForeignKeyViolation ''user_keys_user_id_fkey'')))
     (\<lambda>_. bind_tx (check_tx (\<lambda>db. key_type \<in> set (key_types db))
            (Pg (ForeignKeyViolation ''lootbox_user_keys_lootbox_fkey'')))
     (\<lambda>_. write_tx (\<lambda>db. db\<lparr>user_keys := user_keys db @
            [\<lparr>uk_user_id = user_id, uk_key_type = key_type, uk_earned_at = env_now E\<rparr>]\<rparr>)))"

definition insert_active_key :: "env \<Rightarrow> int \<Rightarrow> unit etx" where
  "insert_active_key E user_id =
     bind_tx (read_tx active_key) (\<lambda>ks. case ks of
       [] \<Rightarrow> return_tx () | k # _ \<Rightarrow> insert_user_key E user_id k)"

definition update_active_key :: "string \<Rightarrow> unit etx" where
  "update_active_key key_type =
     bind_tx (check_tx (\<lambda>db. active_key db = [] \<or> key_type \<in> set (key_types db))
        (Pg (ForeignKeyViolation ''lootbox_active_key_lootbox_key_types_name_fk'')))
     (\<lambda>_. write_tx (\<lambda>db. db\<lparr>active_key := map (\<lambda>_. key_type) (active_key db)\<rparr>))"

subsection \<open>Rewards\<close>

definition insert_user_reward :: "env \<Rightarrow> int \<Rightarrow> string \<Rightarrow> string \<Rightarrow> string \<Rightarrow> unit etx" where
  "insert_user_reward E user_id reward_type key_type reward_name =
     bind_tx (check_tx (user_exists user_id) (Pg (ForeignKeyViolation ''user_rewards_user_id_fkey'')))
     (\<lambda>_. bind_tx (check_tx (reward_exists reward_name reward_type key_type)
            (Pg (ForeignKeyViolation ''lootbox_user_rewards_lootbox_reward_types_name_type_key_type_fk'')))
     (\<lambda>_. write_tx (\<lambda>db. db\<lparr>user_rewards := user_rewards db @
            [\<lparr>uw_user_id = user_id, uw_reward_name = reward_name, uw_earned_at = env_now E,
              uw_reward_type = reward_type, uw_key_type = key_type\<rparr>]\<rparr>)))"

text \<open>
  One random reward of a rarity and key type, with the duplicate flag and the coins a duplicate
  pays, both computed by the query.
\<close>

definition owns_reward :: "int \<Rightarrow> string \<Rightarrow> reward_type_row \<Rightarrow> econ \<Rightarrow> bool" where
  "owns_reward user_id key_type sr db \<longleftrightarrow>
     has_row (\<lambda>ur. uw_user_id ur = user_id \<and> uw_reward_name ur = rt_name sr
        \<and> uw_reward_type ur = rt_type sr \<and> uw_key_type ur = key_type) (user_rewards db)"

definition sql_duplicate_coins :: "string option \<Rightarrow> int" where
  "sql_duplicate_coins rarity =
     (if rarity = Some ''common'' then 100 else if rarity = Some ''rare'' then 250
      else if rarity = Some ''epic'' then 500 else if rarity = Some ''legendary'' then 1000 else 0)"

definition fetch_random_reward ::
  "(nat \<Rightarrow> nat) \<Rightarrow> string \<Rightarrow> string \<Rightarrow> int \<Rightarrow> econ \<Rightarrow> (reward_type_row \<times> bool \<times> int) option" where
  "fetch_random_reward keys rarity key_type user_id db =
     (case order_by_random keys (filter (\<lambda>rt. rt_rarity rt = Some (py_lower rarity)
             \<and> rt_key_type rt = key_type) (reward_types db)) of
        [] \<Rightarrow> None
      | sr # _ \<Rightarrow> Some (sr, owns_reward user_id key_type sr db,
          if owns_reward user_id key_type sr db then sql_duplicate_coins (rt_rarity sr) else 0))"

subsection \<open>Coins and XP\<close>

definition add_user_coins :: "int \<Rightarrow> int \<Rightarrow> unit etx" where
  "add_user_coins user_id amount =
     bind_tx (check_tx (\<lambda>db. int4_ok amount \<and> (case coins_of user_id db of
          None \<Rightarrow> True | Some c \<Rightarrow> int4_ok (c + amount))) (Pg NumericOutOfRange))
     (\<lambda>_. write_tx (\<lambda>db. if user_exists user_id db
        then db\<lparr>users := update_where (\<lambda>r. usr_id r = user_id)
               (\<lambda>r. r\<lparr>usr_coins := usr_coins r + amount\<rparr>) (users db)\<rparr>
        else db\<lparr>users := users db @ [\<lparr>usr_id = user_id, usr_nickname = None,
               usr_global_name = None, usr_coins = amount\<rparr>]\<rparr>))"

definition deduct_user_coins :: "int \<Rightarrow> int \<Rightarrow> int option etx" where
  "deduct_user_coins user_id amount = (\<lambda>db.
     if \<not> int4_ok amount then Inl (Pg NumericOutOfRange)
     else case first_where (\<lambda>r. usr_id r = user_id \<and> amount \<le> usr_coins r) (users db) of
         None \<Rightarrow> Inr (None, db)
       | Some r \<Rightarrow>
           if int4_ok (usr_coins r - amount)
           then Inr (Some (usr_coins r - amount),
                  db\<lparr>users := update_where (\<lambda>x. usr_id x = user_id \<and> amount \<le> usr_coins x)
                       (\<lambda>x. x\<lparr>usr_coins := usr_coins x - amount\<rparr>) (users db)\<rparr>)
           else Inl (Pg NumericOutOfRange))"

definition upsert_user_xp :: "int \<Rightarrow> int \<Rightarrow> rat \<Rightarrow> xp_grant_response etx" where
  "upsert_user_xp user_id base multiplier = (\<lambda>db.
     let gain = \<lfloor>of_int base * float_text multiplier\<rfloor>;
         previous = (case xp_of user_id db of Some n \<Rightarrow> n | None \<Rightarrow> 0)
     in if \<not> int4_ok gain \<or> \<not> int4_ok (previous + gain) then Inl (Pg NumericOutOfRange)
        else if \<not> user_exists user_id db then Inl (Pg (ForeignKeyViolation ''xp_users_user_id_fk''))
        else Inr (\<lparr>xg_previous_amount = previous, xg_new_amount = previous + gain\<rparr>,
               case xp_of user_id db of
                 Some _ \<Rightarrow> db\<lparr>xp_tbl := update_where (\<lambda>r. xp_user_id r = user_id)
                             (\<lambda>r. r\<lparr>xp_amount := xp_amount r + gain\<rparr>) (xp_tbl db)\<rparr>
               | None \<Rightarrow> db\<lparr>xp_tbl := xp_tbl db @ [\<lparr>xp_user_id = user_id, xp_amount = gain\<rparr>]\<rparr>))"

definition update_xp_multiplier :: "rat \<Rightarrow> unit etx" where
  "update_xp_multiplier multiplier =
     bind_tx (check_tx (\<lambda>db. xp_multiplier db = [] \<or> \<bar>numeric_2 (float_text multiplier)\<bar> < 100)
        (Pg NumericOutOfRange))
     (\<lambda>_. write_tx (\<lambda>db. db\<lparr>xp_multiplier := map (\<lambda>_. numeric_2 (float_text multiplier))
            (xp_multiplier db)\<rparr>))"

subsection \<open>Invariants\<close>

named_theorems repo_keeps

lemma users_ok_row:
  "users_ok db \<Longrightarrow> r \<in> set (users db) \<Longrightarrow> first_where (\<lambda>x. usr_id x = usr_id r) (users db) = Some r"
  by (simp add: users_ok_def first_where_unique)

lemma coins_of_row: "users_ok db \<Longrightarrow> r \<in> set (users db) \<Longrightarrow> coins_of (usr_id r) db = Some (usr_coins r)"
  by (simp add: coins_of_def users_ok_row)

lemma coins_of_SomeD: "coins_of u db = Some c \<Longrightarrow> \<exists>r \<in> set (users db). usr_id r = u \<and> usr_coins r = c"
  by (auto simp: coins_of_def dest: first_where_SomeD)

lemma users_ok_update:
  assumes "users_ok db" "\<And>r. usr_id (f r) = usr_id r"
    "\<And>r. r \<in> set (users db) \<Longrightarrow> P r \<Longrightarrow> int4_ok (usr_coins (f r))"
  shows "users_ok (db\<lparr>users := update_where P f (users db)\<rparr>)"
  using assms by (auto simp: users_ok_def map_update_where dest!: in_update_whereD)

lemma add_user_coins_shape:
  assumes "users_ok db" "add_user_coins u n db = Inr (x, db')"
  shows "users_ok db' \<and> db' = db\<lparr>users := users db'\<rparr>
     \<and> usr_id ` set (users db') = insert u (usr_id ` set (users db))"
proof (cases "user_exists u db")
  case True
  with assms obtain c where c: "coins_of u db = Some c" "int4_ok (c + n)"
    and db': "db' = db\<lparr>users := update_where (\<lambda>r. usr_id r = u) (\<lambda>r. r\<lparr>usr_coins := usr_coins r + n\<rparr>) (users db)\<rparr>"
    using coins_of_None [of u db]
    by (auto simp: add_user_coins_def bind_check_tx split: if_splits option.splits)
  have "users_ok db'" unfolding db'
  proof (rule users_ok_update [OF assms(1)])
    fix r assume "r \<in> set (users db)" "usr_id r = u"
    with coins_of_row [OF assms(1)] c show "int4_ok (usr_coins (r\<lparr>usr_coins := usr_coins r + n\<rparr>))" by auto
  qed simp
  moreover have "map usr_id (users db') = map usr_id (users db)"
    by (simp add: db' map_update_where)
  then have "usr_id ` set (users db') = insert u (usr_id ` set (users db))"
    using True by (metis (no_types) insert_absorb list.set_map user_exists_iff)
  ultimately show ?thesis using db' by auto
next
  case False
  with assms(2) have "int4_ok n"
    and db': "db' = db\<lparr>users := users db @ [\<lparr>usr_id = u, usr_nickname = None, usr_global_name = None, usr_coins = n\<rparr>]\<rparr>"
    by (auto simp: add_user_coins_def bind_check_tx split: if_splits)
  with assms(1) False show ?thesis
    by (simp add: users_ok_def user_exists_iff)
qed

lemma keeps_users_ok_add [keeps_rules]: "keeps users_ok (add_user_coins u n)"
  using add_user_coins_shape by (blast intro: keepsI)

lemma keeps_add_user_coins [repo_keeps]: "keeps db_ok (add_user_coins u n)"
proof (rule keepsI)
  fix db x db' assume "db_ok db" "add_user_coins u n db = Inr (x, db')"
  moreover from this have "users_ok db" by (simp add: db_ok_def)
  ultimately have "users_ok db' \<and> db' = db\<lparr>users := users db'\<rparr>
      \<and> usr_id ` set (users db) \<subseteq> usr_id ` set (users db')"
    using add_user_coins_shape by blast
  with db_ok_users [OF \<open>db_ok db\<close>, of "users db'"] show "db_ok db'" by simp
qed

lemma deduct_user_coins_shape:
  assumes "users_ok db" "deduct_user_coins u n db = Inr (q, db')"
  shows "users_ok db' \<and> (case q of
      None \<Rightarrow> db' = db \<and> (\<forall>c. coins_of u db = Some c \<longrightarrow> c < n)
    | Some b \<Rightarrow> coins_of u db = Some (b + n) \<and> 0 \<le> b
        \<and> db' = db\<lparr>users := update_where (\<lambda>r. usr_id r = u) (\<lambda>r. r\<lparr>usr_coins := usr_coins r - n\<rparr>) (users db)\<rparr>)"
proof (cases "first_where (\<lambda>r. usr_id r = u \<and> n \<le> usr_coins r) (users db)")
  case None
  with assms(2) have "db' = db" "q = None" by (auto simp: deduct_user_coins_def split: if_splits)
  moreover have "c < n" if "coins_of u db = Some c" for c
    using that None coins_of_SomeD [of u db c] by (force simp: first_where_None)
  ultimately show ?thesis using assms(1) by simp
next
  case (Some r)
  then have r: "r \<in> set (users db)" "usr_id r = u" "n \<le> usr_coins r"
    by (auto dest: first_where_SomeD)
  have uniq: "x = r" if "x \<in> set (users db)" "usr_id x = u" for x
    using that r assms(1) users_ok_row by (metis option.inject)
  have upd: "update_where (\<lambda>x. usr_id x = u \<and> n \<le> usr_coins x) f (users db) =
      update_where (\<lambda>x. usr_id x = u) f (users db)" for f
    by (rule update_where_cong) (metis uniq r(3))
  from assms(2) Some have q: "int4_ok (usr_coins r - n)" "q = Some (usr_coins r - n)"
    and db': "db' = db\<lparr>users := update_where (\<lambda>x. usr_id x = u) (\<lambda>x. x\<lparr>usr_coins := usr_coins x - n\<rparr>) (users db)\<rparr>"
    by (auto simp: deduct_user_coins_def upd split: if_splits)
  have "users_ok db'" unfolding db'
    by (rule users_ok_update [OF assms(1)]) (use uniq q in auto)
  then show ?thesis using q db' r coins_of_row [OF assms(1)] by auto
qed

lemma keeps_users_ok_deduct [keeps_rules]: "keeps users_ok (deduct_user_coins u n)"
  using deduct_user_coins_shape by (blast intro: keepsI)

lemma keeps_deduct_user_coins [repo_keeps]: "keeps db_ok (deduct_user_coins u n)"
proof (rule keepsI)
  fix db q db' assume *: "db_ok db" "deduct_user_coins u n db = Inr (q, db')"
  then have u: "users_ok db" by (simp add: db_ok_def)
  note shape = deduct_user_coins_shape [OF u *(2)]
  show "db_ok db'"
  proof (cases q)
    case None
    with shape * show ?thesis by simp
  next
    case (Some b)
    from shape [unfolded Some option.case] have db': "users_ok db'" "db' = db\<lparr>users :=
        update_where (\<lambda>r. usr_id r = u) (\<lambda>r. r\<lparr>usr_coins := usr_coins r - n\<rparr>) (users db)\<rparr>"
      by blast+
    have "map usr_id (users db') = map usr_id (users db)"
      by (simp add: db'(2) map_update_where)
    then have "usr_id ` set (users db') = usr_id ` set (users db)" by (metis list.set_map)
    moreover have "db' = db\<lparr>users := users db'\<rparr>" by (simp add: db'(2))
    ultimately show ?thesis using db'(1) db_ok_users [OF *(1), of "users db'"] by simp
  qed
qed

text \<open>The balances form a ledger.\<close>

lemma coins_of_update:
  assumes "users_ok db"
    and "\<And>r. usr_id (f r) = usr_id r" "\<And>r. usr_coins (f r) = usr_coins r + n"
  shows "coins_of j (db\<lparr>users := update_where (\<lambda>r. usr_id r = u) f (users db)\<rparr>) =
      map_option (\<lambda>c. if j = u then c + n else c) (coins_of j db)"
  using assms(2,3) by (auto simp: coins_of_def first_where_update_where option.map_comp comp_def
      dest: first_where_SomeD intro!: map_option_cong)

lemma coins_of_add:
  assumes "users_ok db" "add_user_coins u n db = Inr (x, db')"
  shows "coins_of j db' = (case coins_of j db of
      Some c \<Rightarrow> Some (if j = u then c + n else c) | None \<Rightarrow> if j = u then Some n else None)"
proof (cases "user_exists u db")
  case True
  with assms(2) have "db' = db\<lparr>users := update_where (\<lambda>r. usr_id r = u) (\<lambda>r. r\<lparr>usr_coins := usr_coins r + n\<rparr>) (users db)\<rparr>"
    by (auto simp: add_user_coins_def bind_check_tx split: if_splits)
  with coins_of_update [OF assms(1), of "\<lambda>r. r\<lparr>usr_coins := usr_coins r + n\<rparr>" n j u] True show ?thesis
    using coins_of_None [of u db] by (auto split: option.splits)
next
  case False
  with assms(2) have "db' = db\<lparr>users := users db @ [\<lparr>usr_id = u, usr_nickname = None, usr_global_name = None, usr_coins = n\<rparr>]\<rparr>"
    by (auto simp: add_user_coins_def bind_check_tx split: if_splits)
  moreover have "coins_of u db = None" using False coins_of_None by blast
  ultimately show ?thesis
    by (auto simp: coins_of_def first_where_append split: option.splits)
qed

lemma coins_of_deduct:
  assumes "users_ok db" "deduct_user_coins u n db = Inr (q, db')"
  shows "coins_of j db' = (if j = u \<and> q \<noteq> None then q else coins_of j db)"
proof (cases q)
  case None
  with deduct_user_coins_shape [OF assms] show ?thesis by simp
next
  case (Some b)
  with deduct_user_coins_shape [OF assms] have "coins_of u db = Some (b + n)"
    "db' = db\<lparr>users := update_where (\<lambda>r. usr_id r = u) (\<lambda>r. r\<lparr>usr_coins := usr_coins r - n\<rparr>) (users db)\<rparr>"
    by auto
  with coins_of_update [OF assms(1), of "\<lambda>r. r\<lparr>usr_coins := usr_coins r - n\<rparr>" "- n" j u] Some
  show ?thesis by (cases "coins_of j db") auto
qed

interpretation coin: ledger coins_of add_user_coins deduct_user_coins users_ok
proof unfold_locales
  fix s s' :: econ and j k n r c :: int and x :: unit and q
  show "keeps users_ok (add_user_coins k n)" "keeps users_ok (deduct_user_coins k n)"
    by (intro keeps_rules)+
  show "users_ok s \<Longrightarrow> coins_of k s = Some c \<Longrightarrow> add_user_coins k n s = Inr (x, s') \<Longrightarrow>
      coins_of k s' = Some (c + n)"
    by (simp add: coins_of_add)
  show "users_ok s \<Longrightarrow> j \<noteq> k \<Longrightarrow> add_user_coins k n s = Inr (x, s') \<Longrightarrow> coins_of j s' = coins_of j s"
    by (auto simp: coins_of_add split: option.splits)
  show "users_ok s \<Longrightarrow> deduct_user_coins k n s = Inr (Some r, s') \<Longrightarrow>
      coins_of k s = Some (r + n) \<and> 0 \<le> r \<and> coins_of k s' = Some r"
    using deduct_user_coins_shape [of s k n "Some r" s'] coins_of_deduct [of s k n "Some r" s' k] by simp
  show "users_ok s \<Longrightarrow> deduct_user_coins k n s = Inr (None, s') \<Longrightarrow>
      s' = s \<and> (\<forall>c. coins_of k s = Some c \<longrightarrow> c < n)"
    using deduct_user_coins_shape [of s k n None s'] by simp
  show "users_ok s \<Longrightarrow> j \<noteq> k \<Longrightarrow> deduct_user_coins k n s = Inr (q, s') \<Longrightarrow> coins_of j s' = coins_of j s"
    by (simp add: coins_of_deduct)
qed

text \<open>Keys, rewards and XP.\<close>

lemma keeps_delete_oldest_user_key [repo_keeps]: "keeps db_ok (delete_oldest_user_key u kt)"
proof (rule keepsI)
  fix db x db' assume db: "db_ok db" and run: "delete_oldest_user_key u kt db = Inr (x, db')"
  from run consider "db' = db"
    | k where "db' = db\<lparr>user_keys := remove_first (\<lambda>r. r = k) (user_keys db)\<rparr>"
    by (auto simp: delete_oldest_user_key_def split: list.splits)
  then show "db_ok db'"
  proof cases
    case 2
    have "user_keys_ok db'"
      using db set_remove_first by (fastforce simp: 2 db_ok_def user_keys_ok_def user_exists_def)
    with db show ?thesis by (simp add: 2 db_ok_user_keys)
  qed (use db in simp)
qed

lemma keeps_insert_user_key [repo_keeps]: "keeps db_ok (insert_user_key E u kt)"
proof (rule keepsI)
  fix db x db' assume db: "db_ok db" and run: "insert_user_key E u kt db = Inr (x, db')"
  then have "user_exists u db" "kt \<in> set (key_types db)"
    and db': "db' = db\<lparr>user_keys := user_keys db @
         [\<lparr>uk_user_id = u, uk_key_type = kt, uk_earned_at = env_now E\<rparr>]\<rparr>"
    by (auto simp: insert_user_key_def bind_check_tx split: if_splits)
  with db have "user_keys_ok db'" by (auto simp: db_ok_def user_keys_ok_def user_exists_def)
  with db show "db_ok db'" by (simp add: db' db_ok_user_keys)
qed

lemma keeps_insert_active_key [repo_keeps]: "keeps db_ok (insert_active_key E u)"
proof -
  have "keeps db_ok (case ks of [] \<Rightarrow> return_tx () | k # _ \<Rightarrow> insert_user_key E u k)" for ks
    by (cases ks) (auto intro: keeps_basic keeps_insert_user_key)
  then show ?thesis unfolding insert_active_key_def by (intro keeps_rules)
qed

lemma keeps_update_active_key [repo_keeps]: "keeps db_ok (update_active_key kt)"
proof (rule keepsI)
  fix db x db' assume db: "db_ok db" and run: "update_active_key kt db = Inr (x, db')"
  then have "active_key db = [] \<or> kt \<in> set (key_types db)"
    and db': "db' = db\<lparr>active_key := map (\<lambda>_. kt) (active_key db)\<rparr>"
    by (auto simp: update_active_key_def bind_check_tx split: if_splits)
  with db show "db_ok db'" by (auto simp: db' intro!: db_ok_active_key)
qed

lemma keeps_insert_user_reward [repo_keeps]: "keeps db_ok (insert_user_reward E u ty kt n)"
proof (rule keepsI)
  fix db x db' assume db: "db_ok db" and run: "insert_user_reward E u ty kt n db = Inr (x, db')"
  then have "user_exists u db" "reward_exists n ty kt db"
    and db': "db' = db\<lparr>user_rewards := user_rewards db @ [\<lparr>uw_user_id = u, uw_reward_name = n,
         uw_earned_at = env_now E, uw_reward_type = ty, uw_key_type = kt\<rparr>]\<rparr>"
    by (auto simp: insert_user_reward_def bind_check_tx split: if_splits)
  with db have "user_rewards_ok db'"
    by (auto simp: db_ok_def user_rewards_ok_def user_exists_def reward_exists_def)
  with db show "db_ok db'" by (simp add: db' db_ok_user_rewards)
qed

text \<open>The XP a user has, absent rows counting as zero, and what an upsert makes of it.\<close>

definition xp_total :: "int \<Rightarrow> econ \<Rightarrow> int" where
  "xp_total u db = (case xp_of u db of Some n \<Rightarrow> n | None \<Rightarrow> 0)"

definition xp_gain :: "int \<Rightarrow> rat \<Rightarrow> int" where
  "xp_gain base multiplier = \<lfloor>of_int base * float_text multiplier\<rfloor>"

lemma upsert_user_xp_shape:
  assumes "upsert_user_xp u base m db = Inr (r, db')"
  shows "user_exists u db" "int4_ok (xp_total u db + xp_gain base m)"
    "r = \<lparr>xg_previous_amount = xp_total u db, xg_new_amount = xp_total u db + xp_gain base m\<rparr>"
    "db' = db\<lparr>xp_tbl := (if xp_of u db = None then xp_tbl db @ [\<lparr>xp_user_id = u, xp_amount = xp_gain base m\<rparr>]
       else update_where (\<lambda>r. xp_user_id r = u) (\<lambda>r. r\<lparr>xp_amount := xp_amount r + xp_gain base m\<rparr>) (xp_tbl db))\<rparr>"
  using assms by (auto simp: upsert_user_xp_def Let_def xp_total_def xp_gain_def split: if_splits option.splits)

lemma xp_of_None: "xp_of u db = None \<longleftrightarrow> u \<notin> xp_user_id ` set (xp_tbl db)"
  by (auto simp: xp_of_def first_where_None)

lemma xp_total_upsert:
  assumes "upsert_user_xp u base m db = Inr (r, db')"
  shows "xp_total j db' = xp_total j db + (if j = u then xp_gain base m else 0)"
proof (cases "xp_of u db")
  case None
  then show ?thesis unfolding upsert_user_xp_shape(4) [OF assms]
    by (auto simp: xp_total_def xp_of_def first_where_append split: option.splits)
next
  case (Some n)
  then show ?thesis unfolding upsert_user_xp_shape(4) [OF assms]
    by (auto simp: xp_total_def xp_of_def first_where_update_where split: option.splits
        dest: first_where_SomeD)
qed

lemma keeps_upsert_user_xp [repo_keeps]: "keeps db_ok (upsert_user_xp u base m)"
proof (rule keepsI)
  fix db r db' assume db: "db_ok db" and run: "upsert_user_xp u base m db = Inr (r, db')"
  note shape = upsert_user_xp_shape [OF run]
  have "xp_ok db'"
  proof (cases "xp_of u db")
    case None
    with db shape(1,2) show ?thesis unfolding shape(4)
      by (auto simp: db_ok_def xp_ok_def user_exists_def xp_of_None xp_total_def)
  next
    case (Some n)
    have "int4_ok (xp_amount r + xp_gain base m)" if "r \<in> set (xp_tbl db)" "xp_user_id r = u" for r
    proof -
      have "first_where (\<lambda>x. xp_user_id x = xp_user_id r) (xp_tbl db) = Some r"
        using db that(1) by (simp add: db_ok_def xp_ok_def first_where_unique)
      then have "xp_total u db = xp_amount r" using that by (simp add: xp_total_def xp_of_def)
      with shape(2) show ?thesis by simp
    qed
    with Some db show ?thesis unfolding shape(4)
      by (auto simp: db_ok_def xp_ok_def user_exists_def map_update_where dest!: in_update_whereD)
  qed
  moreover have "db' = db\<lparr>xp_tbl := xp_tbl db'\<rparr>" by (simp add: shape(4))
  ultimately show "db_ok db'" using db_ok_xp [OF db, of "xp_tbl db'"] by simp
qed

lemma keeps_update_xp_multiplier [repo_keeps]: "keeps db_ok (update_xp_multiplier m)"
proof (rule keepsI)
  fix db x db' assume db: "db_ok db" and run: "update_xp_multiplier m db = Inr (x, db')"
  then have "xp_multiplier db = [] \<or> \<bar>numeric_2 (float_text m)\<bar> < 100"
    and db': "db' = db\<lparr>xp_multiplier := map (\<lambda>_. numeric_2 (float_text m)) (xp_multiplier db)\<rparr>"
    by (auto simp: update_xp_multiplier_def bind_check_tx split: if_splits)
  with db show "db_ok db'" by (auto simp: db' intro!: db_ok_multiplier)
qed

text \<open>The oldest key of the type goes, and only that one.\<close>

lemma delete_oldest_user_key_count:
  assumes "delete_oldest_user_key u kt db = Inr (True, db')"
  shows "fetch_user_key_count u kt db = Suc (fetch_user_key_count u kt db')"
    and "(v, j) \<noteq> (u, kt) \<Longrightarrow> fetch_user_key_count v j db' = fetch_user_key_count v j db"
    and "db' = db\<lparr>user_keys := user_keys db'\<rparr>"
proof -
  from assms obtain k ks where
    sorted: "sort_key uk_earned_at (filter (\<lambda>k. uk_user_id k = u \<and> uk_key_type k = kt) (user_keys db)) = k # ks"
    and db': "db' = db\<lparr>user_keys := remove_first (\<lambda>r. r = k) (user_keys db)\<rparr>"
    by (auto simp: delete_oldest_user_key_def split: list.splits)
  then have k: "k \<in> set (user_keys db)" "uk_user_id k = u" "uk_key_type k = kt"
    by (auto dest!: arg_cong [of _ _ set])
  from k show "fetch_user_key_count u kt db = Suc (fetch_user_key_count u kt db')"
    by (simp add: fetch_user_key_count_def db' length_filter_remove_first)
  show "fetch_user_key_count v j db' = fetch_user_key_count v j db" if "(v, j) \<noteq> (u, kt)"
  proof -
    have "filter (\<lambda>x. uk_key_type x = j \<and> uk_user_id x = v) (remove_first (\<lambda>r. r = k) (user_keys db)) =
        filter (\<lambda>x. uk_key_type x = j \<and> uk_user_id x = v) (user_keys db)"
      by (rule filter_remove_first_other) (use k that in auto)
    then show ?thesis by (simp add: fetch_user_key_count_def db')
  qed
  show "db' = db\<lparr>user_keys := user_keys db'\<rparr>" by (simp add: db')
qed

lemma remove_first_split:
  "k \<in> set xs \<Longrightarrow> \<exists>as bs. xs = as @ k # bs \<and> remove_first (\<lambda>r. r = k) xs = as @ bs"
proof (induction xs)
  case (Cons x xs)
  show ?case
  proof (cases "x = k")
    case True
    then show ?thesis by (intro exI [of _ "[]"] exI [of _ xs]) simp
  next
    case False
    with Cons obtain as bs where "xs = as @ k # bs" "remove_first (\<lambda>r. r = k) xs = as @ bs" by auto
    with False show ?thesis by (intro exI [of _ "x # as"] exI [of _ bs]) simp
  qed
qed simp

lemma delete_oldest_user_key_split:
  assumes "delete_oldest_user_key u kt db = Inr (True, db')"
  shows "\<exists>xs k ys. user_keys db = xs @ k # ys \<and> db' = db\<lparr>user_keys := xs @ ys\<rparr>
     \<and> uk_user_id k = u \<and> uk_key_type k = kt
     \<and> list_all (\<lambda>j. uk_earned_at k \<le> uk_earned_at j)
         (filter (\<lambda>j. uk_user_id j = u \<and> uk_key_type j = kt) (user_keys db))"
proof -
  let ?mine = "filter (\<lambda>k. uk_user_id k = u \<and> uk_key_type k = kt) (user_keys db)"
  from assms obtain k ks where sorted: "sort_key uk_earned_at ?mine = k # ks"
    and db': "db' = db\<lparr>user_keys := remove_first (\<lambda>r. r = k) (user_keys db)\<rparr>"
    by (auto simp: delete_oldest_user_key_def split: list.splits)
  have mine: "set (k # ks) = set ?mine" using sorted by (metis set_sort)
  have "sorted (map uk_earned_at (k # ks))" using sorted by (metis sorted_sort_key)
  then have least: "\<forall>j \<in> set ?mine. uk_earned_at k \<le> uk_earned_at j"
    unfolding mine [symmetric] by auto
  from mine have k: "k \<in> set (user_keys db)" "uk_user_id k = u" "uk_key_type k = kt" by auto
  from remove_first_split [OF k(1)] obtain xs ys where
    "user_keys db = xs @ k # ys" "remove_first (\<lambda>r. r = k) (user_keys db) = xs @ ys" by blast
  with k least db' show ?thesis by (auto simp: list_all_iff)
qed

lemma delete_oldest_user_key_none:
  "fetch_user_key_count u kt db = 0 \<longleftrightarrow> delete_oldest_user_key u kt db = Inr (False, db)"
proof -
  have "fetch_user_key_count u kt db = 0 \<longleftrightarrow>
      filter (\<lambda>k. uk_user_id k = u \<and> uk_key_type k = kt) (user_keys db) = []"
    by (auto simp: fetch_user_key_count_def filter_empty_conv)
  also have "\<dots> \<longleftrightarrow> delete_oldest_user_key u kt db = Inr (False, db)"
    by (auto simp: delete_oldest_user_key_def split: list.splits dest!: arg_cong [of _ _ set])
  finally show ?thesis .
qed

lemma delete_oldest_user_key_total:
  "\<exists>b db'. delete_oldest_user_key u kt db = Inr (b, db')"
  by (auto simp: delete_oldest_user_key_def split: list.splits)

subsection \<open>Tiers\<close>

definition tiers_seeded :: "econ \<Rightarrow> bool" where
  "tiers_seeded db \<longleftrightarrow> main_tiers db = seeded_main_tiers \<and> sub_tiers db = seeded_sub_tiers"

text \<open>The place of an amount of XP: the main tier, the sub-tier and the prestige level.\<close>

definition main_index :: "int \<Rightarrow> int" where
  "main_index xp = xp div 100 mod 100 div 5"

definition sub_index :: "int \<Rightarrow> int" where
  "sub_index xp = xp div 100 mod 5"

lemma int_below_20: "0 \<le> i \<Longrightarrow> i < 20 \<Longrightarrow> (i::int) \<in> {0,1,2,3,4,5,6,7,8,9,10,11,12,13,14,15,16,17,18,19}"
  by (simp, presburger)

lemma int_below_5: "0 \<le> i \<Longrightarrow> i < 5 \<Longrightarrow> (i::int) \<in> {0,1,2,3,4}"
  by (simp, presburger)

lemma main_tier_name:
  "0 \<le> i \<Longrightarrow> i < 20 \<Longrightarrow> filter (\<lambda>r. i = tr_threshold r) seeded_main_tiers = [seeded_main_tiers ! nat i]"
  by (drule (1) int_below_20) (auto simp: seeded_main_tiers_def)

lemma sub_tier_name:
  "0 \<le> i \<Longrightarrow> i < 5 \<Longrightarrow> filter (\<lambda>r. i = tr_threshold r) seeded_sub_tiers = [seeded_sub_tiers ! nat i]"
  by (drule (1) int_below_5) (auto simp: seeded_sub_tiers_def)

lemma first_where_filter: "first_where P rows = (case filter P rows of [] \<Rightarrow> None | r # _ \<Rightarrow> Some r)"
  by (induction rows) auto

definition main_name :: "int \<Rightarrow> string" where
  "main_name i = tr_name (seeded_main_tiers ! nat i)"

definition sub_name :: "int \<Rightarrow> string" where
  "sub_name i = tr_name (seeded_sub_tiers ! nat i)"

lemma tier_name_main: "0 \<le> i \<Longrightarrow> i < 20 \<Longrightarrow> tier_name i seeded_main_tiers = Some (main_name i)"
  by (simp add: tier_name_def first_where_filter main_tier_name main_name_def)

lemma tier_name_sub: "0 \<le> i \<Longrightarrow> i < 5 \<Longrightarrow> tier_name i seeded_sub_tiers = Some (sub_name i)"
  by (simp add: tier_name_def first_where_filter sub_tier_name sub_name_def)

lemma main_name_inject: "0 \<le> i \<Longrightarrow> i < 20 \<Longrightarrow> 0 \<le> j \<Longrightarrow> j < 20 \<Longrightarrow> main_name i = main_name j \<longleftrightarrow> i = j"
proof -
  assume ij: "0 \<le> i" "i < 20" "0 \<le> j" "j < 20"
  have "distinct (map tr_name seeded_main_tiers)" "length seeded_main_tiers = 20"
    by (simp_all add: seeded_main_tiers_def)
  with ij nth_eq_iff_index_eq [of "map tr_name seeded_main_tiers" "nat i" "nat j"]
  show ?thesis by (simp add: main_name_def eq_nat_nat_iff)
qed

lemma sub_name_inject: "0 \<le> i \<Longrightarrow> i < 5 \<Longrightarrow> 0 \<le> j \<Longrightarrow> j < 5 \<Longrightarrow> sub_name i = sub_name j \<longleftrightarrow> i = j"
proof -
  assume ij: "0 \<le> i" "i < 5" "0 \<le> j" "j < 5"
  have "distinct (map tr_name seeded_sub_tiers)" "length seeded_sub_tiers = 5"
    by (simp_all add: seeded_sub_tiers_def)
  with ij nth_eq_iff_index_eq [of "map tr_name seeded_sub_tiers" "nat i" "nat j"]
  show ?thesis by (simp add: sub_name_def eq_nat_nat_iff)
qed

lemma index_bounds:
  "0 \<le> main_index xp" "main_index xp < 20" "0 \<le> sub_index xp" "sub_index xp < 5"
proof -
  have "xp div 100 mod 100 < 100" by simp
  then show "main_index xp < 20" unfolding main_index_def by linarith
qed (simp_all add: main_index_def sub_index_def pos_imp_zdiv_nonneg_iff)

lemma tier_rows_seeded:
  assumes "tiers_seeded db" "0 \<le> xp"
  shows "tier_rows xp db = [(main_name (main_index xp), Some (sub_name (sub_index xp)))]"
  using assms index_bounds [of xp]
  by (simp add: tier_rows_def tiers_seeded_def sql_div_nonneg sql_mod_nonneg left_join_def
      main_tier_name sub_tier_name main_index_def sub_index_def main_name_def sub_name_def
      pos_imp_zdiv_nonneg_iff)

lemma tier_change_seeded:
  assumes "tiers_seeded db" "0 \<le> old_xp" "0 \<le> new_xp"
  shows "fetch_xp_tier_change old_xp new_xp db = Some
     \<lparr>tc_old_xp = old_xp, tc_new_xp = new_xp,
      tc_old_main_tier_name = main_name (main_index old_xp), tc_new_main_tier_name = main_name (main_index new_xp),
      tc_old_sub_tier_name = Some (sub_name (sub_index old_xp)),
      tc_new_sub_tier_name = Some (sub_name (sub_index new_xp)),
      tc_old_prestige_level = old_xp div 10000, tc_new_prestige_level = new_xp div 10000,
      tc_rank_change_type =
        (if main_index old_xp \<noteq> main_index new_xp then Some ''Main Tier Rank Up''
         else if sub_index old_xp \<noteq> sub_index new_xp then Some ''Sub-Tier Rank Up'' else None),
      tc_prestige_change = (old_xp div 10000 \<noteq> new_xp div 10000)\<rparr>"
  using assms index_bounds [of old_xp] index_bounds [of new_xp]
  by (simp add: fetch_xp_tier_change_def tier_rows_seeded sql_div_nonneg pos_imp_zdiv_nonneg_iff
      rank_change_def main_name_inject sub_name_inject Let_def div_mult2_eq [of _ 100 100, simplified, symmetric]
      zdiv_zmult2_eq [of 100 _ 100, simplified, symmetric])

lemma main_index_steps: "(q :: int) mod 100 div 5 = q div 5 mod 20"
  using zmod_zmult2_eq [of 20 q 5] by simp

lemma succ_div_5: "((q :: int) + 1) div 5 = q div 5 + (if q mod 5 = 4 then 1 else 0)"
  by presburger

lemma base_5:
  fixes m n s t :: int
  assumes "0 \<le> s" "s < 5" "0 \<le> t" "t < 5"
  shows "m = n \<and> s = t \<longleftrightarrow> 5 * m + s = 5 * n + t"
  using assms by presburger

lemma place_index:
  "main_index a = main_index b \<and> sub_index a = sub_index b \<longleftrightarrow> a div 100 mod 100 = b div 100 mod 100"
proof -
  have "5 * main_index x + sub_index x = x div 100 mod 100" for x
    unfolding main_index_def sub_index_def main_index_steps
    using zmod_zmult2_eq [of 20 "x div 100" 5] by simp
  then show ?thesis
    using base_5 [of "sub_index a" "sub_index b" "main_index a" "main_index b"]
      index_bounds [of a] index_bounds [of b] by simp
qed

lemma next_main_steps: "(((k :: int) mod 20 + 1) * 5 + k div 20 * 100) * 100 = (k + 1) * 500"
  by presburger

lemma next_tier_bounds:
  fixes x :: int
  shows "x < (x div 100 + 1) * 100" "(x div 100 + 1) * 100 \<le> x + 100"
    "(x div 100 + 1) * 100 \<le> (x div 500 + 1) * 500" "(x div 500 + 1) * 500 \<le> x + 500"
proof -
  show "x < (x div 100 + 1) * 100" "(x div 100 + 1) * 100 \<le> x + 100" by presburger+
  show "(x div 500 + 1) * 500 \<le> x + 500" by presburger
  have "k + 1 \<le> (k div 5 + 1) * 5" for k :: int by presburger
  from this [of "x div 100"] show "(x div 100 + 1) * 100 \<le> (x div 500 + 1) * 500"
    by (simp add: zdiv_zmult2_eq [symmetric])
qed

lemma next_indexes:
  fixes xp :: int
  assumes "0 \<le> xp"
  defines "xp' \<equiv> (xp div 100 + 1) * 100"
  shows "main_index xp' = (if sub_index xp = 4 then (main_index xp + 1) mod 20 else main_index xp)"
    "sub_index xp' = (xp div 100 + 1) mod 5"
proof -
  have r: "xp' div 100 = xp div 100 + 1" by (simp add: xp'_def)
  then show "sub_index xp' = (xp div 100 + 1) mod 5" by (simp add: sub_index_def)
  show "main_index xp' = (if sub_index xp = 4 then (main_index xp + 1) mod 20 else main_index xp)"
    unfolding main_index_def sub_index_def r main_index_steps succ_div_5 by (simp add: mod_add_left_eq)
qed

lemma xp_summary_seeded:
  assumes "tiers_seeded db" "user_exists u db" "0 \<le> xp_total u db"
  defines "xp \<equiv> xp_total u db"
  defines "xp' \<equiv> (xp div 100 + 1) * 100"
  defines "next_main \<equiv> (xp div 500 + 1) * 500"
  shows "fetch_user_xp_summary u db = Some
     \<lparr>xs_xp = xp, xs_raw_tier = xp div 100, xs_normalized_tier = xp div 100 mod 100,
      xs_prestige_level = xp div 10000,
      xs_current_main_tier_name = Some (main_name (main_index xp)),
      xs_current_sub_tier_name = Some (sub_name (sub_index xp)),
      xs_current_full_tier_name = Some (main_name (main_index xp) @ '' '' @ sub_name (sub_index xp)),
      xs_next_main_tier_name = Some (main_name ((main_index xp + 1) mod 20)),
      xs_next_sub_tier_name = Some (sub_name (sub_index xp')),
      xs_next_full_tier_name = Some (main_name (main_index xp') @ '' '' @ sub_name (sub_index xp')),
      xs_next_sub_tier_xp_required = xp' - xp, xs_next_sub_tier_xp_total = xp',
      xs_next_main_tier_xp_required = next_main - xp, xs_next_main_tier_xp_total = next_main\<rparr>"
proof -
  have nn: "0 \<le> xp" "0 \<le> xp div 100" using assms(3) by (simp_all add: xp_def pos_imp_zdiv_nonneg_iff)
  have xp: "(case xp_of u db of Some n \<Rightarrow> n | None \<Rightarrow> 0) = xp" by (simp add: xp_def xp_total_def)
  have p: "xp div 100 div 100 = xp div 10000" by (simp add: zdiv_zmult2_eq [symmetric])
  have m: "((main_index xp + 1) * 5 + xp div 10000 * 100) * 100 = next_main"
  proof -
    have "xp div 100 div 5 = xp div 500" "xp div 10000 = xp div 500 div 20"
      using nn by (simp_all add: zdiv_zmult2_eq [symmetric])
    then show ?thesis
      unfolding main_index_def main_index_steps next_main_def by (simp only: next_main_steps)
  qed
  have nx: "main_index xp' = (if sub_index xp = 4 then (main_index xp + 1) mod 20 else main_index xp)"
      "(xp div 100 + 1) mod 5 = sub_index xp'"
    using next_indexes [OF nn(1)] unfolding xp'_def by simp_all
  have tn: "tier_name (main_index xp) (main_tiers db) = Some (main_name (main_index xp))"
    "tier_name (sub_index xp) (sub_tiers db) = Some (sub_name (sub_index xp))"
    "tier_name ((main_index xp + 1) mod 20) (main_tiers db) = Some (main_name ((main_index xp + 1) mod 20))"
    "tier_name (sub_index xp') (sub_tiers db) = Some (sub_name (sub_index xp'))"
    using assms(1) index_bounds by (simp_all add: tiers_seeded_def tier_name_main tier_name_sub)
  have sd: "sql_div xp 100 = xp div 100" "sql_mod (xp div 100) 100 = xp div 100 mod 100"
    "sql_div (xp div 100) 100 = xp div 10000" "sql_mod (xp div 100) 5 = sub_index xp"
    by (simp_all only: sql_div_nonneg sql_mod_nonneg nn p sub_index_def zero_less_numeral)
  have sd2: "sql_div (xp div 100 mod 100) 5 = main_index xp"
    by (simp only: main_index_def sql_div_nonneg pos_mod_sign zero_less_numeral)
  have sd3: "sql_mod (main_index xp + 1) 20 = (main_index xp + 1) mod 20"
    using index_bounds(1) [of xp] by (simp add: sql_mod_nonneg)
  have sd4: "sql_mod (xp div 100 + 1) 5 = sub_index xp'"
    using nn nx(2) by (simp add: sql_mod_nonneg)
  have full: "(if sub_index xp = 4
       then full_name (Some (main_name ((main_index xp + 1) mod 20))) (Some (sub_name (sub_index xp')))
       else full_name (Some (main_name (main_index xp))) (Some (sub_name (sub_index xp')))) =
     Some (main_name (main_index xp') @ '' '' @ sub_name (sub_index xp'))"
    by (simp add: full_name_def nx(1))
  show ?thesis
    unfolding fetch_user_xp_summary_def Let_def xp sd sd2 sd3 sd4 tn m xp'_def [symmetric] full
    using assms(2) by (simp add: full_name_def)
qed

end
