(* ===== verification/Lootbox_Service.thy ===== *)
theory Lootbox_Service
  imports Lootbox_Repo "HOL-Library.Sublist"
begin

section \<open>The lootbox service\<close>

text \<open>
  \<open>apps/api/services/lootbox_service.py\<close> and the publishing half of \<open>services/base.py\<close>: the
  gacha, granting keys, rewards, coins and XP, and the XP notification. A method that opens a
  transaction is \<open>atomically\<close> its body; a method that calls the repository without a connection
  commits every statement.
\<close>

subsection \<open>Publishing\<close>

definition ignore_idempotency :: "string list" where
  "ignore_idempotency = [''api.completion.upvote'', ''api.completion.verification.delete'',
     ''api.notification.delivery'', ''api.playtest.vote.cast'', ''api.playtest.vote.remove'',
     ''api.xp.grant'', ''api.completion.autoverification.failed'']"

definition insert_job :: "int \<Rightarrow> string \<Rightarrow> unit etx" where
  "insert_job job_id action =
     bind_tx (check_tx (\<lambda>db. \<not> has_row (\<lambda>j. jb_id j = job_id) (jobs db)) (Pg (UniqueViolation ''jobs_pkey'')))
     (\<lambda>_. write_tx (\<lambda>db. db\<lparr>jobs := jobs db @ [\<lparr>jb_id = job_id, jb_action = action\<rparr>]\<rparr>))"

definition job_status :: "int \<Rightarrow> job_status \<Rightarrow> job_status_response" where
  "job_status i s = \<lparr>js_id = i, js_status = s, js_error_code = None, js_error_msg = None\<rparr>"

definition failed_job :: "int \<Rightarrow> job_status_response" where
  "failed_job i = \<lparr>js_id = i, js_status = Failed, js_error_code = Some [],
     js_error_msg = Some ''Failed to send message.''\<rparr>"

text \<open>
  A broker or database error while sending is turned into the status \<open>Failed\<close>; the job row may
  then have been committed without a message. No channel to send on is not caught.
\<close>

definition publish_message ::
  "env \<Rightarrow> int \<Rightarrow> bool \<Rightarrow> string \<Rightarrow> payload \<Rightarrow> string option \<Rightarrow> job_status_response eio" where
  "publish_message E job_id pytest routing_key data idempotency_key =
     (if routing_key \<notin> set ignore_idempotency \<and> (idempotency_key = None \<or> idempotency_key = Some [])
      then raise_io (Py (ValueError ''idempotency_key required''))
      else if pytest then return_io (job_status job_id Succeeded)
      else if env_broker E = NoChannel then raise_io Amqp
      else catch_io
        (bind_io (atomically (insert_job job_id routing_key)) (\<lambda>_.
           if env_broker E = PublishFails then raise_io Amqp
           else bind_io (send_io \<lparr>ms_routing_key = routing_key, ms_payload = data,
                  ms_correlation_id = job_id,
                  ms_message_id = (case idempotency_key of
                     Some k \<Rightarrow> if k = [] then JobKey job_id else IdempotencyKey k
                   | None \<Rightarrow> JobKey job_id)\<rparr>)
             (\<lambda>_. return_io (job_status job_id Queued))))
        (\<lambda>_. return_io (failed_job job_id)))"

subsection \<open>The gacha\<close>

definition gacha_weights :: "(string \<times> int) list" where
  "gacha_weights = [(''legendary'', 3), (''epic'', 5), (''rare'', 25), (''common'', 65)]"

definition duplicate_coin_values :: "(string \<times> int) list" where
  "duplicate_coin_values = [(''common'', 100), (''rare'', 250), (''epic'', 500), (''legendary'', 1000)]"

text \<open>
  \<open>random.choices(population, weights, k=1)\<close> for a random number \<open>r\<close> in \<open>[0, 1)\<close>: the index is
  a right bisection of the running totals, all but the last, at \<open>r * total\<close>.
\<close>

fun running_totals :: "int \<Rightarrow> int list \<Rightarrow> int list" where
  "running_totals acc [] = []"
| "running_totals acc (w # ws) = (acc + w) # running_totals (acc + w) ws"

definition bisect_right :: "int list \<Rightarrow> rat \<Rightarrow> nat" where
  "bisect_right cs x = length (takeWhile (\<lambda>c. of_int c \<le> x) cs)"

definition random_choices :: "'a list \<Rightarrow> int list \<Rightarrow> rat \<Rightarrow> 'a" where
  "random_choices population weights r =
     (let cum = running_totals 0 weights
      in population ! bisect_right (butlast cum) (fl (r * of_int (last cum))))"

definition perform_gacha :: "rat \<Rightarrow> string" where
  "perform_gacha r = random_choices (map fst gacha_weights) (map snd gacha_weights) r"

subsection \<open>Views\<close>

text \<open>
  \<open>msgspec.convert\<close> of rows to a struct: a \<open>NULL\<close> in a field that is not optional, or a key
  type outside the literal type, is a validation error.
\<close>

definition convert_all :: "('r \<Rightarrow> 'a option) \<Rightarrow> 'r list \<Rightarrow> py_error + 'a list" where
  "convert_all f rows = (if list_all (\<lambda>r. f r \<noteq> None) rows then Inr (map (the \<circ> f) rows)
     else Inl ValidationError)"

definition convert_reward :: "reward_type_row \<Rightarrow> reward_type_response option" where
  "convert_reward r = (if rt_rarity r \<noteq> None \<and> rt_key_type r \<in> set lootbox_key_types
     then Some (mk_reward (rt_name r) (rt_key_type r) (rt_rarity r) (rt_type r) False 0) else None)"

definition view_all_rewards ::
  "string option \<Rightarrow> string option \<Rightarrow> string option \<Rightarrow> reward_type_response list eio" where
  "view_all_rewards reward_type key_type rarity =
     bind_io (atomically (read_tx (fetch_all_rewards reward_type key_type rarity)))
       (\<lambda>rows. lift_io (lift_py (convert_all convert_reward rows)))"

definition view_all_keys :: "string option \<Rightarrow> string list eio" where
  "view_all_keys key_type = atomically (read_tx (fetch_all_key_types key_type))"

definition convert_user_reward :: "user_reward_sql \<Rightarrow> user_reward_response option" where
  "convert_user_reward r = (case (urs_name r, urs_type r, urs_rarity r) of
      (Some n, Some t, Some q) \<Rightarrow> Some \<lparr>urr_user_id = urs_user_id r, urr_earned_at = urs_earned_at r,
          urr_name = n, urr_type = t, urr_rarity = q, urr_medal = urs_medal r,
          urr_url = user_reward_url t n (urs_medal r)\<rparr>
    | _ \<Rightarrow> None)"

definition view_user_rewards ::
  "env \<Rightarrow> int \<Rightarrow> string option \<Rightarrow> string option \<Rightarrow> string option \<Rightarrow> user_reward_response list eio" where
  "view_user_rewards E user_id reward_type key_type rarity =
     bind_io (atomically (read_tx (fetch_user_rewards E user_id reward_type key_type rarity)))
       (\<lambda>rows. lift_io (lift_py (convert_all convert_user_reward rows)))"

definition view_user_keys :: "int \<Rightarrow> string option \<Rightarrow> user_key_amount list eio" where
  "view_user_keys user_id key_type =
     bind_io (atomically (read_tx (fetch_user_keys user_id key_type)))
       (\<lambda>rows. lift_io (lift_py (convert_all
          (\<lambda>r. if uka_key_type r \<in> set lootbox_key_types then Some r else None) rows)))"

definition view_user_coins :: "int \<Rightarrow> int eio" where
  "view_user_coins user_id = atomically (read_tx (fetch_user_coins user_id))"

definition summary_names_ok :: "xp_summary \<Rightarrow> bool" where
  "summary_names_ok s \<longleftrightarrow> xs_current_main_tier_name s \<noteq> None \<and> xs_current_sub_tier_name s \<noteq> None
     \<and> xs_current_full_tier_name s \<noteq> None \<and> xs_next_main_tier_name s \<noteq> None
     \<and> xs_next_sub_tier_name s \<noteq> None \<and> xs_next_full_tier_name s \<noteq> None"

definition view_user_xp_summary :: "int \<Rightarrow> xp_summary option eio" where
  "view_user_xp_summary user_id =
     bind_io (atomically (read_tx (fetch_user_xp_summary user_id))) (\<lambda>row. case row of
        None \<Rightarrow> return_io None
      | Some s \<Rightarrow> if summary_names_ok s then return_io (Some s) else raise_io (Py ValidationError))"

definition view_xp_multiplier :: "rat eio" where
  "view_xp_multiplier = atomically (read_tx fetch_xp_multiplier)"

definition get_xp_tier_change :: "int \<Rightarrow> int \<Rightarrow> tier_change eio" where
  "get_xp_tier_change old_xp new_xp =
     bind_io (atomically (read_tx (fetch_xp_tier_change old_xp new_xp))) (\<lambda>row. case row of
        None \<Rightarrow> raise_io (Py ValidationError)
      | Some c \<Rightarrow> if tc_old_sub_tier_name c \<noteq> None \<and> tc_new_sub_tier_name c \<noteq> None
                  then return_io c else raise_io (Py ValidationError))"

subsection \<open>Keys and rewards\<close>

definition grant_key_to_user :: "env \<Rightarrow> int \<Rightarrow> string \<Rightarrow> unit eio" where
  "grant_key_to_user E user_id key_type = atomically (insert_user_key E user_id key_type)"

definition grant_active_key_to_user :: "env \<Rightarrow> int \<Rightarrow> unit eio" where
  "grant_active_key_to_user E user_id = atomically (insert_active_key E user_id)"

text \<open>The rarity of a named reward among the definitions of a type and key, \<open>common\<close> if there is none.\<close>

definition rarity_of_named :: "string \<Rightarrow> reward_type_row list \<Rightarrow> string option" where
  "rarity_of_named reward_name rewards =
     (case filter (\<lambda>r. rt_name r = reward_name) rewards of
        r # _ \<Rightarrow> rt_rarity r | [] \<Rightarrow> Some ''common'')"

definition duplicate_coins :: "string \<Rightarrow> int" where
  "duplicate_coins rarity = (case map_of duplicate_coin_values (py_lower rarity) of
     Some n \<Rightarrow> n | None \<Rightarrow> 0)"

definition grant_reward_tx :: "env \<Rightarrow> int \<Rightarrow> string \<Rightarrow> string \<Rightarrow> string \<Rightarrow> reward_type_response etx" where
  "grant_reward_tx E user_id reward_type key_type reward_name =
     (if reward_type = ''coins'' then
        bind_tx (lift_tx (lift_py (py_int_of_string reward_name))) (\<lambda>coin_amount.
        bind_tx (add_user_coins user_id coin_amount) (\<lambda>_.
        bind_tx (read_tx (fetch_all_rewards (Some reward_type) (Some key_type) None)) (\<lambda>rewards.
        return_tx (mk_reward reward_name key_type (rarity_of_named reward_name rewards)
          reward_type False coin_amount))))
      else
        bind_tx (read_tx (check_user_has_reward user_id reward_type key_type reward_name)) (\<lambda>rarity.
        case rarity of
          Some q \<Rightarrow>
            if q \<noteq> [] then
              bind_tx (add_user_coins user_id (duplicate_coins q)) (\<lambda>_.
              return_tx (mk_reward reward_name key_type (Some q) reward_type True (duplicate_coins q)))
            else
              bind_tx (insert_user_reward E user_id reward_type key_type reward_name) (\<lambda>_.
              bind_tx (read_tx (fetch_all_rewards (Some reward_type) (Some key_type) None)) (\<lambda>rewards.
              return_tx (mk_reward reward_name key_type (rarity_of_named reward_name rewards)
                reward_type False 0)))
        | None \<Rightarrow>
            bind_tx (insert_user_reward E user_id reward_type key_type reward_name) (\<lambda>_.
            bind_tx (read_tx (fetch_all_rewards (Some reward_type) (Some key_type) None)) (\<lambda>rewards.
            return_tx (mk_reward reward_name key_type (rarity_of_named reward_name rewards)
              reward_type False 0)))))"

definition grant_reward_to_user :: "env \<Rightarrow> int \<Rightarrow> string \<Rightarrow> string \<Rightarrow> string \<Rightarrow> reward_type_response eio" where
  "grant_reward_to_user E user_id reward_type key_type reward_name =
     atomically (grant_reward_tx E user_id reward_type key_type reward_name)"

definition debug_grant_reward_no_key :: "env \<Rightarrow> int \<Rightarrow> string \<Rightarrow> string \<Rightarrow> string \<Rightarrow> unit eio" where
  "debug_grant_reward_no_key E user_id key_type reward_type reward_name =
     (if reward_type \<noteq> ''coins'' then
        atomically (insert_user_reward E user_id reward_type key_type reward_name)
      else bind_io (lift_io (lift_py (py_int_of_string reward_name))) (\<lambda>coin_amount.
        atomically (add_user_coins user_id coin_amount)))"

subsection \<open>Opening a lootbox\<close>

text \<open>
  One draw: a rarity from the gacha, then a random reward of it; a rarity without rewards gives
  nothing. The random numbers of the three draws are arguments.
\<close>

definition draw_item :: "(nat \<Rightarrow> rat) \<Rightarrow> (nat \<Rightarrow> nat \<Rightarrow> nat) \<Rightarrow> int \<Rightarrow> string \<Rightarrow> nat \<Rightarrow> reward_type_response list etx" where
  "draw_item gacha keys user_id key_type i =
     bind_tx (read_tx (fetch_random_reward (keys i) (perform_gacha (gacha i)) key_type user_id)) (\<lambda>row.
       case row of
         None \<Rightarrow> return_tx []
       | Some (r, dup, coins) \<Rightarrow>
           return_tx [mk_reward (rt_name r) key_type (rt_rarity r) (rt_type r) dup coins])"

definition get_random_items_tx ::
  "(nat \<Rightarrow> rat) \<Rightarrow> (nat \<Rightarrow> nat \<Rightarrow> nat) \<Rightarrow> int \<Rightarrow> string \<Rightarrow> bool \<Rightarrow> reward_type_response list etx" where
  "get_random_items_tx gacha keys user_id key_type test_mode =
     bind_tx (if test_mode then return_tx True else delete_oldest_user_key user_id key_type) (\<lambda>key_deleted.
     if \<not> key_deleted then raise_tx (Lootbox (InsufficientKeysError key_type))
     else bind_tx (map_tx [0, 1, 2] (draw_item gacha keys user_id key_type)) (\<lambda>results.
       return_tx (concat results)))"

definition get_random_items ::
  "(nat \<Rightarrow> rat) \<Rightarrow> (nat \<Rightarrow> nat \<Rightarrow> nat) \<Rightarrow> int \<Rightarrow> string \<Rightarrow> bool \<Rightarrow> reward_type_response list eio" where
  "get_random_items gacha keys user_id key_type test_mode =
     atomically (get_random_items_tx gacha keys user_id key_type test_mode)"

subsection \<open>XP\<close>

definition xp_event :: "int \<Rightarrow> int \<Rightarrow> xp_type \<Rightarrow> string option \<Rightarrow> xp_grant_response \<Rightarrow> xp_grant_event" where
  "xp_event user_id amount ty reason result =
     \<lparr>xe_user_id = user_id, xe_amount = amount, xe_type = ty,
      xe_previous_amount = xg_previous_amount result, xe_new_amount = xg_new_amount result,
      xe_reason = reason\<rparr>"

text \<open>With the caller's connection and collector: the event is kept for after the commit.\<close>

definition grant_xp_deferred ::
  "int \<Rightarrow> int \<Rightarrow> xp_type \<Rightarrow> string option \<Rightarrow> xp_grant_event list \<Rightarrow>
     (xp_grant_response \<times> xp_grant_event list) etx" where
  "grant_xp_deferred user_id amount ty reason pending_events =
     bind_tx (read_tx fetch_xp_multiplier) (\<lambda>multiplier.
     bind_tx (upsert_user_xp user_id amount multiplier) (\<lambda>result.
     return_tx (result, pending_events @ [xp_event user_id amount ty reason result])))"

text \<open>Without a connection: two statements, each committed, then the event is published.\<close>

definition grant_xp ::
  "env \<Rightarrow> bool \<Rightarrow> int \<Rightarrow> int \<Rightarrow> xp_type \<Rightarrow> string option \<Rightarrow> xp_grant_response eio" where
  "grant_xp E pytest user_id amount ty reason =
     bind_io (atomically (read_tx fetch_xp_multiplier)) (\<lambda>multiplier.
     bind_io (atomically (upsert_user_xp user_id amount multiplier)) (\<lambda>result.
     bind_io (publish_message E (env_job_ids E 0) pytest ''api.xp.grant''
        (XpGrant (xp_event user_id amount ty reason result)) None) (\<lambda>_.
     return_io result)))"

definition grant_user_xp :: "env \<Rightarrow> bool \<Rightarrow> int \<Rightarrow> xp_grant_request \<Rightarrow> xp_grant_response eio" where
  "grant_user_xp E pytest user_id data =
     grant_xp E pytest user_id (xgr_amount data) (xgr_type data) (xgr_reason data)"

text \<open>After the commit: every event is tried, and a failure to publish is dropped.\<close>

definition publish_xp_events :: "env \<Rightarrow> bool \<Rightarrow> xp_grant_event list \<Rightarrow> unit eio" where
  "publish_xp_events E pytest events =
     for_io (zip [0..<length events] events) (\<lambda>(i, event).
       catch_io (bind_io (publish_message E (env_job_ids E i) pytest ''api.xp.grant'' (XpGrant event) None)
           (\<lambda>_. return_io ()))
         (\<lambda>_. return_io ()))"

definition svc_update_xp_multiplier :: "rat \<Rightarrow> unit eio" where
  "svc_update_xp_multiplier multiplier = atomically (update_xp_multiplier multiplier)"

definition svc_update_active_key :: "string \<Rightarrow> unit eio" where
  "svc_update_active_key key_type = atomically (update_active_key key_type)"

subsection \<open>Invariants\<close>

text \<open>Every transaction and every method keeps the constraints of the schema.\<close>

lemma keeps_insert_job [repo_keeps]: "keeps db_ok (insert_job i a)"
  unfolding insert_job_def by (intro keeps_rules keeps_write db_ok_unchecked)

lemma keeps_publish_message [repo_keeps]:
  "keeps_io db_ok (publish_message E i pytest key data idem)"
  unfolding publish_message_def by (intro keeps_rules repo_keeps)

lemma keeps_grant_reward_tx [repo_keeps]: "keeps db_ok (grant_reward_tx E u ty kt n)"
  unfolding grant_reward_tx_def by (intro keeps_rules repo_keeps)

lemma keeps_draw_item: "keeps P (draw_item gacha keys u kt i)"
  unfolding draw_item_def by (intro keeps_rules)

lemma keeps_get_random_items_tx [repo_keeps]:
  "keeps db_ok (get_random_items_tx gacha keys u kt test_mode)"
  unfolding get_random_items_tx_def by (intro keeps_rules repo_keeps keeps_draw_item)

lemma keeps_grant_xp_deferred [repo_keeps]: "keeps db_ok (grant_xp_deferred u n ty reason pending)"
  unfolding grant_xp_deferred_def by (intro keeps_rules repo_keeps)

lemma keeps_lootbox_methods [repo_keeps]:
  "keeps_io db_ok (view_all_rewards a b c)" "keeps_io db_ok (view_all_keys k)"
  "keeps_io db_ok (view_user_rewards E u a b c)" "keeps_io db_ok (view_user_keys u k)"
  "keeps_io db_ok (view_user_coins u)" "keeps_io db_ok (view_user_xp_summary u)"
  "keeps_io db_ok view_xp_multiplier" "keeps_io db_ok (get_xp_tier_change old new)"
  "keeps_io db_ok (grant_key_to_user E u kt)" "keeps_io db_ok (grant_active_key_to_user E u)"
  "keeps_io db_ok (grant_reward_to_user E u ty kt n)"
  "keeps_io db_ok (debug_grant_reward_no_key E u kt ty n)"
  "keeps_io db_ok (get_random_items gacha keys u kt test_mode)"
  "keeps_io db_ok (grant_xp E pytest u xn xty reason)"
  "keeps_io db_ok (grant_user_xp E pytest u data)"
  "keeps_io db_ok (publish_xp_events E pytest events)"
  "keeps_io db_ok (svc_update_xp_multiplier m)" "keeps_io db_ok (svc_update_active_key kt)"
  unfolding view_all_rewards_def view_all_keys_def view_user_rewards_def view_user_keys_def
    view_user_coins_def view_user_xp_summary_def view_xp_multiplier_def get_xp_tier_change_def
    grant_key_to_user_def grant_active_key_to_user_def grant_reward_to_user_def
    debug_grant_reward_no_key_def get_random_items_def grant_user_xp_def grant_xp_def
    publish_xp_events_def svc_update_xp_multiplier_def svc_update_active_key_def
  by (intro keeps_rules repo_keeps)+

subsection \<open>What the methods do\<close>

text \<open>Drawing items reads only, so the draws of one lootbox see the same database.\<close>

definition drawn :: "(nat \<Rightarrow> rat) \<Rightarrow> (nat \<Rightarrow> nat \<Rightarrow> nat) \<Rightarrow> int \<Rightarrow> string \<Rightarrow> econ \<Rightarrow> nat \<Rightarrow> reward_type_response list" where
  "drawn gacha keys u kt db i = (case fetch_random_reward (keys i) (perform_gacha (gacha i)) kt u db of
      None \<Rightarrow> [] | Some (r, dup, coins) \<Rightarrow> [mk_reward (rt_name r) kt (rt_rarity r) (rt_type r) dup coins])"

lemma draw_item_run: "draw_item gacha keys u kt i db = Inr (drawn gacha keys u kt db i, db)"
  by (simp add: draw_item_def drawn_def split: option.splits)

lemma draw_items_run:
  "map_tx is (draw_item gacha keys u kt) db = Inr (map (drawn gacha keys u kt db) is, db)"
  by (induction "is") (simp_all add: bind_tx_def draw_item_run)

lemma get_random_items_tx_run:
  "get_random_items_tx gacha keys u kt False db =
     (case delete_oldest_user_key u kt db of
        Inl e \<Rightarrow> Inl e
      | Inr (b, db') \<Rightarrow> if b then Inr (concat (map (drawn gacha keys u kt db') [0, 1, 2]), db')
                        else Inl (Lootbox (InsufficientKeysError kt)))"
  by (simp add: get_random_items_tx_def bind_tx_def draw_items_run split: sum.splits prod.splits
      del: map_tx.simps)

lemma drawn_in_catalog:
  assumes "x \<in> set (drawn gacha keys u kt db i)"
  shows "\<exists>r \<in> set (reward_types db). rt_name r = rsp_name x \<and> rt_type r = rsp_type x
     \<and> rt_key_type r = kt \<and> rt_rarity r = rsp_rarity x
     \<and> rsp_rarity x = Some (py_lower (perform_gacha (gacha i)))
     \<and> rsp_duplicate x = owns_reward u kt r db
     \<and> rsp_coin_amount x = (if rsp_duplicate x then sql_duplicate_coins (rsp_rarity x) else 0)"
proof -
  let ?pool = "filter (\<lambda>rt. rt_rarity rt = Some (py_lower (perform_gacha (gacha i))) \<and> rt_key_type rt = kt)
      (reward_types db)"
  from assms obtain r rs where o: "order_by_random (keys i) ?pool = r # rs"
    and x: "x = mk_reward (rt_name r) kt (rt_rarity r) (rt_type r) (owns_reward u kt r db)
        (if owns_reward u kt r db then sql_duplicate_coins (rt_rarity r) else 0)"
    by (auto simp: drawn_def fetch_random_reward_def split: list.splits option.splits)
  have "r \<in> set (order_by_random (keys i) ?pool)" using o by simp
  then have "r \<in> set ?pool" by simp
  then show ?thesis using x by (auto simp: mk_reward_def)
qed

text \<open>Who owns a reward is a user, so paying for a duplicate never creates one.\<close>

lemma owned_user_exists:
  assumes "user_rewards_ok db" "check_user_has_reward u ty kt n db = Some q"
  shows "user_exists u db"
proof -
  let ?mine = "filter (\<lambda>ur. uw_user_id ur = u \<and> uw_reward_type ur = ty \<and> uw_key_type ur = kt
      \<and> uw_reward_name ur = n) (user_rewards db)"
  have "?mine \<noteq> []"
  proof
    assume "?mine = []"
    then have "check_user_has_reward u ty kt n db = None"
      unfolding check_user_has_reward_def by (simp only: list.map concat.simps list.case)
    with assms(2) show False by simp
  qed
  then obtain ur where "ur \<in> set ?mine" by (meson last_in_set)
  then have "ur \<in> set (user_rewards db)" "uw_user_id ur = u" by auto
  with assms(1) show ?thesis by (auto simp: user_rewards_ok_def)
qed

lemma add_user_coins_frame:
  assumes "users_ok db" "add_user_coins u n db = Inr (x, db')"
  shows "user_rewards db' = user_rewards db" "user_keys db' = user_keys db" "xp_tbl db' = xp_tbl db"
    "purchases db' = purchases db" "quest_progress db' = quest_progress db"
  using add_user_coins_shape [OF assms] by (cases db; cases db'; simp)+

text \<open>Publishing changes only the job table.\<close>

lemma publish_message_db:
  "wdb (snd (publish_message E i pytest key data idem w)) =
     (wdb w)\<lparr>jobs := jobs (wdb (snd (publish_message E i pytest key data idem w)))\<rparr>"
  by (simp add: publish_message_def insert_job_def catch_io_def bind_io_def atomically_def bind_tx_def
      check_tx_def split: sum.splits prod.splits if_splits)

lemma publish_message_ignored_key:
  assumes "key \<in> set ignore_idempotency"
  shows "fst (publish_message E i pytest key data idem w) =
     (if pytest then Inr (job_status i Succeeded)
      else case env_broker E of NoChannel \<Rightarrow> Inl Amqp
        | PublishFails \<Rightarrow> Inr (failed_job i)
        | BrokerUp \<Rightarrow> if has_row (\<lambda>j. jb_id j = i) (jobs (wdb w)) then Inr (failed_job i)
                      else Inr (job_status i Queued))"
  using assms by (cases "env_broker E") (auto simp: publish_message_def insert_job_def catch_io_def
      bind_io_def atomically_def bind_tx_def check_tx_def)

text \<open>One event of \<open>publish_xp_events\<close>, and a list of them.\<close>

definition publish_one :: "env \<Rightarrow> bool \<Rightarrow> nat \<times> xp_grant_event \<Rightarrow> unit eio" where
  "publish_one E pytest = (\<lambda>(i, event).
     catch_io (bind_io (publish_message E (env_job_ids E i) pytest ''api.xp.grant'' (XpGrant event) None)
         (\<lambda>_. return_io ()))
       (\<lambda>_. return_io ()))"

lemma publish_one_run:
  "publish_one E pytest (i, ev) w =
     (let w1 = w\<lparr>wdb := (wdb w)\<lparr>jobs := jobs (wdb w) @ [\<lparr>jb_id = env_job_ids E i, jb_action = ''api.xp.grant''\<rparr>]\<rparr>\<rparr>
      in (Inr (), if pytest \<or> env_broker E = NoChannel \<or> has_row (\<lambda>j. jb_id j = env_job_ids E i) (jobs (wdb w))
            then w
            else if env_broker E = PublishFails then w1
            else w1\<lparr>wmq := wmq w @ [\<lparr>ms_routing_key = ''api.xp.grant'', ms_payload = XpGrant ev,
                     ms_correlation_id = env_job_ids E i, ms_message_id = JobKey (env_job_ids E i)\<rparr>]\<rparr>))"
  by (cases "env_broker E") (auto simp: publish_one_def publish_message_def insert_job_def catch_io_def
      bind_io_def atomically_def bind_tx_def check_tx_def ignore_idempotency_def Let_def)

lemma for_io_Cons_run: "f x w = (Inr (), w1) \<Longrightarrow> for_io (x # xs) f w = for_io xs f w1"
  by (simp add: bind_io_def)

lemma map_XpGrant_zip: "map (XpGrant \<circ> snd) (zip [0..<length events] events) = map XpGrant events"
  by (metis map_map map_snd_zip length_upt diff_zero)

lemma publish_all_total:
  "\<exists>w' sent js. for_io ps (publish_one E pytest) w = (Inr (), w')
     \<and> wdb w' = (wdb w)\<lparr>jobs := js\<rparr>
     \<and> wmq w' = wmq w @ sent \<and> subseq (map ms_payload sent) (map (XpGrant \<circ> snd) ps)"
proof (induction ps arbitrary: w)
  case Nil
  show ?case by (simp add: exI [of _ "jobs (wdb w)"])
next
  case (Cons p ps)
  obtain i ev where p: "p = (i, ev)" by fastforce
  obtain w1 where one: "publish_one E pytest (i, ev) w = (Inr (), w1)"
    and db: "wdb w1 = (wdb w)\<lparr>jobs := jobs (wdb w1)\<rparr>"
    and mq: "\<exists>s. wmq w1 = wmq w @ s \<and> subseq (map ms_payload s) [XpGrant ev]"
    unfolding publish_one_run Let_def by (auto split: if_splits)
  from Cons.IH [of w1] obtain w' sent js where rest: "for_io ps (publish_one E pytest) w1 = (Inr (), w')"
    "wdb w' = (wdb w1)\<lparr>jobs := js\<rparr>"
    "wmq w' = wmq w1 @ sent" "subseq (map ms_payload sent) (map (XpGrant \<circ> snd) ps)" by blast
  from mq obtain s where s: "wmq w1 = wmq w @ s" "subseq (map ms_payload s) [XpGrant ev]" by blast
  have "subseq (map ms_payload (s @ sent)) (map (XpGrant \<circ> snd) (p # ps))"
    using list_emb_append_mono [OF s(2) rest(4)] by (simp add: p)
  moreover have "wdb w' = (wdb w)\<lparr>jobs := js\<rparr>" unfolding rest(2) by (subst db) simp
  ultimately show ?case using rest s(1) for_io_Cons_run [of "publish_one E pytest" p w w1 ps] one p
    by (auto simp: comp_def)
qed

lemma publish_all_up:
  assumes "env_broker E = BrokerUp" "\<not> pytest" "inj (env_job_ids E)"
    and "distinct (map fst ps)" "\<And>i. i \<in> fst ` set ps \<Longrightarrow> \<not> has_row (\<lambda>j. jb_id j = env_job_ids E i) (jobs (wdb w))"
  shows "map ms_payload (wmq (snd (for_io ps (publish_one E pytest) w))) =
     map ms_payload (wmq w) @ map (XpGrant \<circ> snd) ps"
  using assms(4,5)
proof (induction ps arbitrary: w)
  case Nil
  then show ?case by simp
next
  case (Cons p ps)
  obtain i ev where p: "p = (i, ev)" by fastforce
  from Cons.prems(2) [of i] p have fresh: "\<not> has_row (\<lambda>j. jb_id j = env_job_ids E i) (jobs (wdb w))" by simp
  obtain w1 where one: "publish_one E pytest p w = (Inr (), w1)"
    and js: "jobs (wdb w1) = jobs (wdb w) @ [\<lparr>jb_id = env_job_ids E i, jb_action = ''api.xp.grant''\<rparr>]"
    and mq: "map ms_payload (wmq w1) = map ms_payload (wmq w) @ [XpGrant ev]"
    using fresh assms(1,2) unfolding p publish_one_run Let_def by simp
  have "\<not> has_row (\<lambda>j. jb_id j = env_job_ids E k) (jobs (wdb w1))" if "k \<in> fst ` set ps" for k
    using Cons.prems that p js assms(3) by (auto dest: injD)
  with Cons.IH [of w1] Cons.prems(1) have "map ms_payload (wmq (snd (for_io ps (publish_one E pytest) w1))) =
     map ms_payload (wmq w1) @ map (XpGrant \<circ> snd) ps" by simp
  then show ?case using for_io_Cons_run [of "publish_one E pytest" p w w1 ps] one mq p by simp
qed

end
