(* ===== verification/Samples.thy ===== *)
theory Samples
  imports Lootbox_Service
begin

section \<open>A concrete database\<close>

text \<open>
  A small well-formed database, environment and world. The witnesses of the properties run the
  model on them.
\<close>

definition sample_quest_data :: dict where
  "sample_quest_data =
     [(''name'', JStr ''Hell Breaker''), (''description'', JStr ''Complete 1 Hell difficulty map''),
      (''difficulty'', JStr ''hard''), (''coin_reward'', JInt 500), (''xp_reward'', JInt 75),
      (''requirements'', JObj [(''type'', JStr ''complete_maps''), (''count'', JInt 1),
         (''difficulty'', JStr ''hell'')])]"

definition sample_db :: econ where
  "sample_db =
     \<lparr>users = [\<lparr>usr_id = 1, usr_nickname = Some ''Ana'', usr_global_name = None, usr_coins = 3000\<rparr>,
               \<lparr>usr_id = 2, usr_nickname = Some ''Bo'', usr_global_name = None, usr_coins = 50\<rparr>],
      maps_tbl = [\<lparr>mp_id = 7, mp_code = Some ''ABCDE'', mp_name = ''Hanamura'', mp_category = ''Classic'',
                   mp_difficulty = ''Hell'', mp_official = True, mp_archived = False, mp_original_code = None\<rparr>],
      completions = [],
      medals = [],
      mastery = [],
      key_types = [''Classic'', ''Winter''],
      active_key = [''Classic''],
      reward_types =
        [\<lparr>rt_name = ''Kabuki'', rt_type = ''skin'', rt_rarity = Some ''legendary'', rt_key_type = ''Classic''\<rparr>,
         \<lparr>rt_name = ''Oni'', rt_type = ''skin'', rt_rarity = Some ''epic'', rt_key_type = ''Classic''\<rparr>,
         \<lparr>rt_name = ''Wave'', rt_type = ''spray'', rt_rarity = Some ''common'', rt_key_type = ''Classic''\<rparr>],
      user_keys = [\<lparr>uk_user_id = 1, uk_key_type = ''Classic'', uk_earned_at = 20\<rparr>,
                   \<lparr>uk_user_id = 1, uk_key_type = ''Classic'', uk_earned_at = 10\<rparr>],
      user_rewards = [\<lparr>uw_user_id = 1, uw_reward_name = ''Wave'', uw_earned_at = 5,
                       uw_reward_type = ''spray'', uw_key_type = ''Classic''\<rparr>],
      xp_multiplier = [3 / 2],
      xp_tbl = [\<lparr>xp_user_id = 1, xp_amount = 12345\<rparr>],
      main_tiers = seeded_main_tiers,
      sub_tiers = seeded_sub_tiers,
      store_config = Some \<lparr>sc_rotation_period_days = 7, sc_last_rotation_at = 0,
        sc_next_rotation_at = 1000, sc_active_key_type = ''Classic''\<rparr>,
      rotations = [\<lparr>ro_rotation_id = 900, ro_item_name = ''Kabuki'', ro_item_type = ''skin'',
        ro_key_type = ''Classic'', ro_rarity = ''legendary'', ro_price = 3000,
        ro_available_from = 0, ro_available_until = 1000\<rparr>],
      purchases = [],
      quests = [\<lparr>qs_id = 19, qs_name = ''Hell Breaker'', qs_description = ''Complete 1 Hell difficulty map'',
        qs_quest_type = ''global'', qs_difficulty = ''hard'', qs_coin_reward = 500, qs_xp_reward = 75,
        qs_requirements = [(''type'', JStr ''complete_maps''), (''count'', JInt 1),
          (''difficulty'', JStr ''hell'')], qs_is_active = True, qs_created_at = 0\<rparr>],
      quest_rotation = [\<lparr>qr_id = 1, qr_rotation_id = 500, qr_quest_id = Some 19, qr_user_id = None,
        qr_quest_data = sample_quest_data, qr_available_from = 0, qr_available_until = 604800000000\<rparr>],
      quest_progress =
        [\<lparr>pg_id = 1, pg_user_id = 1, pg_rotation_id = 500, pg_quest_id = Some 19,
          pg_quest_data = sample_quest_data,
          pg_progress = [(''current'', JInt 1), (''target'', JInt 1),
             (''completed_map_ids'', JArr [JInt 7]), (''details'', JObj [(''hell'', JInt 1)])],
          pg_completed_at = Some 60, pg_claimed_at = None, pg_coins_rewarded = None, pg_xp_rewarded = None\<rparr>,
         \<lparr>pg_id = 2, pg_user_id = 2, pg_rotation_id = 500, pg_quest_id = Some 19,
          pg_quest_data = sample_quest_data,
          pg_progress = [(''current'', JInt 0), (''target'', JInt 1),
             (''completed_map_ids'', JArr []), (''details'', JObj [])],
          pg_completed_at = None, pg_claimed_at = None, pg_coins_rewarded = None, pg_xp_rewarded = None\<rparr>],
      quest_config = Some \<lparr>qc_rotation_day = 1, qc_rotation_hour = 0, qc_current_rotation_id = Some 500,
        qc_last_rotation_at = 0, qc_next_rotation_at = 604800000000, qc_easy_quest_count = 0,
        qc_medium_quest_count = 0, qc_hard_quest_count = 1\<rparr>,
      jobs = [],
      notification_events = [],
      next_purchase_id = 1,
      next_quest_rotation_id = 2,
      next_progress_id = 3\<rparr>"

definition sample_env :: env where
  "sample_env = \<lparr>env_now = 100, env_clock = 100, env_uuid = 501, env_job_ids = int, env_keys = id,
     env_broker = BrokerUp\<rparr>"

definition sample_world :: econ_world where
  "sample_world = \<lparr>wdb = sample_db, wmq = []\<rparr>"

lemmas sample_defs = sample_db_def sample_world_def sample_env_def sample_quest_data_def

lemma sample_users [simp]:
  "users sample_db = [\<lparr>usr_id = 1, usr_nickname = Some ''Ana'', usr_global_name = None, usr_coins = 3000\<rparr>,
               \<lparr>usr_id = 2, usr_nickname = Some ''Bo'', usr_global_name = None, usr_coins = 50\<rparr>]"
  by (simp add: sample_db_def)

lemma sample_users_ok: "users_ok sample_db"
  by (simp add: users_ok_def int4_ok_def)

lemma sample_numeric: "numeric_2 (3 / 2) = 3 / 2"
  using numeric_2_hundredths [of 150] by simp

lemma sample_db_ok: "db_ok sample_db"
proof -
  have "catalog_ok sample_db" by (simp add: sample_db_def catalog_ok_def reward_key_def)
  moreover have "user_keys_ok sample_db" "user_rewards_ok sample_db"
    by (simp_all add: sample_db_def user_keys_ok_def user_rewards_ok_def user_exists_def reward_exists_def)
  moreover have "xp_ok sample_db" "purchases_ok sample_db" "store_config_ok sample_db"
    by (simp_all add: sample_db_def xp_ok_def user_exists_def int4_ok_def sample_numeric
        purchases_ok_def store_config_ok_def)
  moreover have "rotations_ok sample_db" "quest_config_ok sample_db"
    by (simp_all add: sample_db_def rotations_ok_def rotation_key_def int4_ok_def reward_exists_def
        quest_config_ok_def)
  moreover have "quest_rotation_ok sample_db"
    by (simp add: sample_db_def quest_rotation_ok_def global_rotation_keys_def
        bounty_rotation_keys_def quest_exists_def user_exists_def)
  moreover have "quest_progress_ok sample_db"
    by (simp add: sample_db_def quest_progress_ok_def global_progress_keys_def
        bounty_progress_keys_def quest_exists_def user_exists_def)
  ultimately show ?thesis using sample_users_ok by (simp add: db_ok_def)
qed

end
