(* ===== verification/Lootbox_Props.thy ===== *)
theory Lootbox_Props
  imports Samples
begin

section \<open>Properties of the lootbox\<close>

text \<open>
  Coins, lootboxes, rewards, XP and the notifications they publish: what the service promises,
  over the definitions of the repository and the service.
\<close>

subsection \<open>Coins\<close>

text \<open>Coins are neither lost nor made: after any sequence of payments and deductions the
  balance of a user has moved by exactly the payments and the deductions that were accepted.\<close>

lemma coins_conserved:
  assumes "users_ok db" "coins_of u db = Some c"
    and "run_entries add_user_coins deduct_user_coins es db = Inr (took, db')"
  shows "coins_of u db' = Some (c + net u took)"
  using assms by (rule coin.run_entries_balance)

lemma coins_conserved_witness:
  "\<exists>db'. run_entries add_user_coins deduct_user_coins
       [Credit 1 10, Debit 2 60, Debit 1 1000, Debit 2 20] sample_db
     = Inr ([Credit 1 10, Debit 1 1000, Debit 2 20], db') \<and> coins_of 1 db' = Some 2010"
proof -
  obtain db' where run: "run_entries add_user_coins deduct_user_coins
       [Credit 1 10, Debit 2 60, Debit 1 1000, Debit 2 20] sample_db
     = Inr ([Credit 1 10, Debit 1 1000, Debit 2 20], db')"
    by (simp add: bind_tx_def add_user_coins_def deduct_user_coins_def check_tx_def coins_of_def
        user_exists_def int4_ok_def)
  have "coins_of 1 sample_db = Some 3000" by (simp add: coins_of_def)
  from coins_conserved [OF sample_users_ok this run] run show ?thesis by simp
qed

text \<open>No sequence of payments and deductions of non-negative amounts overdraws a balance.\<close>

lemma no_overdraft:
  assumes "users_ok db" "coins_of u db = Some c" "0 \<le> c" "list_all entry_nonneg es"
    and "run_entries add_user_coins deduct_user_coins es db = Inr (took, db')"
  shows "\<exists>b. coins_of u db' = Some b \<and> 0 \<le> b"
  using coin.run_entries_balance [OF assms(1,2,5)] coin.run_entries_nonneg [OF assms] by blast

lemma no_overdraft_witness:
  "\<exists>took db' b. run_entries add_user_coins deduct_user_coins [Debit 2 60, Debit 2 20] sample_db
     = Inr (took, db') \<and> coins_of 2 db' = Some b \<and> 0 \<le> b"
proof -
  obtain took db' where run: "run_entries add_user_coins deduct_user_coins [Debit 2 60, Debit 2 20] sample_db
     = Inr (took, db')"
    by (simp add: bind_tx_def deduct_user_coins_def int4_ok_def)
  have "coins_of 2 sample_db = Some 50" by (simp add: coins_of_def)
  from no_overdraft [OF sample_users_ok this _ _ run] run show ?thesis by auto
qed

subsection \<open>Opening a lootbox\<close>

text \<open>C39: opening a lootbox fails exactly when the user has no key of the type, and then
  changes nothing; otherwise it spends the oldest such key and nothing else - no reward is
  granted and no coin is paid yet - and returns at most three rewards of the catalog, of that
  key type, each with the duplicate flag and coins that match what the user owns.\<close>

theorem open_lootbox:
  "case get_random_items gacha keys u kt False w of (res, w') \<Rightarrow>
     wmq w' = wmq w \<and>
     (case res of
        Inl e \<Rightarrow> e = Lootbox (InsufficientKeysError kt) \<and> fetch_user_key_count u kt (wdb w) = 0 \<and> w' = w
      | Inr items \<Rightarrow>
          (\<exists>xs k ys. user_keys (wdb w) = xs @ k # ys \<and> wdb w' = (wdb w)\<lparr>user_keys := xs @ ys\<rparr>
             \<and> uk_user_id k = u \<and> uk_key_type k = kt
             \<and> list_all (\<lambda>j. uk_earned_at k \<le> uk_earned_at j)
                 (filter (\<lambda>j. uk_user_id j = u \<and> uk_key_type j = kt) (user_keys (wdb w))))
          \<and> length items \<le> 3
          \<and> list_all (\<lambda>x. list_ex (\<lambda>r. rt_name r = rsp_name x \<and> rt_type r = rsp_type x
                 \<and> rt_key_type r = kt \<and> rt_rarity r = rsp_rarity x
                 \<and> rsp_duplicate x = owns_reward u kt r (wdb w)
                 \<and> rsp_coin_amount x =
                     (if rsp_duplicate x then sql_duplicate_coins (rsp_rarity x) else 0))
               (reward_types (wdb w))) items)"
proof -
  obtain b db' where del: "delete_oldest_user_key u kt (wdb w) = Inr (b, db')"
    using delete_oldest_user_key_total by blast
  show ?thesis
  proof (cases b)
    case False
    then have "db' = wdb w" using del by (auto simp: delete_oldest_user_key_def split: list.splits)
    then show ?thesis using False del delete_oldest_user_key_none [of u kt "wdb w"]
      by (simp add: get_random_items_def atomically_def get_random_items_tx_run)
  next
    case True
    with del have del': "delete_oldest_user_key u kt (wdb w) = Inr (True, db')" by simp
    note split = delete_oldest_user_key_split [OF del']
    let ?items = "concat (map (drawn gacha keys u kt db') [0, 1, 2])"
    have run: "get_random_items gacha keys u kt False w = (Inr ?items, w\<lparr>wdb := db'\<rparr>)"
      using True del by (simp add: get_random_items_def atomically_def get_random_items_tx_run)
    have short: "length (drawn gacha keys u kt db' i) \<le> 1" for i
      by (simp add: drawn_def split: option.splits)
    have "length ?items \<le> 3"
      using short [of 0] short [of "Suc 0"] short [of 2] by simp
    moreover have same: "reward_types db' = reward_types (wdb w)" "user_rewards db' = user_rewards (wdb w)"
      using split by auto
    have "list_all (\<lambda>x. list_ex (\<lambda>r. rt_name r = rsp_name x \<and> rt_type r = rsp_type x
                 \<and> rt_key_type r = kt \<and> rt_rarity r = rsp_rarity x
                 \<and> rsp_duplicate x = owns_reward u kt r (wdb w)
                 \<and> rsp_coin_amount x =
                     (if rsp_duplicate x then sql_duplicate_coins (rsp_rarity x) else 0))
               (reward_types (wdb w))) ?items"
      unfolding list_all_iff list_ex_iff
    proof
      fix x assume "x \<in> set ?items"
      then obtain i where "x \<in> set (drawn gacha keys u kt db' i)" by auto
      from drawn_in_catalog [OF this] show "\<exists>r \<in> set (reward_types (wdb w)). rt_name r = rsp_name x
          \<and> rt_type r = rsp_type x \<and> rt_key_type r = kt \<and> rt_rarity r = rsp_rarity x
          \<and> rsp_duplicate x = owns_reward u kt r (wdb w)
          \<and> rsp_coin_amount x = (if rsp_duplicate x then sql_duplicate_coins (rsp_rarity x) else 0)"
        unfolding same owns_reward_def by blast
    qed
    ultimately show ?thesis using split by (simp add: run)
  qed
qed

text \<open>The gacha maps a random number in \<open>[0, 1)\<close> to a rarity by the running totals of its
  weights: legendary below 3 of 98, epic below 8, rare below 33, else common.\<close>

theorem gacha_rarity:
  "perform_gacha r = (let x = fl (r * 98) in
     if x < 3 then ''legendary'' else if x < 8 then ''epic''
     else if x < 33 then ''rare'' else ''common'')"
  by (simp add: perform_gacha_def random_choices_def gacha_weights_def bisect_right_def Let_def)

subsection \<open>Rewards\<close>

text \<open>The coins the lootbox query shows for a duplicate are the coins the service pays for
  it: the SQL \<open>CASE\<close> and the Python table agree on every rarity stored in lower case.\<close>

theorem duplicate_coins_agree:
  assumes "py_lower q = q"
  shows "sql_duplicate_coins (Some q) = duplicate_coins q"
  using assms by (simp add: sql_duplicate_coins_def duplicate_coins_def duplicate_coin_values_def)

theorem duplicate_coins_agree_witness:
  "sql_duplicate_coins (Some ''epic'') = duplicate_coins ''epic'' \<and> duplicate_coins ''epic'' = 500"
  using duplicate_coins_agree [of "''epic''"]
  by (simp add: py_lower_def char_lower_def is_upper_char_def char_code_def sql_duplicate_coins_def)

text \<open>Granting a reward that is not coins either pays the user for a duplicate - exactly the
  duplicate value, and no reward row - or stores exactly one reward row and moves no coin; a
  failed grant changes nothing.\<close>

lemma grant_reward_effect:
  assumes "ty \<noteq> ''coins''" "db_ok (wdb w)"
    and run: "grant_reward_to_user E u ty kt n w = (res, w')"
  shows "case res of
      Inl e \<Rightarrow> w' = w
    | Inr r \<Rightarrow> wmq w' = wmq w \<and>
       (if rsp_duplicate r then
          user_rewards (wdb w') = user_rewards (wdb w)
          \<and> (\<exists>q. check_user_has_reward u ty kt n (wdb w) = Some q \<and> rsp_coin_amount r = duplicate_coins q)
          \<and> (\<exists>c. coins_of u (wdb w) = Some c \<and> coins_of u (wdb w') = Some (c + rsp_coin_amount r))
        else
          wdb w' = (wdb w)\<lparr>user_rewards := user_rewards (wdb w) @
            [\<lparr>uw_user_id = u, uw_reward_name = n, uw_earned_at = env_now E,
              uw_reward_type = ty, uw_key_type = kt\<rparr>]\<rparr> \<and> rsp_coin_amount r = 0)"
proof (cases res)
  case (Inl e)
  with run show ?thesis
    by (auto simp: grant_reward_to_user_def atomically_def split: sum.splits)
next
  case (Inr r)
  with run obtain db' where tx: "grant_reward_tx E u ty kt n (wdb w) = Inr (r, db')"
    and w': "w' = w\<lparr>wdb := db'\<rparr>"
    by (auto simp: grant_reward_to_user_def atomically_def split: sum.splits)
  show ?thesis
  proof (cases "rsp_duplicate r")
    case True
    with tx obtain q x where q: "check_user_has_reward u ty kt n (wdb w) = Some q"
      and add: "add_user_coins u (duplicate_coins q) (wdb w) = Inr (x, db')"
      and r: "rsp_coin_amount r = duplicate_coins q"
      using assms(1) by (auto simp: grant_reward_tx_def mk_reward_def elim!: bind_txE
          split: option.splits if_splits)
    have users: "users_ok (wdb w)" using assms(2) by (simp add: db_ok_def)
    from assms(2) owned_user_exists [OF _ q] obtain c where "coins_of u (wdb w) = Some c"
      using coins_of_None [of u "wdb w"] by (auto simp: db_ok_def)
    moreover have "coins_of u db' = Some (c + duplicate_coins q)" if "coins_of u (wdb w) = Some c" for c
      using that coins_of_add [OF users add, of u] by simp
    moreover have "user_rewards db' = user_rewards (wdb w)"
      using add_user_coins_frame [OF users add] by simp
    ultimately show ?thesis using True q r by (simp add: Inr w')
  next
    case False
    with tx have "insert_user_reward E u ty kt n (wdb w) = Inr ((), db')" and "rsp_coin_amount r = 0"
      using assms(1) by (auto simp: grant_reward_tx_def mk_reward_def elim!: bind_txE
          split: option.splits if_splits)
    then show ?thesis using False
      by (auto simp: Inr w' insert_user_reward_def bind_check_tx split: if_splits)
  qed
qed

lemma grant_reward_effect_witness:
  "\<exists>r w'. grant_reward_to_user sample_env 1 ''spray'' ''Classic'' ''Wave'' sample_world = (Inr r, w')
     \<and> coins_of 1 (wdb w') = Some 3100 \<and> user_rewards (wdb w') = user_rewards sample_db"
proof -
  obtain r w' where run: "grant_reward_to_user sample_env 1 ''spray'' ''Classic'' ''Wave'' sample_world = (Inr r, w')"
    and dup: "rsp_duplicate r" "rsp_coin_amount r = 100"
    by (simp add: grant_reward_to_user_def grant_reward_tx_def atomically_def bind_tx_def
        check_user_has_reward_def sample_defs add_user_coins_def check_tx_def coins_of_def user_exists_def
        int4_ok_def duplicate_coins_def duplicate_coin_values_def mk_reward_def
        py_lower_def char_lower_def is_upper_char_def char_code_def)
  have "coins_of 1 sample_db = Some 3000" by (simp add: coins_of_def)
  with grant_reward_effect [OF _ _ run] dup sample_db_ok run show ?thesis
    by (simp add: sample_world_def)
qed

subsection \<open>XP\<close>

text \<open>An XP grant adds exactly the floor of the amount times the multiplier to the user's
  total and to nobody else's; a statement that fails leaves everything as it was. The XP stays
  committed when there is no channel to publish the event on, although the call then fails.\<close>

lemma grant_xp_exact:
  "case upsert_user_xp u n (fetch_xp_multiplier (wdb w)) (wdb w) of
     Inl e \<Rightarrow> grant_xp E pytest u n ty reason w = (Inl e, w)
   | Inr (result, db') \<Rightarrow>
       result = \<lparr>xg_previous_amount = xp_total u (wdb w),
          xg_new_amount = xp_total u (wdb w) + xp_gain n (fetch_xp_multiplier (wdb w))\<rparr>
       \<and> fst (grant_xp E pytest u n ty reason w) =
           (if \<not> pytest \<and> env_broker E = NoChannel then Inl Amqp else Inr result)
       \<and> xp_total j (wdb (snd (grant_xp E pytest u n ty reason w))) =
           xp_total j (wdb w) + (if j = u then xp_gain n (fetch_xp_multiplier (wdb w)) else 0)"
proof (cases "upsert_user_xp u n (fetch_xp_multiplier (wdb w)) (wdb w)")
  case (Inl e)
  then show ?thesis by (simp add: grant_xp_def bind_atomically_Inl)
next
  case (Inr p)
  obtain result db' where p: "p = (result, db')" by fastforce
  let ?pub = "publish_message E (env_job_ids E 0) pytest ''api.xp.grant''
     (XpGrant (xp_event u n ty reason result)) None (w\<lparr>wdb := db'\<rparr>)"
  have run: "grant_xp E pytest u n ty reason w =
      (case ?pub of (Inl e, w') \<Rightarrow> (Inl e, w') | (Inr _, w') \<Rightarrow> (Inr result, w'))"
    using Inr p by (simp add: grant_xp_def bind_atomically_Inr) (simp add: bind_io_def return_io_def)
  have "fst ?pub = (if pytest then Inr (job_status (env_job_ids E 0) Succeeded)
      else case env_broker E of NoChannel \<Rightarrow> Inl Amqp
        | PublishFails \<Rightarrow> Inr (failed_job (env_job_ids E 0))
        | BrokerUp \<Rightarrow> if has_row (\<lambda>j. jb_id j = env_job_ids E 0) (jobs (wdb (w\<lparr>wdb := db'\<rparr>)))
             then Inr (failed_job (env_job_ids E 0)) else Inr (job_status (env_job_ids E 0) Queued))"
    by (rule publish_message_ignored_key) (simp add: ignore_idempotency_def)
  then have "fst (grant_xp E pytest u n ty reason w) =
      (if \<not> pytest \<and> env_broker E = NoChannel then Inl Amqp else Inr result)"
    unfolding run by (auto split: prod.splits sum.splits broker.splits if_splits)
  moreover have "wdb (snd ?pub) = db'\<lparr>jobs := jobs (wdb (snd ?pub))\<rparr>"
    using publish_message_db [of E "env_job_ids E 0" pytest "''api.xp.grant''"
        "XpGrant (xp_event u n ty reason result)" None "w\<lparr>wdb := db'\<rparr>"] by simp
  from arg_cong [OF this, of xp_tbl] have "xp_tbl (wdb (snd ?pub)) = xp_tbl db'" by simp
  then have "xp_total j (wdb (snd (grant_xp E pytest u n ty reason w))) = xp_total j db'"
    unfolding run xp_total_def xp_of_def by (auto split: prod.splits sum.splits)
  moreover have "result = \<lparr>xg_previous_amount = xp_total u (wdb w),
          xg_new_amount = xp_total u (wdb w) + xp_gain n (fetch_xp_multiplier (wdb w))\<rparr>"
    using upsert_user_xp_shape(3) Inr p by simp
  ultimately show ?thesis using Inr p xp_total_upsert by simp
qed

text \<open>Setting the XP multiplier to zero does not stop XP: the multiplier then reads as
  \<open>1.0\<close> and a grant pays its full base amount.\<close>

theorem zero_multiplier_ignored:
  "case svc_update_xp_multiplier 0 w of (res, w') \<Rightarrow>
     res = Inr () \<and> fetch_xp_multiplier (wdb w') = 1
     \<and> xp_gain n (fetch_xp_multiplier (wdb w')) = n"
proof -
  have z: "float_text 0 = 0" by (simp add: float_text_def dec_round_def round_half_even_def upt_rec)
  have "fl 1 = 1" using fl_of_int [of 1] by simp
  then have o: "float_text 1 = 1"
    using round_half_even_int [of 1] by (simp add: float_text_def dec_round_def upt_rec)
  have "fetch_xp_multiplier (db\<lparr>xp_multiplier := map (\<lambda>_. 0) xs\<rparr>) = 1" for db and xs :: "rat list"
    by (cases xs) (simp_all add: fetch_xp_multiplier_def)
  then show ?thesis
    by (simp add: svc_update_xp_multiplier_def update_xp_multiplier_def atomically_def bind_check_tx z
        numeric_2_def xp_gain_def o)
qed

text \<open>With the seeded tiers, every user with non-negative XP has a complete XP summary: all
  names are present, the next sub-tier is 1 to 100 XP and the next main tier 1 to 500 XP away,
  and a user whose XP is what the summary announces for the next sub-tier has exactly the full
  tier name that was announced.\<close>

lemma xp_summary_progress:
  assumes "tiers_seeded db" "user_exists u db" "0 \<le> xp_total u db"
  shows "\<exists>s. fetch_user_xp_summary u db = Some s \<and> summary_names_ok s \<and> xs_xp s = xp_total u db
     \<and> xs_prestige_level s = xp_total u db div 10000
     \<and> 1 \<le> xs_next_sub_tier_xp_required s \<and> xs_next_sub_tier_xp_required s \<le> 100
     \<and> xs_next_sub_tier_xp_required s \<le> xs_next_main_tier_xp_required s
     \<and> xs_next_main_tier_xp_required s \<le> 500
     \<and> (\<forall>db' v s'. tiers_seeded db' \<and> user_exists v db' \<and> xp_total v db' = xs_next_sub_tier_xp_total s
          \<and> fetch_user_xp_summary v db' = Some s'
          \<longrightarrow> xs_current_full_tier_name s' = xs_next_full_tier_name s)"
proof -
  let ?xp = "xp_total u db"
  let ?xp' = "(?xp div 100 + 1) * 100"
  note s = xp_summary_seeded [OF assms]
  have nn: "0 \<le> ?xp'" using assms(3) by (simp add: pos_imp_zdiv_nonneg_iff)
  have b: "?xp < ?xp'" "?xp' \<le> ?xp + 100" "?xp' \<le> (?xp div 500 + 1) * 500" "(?xp div 500 + 1) * 500 \<le> ?xp + 500"
    using next_tier_bounds by blast+
  show ?thesis unfolding s
    using b nn xp_summary_seeded by (auto simp: summary_names_ok_def)
qed

lemma xp_summary_progress_witness:
  "\<exists>s. fetch_user_xp_summary 1 sample_db = Some s \<and> xs_xp s = 12345 \<and> xs_prestige_level s = 1
     \<and> xs_next_sub_tier_xp_required s \<le> 100"
proof -
  have "tiers_seeded sample_db" "user_exists 1 sample_db"
    by (simp_all add: sample_db_def tiers_seeded_def user_exists_def)
  moreover have "xp_total 1 sample_db = 12345" by (simp add: sample_db_def xp_total_def xp_of_def)
  ultimately show ?thesis using xp_summary_progress [of sample_db 1] by auto
qed

text \<open>The tier change reported for two amounts of XP agrees with the XP summary: the new
  names and prestige are those of the summary at the new amount, a rank change is reported
  exactly when the place within the hundred tiers differs, and a prestige change exactly when
  the prestige level differs.\<close>

lemma tier_change_agrees:
  assumes "tiers_seeded db" "user_exists u db" "0 \<le> old_xp" "0 \<le> new_xp" "xp_total u db = new_xp"
  shows "\<exists>c s. fetch_xp_tier_change old_xp new_xp db = Some c \<and> fetch_user_xp_summary u db = Some s
     \<and> Some (tc_new_main_tier_name c) = xs_current_main_tier_name s
     \<and> tc_new_sub_tier_name c = xs_current_sub_tier_name s
     \<and> tc_new_prestige_level c = xs_prestige_level s
     \<and> (tc_rank_change_type c = None \<longleftrightarrow> old_xp div 100 mod 100 = new_xp div 100 mod 100)
     \<and> (tc_prestige_change c \<longleftrightarrow> old_xp div 10000 \<noteq> new_xp div 10000)"
proof -
  have place: "main_index old_xp = main_index new_xp \<and> sub_index old_xp = sub_index new_xp
      \<longleftrightarrow> old_xp div 100 mod 100 = new_xp div 100 mod 100"
    using place_index by simp
  have "0 \<le> xp_total u db" using assms(4,5) by simp
  from xp_summary_seeded [OF assms(1,2) this] tier_change_seeded [OF assms(1,3,4)] show ?thesis
    using place assms(5) by auto
qed

lemma tier_change_agrees_witness:
  "\<exists>c. fetch_xp_tier_change 12295 12345 sample_db = Some c \<and> tc_rank_change_type c \<noteq> None
     \<and> \<not> tc_prestige_change c"
proof -
  have "tiers_seeded sample_db" "user_exists 1 sample_db"
    by (simp_all add: sample_db_def tiers_seeded_def user_exists_def)
  moreover have "xp_total 1 sample_db = 12345" by (simp add: sample_db_def xp_total_def xp_of_def)
  ultimately show ?thesis using tier_change_agrees [of sample_db 1 12295 12345] by auto
qed

subsection \<open>Publishing\<close>

text \<open>Publishing the collected XP events never fails, whatever the broker does, and touches
  only the job table; what reaches the broker are events of the list, in its order.\<close>

lemma publish_xp_events_total:
  "case publish_xp_events E pytest events w of (res, w') \<Rightarrow>
     res = Inr () \<and> wdb w' = (wdb w)\<lparr>jobs := jobs (wdb w')\<rparr>
     \<and> (\<exists>sent. wmq w' = wmq w @ sent \<and> subseq (map ms_payload sent) (map XpGrant events))"
proof -
  let ?ps = "zip [0..<length events] events"
  obtain w' sent js where "for_io ?ps (publish_one E pytest) w = (Inr (), w')"
    "wdb w' = (wdb w)\<lparr>jobs := js\<rparr>" "wmq w' = wmq w @ sent"
    "subseq (map ms_payload sent) (map (XpGrant \<circ> snd) ?ps)"
    using publish_all_total [where ps = ?ps] by blast
  then show ?thesis
    by (simp add: publish_xp_events_def publish_one_def map_XpGrant_zip)
qed

text \<open>With the broker up and fresh job ids, every event is published once, in order.\<close>

lemma publish_xp_events_all:
  assumes "env_broker E = BrokerUp" "\<not> pytest" "inj (env_job_ids E)"
    and "list_all (\<lambda>i. \<not> has_row (\<lambda>j. jb_id j = env_job_ids E i) (jobs (wdb w))) [0..<length events]"
  shows "map ms_payload (wmq (snd (publish_xp_events E pytest events w))) =
     map ms_payload (wmq w) @ map XpGrant events"
proof -
  let ?ps = "zip [0..<length events] events"
  have "map ms_payload (wmq (snd (for_io ?ps (publish_one E pytest) w))) =
     map ms_payload (wmq w) @ map (XpGrant \<circ> snd) ?ps"
  proof (rule publish_all_up [OF assms(1-3)])
    fix i assume "i \<in> fst ` set ?ps"
    then have "i \<in> set [0..<length events]" by (metis list.set_map map_fst_zip length_upt diff_zero)
    with assms(4) show "\<not> has_row (\<lambda>j. jb_id j = env_job_ids E i) (jobs (wdb w))"
      by (simp add: list_all_iff)
  qed simp
  then show ?thesis by (simp add: publish_xp_events_def publish_one_def map_XpGrant_zip)
qed

lemma publish_xp_events_all_witness:
  "map ms_payload (wmq (snd (publish_xp_events sample_env False
       [xp_event 1 5 Completion None \<lparr>xg_previous_amount = 0, xg_new_amount = 7\<rparr>,
        xp_event 1 50 WorldRecord None \<lparr>xg_previous_amount = 7, xg_new_amount = 82\<rparr>] sample_world)))
   = [XpGrant (xp_event 1 5 Completion None \<lparr>xg_previous_amount = 0, xg_new_amount = 7\<rparr>),
      XpGrant (xp_event 1 50 WorldRecord None \<lparr>xg_previous_amount = 7, xg_new_amount = 82\<rparr>)]"
  by (subst publish_xp_events_all) (simp_all add: sample_defs inj_of_nat)

text \<open>Only the routing keys on the exemption list may be published without an idempotency
  key; any other message without one is refused before anything happens, and a message that is
  queued carries the key it was given, or the job id for an exempt key without one.\<close>

lemma idempotency_key_rule:
  "case publish_message E i pytest key data idem w of (res, w') \<Rightarrow>
     (if key \<notin> set ignore_idempotency \<and> (idem = None \<or> idem = Some [])
      then res = Inl (Py (ValueError ''idempotency_key required'')) \<and> w' = w
      else if res = Inr (job_status i Queued) then
        wmq w' = wmq w @ [\<lparr>ms_routing_key = key, ms_payload = data, ms_correlation_id = i,
          ms_message_id = (if idem = None \<or> idem = Some [] then JobKey i else IdempotencyKey (the idem))\<rparr>]
        \<and> jobs (wdb w') = jobs (wdb w) @ [\<lparr>jb_id = i, jb_action = key\<rparr>]
      else wmq w' = wmq w)"
  by (cases "env_broker E") (auto simp: publish_message_def insert_job_def catch_io_def bind_io_def
      atomically_def bind_tx_def check_tx_def job_status_def failed_job_def split: option.splits)

subsection \<open>Asset names\<close>

text \<open>A sanitized name, the part of an asset URL that comes from user data, consists of
  lower-case letters, digits, underscores and white space other than blanks: no letter is left
  in upper case and no slash, dot or blank gets into a URL.\<close>

theorem sanitized_names_safe:
  "list_all (\<lambda>c. url_safe_char c \<and> c \<noteq> CHR '' '') (sanitize_string s)"
  unfolding list_all_iff using sanitize_string_chars sanitize_no_blank by blast

end
