(* ===== verification/Quest_Engine.thy ===== *)
theory Quest_Engine
  imports Py_Json
begin

section \<open>The quest engine: progress as a function of events\<close>

text \<open>
  The pure part of the quest code: \<open>_initial_progress\<close> of
  \<open>apps/api/repository/store_repository.py\<close> and, from \<open>apps/api/services/store_service.py\<close>,
  the matching of events with quests, the progress after an event, after a reverted event and
  after an admin completes a quest, and the completion test. Requirements, events and progress
  are decoded JSON dictionaries, as in the code; every failure of a Python operation on them is
  an error value. \<open>current_progress = dict(progress)\<close> is a shallow copy whose nested
  dictionary the code updates in place; no caller reads the old nested value afterwards, so
  the model returns the new dictionary only.
\<close>

subsection \<open>Initial progress\<close>

definition has_type :: "dict \<Rightarrow> string \<Rightarrow> bool" where
  "has_type requirements t \<longleftrightarrow> dget requirements ''type'' = JStr t"

definition beat_progress :: "dict \<Rightarrow> dict" where
  "beat_progress requirements =
     [(''map_id'', dget requirements ''map_id''),
      (''target_time'', dget requirements ''target_time''),
      (''target_type'', dget requirements ''target_type''),
      (''medal_type'', dget requirements ''medal_type''),
      (''best_attempt'', dget requirements ''current_best''),
      (''last_attempt'', dget requirements ''current_best'')]"

definition initial_progress :: "dict \<Rightarrow> py_error + dict" where
  "initial_progress requirements =
     (if has_type requirements ''complete_maps'' then
        Inr [(''current'', JInt 0), (''target'', dget_or requirements ''count'' (JInt 0)),
             (''completed_map_ids'', JArr []), (''details'', JObj [])]
      else if has_type requirements ''earn_medals'' then
        Inr [(''current'', JInt 0), (''target'', dget_or requirements ''count'' (JInt 0)),
             (''counted_map_ids'', JArr []), (''medals'', JArr [])]
      else if has_type requirements ''complete_difficulty_range'' then
        Inr [(''current'', JInt 0), (''target'', dget_or requirements ''min_count'' (JInt 0)),
             (''completed_map_ids'', JArr [])]
      else if \<not> hashable (dget requirements ''type'') then Inl TypeError
      else if has_type requirements ''beat_time'' then Inr (beat_progress requirements)
      else if has_type requirements ''beat_rival'' then
        Inr (beat_progress requirements @
          [(''rival_user_id'', dget requirements ''rival_user_id''),
           (''rival_time'', dget requirements ''rival_time'')])
      else if has_type requirements ''complete_map'' then
        Inr [(''map_id'', dget requirements ''map_id''), (''target'', dget requirements ''target''),
             (''completed'', JBool False), (''medal_earned'', JNull)]
      else Inr [(''current'', JInt 0), (''target'', JInt 0)])"

subsection \<open>Matching events\<close>

definition match_complete_maps :: "dict \<Rightarrow> string \<Rightarrow> dict \<Rightarrow> py_error + bool" where
  "match_complete_maps requirements event_type event_data =
     (if event_type \<noteq> ''completion'' then Inr False
      else
        let req_difficulty = dget requirements ''difficulty'';
            req_category = dget requirements ''category'';
            category_ok =
              (if truthy req_category then
                 bind_py (lower_or_empty (dget event_data ''category'')) (\<lambda>event_category.
                 bind_py (py_str req_category) (\<lambda>c. Inr (event_category = py_lower c)))
               else Inr True)
        in if truthy req_difficulty \<and> req_difficulty \<noteq> JStr ''any'' then
             bind_py (lower_or_empty (dget event_data ''difficulty'')) (\<lambda>event_difficulty.
             bind_py (py_str req_difficulty) (\<lambda>d.
               if event_difficulty \<noteq> py_lower d then Inr False else category_ok))
           else category_ok)"

definition match_earn_medals :: "dict \<Rightarrow> string \<Rightarrow> dict \<Rightarrow> py_error + bool" where
  "match_earn_medals requirements event_type event_data =
     (if event_type \<noteq> ''completion'' then Inr False
      else let event_medal = dget event_data ''medal''; req_medal = dget requirements ''medal_type''
        in if \<not> truthy event_medal then Inr False
           else if truthy req_medal then
             bind_py (py_str req_medal) (\<lambda>m.
               if py_lower m \<noteq> ''any'' then
                 bind_py (py_str event_medal) (\<lambda>em. Inr (py_lower em = py_lower m))
               else Inr True)
           else Inr True)"

definition match_complete_difficulty_range :: "dict \<Rightarrow> string \<Rightarrow> dict \<Rightarrow> py_error + bool" where
  "match_complete_difficulty_range requirements event_type event_data =
     (if event_type \<noteq> ''completion'' then Inr False
      else bind_py (lower_or_empty (dget event_data ''difficulty'')) (\<lambda>event_difficulty.
           bind_py (lower_or_empty (dget requirements ''difficulty'')) (\<lambda>req_difficulty.
             Inr (event_difficulty = req_difficulty))))"

definition match_map_specific :: "dict \<Rightarrow> string \<Rightarrow> dict \<Rightarrow> py_error + bool" where
  "match_map_specific requirements event_type event_data =
     (if event_type \<noteq> ''completion'' then Inr False
      else Inr (py_eq (dget event_data ''map_id'') (dget requirements ''map_id'')))"

definition event_matches_quest :: "dict \<Rightarrow> string \<Rightarrow> dict \<Rightarrow> py_error + bool" where
  "event_matches_quest requirements event_type event_data =
     (case dget requirements ''type'' of
        JStr req_type \<Rightarrow>
          if req_type = ''complete_maps'' then match_complete_maps requirements event_type event_data
          else if req_type = ''earn_medals'' then match_earn_medals requirements event_type event_data
          else if req_type = ''complete_difficulty_range''
            then match_complete_difficulty_range requirements event_type event_data
          else if req_type = ''beat_time'' \<or> req_type = ''beat_rival'' \<or> req_type = ''complete_map''
            then match_map_specific requirements event_type event_data
          else Inr False
      | _ \<Rightarrow> Inr False)"

subsection \<open>Progress after an event\<close>

text \<open>\<open>map_id in some_set\<close> hashes the map id.\<close>

definition py_in :: "json \<Rightarrow> json list \<Rightarrow> py_error + bool" where
  "py_in x xs = (if hashable x then Inr (set_has x xs) else Inl TypeError)"

text \<open>The map is added to the set under \<open>key\<close> and \<open>current\<close> goes up by one; \<open>None\<close> if it was there.\<close>

definition count_map :: "string \<Rightarrow> dict \<Rightarrow> dict \<Rightarrow> py_error + dict option" where
  "count_map key p event_data =
     (let map_id = dget event_data ''map_id'' in
      bind_py (py_set (dget_or p key (JArr []))) (\<lambda>done.
      bind_py (py_in map_id done) (\<lambda>seen.
        if seen then Inr None
        else bind_py (py_inc (dget_or p ''current'' (JInt 0))) (\<lambda>n.
          Inr (Some (dset ''current'' n (dset key (JArr (done @ [map_id])) p)))))))"

definition new_complete_maps :: "dict \<Rightarrow> dict \<Rightarrow> py_error + dict" where
  "new_complete_maps p event_data =
     bind_py (count_map ''completed_map_ids'' p event_data) (\<lambda>r. case r of
        None \<Rightarrow> Inr p
      | Some p1 \<Rightarrow>
          bind_py (dict_or_empty (dget p1 ''details'')) (\<lambda>details.
          bind_py (lower_or_empty (dget event_data ''difficulty'')) (\<lambda>difficulty.
          bind_py (py_inc (dget_or details difficulty (JInt 0))) (\<lambda>n.
            Inr (dset ''details'' (JObj (dset difficulty n details)) p1)))))"

definition new_earn_medals :: "dict \<Rightarrow> dict \<Rightarrow> py_error + dict" where
  "new_earn_medals p event_data =
     bind_py (count_map ''counted_map_ids'' p event_data) (\<lambda>r. case r of
        None \<Rightarrow> Inr p
      | Some p1 \<Rightarrow>
          bind_py (append_json (dget p1 ''medals'')
             (JObj [(''map_id'', dget event_data ''map_id''), (''medal_type'', dget event_data ''medal'')]))
           (\<lambda>medals. Inr (dset ''medals'' medals p1)))"

definition new_complete_difficulty_range :: "dict \<Rightarrow> dict \<Rightarrow> py_error + dict" where
  "new_complete_difficulty_range p event_data =
     bind_py (count_map ''completed_map_ids'' p event_data) (\<lambda>r. case r of
        None \<Rightarrow> Inr p | Some p1 \<Rightarrow> Inr p1)"

definition new_best_time :: "dict \<Rightarrow> dict \<Rightarrow> py_error + dict" where
  "new_best_time p event_data =
     (if dget event_data ''time'' = JNull then Inr p
      else bind_py (py_float (dget event_data ''time'')) (\<lambda>new_time.
        let p1 = dset ''last_attempt'' (JFloat new_time) p in
        if dget p1 ''best_attempt'' = JNull then Inr (dset ''best_attempt'' (JFloat new_time) p1)
        else bind_py (py_float (dget p1 ''best_attempt'')) (\<lambda>best_value.
          Inr (dset ''best_attempt'' (JFloat (min best_value new_time)) p1))))"

definition new_complete_map :: "dict \<Rightarrow> dict \<Rightarrow> py_error + dict" where
  "new_complete_map p event_data =
     (let p1 = dset ''completed'' (JBool True) p in
      Inr (if truthy (dget event_data ''medal'') then dset ''medal_earned'' (dget event_data ''medal'') p1 else p1))"

definition calculate_new_progress :: "dict \<Rightarrow> dict \<Rightarrow> dict \<Rightarrow> py_error + dict" where
  "calculate_new_progress progress requirements event_data =
     (case dget requirements ''type'' of
        JStr req_type \<Rightarrow>
          if req_type = ''complete_maps'' then new_complete_maps progress event_data
          else if req_type = ''earn_medals'' then new_earn_medals progress event_data
          else if req_type = ''complete_difficulty_range'' then new_complete_difficulty_range progress event_data
          else if req_type = ''beat_time'' \<or> req_type = ''beat_rival'' then new_best_time progress event_data
          else if req_type = ''complete_map'' then new_complete_map progress event_data
          else Inr progress
      | _ \<Rightarrow> Inr progress)"

subsection \<open>Progress after a reverted event\<close>

text \<open>The map is taken out of the set under \<open>key\<close> and \<open>current\<close> goes down by one.\<close>

definition uncount_map :: "string \<Rightarrow> json \<Rightarrow> json list \<Rightarrow> dict \<Rightarrow> py_error + dict" where
  "uncount_map key map_id done p =
     bind_py (py_dec0 (dget_or p ''current'' (JInt 0))) (\<lambda>n.
       Inr (dset ''current'' n (dset key (JArr (set_remove map_id done)) p)))"

definition put_or_pop :: "string \<Rightarrow> bool \<Rightarrow> json \<Rightarrow> dict \<Rightarrow> dict" where
  "put_or_pop key keep v p = (if keep then dset key v p else dpop key p)"

definition revert_complete_maps :: "dict \<Rightarrow> dict \<Rightarrow> bool \<Rightarrow> py_error + dict" where
  "revert_complete_maps p event_data has_remaining_completion =
     (let map_id = dget event_data ''map_id'' in
      if map_id = JNull then Inr p
      else bind_py (py_set (dget_or p ''completed_map_ids'' (JArr []))) (\<lambda>done.
        bind_py (py_in map_id done) (\<lambda>seen.
        if \<not> seen \<or> has_remaining_completion then Inr p
        else bind_py (uncount_map ''completed_map_ids'' map_id done p) (\<lambda>p1.
          bind_py (dict_or_empty (dget p1 ''details'')) (\<lambda>details.
          bind_py (lower_or_empty (dget event_data ''difficulty'')) (\<lambda>difficulty.
            if difficulty \<noteq> [] then
              bind_py (py_dec0 (dget_or details difficulty (JInt 0))) (\<lambda>n.
                let details1 = (if num_of n = Some 0 then dpop difficulty details
                                else dset difficulty n details)
                in Inr (put_or_pop ''details'' (details1 \<noteq> []) (JObj details1) p1))
            else Inr (put_or_pop ''details'' (details \<noteq> []) (JObj details) p1)))))))"

definition still_counts :: "dict \<Rightarrow> string list \<Rightarrow> py_error + bool" where
  "still_counts requirements remaining_medals =
     (let req_medal = dget requirements ''medal_type'' in
      if truthy req_medal then
        bind_py (py_str req_medal) (\<lambda>m.
          Inr (if py_lower m \<noteq> ''any'' then list_ex (\<lambda>r. py_lower r = py_lower m) remaining_medals
               else remaining_medals \<noteq> []))
      else Inr (remaining_medals \<noteq> []))"

definition revert_earn_medals :: "dict \<Rightarrow> dict \<Rightarrow> dict \<Rightarrow> string list \<Rightarrow> py_error + dict" where
  "revert_earn_medals p requirements event_data remaining_medals =
     (let map_id = dget event_data ''map_id'' in
      if map_id = JNull then Inr p
      else bind_py (py_set (dget_or p ''counted_map_ids'' (JArr []))) (\<lambda>counted.
        bind_py (py_in map_id counted) (\<lambda>seen.
        if \<not> seen then Inr p
        else bind_py (still_counts requirements remaining_medals) (\<lambda>still.
          if still then Inr p
          else bind_py (uncount_map ''counted_map_ids'' map_id counted p) (\<lambda>p1.
            bind_py (objs_or_empty (dget p1 ''medals'')) (\<lambda>medals.
              let kept = filter (\<lambda>m. \<not> py_eq (dget m ''map_id'') map_id) medals
              in Inr (put_or_pop ''medals'' (kept \<noteq> []) (JArr (map JObj kept)) p1)))))))"

definition revert_complete_difficulty_range :: "dict \<Rightarrow> dict \<Rightarrow> bool \<Rightarrow> py_error + dict" where
  "revert_complete_difficulty_range p event_data has_remaining_completion =
     (let map_id = dget event_data ''map_id'' in
      if map_id = JNull then Inr p
      else bind_py (py_set (dget_or p ''completed_map_ids'' (JArr []))) (\<lambda>done.
        bind_py (py_in map_id done) (\<lambda>seen.
        if \<not> seen \<or> has_remaining_completion then Inr p
        else uncount_map ''completed_map_ids'' map_id done p)))"

definition revert_best_time :: "dict \<Rightarrow> rat list \<Rightarrow> dict" where
  "revert_best_time p remaining_times =
     (case remaining_times of
        [] \<Rightarrow> dpop ''last_attempt'' (dpop ''best_attempt'' p)
      | t # ts \<Rightarrow> dset ''last_attempt'' (JFloat (foldl min t ts))
                    (dset ''best_attempt'' (JFloat (foldl min t ts)) p))"

definition revert_complete_map :: "dict \<Rightarrow> bool \<Rightarrow> dict" where
  "revert_complete_map p has_remaining_completion =
     (if has_remaining_completion then p
      else dpop ''medal_earned'' (dset ''completed'' (JBool False) p))"

definition calculate_reverted_progress ::
  "dict \<Rightarrow> dict \<Rightarrow> dict \<Rightarrow> rat list \<Rightarrow> string list \<Rightarrow> py_error + dict" where
  "calculate_reverted_progress progress requirements event_data remaining_times remaining_medals =
     (let has_remaining_completion = (remaining_times \<noteq> []) in
      case dget requirements ''type'' of
        JStr req_type \<Rightarrow>
          if req_type = ''complete_maps''
            then revert_complete_maps progress event_data has_remaining_completion
          else if req_type = ''earn_medals''
            then revert_earn_medals progress requirements event_data remaining_medals
          else if req_type = ''complete_difficulty_range''
            then revert_complete_difficulty_range progress event_data has_remaining_completion
          else if req_type = ''beat_time'' \<or> req_type = ''beat_rival''
            then Inr (revert_best_time progress remaining_times)
          else if req_type = ''complete_map''
            then Inr (revert_complete_map progress has_remaining_completion)
          else Inr progress
      | _ \<Rightarrow> Inr progress)"

subsection \<open>Completion\<close>

definition is_complete_time_target :: "dict \<Rightarrow> dict \<Rightarrow> py_error + bool" where
  "is_complete_time_target progress requirements =
     (if dget requirements ''target_time'' = JNull then Inr False
      else if dget progress ''best_attempt'' = JNull then
        bind_py (py_float (dget requirements ''target_time'')) (\<lambda>_. Inr False)
      else bind_py (py_float (dget progress ''best_attempt'')) (\<lambda>best_value.
        bind_py (py_float (dget requirements ''target_time'')) (\<lambda>target. Inr (best_value < target))))"

definition is_quest_complete :: "dict \<Rightarrow> dict \<Rightarrow> py_error + bool" where
  "is_quest_complete progress requirements =
     (case dget requirements ''type'' of
        JStr req_type \<Rightarrow>
          if req_type = ''complete_maps'' \<or> req_type = ''earn_medals'' then
            py_ge (dget_or progress ''current'' (JInt 0)) (dget_or requirements ''count'' (JInt 0))
          else if req_type = ''complete_difficulty_range'' then
            py_ge (dget_or progress ''current'' (JInt 0)) (dget_or requirements ''min_count'' (JInt 0))
          else if req_type = ''beat_time'' \<or> req_type = ''beat_rival'' then
            is_complete_time_target progress requirements
          else if req_type = ''complete_map'' then
            Inr (dget_or progress ''completed'' (JBool False) = JBool True)
          else Inr False
      | _ \<Rightarrow> Inr False)"

subsection \<open>Admin patches\<close>

definition auto_patch_progress_for_completion :: "dict \<Rightarrow> dict \<Rightarrow> py_error + dict" where
  "auto_patch_progress_for_completion existing_progress requirements =
     (if has_type requirements ''complete_maps'' \<or> has_type requirements ''earn_medals'' then
        Inr (dset ''current'' (dget_or requirements ''count'' (JInt 0)) existing_progress)
      else if has_type requirements ''complete_difficulty_range'' then
        Inr (dset ''current'' (dget_or requirements ''min_count'' (JInt 0)) existing_progress)
      else if has_type requirements ''complete_map'' then
        Inr (dset ''completed'' (JBool True) existing_progress)
      else if has_type requirements ''beat_time'' then
        (if dget requirements ''target_time'' = JNull then Inr existing_progress
         else bind_py (py_float (dget requirements ''target_time'')) (\<lambda>t.
           Inr (dset ''best_attempt'' (JFloat (fl (t - fl (1 / 100)))) existing_progress)))
      else if has_type requirements ''beat_rival'' then
        (if dget requirements ''rival_time'' = JNull then Inr existing_progress
         else bind_py (py_float (dget requirements ''rival_time'')) (\<lambda>t.
           Inr (dset ''best_attempt'' (JFloat (fl (t - fl (1 / 100)))) existing_progress)))
      else Inr existing_progress)"

end
