(* ===== verification/Quest_Tracker.thy ===== *)
theory Quest_Tracker
  imports Quest_Engine
begin

section \<open>Quests as sets of credited maps\<close>

text \<open>
  Three kinds of quests count maps. The contract they share: the progress stands for the set of
  maps that have been credited, an event adds its map to the set, a reverted event takes it
  out, and the counter is the size of the set. The contract is the locale \<open>map_tracker\<close>; its
  consequences (order and repetition of events do not matter) are proved once, and the three
  kinds of quests interpret it.
\<close>

subsection \<open>Well-formed progress and events\<close>

fun ints_of :: "json list \<Rightarrow> int list option" where
  "ints_of [] = Some []"
| "ints_of (JInt n # xs) = map_option (\<lambda>ns. n # ns) (ints_of xs)"
| "ints_of _ = None"

definition credited_list :: "string \<Rightarrow> dict \<Rightarrow> int list option" where
  "credited_list key p = (case map_of p key of Some (JArr xs) \<Rightarrow> ints_of xs | _ \<Rightarrow> None)"

definition credited :: "string \<Rightarrow> dict \<Rightarrow> int set" where
  "credited key p = (case credited_list key p of Some ids \<Rightarrow> set ids | None \<Rightarrow> {})"

definition counted_ok :: "string \<Rightarrow> dict \<Rightarrow> bool" where
  "counted_ok key p \<longleftrightarrow> (case credited_list key p of
      Some ids \<Rightarrow> distinct ids \<and> map_of p ''current'' = Some (JInt (int (length ids)))
    | None \<Rightarrow> False)"

definition int_value :: "json \<Rightarrow> int option" where
  "int_value v = (case v of JInt n \<Rightarrow> Some n | _ \<Rightarrow> None)"

definition details_ok :: "dict \<Rightarrow> bool" where
  "details_ok p \<longleftrightarrow> (case dget p ''details'' of
      JNull \<Rightarrow> True
    | JObj d \<Rightarrow> list_all (\<lambda>(k, v). case int_value v of Some n \<Rightarrow> 1 \<le> n | None \<Rightarrow> False) d
    | _ \<Rightarrow> False)"

definition medals_ok :: "dict \<Rightarrow> bool" where
  "medals_ok p \<longleftrightarrow> (case dget p ''medals'' of
      JNull \<Rightarrow> True
    | JArr ms \<Rightarrow> list_all (\<lambda>m. case m of JObj _ \<Rightarrow> True | _ \<Rightarrow> False) ms
    | _ \<Rightarrow> False)"

text \<open>
  The events the completions service sends: a map id, a difficulty, a category and a medal that
  are strings or \<open>None\<close>, and a time that is a number or \<open>None\<close>.
\<close>

definition text_or_null :: "json \<Rightarrow> bool" where
  "text_or_null v = (case v of JNull \<Rightarrow> True | JStr _ \<Rightarrow> True | _ \<Rightarrow> False)"

definition number_or_null :: "json \<Rightarrow> bool" where
  "number_or_null v = (case v of JNull \<Rightarrow> True | JInt _ \<Rightarrow> True | JFloat _ \<Rightarrow> True | _ \<Rightarrow> False)"

definition event_ok :: "dict \<Rightarrow> bool" where
  "event_ok e \<longleftrightarrow> int_value (dget e ''map_id'') \<noteq> None \<and> text_or_null (dget e ''difficulty'')
     \<and> text_or_null (dget e ''category'') \<and> text_or_null (dget e ''medal'')
     \<and> number_or_null (dget e ''time'')"

definition event_map :: "dict \<Rightarrow> int" where
  "event_map e = the (int_value (dget e ''map_id''))"

lemma ints_of_iff: "ints_of xs = Some ns \<longleftrightarrow> xs = map JInt ns"
  by (induction xs arbitrary: ns rule: ints_of.induct) auto

lemma int_value_iff: "int_value v = Some n \<longleftrightarrow> v = JInt n"
  by (auto simp: int_value_def split: json.splits)

lemma event_map_id: "event_ok e \<Longrightarrow> dget e ''map_id'' = JInt (event_map e)"
  by (auto simp: event_ok_def event_map_def int_value_def split: json.splits)

lemma credited_list_iff: "credited_list key p = Some ids \<longleftrightarrow> map_of p key = Some (JArr (map JInt ids))"
  by (auto simp: credited_list_def ints_of_iff split: option.splits json.splits)

lemma counted_okE:
  assumes "counted_ok key p"
  obtains ids where "map_of p key = Some (JArr (map JInt ids))" "distinct ids"
    "map_of p ''current'' = Some (JInt (int (length ids)))" "credited key p = set ids"
proof -
  from assms obtain ids where "credited_list key p = Some ids" "distinct ids"
    "map_of p ''current'' = Some (JInt (int (length ids)))"
    by (auto simp: counted_ok_def split: option.splits)
  with that show thesis by (simp add: credited_list_iff credited_def)
qed

lemma counted_okI:
  "map_of p key = Some (JArr (map JInt ids)) \<Longrightarrow> distinct ids \<Longrightarrow>
     map_of p ''current'' = Some (JInt (int (length ids))) \<Longrightarrow> counted_ok key p \<and> credited key p = set ids"
  by (simp add: counted_ok_def credited_def credited_list_iff [symmetric])

lemma counted_current: "counted_ok key p \<Longrightarrow> dget_or p ''current'' v = JInt (int (card (credited key p)))"
  by (erule counted_okE) (simp add: dget_or_def distinct_card)

lemma counted_finite: "counted_ok key p \<Longrightarrow> finite (credited key p)"
  by (erule counted_okE) simp

lemma credited_cong: "map_of p key = map_of q key \<Longrightarrow> credited key p = credited key q"
  by (simp add: credited_def credited_list_def)

lemma counted_ok_cong:
  "map_of p key = map_of q key \<Longrightarrow> map_of p ''current'' = map_of q ''current'' \<Longrightarrow>
     counted_ok key p = counted_ok key q"
  by (simp add: counted_ok_def credited_list_def split: option.split json.split)

lemma lower_or_empty_text: "text_or_null v \<Longrightarrow> \<exists>s. lower_or_empty v = Inr s"
  by (auto simp: text_or_null_def lower_or_empty_def split: json.splits)

subsection \<open>Adding and taking out a map\<close>

lemma count_map_run:
  assumes "counted_ok key p" "event_ok e" "key \<noteq> ''current''"
  shows "if event_map e \<in> credited key p then count_map key p e = Inr None
    else \<exists>p1. count_map key p e = Inr (Some p1) \<and> counted_ok key p1
      \<and> credited key p1 = insert (event_map e) (credited key p)
      \<and> (\<forall>k. k \<noteq> key \<longrightarrow> k \<noteq> ''current'' \<longrightarrow> map_of p1 k = map_of p k)"
proof -
  from assms(1) obtain ids where ids: "map_of p key = Some (JArr (map JInt ids))" "distinct ids"
    "map_of p ''current'' = Some (JInt (int (length ids)))" "credited key p = set ids"
    by (rule counted_okE)
  have m: "dget e ''map_id'' = JInt (event_map e)" using assms(2) by (rule event_map_id)
  let ?p1 = "dset ''current'' (JInt (int (length ids) + 1)) (dset key (JArr (map JInt (ids @ [event_map e]))) p)"
  have run: "count_map key p e = Inr (if event_map e \<in> set ids then None else Some ?p1)"
    using ids by (simp add: count_map_def m py_in_def hashable_def dget_or_def Let_def)
  show ?thesis
  proof (cases "event_map e \<in> set ids")
    case True
    then show ?thesis using run ids(4) by simp
  next
    case False
    have "counted_ok key ?p1 \<and> credited key ?p1 = set (ids @ [event_map e])"
      by (rule counted_okI) (use False ids(2) assms(3) in \<open>auto simp: ac_simps\<close>)
    then show ?thesis using run ids(4) False by auto
  qed
qed

lemma uncount_map_run:
  assumes "counted_ok key p" "m \<in> credited key p" "key \<noteq> ''current''"
  shows "\<exists>ids p1. py_set (dget_or p key (JArr [])) = Inr (map JInt ids) \<and> set ids = credited key p
     \<and> uncount_map key (JInt m) (map JInt ids) p = Inr p1 \<and> counted_ok key p1
     \<and> credited key p1 = credited key p - {m}
     \<and> (\<forall>k. k \<noteq> key \<longrightarrow> k \<noteq> ''current'' \<longrightarrow> map_of p1 k = map_of p k)"
proof -
  from assms(1) obtain ids where ids: "map_of p key = Some (JArr (map JInt ids))" "distinct ids"
    "map_of p ''current'' = Some (JInt (int (length ids)))" "credited key p = set ids"
    by (rule counted_okE)
  let ?p1 = "dset ''current'' (JInt (max 0 (int (length ids) - 1))) (dset key (JArr (map JInt (removeAll m ids))) p)"
  have run: "uncount_map key (JInt m) (map JInt ids) p = Inr ?p1"
    using ids by (simp add: uncount_map_def dget_or_def)
  have "length (removeAll m ids) = length ids - 1" "ids \<noteq> []"
    using ids(2,4) assms(2) by (auto simp: distinct_remove1_removeAll [symmetric] length_remove1)
  then have len: "max 0 (int (length ids) - 1) = int (length (removeAll m ids))"
    by (cases ids) auto
  have "counted_ok key ?p1 \<and> credited key ?p1 = set (removeAll m ids)"
    by (rule counted_okI) (use ids(2) assms(3) len in \<open>auto simp: distinct_removeAll\<close>)
  with run ids show ?thesis
    by (intro exI [of _ ids] exI [of _ ?p1]) (auto simp: dget_or_def)
qed

lemma unseen_run:
  assumes "counted_ok key p" "m \<notin> credited key p"
  shows "\<exists>ids. py_set (dget_or p key (JArr [])) = Inr (map JInt ids) \<and> m \<notin> set ids"
  using assms(1) by (rule counted_okE) (use assms(2) in \<open>auto simp: dget_or_def\<close>)

subsection \<open>The contract\<close>

fun run_events :: "(dict \<Rightarrow> dict \<Rightarrow> py_error + dict) \<Rightarrow> dict \<Rightarrow> dict list \<Rightarrow> py_error + dict" where
  "run_events step p [] = Inr p"
| "run_events step p (e # es) = bind_py (step p e) (\<lambda>p'. run_events step p' es)"

locale map_tracker =
  fixes ok :: "dict \<Rightarrow> bool" and key :: string
    and credit :: "dict \<Rightarrow> dict \<Rightarrow> py_error + dict"
    and uncredit :: "dict \<Rightarrow> dict \<Rightarrow> py_error + dict"
  assumes counted: "ok p \<Longrightarrow> counted_ok key p"
    and credit_again: "ok p \<Longrightarrow> event_ok e \<Longrightarrow> event_map e \<in> credited key p \<Longrightarrow> credit p e = Inr p"
    and credit_new: "ok p \<Longrightarrow> event_ok e \<Longrightarrow> event_map e \<notin> credited key p \<Longrightarrow>
          \<exists>p'. credit p e = Inr p' \<and> ok p' \<and> credited key p' = insert (event_map e) (credited key p)"
    and uncredit_absent: "ok p \<Longrightarrow> event_ok e \<Longrightarrow> event_map e \<notin> credited key p \<Longrightarrow> uncredit p e = Inr p"
    and uncredit_present: "ok p \<Longrightarrow> event_ok e \<Longrightarrow> event_map e \<in> credited key p \<Longrightarrow>
          \<exists>p'. uncredit p e = Inr p' \<and> ok p' \<and> credited key p' = credited key p - {event_map e}"
begin

lemma credit_step:
  assumes "ok p" "event_ok e"
  shows "\<exists>p'. credit p e = Inr p' \<and> ok p' \<and> credited key p' = insert (event_map e) (credited key p)"
proof (cases "event_map e \<in> credited key p")
  case True
  with assms credit_again show ?thesis by (simp add: insert_absorb)
next
  case False
  with assms credit_new show ?thesis by blast
qed

lemma uncredit_step:
  assumes "ok p" "event_ok e"
  shows "\<exists>p'. uncredit p e = Inr p' \<and> ok p' \<and> credited key p' = credited key p - {event_map e}"
proof (cases "event_map e \<in> credited key p")
  case True
  with assms uncredit_present show ?thesis by blast
next
  case False
  with assms uncredit_absent show ?thesis by simp
qed

lemma credit_idem:
  assumes "ok p" "event_ok e" "credit p e = Inr p'"
  shows "credit p' e = Inr p'"
  using credit_step [OF assms(1,2)] assms(3) credit_again [OF _ assms(2)] by auto

lemma current_is_card: "ok p \<Longrightarrow> dget_or p ''current'' v = JInt (int (card (credited key p)))"
  using counted counted_current by blast

lemma credit_all:
  "ok p \<Longrightarrow> list_all event_ok es \<Longrightarrow>
     \<exists>p'. run_events credit p es = Inr p' \<and> ok p' \<and> credited key p' = credited key p \<union> event_map ` set es"
proof (induction es arbitrary: p)
  case Nil
  then show ?case by simp
next
  case (Cons e es)
  then obtain p1 where "credit p e = Inr p1" "ok p1" "credited key p1 = insert (event_map e) (credited key p)"
    using credit_step by force
  with Cons.IH [of p1] Cons.prems show ?case by auto
qed

text \<open>Neither the order nor the repetition of events changes what a quest counts.\<close>

lemma credit_order_free:
  assumes "ok p" "list_all event_ok es" "list_all event_ok ds" "event_map ` set es = event_map ` set ds"
    and "run_events credit p es = Inr q" "run_events credit p ds = Inr r"
  shows "dget_or q ''current'' v = dget_or r ''current'' v"
  using credit_all [OF assms(1,2)] credit_all [OF assms(1,3)] assms(4-6) by (auto simp: current_is_card)

text \<open>Reverting an event whose map was not credited before restores the count.\<close>

lemma uncredit_credit:
  assumes "ok p" "event_ok e" "event_map e \<notin> credited key p"
  shows "\<exists>p' q. credit p e = Inr p' \<and> uncredit p' e = Inr q \<and> ok q
     \<and> credited key q = credited key p \<and> dget_or q ''current'' v = dget_or p ''current'' v"
proof -
  from credit_step [OF assms(1,2)] obtain p' where
    p': "credit p e = Inr p'" "ok p'" "credited key p' = insert (event_map e) (credited key p)" by blast
  with uncredit_step [OF p'(2) assms(2)] assms(3) obtain q where
    q: "uncredit p' e = Inr q" "ok q" "credited key q = credited key p" by auto
  with p' assms(1) show ?thesis by (auto simp: current_is_card)
qed

lemma credit_grows:
  assumes "ok p" "event_ok e" "credit p e = Inr p'"
  shows "card (credited key p) \<le> card (credited key p')"
proof -
  have "credited key p' = insert (event_map e) (credited key p)"
    using credit_step [OF assms(1,2)] assms(3) by auto
  then show ?thesis using counted_finite counted [OF assms(1)] by (simp add: card_insert_le)
qed

end

subsection \<open>The three kinds of quests that count maps\<close>

definition maps_ok :: "dict \<Rightarrow> bool" where
  "maps_ok p \<longleftrightarrow> counted_ok ''completed_map_ids'' p \<and> details_ok p"

definition medal_req_ok :: "dict \<Rightarrow> bool" where
  "medal_req_ok r \<longleftrightarrow> text_or_null (dget r ''medal_type'')"

definition earn_ok :: "dict \<Rightarrow> dict \<Rightarrow> bool" where
  "earn_ok r p \<longleftrightarrow> counted_ok ''counted_map_ids'' p \<and> medals_ok p \<and> medal_req_ok r"

definition positive_counts :: "dict \<Rightarrow> bool" where
  "positive_counts d = list_all (\<lambda>(k, v). case int_value v of Some n \<Rightarrow> 1 \<le> n | None \<Rightarrow> False) d"

lemma positive_counts_get:
  "positive_counts d \<Longrightarrow> \<exists>n. dget_or d k (JInt 0) = JInt n \<and> 0 \<le> n"
  by (auto simp: positive_counts_def list_all_iff dget_or_def int_value_iff
      split: option.splits dest!: map_of_SomeD)

lemma set_dset: "set (dset k v d) \<subseteq> insert (k, v) (set d)"
  by (induction d) (auto simp: dset_def)

lemma set_dpop: "set (dpop k d) \<subseteq> set d"
  by (auto simp: dpop_def AList.delete_eq)

lemma positive_counts_dset: "positive_counts d \<Longrightarrow> 1 \<le> n \<Longrightarrow> positive_counts (dset k (JInt n) d)"
  using set_dset [of k "JInt n" d] by (fastforce simp: positive_counts_def list_all_iff int_value_def)

lemma positive_counts_dpop: "positive_counts d \<Longrightarrow> positive_counts (dpop k d)"
  using set_dpop [of k d] by (fastforce simp: positive_counts_def list_all_iff)

lemma details_ok_iff: "details_ok p \<longleftrightarrow>
    dget p ''details'' = JNull \<or> (\<exists>d. dget p ''details'' = JObj d \<and> positive_counts d)"
  by (auto simp: details_ok_def positive_counts_def split: json.splits)

lemma details_okE:
  assumes "details_ok p"
  obtains d where "dict_or_empty (dget p ''details'') = Inr d" "positive_counts d"
proof -
  from assms consider "dget p ''details'' = JNull"
    | d where "dget p ''details'' = JObj d" "positive_counts d" by (auto simp: details_ok_iff)
  then show thesis
  proof cases
    case 1
    then show thesis by (intro that [of "[]"]) (simp_all add: dict_or_empty_def positive_counts_def)
  next
    case 2
    then show thesis by (intro that [of d]) (auto simp: dict_or_empty_def)
  qed
qed

lemma medals_okE:
  assumes "medals_ok p"
  obtains ms where "append_json (dget p ''medals'') (JObj m) = Inr (JArr (map JObj (ms @ [m])))"
    "objs_or_empty (dget p ''medals'') = Inr ms"
proof -
  have objs: "\<exists>ms. xs = map JObj ms" if "list_all (\<lambda>m. case m of JObj _ \<Rightarrow> True | _ \<Rightarrow> False) xs" for xs
    using that
  proof (induction xs)
    case (Cons x xs)
    then obtain d ms where "x = JObj d" "xs = map JObj ms" by (auto split: json.splits)
    then show ?case by (intro exI [of _ "d # ms"]) simp
  qed simp
  consider "dget p ''medals'' = JNull" | ms where "dget p ''medals'' = JArr (map JObj ms)"
    using assms objs by (auto simp: medals_ok_def split: json.splits)
  then show thesis
  proof cases
    case 1
    then show thesis by (intro that [of "[]"]) (simp_all add: append_json_def objs_or_empty_def)
  next
    case 2
    then show thesis
      by (intro that [of ms]) (auto simp: append_json_def objs_or_empty_def list_all_iff comp_def)
  qed
qed

lemma put_or_pop_other: "k \<noteq> key \<Longrightarrow> map_of (put_or_pop key keep v p) k = map_of p k"
  by (simp add: put_or_pop_def)

lemma details_put_or_pop:
  "positive_counts d \<Longrightarrow> details_ok (put_or_pop ''details'' (d \<noteq> []) (JObj d) p)"
  by (simp add: put_or_pop_def details_ok_iff)

text \<open>\<open>complete_maps\<close>: maps of a difficulty or category.\<close>

lemma new_complete_maps_run:
  assumes "maps_ok p" "event_ok e" "event_map e \<notin> credited ''completed_map_ids'' p"
  shows "\<exists>p'. new_complete_maps p e = Inr p' \<and> maps_ok p'
     \<and> credited ''completed_map_ids'' p' = insert (event_map e) (credited ''completed_map_ids'' p)"
proof -
  from count_map_run [of "''completed_map_ids''" p e] assms obtain p1 where
    p1: "count_map ''completed_map_ids'' p e = Inr (Some p1)" "counted_ok ''completed_map_ids'' p1"
      "credited ''completed_map_ids'' p1 = insert (event_map e) (credited ''completed_map_ids'' p)"
      "\<forall>k. k \<noteq> ''completed_map_ids'' \<longrightarrow> k \<noteq> ''current'' \<longrightarrow> map_of p1 k = map_of p k"
    by (auto simp: maps_ok_def)
  then have "details_ok p1" using assms(1) by (simp add: maps_ok_def details_ok_def dget_def)
  then obtain d where d: "dict_or_empty (dget p1 ''details'') = Inr d" "positive_counts d"
    by (rule details_okE)
  obtain s where s: "lower_or_empty (dget e ''difficulty'') = Inr s"
    using assms(2) lower_or_empty_text by (auto simp: event_ok_def)
  obtain n where n: "dget_or d s (JInt 0) = JInt n" "0 \<le> n" using positive_counts_get [OF d(2)] by blast
  let ?p' = "dset ''details'' (JObj (dset s (JInt (n + 1)) d)) p1"
  have "new_complete_maps p e = Inr ?p'" by (simp add: new_complete_maps_def p1(1) d(1) s n(1))
  moreover have "details_ok ?p'" using positive_counts_dset [OF d(2), of "n + 1" s] n(2)
    by (simp add: details_ok_iff)
  moreover have "counted_ok ''completed_map_ids'' ?p' = counted_ok ''completed_map_ids'' p1"
    "credited ''completed_map_ids'' ?p' = credited ''completed_map_ids'' p1"
    by (rule counted_ok_cong credited_cong; simp)+
  ultimately show ?thesis using p1 by (simp add: maps_ok_def)
qed

lemma revert_complete_maps_run:
  assumes "maps_ok p" "event_ok e" "event_map e \<in> credited ''completed_map_ids'' p"
  shows "\<exists>p'. revert_complete_maps p e False = Inr p' \<and> maps_ok p'
     \<and> credited ''completed_map_ids'' p' = credited ''completed_map_ids'' p - {event_map e}"
proof -
  have ct: "counted_ok ''completed_map_ids'' p" using assms(1) by (simp add: maps_ok_def)
  from uncount_map_run [OF ct assms(3)] obtain ids p1 where
    ids: "py_set (dget_or p ''completed_map_ids'' (JArr [])) = Inr (map JInt ids)"
      "set ids = credited ''completed_map_ids'' p"
    and p1: "uncount_map ''completed_map_ids'' (JInt (event_map e)) (map JInt ids) p = Inr p1"
      "counted_ok ''completed_map_ids'' p1"
      "credited ''completed_map_ids'' p1 = credited ''completed_map_ids'' p - {event_map e}"
      "\<forall>k. k \<noteq> ''completed_map_ids'' \<longrightarrow> k \<noteq> ''current'' \<longrightarrow> map_of p1 k = map_of p k"
    by auto
  then have "details_ok p1" using assms(1) by (simp add: maps_ok_def details_ok_def dget_def)
  then obtain d where d: "dict_or_empty (dget p1 ''details'') = Inr d" "positive_counts d"
    by (rule details_okE)
  obtain s where s: "lower_or_empty (dget e ''difficulty'') = Inr s"
    using assms(2) lower_or_empty_text by (auto simp: event_ok_def)
  obtain n where n: "dget_or d s (JInt 0) = JInt n" "0 \<le> n" using positive_counts_get [OF d(2)] by blast
  have m: "dget e ''map_id'' = JInt (event_map e)" using assms(2) by (rule event_map_id)
  define d' where "d' = (if s = [] then d else if max 0 (n - 1) = 0 then dpop s d else dset s (JInt (max 0 (n - 1))) d)"
  let ?p' = "put_or_pop ''details'' (d' \<noteq> []) (JObj d') p1"
  have "revert_complete_maps p e False = Inr ?p'"
    using assms(3) ids(2)
    by (simp add: revert_complete_maps_def m ids(1) py_in_def hashable_def p1(1) d(1) s n(1) d'_def Let_def)
  moreover have "positive_counts d'"
    using d(2) positive_counts_dpop positive_counts_dset [OF d(2), of "max 0 (n - 1)" s]
    by (auto simp: d'_def)
  then have "details_ok ?p'" by (rule details_put_or_pop)
  moreover have "counted_ok ''completed_map_ids'' ?p' = counted_ok ''completed_map_ids'' p1"
    "credited ''completed_map_ids'' ?p' = credited ''completed_map_ids'' p1"
    by (rule counted_ok_cong credited_cong; simp add: put_or_pop_other)+
  ultimately show ?thesis using p1 by (simp add: maps_ok_def)
qed

interpretation maps_tracker: map_tracker maps_ok "''completed_map_ids''" new_complete_maps
  "\<lambda>p e. revert_complete_maps p e False"
proof unfold_locales
  fix p e
  show "maps_ok p \<Longrightarrow> counted_ok ''completed_map_ids'' p" by (simp add: maps_ok_def)
  assume ok: "maps_ok p" "event_ok e"
  then have ct: "counted_ok ''completed_map_ids'' p" by (simp add: maps_ok_def)
  show "event_map e \<in> credited ''completed_map_ids'' p \<Longrightarrow> new_complete_maps p e = Inr p"
    using count_map_run [OF ct ok(2)] by (simp add: new_complete_maps_def)
  show "event_map e \<notin> credited ''completed_map_ids'' p \<Longrightarrow> revert_complete_maps p e False = Inr p"
    using unseen_run [OF ct, of "event_map e"] event_map_id [OF ok(2)]
    by (auto simp: revert_complete_maps_def py_in_def hashable_def)
qed (fact new_complete_maps_run revert_complete_maps_run)+

text \<open>\<open>complete_difficulty_range\<close>: the same count without the details.\<close>

definition range_ok :: "dict \<Rightarrow> bool" where
  "range_ok p = counted_ok ''completed_map_ids'' p"

interpretation range_tracker: map_tracker range_ok "''completed_map_ids''" new_complete_difficulty_range
  "\<lambda>p e. revert_complete_difficulty_range p e False"
proof unfold_locales
  fix p e
  show "range_ok p \<Longrightarrow> counted_ok ''completed_map_ids'' p" by (simp add: range_ok_def)
  assume ok: "range_ok p" "event_ok e"
  then have ct: "counted_ok ''completed_map_ids'' p" by (simp add: range_ok_def)
  have m: "dget e ''map_id'' = JInt (event_map e)" using ok(2) by (rule event_map_id)
  show "event_map e \<in> credited ''completed_map_ids'' p \<Longrightarrow> new_complete_difficulty_range p e = Inr p"
    using count_map_run [OF ct ok(2)] by (simp add: new_complete_difficulty_range_def)
  show "event_map e \<notin> credited ''completed_map_ids'' p \<Longrightarrow> revert_complete_difficulty_range p e False = Inr p"
    using unseen_run [OF ct, of "event_map e"] m
    by (auto simp: revert_complete_difficulty_range_def py_in_def hashable_def)
  show "event_map e \<notin> credited ''completed_map_ids'' p \<Longrightarrow> \<exists>p'. new_complete_difficulty_range p e = Inr p'
      \<and> range_ok p' \<and> credited ''completed_map_ids'' p' = insert (event_map e) (credited ''completed_map_ids'' p)"
    using count_map_run [OF ct ok(2)] by (auto simp: new_complete_difficulty_range_def range_ok_def)
  show "event_map e \<in> credited ''completed_map_ids'' p \<Longrightarrow> \<exists>p'. revert_complete_difficulty_range p e False = Inr p'
      \<and> range_ok p' \<and> credited ''completed_map_ids'' p' = credited ''completed_map_ids'' p - {event_map e}"
    using uncount_map_run [OF ct, of "event_map e"] m
    by (auto simp: revert_complete_difficulty_range_def py_in_def hashable_def range_ok_def)
qed

text \<open>\<open>earn_medals\<close>: maps on which a medal was earned.\<close>

lemma still_counts_none: "medal_req_ok r \<Longrightarrow> still_counts r [] = Inr False"
  by (auto simp: medal_req_ok_def still_counts_def text_or_null_def Let_def split: json.splits)

interpretation medal_tracker: map_tracker "earn_ok r" "''counted_map_ids''" new_earn_medals
  "\<lambda>p e. revert_earn_medals p r e []" for r
proof unfold_locales
  fix p e
  show "earn_ok r p \<Longrightarrow> counted_ok ''counted_map_ids'' p" by (simp add: earn_ok_def)
  assume ok: "earn_ok r p" "event_ok e"
  then have ct: "counted_ok ''counted_map_ids'' p" and md: "medals_ok p" and rq: "medal_req_ok r"
    by (simp_all add: earn_ok_def)
  have m: "dget e ''map_id'' = JInt (event_map e)" using ok(2) by (rule event_map_id)
  show "event_map e \<in> credited ''counted_map_ids'' p \<Longrightarrow> new_earn_medals p e = Inr p"
    using count_map_run [OF ct ok(2)] by (simp add: new_earn_medals_def)
  show "event_map e \<notin> credited ''counted_map_ids'' p \<Longrightarrow> revert_earn_medals p r e [] = Inr p"
    using unseen_run [OF ct, of "event_map e"] m
    by (auto simp: revert_earn_medals_def py_in_def hashable_def)
  show "\<exists>p'. new_earn_medals p e = Inr p' \<and> earn_ok r p'
      \<and> credited ''counted_map_ids'' p' = insert (event_map e) (credited ''counted_map_ids'' p)"
    if "event_map e \<notin> credited ''counted_map_ids'' p"
  proof -
    from count_map_run [OF ct ok(2)] that obtain p1 where
      p1: "count_map ''counted_map_ids'' p e = Inr (Some p1)" "counted_ok ''counted_map_ids'' p1"
      "credited ''counted_map_ids'' p1 = insert (event_map e) (credited ''counted_map_ids'' p)"
      "\<forall>k. k \<noteq> ''counted_map_ids'' \<longrightarrow> k \<noteq> ''current'' \<longrightarrow> map_of p1 k = map_of p k" by auto
    then have "medals_ok p1" using md by (simp add: medals_ok_def dget_def)
    then obtain ms where ms: "append_json (dget p1 ''medals'')
          (JObj [(''map_id'', dget e ''map_id''), (''medal_type'', dget e ''medal'')]) =
        Inr (JArr (map JObj (ms @ [[(''map_id'', dget e ''map_id''), (''medal_type'', dget e ''medal'')]])))"
      by (rule medals_okE)
    let ?p' = "dset ''medals'' (JArr (map JObj (ms @ [[(''map_id'', dget e ''map_id''), (''medal_type'', dget e ''medal'')]]))) p1"
    have "new_earn_medals p e = Inr ?p'" by (simp only: new_earn_medals_def p1(1) ms bind_py_simps option.case)
    moreover have "medals_ok ?p'" by (simp add: medals_ok_def list_all_iff)
    moreover have "counted_ok ''counted_map_ids'' ?p' = counted_ok ''counted_map_ids'' p1"
      "credited ''counted_map_ids'' ?p' = credited ''counted_map_ids'' p1"
      by (rule counted_ok_cong credited_cong; simp)+
    ultimately show ?thesis using p1 rq by (simp add: earn_ok_def)
  qed
  show "\<exists>p'. revert_earn_medals p r e [] = Inr p' \<and> earn_ok r p'
      \<and> credited ''counted_map_ids'' p' = credited ''counted_map_ids'' p - {event_map e}"
    if "event_map e \<in> credited ''counted_map_ids'' p"
  proof -
    from uncount_map_run [OF ct that] obtain ids p1 where
      ids: "py_set (dget_or p ''counted_map_ids'' (JArr [])) = Inr (map JInt ids)"
        "set ids = credited ''counted_map_ids'' p"
      and p1: "uncount_map ''counted_map_ids'' (JInt (event_map e)) (map JInt ids) p = Inr p1"
        "counted_ok ''counted_map_ids'' p1"
        "credited ''counted_map_ids'' p1 = credited ''counted_map_ids'' p - {event_map e}"
        "\<forall>k. k \<noteq> ''counted_map_ids'' \<longrightarrow> k \<noteq> ''current'' \<longrightarrow> map_of p1 k = map_of p k"
      by auto
    then have "medals_ok p1" using md by (simp add: medals_ok_def dget_def)
    then obtain ms where ms: "objs_or_empty (dget p1 ''medals'') = Inr ms"
      using medals_okE [of p1 "[]"] by blast
    define kept where "kept = filter (\<lambda>q. \<not> py_eq (dget q ''map_id'') (JInt (event_map e))) ms"
    let ?p' = "put_or_pop ''medals'' (kept \<noteq> []) (JArr (map JObj kept)) p1"
    have "revert_earn_medals p r e [] = Inr ?p'"
      using that ids(2) still_counts_none [OF rq]
      by (simp add: revert_earn_medals_def m ids(1) py_in_def hashable_def p1(1) ms kept_def Let_def)
    moreover have "medals_ok ?p'" by (simp add: medals_ok_def put_or_pop_def list_all_iff)
    moreover have "counted_ok ''counted_map_ids'' ?p' = counted_ok ''counted_map_ids'' p1"
      "credited ''counted_map_ids'' ?p' = credited ''counted_map_ids'' p1"
      by (rule counted_ok_cong credited_cong; simp add: put_or_pop_other)+
    ultimately show ?thesis using p1 rq by (simp add: earn_ok_def)
  qed
qed

end
