(* ===== verification/Quest_Kinds.thy ===== *)
theory Quest_Kinds
  imports Quest_Tracker
begin

section \<open>All kinds of quests\<close>

text \<open>
  The invariant of progress for every kind of quest, the contract of \<open>map_tracker\<close> for
  \<open>calculate_new_progress\<close> and \<open>calculate_reverted_progress\<close> themselves, and the time
  quests.
\<close>

subsection \<open>Requirements and progress\<close>

definition counting :: "dict \<Rightarrow> bool" where
  "counting r \<longleftrightarrow> has_type r ''complete_maps'' \<or> has_type r ''earn_medals''
     \<or> has_type r ''complete_difficulty_range''"

definition timed :: "dict \<Rightarrow> bool" where
  "timed r \<longleftrightarrow> has_type r ''beat_time'' \<or> has_type r ''beat_rival''"

definition tracker_key :: "dict \<Rightarrow> string" where
  "tracker_key r = (if has_type r ''earn_medals'' then ''counted_map_ids'' else ''completed_map_ids'')"

text \<open>The number of maps a counting quest asks for.\<close>

definition required_count :: "dict \<Rightarrow> json" where
  "required_count r = (if has_type r ''complete_difficulty_range''
     then dget_or r ''min_count'' (JInt 0) else dget_or r ''count'' (JInt 0))"

text \<open>Requirements as the quest pool and the bounties have them.\<close>

definition requirements_ok :: "dict \<Rightarrow> bool" where
  "requirements_ok r \<longleftrightarrow> (case dget r ''type'' of JStr _ \<Rightarrow> True | JNull \<Rightarrow> True | _ \<Rightarrow> False)
     \<and> medal_req_ok r \<and> number_or_null (dget r ''current_best'')
     \<and> number_or_null (dget r ''target_time'')"

definition progress_ok :: "dict \<Rightarrow> dict \<Rightarrow> bool" where
  "progress_ok r p \<longleftrightarrow>
     (if has_type r ''complete_maps'' then maps_ok p
      else if has_type r ''earn_medals'' then earn_ok r p
      else if has_type r ''complete_difficulty_range'' then range_ok p
      else if timed r then number_or_null (dget p ''best_attempt'')
      else True)"

lemma has_type_unique: "has_type r s \<Longrightarrow> has_type r t \<longleftrightarrow> s = t"
  by (auto simp: has_type_def)

lemma initial_progress_ok:
  assumes "requirements_ok r"
  shows "\<exists>p. initial_progress r = Inr p \<and> progress_ok r p
     \<and> (counting r \<longrightarrow> credited (tracker_key r) p = {})
     \<and> (timed r \<longrightarrow> dget p ''best_attempt'' = dget r ''current_best'')"
proof -
  note simps = initial_progress_def progress_ok_def counting_def timed_def tracker_key_def
  consider "has_type r ''complete_maps''" | "has_type r ''earn_medals''"
    | "has_type r ''complete_difficulty_range''" | "timed r"
    | "\<not> counting r" "\<not> timed r" by (auto simp: counting_def)
  then show ?thesis
  proof cases
    case 1
    then show ?thesis
      by (simp add: simps has_type_unique [OF 1] maps_ok_def counted_ok_def credited_list_def
          credited_def details_ok_def dget_def)
  next
    case 2
    then show ?thesis using assms
      by (simp add: simps has_type_unique [OF 2] earn_ok_def counted_ok_def credited_list_def
          credited_def medals_ok_def dget_def requirements_ok_def)
  next
    case 3
    then show ?thesis
      by (simp add: simps has_type_unique [OF 3] range_ok_def counted_ok_def credited_list_def
          credited_def dget_def)
  next
    case 4
    then have "hashable (dget r ''type'')" by (auto simp: timed_def has_type_def hashable_def)
    with 4 assms show ?thesis
      by (auto simp: simps has_type_def requirements_ok_def beat_progress_def dget_def)
  next
    case 5
    from assms have "hashable (dget r ''type'')"
      by (auto simp: requirements_ok_def hashable_def split: json.splits)
    with 5 show ?thesis by (auto simp: simps)
  qed
qed

subsection \<open>Counting quests\<close>

lemma credit_dispatch:
  "has_type r ''complete_maps'' \<Longrightarrow> calculate_new_progress p r e = new_complete_maps p e"
  "has_type r ''earn_medals'' \<Longrightarrow> calculate_new_progress p r e = new_earn_medals p e"
  "has_type r ''complete_difficulty_range'' \<Longrightarrow> calculate_new_progress p r e = new_complete_difficulty_range p e"
  "timed r \<Longrightarrow> calculate_new_progress p r e = new_best_time p e"
  by (auto simp: calculate_new_progress_def has_type_def timed_def)

lemma revert_dispatch:
  "has_type r ''complete_maps'' \<Longrightarrow>
     calculate_reverted_progress p r e ts ms = revert_complete_maps p e (ts \<noteq> [])"
  "has_type r ''earn_medals'' \<Longrightarrow>
     calculate_reverted_progress p r e ts ms = revert_earn_medals p r e ms"
  "has_type r ''complete_difficulty_range'' \<Longrightarrow>
     calculate_reverted_progress p r e ts ms = revert_complete_difficulty_range p e (ts \<noteq> [])"
  "timed r \<Longrightarrow> calculate_reverted_progress p r e ts ms = Inr (revert_best_time p ts)"
  by (auto simp: calculate_reverted_progress_def has_type_def timed_def)

lemma complete_dispatch:
  "counting r \<Longrightarrow> is_quest_complete p r = py_ge (dget_or p ''current'' (JInt 0)) (required_count r)"
  "timed r \<Longrightarrow> is_quest_complete p r = is_complete_time_target p r"
  by (auto simp: is_quest_complete_def has_type_def counting_def timed_def required_count_def)

definition counting_ok :: "dict \<Rightarrow> dict \<Rightarrow> bool" where
  "counting_ok r p \<longleftrightarrow> counting r \<and> progress_ok r p"

lemma counting_cases:
  assumes "counting_ok r p"
  obtains "has_type r ''complete_maps''" "maps_ok p" "tracker_key r = ''completed_map_ids''"
      "\<And>q. counting_ok r q = maps_ok q"
  | "has_type r ''earn_medals''" "earn_ok r p" "tracker_key r = ''counted_map_ids''"
      "\<And>q. counting_ok r q = earn_ok r q"
  | "has_type r ''complete_difficulty_range''" "range_ok p" "tracker_key r = ''completed_map_ids''"
      "\<And>q. counting_ok r q = range_ok q"
  using assms by (auto simp: counting_ok_def counting_def progress_ok_def tracker_key_def has_type_unique)

interpretation quest: map_tracker "counting_ok r" "tracker_key r" "\<lambda>p e. calculate_new_progress p r e"
  "\<lambda>p e. calculate_reverted_progress p r e [] []" for r
proof unfold_locales
  fix p e
  assume ok: "counting_ok r p"
  then show "counted_ok (tracker_key r) p"
    by (rule counting_cases) (simp_all add: maps_ok_def earn_ok_def range_ok_def)
next
  fix p e
  assume "counting_ok r p" "event_ok e" "event_map e \<in> credited (tracker_key r) p"
  then show "calculate_new_progress p r e = Inr p"
    by (elim counting_cases)
       (simp_all add: credit_dispatch maps_tracker.credit_again medal_tracker.credit_again range_tracker.credit_again)
next
  fix p e
  assume *: "counting_ok r p" "event_ok e" "event_map e \<notin> credited (tracker_key r) p"
  from *(1) show "\<exists>p'. calculate_new_progress p r e = Inr p' \<and> counting_ok r p'
      \<and> credited (tracker_key r) p' = insert (event_map e) (credited (tracker_key r) p)"
    by (rule counting_cases)
       (use *(2) in \<open>simp_all add: credit_dispatch maps_tracker.credit_step medal_tracker.credit_step range_tracker.credit_step\<close>)
next
  fix p e
  assume "counting_ok r p" "event_ok e" "event_map e \<notin> credited (tracker_key r) p"
  then show "calculate_reverted_progress p r e [] [] = Inr p"
    by (elim counting_cases)
       (simp_all add: revert_dispatch maps_tracker.uncredit_absent medal_tracker.uncredit_absent
          range_tracker.uncredit_absent)
next
  fix p e
  assume *: "counting_ok r p" "event_ok e" "event_map e \<in> credited (tracker_key r) p"
  from *(1) show "\<exists>p'. calculate_reverted_progress p r e [] [] = Inr p' \<and> counting_ok r p'
      \<and> credited (tracker_key r) p' = credited (tracker_key r) p - {event_map e}"
    by (rule counting_cases)
       (use *(2) in \<open>simp_all add: revert_dispatch maps_tracker.uncredit_step medal_tracker.uncredit_step
          range_tracker.uncredit_step\<close>)
qed

subsection \<open>Time quests\<close>

text \<open>A number in the progress as \<open>float\<close> reads it; none counts as infinitely slow.\<close>

definition time_of :: "json \<Rightarrow> rat option" where
  "time_of v = (case v of JInt n \<Rightarrow> Some (fl (of_int n)) | JFloat t \<Rightarrow> Some t | _ \<Rightarrow> None)"

definition faster :: "rat option \<Rightarrow> rat option \<Rightarrow> rat option" where
  "faster a b = (case (a, b) of (Some x, Some y) \<Rightarrow> Some (min x y) | (None, _) \<Rightarrow> b | (_, None) \<Rightarrow> a)"

definition event_time :: "dict \<Rightarrow> rat option" where
  "event_time e = time_of (dget e ''time'')"

definition best_time :: "dict \<Rightarrow> rat option" where
  "best_time p = time_of (dget p ''best_attempt'')"

lemma time_of_None: "number_or_null v \<Longrightarrow> time_of v = None \<longleftrightarrow> v = JNull"
  by (auto simp: number_or_null_def time_of_def split: json.splits)

lemma py_float_time: "number_or_null v \<Longrightarrow> time_of v = Some t \<Longrightarrow> py_float v = Inr t"
  by (auto simp: number_or_null_def time_of_def split: json.splits)

lemma new_best_time_run:
  assumes "number_or_null (dget p ''best_attempt'')" "event_ok e"
  shows "\<exists>p'. new_best_time p e = Inr p' \<and> number_or_null (dget p' ''best_attempt'')
     \<and> best_time p' = faster (best_time p) (event_time e)"
proof (cases "event_time e")
  case None
  then have "dget e ''time'' = JNull"
    using assms(2) time_of_None by (auto simp: event_ok_def event_time_def)
  then show ?thesis using assms(1) None
    by (auto simp: new_best_time_def faster_def split: option.splits)
next
  case (Some t)
  then have t: "dget e ''time'' \<noteq> JNull" "py_float (dget e ''time'') = Inr t"
    using assms(2) py_float_time by (auto simp: event_ok_def event_time_def time_of_def)
  show ?thesis
  proof (cases "best_time p")
    case None
    then have "dget p ''best_attempt'' = JNull" using assms(1) time_of_None by (simp add: best_time_def)
    then show ?thesis using t Some None
      by (simp add: new_best_time_def best_time_def time_of_def number_or_null_def faster_def Let_def)
  next
    case b: (Some b)
    then have "dget p ''best_attempt'' \<noteq> JNull" "py_float (dget p ''best_attempt'') = Inr b"
      using assms(1) py_float_time by (auto simp: best_time_def time_of_def)
    then show ?thesis using t Some b
      by (simp add: new_best_time_def best_time_def time_of_def number_or_null_def faster_def Let_def)
  qed
qed

lemma timed_complete:
  assumes "number_or_null (dget p ''best_attempt'')" "number_or_null (dget r ''target_time'')"
  shows "is_complete_time_target p r = Inr (case (best_time p, time_of (dget r ''target_time'')) of
      (Some b, Some t) \<Rightarrow> b < t | _ \<Rightarrow> False)"
proof -
  have b: "py_float (dget p ''best_attempt'') = Inr x" if "best_time p = Some x" for x
    using that assms(1) py_float_time by (simp add: best_time_def)
  have t: "py_float (dget r ''target_time'') = Inr x" if "time_of (dget r ''target_time'') = Some x" for x
    using that assms(2) py_float_time by simp
  show ?thesis
    using b t time_of_None [OF assms(1)] time_of_None [OF assms(2)]
    by (auto simp: is_complete_time_target_def best_time_def split: option.splits)
qed

lemma foldl_min_Min: "foldl min (t :: rat) ts = Min (insert t (set ts))"
proof (induction ts arbitrary: t)
  case (Cons u ts)
  then show ?case
    by (cases "ts = []") (simp_all add: min.assoc insert_commute Min_insert)
qed simp

end
