(* ===== verification/Quest_Props.thy ===== *)
theory Quest_Props
  imports Quest_Kinds
begin

section \<open>Properties of the quest engine\<close>

text \<open>
  What the engine promises about a quest from its initial progress on, for every sequence of
  completed and reverted events.
\<close>

subsection \<open>Histories\<close>

datatype quest_event = Completed dict | Reverted dict "rat list" "string list"

fun quest_event_ok :: "quest_event \<Rightarrow> bool" where
  "quest_event_ok (Completed e) = event_ok e"
| "quest_event_ok (Reverted e ts ms) = event_ok e"

fun apply_event :: "dict \<Rightarrow> dict \<Rightarrow> quest_event \<Rightarrow> py_error + dict" where
  "apply_event r p (Completed e) = calculate_new_progress p r e"
| "apply_event r p (Reverted e ts ms) = calculate_reverted_progress p r e ts ms"

fun apply_history :: "dict \<Rightarrow> dict \<Rightarrow> quest_event list \<Rightarrow> py_error + dict" where
  "apply_history r p [] = Inr p"
| "apply_history r p (ev # evs) = bind_py (apply_event r p ev) (\<lambda>p'. apply_history r p' evs)"

lemma still_counts_total: "medal_req_ok r \<Longrightarrow> \<exists>b. still_counts r ms = Inr b"
  by (auto simp: medal_req_ok_def still_counts_def text_or_null_def Let_def split: json.splits)

lemma counted_set: "counted_ok key p \<Longrightarrow> \<exists>ids. py_set (dget_or p key (JArr [])) = Inr (map JInt ids)"
  by (erule counted_okE) (auto simp: dget_or_def)

lemma revert_counting_ok:
  assumes "counting_ok r p" "event_ok e"
  shows "\<exists>p'. calculate_reverted_progress p r e ts ms = Inr p' \<and> counting_ok r p'"
proof -
  have keep: "calculate_reverted_progress p r e ts ms = Inr p
      \<or> calculate_reverted_progress p r e ts ms = calculate_reverted_progress p r e [] []"
    using assms(1)
  proof (rule counting_cases)
    assume k: "has_type r ''complete_maps''" "maps_ok p"
    then obtain ids where "py_set (dget_or p ''completed_map_ids'' (JArr [])) = Inr (map JInt ids)"
      using counted_set by (auto simp: maps_ok_def)
    then show ?thesis using event_map_id [OF assms(2)]
      by (cases "ts = []") (simp_all add: revert_dispatch k revert_complete_maps_def py_in_def hashable_def Let_def)
  next
    assume k: "has_type r ''earn_medals''" "earn_ok r p"
    then have ct: "counted_ok ''counted_map_ids'' p" and rq: "medal_req_ok r" by (simp_all add: earn_ok_def)
    obtain b where "still_counts r ms = Inr b" using still_counts_total [OF rq] by blast
    moreover obtain ids where "py_set (dget_or p ''counted_map_ids'' (JArr [])) = Inr (map JInt ids)"
      using counted_set [OF ct] by blast
    ultimately show ?thesis
      using event_map_id [OF assms(2)] still_counts_none [OF rq]
      by (cases b) (simp_all add: revert_dispatch k revert_earn_medals_def py_in_def hashable_def Let_def)
  next
    assume k: "has_type r ''complete_difficulty_range''" "range_ok p"
    then obtain ids where "py_set (dget_or p ''completed_map_ids'' (JArr [])) = Inr (map JInt ids)"
      using counted_set by (auto simp: range_ok_def)
    then show ?thesis using event_map_id [OF assms(2)]
      by (cases "ts = []") (simp_all add: revert_dispatch k revert_complete_difficulty_range_def py_in_def
          hashable_def Let_def)
  qed
  with quest.uncredit_step [OF assms] assms(1) show ?thesis by auto
qed

lemma apply_event_ok:
  assumes "requirements_ok r" "progress_ok r p" "quest_event_ok ev"
  shows "\<exists>p'. apply_event r p ev = Inr p' \<and> progress_ok r p'"
proof -
  consider "counting r" | "timed r" | "\<not> counting r" "\<not> timed r" by blast
  then show ?thesis
  proof cases
    case 1
    then have ok: "counting_ok r p" using assms(2) by (simp add: counting_ok_def)
    show ?thesis
    proof (cases ev)
      case (Completed e)
      with assms(3) quest.credit_step [OF ok] show ?thesis by (force simp: counting_ok_def)
    next
      case (Reverted e ts ms)
      with assms(3) revert_counting_ok [OF ok] show ?thesis by (force simp: counting_ok_def)
    qed
  next
    case 2
    then have "progress_ok r q = number_or_null (dget q ''best_attempt'')" for q
      by (auto simp: progress_ok_def timed_def has_type_unique)
    moreover have "number_or_null (dget (revert_best_time p ts) ''best_attempt'')" for ts
      by (simp add: revert_best_time_def number_or_null_def split: list.splits)
    ultimately show ?thesis
      using 2 assms(2,3) new_best_time_run [of p]
      by (cases ev) (force simp: credit_dispatch(4) revert_dispatch(4))+
  next
    case 3
    then have "progress_ok r q" for q by (simp add: progress_ok_def counting_def)
    then show ?thesis using 3
      by (cases ev) (auto simp: calculate_new_progress_def calculate_reverted_progress_def counting_def
          timed_def has_type_def new_complete_map_def Let_def split: json.splits)
  qed
qed

lemma apply_history_ok:
  "requirements_ok r \<Longrightarrow> progress_ok r p \<Longrightarrow> list_all quest_event_ok evs \<Longrightarrow>
     \<exists>p'. apply_history r p evs = Inr p' \<and> progress_ok r p'"
proof (induction evs arbitrary: p)
  case (Cons ev evs)
  then obtain p1 where "apply_event r p ev = Inr p1" "progress_ok r p1"
    using apply_event_ok by force
  with Cons show ?case by simp
qed simp

text \<open>A sample quest and event, for the witnesses.\<close>

definition hell_quest :: dict where
  "hell_quest = [(''type'', JStr ''complete_maps''), (''count'', JInt 2), (''difficulty'', JStr ''hell'')]"

definition hell_event :: "int \<Rightarrow> dict" where
  "hell_event m = [(''map_id'', JInt m), (''difficulty'', JStr ''Hell''), (''category'', JStr ''Classic''),
     (''time'', JFloat 30), (''medal'', JNull)]"

definition rival_quest :: dict where
  "rival_quest = [(''type'', JStr ''beat_rival''), (''map_id'', JInt 7), (''rival_time'', JFloat 25),
     (''target_time'', JFloat 25)]"

definition rival_event :: "rat \<Rightarrow> dict" where
  "rival_event t = [(''map_id'', JInt 7), (''difficulty'', JStr ''Hell''), (''category'', JStr ''Classic''),
     (''time'', JFloat t), (''medal'', JNull)]"

lemma sample_requirements: "requirements_ok hell_quest" "requirements_ok rival_quest"
  by (simp_all add: requirements_ok_def hell_quest_def rival_quest_def dget_def medal_req_ok_def
      text_or_null_def number_or_null_def)

lemma sample_event_ok: "event_ok (hell_event m)" "event_ok (rival_event t)"
  by (simp_all add: event_ok_def hell_event_def rival_event_def dget_def int_value_def text_or_null_def
      number_or_null_def)

lemma sample_event_map: "event_map (hell_event m) = m"
  by (simp add: event_map_def hell_event_def dget_def int_value_def)

lemma sample_lower: "py_lower ''Hell'' = ''hell''" "py_lower ''hell'' = ''hell''"
  by code_simp+

subsection \<open>Types and termination\<close>

text \<open>C40: from the initial progress of a quest, every history of well-formed completed and
  reverted events runs without a Python error, and the progress keeps its type: counters equal
  the number of distinct credited maps, best times are numbers.\<close>

theorem quest_history_total:
  assumes "requirements_ok r" "list_all quest_event_ok evs"
  shows "\<exists>p p'. initial_progress r = Inr p \<and> apply_history r p evs = Inr p' \<and> progress_ok r p'"
  using initial_progress_ok [OF assms(1)] apply_history_ok [OF assms(1) _ assms(2)] by blast

theorem quest_history_total_witness:
  "\<exists>p p'. initial_progress hell_quest = Inr p \<and> apply_history hell_quest p
      [Completed (hell_event 7), Completed (hell_event 8), Reverted (hell_event 7) [] []] = Inr p'
    \<and> progress_ok hell_quest p'"
  by (rule quest_history_total) (simp_all add: sample_requirements sample_event_ok)

subsection \<open>Counting quests\<close>

text \<open>A quest that counts maps is complete exactly when the number of distinct maps among
  its events has reached the required count - neither the order of the events nor repeated
  completions of a map matter.\<close>

lemma counting_quest_complete:
  assumes "requirements_ok r" "counting r" "required_count r = JInt n" "list_all event_ok es"
  shows "\<exists>p p'. initial_progress r = Inr p
     \<and> run_events (\<lambda>p e. calculate_new_progress p r e) p es = Inr p'
     \<and> is_quest_complete p' r = Inr (n \<le> int (card (set (map event_map es))))"
proof -
  from initial_progress_ok [OF assms(1)] assms(2) obtain p where
    p: "initial_progress r = Inr p" "counting_ok r p" "credited (tracker_key r) p = {}"
    by (auto simp: counting_ok_def)
  from quest.credit_all [OF p(2) assms(4)] p(3) obtain p' where
    p': "run_events (\<lambda>p e. calculate_new_progress p r e) p es = Inr p'" "counting_ok r p'"
      "credited (tracker_key r) p' = event_map ` set es" by auto
  have "is_quest_complete p' r = Inr (n \<le> int (card (set (map event_map es))))"
    using quest.current_is_card [OF p'(2)] p'(3) by (simp add: complete_dispatch(1) assms(2,3))
  with p(1) p'(1) show ?thesis by blast
qed

lemma counting_quest_complete_witness:
  "\<exists>p p'. initial_progress hell_quest = Inr p
     \<and> run_events (\<lambda>p e. calculate_new_progress p hell_quest e) p
         [hell_event 7, hell_event 7, hell_event 9] = Inr p'
     \<and> is_quest_complete p' hell_quest = Inr True"
proof -
  have "counting hell_quest" "required_count hell_quest = JInt 2"
    by (simp_all add: counting_def has_type_def hell_quest_def dget_def required_count_def dget_or_def)
  from counting_quest_complete [OF sample_requirements(1) this,
      of "[hell_event 7, hell_event 7, hell_event 9]"]
  show ?thesis by (simp add: sample_event_ok sample_event_map)
qed

text \<open>Reverting a completion undoes it: if the map was not credited before, completing it
  and then losing the completion leaves the credited maps and the counter as they were.\<close>

lemma revert_undoes_completion:
  assumes "counting_ok r p" "event_ok e" "event_map e \<notin> credited (tracker_key r) p"
  shows "\<exists>p' q. calculate_new_progress p r e = Inr p' \<and> calculate_reverted_progress p' r e [] [] = Inr q
     \<and> counting_ok r q \<and> credited (tracker_key r) q = credited (tracker_key r) p
     \<and> dget_or q ''current'' JNull = dget_or p ''current'' JNull"
  using quest.uncredit_credit [OF assms] by blast

lemma revert_undoes_completion_witness:
  "\<exists>p' q. calculate_new_progress [(''current'', JInt 1), (''completed_map_ids'', JArr [JInt 8])]
       hell_quest (hell_event 7) = Inr p'
     \<and> calculate_reverted_progress p' hell_quest (hell_event 7) [] [] = Inr q
     \<and> dget_or q ''current'' JNull = JInt 1"
proof -
  let ?p = "[(''current'', JInt 1), (''completed_map_ids'', JArr [JInt 8])]"
  have "counting_ok hell_quest ?p"
    by (simp add: counting_ok_def counting_def has_type_def hell_quest_def dget_def progress_ok_def
        maps_ok_def counted_ok_def credited_list_def details_ok_def)
  moreover have "event_map (hell_event 7) \<notin> credited (tracker_key hell_quest) ?p"
    by (simp add: event_map_def hell_event_def dget_def int_value_def credited_def credited_list_def
        tracker_key_def has_type_def hell_quest_def)
  ultimately show ?thesis
    using revert_undoes_completion [OF _ sample_event_ok(1)] by (fastforce simp: dget_or_def)
qed

text \<open>A completed counting quest stays complete under further completions.\<close>

lemma completion_monotone:
  assumes "counting_ok r p" "required_count r = JInt n" "event_ok e"
    and "is_quest_complete p r = Inr True"
  shows "\<exists>p'. calculate_new_progress p r e = Inr p' \<and> is_quest_complete p' r = Inr True"
proof -
  have "counting r" using assms(1) by (simp add: counting_ok_def)
  from quest.credit_step [OF assms(1,3)] obtain p' where
    p': "calculate_new_progress p r e = Inr p'" "counting_ok r p'" by blast
  have "n \<le> int (card (credited (tracker_key r) p))"
    using assms(4) quest.current_is_card [OF assms(1)]
    by (simp add: complete_dispatch(1) \<open>counting r\<close> assms(2))
  then have "n \<le> int (card (credited (tracker_key r) p'))"
    using quest.credit_grows [OF assms(1,3) p'(1)] by linarith
  then have "is_quest_complete p' r = Inr True"
    using quest.current_is_card [OF p'(2)] by (simp add: complete_dispatch(1) \<open>counting r\<close> assms(2))
  with p'(1) show ?thesis by blast
qed

lemma completion_monotone_witness:
  "\<exists>p'. calculate_new_progress [(''current'', JInt 2), (''completed_map_ids'', JArr [JInt 8, JInt 9])]
       hell_quest (hell_event 7) = Inr p' \<and> is_quest_complete p' hell_quest = Inr True"
proof (rule completion_monotone [where n = 2])
  show "counting_ok hell_quest [(''current'', JInt 2), (''completed_map_ids'', JArr [JInt 8, JInt 9])]"
    by (simp add: counting_ok_def counting_def has_type_def hell_quest_def dget_def progress_ok_def
        maps_ok_def counted_ok_def credited_list_def details_ok_def)
  show "required_count hell_quest = JInt 2"
    by (simp add: required_count_def has_type_def hell_quest_def dget_def dget_or_def)
  show "is_quest_complete [(''current'', JInt 2), (''completed_map_ids'', JArr [JInt 8, JInt 9])] hell_quest = Inr True"
    by (simp add: is_quest_complete_def hell_quest_def dget_def dget_or_def)
qed (rule sample_event_ok)

subsection \<open>Time quests\<close>

fun fastest :: "rat option \<Rightarrow> dict list \<Rightarrow> rat option" where
  "fastest b [] = b"
| "fastest b (e # es) = fastest (faster b (event_time e)) es"

lemma run_best_time:
  "timed r \<Longrightarrow> number_or_null (dget p ''best_attempt'') \<Longrightarrow> list_all event_ok es \<Longrightarrow>
     \<exists>p'. run_events (\<lambda>p e. calculate_new_progress p r e) p es = Inr p'
       \<and> number_or_null (dget p' ''best_attempt'') \<and> best_time p' = fastest (best_time p) es"
proof (induction es arbitrary: p)
  case (Cons e es)
  then obtain p1 where p1: "new_best_time p e = Inr p1" "number_or_null (dget p1 ''best_attempt'')"
    "best_time p1 = faster (best_time p) (event_time e)"
    using new_best_time_run [of p e] by auto
  with Cons.IH [of p1] Cons.prems show ?case by (simp add: credit_dispatch(4))
qed simp

text \<open>A quest to beat a time is complete exactly when the fastest of the user's earlier best
  and all attempts is strictly below the target; without any time it is not complete.\<close>

lemma time_quest_complete:
  assumes "requirements_ok r" "timed r" "list_all event_ok es"
    and "time_of (dget r ''target_time'') = Some target"
  shows "\<exists>p p'. initial_progress r = Inr p
     \<and> run_events (\<lambda>p e. calculate_new_progress p r e) p es = Inr p'
     \<and> is_quest_complete p' r = Inr (case fastest (time_of (dget r ''current_best'')) es of
          Some t \<Rightarrow> t < target | None \<Rightarrow> False)"
proof -
  from initial_progress_ok [OF assms(1)] assms(2) obtain p where
    p: "initial_progress r = Inr p" "dget p ''best_attempt'' = dget r ''current_best''" by blast
  have n: "number_or_null (dget p ''best_attempt'')" "number_or_null (dget r ''target_time'')"
    using assms(1) p(2) by (simp_all add: requirements_ok_def)
  from run_best_time [OF assms(2) n(1) assms(3)] obtain p' where
    p': "run_events (\<lambda>p e. calculate_new_progress p r e) p es = Inr p'"
      "number_or_null (dget p' ''best_attempt'')" "best_time p' = fastest (best_time p) es" by blast
  show ?thesis
    using p p' timed_complete [OF p'(2) n(2)] assms(2,4)
    by (auto simp: complete_dispatch(2) best_time_def split: option.splits)
qed

lemma time_quest_complete_witness:
  "\<exists>p p'. initial_progress rival_quest = Inr p
     \<and> run_events (\<lambda>p e. calculate_new_progress p rival_quest e) p [rival_event 30, rival_event 24] = Inr p'
     \<and> is_quest_complete p' rival_quest = Inr True"
proof -
  have "timed rival_quest" "time_of (dget rival_quest ''target_time'') = Some 25"
    by (simp_all add: timed_def has_type_def rival_quest_def dget_def time_of_def)
  moreover have "fastest (time_of (dget rival_quest ''current_best'')) [rival_event 30, rival_event 24] = Some 24"
    by (simp add: rival_quest_def dget_def time_of_def faster_def event_time_def rival_event_def)
  ultimately show ?thesis
    using time_quest_complete [OF sample_requirements(2), of "[rival_event 30, rival_event 24]" 25]
    by (simp add: sample_event_ok)
qed

text \<open>Reverting an attempt leaves as best time exactly the fastest of the remaining times, so
  the quest counts as beaten exactly when one of them is below the target.\<close>

theorem time_quest_revert:
  assumes "timed r" "requirements_ok r" "time_of (dget r ''target_time'') = Some target"
  shows "\<exists>q. calculate_reverted_progress p r e ts ms = Inr q
     \<and> best_time q = (if ts = [] then None else Some (Min (set ts)))
     \<and> is_quest_complete q r = Inr (list_ex (\<lambda>t. t < target) ts)"
proof -
  let ?q = "revert_best_time p ts"
  have b: "best_time ?q = (if ts = [] then None else Some (Min (set ts)))"
    by (cases ts) (simp_all add: revert_best_time_def best_time_def time_of_def foldl_min_Min)
  have n: "number_or_null (dget ?q ''best_attempt'')" "number_or_null (dget r ''target_time'')"
    using assms(2) by (auto simp: revert_best_time_def number_or_null_def requirements_ok_def
        split: list.splits)
  have "ts \<noteq> [] \<Longrightarrow> (Min (set ts) < target) = list_ex (\<lambda>t. t < target) ts"
    by (simp add: Min_less_iff list_ex_iff)
  then have "is_quest_complete ?q r = Inr (list_ex (\<lambda>t. t < target) ts)"
    using timed_complete [OF n] b assms by (auto simp: complete_dispatch(2))
  with b show ?thesis using assms(1) by (auto simp: revert_dispatch(4))
qed

theorem time_quest_revert_witness:
  "\<exists>q. calculate_reverted_progress [(''best_attempt'', JFloat 24)] rival_quest (rival_event 24) [31, 29] [] = Inr q
     \<and> best_time q = Some 29 \<and> is_quest_complete q rival_quest = Inr False"
proof -
  have "timed rival_quest" "time_of (dget rival_quest ''target_time'') = Some 25"
    by (simp_all add: timed_def has_type_def rival_quest_def dget_def time_of_def)
  from time_quest_revert [OF this(1) sample_requirements(2) this(2),
      of "[(''best_attempt'', JFloat 24)]" "rival_event 24" "[31, 29]" "[]"]
  show ?thesis by simp
qed

subsection \<open>Matching\<close>

text \<open>A quest for maps counts exactly the completions that agree with its difficulty (unless
  it has none or asks for any) and with its category (unless it has none), ignoring case; events
  other than completions never count.\<close>

theorem complete_maps_matches:
  assumes "has_type r ''complete_maps''" "event_ok e"
    and "text_or_null (dget r ''difficulty'')" "text_or_null (dget r ''category'')"
  shows "event_matches_quest r t e = Inr (t = ''completion''
     \<and> (dget r ''difficulty'' \<in> {JNull, JStr [], JStr ''any''}
        \<or> lower_or_empty (dget e ''difficulty'') = lower_or_empty (dget r ''difficulty''))
     \<and> (dget r ''category'' \<in> {JNull, JStr []}
        \<or> lower_or_empty (dget e ''category'') = lower_or_empty (dget r ''category'')))"
proof -
  from assms(2) obtain d c where "lower_or_empty (dget e ''difficulty'') = Inr d"
    "lower_or_empty (dget e ''category'') = Inr c"
    using lower_or_empty_text by (metis event_ok_def)
  with assms(1,3,4) show ?thesis
    by (cases "dget r ''difficulty''"; cases "dget r ''category''")
       (auto simp: event_matches_quest_def has_type_def match_complete_maps_def text_or_null_def
          lower_or_empty_def [of "JStr _"] Let_def)
qed

theorem complete_maps_matches_witness:
  "event_matches_quest hell_quest ''completion'' (hell_event 7) = Inr True"
proof -
  have "has_type hell_quest ''complete_maps''" "text_or_null (dget hell_quest ''difficulty'')"
    "text_or_null (dget hell_quest ''category'')"
    by (simp_all add: has_type_def hell_quest_def dget_def text_or_null_def)
  from complete_maps_matches [OF this(1) sample_event_ok(1) this(2,3), of "''completion''"]
  show ?thesis
    by (simp add: hell_quest_def hell_event_def dget_def lower_or_empty_def sample_lower)
qed

end
