(* ===== verification/Sdk_Store.thy ===== *)
theory Sdk_Store
  imports Sdk_Lootbox
begin

section \<open>SDK structs of the store and quest endpoints\<close>

text \<open>
  The message types of \<open>libs/sdk/src/genjishimada_sdk/store.py\<close>. A field of a patch struct
  is \<open>None\<close> where the source has \<open>UNSET\<close>; a patch field that may itself be \<open>None\<close> has two
  levels of option.
\<close>

subsection \<open>Store\<close>

record store_config_response =
  scr_rotation_period_days :: int
  scr_active_key_type :: string
  scr_last_rotation_at :: int
  scr_next_rotation_at :: int

record rotation_item_response =
  rir_item_name :: string
  rir_item_type :: string
  rir_key_type :: string
  rir_rarity :: string
  rir_price :: int
  rir_owned :: bool
  rir_url :: string

definition mk_rotation_item :: "string \<Rightarrow> string \<Rightarrow> string \<Rightarrow> string \<Rightarrow> int \<Rightarrow> bool \<Rightarrow> rotation_item_response" where
  "mk_rotation_item item_name item_type key_type rarity price owned =
     \<lparr>rir_item_name = item_name, rir_item_type = item_type, rir_key_type = key_type,
      rir_rarity = rarity, rir_price = price, rir_owned = owned,
      rir_url = get_reward_url item_type item_name\<rparr>"

record rotation_response =
  rr_rotation_id :: int
  rr_available_until :: int
  rr_items :: "rotation_item_response list"

record key_price_info =
  kp_quantity :: int
  kp_price :: int
  kp_discount_percent :: int

record key_pricing_response =
  kpr_key_type :: string
  kpr_is_active :: bool
  kpr_prices :: "key_price_info list"

record key_purchase_response =
  kpu_success :: bool
  kpu_keys_purchased :: int
  kpu_price_paid :: int
  kpu_remaining_coins :: int

record item_purchase_response =
  ipr_success :: bool
  ipr_item_name :: string
  ipr_item_type :: string
  ipr_price_paid :: int
  ipr_remaining_coins :: int

record purchase_history_item =
  phi_id :: int
  phi_purchase_type :: string
  phi_item_name :: "string option"
  phi_item_type :: "string option"
  phi_key_type :: string
  phi_quantity :: int
  phi_price_paid :: int
  phi_purchased_at :: int

record purchase_history_response =
  phr_total :: nat
  phr_purchases :: "purchase_history_item list"

record generate_rotation_response =
  grr_rotation_id :: int
  grr_items_generated :: nat
  grr_available_until :: int

subsection \<open>Quests\<close>

record quest_summary =
  qsm_total_quests :: int
  qsm_completed :: int
  qsm_claimed :: int
  qsm_potential_coins :: int
  qsm_potential_xp :: int
  qsm_earned_coins :: int
  qsm_earned_xp :: int

text \<open>
  \<open>QuestProgress\<close> is only ever built by \<open>msgspec.convert\<close>; its type is a parameter of the
  structs that hold it. The \<open>cast\<close>ed fields of quest data are kept as the JSON value they are.
\<close>

record 'progress quest_response =
  qrs_progress_id :: int
  qrs_quest_id :: "int option"
  qrs_name :: json
  qrs_description :: json
  qrs_difficulty :: json
  qrs_coin_reward :: json
  qrs_xp_reward :: json
  qrs_progress :: 'progress
  qrs_completed :: bool
  qrs_claimed :: bool
  qrs_bounty_type :: json

record 'progress user_quests_response =
  uqr_rotation_id :: int
  uqr_available_until :: "int option"
  uqr_quests :: "'progress quest_response list"
  uqr_summary :: quest_summary

record claim_quest_response =
  cqr_success :: bool
  cqr_quest_name :: json
  cqr_coins_earned :: int
  cqr_xp_earned :: int
  cqr_new_coin_balance :: "int option"
  cqr_new_xp :: int

record quest_history_item =
  qhi_progress_id :: int
  qhi_quest_id :: "int option"
  qhi_name :: json
  qhi_description :: json
  qhi_difficulty :: json
  qhi_coin_reward :: json
  qhi_xp_reward :: json
  qhi_completed_at :: "int option"
  qhi_claimed_at :: "int option"
  qhi_coins_rewarded :: int
  qhi_xp_rewarded :: int
  qhi_rotation_id :: int
  qhi_bounty_type :: json

record quest_history_response =
  qhr_total :: nat
  qhr_quests :: "quest_history_item list"

record quest_config_response =
  qcr_rotation_day :: int
  qcr_rotation_hour :: int
  qcr_easy_quest_count :: int
  qcr_medium_quest_count :: int
  qcr_hard_quest_count :: int
  qcr_current_rotation_id :: "int option"
  qcr_last_rotation_at :: int
  qcr_next_rotation_at :: int

record update_quest_config_response =
  uqc_success :: bool
  uqc_updated_fields :: "string list"
  uqc_next_rotation_at :: "int option"

record generate_quest_rotation_response =
  gqr_rotation_id :: "int option"
  gqr_generated :: bool
  gqr_auto_claimed_quests :: nat
  gqr_global_quests_generated :: nat

record quest_pool_response =
  qpr_id :: int
  qpr_name :: string
  qpr_description :: string
  qpr_quest_type :: string
  qpr_difficulty :: string
  qpr_coin_reward :: int
  qpr_xp_reward :: int
  qpr_requirements :: dict
  qpr_is_active :: bool
  qpr_created_at :: int

subsection \<open>Admin patches\<close>

record patch_quest_requirements =
  pr_type :: "string option"
  pr_count :: "int option"
  pr_difficulty :: "string option"
  pr_category :: "string option"
  pr_medal_type :: "string option"
  pr_map_id :: "int option"
  pr_target_time :: "rat option"
  pr_target_type :: "string option"
  pr_rival_user_id :: "int option"
  pr_rival_time :: "rat option"
  pr_target :: "string option"
  pr_min_count :: "int option"

record patch_quest_data =
  pd_name :: "string option"
  pd_description :: "string option"
  pd_difficulty :: "string option"
  pd_coin_reward :: "int option"
  pd_xp_reward :: "int option"
  pd_requirements :: "patch_quest_requirements option"
  pd_bounty_type :: "string option option"

record patch_quest_progress =
  pp_current :: "int option"
  pp_target :: "int option"
  pp_percentage :: "int option"
  pp_details :: "dict option"
  pp_completed_map_ids :: "int list option"
  pp_counted_map_ids :: "int list option"
  pp_medals :: "dict list option"
  pp_map_id :: "int option"
  pp_target_time :: "rat option"
  pp_target_type :: "string option"
  pp_medal_type :: "string option"
  pp_best_attempt :: "rat option"
  pp_last_attempt :: "rat option"
  pp_rival_user_id :: "int option"
  pp_rival_time :: "rat option"
  pp_completed :: "bool option"
  pp_medal_earned :: "string option"

record admin_update_user_quest_request =
  au_completed :: "bool option"
  au_quest_data :: "patch_quest_data option"
  au_progress :: "patch_quest_progress option"
  au_claimed :: "bool option"

text \<open>The fields that are set, as a dictionary in declaration order (nested structs apart).\<close>

definition set_field :: "string \<Rightarrow> ('a \<Rightarrow> json) \<Rightarrow> 'a option \<Rightarrow> dict" where
  "set_field k f v = (case v of None \<Rightarrow> [] | Some x \<Rightarrow> [(k, f x)])"

definition requirements_fields :: "patch_quest_requirements \<Rightarrow> dict" where
  "requirements_fields r =
     set_field ''type'' JStr (pr_type r) @ set_field ''count'' JInt (pr_count r)
     @ set_field ''difficulty'' JStr (pr_difficulty r) @ set_field ''category'' JStr (pr_category r)
     @ set_field ''medal_type'' JStr (pr_medal_type r) @ set_field ''map_id'' JInt (pr_map_id r)
     @ set_field ''target_time'' JFloat (pr_target_time r) @ set_field ''target_type'' JStr (pr_target_type r)
     @ set_field ''rival_user_id'' JInt (pr_rival_user_id r) @ set_field ''rival_time'' JFloat (pr_rival_time r)
     @ set_field ''target'' JStr (pr_target r) @ set_field ''min_count'' JInt (pr_min_count r)"

definition quest_data_fields :: "patch_quest_data \<Rightarrow> dict" where
  "quest_data_fields p =
     set_field ''name'' JStr (pd_name p) @ set_field ''description'' JStr (pd_description p)
     @ set_field ''difficulty'' JStr (pd_difficulty p) @ set_field ''coin_reward'' JInt (pd_coin_reward p)
     @ set_field ''xp_reward'' JInt (pd_xp_reward p)
     @ set_field ''bounty_type'' (\<lambda>b. case b of None \<Rightarrow> JNull | Some s \<Rightarrow> JStr s) (pd_bounty_type p)"

definition progress_fields :: "patch_quest_progress \<Rightarrow> dict" where
  "progress_fields p =
     set_field ''current'' JInt (pp_current p) @ set_field ''target'' JInt (pp_target p)
     @ set_field ''percentage'' JInt (pp_percentage p) @ set_field ''details'' JObj (pp_details p)
     @ set_field ''completed_map_ids'' (\<lambda>ns. JArr (map JInt ns)) (pp_completed_map_ids p)
     @ set_field ''counted_map_ids'' (\<lambda>ns. JArr (map JInt ns)) (pp_counted_map_ids p)
     @ set_field ''medals'' (\<lambda>ds. JArr (map JObj ds)) (pp_medals p)
     @ set_field ''map_id'' JInt (pp_map_id p) @ set_field ''target_time'' JFloat (pp_target_time p)
     @ set_field ''target_type'' JStr (pp_target_type p) @ set_field ''medal_type'' JStr (pp_medal_type p)
     @ set_field ''best_attempt'' JFloat (pp_best_attempt p) @ set_field ''last_attempt'' JFloat (pp_last_attempt p)
     @ set_field ''rival_user_id'' JInt (pp_rival_user_id p) @ set_field ''rival_time'' JFloat (pp_rival_time p)
     @ set_field ''completed'' JBool (pp_completed p) @ set_field ''medal_earned'' JStr (pp_medal_earned p)"

end
