(* ===== verification/Store_Repo.thy ===== *)
theory Store_Repo
  imports Lootbox_Repo Quest_Engine Sdk_Store
begin

section \<open>The store repository\<close>

text \<open>
  \<open>apps/api/repository/store_repository.py\<close>, one definition per method, and the PL/pgSQL
  function \<open>store.generate_rotation\<close> of migration 0015. Text sorts by character code, as with
  the C collation; ties of an \<open>ORDER BY\<close> keep the table order, which is one of the orders
  PostgreSQL may choose; \<open>ORDER BY random()\<close> sorts by one random key per row.
\<close>

subsection \<open>Ordering and limits\<close>

definition sort_desc :: "('r \<Rightarrow> 'k::linorder) \<Rightarrow> 'r list \<Rightarrow> 'r list" where
  "sort_desc f rows = rev (sort_key f (rev rows))"

definition limit_offset :: "int \<Rightarrow> int \<Rightarrow> 'r list \<Rightarrow> pg_error + 'r list" where
  "limit_offset n k rows = (if n < 0 \<or> k < 0 then Inl (RaisedException ''LIMIT and OFFSET must not be negative'')
     else Inr (take (nat n) (drop (nat k) rows)))"

subsection \<open>Configuration\<close>

definition fetch_config :: "econ \<Rightarrow> store_config_row option" where
  "fetch_config db = store_config db"

definition fetch_quest_config :: "econ \<Rightarrow> quest_config_row option" where
  "fetch_quest_config db = quest_config db"

text \<open>The fields \<open>update_quest_config\<close> is called with.\<close>

datatype quest_config_update =
    RotationDay int
  | RotationHour int
  | EasyQuestCount int
  | MediumQuestCount int
  | HardQuestCount int
  | NextRotationAt int

fun apply_config_update :: "quest_config_update \<Rightarrow> quest_config_row \<Rightarrow> quest_config_row" where
  "apply_config_update (RotationDay n) c = c\<lparr>qc_rotation_day := n\<rparr>"
| "apply_config_update (RotationHour n) c = c\<lparr>qc_rotation_hour := n\<rparr>"
| "apply_config_update (EasyQuestCount n) c = c\<lparr>qc_easy_quest_count := n\<rparr>"
| "apply_config_update (MediumQuestCount n) c = c\<lparr>qc_medium_quest_count := n\<rparr>"
| "apply_config_update (HardQuestCount n) c = c\<lparr>qc_hard_quest_count := n\<rparr>"
| "apply_config_update (NextRotationAt t) c = c\<lparr>qc_next_rotation_at := t\<rparr>"

fun config_update_in_range :: "quest_config_update \<Rightarrow> bool" where
  "config_update_in_range (NextRotationAt t) = True"
| "config_update_in_range (RotationDay n) = int4_ok n"
| "config_update_in_range (RotationHour n) = int4_ok n"
| "config_update_in_range (EasyQuestCount n) = int4_ok n"
| "config_update_in_range (MediumQuestCount n) = int4_ok n"
| "config_update_in_range (HardQuestCount n) = int4_ok n"

definition quest_config_row_ok :: "quest_config_row \<Rightarrow> bool" where
  "quest_config_row_ok c \<longleftrightarrow> 1 \<le> qc_rotation_day c \<and> qc_rotation_day c \<le> 7
     \<and> 0 \<le> qc_rotation_hour c \<and> qc_rotation_hour c \<le> 23"

definition repo_update_quest_config :: "quest_config_update list \<Rightarrow> unit etx" where
  "repo_update_quest_config updates =
     (if updates = [] then return_tx ()
      else bind_tx (check_tx (\<lambda>_. list_all config_update_in_range updates) (Pg NumericOutOfRange)) (\<lambda>_.
        bind_tx (read_tx quest_config) (\<lambda>config. case config of
           None \<Rightarrow> return_tx ()
         | Some c \<Rightarrow>
             let c' = fold apply_config_update updates c in
             bind_tx (check_tx (\<lambda>_. quest_config_row_ok c') (Pg (CheckViolation ''quest_config''))) (\<lambda>_.
             write_tx (\<lambda>db. db\<lparr>quest_config := Some c'\<rparr>)))))"

definition repo_update_config :: "int option \<Rightarrow> string option \<Rightarrow> unit etx" where
  "repo_update_config rotation_period_days active_key_type =
     (if rotation_period_days = None \<and> active_key_type = None then return_tx ()
      else bind_tx (check_tx (\<lambda>_. case rotation_period_days of None \<Rightarrow> True | Some n \<Rightarrow> int4_ok n)
              (Pg NumericOutOfRange)) (\<lambda>_.
        bind_tx (read_tx store_config) (\<lambda>config. case config of
           None \<Rightarrow> return_tx ()
         | Some c \<Rightarrow>
             let c' = c\<lparr>sc_rotation_period_days := (case rotation_period_days of
                          None \<Rightarrow> sc_rotation_period_days c | Some n \<Rightarrow> n),
                        sc_active_key_type := (case active_key_type of
                          None \<Rightarrow> sc_active_key_type c | Some k \<Rightarrow> k)\<rparr> in
             bind_tx (check_tx (\<lambda>_. 0 < sc_rotation_period_days c') (Pg (CheckViolation ''config_rotation_period_days_check''))) (\<lambda>_.
             bind_tx (check_tx (\<lambda>db. sc_active_key_type c' \<in> set (key_types db))
                 (Pg (ForeignKeyViolation ''fk_active_key_type''))) (\<lambda>_.
             write_tx (\<lambda>db. db\<lparr>store_config := Some c'\<rparr>))))))"

subsection \<open>The item rotation\<close>

definition rotation_active :: "env \<Rightarrow> rotation_row \<Rightarrow> bool" where
  "rotation_active E r \<longleftrightarrow> ro_available_from r \<le> env_now E \<and> env_now E < ro_available_until r"

text \<open>The active rotation that started last.\<close>

definition current_rotation :: "env \<Rightarrow> econ \<Rightarrow> int option" where
  "current_rotation E db =
     (case sort_desc ro_available_from (filter (rotation_active E) (rotations db)) of
        [] \<Rightarrow> None | r # _ \<Rightarrow> Some (ro_rotation_id r))"

definition fetch_current_rotation :: "env \<Rightarrow> econ \<Rightarrow> rotation_row list" where
  "fetch_current_rotation E db =
     sort_desc ro_rarity (sort_key ro_item_name
       (filter (\<lambda>r. current_rotation E db = Some (ro_rotation_id r) \<and> rotation_active E r) (rotations db)))"

definition fetch_rotation_item :: "env \<Rightarrow> string \<Rightarrow> string \<Rightarrow> string \<Rightarrow> econ \<Rightarrow> rotation_row option" where
  "fetch_rotation_item E item_name item_type key_type db =
     first_where (\<lambda>r. current_rotation E db = Some (ro_rotation_id r)
        \<and> ro_item_name r = item_name \<and> ro_item_type r = item_type \<and> ro_key_type r = key_type
        \<and> rotation_active E r) (rotations db)"

text \<open>
  \<open>store.generate_rotation\<close>: expire what is active, exclude the items of the two latest
  rotations, then draw one legendary, one or two epic and otherwise rare items. \<open>epic_roll\<close> is
  \<open>(random() * 2)::int\<close>, one of 0, 1, 2.
\<close>

definition expire_active :: "env \<Rightarrow> rotation_row list \<Rightarrow> rotation_row list" where
  "expire_active E rows = update_where (rotation_active E) (\<lambda>r. r\<lparr>ro_available_until := env_now E\<rparr>) rows"

definition recent_rotations :: "rotation_row list \<Rightarrow> int list" where
  "recent_rotations rows = take 2 (rev (remdups (map ro_rotation_id (sort_key ro_available_from rows))))"

definition draw_rotation_items ::
  "env \<Rightarrow> (nat \<Rightarrow> nat) \<Rightarrow> int list \<Rightarrow> string \<Rightarrow> int \<Rightarrow> nat \<Rightarrow> int option \<Rightarrow> nat etx" where
  "draw_rotation_items E keys recent rarity price how_many available_until = (\<lambda>db.
     let pool = filter (\<lambda>rt. rt_rarity rt = Some rarity \<and> rt_type rt \<noteq> ''coins''
            \<and> \<not> has_row (\<lambda>sr. ro_rotation_id sr \<in> set recent \<and> ro_item_name sr = rt_name rt
                 \<and> ro_item_type sr = rt_type rt \<and> ro_key_type sr = rt_key_type rt) (rotations db))
          (reward_types db);
         drawn = take how_many (order_by_random keys pool)
     in if drawn = [] then Inr (0, db)
        else case available_until of
          None \<Rightarrow> Inl (Pg (NotNullViolation ''available_until''))
        | Some until \<Rightarrow>
            let rows = map (\<lambda>rt. \<lparr>ro_rotation_id = env_uuid E, ro_item_name = rt_name rt,
                  ro_item_type = rt_type rt, ro_key_type = rt_key_type rt, ro_rarity = rarity,
                  ro_price = price, ro_available_from = env_now E, ro_available_until = until\<rparr>) drawn
            in if distinct (map rotation_key (rotations db @ rows))
               then Inr (length drawn, db\<lparr>rotations := rotations db @ rows\<rparr>)
               else Inl (Pg (UniqueViolation ''unique_rotation_item'')))"

definition repo_generate_rotation ::
  "env \<Rightarrow> nat \<Rightarrow> (nat \<Rightarrow> nat \<Rightarrow> nat) \<Rightarrow> int \<Rightarrow> (int \<times> nat \<times> int option) etx" where
  "repo_generate_rotation E epic_roll keys item_count =
     bind_tx (read_tx store_config) (\<lambda>config.
     bind_tx (write_tx (\<lambda>db. db\<lparr>rotations := expire_active E (rotations db)\<rparr>)) (\<lambda>_.
     bind_tx (read_tx (\<lambda>db. recent_rotations (rotations db))) (\<lambda>recent.
     let available_until = map_option (\<lambda>c. env_now E + sc_rotation_period_days c * day_us) config;
         epic_count = (if epic_roll = 0 then 1 else epic_roll);
         rare_count = item_count - 1 - int epic_count
     in if rare_count < 0 then raise_tx (Pg (RaisedException ''Insufficient item_count''))
        else
          bind_tx (draw_rotation_items E (keys 0) recent ''legendary'' 3000 1 available_until) (\<lambda>n1.
          bind_tx (draw_rotation_items E (keys 1) recent ''epic'' 1500 epic_count available_until) (\<lambda>n2.
          bind_tx (draw_rotation_items E (keys 2) recent ''rare'' 750 (nat rare_count) available_until) (\<lambda>n3.
          bind_tx (write_tx (\<lambda>db. db\<lparr>store_config := map_option (\<lambda>c.
             c\<lparr>sc_last_rotation_at := env_now E, sc_next_rotation_at := env_now E + sc_rotation_period_days c * day_us\<rparr>)
               (store_config db)\<rparr>)) (\<lambda>_.
          return_tx (env_uuid E, n1 + n2 + n3, available_until))))))))"

subsection \<open>Purchases\<close>

definition insert_purchase ::
  "env \<Rightarrow> int \<Rightarrow> string \<Rightarrow> string \<Rightarrow> int \<Rightarrow> int \<Rightarrow> string option \<Rightarrow> string option \<Rightarrow> int option \<Rightarrow> unit etx" where
  "insert_purchase E user_id purchase_type key_type quantity price_paid item_name item_type rotation_id =
     bind_tx (check_tx (\<lambda>_. int4_ok quantity \<and> int4_ok price_paid) (Pg NumericOutOfRange)) (\<lambda>_.
     bind_tx (read_tx next_purchase_id) (\<lambda>i.
     let row = \<lparr>pu_id = i, pu_user_id = user_id, pu_purchase_type = purchase_type,
           pu_item_name = item_name, pu_item_type = item_type, pu_key_type = key_type,
           pu_quantity = quantity, pu_price_paid = price_paid, pu_rotation_id = rotation_id,
           pu_purchased_at = env_now E\<rparr> in
     bind_tx (check_tx (\<lambda>_. purchase_fields_ok row) (Pg (CheckViolation ''check_item_purchase_fields''))) (\<lambda>_.
     bind_tx (check_tx (user_exists user_id) (Repo (ForeignKeyViolationError ''fk_user'' ''store.purchases''))) (\<lambda>_.
     bind_tx (check_tx (\<lambda>db. key_type \<in> set (key_types db))
        (Repo (ForeignKeyViolationError ''fk_key_type'' ''store.purchases''))) (\<lambda>_.
     write_tx (\<lambda>db. db\<lparr>purchases := purchases db @ [row], next_purchase_id := i + 1\<rparr>))))))"

definition fetch_user_purchases :: "int \<Rightarrow> int \<Rightarrow> int \<Rightarrow> econ \<Rightarrow> pg_error + nat \<times> purchase_row list" where
  "fetch_user_purchases user_id n offset db =
     (let mine = filter (\<lambda>p. pu_user_id p = user_id) (purchases db) in
      case limit_offset n offset (sort_desc pu_purchased_at mine) of
        Inl e \<Rightarrow> Inl e | Inr rows \<Rightarrow> Inr (length mine, rows))"

subsection \<open>The quest rotation\<close>

definition quest_window :: "int \<Rightarrow> econ \<Rightarrow> (int \<times> int) option" where
  "quest_window rotation_id db =
     (case sort_key qr_id (filter (\<lambda>r. qr_rotation_id r = rotation_id \<and> qr_user_id r = None) (quest_rotation db)) of
        [] \<Rightarrow> None | r # _ \<Rightarrow> Some (qr_available_from r, qr_available_until r))"

definition get_rotation_window :: "int \<Rightarrow> econ \<Rightarrow> (int \<times> int) option" where
  "get_rotation_window rotation_id db = quest_window rotation_id db"

text \<open>The current rotation id with its window, if it has rows.\<close>

definition get_active_rotation :: "econ \<Rightarrow> (int \<times> (int \<times> int) option) option" where
  "get_active_rotation db = (case quest_config db of
      None \<Rightarrow> None
    | Some c \<Rightarrow> map_option (\<lambda>i. (i, quest_window i db)) (qc_current_rotation_id c))"

definition has_progress_rows :: "int \<Rightarrow> int \<Rightarrow> econ \<Rightarrow> bool" where
  "has_progress_rows user_id rotation_id db =
     has_row (\<lambda>p. pg_user_id p = user_id \<and> pg_rotation_id p = rotation_id) (quest_progress db)"

definition get_global_quests :: "int \<Rightarrow> econ \<Rightarrow> (int option \<times> dict) list" where
  "get_global_quests rotation_id db =
     map (\<lambda>r. (qr_quest_id r, qr_quest_data r))
       (sort_key (\<lambda>r. case qr_quest_id r of Some q \<Rightarrow> q | None \<Rightarrow> 0)
         (filter (\<lambda>r. qr_rotation_id r = rotation_id \<and> qr_user_id r = None) (quest_rotation db)))"

definition get_bounty_for_user :: "int \<Rightarrow> int \<Rightarrow> econ \<Rightarrow> dict option" where
  "get_bounty_for_user rotation_id user_id db =
     map_option qr_quest_data (first_where (\<lambda>r. qr_rotation_id r = rotation_id
        \<and> qr_user_id r = Some user_id \<and> qr_quest_id r = None) (quest_rotation db))"

definition insert_bounty :: "int \<Rightarrow> int \<Rightarrow> dict \<Rightarrow> unit etx" where
  "insert_bounty rotation_id user_id quest_data =
     bind_tx (read_tx (quest_window rotation_id)) (\<lambda>window. case window of
        None \<Rightarrow> raise_tx (Py (ValueError ''Rotation window not found for bounty insert.''))
      | Some (from, until) \<Rightarrow> (\<lambda>db.
          if has_row (\<lambda>r. qr_rotation_id r = rotation_id \<and> qr_user_id r = Some user_id \<and> qr_quest_id r = None)
               (quest_rotation db) then Inr ((), db)
          else if \<not> user_exists user_id db then Inl (Pg (ForeignKeyViolation ''fk_user''))
          else Inr ((), db\<lparr>quest_rotation := quest_rotation db @
                 [\<lparr>qr_id = next_quest_rotation_id db, qr_rotation_id = rotation_id, qr_quest_id = None,
                   qr_user_id = Some user_id, qr_quest_data = quest_data,
                   qr_available_from = from, qr_available_until = until\<rparr>],
               next_quest_rotation_id := next_quest_rotation_id db + 1\<rparr>)))"

subsection \<open>Quest progress\<close>

text \<open>\<open>quest_data.get("requirements", {})\<close> and the progress it starts with.\<close>

definition requirements_of :: "dict \<Rightarrow> py_error + dict" where
  "requirements_of quest_data = (case dget_or quest_data ''requirements'' (JObj []) of
     JObj d \<Rightarrow> Inr d | _ \<Rightarrow> Inl AttributeError)"

definition start_progress :: "dict \<Rightarrow> py_error + dict" where
  "start_progress quest_data = bind_py (requirements_of quest_data) initial_progress"

text \<open>\<open>INSERT .. ON CONFLICT DO NOTHING\<close> of one progress row; the two unique indexes decide.\<close>

definition insert_progress :: "int \<Rightarrow> int \<Rightarrow> int option \<Rightarrow> dict \<Rightarrow> dict \<Rightarrow> unit etx" where
  "insert_progress user_id rotation_id quest_id quest_data progress = (\<lambda>db.
     if has_row (\<lambda>p. pg_user_id p = user_id \<and> pg_rotation_id p = rotation_id \<and> pg_quest_id p = quest_id)
          (quest_progress db) then Inr ((), db)
     else if \<not> user_exists user_id db then Inl (Pg (ForeignKeyViolation ''fk_user''))
     else if \<not> (case quest_id of None \<Rightarrow> True | Some q \<Rightarrow> quest_exists q db)
       then Inl (Pg (ForeignKeyViolation ''fk_quest''))
     else Inr ((), db\<lparr>quest_progress := quest_progress db @
            [\<lparr>pg_id = next_progress_id db, pg_user_id = user_id, pg_rotation_id = rotation_id,
              pg_quest_id = quest_id, pg_quest_data = quest_data, pg_progress = progress,
              pg_completed_at = None, pg_claimed_at = None, pg_coins_rewarded = None, pg_xp_rewarded = None\<rparr>],
          next_progress_id := next_progress_id db + 1\<rparr>))"

text \<open>The records are built first, so a bad quest fails before any row is written.\<close>

definition seed_global_progress :: "int \<Rightarrow> int \<Rightarrow> (int option \<times> dict) list \<Rightarrow> unit etx" where
  "seed_global_progress user_id rotation_id global_quests =
     bind_tx (map_tx global_quests (\<lambda>(q, d).
        bind_tx (lift_tx (lift_py (start_progress d))) (\<lambda>p. return_tx (q, d, p)))) (\<lambda>records.
     for_tx records (\<lambda>(q, d, p). insert_progress user_id rotation_id q d p))"

definition seed_bounty_progress :: "int \<Rightarrow> int \<Rightarrow> dict \<Rightarrow> unit etx" where
  "seed_bounty_progress user_id rotation_id quest_data =
     bind_tx (lift_tx (lift_py (start_progress quest_data))) (\<lambda>p.
       insert_progress user_id rotation_id None quest_data p)"

text \<open>The columns the query selects; the rewards paid so far are not among them.\<close>

record active_quest =
  aq_progress_id :: int
  aq_quest_id :: "int option"
  aq_quest_data :: dict
  aq_progress :: dict
  aq_completed_at :: "int option"
  aq_claimed_at :: "int option"

definition active_quest_of :: "progress_row \<Rightarrow> active_quest" where
  "active_quest_of p = \<lparr>aq_progress_id = pg_id p, aq_quest_id = pg_quest_id p, aq_quest_data = pg_quest_data p,
     aq_progress = pg_progress p, aq_completed_at = pg_completed_at p, aq_claimed_at = pg_claimed_at p\<rparr>"

definition active_rows :: "int \<Rightarrow> econ \<Rightarrow> progress_row list" where
  "active_rows user_id db =
     sort_key pg_id (filter (\<lambda>p. pg_user_id p = user_id
        \<and> (case quest_config db of None \<Rightarrow> False
           | Some c \<Rightarrow> qc_current_rotation_id c = Some (pg_rotation_id p))) (quest_progress db))"

definition get_active_user_quests :: "int \<Rightarrow> econ \<Rightarrow> active_quest list" where
  "get_active_user_quests user_id db = map active_quest_of (active_rows user_id db)"

definition update_progress_row :: "int \<Rightarrow> (progress_row \<Rightarrow> bool) \<Rightarrow> (progress_row \<Rightarrow> progress_row) \<Rightarrow> unit etx" where
  "update_progress_row progress_id P f = write_tx (\<lambda>db. db\<lparr>quest_progress :=
     update_where (\<lambda>p. pg_id p = progress_id \<and> P p) f (quest_progress db)\<rparr>)"

definition repo_update_quest_progress :: "int \<Rightarrow> dict \<Rightarrow> unit etx" where
  "repo_update_quest_progress progress_id new_progress =
     update_progress_row progress_id (\<lambda>_. True) (\<lambda>p. p\<lparr>pg_progress := new_progress\<rparr>)"

definition mark_quest_complete :: "env \<Rightarrow> int \<Rightarrow> unit etx" where
  "mark_quest_complete E progress_id =
     update_progress_row progress_id (\<lambda>p. pg_completed_at p = None) (\<lambda>p. p\<lparr>pg_completed_at := Some (env_now E)\<rparr>)"

definition unmark_quest_complete :: "int \<Rightarrow> unit etx" where
  "unmark_quest_complete progress_id =
     update_progress_row progress_id (\<lambda>p. pg_claimed_at p = None) (\<lambda>p. p\<lparr>pg_completed_at := None\<rparr>)"

definition fetch_quest_history :: "int \<Rightarrow> int \<Rightarrow> int \<Rightarrow> econ \<Rightarrow> pg_error + nat \<times> progress_row list" where
  "fetch_quest_history user_id n offset db =
     (let mine = filter (\<lambda>p. pg_user_id p = user_id \<and> pg_completed_at p \<noteq> None) (quest_progress db) in
      case limit_offset n offset (sort_desc (\<lambda>p. the (pg_completed_at p)) mine) of
        Inl e \<Rightarrow> Inl e | Inr rows \<Rightarrow> Inr (length mine, rows))"

definition get_user_quest_progress :: "int \<Rightarrow> int \<Rightarrow> econ \<Rightarrow> progress_row option" where
  "get_user_quest_progress user_id progress_id db =
     first_where (\<lambda>p. pg_id p = progress_id \<and> pg_user_id p = user_id) (quest_progress db)"

text \<open>
  The admin update: each argument \<open>None\<close> skips its column; \<open>completed_at\<close> may be set to
  \<open>NULL\<close>; claiming copies the rewards of the old quest data into their columns, since every
  expression of an \<open>UPDATE\<close> reads the old row.
\<close>

definition claim_columns :: "progress_row \<Rightarrow> pg_error + (int option \<times> int option)" where
  "claim_columns p = bind_py (json_int4 (dget (pg_quest_data p) ''coin_reward'')) (\<lambda>coins.
     bind_py (json_int4 (dget (pg_quest_data p) ''xp_reward'')) (\<lambda>xp. Inr (coins, xp)))"

definition repo_admin_update_user_quest ::
  "env \<Rightarrow> int \<Rightarrow> dict option \<Rightarrow> dict option \<Rightarrow> int option option \<Rightarrow> bool option \<Rightarrow> unit etx" where
  "repo_admin_update_user_quest E progress_id quest_data progress completed_at claimed = (\<lambda>db.
     case first_where (\<lambda>p. pg_id p = progress_id) (quest_progress db) of
       None \<Rightarrow> Inr ((), db)
     | Some old \<Rightarrow>
         (case (if claimed = Some True then claim_columns old else Inr (None, None)) of
            Inl e \<Rightarrow> Inl (Pg e)
          | Inr (coins, xp) \<Rightarrow>
              Inr ((), db\<lparr>quest_progress := update_where (\<lambda>p. pg_id p = progress_id) (\<lambda>p.
                 p\<lparr>pg_quest_data := (case quest_data of None \<Rightarrow> pg_quest_data p | Some d \<Rightarrow> d),
                   pg_progress := (case progress of None \<Rightarrow> pg_progress p | Some d \<Rightarrow> d),
                   pg_completed_at := (case completed_at of None \<Rightarrow> pg_completed_at p | Some t \<Rightarrow> t),
                   pg_claimed_at := (case claimed of None \<Rightarrow> pg_claimed_at p
                      | Some c \<Rightarrow> if c then Some (env_now E) else None),
                   pg_coins_rewarded := (case claimed of None \<Rightarrow> pg_coins_rewarded p | Some _ \<Rightarrow> coins),
                   pg_xp_rewarded := (case claimed of None \<Rightarrow> pg_xp_rewarded p | Some _ \<Rightarrow> xp)\<rparr>)
                 (quest_progress db)\<rparr>)))"

subsection \<open>The quest pool\<close>

datatype quest_update =
    QuestName string
  | QuestDescription string
  | QuestDifficulty string
  | QuestCoinReward int
  | QuestXpReward int
  | QuestRequirements dict
  | QuestIsActive bool

fun apply_quest_update :: "quest_update \<Rightarrow> quest_row \<Rightarrow> quest_row" where
  "apply_quest_update (QuestName s) q = q\<lparr>qs_name := s\<rparr>"
| "apply_quest_update (QuestDescription s) q = q\<lparr>qs_description := s\<rparr>"
| "apply_quest_update (QuestDifficulty s) q = q\<lparr>qs_difficulty := s\<rparr>"
| "apply_quest_update (QuestCoinReward n) q = q\<lparr>qs_coin_reward := n\<rparr>"
| "apply_quest_update (QuestXpReward n) q = q\<lparr>qs_xp_reward := n\<rparr>"
| "apply_quest_update (QuestRequirements d) q = q\<lparr>qs_requirements := d\<rparr>"
| "apply_quest_update (QuestIsActive b) q = q\<lparr>qs_is_active := b\<rparr>"

fun quest_update_field :: "quest_update \<Rightarrow> string" where
  "quest_update_field (QuestName s) = ''name''"
| "quest_update_field (QuestDescription s) = ''description''"
| "quest_update_field (QuestDifficulty s) = ''difficulty''"
| "quest_update_field (QuestCoinReward n) = ''coin_reward''"
| "quest_update_field (QuestXpReward n) = ''xp_reward''"
| "quest_update_field (QuestRequirements d) = ''requirements''"
| "quest_update_field (QuestIsActive b) = ''is_active''"

definition quest_row_ok :: "quest_row \<Rightarrow> bool" where
  "quest_row_ok q \<longleftrightarrow> qs_difficulty q \<in> {''easy'', ''medium'', ''hard''}"

fun quest_update_in_range :: "quest_update \<Rightarrow> bool" where
  "quest_update_in_range (QuestCoinReward n) = int4_ok n"
| "quest_update_in_range (QuestXpReward n) = int4_ok n"
| "quest_update_in_range u = True"

definition update_quest :: "int \<Rightarrow> quest_update list \<Rightarrow> string list etx" where
  "update_quest quest_id updates =
     (if updates = [] then return_tx []
      else bind_tx (check_tx (\<lambda>_. list_all quest_update_in_range updates) (Pg NumericOutOfRange)) (\<lambda>_.
        bind_tx (check_tx (\<lambda>db. list_all (\<lambda>q. qs_id q = quest_id \<longrightarrow> quest_row_ok (fold apply_quest_update updates q))
               (quests db)) (Pg (CheckViolation ''quests_difficulty_check''))) (\<lambda>_.
        bind_tx (write_tx (\<lambda>db. db\<lparr>quests := update_where (\<lambda>q. qs_id q = quest_id)
               (fold apply_quest_update updates) (quests db)\<rparr>)) (\<lambda>_.
        return_tx (map quest_update_field updates)))))"

text \<open>\<open>ILIKE\<close>: \<open>%\<close> stands for any text, \<open>_\<close> for one character, a backslash escapes.\<close>

fun sql_like :: "string \<Rightarrow> string \<Rightarrow> bool" where
  "sql_like [] s = (s = [])"
| "sql_like (p # ps) [] = (p = CHR ''%'' \<and> sql_like ps [])"
| "sql_like (p # ps) (c # cs) =
     (if p = CHR ''%'' then sql_like ps (c # cs) \<or> sql_like (p # ps) cs
      else if p = CHR ''_'' then sql_like ps cs
      else if p = CHR 0x5C then (case ps of [] \<Rightarrow> False | q # qs \<Rightarrow> q = c \<and> sql_like qs cs)
      else p = c \<and> sql_like ps cs)"

definition sql_ilike :: "string \<Rightarrow> string \<Rightarrow> bool" where
  "sql_ilike s pattern = sql_like (py_lower pattern) (py_lower s)"

definition repo_get_all_quests :: "bool option \<Rightarrow> string option \<Rightarrow> string option \<Rightarrow> econ \<Rightarrow> quest_row list" where
  "repo_get_all_quests is_active difficulty name_query db =
     sort_key qs_id (filter (\<lambda>q. qs_quest_type q = ''global''
        \<and> opt_eq is_active (qs_is_active q) \<and> opt_eq difficulty (qs_difficulty q)
        \<and> (case name_query of None \<Rightarrow> True | Some n \<Rightarrow> n = [] \<or> sql_ilike (qs_name q) (''%'' @ n @ ''%'')))
       (quests db))"

end
