(* ===== verification/Quest_Rotation.thy ===== *)
theory Quest_Rotation
  imports Store_Repo
begin

section \<open>Quest rotation in the database\<close>

text \<open>
  The PL/pgSQL functions of migration 0014 that the store service calls:
  \<open>check_and_generate_quest_rotation\<close> with \<open>auto_claim_completed_quests\<close>,
  \<open>select_global_quests\<close>, \<open>insert_rotation_notifications\<close> and
  \<open>generate_quest_rotation\<close>. A function runs in one transaction.
\<close>

subsection \<open>Paying rewards\<close>

text \<open>\<open>UPDATE core.users SET coins = coins + $2 WHERE id = $1 RETURNING coins\<close>.\<close>

definition update_user_coins :: "int \<Rightarrow> int \<Rightarrow> int option etx" where
  "update_user_coins user_id amount =
     bind_tx (read_tx (coins_of user_id)) (\<lambda>balance. case balance of
        None \<Rightarrow> return_tx None
      | Some c \<Rightarrow>
          bind_tx (check_tx (\<lambda>_. int4_ok (c + amount)) (Pg NumericOutOfRange)) (\<lambda>_.
          bind_tx (write_tx (\<lambda>db. db\<lparr>users := update_where (\<lambda>r. usr_id r = user_id)
             (\<lambda>r. r\<lparr>usr_coins := usr_coins r + amount\<rparr>) (users db)\<rparr>)) (\<lambda>_.
          return_tx (Some (c + amount)))))"

text \<open>\<open>INSERT INTO lootbox.xp .. ON CONFLICT (user_id) DO UPDATE SET amount = amount + EXCLUDED.amount\<close>.\<close>

definition insert_xp :: "int \<Rightarrow> int \<Rightarrow> unit etx" where
  "insert_xp user_id amount =
     bind_tx (check_tx (\<lambda>db. int4_ok amount \<and> int4_ok (xp_total user_id db + amount)) (Pg NumericOutOfRange)) (\<lambda>_.
     bind_tx (check_tx (user_exists user_id) (Pg (ForeignKeyViolation ''xp_users_user_id_fk''))) (\<lambda>_.
     write_tx (\<lambda>db. db\<lparr>xp_tbl :=
       (if xp_of user_id db = None then xp_tbl db @ [\<lparr>xp_user_id = user_id, xp_amount = amount\<rparr>]
        else update_where (\<lambda>r. xp_user_id r = user_id) (\<lambda>r. r\<lparr>xp_amount := xp_amount r + amount\<rparr>)
               (xp_tbl db))\<rparr>)))"

text \<open>\<open>SUM\<close> of a nullable column: \<open>NULL\<close> if there is no value.\<close>

definition sql_sum :: "int option list \<Rightarrow> int option" where
  "sql_sum vs = (if list_all (\<lambda>v. v = None) vs then None
     else Some (sum_list (map (\<lambda>v. case v of Some n \<Rightarrow> n | None \<Rightarrow> 0) vs)))"

definition due_for_claim :: "progress_row \<Rightarrow> bool" where
  "due_for_claim p \<longleftrightarrow> pg_completed_at p \<noteq> None \<and> pg_claimed_at p = None"

definition claim_row :: "env \<Rightarrow> int option \<times> int option \<Rightarrow> progress_row \<Rightarrow> progress_row" where
  "claim_row E cx p = p\<lparr>pg_claimed_at := Some (env_now E), pg_coins_rewarded := fst cx, pg_xp_rewarded := snd cx\<rparr>"

text \<open>The rows that become claimed, with their rewards read from the quest data.\<close>

definition auto_claim_completed_quests :: "env \<Rightarrow> (nat \<times> int \<times> int) etx" where
  "auto_claim_completed_quests E =
     bind_tx (read_tx (\<lambda>db. filter due_for_claim (quest_progress db))) (\<lambda>due.
     bind_tx (map_tx due (\<lambda>p. bind_tx (lift_tx (lift_pg (claim_columns p))) (\<lambda>cx.
        return_tx (pg_id p, pg_user_id p, cx)))) (\<lambda>claimed.
     bind_tx (write_tx (\<lambda>db. db\<lparr>quest_progress := map (\<lambda>p. case map_of claimed (pg_id p) of
          Some (_, cx) \<Rightarrow> if due_for_claim p then claim_row E cx p else p | None \<Rightarrow> p) (quest_progress db)\<rparr>)) (\<lambda>_.
     let rewards_of = (\<lambda>f u. sql_sum (map (\<lambda>(_, _, cx). f cx) (filter (\<lambda>(_, v, _). v = u) claimed)));
         claimants = remdups (map (\<lambda>(_, u, _). u) claimed)
     in bind_tx (for_tx claimants (\<lambda>u. case rewards_of fst u of
            None \<Rightarrow> raise_tx (Py (OutsideModel ''a balance set to NULL''))
          | Some n \<Rightarrow> bind_tx (update_user_coins u n) (\<lambda>_. return_tx ()))) (\<lambda>_.
        bind_tx (for_tx claimants (\<lambda>u. case rewards_of snd u of
            None \<Rightarrow> raise_tx (Pg (NotNullViolation ''amount''))
          | Some n \<Rightarrow> insert_xp u n)) (\<lambda>_.
        let total = (\<lambda>f. case sql_sum (map (\<lambda>(_, _, cx). f cx) claimed) of Some n \<Rightarrow> n | None \<Rightarrow> 0)
        in bind_tx (check_tx (\<lambda>_. int4_ok (total fst) \<and> int4_ok (total snd)) (Pg NumericOutOfRange)) (\<lambda>_.
           return_tx (length claimed, total fst, total snd)))))))"

subsection \<open>Selecting quests\<close>

definition pool_quest_data :: "quest_row \<Rightarrow> dict" where
  "pool_quest_data q =
     [(''name'', JStr (qs_name q)), (''description'', JStr (qs_description q)),
      (''difficulty'', JStr (qs_difficulty q)), (''coin_reward'', JInt (qs_coin_reward q)),
      (''xp_reward'', JInt (qs_xp_reward q)), (''requirements'', JObj (qs_requirements q))]"

text \<open>A row of \<open>INSERT .. ON CONFLICT DO NOTHING\<close> into the quest rotation.\<close>

definition insert_global_quest :: "int \<Rightarrow> int \<Rightarrow> int \<Rightarrow> quest_row \<Rightarrow> unit etx" where
  "insert_global_quest rotation_id from until q = write_tx (\<lambda>db.
     if has_row (\<lambda>r. qr_rotation_id r = rotation_id \<and> qr_quest_id r = Some (qs_id q) \<and> qr_user_id r = None)
          (quest_rotation db) then db
     else db\<lparr>quest_rotation := quest_rotation db @
            [\<lparr>qr_id = next_quest_rotation_id db, qr_rotation_id = rotation_id, qr_quest_id = Some (qs_id q),
              qr_user_id = None, qr_quest_data = pool_quest_data q,
              qr_available_from = from, qr_available_until = until\<rparr>],
          next_quest_rotation_id := next_quest_rotation_id db + 1\<rparr>)"

text \<open>A \<open>NULL\<close> limit is no limit.\<close>

definition select_by_difficulty ::
  "(nat \<Rightarrow> nat) \<Rightarrow> int \<Rightarrow> int \<Rightarrow> int \<Rightarrow> string \<Rightarrow> int option \<Rightarrow> unit etx" where
  "select_by_difficulty keys rotation_id from until difficulty limit =
     bind_tx (check_tx (\<lambda>_. case limit of None \<Rightarrow> True | Some n \<Rightarrow> 0 \<le> n)
        (Pg (RaisedException ''LIMIT must not be negative''))) (\<lambda>_.
     bind_tx (read_tx (\<lambda>db. order_by_random keys (filter (\<lambda>q. qs_is_active q \<and> qs_quest_type q = ''global''
          \<and> qs_difficulty q = difficulty) (quests db)))) (\<lambda>pool.
     for_tx (case limit of None \<Rightarrow> pool | Some n \<Rightarrow> take (nat n) pool)
       (insert_global_quest rotation_id from until)))"

definition select_global_quests ::
  "(nat \<Rightarrow> nat \<Rightarrow> nat) \<Rightarrow> int \<Rightarrow> int \<Rightarrow> int \<Rightarrow> int option \<Rightarrow> int option \<Rightarrow> int option \<Rightarrow> unit etx" where
  "select_global_quests keys rotation_id from until easy medium hard =
     bind_tx (select_by_difficulty (keys 0) rotation_id from until ''easy'' easy) (\<lambda>_.
     bind_tx (select_by_difficulty (keys 1) rotation_id from until ''medium'' medium) (\<lambda>_.
     select_by_difficulty (keys 2) rotation_id from until ''hard'' hard))"

definition insert_rotation_notifications :: "int \<Rightarrow> unit etx" where
  "insert_rotation_notifications rotation_id = write_tx (\<lambda>db.
     db\<lparr>notification_events := notification_events db @
       map (\<lambda>u. \<lparr>ne_user_id = usr_id u, ne_event_type = ''quest_rotation'', ne_title = ''New Weekly Quests'',
              ne_body = ''Your new weekly quests are available now.'',
              ne_metadata = [(''rotation_id'', JInt rotation_id)]\<rparr>)
         (filter (\<lambda>u. \<not> has_row (\<lambda>n. ne_user_id n = usr_id u \<and> ne_event_type n = ''quest_rotation''
              \<and> dget (ne_metadata n) ''rotation_id'' = JInt rotation_id) (notification_events db)) (users db))\<rparr>)"

definition generate_quest_rotation_rows ::
  "(nat \<Rightarrow> nat \<Rightarrow> nat) \<Rightarrow> int \<Rightarrow> int \<Rightarrow> int \<Rightarrow> int option \<Rightarrow> int option \<Rightarrow> int option \<Rightarrow> unit etx" where
  "generate_quest_rotation_rows keys rotation_id rotation_start rotation_end easy medium hard =
     bind_tx (write_tx (\<lambda>db. db\<lparr>quest_rotation :=
        filter (\<lambda>r. \<not> qr_available_until r \<le> rotation_start) (quest_rotation db)\<rparr>)) (\<lambda>_.
     bind_tx (select_global_quests keys rotation_id rotation_start rotation_end easy medium hard) (\<lambda>_.
     insert_rotation_notifications rotation_id))"

subsection \<open>The weekly check\<close>

definition week_us :: int where
  "week_us = 7 * day_us"

definition rotation_due :: "env \<Rightarrow> quest_config_row option \<Rightarrow> bool" where
  "rotation_due E config = (case config of None \<Rightarrow> True
     | Some c \<Rightarrow> qc_current_rotation_id c = None \<or> qc_next_rotation_at c \<le> env_now E)"

definition count_global :: "int option \<Rightarrow> econ \<Rightarrow> nat" where
  "count_global rotation_id db = length (filter (\<lambda>r. Some (qr_rotation_id r) = rotation_id \<and> qr_user_id r = None)
     (quest_rotation db))"

text \<open>Result: the rotation id, whether it is new, the quests claimed for their owners and the number of global quests.\<close>

definition check_and_generate_quest_rotation ::
  "env \<Rightarrow> (nat \<Rightarrow> nat \<Rightarrow> nat) \<Rightarrow> (int option \<times> bool \<times> nat \<times> nat) etx" where
  "check_and_generate_quest_rotation E keys =
     bind_tx (read_tx quest_config) (\<lambda>config.
     if rotation_due E config then
       let rotation_start = (case config of None \<Rightarrow> env_now E | Some c \<Rightarrow> qc_next_rotation_at c);
           rotation_id = env_uuid E
       in bind_tx (auto_claim_completed_quests E) (\<lambda>(claimed, _, _).
          bind_tx (generate_quest_rotation_rows keys rotation_id rotation_start (rotation_start + week_us)
             (map_option qc_easy_quest_count config) (map_option qc_medium_quest_count config)
             (map_option qc_hard_quest_count config)) (\<lambda>_.
          bind_tx (write_tx (\<lambda>db. db\<lparr>quest_config := map_option (\<lambda>c. c\<lparr>qc_last_rotation_at := rotation_start,
             qc_next_rotation_at := rotation_start + week_us, qc_current_rotation_id := Some rotation_id\<rparr>)
               (quest_config db)\<rparr>)) (\<lambda>_.
          bind_tx (read_tx (count_global (Some rotation_id))) (\<lambda>n.
          return_tx (Some rotation_id, True, claimed, n)))))
     else
       let current = (case config of None \<Rightarrow> None | Some c \<Rightarrow> qc_current_rotation_id c)
       in bind_tx (read_tx (count_global current)) (\<lambda>n. return_tx (current, False, 0, n)))"

end
