(* ===== verification/Quest_Bounty.thy ===== *)
theory Quest_Bounty
  imports Store_Repo
begin

section \<open>Personal bounties\<close>

text \<open>
  The repository queries that look for a bounty (\<open>get_user_completions\<close> to
  \<open>get_uncompleted_maps\<close>) and the service's \<open>generate_bounty_for_user\<close> with its three kinds.
  Times are \<open>numeric(10, 2)\<close> in the database and floats in Python. Every random choice is an
  argument: a number for \<open>random.choices\<close>, an index for \<open>random.choice\<close>, the keys of
  \<open>ORDER BY random()\<close>.
\<close>

subsection \<open>Completed maps\<close>

definition counts_for_bounty :: "int \<Rightarrow> completion_row \<Rightarrow> bool" where
  "counts_for_bounty user_id c \<longleftrightarrow> cp_user_id c = user_id \<and> cp_verified c \<and> \<not> cp_legacy c"

definition playable :: "map_row \<Rightarrow> bool" where
  "playable m \<longleftrightarrow> \<not> mp_archived m \<and> mp_code m \<noteq> None"

definition best_time_on :: "int \<Rightarrow> int \<Rightarrow> econ \<Rightarrow> rat option" where
  "best_time_on user_id map_id db =
     (case map cp_time (filter (\<lambda>c. counts_for_bounty user_id c \<and> cp_map_id c = map_id) (completions db)) of
        [] \<Rightarrow> None | t # ts \<Rightarrow> Some (foldl min t ts))"

record bounty_completion =
  bc_map :: map_row
  bc_time :: rat

definition get_user_completions :: "int \<Rightarrow> econ \<Rightarrow> bounty_completion list" where
  "get_user_completions user_id db = concat (map (\<lambda>m. case best_time_on user_id (mp_id m) db of
      None \<Rightarrow> [] | Some t \<Rightarrow> [\<lparr>bc_map = m, bc_time = fl t\<rparr>]) (filter playable (maps_tbl db)))"

definition get_medal_thresholds :: "int \<Rightarrow> econ \<Rightarrow> medals_row option" where
  "get_medal_thresholds map_id db = first_where (\<lambda>m. md_map_id m = map_id) (medals db)"

text \<open>\<open>percentile_cont\<close>: linear interpolation between the two neighbours, in double precision.\<close>

definition get_percentile_target_time :: "int \<Rightarrow> rat \<Rightarrow> econ \<Rightarrow> rat option" where
  "get_percentile_target_time map_id percentile db =
     (let times = sort (map (\<lambda>c. fl (cp_time c)) (filter (\<lambda>c. cp_map_id c = map_id \<and> cp_verified c
            \<and> \<not> cp_legacy c) (completions db)));
          pos = fl (percentile * of_int (int (length times) - 1));
          lo = nat \<lfloor>pos\<rfloor>; hi = nat \<lceil>pos\<rceil>
      in if times = [] then None
         else if lo = hi then Some (times ! lo)
         else Some (fl (times ! lo + fl (fl (pos - of_nat lo) * fl (times ! hi - times ! lo)))))"

subsection \<open>Skill ranks and rivals\<close>

text \<open>\<open>regexp_replace(difficulty, '\s*[-+]\s*$', '', '')\<close>.\<close>

definition strip_right :: "string \<Rightarrow> string" where
  "strip_right s = rev (dropWhile is_space_char (rev s))"

definition base_difficulty :: "string \<Rightarrow> string" where
  "base_difficulty s = (case rev (strip_right s) of
      c # cs \<Rightarrow> if c = CHR ''-'' \<or> c = CHR ''+'' then strip_right (rev cs) else s
    | [] \<Rightarrow> s)"

definition rank_ladder :: "(string \<times> nat \<times> string) list" where
  "rank_ladder = [(''Hell'', 3, ''God''), (''Extreme'', 7, ''Grandmaster''), (''Very Hard'', 10, ''Master''),
     (''Hard'', 10, ''Pro''), (''Medium'', 10, ''Skilled''), (''Easy'', 10, ''Jumper'')]"

definition official_completed :: "int \<Rightarrow> econ \<Rightarrow> map_row list" where
  "official_completed user_id db = filter (\<lambda>m. mp_official m
     \<and> has_row (\<lambda>c. counts_for_bounty user_id c \<and> cp_map_id c = mp_id m) (completions db)) (maps_tbl db)"

text \<open>The highest difficulty of which the user has completed enough official maps.\<close>

definition get_user_skill_rank :: "int \<Rightarrow> econ \<Rightarrow> string" where
  "get_user_skill_rank user_id db =
     (case filter (\<lambda>(d, threshold, _). threshold \<le> length (filter (\<lambda>m. base_difficulty (mp_difficulty m) = d)
             (official_completed user_id db))) rank_ladder of
        [] \<Rightarrow> ''Ninja'' | (_, _, rank_name) # _ \<Rightarrow> rank_name)"

definition username :: "user_row \<Rightarrow> string" where
  "username u = (case usr_global_name u of Some n \<Rightarrow> n | None \<Rightarrow>
     (case usr_nickname u of Some n \<Rightarrow> n | None \<Rightarrow> ''Unknown''))"

definition find_rivals :: "(nat \<Rightarrow> nat) \<Rightarrow> int \<Rightarrow> string \<Rightarrow> econ \<Rightarrow> (int \<times> string) list" where
  "find_rivals keys user_id skill_rank db =
     take 50 (order_by_random keys (map (\<lambda>u. (usr_id u, username u))
       (filter (\<lambda>u. usr_id u \<noteq> user_id \<and> get_user_skill_rank (usr_id u) db = skill_rank) (users db))))"

text \<open>A map on which the rival is faster, by at most a fifth; with the rival's time.\<close>

definition find_beatable_rival_map :: "(nat \<Rightarrow> nat) \<Rightarrow> int \<Rightarrow> int \<Rightarrow> econ \<Rightarrow> (map_row \<times> rat) option" where
  "find_beatable_rival_map keys user_id rival_id db =
     (case order_by_random keys (concat (map (\<lambda>m. case (best_time_on rival_id (mp_id m) db, best_time_on user_id (mp_id m) db) of
             (Some rt, Some ut) \<Rightarrow> if rt < ut \<and> ut * (8 / 10) \<le> rt then [(m, rt)] else []
           | _ \<Rightarrow> []) (filter playable (maps_tbl db)))) of
        [] \<Rightarrow> None | x # _ \<Rightarrow> Some x)"

definition get_uncompleted_maps :: "(nat \<Rightarrow> nat) \<Rightarrow> int \<Rightarrow> econ \<Rightarrow> map_row list" where
  "get_uncompleted_maps keys user_id db =
     take 50 (order_by_random keys (filter (\<lambda>m. \<not> has_row (\<lambda>c. counts_for_bounty user_id c \<and> cp_map_id c = mp_id m)
         (completions db) \<and> mp_official m \<and> playable m) (maps_tbl db)))"

subsection \<open>Generating a bounty\<close>

record bounty_rolls =
  br_type :: rat
  br_completion :: nat
  br_rival :: nat
  br_map :: nat
  br_rival_keys :: "nat \<Rightarrow> nat"
  br_map_keys :: "nat \<Rightarrow> nat"
  br_gap_keys :: "nat \<Rightarrow> nat"

record bounty =
  bo_user_id :: int
  bo_rotation_id :: int
  bo_quest_data :: dict

definition random_choice :: "nat \<Rightarrow> 'a list \<Rightarrow> 'a" where
  "random_choice k xs = xs ! (k mod length xs)"

definition code_of :: "map_row \<Rightarrow> string" where
  "code_of m = (case mp_code m of Some c \<Rightarrow> c | None \<Rightarrow> ''None'')"

definition bounty_data :: "string \<Rightarrow> string \<Rightarrow> string \<Rightarrow> dict \<Rightarrow> dict" where
  "bounty_data name description bounty_type requirements =
     [(''name'', JStr name), (''description'', JStr description), (''difficulty'', JStr ''bounty''),
      (''coin_reward'', JInt 300), (''xp_reward'', JInt 50), (''bounty_type'', JStr bounty_type),
      (''requirements'', JObj requirements)]"

definition generate_gap_filling_bounty :: "bounty_rolls \<Rightarrow> int \<Rightarrow> int \<Rightarrow> econ \<Rightarrow> bounty" where
  "generate_gap_filling_bounty R user_id rotation_id db =
     (let uncompleted = get_uncompleted_maps (br_gap_keys R) user_id db in
      \<lparr>bo_user_id = user_id, bo_rotation_id = rotation_id, bo_quest_data =
        (if uncompleted = [] then
           bounty_data ''Explore New Territory'' ''Complete a new map'' ''gap_filling''
             [(''type'', JStr ''complete_map''), (''map_id'', JInt 0), (''target'', JStr ''complete'')]
         else let target_map = random_choice (br_map R) uncompleted in
           bounty_data ''Explore New Territory'' (''Complete '' @ code_of target_map) ''gap_filling''
             [(''type'', JStr ''complete_map''), (''map_id'', JInt (mp_id target_map)),
              (''target'', JStr ''complete'')])\<rparr>)"

text \<open>The first medal, from gold down, whose threshold the user has not reached.\<close>

definition next_medal :: "rat \<Rightarrow> medals_row option \<Rightarrow> (rat \<times> string) option" where
  "next_medal time thresholds = (case thresholds of
      None \<Rightarrow> None
    | Some m \<Rightarrow> (case filter (\<lambda>(name, threshold). case threshold of
            None \<Rightarrow> False | Some t \<Rightarrow> t \<noteq> 0 \<and> fl t < time)
          [(''gold'', md_gold m), (''silver'', md_silver m), (''bronze'', md_bronze m)] of
        (name, Some t) # _ \<Rightarrow> Some (fl t, name) | _ \<Rightarrow> None))"

definition truthy_time :: "rat option \<Rightarrow> bool" where
  "truthy_time t \<longleftrightarrow> (case t of None \<Rightarrow> False | Some x \<Rightarrow> x \<noteq> 0)"

definition improvement_target :: "rat \<Rightarrow> rat option \<Rightarrow> rat option \<Rightarrow> rat \<times> string" where
  "improvement_target time medal_target percentile_target =
     (let own = (fl (time * fl (9 / 10)), ''personal_best'');
          target =
            (if truthy_time medal_target \<and> truthy_time percentile_target then
               (let t = max (the medal_target) (the percentile_target)
                in (t, if t = the medal_target then ''medal_threshold'' else ''percentile''))
             else if truthy_time medal_target then (the medal_target, ''medal_threshold'')
             else if truthy_time percentile_target then (the percentile_target, ''percentile'')
             else own)
      in if time \<le> fst target then own else target)"

definition generate_personal_improvement_bounty :: "bounty_rolls \<Rightarrow> int \<Rightarrow> int \<Rightarrow> econ \<Rightarrow> bounty" where
  "generate_personal_improvement_bounty R user_id rotation_id db =
     (let completions = get_user_completions user_id db in
      if completions = [] then generate_gap_filling_bounty R user_id rotation_id db
      else let completion = random_choice (br_completion R) completions;
               map_id = mp_id (bc_map completion);
               medal = next_medal (bc_time completion) (get_medal_thresholds map_id db);
               percentile_target = get_percentile_target_time map_id (fl (6 / 10)) db;
               (target_time, target_type) = improvement_target (bc_time completion) (map_option fst medal) percentile_target
           in \<lparr>bo_user_id = user_id, bo_rotation_id = rotation_id, bo_quest_data =
                bounty_data ''Beat Your Best'' (''Improve your time on '' @ code_of (bc_map completion))
                  ''personal_improvement''
                  ([(''type'', JStr ''beat_time''), (''map_id'', JInt map_id), (''target_time'', JFloat target_time),
                    (''target_type'', JStr target_type), (''current_best'', JFloat (bc_time completion))]
                   @ (if target_type = ''medal_threshold''
                      then [(''medal_type'', case medal of Some (_, n) \<Rightarrow> JStr n | None \<Rightarrow> JNull)] else []))\<rparr>)"

definition generate_rival_challenge_bounty :: "bounty_rolls \<Rightarrow> int \<Rightarrow> int \<Rightarrow> econ \<Rightarrow> bounty" where
  "generate_rival_challenge_bounty R user_id rotation_id db =
     (let rivals = find_rivals (br_rival_keys R) user_id (get_user_skill_rank user_id db) db in
      if rivals = [] then generate_personal_improvement_bounty R user_id rotation_id db
      else let rival = random_choice (br_rival R) rivals in
        case find_beatable_rival_map (br_map_keys R) user_id (fst rival) db of
          None \<Rightarrow> generate_personal_improvement_bounty R user_id rotation_id db
        | Some (target_map, rt) \<Rightarrow>
            let rival_time = fl rt in
            \<lparr>bo_user_id = user_id, bo_rotation_id = rotation_id, bo_quest_data =
              bounty_data ''Rival Challenge'' (''Beat '' @ snd rival @ [CHR 0x27] @ ''s time on '' @ code_of target_map)
                ''rival_challenge''
                [(''type'', JStr ''beat_rival''), (''map_id'', JInt (mp_id target_map)),
                 (''rival_user_id'', JInt (fst rival)), (''rival_time'', JFloat rival_time),
                 (''target_time'', JFloat rival_time)]\<rparr>)"

text \<open>\<open>random.choices\<close> with three weights of \<open>0.33\<close>: running totals in floats.\<close>

definition bounty_kind :: "rat \<Rightarrow> string" where
  "bounty_kind r =
     (let w = fl (33 / 100); c2 = fl (w + w); c3 = fl (c2 + w); x = fl (r * c3)
      in if x < w then ''personal_improvement'' else if x < c2 then ''rival_challenge'' else ''gap_filling'')"

definition generate_bounty_for_user :: "bounty_rolls \<Rightarrow> int \<Rightarrow> int \<Rightarrow> econ \<Rightarrow> bounty" where
  "generate_bounty_for_user R user_id rotation_id db =
     (let bounty_type = bounty_kind (br_type R) in
      if bounty_type = ''personal_improvement'' then generate_personal_improvement_bounty R user_id rotation_id db
      else if bounty_type = ''rival_challenge'' then generate_rival_challenge_bounty R user_id rotation_id db
      else generate_gap_filling_bounty R user_id rotation_id db)"

end
