(* ===== verification/Store_Service.thy ===== *)
theory Store_Service
  imports Lootbox_Service Quest_Rotation Quest_Bounty
begin

section \<open>The store service: prices and purchases\<close>

text \<open>
  \<open>apps/api/services/store_service.py\<close>, first half: configuration, the item rotation, key
  prices and the two purchases. A purchase is one transaction; the configuration and the price
  are read before it.
\<close>

subsection \<open>Constants and checks\<close>

definition active_key_base_price :: int where "active_key_base_price = 500"
definition inactive_key_base_price :: int where "inactive_key_base_price = 1000"
definition bulk_discount_3x :: rat where "bulk_discount_3x = fl (85 / 100)"
definition bulk_discount_5x :: rat where "bulk_discount_5x = fl (70 / 100)"
definition rotation_item_min :: int where "rotation_item_min = 3"
definition rotation_item_max :: int where "rotation_item_max = 5"

definition ensure_key_type_exists :: "string \<Rightarrow> unit etx" where
  "ensure_key_type_exists key_type =
     bind_tx (read_tx (fetch_all_key_types (Some key_type))) (\<lambda>rows.
       if rows = [] then raise_tx (Store (InvalidKeyTypeError key_type)) else return_tx ())"

definition validate_rotation_item_count :: "int \<Rightarrow> unit eio" where
  "validate_rotation_item_count item_count =
     (if item_count < rotation_item_min \<or> rotation_item_max < item_count
      then raise_io (Store (InvalidRotationItemCountError item_count)) else return_io ())"

definition calculate_key_price :: "int \<Rightarrow> bool \<Rightarrow> py_error + int" where
  "calculate_key_price quantity is_active =
     (let base_price = (if is_active then active_key_base_price else inactive_key_base_price) in
      if quantity = 1 then Inr base_price
      else if quantity = 3 then Inr (py_trunc (fl (of_int (base_price * 3) * bulk_discount_3x)))
      else if quantity = 5 then Inr (py_trunc (fl (of_int (base_price * 5) * bulk_discount_5x)))
      else Inl (ValueError ''Invalid quantity''))"

subsection \<open>Configuration and views\<close>

definition get_config :: "store_config_response eio" where
  "get_config = bind_io (atomically (read_tx fetch_config)) (\<lambda>config. case config of
      None \<Rightarrow> raise_io (Py ValidationError)
    | Some c \<Rightarrow> return_io \<lparr>scr_rotation_period_days = sc_rotation_period_days c,
        scr_active_key_type = sc_active_key_type c, scr_last_rotation_at = sc_last_rotation_at c,
        scr_next_rotation_at = sc_next_rotation_at c\<rparr>)"

text \<open>\<open>config["active_key_type"]\<close> of a possibly empty dictionary.\<close>

definition active_key_type :: "string eio" where
  "active_key_type = bind_io (atomically (read_tx fetch_config)) (\<lambda>config. case config of
      None \<Rightarrow> raise_io (Py (KeyError ''active_key_type'')) | Some c \<Rightarrow> return_io (sc_active_key_type c))"

definition get_current_rotation :: "env \<Rightarrow> int option \<Rightarrow> rotation_response eio" where
  "get_current_rotation E user_id =
     bind_io (atomically (read_tx (fetch_current_rotation E))) (\<lambda>items. case items of
       [] \<Rightarrow> return_io \<lparr>rr_rotation_id = 0, rr_available_until = env_clock E, rr_items = []\<rparr>
     | i0 # _ \<Rightarrow>
         bind_io (map_io items (\<lambda>item.
           bind_io (case user_id of
               None \<Rightarrow> return_io False
             | Some u \<Rightarrow> if u = 0 then return_io False
                 else bind_io (atomically (read_tx (check_user_has_reward u (ro_item_type item)
                          (ro_key_type item) (ro_item_name item)))) (\<lambda>rarity. return_io (rarity \<noteq> None)))
             (\<lambda>owned. return_io (mk_rotation_item (ro_item_name item) (ro_item_type item)
                (ro_key_type item) (ro_rarity item) (ro_price item) owned)))) (\<lambda>rotation_items.
         return_io \<lparr>rr_rotation_id = ro_rotation_id i0, rr_available_until = ro_available_until i0,
           rr_items = rotation_items\<rparr>))"

definition key_price_infos :: "bool \<Rightarrow> py_error + key_price_info list" where
  "key_price_infos is_active =
     bind_py (calculate_key_price 1 is_active) (\<lambda>p1.
     bind_py (calculate_key_price 3 is_active) (\<lambda>p3.
     bind_py (calculate_key_price 5 is_active) (\<lambda>p5.
       Inr [\<lparr>kp_quantity = 1, kp_price = p1, kp_discount_percent = 0\<rparr>,
            \<lparr>kp_quantity = 3, kp_price = p3, kp_discount_percent = 15\<rparr>,
            \<lparr>kp_quantity = 5, kp_price = p5, kp_discount_percent = 30\<rparr>])))"

definition get_key_pricing :: "key_pricing_response list eio" where
  "get_key_pricing =
     bind_io active_key_type (\<lambda>active.
     bind_io (atomically (read_tx (fetch_all_key_types None))) (\<lambda>key_types.
     map_io key_types (\<lambda>key_type.
       bind_io (lift_io (lift_py (key_price_infos (key_type = active)))) (\<lambda>prices.
       return_io \<lparr>kpr_key_type = key_type, kpr_is_active = (key_type = active), kpr_prices = prices\<rparr>))))"

subsection \<open>Buying keys\<close>

text \<open>The deduction both purchases begin with: refuse with the balance when it does not cover the price.\<close>

definition take_payment :: "int \<Rightarrow> int \<Rightarrow> int etx" where
  "take_payment user_id price =
     bind_tx (deduct_user_coins user_id price) (\<lambda>new_balance. case new_balance of
        None \<Rightarrow> bind_tx (read_tx (fetch_user_coins user_id)) (\<lambda>user_coins.
                  raise_tx (Store (InsufficientCoinsError user_coins price)))
      | Some b \<Rightarrow> return_tx b)"

definition purchase_keys_tx :: "env \<Rightarrow> int \<Rightarrow> string \<Rightarrow> int \<Rightarrow> int \<Rightarrow> int etx" where
  "purchase_keys_tx E user_id key_type quantity price =
     bind_tx (ensure_key_type_exists key_type) (\<lambda>_.
     bind_tx (take_payment user_id price) (\<lambda>remaining_coins.
     bind_tx (for_tx [0..<nat quantity] (\<lambda>_. insert_user_key E user_id key_type)) (\<lambda>_.
     bind_tx (insert_purchase E user_id ''key'' key_type quantity price None None None) (\<lambda>_.
     return_tx remaining_coins))))"

definition purchase_keys :: "env \<Rightarrow> int \<Rightarrow> string \<Rightarrow> int \<Rightarrow> key_purchase_response eio" where
  "purchase_keys E user_id key_type quantity =
     (if quantity \<notin> {1, 3, 5} then raise_io (Store (InvalidQuantityError quantity))
      else bind_io active_key_type (\<lambda>active.
        bind_io (lift_io (lift_py (calculate_key_price quantity (key_type = active)))) (\<lambda>price.
        bind_io (atomically (purchase_keys_tx E user_id key_type quantity price)) (\<lambda>remaining_coins.
        return_io \<lparr>kpu_success = True, kpu_keys_purchased = quantity, kpu_price_paid = price,
          kpu_remaining_coins = remaining_coins\<rparr>))))"

subsection \<open>Buying an item\<close>

text \<open>\<open>if already_owned\<close>: a rarity that is \<open>None\<close> or empty counts as not owned.\<close>

definition purchase_item_tx :: "env \<Rightarrow> int \<Rightarrow> string \<Rightarrow> string \<Rightarrow> string \<Rightarrow> (int \<times> int) etx" where
  "purchase_item_tx E user_id item_name item_type key_type =
     bind_tx (read_tx (fetch_rotation_item E item_name item_type key_type)) (\<lambda>rotation_item. case rotation_item of
        None \<Rightarrow> raise_tx (Store (ItemNotInRotationError item_name))
      | Some item \<Rightarrow>
          if ro_available_until item < env_clock E then raise_tx (Store RotationExpiredError)
          else bind_tx (read_tx (check_user_has_reward user_id item_type key_type item_name)) (\<lambda>already_owned.
            if already_owned \<noteq> None \<and> already_owned \<noteq> Some [] then raise_tx (Store (AlreadyOwnedError item_name))
            else
              bind_tx (take_payment user_id (ro_price item)) (\<lambda>remaining_coins.
              bind_tx (insert_user_reward E user_id item_type key_type item_name) (\<lambda>_.
              bind_tx (insert_purchase E user_id ''item'' key_type 1 (ro_price item)
                 (Some item_name) (Some item_type) (Some (ro_rotation_id item))) (\<lambda>_.
              return_tx (ro_price item, remaining_coins))))))"

definition purchase_item :: "env \<Rightarrow> int \<Rightarrow> string \<Rightarrow> string \<Rightarrow> string \<Rightarrow> item_purchase_response eio" where
  "purchase_item E user_id item_name item_type key_type =
     bind_io (atomically (purchase_item_tx E user_id item_name item_type key_type)) (\<lambda>(price, remaining_coins).
     return_io \<lparr>ipr_success = True, ipr_item_name = item_name, ipr_item_type = item_type,
       ipr_price_paid = price, ipr_remaining_coins = remaining_coins\<rparr>)"

definition history_item :: "purchase_row \<Rightarrow> purchase_history_item" where
  "history_item p = \<lparr>phi_id = pu_id p, phi_purchase_type = pu_purchase_type p, phi_item_name = pu_item_name p,
     phi_item_type = pu_item_type p, phi_key_type = pu_key_type p, phi_quantity = pu_quantity p,
     phi_price_paid = pu_price_paid p, phi_purchased_at = pu_purchased_at p\<rparr>"

definition get_user_purchases :: "int \<Rightarrow> int \<Rightarrow> int \<Rightarrow> purchase_history_response eio" where
  "get_user_purchases user_id n offset =
     bind_io (atomically (bind_tx (read_tx (fetch_user_purchases user_id n offset)) (\<lambda>r. lift_tx (lift_pg r))))
       (\<lambda>(total, rows). return_io \<lparr>phr_total = total, phr_purchases = map history_item rows\<rparr>)"

subsection \<open>Rotation and configuration\<close>

definition generate_rotation :: "env \<Rightarrow> nat \<Rightarrow> (nat \<Rightarrow> nat \<Rightarrow> nat) \<Rightarrow> int \<Rightarrow> generate_rotation_response eio" where
  "generate_rotation E epic_roll keys item_count =
     bind_io (validate_rotation_item_count item_count) (\<lambda>_.
     bind_io (atomically (repo_generate_rotation E epic_roll keys item_count)) (\<lambda>(i, n, until). case until of
        None \<Rightarrow> raise_io (Py ValidationError)
      | Some t \<Rightarrow> return_io \<lparr>grr_rotation_id = i, grr_items_generated = n, grr_available_until = t\<rparr>))"

definition update_config :: "int option \<Rightarrow> string option \<Rightarrow> unit eio" where
  "update_config rotation_period_days new_active_key_type =
     bind_io (case new_active_key_type of None \<Rightarrow> return_io ()
        | Some k \<Rightarrow> atomically (ensure_key_type_exists k)) (\<lambda>_.
     atomically (repo_update_config rotation_period_days new_active_key_type))"

end
