(* ===== verification/Quest_Service.thy ===== *)
theory Quest_Service
  imports Store_Service
begin

section \<open>The store service: quests\<close>

text \<open>
  \<open>apps/api/services/store_service.py\<close>, second half: provisioning a user's quests, progress,
  claims, the admin update and the quest configuration. Two library functions are arguments:
  \<open>convert\<close> is \<open>msgspec.convert(.., QuestProgress)\<close>, and \<open>asdict_req\<close> says what
  \<open>msgspec.structs.asdict\<close> makes of a nested requirements struct - a dictionary, or \<open>None\<close>
  when it leaves it a struct.
\<close>

subsection \<open>Provisioning\<close>

definition quest_pool_of :: "quest_row \<Rightarrow> quest_pool_response" where
  "quest_pool_of q = \<lparr>qpr_id = qs_id q, qpr_name = qs_name q, qpr_description = qs_description q,
     qpr_quest_type = qs_quest_type q, qpr_difficulty = qs_difficulty q, qpr_coin_reward = qs_coin_reward q,
     qpr_xp_reward = qs_xp_reward q, qpr_requirements = qs_requirements q, qpr_is_active = qs_is_active q,
     qpr_created_at = qs_created_at q\<rparr>"

definition get_all_quests :: "bool option \<Rightarrow> string option \<Rightarrow> string option \<Rightarrow> quest_pool_response list eio" where
  "get_all_quests is_active difficulty name_query =
     bind_io (atomically (read_tx (repo_get_all_quests is_active difficulty name_query)))
       (\<lambda>rows. return_io (map quest_pool_of rows))"

text \<open>Under the advisory lock: nothing if the user has rows, else globals and, if new, a bounty.\<close>

definition provision_quests :: "bounty_rolls \<Rightarrow> int \<Rightarrow> int \<Rightarrow> unit etx" where
  "provision_quests R user_id rotation_id =
     bind_tx (read_tx (has_progress_rows user_id rotation_id)) (\<lambda>present.
     if present then return_tx ()
     else
       bind_tx (read_tx (get_global_quests rotation_id)) (\<lambda>global_quests.
       bind_tx (seed_global_progress user_id rotation_id global_quests) (\<lambda>_.
       bind_tx (read_tx (get_bounty_for_user rotation_id user_id)) (\<lambda>existing_bounty. case existing_bounty of
          Some _ \<Rightarrow> return_tx ()
        | None \<Rightarrow>
            bind_tx (read_tx (generate_bounty_for_user R user_id rotation_id)) (\<lambda>bounty.
            bind_tx (insert_bounty rotation_id user_id (bo_quest_data bounty)) (\<lambda>_.
            seed_bounty_progress user_id rotation_id (bo_quest_data bounty)))))))"

record quest_rolls =
  ql_keys :: "nat \<Rightarrow> nat \<Rightarrow> nat"
  ql_bounty :: bounty_rolls

definition ensure_user_quests_for_rotation :: "env \<Rightarrow> quest_rolls \<Rightarrow> int \<Rightarrow> int eio" where
  "ensure_user_quests_for_rotation E Q user_id =
     bind_io (atomically (check_and_generate_quest_rotation E (ql_keys Q))) (\<lambda>_.
     bind_io (atomically (read_tx get_active_rotation)) (\<lambda>rotation. case rotation of
        None \<Rightarrow> raise_io (Py (RuntimeError ''Quest rotation not available.''))
      | Some (rotation_id, _) \<Rightarrow>
          bind_io (atomically (provision_quests (ql_bounty Q) user_id rotation_id)) (\<lambda>_.
          return_io rotation_id)))"

subsection \<open>The quest list\<close>

text \<open>\<open>float(v) if isinstance(v, (int, float)) else 0.0\<close>.\<close>

definition float_or_zero :: "json \<Rightarrow> rat" where
  "float_or_zero v = (case num_of v of Some x \<Rightarrow> fl x | None \<Rightarrow> 0)"

definition quest_percentage :: "dict \<Rightarrow> bool \<Rightarrow> int" where
  "quest_percentage progress completed =
     (let target_val = float_or_zero (dget progress ''target'') in
      if target_val \<noteq> 0 then
        min 100 (py_trunc (fl (fl (float_or_zero (dget progress ''current'') / target_val) * 100)))
      else if completed then 100 else 0)"

text \<open>A field that is not a number becomes \<open>None\<close>; a missing one stays missing.\<close>

definition null_unless_number :: "string \<Rightarrow> dict \<Rightarrow> dict" where
  "null_unless_number k p = (if dget p k = JNull \<or> num_of (dget p k) \<noteq> None then p else dset k JNull p)"

definition set_default :: "string \<Rightarrow> dict \<Rightarrow> dict \<Rightarrow> dict" where
  "set_default k requirements p =
     (if dget requirements k = JNull \<or> dhas p k then p else dset k (dget requirements k) p)"

definition display_progress :: "active_quest \<Rightarrow> py_error + dict" where
  "display_progress row =
     (let completed = (aq_completed_at row \<noteq> None);
          p1 = dset ''percentage'' (JInt (quest_percentage (aq_progress row) completed)) (aq_progress row);
          p2 = null_unless_number ''target'' (null_unless_number ''current'' p1)
      in bind_py (dict_or_empty (dget (aq_quest_data row) ''requirements'')) (\<lambda>requirements.
         Inr (set_default ''medal_type'' requirements (set_default ''rival_time'' requirements
               (set_default ''rival_user_id'' requirements p2)))))"

text \<open>\<open>x or 0\<close>, and \<open>total += x\<close>.\<close>

definition or_zero :: "json \<Rightarrow> json" where
  "or_zero v = (if truthy v then v else JInt 0)"

fun add_to_total :: "int \<Rightarrow> json \<Rightarrow> py_error + int" where
  "add_to_total n (JInt k) = Inr (n + k)"
| "add_to_total n (JBool b) = Inr (n + (if b then 1 else 0))"
| "add_to_total n (JFloat x) = Inl (OutsideModel ''a total of floats'')"
| "add_to_total n _ = Inl TypeError"

definition empty_summary :: quest_summary where
  "empty_summary = \<lparr>qsm_total_quests = 0, qsm_completed = 0, qsm_claimed = 0, qsm_potential_coins = 0,
     qsm_potential_xp = 0, qsm_earned_coins = 0, qsm_earned_xp = 0\<rparr>"

text \<open>
  The row does not have the columns \<open>coins_rewarded\<close> and \<open>xp_rewarded\<close>, so
  \<open>row.get(..) or 0\<close> adds zero to what was earned.
\<close>

definition add_quest_to_summary :: "quest_summary \<Rightarrow> active_quest \<Rightarrow> py_error + quest_summary" where
  "add_quest_to_summary s row =
     bind_py (add_to_total (qsm_potential_coins s) (or_zero (dget (aq_quest_data row) ''coin_reward''))) (\<lambda>pc.
     bind_py (add_to_total (qsm_potential_xp s) (or_zero (dget (aq_quest_data row) ''xp_reward''))) (\<lambda>px.
     Inr \<lparr>qsm_total_quests = qsm_total_quests s + 1,
          qsm_completed = qsm_completed s + (if aq_completed_at row \<noteq> None then 1 else 0),
          qsm_claimed = qsm_claimed s + (if aq_claimed_at row \<noteq> None then 1 else 0),
          qsm_potential_coins = pc, qsm_potential_xp = px,
          qsm_earned_coins = qsm_earned_coins s + 0, qsm_earned_xp = qsm_earned_xp s + 0\<rparr>))"

definition quest_response_of ::
  "(dict \<Rightarrow> py_error + 'p) \<Rightarrow> active_quest \<Rightarrow> py_error + 'p quest_response" where
  "quest_response_of convert row =
     bind_py (bind_py (display_progress row) convert) (\<lambda>progress.
     Inr \<lparr>qrs_progress_id = aq_progress_id row, qrs_quest_id = aq_quest_id row,
          qrs_name = dget_or (aq_quest_data row) ''name'' (JStr []),
          qrs_description = dget_or (aq_quest_data row) ''description'' (JStr []),
          qrs_difficulty = dget_or (aq_quest_data row) ''difficulty'' (JStr []),
          qrs_coin_reward = or_zero (dget (aq_quest_data row) ''coin_reward''),
          qrs_xp_reward = or_zero (dget (aq_quest_data row) ''xp_reward''),
          qrs_progress = progress,
          qrs_completed = (aq_completed_at row \<noteq> None), qrs_claimed = (aq_claimed_at row \<noteq> None),
          qrs_bounty_type = dget (aq_quest_data row) ''bounty_type''\<rparr>)"

fun list_quests ::
  "(dict \<Rightarrow> py_error + 'p) \<Rightarrow> quest_summary \<Rightarrow> active_quest list \<Rightarrow>
     py_error + 'p quest_response list \<times> quest_summary" where
  "list_quests convert s [] = Inr ([], s)"
| "list_quests convert s (row # rows) =
     bind_py (quest_response_of convert row) (\<lambda>q.
     bind_py (add_quest_to_summary s row) (\<lambda>s1.
     bind_py (list_quests convert s1 rows) (\<lambda>(qs, s2). Inr (q # qs, s2))))"

definition get_user_quests ::
  "(dict \<Rightarrow> py_error + 'p) \<Rightarrow> env \<Rightarrow> quest_rolls \<Rightarrow> int \<Rightarrow> 'p user_quests_response eio" where
  "get_user_quests convert E Q user_id =
     bind_io (ensure_user_quests_for_rotation E Q user_id) (\<lambda>rotation_id.
     bind_io (atomically (read_tx get_active_rotation)) (\<lambda>rotation.
     let available_until = (case rotation of Some (_, Some (_, until)) \<Rightarrow> Some until | _ \<Rightarrow> None) in
     bind_io (atomically (read_tx (get_active_user_quests user_id))) (\<lambda>rows.
     bind_io (lift_io (lift_py (list_quests convert empty_summary rows))) (\<lambda>(quests, summary).
     return_io \<lparr>uqr_rotation_id = rotation_id, uqr_available_until = available_until,
       uqr_quests = quests, uqr_summary = summary\<rparr>))))"

definition quest_history_item_of :: "progress_row \<Rightarrow> quest_history_item" where
  "quest_history_item_of p =
     \<lparr>qhi_progress_id = pg_id p, qhi_quest_id = pg_quest_id p, qhi_name = dget (pg_quest_data p) ''name'',
      qhi_description = dget (pg_quest_data p) ''description'', qhi_difficulty = dget (pg_quest_data p) ''difficulty'',
      qhi_coin_reward = or_zero (dget (pg_quest_data p) ''coin_reward''),
      qhi_xp_reward = or_zero (dget (pg_quest_data p) ''xp_reward''),
      qhi_completed_at = pg_completed_at p, qhi_claimed_at = pg_claimed_at p,
      qhi_coins_rewarded = (case pg_coins_rewarded p of Some n \<Rightarrow> n | None \<Rightarrow> 0),
      qhi_xp_rewarded = (case pg_xp_rewarded p of Some n \<Rightarrow> n | None \<Rightarrow> 0),
      qhi_rotation_id = pg_rotation_id p, qhi_bounty_type = dget (pg_quest_data p) ''bounty_type''\<rparr>"

definition get_user_quest_history :: "int \<Rightarrow> int \<Rightarrow> int \<Rightarrow> quest_history_response eio" where
  "get_user_quest_history user_id n offset =
     bind_io (atomically (bind_tx (read_tx (fetch_quest_history user_id n offset)) (\<lambda>r. lift_tx (lift_pg r))))
       (\<lambda>(total, rows). return_io \<lparr>qhr_total = total, qhr_quests = map quest_history_item_of rows\<rparr>)"

subsection \<open>Progress\<close>

definition quest_requirements :: "active_quest \<Rightarrow> py_error + dict" where
  "quest_requirements q = dict_or_empty (dget (aq_quest_data q) ''requirements'')"

text \<open>One quest of the loop: whether it was completed now.\<close>

definition update_one_quest :: "env \<Rightarrow> string \<Rightarrow> dict \<Rightarrow> active_quest \<Rightarrow> dict list etx" where
  "update_one_quest E event_type event_data q =
     (if aq_completed_at q \<noteq> None then return_tx []
      else
        bind_tx (lift_tx (lift_py (quest_requirements q))) (\<lambda>requirements.
        bind_tx (lift_tx (lift_py (event_matches_quest requirements event_type event_data))) (\<lambda>matches.
        if \<not> matches then return_tx []
        else
          bind_tx (lift_tx (lift_py (calculate_new_progress (aq_progress q) requirements event_data))) (\<lambda>new_progress.
          bind_tx (repo_update_quest_progress (aq_progress_id q) new_progress) (\<lambda>_.
          bind_tx (lift_tx (lift_py (is_quest_complete new_progress requirements))) (\<lambda>complete.
          if complete then
            bind_tx (mark_quest_complete E (aq_progress_id q)) (\<lambda>_.
            return_tx [dupdate [(''progress_id'', JInt (aq_progress_id q))] (aq_quest_data q)])
          else return_tx []))))))"

definition update_quests_tx :: "env \<Rightarrow> int \<Rightarrow> string \<Rightarrow> dict \<Rightarrow> dict list etx" where
  "update_quests_tx E user_id event_type event_data =
     bind_tx (read_tx (get_active_user_quests user_id)) (\<lambda>quests.
     bind_tx (map_tx quests (update_one_quest E event_type event_data)) (\<lambda>done.
     return_tx (concat done)))"

definition update_quest_progress :: "env \<Rightarrow> quest_rolls \<Rightarrow> int \<Rightarrow> string \<Rightarrow> dict \<Rightarrow> dict list eio" where
  "update_quest_progress E Q user_id event_type event_data =
     bind_io (ensure_user_quests_for_rotation E Q user_id) (\<lambda>_.
     atomically (update_quests_tx E user_id event_type event_data))"

definition revert_one_quest :: "string \<Rightarrow> dict \<Rightarrow> rat list \<Rightarrow> string list \<Rightarrow> active_quest \<Rightarrow> unit etx" where
  "revert_one_quest event_type event_data remaining_times remaining_medals q =
     bind_tx (lift_tx (lift_py (quest_requirements q))) (\<lambda>requirements.
     if aq_completed_at q \<noteq> None then return_tx ()
     else
       bind_tx (lift_tx (lift_py (event_matches_quest requirements event_type event_data))) (\<lambda>matches.
       if \<not> matches then return_tx ()
       else
         bind_tx (lift_tx (lift_py (calculate_reverted_progress (aq_progress q) requirements event_data
              remaining_times remaining_medals))) (\<lambda>new_progress.
         if py_eq (JObj new_progress) (JObj (aq_progress q)) then return_tx ()
         else repo_update_quest_progress (aq_progress_id q) new_progress)))"

definition revert_quest_progress ::
  "env \<Rightarrow> quest_rolls \<Rightarrow> int \<Rightarrow> string \<Rightarrow> dict \<Rightarrow> rat list \<Rightarrow> string list \<Rightarrow> unit eio" where
  "revert_quest_progress E Q user_id event_type event_data remaining_times remaining_medals =
     bind_io (ensure_user_quests_for_rotation E Q user_id) (\<lambda>_.
     atomically (bind_tx (read_tx (get_active_user_quests user_id)) (\<lambda>quests.
       for_tx quests (revert_one_quest event_type event_data remaining_times remaining_medals))))"

subsection \<open>Claiming\<close>

text \<open>The row the claim updates, if it is completed and unclaimed; then why there is none.\<close>

definition claimable :: "int \<Rightarrow> int \<Rightarrow> progress_row \<Rightarrow> bool" where
  "claimable progress_id user_id p \<longleftrightarrow> pg_id p = progress_id \<and> pg_user_id p = user_id \<and> due_for_claim p"

definition claim_quest_tx :: "env \<Rightarrow> int \<Rightarrow> int \<Rightarrow> (dict \<times> int \<times> int \<times> int option) etx" where
  "claim_quest_tx E user_id progress_id =
     bind_tx (read_tx (\<lambda>db. first_where (claimable progress_id user_id) (quest_progress db))) (\<lambda>row. case row of
        None \<Rightarrow>
          bind_tx (read_tx (get_user_quest_progress user_id progress_id)) (\<lambda>status. case status of
             None \<Rightarrow> raise_tx (Store (QuestNotFoundError progress_id))
           | Some p \<Rightarrow> if pg_claimed_at p \<noteq> None then raise_tx (Store (QuestAlreadyClaimedError progress_id))
                       else raise_tx (Store (QuestNotCompletedError progress_id)))
      | Some p \<Rightarrow>
          bind_tx (lift_tx (lift_pg (claim_columns p))) (\<lambda>cx.
          bind_tx (update_progress_row progress_id (\<lambda>r. pg_user_id r = user_id \<and> due_for_claim r) (claim_row E cx)) (\<lambda>_.
          let coin_reward = (case fst cx of Some n \<Rightarrow> n | None \<Rightarrow> 0);
              xp_reward = (case snd cx of Some n \<Rightarrow> n | None \<Rightarrow> 0)
          in bind_tx (update_user_coins user_id coin_reward) (\<lambda>new_coins.
             return_tx (pg_quest_data p, coin_reward, xp_reward, new_coins)))))"

definition claim_quest :: "env \<Rightarrow> bool \<Rightarrow> int \<Rightarrow> int \<Rightarrow> claim_quest_response eio" where
  "claim_quest E pytest user_id progress_id =
     bind_io (atomically (claim_quest_tx E user_id progress_id)) (\<lambda>(quest_data, coin_reward, xp_reward, new_coins).
     bind_io (if 0 < xp_reward then
         bind_io (grant_user_xp E pytest user_id \<lparr>xgr_amount = xp_reward, xgr_type = Quest, xgr_reason = None\<rparr>)
           (\<lambda>xp_response. return_io (xg_new_amount xp_response - xg_previous_amount xp_response,
                             xg_new_amount xp_response))
       else return_io (0, 0)) (\<lambda>(xp_earned, new_xp).
     return_io \<lparr>cqr_success = True, cqr_quest_name = dget quest_data ''name'', cqr_coins_earned = coin_reward,
       cqr_xp_earned = xp_earned, cqr_new_coin_balance = new_coins, cqr_new_xp = new_xp\<rparr>))"

subsection \<open>The admin update\<close>

definition merge_quest_data_patch ::
  "(patch_quest_requirements \<Rightarrow> dict option) \<Rightarrow> dict \<Rightarrow> patch_quest_data \<Rightarrow> py_error + dict" where
  "merge_quest_data_patch asdict_req existing patch =
     bind_py (case Option.bind (pd_requirements patch) asdict_req of
         None \<Rightarrow> Inr existing
       | Some filtered_req \<Rightarrow>
           bind_py (dict_or_empty (dget existing ''requirements'')) (\<lambda>existing_req.
           Inr (dset ''requirements'' (JObj (dupdate existing_req filtered_req)) existing))) (\<lambda>merged.
     Inr (dupdate merged (quest_data_fields patch)))"

definition reward_param :: "json \<Rightarrow> pg_error + int" where
  "reward_param v = (case v of
      JInt n \<Rightarrow> if int4_ok n then Inr n else Inl NumericOutOfRange
    | JBool b \<Rightarrow> Inr (if b then 1 else 0)
    | _ \<Rightarrow> Inl InvalidText)"

definition nothing_set :: "admin_update_user_quest_request \<Rightarrow> bool" where
  "nothing_set data \<longleftrightarrow> au_completed data = None \<and> au_quest_data data = None
     \<and> au_progress data = None \<and> au_claimed data = None"

text \<open>What the request turns into: the new quest data, progress and completion time, if set.\<close>

definition admin_changes ::
  "(patch_quest_requirements \<Rightarrow> dict option) \<Rightarrow> env \<Rightarrow> progress_row \<Rightarrow> admin_update_user_quest_request \<Rightarrow>
     py_error + (dict option \<times> dict option \<times> int option option)" where
  "admin_changes asdict_req E existing data =
     bind_py (case au_quest_data data of
         None \<Rightarrow> Inr None
       | Some patch \<Rightarrow> bind_py (merge_quest_data_patch asdict_req (pg_quest_data existing) patch) (\<lambda>d. Inr (Some d)))
      (\<lambda>quest_data.
     let effective = (case quest_data of Some d \<Rightarrow> d | None \<Rightarrow> pg_quest_data existing);
         completed_at = (case au_completed data of None \<Rightarrow> None
            | Some c \<Rightarrow> Some (if c then Some (env_clock E) else None))
     in bind_py (if au_completed data = Some True then
            bind_py (dict_or_empty (dget effective ''requirements'')) (\<lambda>requirements.
            bind_py (auto_patch_progress_for_completion (pg_progress existing) requirements) (\<lambda>p. Inr (Some p)))
          else Inr None) (\<lambda>auto_patched.
        let progress = (case au_progress data of
               None \<Rightarrow> auto_patched
             | Some patch \<Rightarrow> Some (dupdate (case auto_patched of Some p \<Rightarrow> p | None \<Rightarrow> pg_progress existing)
                               (progress_fields patch)))
        in Inr (quest_data, progress, completed_at)))"

definition admin_pay :: "int \<Rightarrow> dict \<Rightarrow> unit etx" where
  "admin_pay user_id quest_data =
     bind_tx (let coin_reward = or_zero (dget quest_data ''coin_reward'') in
       if truthy coin_reward then
         bind_tx (lift_tx (lift_pg (reward_param coin_reward))) (\<lambda>n.
         bind_tx (update_user_coins user_id n) (\<lambda>_. return_tx ()))
       else return_tx ()) (\<lambda>_.
     let xp_reward = or_zero (dget quest_data ''xp_reward'') in
       if truthy xp_reward then
         bind_tx (lift_tx (lift_pg (reward_param xp_reward))) (\<lambda>n. insert_xp user_id n)
       else return_tx ())"

definition admin_update_user_quest ::
  "(patch_quest_requirements \<Rightarrow> dict option) \<Rightarrow> env \<Rightarrow> int \<Rightarrow> int \<Rightarrow> admin_update_user_quest_request \<Rightarrow> bool eio" where
  "admin_update_user_quest asdict_req E user_id progress_id data =
     (if nothing_set data then raise_io (Store InvalidQuestPatchError)
      else bind_io (atomically (read_tx (get_user_quest_progress user_id progress_id))) (\<lambda>row. case row of
         None \<Rightarrow> raise_io (Store (QuestNotFoundError progress_id))
       | Some existing \<Rightarrow>
           bind_io (lift_io (lift_py (admin_changes asdict_req E existing data))) (\<lambda>(quest_data, progress, completed_at).
           bind_io (atomically
             (bind_tx (repo_admin_update_user_quest E progress_id quest_data progress completed_at (au_claimed data)) (\<lambda>_.
              if au_claimed data = Some True \<and> pg_claimed_at existing = None then
                admin_pay user_id (case quest_data of Some d \<Rightarrow> d | None \<Rightarrow> pg_quest_data existing)
              else return_tx ()))) (\<lambda>_.
           return_io True))))"

subsection \<open>Quest configuration\<close>

definition get_quest_config :: "quest_config_response eio" where
  "get_quest_config = bind_io (atomically (read_tx fetch_quest_config)) (\<lambda>config. case config of
      None \<Rightarrow> raise_io (Py ValidationError)
    | Some c \<Rightarrow> return_io \<lparr>qcr_rotation_day = qc_rotation_day c, qcr_rotation_hour = qc_rotation_hour c,
        qcr_easy_quest_count = qc_easy_quest_count c, qcr_medium_quest_count = qc_medium_quest_count c,
        qcr_hard_quest_count = qc_hard_quest_count c, qcr_current_rotation_id = qc_current_rotation_id c,
        qcr_last_rotation_at = qc_last_rotation_at c, qcr_next_rotation_at = qc_next_rotation_at c\<rparr>)"

definition hour_us :: int where
  "hour_us = 3600 * second_us"

text \<open>Day 0 of the epoch was a Thursday, weekday 4.\<close>

definition isoweekday :: "int \<Rightarrow> int" where
  "isoweekday t = (t div day_us + 3) mod 7 + 1"

text \<open>\<open>a or b or c\<close> of optional integers.\<close>

definition int_or :: "int option \<Rightarrow> int option \<Rightarrow> int \<Rightarrow> int" where
  "int_or a b c = (if a \<noteq> None \<and> a \<noteq> Some 0 then the a else if b \<noteq> None \<and> b \<noteq> Some 0 then the b else c)"

definition next_rotation_candidate :: "int \<Rightarrow> int \<Rightarrow> int \<Rightarrow> int" where
  "next_rotation_candidate now new_day new_hour =
     (let candidate = now div day_us * day_us + new_hour * hour_us;
          shift_days = (new_day - isoweekday candidate) mod 7;
          shifted = candidate + shift_days * day_us
      in if shifted \<le> now then shifted + 7 * day_us else shifted)"

fun update_field :: "quest_config_update \<Rightarrow> string" where
  "update_field (RotationDay n) = ''rotation_day''"
| "update_field (RotationHour n) = ''rotation_hour''"
| "update_field (EasyQuestCount n) = ''easy_quest_count''"
| "update_field (MediumQuestCount n) = ''medium_quest_count''"
| "update_field (HardQuestCount n) = ''hard_quest_count''"
| "update_field (NextRotationAt n) = ''next_rotation_at''"

definition opt_update :: "('a \<Rightarrow> quest_config_update) \<Rightarrow> 'a option \<Rightarrow> quest_config_update list" where
  "opt_update f v = (case v of None \<Rightarrow> [] | Some x \<Rightarrow> [f x])"

definition update_quest_config ::
  "env \<Rightarrow> int option \<Rightarrow> int option \<Rightarrow> int option \<Rightarrow> int option \<Rightarrow> int option \<Rightarrow> update_quest_config_response eio" where
  "update_quest_config E rotation_day rotation_hour easy medium hard =
     bind_io (atomically (read_tx fetch_quest_config)) (\<lambda>config.
     let base = opt_update RotationDay rotation_day @ opt_update RotationHour rotation_hour
              @ opt_update EasyQuestCount easy @ opt_update MediumQuestCount medium @ opt_update HardQuestCount hard;
         reschedule = (rotation_day \<noteq> None \<or> rotation_hour \<noteq> None);
         new_day = int_or rotation_day (map_option qc_rotation_day config) 1;
         new_hour = int_or rotation_hour (map_option qc_rotation_hour config) 0
     in if reschedule \<and> (new_hour < 0 \<or> 23 < new_hour)
        then raise_io (Py (ValueError ''hour must be in 0..23''))
        else
          let candidate = next_rotation_candidate (env_clock E) new_day new_hour;
              updates = base @ (if reschedule then [NextRotationAt candidate] else [])
          in bind_io (atomically (repo_update_quest_config updates)) (\<lambda>_.
             return_io \<lparr>uqc_success = True, uqc_updated_fields = map update_field updates,
               uqc_next_rotation_at = (if reschedule then Some candidate
                 else map_option qc_next_rotation_at config)\<rparr>))"

definition generate_quest_rotation :: "env \<Rightarrow> quest_rolls \<Rightarrow> generate_quest_rotation_response eio" where
  "generate_quest_rotation E Q =
     bind_io (atomically (check_and_generate_quest_rotation E (ql_keys Q))) (\<lambda>(i, generated, claimed, n).
     return_io \<lparr>gqr_rotation_id = i, gqr_generated = generated, gqr_auto_claimed_quests = claimed,
       gqr_global_quests_generated = n\<rparr>)"

end
