(* ===== verification/Store_Invariants.thy ===== *)
theory Store_Invariants
  imports Quest_Service
begin

section \<open>The store keeps the database well-formed\<close>

text \<open>
  Every operation of the store repository, of the rotation functions and of the store service
  keeps \<open>db_ok\<close>: keys stay unique, references stay valid, \<open>int\<close> columns stay in range. One
  lemma per writing statement; the services follow by the rules for the combinators.
\<close>

subsection \<open>Statements on quest progress\<close>

lemma keeps_for_mem: "(\<And>x. x \<in> set xs \<Longrightarrow> keeps P (f x)) \<Longrightarrow> keeps P (for_tx xs f)"
  by (induction xs) (auto intro: keeps_basic keeps_bind)

lemma db_ok_progress_map:
  assumes db: "db_ok db"
    and f: "\<And>r. pg_id (f r) = pg_id r \<and> pg_user_id (f r) = pg_user_id r
        \<and> pg_rotation_id (f r) = pg_rotation_id r \<and> pg_quest_id (f r) = pg_quest_id r"
  shows "db_ok (db\<lparr>quest_progress := map f (quest_progress db)\<rparr>)"
proof -
  have [simp]: "pg_id \<circ> f = pg_id" using f by (simp add: fun_eq_iff)
  have keys: "map (\<lambda>r. (pg_user_id r, pg_rotation_id r, pg_quest_id r)) (filter (\<lambda>r. pg_quest_id r \<noteq> None) (map f rs)) =
      map (\<lambda>r. (pg_user_id r, pg_rotation_id r, pg_quest_id r)) (filter (\<lambda>r. pg_quest_id r \<noteq> None) rs)"
    "map (\<lambda>r. (pg_user_id r, pg_rotation_id r)) (filter (\<lambda>r. pg_quest_id r = None) (map f rs)) =
      map (\<lambda>r. (pg_user_id r, pg_rotation_id r)) (filter (\<lambda>r. pg_quest_id r = None) rs)" for rs
    by (induction rs) (simp_all add: f)
  have "quest_progress_ok (db\<lparr>quest_progress := map f (quest_progress db), next_progress_id := next_progress_id db\<rparr>)"
    using db by (simp add: db_ok_def quest_progress_ok_def global_progress_keys_def
        bounty_progress_keys_def keys user_exists_def quest_exists_def f del: not_None_eq)
  from db_ok_quest_progress [OF db this] show ?thesis by simp
qed

lemma keeps_update_progress_row:
  assumes "\<And>r. pg_id (f r) = pg_id r \<and> pg_user_id (f r) = pg_user_id r
        \<and> pg_rotation_id (f r) = pg_rotation_id r \<and> pg_quest_id (f r) = pg_quest_id r"
  shows "keeps db_ok (update_progress_row i P f)"
  unfolding update_progress_row_def update_where_def
  by (rule keeps_write, erule db_ok_progress_map) (simp add: assms)

lemma keeps_repo_update_quest_progress [repo_keeps]: "keeps db_ok (repo_update_quest_progress i d)"
  unfolding repo_update_quest_progress_def by (rule keeps_update_progress_row) simp

lemma keeps_mark_quest_complete [repo_keeps]: "keeps db_ok (mark_quest_complete E i)"
  unfolding mark_quest_complete_def by (rule keeps_update_progress_row) simp

lemma keeps_unmark_quest_complete [repo_keeps]: "keeps db_ok (unmark_quest_complete i)"
  unfolding unmark_quest_complete_def by (rule keeps_update_progress_row) simp

lemma keeps_claim_row [repo_keeps]: "keeps db_ok (update_progress_row i P (claim_row E cx))"
  by (rule keeps_update_progress_row) (simp add: claim_row_def)

lemma repo_admin_update_shape:
  assumes "repo_admin_update_user_quest E i d p t c db = Inr (x, db')"
  obtains "db' = db"
  | f where "db' = db\<lparr>quest_progress := update_where (\<lambda>p. pg_id p = i) f (quest_progress db)\<rparr>"
      "\<And>r. pg_id (f r) = pg_id r \<and> pg_user_id (f r) = pg_user_id r
        \<and> pg_rotation_id (f r) = pg_rotation_id r \<and> pg_quest_id (f r) = pg_quest_id r"
proof (cases "first_where (\<lambda>p. pg_id p = i) (quest_progress db)")
  case None
  with assms show ?thesis using that(1) by (simp add: repo_admin_update_user_quest_def)
next
  case (Some old)
  show ?thesis
  proof (cases "if c = Some True then claim_columns old else Inr (None, None)")
    case (Inl e)
    with Some assms show ?thesis by (simp add: repo_admin_update_user_quest_def)
  next
    case (Inr cx)
    obtain coins xp where "cx = (coins, xp)" by fastforce
    note run = assms [unfolded repo_admin_update_user_quest_def Some option.case Inr sum.case this prod.case]
    show ?thesis by (rule that(2) [OF sym [OF conjunct2 [OF run [unfolded sum.inject prod.inject]]]]) simp
  qed
qed

lemma keeps_repo_admin_update [repo_keeps]: "keeps db_ok (repo_admin_update_user_quest E i d p t c)"
proof (rule keepsI)
  fix db x db' assume db: "db_ok db" and run: "repo_admin_update_user_quest E i d p t c db = Inr (x, db')"
  from run show "db_ok db'"
    by (rule repo_admin_update_shape) (auto simp: update_where_def db intro!: db_ok_progress_map)
qed

lemma keeps_insert_progress [repo_keeps]: "keeps db_ok (insert_progress u r q d p)"
proof (rule keepsI)
  fix db x db' assume db: "db_ok db" and run: "insert_progress u r q d p db = Inr (x, db')"
  let ?row = "\<lparr>pg_id = next_progress_id db, pg_user_id = u, pg_rotation_id = r,
              pg_quest_id = q, pg_quest_data = d, pg_progress = p,
              pg_completed_at = None, pg_claimed_at = None, pg_coins_rewarded = None, pg_xp_rewarded = None\<rparr>"
  let ?rows = "quest_progress db @ [?row]"
  show "db_ok db'"
  proof (cases "db' = db")
    case False
    with run have new: "\<not> has_row (\<lambda>p. pg_user_id p = u \<and> pg_rotation_id p = r \<and> pg_quest_id p = q) (quest_progress db)"
        "user_exists u db" "\<And>i. q = Some i \<Longrightarrow> quest_exists i db"
      and db': "db' = db\<lparr>quest_progress := ?rows, next_progress_id := next_progress_id db + 1\<rparr>"
      by (auto simp: insert_progress_def split: if_splits option.splits)
    from db have ok: "quest_progress_ok db" by (simp add: db_ok_def)
    then have ids: "distinct (map pg_id ?rows)" "\<forall>x \<in> set ?rows. pg_id x < next_progress_id db + 1"
      by (auto simp: quest_progress_ok_def)
    have keys: "distinct (global_progress_keys db')" "distinct (bounty_progress_keys db')"
      using ok new(1) by (cases q; auto simp: db' quest_progress_ok_def global_progress_keys_def
          bounty_progress_keys_def has_row_iff)+
    have refs: "\<forall>x \<in> set ?rows. user_exists (pg_user_id x) db' \<and> (\<forall>i. pg_quest_id x = Some i \<longrightarrow> quest_exists i db')"
      using ok new(2,3) by (auto simp: db' quest_progress_ok_def user_exists_def quest_exists_def)
    have "quest_progress_ok db'"
      using ids keys refs by (simp add: quest_progress_ok_def db')
    with db_ok_quest_progress [OF db] show ?thesis by (simp add: db')
  qed (use db in simp)
qed

lemma keeps_seed_global_progress [repo_keeps]: "keeps db_ok (seed_global_progress u r qs)"
  unfolding seed_global_progress_def by (intro keeps_rules keeps_insert_progress)

lemma keeps_seed_bounty_progress [repo_keeps]: "keeps db_ok (seed_bounty_progress u r d)"
  unfolding seed_bounty_progress_def by (intro keeps_rules keeps_insert_progress)

subsection \<open>Balances, XP and purchases\<close>

lemma update_user_coins_shape:
  assumes "update_user_coins u n db = Inr (q, db')"
  shows "(case coins_of u db of None \<Rightarrow> q = None \<and> db' = db
    | Some c \<Rightarrow> q = Some (c + n) \<and> int4_ok (c + n)
        \<and> db' = db\<lparr>users := update_where (\<lambda>r. usr_id r = u) (\<lambda>r. r\<lparr>usr_coins := usr_coins r + n\<rparr>) (users db)\<rparr>)"
  using assms by (auto simp: update_user_coins_def bind_check_tx split: option.splits if_splits)

lemma coins_of_update_user_coins:
  assumes "users_ok db" "update_user_coins u n db = Inr (q, db')"
  shows "coins_of j db' = map_option (\<lambda>c. if j = u then c + n else c) (coins_of j db)"
proof (cases "coins_of u db")
  case None
  with update_user_coins_shape [OF assms(2)] show ?thesis by (cases "coins_of j db") auto
next
  case (Some c)
  with update_user_coins_shape [OF assms(2)]
  have "db' = db\<lparr>users := update_where (\<lambda>r. usr_id r = u) (\<lambda>r. r\<lparr>usr_coins := usr_coins r + n\<rparr>) (users db)\<rparr>" by simp
  with coins_of_update [OF assms(1), of "\<lambda>r. r\<lparr>usr_coins := usr_coins r + n\<rparr>" n j u] show ?thesis by simp
qed

lemma users_ok_update_user_coins:
  assumes "users_ok db" "update_user_coins u n db = Inr (q, db')"
  shows "users_ok db' \<and> db' = db\<lparr>users := users db'\<rparr> \<and> usr_id ` set (users db') = usr_id ` set (users db)"
proof (cases "coins_of u db")
  case None
  with update_user_coins_shape [OF assms(2)] assms(1) show ?thesis by simp
next
  case (Some c)
  with update_user_coins_shape [OF assms(2)]
  have c: "int4_ok (c + n)" and db': "db' = db\<lparr>users := update_where (\<lambda>r. usr_id r = u)
      (\<lambda>r. r\<lparr>usr_coins := usr_coins r + n\<rparr>) (users db)\<rparr>" by auto
  have "users_ok db'" unfolding db'
  proof (rule users_ok_update [OF assms(1)])
    fix r assume "r \<in> set (users db)" "usr_id r = u"
    with coins_of_row [OF assms(1)] Some c show "int4_ok (usr_coins (r\<lparr>usr_coins := usr_coins r + n\<rparr>))" by auto
  qed simp
  moreover have "map usr_id (users db') = map usr_id (users db)" by (simp add: db' map_update_where)
  then have "usr_id ` set (users db') = usr_id ` set (users db)" by (metis list.set_map)
  ultimately show ?thesis by (simp add: db')
qed

lemma keeps_update_user_coins [repo_keeps]: "keeps db_ok (update_user_coins u n)"
proof (rule keepsI)
  fix db q db' assume db: "db_ok db" and run: "update_user_coins u n db = Inr (q, db')"
  from db have "users_ok db" by (simp add: db_ok_def)
  note s = users_ok_update_user_coins [OF this run]
  then show "db_ok db'" using db_ok_users [OF db, of "users db'"] by simp
qed

lemma keeps_insert_xp [repo_keeps]: "keeps db_ok (insert_xp u n)"
proof (rule keepsI)
  fix db x db' assume db: "db_ok db" and run: "insert_xp u n db = Inr (x, db')"
  then have n: "int4_ok n" "int4_ok (xp_total u db + n)" "user_exists u db"
    and db': "db' = db\<lparr>xp_tbl := (if xp_of u db = None then xp_tbl db @ [\<lparr>xp_user_id = u, xp_amount = n\<rparr>]
       else update_where (\<lambda>r. xp_user_id r = u) (\<lambda>r. r\<lparr>xp_amount := xp_amount r + n\<rparr>) (xp_tbl db))\<rparr>"
    by (auto simp: insert_xp_def bind_check_tx split: if_splits)
  have "xp_ok db'"
  proof (cases "xp_of u db")
    case None
    with db n show ?thesis unfolding db'
      by (auto simp: db_ok_def xp_ok_def user_exists_def xp_of_None)
  next
    case (Some m)
    have "int4_ok (xp_amount r + n)" if "r \<in> set (xp_tbl db)" "xp_user_id r = u" for r
    proof -
      have "first_where (\<lambda>x. xp_user_id x = xp_user_id r) (xp_tbl db) = Some r"
        using db that(1) by (simp add: db_ok_def xp_ok_def first_where_unique)
      with that n(2) show ?thesis by (simp add: xp_total_def xp_of_def)
    qed
    with Some db show ?thesis unfolding db'
      by (auto simp: db_ok_def xp_ok_def user_exists_def map_update_where dest!: in_update_whereD)
  qed
  with db_ok_xp [OF db] show "db_ok db'" by (simp add: db')
qed

lemma insert_purchase_shape:
  assumes "insert_purchase E u ty kt n price name ity rot db = Inr (x, db')"
  shows "user_exists u db" "kt \<in> set (key_types db)" "int4_ok n" "int4_ok price"
    "purchase_fields_ok \<lparr>pu_id = next_purchase_id db, pu_user_id = u, pu_purchase_type = ty, pu_item_name = name,
         pu_item_type = ity, pu_key_type = kt, pu_quantity = n, pu_price_paid = price,
         pu_rotation_id = rot, pu_purchased_at = env_now E\<rparr>"
    "db' = db\<lparr>purchases := purchases db @ [\<lparr>pu_id = next_purchase_id db, pu_user_id = u, pu_purchase_type = ty,
         pu_item_name = name, pu_item_type = ity, pu_key_type = kt, pu_quantity = n, pu_price_paid = price,
         pu_rotation_id = rot, pu_purchased_at = env_now E\<rparr>], next_purchase_id := next_purchase_id db + 1\<rparr>"
  using assms by (auto simp: insert_purchase_def bind_check_tx Let_def split: if_splits)

lemma keeps_insert_purchase [repo_keeps]: "keeps db_ok (insert_purchase E u ty kt n price name ity rot)"
proof (rule keepsI)
  fix db x db' assume db: "db_ok db" and run: "insert_purchase E u ty kt n price name ity rot db = Inr (x, db')"
  note s = insert_purchase_shape [OF run]
  have "purchases_ok db'" unfolding s(6)
    using db s(1,2,5) by (auto simp: db_ok_def purchases_ok_def user_exists_def)
  with db_ok_purchases [OF db] show "db_ok db'" by (simp add: s(6))
qed

subsection \<open>Configurations and the quest pool\<close>

lemma keeps_repo_update_config [repo_keeps]: "keeps db_ok (repo_update_config n k)"
proof (rule keepsI)
  fix db x db' assume db: "db_ok db" and run: "repo_update_config n k db = Inr (x, db')"
  show "db_ok db'"
  proof (cases "db' = db")
    case False
    then obtain c where c: "store_config db = Some c"
      using run by (auto simp: repo_update_config_def bind_check_tx split: if_splits option.splits)
    define c' where "c' = c\<lparr>sc_rotation_period_days := (case n of None \<Rightarrow> sc_rotation_period_days c | Some i \<Rightarrow> i),
        sc_active_key_type := (case k of None \<Rightarrow> sc_active_key_type c | Some j \<Rightarrow> j)\<rparr>"
    have c': "0 < sc_rotation_period_days c'" "sc_active_key_type c' \<in> set (key_types db)"
        "db' = db\<lparr>store_config := Some c'\<rparr>"
      using run False by (auto simp: repo_update_config_def bind_check_tx Let_def c c'_def split: if_splits)
    then have "store_config_ok db'" by (simp add: store_config_ok_def)
    with db_ok_store_config [OF db] show ?thesis by (simp add: c'(3))
  qed (use db in simp)
qed

lemma db_ok_quest_config_row:
  "db_ok db \<Longrightarrow> quest_config_row_ok c \<Longrightarrow> db_ok (db\<lparr>quest_config := Some c\<rparr>)"
  by (rule db_ok_quest_config) (auto simp: db_ok_def quest_config_ok_def quest_config_row_ok_def)

lemma keeps_repo_update_quest_config [repo_keeps]: "keeps db_ok (repo_update_quest_config us)"
proof (rule keepsI)
  fix db x db' assume db: "db_ok db" and run: "repo_update_quest_config us db = Inr (x, db')"
  show "db_ok db'"
  proof (cases "db' = db")
    case False
    then obtain c where c: "quest_config db = Some c"
      using run by (auto simp: repo_update_quest_config_def bind_check_tx split: if_splits option.splits)
    then have "quest_config_row_ok (fold apply_config_update us c)"
        "db' = db\<lparr>quest_config := Some (fold apply_config_update us c)\<rparr>"
      using run False by (auto simp: repo_update_quest_config_def bind_check_tx Let_def split: if_splits)
    with db_ok_quest_config_row [OF db] show ?thesis by simp
  qed (use db in simp)
qed

lemma qs_id_fold [simp]: "qs_id (fold apply_quest_update us q) = qs_id q"
proof (induction us arbitrary: q)
  case (Cons u us)
  then show ?case by (cases u) simp_all
qed simp

lemma keeps_update_quest [repo_keeps]: "keeps db_ok (update_quest i us)"
proof -
  have "db_ok (db\<lparr>quests := update_where (\<lambda>q. qs_id q = i) (fold apply_quest_update us) (quests db)\<rparr>)"
    if db: "db_ok db" for db
  proof -
    let ?db = "db\<lparr>quests := update_where (\<lambda>q. qs_id q = i) (fold apply_quest_update us) (quests db)\<rparr>"
    have ex: "quest_exists q ?db = quest_exists q db" for q
      by (simp add: quest_exists_def has_row_update_where)
    have "quest_rotation_ok ?db" "quest_progress_ok ?db" "quest_config_ok ?db"
      using db by (simp_all add: db_ok_def quest_rotation_ok_def quest_progress_ok_def ex quest_config_ok_def
          user_exists_def global_rotation_keys_def bounty_rotation_keys_def global_progress_keys_def
          bounty_progress_keys_def map_update_where)
    then show ?thesis
      using db by (simp add: db_ok_def users_ok_def catalog_ok_def user_keys_ok_def user_rewards_ok_def xp_ok_def
          purchases_ok_def store_config_ok_def rotations_ok_def user_exists_def reward_exists_def)
  qed
  then show ?thesis
    unfolding update_quest_def by (intro keeps_rules keeps_write) simp
qed

subsection \<open>The rotations\<close>

lemma keeps_insert_bounty [repo_keeps]: "keeps db_ok (insert_bounty r u d)"
proof (rule keepsI)
  fix db x db' assume db: "db_ok db" and run: "insert_bounty r u d db = Inr (x, db')"
  show "db_ok db'"
  proof (cases "db' = db")
    case False
    with run obtain t0 t1 where new: "user_exists u db"
        "\<not> has_row (\<lambda>x. qr_rotation_id x = r \<and> qr_user_id x = Some u \<and> qr_quest_id x = None) (quest_rotation db)"
      and db': "db' = db\<lparr>quest_rotation := quest_rotation db @
                 [\<lparr>qr_id = next_quest_rotation_id db, qr_rotation_id = r, qr_quest_id = None,
                   qr_user_id = Some u, qr_quest_data = d, qr_available_from = t0, qr_available_until = t1\<rparr>],
               next_quest_rotation_id := next_quest_rotation_id db + 1\<rparr>"
      by (auto simp: insert_bounty_def split: if_splits option.splits)
    have "quest_rotation_ok db'"
      using db new by (auto simp: db' db_ok_def quest_rotation_ok_def global_rotation_keys_def
          bounty_rotation_keys_def has_row_iff user_exists_def quest_exists_def)
    with db_ok_quest_rotation [OF db] show ?thesis by (simp add: db')
  qed (use db in simp)
qed

lemma keeps_insert_global_quest:
  "keeps (\<lambda>db. db_ok db \<and> quests db = qs) (insert_global_quest r from until q)" if "q \<in> set qs"
  unfolding insert_global_quest_def
proof (rule keeps_write, elim conjE)
  fix db assume db: "db_ok db" and qs: "quests db = qs"
  let ?row = "\<lparr>qr_id = next_quest_rotation_id db, qr_rotation_id = r, qr_quest_id = Some (qs_id q),
     qr_user_id = None, qr_quest_data = pool_quest_data q, qr_available_from = from, qr_available_until = until\<rparr>"
  let ?db = "db\<lparr>quest_rotation := quest_rotation db @ [?row], next_quest_rotation_id := next_quest_rotation_id db + 1\<rparr>"
  have "quest_exists (qs_id q) db" using that qs by (auto simp: quest_exists_def has_row_iff)
  then have "quest_rotation_ok ?db"
    if "\<not> has_row (\<lambda>x. qr_rotation_id x = r \<and> qr_quest_id x = Some (qs_id q) \<and> qr_user_id x = None) (quest_rotation db)"
    using db that by (auto simp: db_ok_def quest_rotation_ok_def global_rotation_keys_def
          bounty_rotation_keys_def has_row_iff user_exists_def quest_exists_def)
  with db_ok_quest_rotation [OF db] show "db_ok (if has_row (\<lambda>x. qr_rotation_id x = r \<and> qr_quest_id x = Some (qs_id q) \<and> qr_user_id x = None)
      (quest_rotation db) then db else ?db) \<and> quests (if has_row (\<lambda>x. qr_rotation_id x = r \<and> qr_quest_id x = Some (qs_id q) \<and> qr_user_id x = None)
      (quest_rotation db) then db else ?db) = qs"
    using db qs by simp
qed

lemma keeps_select_by_difficulty [repo_keeps]: "keeps db_ok (select_by_difficulty keys r from until d limit)"
proof (rule keepsI)
  fix db x db' assume db: "db_ok db" and run: "select_by_difficulty keys r from until d limit db = Inr (x, db')"
  define pool where "pool = order_by_random keys (filter (\<lambda>q. qs_is_active q \<and> qs_quest_type q = ''global''
          \<and> qs_difficulty q = d) (quests db))"
  have pool: "set pool \<subseteq> set (quests db)" by (auto simp: pool_def)
  define chosen where "chosen = (case limit of None \<Rightarrow> pool | Some n \<Rightarrow> take (nat n) pool)"
  have "set chosen \<subseteq> set (quests db)"
    using pool set_take_subset by (auto simp: chosen_def split: option.splits dest: in_set_takeD)
  then have kept: "keeps (\<lambda>db'. db_ok db' \<and> quests db' = quests db) (for_tx chosen (insert_global_quest r from until))"
    by (intro keeps_for_mem keeps_insert_global_quest) auto
  have "for_tx chosen (insert_global_quest r from until) db = Inr (x, db')"
    using run unfolding select_by_difficulty_def bind_check_tx bind_read_tx pool_def chosen_def
    by (metis sum.distinct(1))
  from keepsD [OF kept conjI [OF db refl] this] show "db_ok db'" ..
qed

lemma keeps_insert_rotation_notifications [repo_keeps]: "keeps db_ok (insert_rotation_notifications r)"
  unfolding insert_rotation_notifications_def by (rule keeps_write) (rule db_ok_unchecked)

lemma distinct_map_filter2: "distinct (map f (filter P xs)) \<Longrightarrow> distinct (map f (filter (\<lambda>x. Q x \<and> P x) xs))"
  by (induction xs) (auto split: if_splits)

lemma keeps_generate_quest_rotation_rows [repo_keeps]:
  "keeps db_ok (generate_quest_rotation_rows keys r from until a b c)"
proof -
  have "db_ok (db\<lparr>quest_rotation := filter P (quest_rotation db)\<rparr>)" if db: "db_ok db" for db P
  proof -
    have "quest_rotation_ok (db\<lparr>quest_rotation := filter P (quest_rotation db), next_quest_rotation_id := next_quest_rotation_id db\<rparr>)"
      using db by (auto simp: db_ok_def quest_rotation_ok_def global_rotation_keys_def bounty_rotation_keys_def
          user_exists_def quest_exists_def distinct_map_filter2 intro: distinct_map_filter)
    from db_ok_quest_rotation [OF db this] show ?thesis by simp
  qed
  then show ?thesis
    unfolding generate_quest_rotation_rows_def select_global_quests_def
    by (intro keeps_rules repo_keeps keeps_write)
qed

lemma keeps_auto_claim [repo_keeps]: "keeps db_ok (auto_claim_completed_quests E)"
proof -
  have "keeps db_ok (write_tx (\<lambda>db. db\<lparr>quest_progress := map (\<lambda>p. case map_of claimed (pg_id p) of
          Some (_, cx) \<Rightarrow> if due_for_claim p then claim_row E cx p else p | None \<Rightarrow> p) (quest_progress db)\<rparr>))"
    for claimed :: "(int \<times> int \<times> int option \<times> int option) list"
    by (rule keeps_write, erule db_ok_progress_map) (simp add: claim_row_def split: option.splits)
  then show ?thesis
    unfolding auto_claim_completed_quests_def by (intro keeps_rules repo_keeps)
qed

lemma keeps_check_and_generate [repo_keeps]: "keeps db_ok (check_and_generate_quest_rotation E keys)"
proof -
  have "db_ok (db\<lparr>quest_config := map_option (\<lambda>c. c\<lparr>qc_last_rotation_at := a, qc_next_rotation_at := b,
      qc_current_rotation_id := r\<rparr>) (quest_config db)\<rparr>)" if "db_ok db" for db a b r
    using that by (intro db_ok_quest_config) (auto simp: db_ok_def quest_config_ok_def)
  then have "keeps db_ok (write_tx (\<lambda>db. db\<lparr>quest_config := map_option (\<lambda>c. c\<lparr>qc_last_rotation_at := a,
      qc_next_rotation_at := b, qc_current_rotation_id := r\<rparr>) (quest_config db)\<rparr>))" for a b r
    by (rule keeps_write)
  then show ?thesis
    unfolding check_and_generate_quest_rotation_def by (intro keeps_rules repo_keeps)
qed

text \<open>What a draw inserts: nothing, or rows of the current transaction made from catalog rewards.\<close>

definition rotation_rows :: "env \<Rightarrow> string \<Rightarrow> int \<Rightarrow> int \<Rightarrow> reward_type_row list \<Rightarrow> rotation_row list" where
  "rotation_rows E rarity price available_until picked = map (\<lambda>rt. \<lparr>ro_rotation_id = env_uuid E, ro_item_name = rt_name rt,
     ro_item_type = rt_type rt, ro_key_type = rt_key_type rt, ro_rarity = rarity, ro_price = price,
     ro_available_from = env_now E, ro_available_until = available_until\<rparr>) picked"

definition rotation_pool :: "int list \<Rightarrow> string \<Rightarrow> econ \<Rightarrow> reward_type_row list" where
  "rotation_pool recent rarity db = filter (\<lambda>rt. rt_rarity rt = Some rarity \<and> rt_type rt \<noteq> ''coins''
     \<and> \<not> has_row (\<lambda>sr. ro_rotation_id sr \<in> set recent \<and> ro_item_name sr = rt_name rt
          \<and> ro_item_type sr = rt_type rt \<and> ro_key_type sr = rt_key_type rt) (rotations db)) (reward_types db)"

lemma draw_rotation_items_shape:
  assumes "draw_rotation_items E keys recent rarity price n until db = Inr (m, db')"
  obtains "m = 0" "n = 0 \<or> rotation_pool recent rarity db = []" "db' = db"
  | t picked where "until = Some t" "picked = take n (order_by_random keys (rotation_pool recent rarity db))"
      "m = length picked" "picked \<noteq> []"
      "distinct (map rotation_key (rotations db @ rotation_rows E rarity price t picked))"
      "db' = db\<lparr>rotations := rotations db @ rotation_rows E rarity price t picked\<rparr>"
proof -
  define picked where "picked = take n (order_by_random keys (rotation_pool recent rarity db))"
  have run: "(if picked = [] then Inr (0, db) else case until of
          None \<Rightarrow> Inl (Pg (NotNullViolation ''available_until''))
        | Some t \<Rightarrow> if distinct (map rotation_key (rotations db @ rotation_rows E rarity price t picked))
               then Inr (length picked, db\<lparr>rotations := rotations db @ rotation_rows E rarity price t picked\<rparr>)
               else Inl (Pg (UniqueViolation ''unique_rotation_item''))) = Inr (m, db')"
    using assms unfolding draw_rotation_items_def Let_def rotation_rows_def picked_def rotation_pool_def .
  show ?thesis
  proof (cases "picked = []")
    case True
    with run have "m = 0" "db' = db" by simp_all
    moreover from True have "n = 0 \<or> rotation_pool recent rarity db = []" by (simp add: picked_def)
    ultimately show ?thesis using that(1) by blast
  next
    case False
    with run obtain t where "until = Some t" by (cases until) simp_all
    with run False that(2) [of t picked] show ?thesis
      by (simp only: option.case if_False sum.distinct sum.inject prod.inject picked_def split: if_splits) blast
  qed
qed

lemma rotation_rows_from_catalog:
  assumes "x \<in> set (rotation_rows E rarity price t picked)" "set picked \<subseteq> set (reward_types db)"
  shows "ro_price x = price \<and> reward_exists (ro_item_name x) (ro_item_type x) (ro_key_type x) db"
  using assms by (auto simp: rotation_rows_def reward_exists_def has_row_iff)

lemma set_drawn: "set (take n (order_by_random keys (rotation_pool recent rarity db))) \<subseteq> set (reward_types db)"
  by (auto simp: rotation_pool_def dest: in_set_takeD)

lemma keeps_draw_rotation_items:
  assumes "int4_ok price"
  shows "keeps db_ok (draw_rotation_items E keys recent rarity price n until)"
proof (rule keepsI)
  fix db x db' assume db: "db_ok db"
    and run: "draw_rotation_items E keys recent rarity price n until db = Inr (x, db')"
  from run show "db_ok db'"
  proof (rule draw_rotation_items_shape)
    fix t picked
    assume d: "picked = take n (order_by_random keys (rotation_pool recent rarity db))"
      and keys: "distinct (map rotation_key (rotations db @ rotation_rows E rarity price t picked))"
      and db': "db' = db\<lparr>rotations := rotations db @ rotation_rows E rarity price t picked\<rparr>"
    have "int4_ok (ro_price r) \<and> reward_exists (ro_item_name r) (ro_item_type r) (ro_key_type r) db'"
      if "r \<in> set (rotations db @ rotation_rows E rarity price t picked)" for r
      using that db assms rotation_rows_from_catalog [of r E rarity price t picked db] set_drawn [of n keys recent rarity db]
      by (auto simp: db_ok_def rotations_ok_def db' reward_exists_def d)
    with keys have "rotations_ok db'" by (simp add: rotations_ok_def db')
    with db_ok_rotations [OF db] show ?thesis by (simp add: db')
  qed (use db in simp)
qed

lemma keeps_expire_active: "keeps db_ok (write_tx (\<lambda>db. db\<lparr>rotations := expire_active E (rotations db)\<rparr>))"
proof (rule keeps_write, rule db_ok_rotations)
  fix db assume "db_ok db"
  moreover have "map rotation_key (expire_active E (rotations db)) = map rotation_key (rotations db)"
    by (simp add: expire_active_def map_update_where rotation_key_def)
  moreover have "\<exists>r0 \<in> set (rotations db). ro_price r = ro_price r0 \<and> rotation_key r = rotation_key r0"
    if "r \<in> set (expire_active E (rotations db))" for r
    using that by (auto simp: expire_active_def rotation_key_def dest!: in_update_whereD)
  ultimately show "rotations_ok (db\<lparr>rotations := expire_active E (rotations db)\<rparr>)"
    by (fastforce simp: db_ok_def rotations_ok_def reward_exists_def rotation_key_def)
qed

lemma keeps_repo_generate_rotation [repo_keeps]: "keeps db_ok (repo_generate_rotation E roll keys n)"
proof -
  have "keeps db_ok (write_tx (\<lambda>db. db\<lparr>store_config := map_option (\<lambda>c.
             c\<lparr>sc_last_rotation_at := env_now E, sc_next_rotation_at := env_now E + sc_rotation_period_days c * day_us\<rparr>)
               (store_config db)\<rparr>))"
    by (rule keeps_write, rule db_ok_store_config) (auto simp: db_ok_def store_config_ok_def)
  then show ?thesis
    unfolding repo_generate_rotation_def
    by (intro keeps_rules keeps_expire_active keeps_draw_rotation_items) (simp_all add: int4_ok_def)
qed

end
