(* ===== verification/Economy.thy ===== *)
theory Economy
  imports Store_Invariants
begin

section \<open>The economy as a transition system\<close>

text \<open>
  The calls a client can make on the lootbox and the store service, one rule per method that may
  write. Whatever the order of the calls, their arguments, the time, the random choices and the
  state of the message broker, the database stays well-formed.
\<close>

subsection \<open>Service methods keep the database well-formed\<close>

lemma keeps_take_payment [repo_keeps]: "keeps db_ok (take_payment u n)"
  unfolding take_payment_def by (intro keeps_rules repo_keeps)

lemma keeps_ensure_key_type_exists [repo_keeps]: "keeps db_ok (ensure_key_type_exists k)"
  unfolding ensure_key_type_exists_def by (intro keeps_rules)

lemma keeps_purchase_keys [repo_keeps]:
  "keeps db_ok (purchase_keys_tx E u kt n p)" "keeps_io db_ok (purchase_keys E u kt n)"
  unfolding purchase_keys_def purchase_keys_tx_def active_key_type_def by (intro keeps_rules repo_keeps)+

lemma keeps_purchase_item [repo_keeps]:
  "keeps db_ok (purchase_item_tx E u n ty kt)" "keeps_io db_ok (purchase_item E u n ty kt)"
  unfolding purchase_item_def purchase_item_tx_def by (intro keeps_rules repo_keeps)+

lemma keeps_store_admin [repo_keeps]:
  "keeps_io db_ok (generate_rotation E roll keys n)" "keeps_io db_ok (update_config d k)"
  unfolding generate_rotation_def update_config_def validate_rotation_item_count_def
  by (intro keeps_rules repo_keeps)+

lemma keeps_provision_quests [repo_keeps]: "keeps db_ok (provision_quests R u r)"
  unfolding provision_quests_def by (intro keeps_rules repo_keeps)

lemma keeps_ensure_user_quests [repo_keeps]: "keeps_io db_ok (ensure_user_quests_for_rotation E Q u)"
  unfolding ensure_user_quests_for_rotation_def by (intro keeps_rules repo_keeps)

lemma keeps_get_user_quests [repo_keeps]: "keeps_io db_ok (get_user_quests convert E Q u)"
  unfolding get_user_quests_def by (intro keeps_rules repo_keeps)

lemma keeps_update_one_quest [repo_keeps]: "keeps db_ok (update_one_quest E ty d q)"
  unfolding update_one_quest_def by (intro keeps_rules repo_keeps)

lemma keeps_update_quest_progress [repo_keeps]: "keeps_io db_ok (update_quest_progress E Q u ty d)"
  unfolding update_quest_progress_def update_quests_tx_def by (intro keeps_rules repo_keeps)

lemma keeps_revert_quest_progress [repo_keeps]: "keeps_io db_ok (revert_quest_progress E Q u ty d ts ms)"
  unfolding revert_quest_progress_def revert_one_quest_def by (intro keeps_rules repo_keeps)

lemma keeps_claim_quest [repo_keeps]:
  "keeps db_ok (claim_quest_tx E u i)" "keeps_io db_ok (claim_quest E pytest u i)"
  unfolding claim_quest_def claim_quest_tx_def by (intro keeps_rules repo_keeps)+

lemma keeps_admin_update [repo_keeps]: "keeps_io db_ok (admin_update_user_quest asdict E u i data)"
  unfolding admin_update_user_quest_def admin_pay_def by (intro keeps_rules repo_keeps)

lemma keeps_quest_admin [repo_keeps]:
  "keeps_io db_ok (update_quest_config E d h a b c)" "keeps_io db_ok (generate_quest_rotation E Q)"
  unfolding update_quest_config_def generate_quest_rotation_def by (intro keeps_rules repo_keeps)+

subsection \<open>Steps and reachable worlds\<close>

text \<open>
  The flag says whether the admin update of a user's quest is among the calls. \<open>econ_step\<close> does
  not ask how a call ended: a failed call leaves what it committed before it failed.
\<close>

inductive econ_step :: "bool \<Rightarrow> econ_world \<Rightarrow> econ_world \<Rightarrow> bool" where
  open_lootbox: "econ_step admin w (snd (get_random_items gacha keys u kt test_mode w))"
| grant_key: "econ_step admin w (snd (grant_key_to_user E u kt w))"
| grant_active_key: "econ_step admin w (snd (grant_active_key_to_user E u w))"
| grant_reward: "econ_step admin w (snd (grant_reward_to_user E u ty kt n w))"
| debug_grant: "econ_step admin w (snd (debug_grant_reward_no_key E u kt ty n w))"
| grant_xp: "econ_step admin w (snd (grant_user_xp E pytest u xp_request w))"
| publish_events: "econ_step admin w (snd (publish_xp_events E pytest events w))"
| set_multiplier: "econ_step admin w (snd (svc_update_xp_multiplier m w))"
| set_active_key: "econ_step admin w (snd (svc_update_active_key kt w))"
| buy_keys: "econ_step admin w (snd (purchase_keys E u kt amount w))"
| buy_item: "econ_step admin w (snd (purchase_item E u n ty kt w))"
| rotate_items: "econ_step admin w (snd (generate_rotation E roll picks amount w))"
| set_store_config: "econ_step admin w (snd (update_config days active w))"
| view_quests: "econ_step admin w (snd (get_user_quests (convert :: dict \<Rightarrow> py_error + dict) E Q u w))"
| quest_event: "econ_step admin w (snd (update_quest_progress E Q u event_type event_data w))"
| quest_reverted: "econ_step admin w (snd (revert_quest_progress E Q u event_type event_data left_times left_medals w))"
| claim: "econ_step admin w (snd (claim_quest E pytest u i w))"
| admin_update: "econ_step True w (snd (admin_update_user_quest asdict E u i request w))"
| set_quest_config: "econ_step admin w (snd (update_quest_config E day hour easy medium hard w))"
| rotate_quests: "econ_step admin w (snd (generate_quest_rotation E Q w))"
| edit_quest: "econ_step admin w (snd (atomically (update_quest i updates) w))"

inductive econ_reach :: "bool \<Rightarrow> econ_world \<Rightarrow> econ_world \<Rightarrow> bool" for admin w0 where
  start: "econ_reach admin w0 w0"
| call: "econ_reach admin w0 w \<Longrightarrow> econ_step admin w w' \<Longrightarrow> econ_reach admin w0 w'"

inductive_cases econ_stepE: "econ_step admin w w'"

lemma econ_step_db_ok: "econ_step admin w w' \<Longrightarrow> db_ok (wdb w) \<Longrightarrow> db_ok (wdb w')"
  by (erule econ_stepE; hypsubst; rule keeps_ioD [rotated], assumption; intro keeps_rules repo_keeps)

lemma econ_reach_db_ok: "econ_reach admin w0 w \<Longrightarrow> db_ok (wdb w0) \<Longrightarrow> db_ok (wdb w)"
  by (induction rule: econ_reach.induct) (auto dest: econ_step_db_ok)

end
