(* ===== verification/Quest_Rows.thy ===== *)
theory Quest_Rows
  imports Economy
begin

section \<open>What becomes of a completed quest\<close>

text \<open>
  The calls of a player and the weekly rotation never change a completed progress row, except
  for the one claim, which stamps it with the rewards of its own quest data.
\<close>

named_theorems progress_frame
named_theorems row_keeps

subsection \<open>Statements that leave the progress table alone\<close>

lemma progress_frame_writes [progress_frame]:
  "keeps (\<lambda>db. quest_progress db = ps) (update_user_coins u n)"
  "keeps (\<lambda>db. quest_progress db = ps) (insert_xp u n)"
  "keeps (\<lambda>db. quest_progress db = ps) (insert_bounty r u d)"
  "keeps (\<lambda>db. quest_progress db = ps) (upsert_user_xp u base m)"
  "keeps (\<lambda>db. quest_progress db = ps) (insert_job i a)"
  by (auto intro!: keepsI simp: update_user_coins_def insert_xp_def insert_bounty_def upsert_user_xp_def
      insert_job_def bind_check_tx Let_def split: option.splits if_splits)

lemma progress_frame_lootbox [progress_frame]:
  "keeps (\<lambda>db. quest_progress db = ps) (add_user_coins u n)"
  "keeps (\<lambda>db. quest_progress db = ps) (deduct_user_coins u n)"
  "keeps (\<lambda>db. quest_progress db = ps) (delete_oldest_user_key u kt)"
  "keeps (\<lambda>db. quest_progress db = ps) (insert_user_key E u kt)"
  "keeps (\<lambda>db. quest_progress db = ps) (insert_user_reward E u ty kt name)"
  "keeps (\<lambda>db. quest_progress db = ps) (update_active_key kt)"
  "keeps (\<lambda>db. quest_progress db = ps) (update_xp_multiplier m)"
  by (auto intro!: keepsI simp: add_user_coins_def deduct_user_coins_def delete_oldest_user_key_def
      insert_user_key_def insert_user_reward_def update_active_key_def update_xp_multiplier_def
      bind_check_tx split: option.splits if_splits list.splits)

lemma progress_frame_active_key [progress_frame]:
  "keeps (\<lambda>db. quest_progress db = ps) (insert_active_key E u)"
proof -
  have "keeps (\<lambda>db. quest_progress db = ps) (case ks of [] \<Rightarrow> return_tx () | k # _ \<Rightarrow> insert_user_key E u k)" for ks
    by (cases ks) (auto intro: keeps_basic progress_frame)
  then show ?thesis unfolding insert_active_key_def by (intro keeps_rules)
qed

lemma progress_frame_store [progress_frame]:
  "keeps (\<lambda>db. quest_progress db = ps) (insert_purchase E u pty kt n price name ity rot)"
  "keeps (\<lambda>db. quest_progress db = ps) (repo_update_config days active)"
  "keeps (\<lambda>db. quest_progress db = ps) (repo_update_quest_config us)"
  "keeps (\<lambda>db. quest_progress db = ps) (update_quest i qus)"
  by (auto intro!: keepsI simp: insert_purchase_def repo_update_config_def repo_update_quest_config_def
      update_quest_def bind_check_tx Let_def split: option.splits if_splits)

lemma progress_frame_draw: "keeps (\<lambda>db. quest_progress db = ps) (draw_rotation_items E keys recent rarity price n until)"
  by (rule keepsI, erule draw_rotation_items_shape) auto

lemma progress_frame_item_rotation [progress_frame]:
  "keeps (\<lambda>db. quest_progress db = ps) (repo_generate_rotation E roll keys n)"
  unfolding repo_generate_rotation_def by (intro keeps_rules keeps_write progress_frame_draw) auto

lemma progress_frame_rotation [progress_frame]:
  "keeps (\<lambda>db. quest_progress db = ps) (generate_quest_rotation_rows keys r from until a b c)"
  unfolding generate_quest_rotation_rows_def select_global_quests_def select_by_difficulty_def
    insert_global_quest_def insert_rotation_notifications_def
  by (intro keeps_rules keeps_write) auto

subsection \<open>The two states of a completed row\<close>

text \<open>A completed row stays as it is, or is claimed with the rewards its quest data names.\<close>

definition row_after :: "progress_row \<Rightarrow> progress_row \<Rightarrow> bool" where
  "row_after r r' \<longleftrightarrow> r' = r \<or> pg_claimed_at r = None
     \<and> (\<exists>E cx. claim_columns r = Inr cx \<and> r' = claim_row E cx r)"

definition completed_kept :: "progress_row \<Rightarrow> econ \<Rightarrow> bool" where
  "completed_kept r db \<longleftrightarrow> db_ok db \<and> (\<exists>r' \<in> set (quest_progress db). row_after r r')"

lemma row_after_id: "row_after r r' \<Longrightarrow> pg_id r' = pg_id r"
  by (auto simp: row_after_def claim_row_def)

lemma row_after_completed: "row_after r r' \<Longrightarrow> pg_completed_at r' = pg_completed_at r"
  by (auto simp: row_after_def claim_row_def)

lemma row_after_claim:
  "row_after r r' \<Longrightarrow> due_for_claim r' \<Longrightarrow> claim_columns r' = Inr cx \<Longrightarrow> row_after r (claim_row E cx r')"
  by (auto simp: row_after_def claim_row_def [abs_def] due_for_claim_def simp del: split_paired_Ex)

lemma keeps_completed_frame:
  "keeps db_ok m \<Longrightarrow> (\<And>ps. keeps (\<lambda>db. quest_progress db = ps) m) \<Longrightarrow> keeps (completed_kept r) m"
  unfolding keeps_def completed_kept_def by metis

lemma completed_frames [row_keeps]:
  "keeps (completed_kept r) (update_user_coins u n)" "keeps (completed_kept r) (insert_xp u n)"
  "keeps (completed_kept r) (insert_bounty rot u d)" "keeps (completed_kept r) (upsert_user_xp u base m)"
  "keeps (completed_kept r) (insert_job i act)"
  "keeps (completed_kept r) (generate_quest_rotation_rows keys rot from until a b c)"
  "keeps (completed_kept r) (add_user_coins u n)" "keeps (completed_kept r) (deduct_user_coins u n)"
  "keeps (completed_kept r) (delete_oldest_user_key u kt)" "keeps (completed_kept r) (insert_user_key E u kt)"
  "keeps (completed_kept r) (insert_user_reward E u ty kt name)" "keeps (completed_kept r) (update_active_key kt)"
  "keeps (completed_kept r) (update_xp_multiplier m)" "keeps (completed_kept r) (insert_active_key E u)"
  "keeps (completed_kept r) (insert_purchase E u pty kt n price pname ity purchase_rot)"
  "keeps (completed_kept r) (repo_update_config days active)" "keeps (completed_kept r) (repo_update_quest_config us)"
  "keeps (completed_kept r) (update_quest i qus)" "keeps (completed_kept r) (repo_generate_rotation E roll picks n)"
  by (intro keeps_completed_frame repo_keeps progress_frame)+

subsection \<open>Statements that write it\<close>

lemma keeps_completed_insert [row_keeps]: "keeps (completed_kept r) (insert_progress u rot q d p)"
proof (rule keepsI)
  fix db x db' assume kept: "completed_kept r db" and run: "insert_progress u rot q d p db = Inr (x, db')"
  then have "db_ok db'" using keepsD [OF keeps_insert_progress] by (auto simp: completed_kept_def)
  moreover have "set (quest_progress db) \<subseteq> set (quest_progress db')"
    using run by (auto simp: insert_progress_def split: if_splits option.splits)
  ultimately show "completed_kept r db'" using kept by (auto simp: completed_kept_def)
qed

lemma progress_row_unique:
  "db_ok db \<Longrightarrow> p \<in> set (quest_progress db) \<Longrightarrow> p' \<in> set (quest_progress db) \<Longrightarrow> pg_id p = pg_id p' \<Longrightarrow> p = p'"
  unfolding db_ok_def quest_progress_ok_def by (metis distinct_map inj_onD)

lemma keeps_completed_update:
  assumes "\<And>p. pg_id (f p) = pg_id p \<and> pg_user_id (f p) = pg_user_id p
        \<and> pg_rotation_id (f p) = pg_rotation_id p \<and> pg_quest_id (f p) = pg_quest_id p"
    and "\<And>p. row_after r p \<Longrightarrow> pg_id p = i \<Longrightarrow> P p \<Longrightarrow> row_after r (f p)"
  shows "keeps (completed_kept r) (update_progress_row i P f)"
proof (rule keepsI)
  fix db x db' assume kept: "completed_kept r db" and run: "update_progress_row i P f db = Inr (x, db')"
  have "db_ok db'"
    using kept keepsD [OF keeps_update_progress_row _ run] assms(1) by (auto simp: completed_kept_def)
  moreover from kept obtain p where p: "p \<in> set (quest_progress db)" "row_after r p"
    by (auto simp: completed_kept_def)
  then have "(if pg_id p = i \<and> P p then f p else p) \<in> set (quest_progress db')"
    using run by (auto simp: update_progress_row_def update_where_def)
  moreover have "row_after r (if pg_id p = i \<and> P p then f p else p)"
    using p assms(2) by auto
  ultimately show "completed_kept r db'" by (auto simp: completed_kept_def)
qed

text \<open>Progress of other rows; completion marks only rows that have none.\<close>

lemma keeps_completed_progress: "i \<noteq> pg_id r \<Longrightarrow> keeps (completed_kept r) (repo_update_quest_progress i d)"
  unfolding repo_update_quest_progress_def
  by (rule keeps_completed_update) (auto dest: row_after_id)

lemma keeps_completed_mark: "i \<noteq> pg_id r \<Longrightarrow> keeps (completed_kept r) (mark_quest_complete E i)"
  unfolding mark_quest_complete_def by (rule keeps_completed_update) (auto dest: row_after_id)

subsection \<open>Claims\<close>

lemma claim_quest_tx_shape:
  assumes "claim_quest_tx E u i db = Inr ((d, c, x, nc), db')"
  obtains p coins xp db1 where
    "first_where (claimable i u) (quest_progress db) = Some p" "claim_columns p = Inr (coins, xp)"
    "db1 = db\<lparr>quest_progress := update_where (\<lambda>r. pg_id r = i \<and> pg_user_id r = u \<and> due_for_claim r)
        (claim_row E (coins, xp)) (quest_progress db)\<rparr>"
    "update_user_coins u c db1 = Inr (nc, db')"
    "d = pg_quest_data p" "c = (case coins of Some n \<Rightarrow> n | None \<Rightarrow> 0)" "x = (case xp of Some n \<Rightarrow> n | None \<Rightarrow> 0)"
proof (cases "first_where (claimable i u) (quest_progress db)")
  case None
  with assms show ?thesis
    by (simp add: claim_quest_tx_def split: option.splits if_splits)
next
  case (Some p)
  show ?thesis
  proof (cases "claim_columns p")
    case (Inl e)
    with assms Some show ?thesis by (simp add: claim_quest_tx_def)
  next
    case (Inr cx)
    obtain coins xp where cx: "cx = (coins, xp)" by fastforce
    from assms Some Inr cx show ?thesis
      by (intro that [OF Some]) (auto simp: claim_quest_tx_def Let_def update_progress_row_def elim!: bind_txE)
  qed
qed

lemma keeps_completed_claim: "keeps (completed_kept r) (claim_quest_tx E u i)"
proof (rule keepsI)
  fix db z db' assume kept: "completed_kept r db" and run: "claim_quest_tx E u i db = Inr (z, db')"
  obtain d c x nc where z: "z = (d, c, x, nc)" by (cases z) auto
  from run [unfolded z] show "completed_kept r db'"
  proof (rule claim_quest_tx_shape)
    fix p coins xp db1
    assume p: "first_where (claimable i u) (quest_progress db) = Some p" "claim_columns p = Inr (coins, xp)"
      and db1: "db1 = db\<lparr>quest_progress := update_where (\<lambda>r. pg_id r = i \<and> pg_user_id r = u \<and> due_for_claim r)
          (claim_row E (coins, xp)) (quest_progress db)\<rparr>"
      and pay: "update_user_coins u c db1 = Inr (nc, db')"
    have upd: "update_progress_row i (\<lambda>r. pg_user_id r = u \<and> due_for_claim r) (claim_row E (coins, xp)) db = Inr ((), db1)"
      by (simp add: update_progress_row_def db1)
    from kept have ok: "db_ok db" by (simp add: completed_kept_def)
    with keepsD [OF keeps_claim_row _ upd] have ok1: "db_ok db1" by blast
    from kept obtain q where q: "q \<in> set (quest_progress db)" "row_after r q" by (auto simp: completed_kept_def)
    let ?q = "if pg_id q = i \<and> pg_user_id q = u \<and> due_for_claim q then claim_row E (coins, xp) q else q"
    have "?q \<in> set (quest_progress db1)" using q(1) by (simp add: db1 update_where_def)
    moreover have "row_after r ?q"
    proof (cases "pg_id q = i \<and> pg_user_id q = u \<and> due_for_claim q")
      case True
      moreover have "p \<in> set (quest_progress db)" "pg_id p = i"
        using first_where_SomeD [OF p(1)] by (auto simp: claimable_def)
      ultimately have "p = q" using progress_row_unique [OF ok] q(1) by simp
      with True p(2) q(2) row_after_claim show ?thesis by simp
    qed (use q in auto)
    ultimately have "completed_kept r db1" using ok1 by (auto simp: completed_kept_def)
    then show ?thesis using keepsD [OF completed_frames(1) _ pay] by simp
  qed
qed

text \<open>The rewards a row names, and the rows the weekly rotation claims for their owners.\<close>

definition row_rewards :: "progress_row \<Rightarrow> int option \<times> int option" where
  "row_rewards p = (case claim_columns p of Inr cx \<Rightarrow> cx | Inl e \<Rightarrow> (None, None))"

lemma map_tx_claims:
  "map_tx ps (\<lambda>p. bind_tx (lift_tx (lift_pg (claim_columns p))) (\<lambda>cx. return_tx (pg_id p, pg_user_id p, cx))) db = Inr (cl, db1) \<Longrightarrow>
     db1 = db \<and> cl = map (\<lambda>p. (pg_id p, pg_user_id p, row_rewards p)) ps \<and> (\<forall>p \<in> set ps. claim_columns p = Inr (row_rewards p))"
proof (induction ps arbitrary: cl)
  case (Cons p ps)
  then show ?case
    by (cases "claim_columns p") (fastforce simp: row_rewards_def elim!: bind_txE)+
qed simp

lemma claimed_map:
  assumes "db_ok db"
  shows "map (\<lambda>p. case map_of (map (\<lambda>p. (pg_id p, pg_user_id p, row_rewards p)) (filter due_for_claim (quest_progress db))) (pg_id p) of
          Some (_, cx) \<Rightarrow> if due_for_claim p then claim_row E cx p else p | None \<Rightarrow> p) (quest_progress db) =
      update_where due_for_claim (\<lambda>p. claim_row E (row_rewards p) p) (quest_progress db)"
proof -
  have "map_of (map (\<lambda>p. (pg_id p, pg_user_id p, row_rewards p)) (filter due_for_claim (quest_progress db))) (pg_id p) =
      Some (pg_user_id p, row_rewards p)" if "p \<in> set (quest_progress db)" "due_for_claim p" for p
    using assms that by (intro map_of_is_SomeI)
      (auto simp: db_ok_def quest_progress_ok_def comp_def distinct_map_filter image_iff)
  then show ?thesis
    by (auto simp: update_where_def split: option.splits)
qed


definition with_claims :: "env \<Rightarrow> econ \<Rightarrow> econ" where
  "with_claims E db = db\<lparr>quest_progress :=
     update_where due_for_claim (\<lambda>p. claim_row E (row_rewards p) p) (quest_progress db)\<rparr>"

definition due_rewards :: "(int option \<times> int option \<Rightarrow> int option) \<Rightarrow> int \<Rightarrow> econ \<Rightarrow> int option" where
  "due_rewards f u db = sql_sum (map (\<lambda>p. f (row_rewards p))
     (filter (\<lambda>p. pg_user_id p = u) (filter due_for_claim (quest_progress db))))"

definition claimants :: "econ \<Rightarrow> int list" where
  "claimants db = remdups (map pg_user_id (filter due_for_claim (quest_progress db)))"

definition pay_due_coins :: "econ \<Rightarrow> unit etx" where
  "pay_due_coins db = for_tx (claimants db) (\<lambda>u. case due_rewards fst u db of
            None \<Rightarrow> raise_tx (Py (OutsideModel ''a balance set to NULL''))
          | Some n \<Rightarrow> bind_tx (update_user_coins u n) (\<lambda>_. return_tx ()))"

definition pay_due_xp :: "econ \<Rightarrow> unit etx" where
  "pay_due_xp db = for_tx (claimants db) (\<lambda>u. case due_rewards snd u db of
            None \<Rightarrow> raise_tx (Pg (NotNullViolation ''amount'')) | Some n \<Rightarrow> insert_xp u n)"

text \<open>An automatic claim stamps the due rows, then pays every claimant once.\<close>

lemma auto_claim_shape:
  assumes "db_ok db" "auto_claim_completed_quests E db = Inr (z, db')"
  obtains db2 where
    "\<forall>p \<in> set (quest_progress db). due_for_claim p \<longrightarrow> claim_columns p = Inr (row_rewards p)"
    "pay_due_coins db (with_claims E db) = Inr ((), db2)"
    "pay_due_xp db db2 = Inr ((), db')"
    "fst z = length (filter due_for_claim (quest_progress db))"
proof -
  let ?due = "filter due_for_claim (quest_progress db)"
  let ?cl = "map (\<lambda>p. (pg_id p, pg_user_id p, row_rewards p)) ?due"
  have cl: "remdups (map (\<lambda>(_, u, _). u) ?cl) = claimants db"
    by (simp add: claimants_def comp_def)
  have sums: "sql_sum (map (\<lambda>(_, _, cx). f cx) (filter (\<lambda>(_, v, _). v = u) ?cl)) = due_rewards f u db" for f u
    by (simp add: due_rewards_def filter_map comp_def)
  define claim_all where "claim_all = map_tx ?due (\<lambda>p. bind_tx (lift_tx (lift_pg (claim_columns p))) (\<lambda>cx.
        return_tx (pg_id p, pg_user_id p, cx)) :: (int \<times> int \<times> int option \<times> int option) etx)"
  from assms(2) obtain claimed db1 where claims: "claim_all db = Inr (claimed, db1)"
    by (auto simp: auto_claim_completed_quests_def claim_all_def elim!: bind_txE)
  note c = map_tx_claims [OF claims [unfolded claim_all_def]]
  have run: "bind_tx (pay_due_coins db)
      (\<lambda>_. bind_tx (pay_due_xp db)
      (\<lambda>_. bind_tx (check_tx (\<lambda>_. int4_ok (case sql_sum (map (\<lambda>(_, _, cx). fst cx) ?cl) of Some n \<Rightarrow> n | None \<Rightarrow> 0)
          \<and> int4_ok (case sql_sum (map (\<lambda>(_, _, cx). snd cx) ?cl) of Some n \<Rightarrow> n | None \<Rightarrow> 0)) (Pg NumericOutOfRange))
      (\<lambda>_. return_tx (length ?cl, case sql_sum (map (\<lambda>(_, _, cx). fst cx) ?cl) of Some n \<Rightarrow> n | None \<Rightarrow> 0,
          case sql_sum (map (\<lambda>(_, _, cx). snd cx) ?cl) of Some n \<Rightarrow> n | None \<Rightarrow> 0)))) (with_claims E db) = Inr (z, db')"
    using assms(2) unfolding auto_claim_completed_quests_def bind_read_tx claim_all_def [symmetric] bind_tx_Inr [where m = claim_all, OF claims]
      Let_def bind_write_tx c [THEN conjunct1] c [THEN conjunct2, THEN conjunct1] cl sums
      claimed_map [OF assms(1)] with_claims_def pay_due_coins_def pay_due_xp_def .
  from run obtain db2 where *: "pay_due_coins db (with_claims E db) = Inr ((), db2)"
      "pay_due_xp db db2 = Inr ((), db')"
      "fst z = length ?cl"
    by (auto elim!: bind_txE simp: run_check_tx split: if_splits)
  then show ?thesis using c that by auto
qed

lemma keeps_completed_auto_claim [row_keeps]: "keeps (completed_kept r) (auto_claim_completed_quests E)"
proof (rule keepsI)
  fix db z db' assume kept: "completed_kept r db" and run: "auto_claim_completed_quests E db = Inr (z, db')"
  then have ok: "db_ok db" by (simp add: completed_kept_def)
  from ok run show "completed_kept r db'"
  proof (rule auto_claim_shape)
    fix db2
    assume rewards: "\<forall>p \<in> set (quest_progress db). due_for_claim p \<longrightarrow> claim_columns p = Inr (row_rewards p)"
      and pay: "pay_due_coins db (with_claims E db) = Inr ((), db2)"
      and xp: "pay_due_xp db db2 = Inr ((), db')"
    have ok1: "db_ok (with_claims E db)"
      unfolding with_claims_def update_where_def by (rule db_ok_progress_map [OF ok]) (simp add: claim_row_def)
    from kept obtain q where q: "q \<in> set (quest_progress db)" "row_after r q" by (auto simp: completed_kept_def)
    let ?q = "if due_for_claim q then claim_row E (row_rewards q) q else q"
    have "?q \<in> set (quest_progress (with_claims E db))" using q(1) by (simp add: with_claims_def update_where_def)
    moreover have "row_after r ?q" using q rewards row_after_claim by auto
    ultimately have "completed_kept r (with_claims E db)" using ok1 by (auto simp: completed_kept_def)
    then have "completed_kept r db2"
      using pay by (rule keepsD [where m = "pay_due_coins db", rotated]) (unfold pay_due_coins_def, intro keeps_rules row_keeps)
    then show ?thesis
      using xp by (rule keepsD [where m = "pay_due_xp db", rotated]) (unfold pay_due_xp_def, intro keeps_rules row_keeps)
  qed
qed

subsection \<open>Service methods\<close>

lemma keeps_completed_check_and_generate [row_keeps]:
  "keeps (completed_kept r) (check_and_generate_quest_rotation E keys)"
proof -
  have "keeps db_ok (write_tx (\<lambda>db. db\<lparr>quest_config := map_option (\<lambda>c. c\<lparr>qc_last_rotation_at := a,
      qc_next_rotation_at := b, qc_current_rotation_id := rot\<rparr>) (quest_config db)\<rparr>))" for a b rot
    by (rule keeps_write, rule db_ok_quest_config) (auto simp: db_ok_def quest_config_ok_def)
  moreover have "keeps (\<lambda>db. quest_progress db = ps) (write_tx (\<lambda>db. db\<lparr>quest_config := map_option (\<lambda>c.
      c\<lparr>qc_last_rotation_at := a, qc_next_rotation_at := b, qc_current_rotation_id := rot\<rparr>) (quest_config db)\<rparr>))"
    for a b rot ps by (rule keeps_write) simp
  ultimately have "keeps (completed_kept r) (write_tx (\<lambda>db. db\<lparr>quest_config := map_option (\<lambda>c.
      c\<lparr>qc_last_rotation_at := a, qc_next_rotation_at := b, qc_current_rotation_id := rot\<rparr>) (quest_config db)\<rparr>))"
    for a b rot by (rule keeps_completed_frame)
  then show ?thesis
    unfolding check_and_generate_quest_rotation_def by (intro keeps_rules row_keeps)
qed

lemma keeps_completed_ensure [row_keeps]:
  "keeps_io (completed_kept r) (ensure_user_quests_for_rotation E Q u)"
  unfolding ensure_user_quests_for_rotation_def provision_quests_def seed_global_progress_def
    seed_bounty_progress_def by (intro keeps_rules row_keeps)

text \<open>The loops run over the rows as they were when the transaction began.\<close>

lemma keeps_map_mem: "(\<And>x. x \<in> set xs \<Longrightarrow> keeps P (f x)) \<Longrightarrow> keeps P (map_tx xs f)"
  by (induction xs) (auto intro!: keeps_basic keeps_bind)

lemma keeps_completed_update_one:
  "(aq_completed_at q = None \<Longrightarrow> aq_progress_id q \<noteq> pg_id r) \<Longrightarrow> keeps (completed_kept r) (update_one_quest E ty d q)"
  unfolding update_one_quest_def by (intro keeps_rules keeps_completed_progress keeps_completed_mark; simp)

lemma keeps_completed_revert_one:
  "(aq_completed_at q = None \<Longrightarrow> aq_progress_id q \<noteq> pg_id r) \<Longrightarrow> keeps (completed_kept r) (revert_one_quest ty d ts ms q)"
  unfolding revert_one_quest_def by (intro keeps_rules keeps_completed_progress; simp)

lemma active_quest_open:
  assumes "completed_kept r db" "pg_completed_at r \<noteq> None" "q \<in> set (get_active_user_quests u db)" "aq_completed_at q = None"
  shows "aq_progress_id q \<noteq> pg_id r"
proof
  assume id: "aq_progress_id q = pg_id r"
  from assms(3) obtain p where p: "p \<in> set (quest_progress db)" "q = active_quest_of p"
    by (auto simp: get_active_user_quests_def active_rows_def)
  from assms(1) obtain r' where r': "db_ok db" "r' \<in> set (quest_progress db)" "row_after r r'"
    by (auto simp: completed_kept_def)
  with id p have "p = r'" by (intro progress_row_unique) (auto simp: active_quest_of_def row_after_id)
  with assms(2,4) p r'(3) show False by (simp add: active_quest_of_def row_after_completed)
qed

lemma keeps_completed_loops:
  assumes "pg_completed_at r \<noteq> None"
  shows "keeps (completed_kept r) (update_quests_tx E u ty d)"
    and "keeps (completed_kept r) (bind_tx (read_tx (get_active_user_quests u)) (\<lambda>quests.
       for_tx quests (revert_one_quest ty d ts ms)))"
proof -
  show "keeps (completed_kept r) (update_quests_tx E u ty d)"
  proof (rule keepsI)
    fix db x db' assume kept: "completed_kept r db" and run: "update_quests_tx E u ty d db = Inr (x, db')"
    have "keeps (completed_kept r) (bind_tx (map_tx (get_active_user_quests u db) (update_one_quest E ty d))
        (\<lambda>done. return_tx (concat done)))"
      using active_quest_open [OF kept assms] by (intro keeps_rules keeps_map_mem keeps_completed_update_one) auto
    from keepsD [OF this kept] run show "completed_kept r db'" by (simp add: update_quests_tx_def)
  qed
  show "keeps (completed_kept r) (bind_tx (read_tx (get_active_user_quests u)) (\<lambda>quests.
       for_tx quests (revert_one_quest ty d ts ms)))"
  proof (rule keepsI)
    fix db x db' assume kept: "completed_kept r db" and run: "bind_tx (read_tx (get_active_user_quests u))
       (\<lambda>quests. for_tx quests (revert_one_quest ty d ts ms)) db = Inr (x, db')"
    have "keeps (completed_kept r) (for_tx (get_active_user_quests u db) (revert_one_quest ty d ts ms))"
      using active_quest_open [OF kept assms] by (intro keeps_for_mem keeps_completed_revert_one) auto
    from keepsD [OF this kept] run show "completed_kept r db'" by simp
  qed
qed

lemma keeps_completed_publish [row_keeps]:
  "keeps_io (completed_kept r) (publish_message E i pytest key data idem)"
  unfolding publish_message_def by (intro keeps_rules row_keeps)

lemma keeps_completed_grant_xp [row_keeps]: "keeps_io (completed_kept r) (grant_user_xp E pytest u data)"
  unfolding grant_user_xp_def grant_xp_def grant_xp_deferred_def by (intro keeps_rules row_keeps)

lemma keeps_completed_lootbox [row_keeps]:
  "keeps_io (completed_kept r) (get_random_items gacha keys u kt test_mode)"
  "keeps_io (completed_kept r) (grant_key_to_user E u kt)" "keeps_io (completed_kept r) (grant_active_key_to_user E u)"
  "keeps_io (completed_kept r) (grant_reward_to_user E u ty kt n)"
  "keeps_io (completed_kept r) (debug_grant_reward_no_key E u kt ty n)"
  "keeps_io (completed_kept r) (publish_xp_events E pytest events)"
  "keeps_io (completed_kept r) (svc_update_xp_multiplier m)" "keeps_io (completed_kept r) (svc_update_active_key kt)"
  unfolding get_random_items_def get_random_items_tx_def grant_key_to_user_def grant_active_key_to_user_def
    grant_reward_to_user_def grant_reward_tx_def debug_grant_reward_no_key_def publish_xp_events_def
    svc_update_xp_multiplier_def svc_update_active_key_def
  by (intro keeps_rules row_keeps keeps_draw_item)+

lemma keeps_completed_store [row_keeps]:
  "keeps_io (completed_kept r) (purchase_keys E u kt n)" "keeps_io (completed_kept r) (purchase_item E u name ty kt)"
  "keeps_io (completed_kept r) (generate_rotation E roll keys n)" "keeps_io (completed_kept r) (update_config days active)"
  "keeps_io (completed_kept r) (update_quest_config E d h a b c)"
  unfolding purchase_keys_def purchase_keys_tx_def purchase_item_def purchase_item_tx_def take_payment_def
    ensure_key_type_exists_def active_key_type_def generate_rotation_def update_config_def update_quest_config_def
    validate_rotation_item_count_def
  by (intro keeps_rules row_keeps)+

lemma keeps_completed_quests [row_keeps]:
  "keeps_io (completed_kept r) (get_user_quests convert E Q u)" "keeps_io (completed_kept r) (claim_quest E pytest u i)"
  "keeps_io (completed_kept r) (generate_quest_rotation E Q)"
  unfolding get_user_quests_def claim_quest_def generate_quest_rotation_def
  by (intro keeps_rules row_keeps keeps_completed_claim)+

lemma keeps_completed_events:
  assumes "pg_completed_at r \<noteq> None"
  shows "keeps_io (completed_kept r) (update_quest_progress E Q u ty d)"
    and "keeps_io (completed_kept r) (revert_quest_progress E Q u ty d ts ms)"
  unfolding update_quest_progress_def revert_quest_progress_def
  by (intro keeps_rules row_keeps keeps_completed_loops [OF assms])+

lemma completed_kept_step:
  "econ_step False w w' \<Longrightarrow> pg_completed_at r \<noteq> None \<Longrightarrow> completed_kept r (wdb w) \<Longrightarrow> completed_kept r (wdb w')"
  by (erule econ_stepE; (simp; fail | hypsubst, rule keeps_ioD [rotated], assumption,
      (intro keeps_completed_events keeps_rules row_keeps; assumption)))

lemma completed_kept_reach:
  "econ_reach False w0 w \<Longrightarrow> pg_completed_at r \<noteq> None \<Longrightarrow> completed_kept r (wdb w0) \<Longrightarrow> completed_kept r (wdb w)"
  by (induction rule: econ_reach.induct) (auto dest: completed_kept_step)

subsection \<open>What the automatic claim pays\<close>

definition opt_zero :: "int option \<Rightarrow> int" where
  "opt_zero v = (case v of Some n \<Rightarrow> n | None \<Rightarrow> 0)"

text \<open>The sum of a reward column over the due rows of a user.\<close>

definition due_sum :: "(int option \<times> int option \<Rightarrow> int option) \<Rightarrow> int \<Rightarrow> econ \<Rightarrow> int" where
  "due_sum f u db = sum_list (map (\<lambda>p. opt_zero (f (row_rewards p)))
     (filter (\<lambda>p. due_for_claim p \<and> pg_user_id p = u) (quest_progress db)))"

lemma due_rewards_sum:
  "due_rewards f u db = Some n \<Longrightarrow> n = due_sum f u db"
  "u \<notin> set (claimants db) \<Longrightarrow> due_sum f u db = 0"
proof -
  assume "due_rewards f u db = Some n"
  then show "n = due_sum f u db"
    by (simp add: due_rewards_def sql_sum_def due_sum_def opt_zero_def comp_def split: if_splits)
next
  assume "u \<notin> set (claimants db)"
  then have "filter (\<lambda>p. due_for_claim p \<and> pg_user_id p = u) (quest_progress db) = []"
    by (auto simp: claimants_def filter_empty_conv)
  then show "due_sum f u db = 0" by (simp add: due_sum_def)
qed

lemma pay_coins_loop:
  assumes "users_ok db" "distinct us"
    "for_tx us (\<lambda>u. case g u of None \<Rightarrow> raise_tx e
       | Some n \<Rightarrow> bind_tx (update_user_coins u n) (\<lambda>_. return_tx ())) db = Inr ((), db')"
  shows "users_ok db' \<and> db' = db\<lparr>users := users db'\<rparr> \<and> (\<forall>u \<in> set us. g u \<noteq> None)
    \<and> coins_of j db' = map_option (\<lambda>c. if j \<in> set us then c + the (g j) else c) (coins_of j db)"
  using assms
proof (induction us arbitrary: db)
  case (Cons u us)
  from Cons.prems(3) obtain n q db1 where g: "g u = Some n" and paid: "update_user_coins u n db = Inr (q, db1)"
    and rest: "for_tx us (\<lambda>u. case g u of None \<Rightarrow> raise_tx e
       | Some n \<Rightarrow> bind_tx (update_user_coins u n) (\<lambda>_. return_tx ())) db1 = Inr ((), db')"
    by (cases "g u") (auto elim!: bind_txE)
  note s = users_ok_update_user_coins [OF Cons.prems(1) paid]
  have "db1 = db\<lparr>users := users db1\<rparr>" using s by blast
  then have "db1\<lparr>users := users db'\<rparr> = db\<lparr>users := users db'\<rparr>" by (rule ssubst) simp
  then have frame: "db' = db\<lparr>users := users db'\<rparr>" if "db' = db1\<lparr>users := users db'\<rparr>"
    using that by simp
  from Cons.IH [OF conjunct1 [OF s] _ rest] Cons.prems(2) frame
  show ?case
    by (auto simp: coins_of_update_user_coins [OF Cons.prems(1) paid] g option.map_comp comp_def intro!: map_option_cong)
qed (simp add: option.map_ident)

lemma insert_xp_shape:
  assumes "insert_xp u n db = Inr (x, db')"
  shows "xp_total j db' = xp_total j db + (if j = u then n else 0)" "db' = db\<lparr>xp_tbl := xp_tbl db'\<rparr>"
proof -
  have db': "db' = db\<lparr>xp_tbl := (if xp_of u db = None then xp_tbl db @ [\<lparr>xp_user_id = u, xp_amount = n\<rparr>]
       else update_where (\<lambda>r. xp_user_id r = u) (\<lambda>r. r\<lparr>xp_amount := xp_amount r + n\<rparr>) (xp_tbl db))\<rparr>"
    using assms by (auto simp: insert_xp_def bind_check_tx split: if_splits)
  then show "db' = db\<lparr>xp_tbl := xp_tbl db'\<rparr>" by simp
  show "xp_total j db' = xp_total j db + (if j = u then n else 0)"
    unfolding db' by (cases "xp_of u db") (auto simp: xp_total_def xp_of_def first_where_append first_where_update_where
        split: option.splits dest: first_where_SomeD)
qed

lemma pay_xp_loop:
  assumes "distinct us"
    "for_tx us (\<lambda>u. case g u of None \<Rightarrow> raise_tx e | Some n \<Rightarrow> insert_xp u n) db = Inr ((), db')"
  shows "db' = db\<lparr>xp_tbl := xp_tbl db'\<rparr> \<and> (\<forall>u \<in> set us. g u \<noteq> None)
    \<and> xp_total j db' = xp_total j db + (if j \<in> set us then the (g j) else 0)"
  using assms
proof (induction us arbitrary: db)
  case (Cons u us)
  from Cons.prems(2) obtain n db1 where g: "g u = Some n" and paid: "insert_xp u n db = Inr ((), db1)"
    and rest: "for_tx us (\<lambda>u. case g u of None \<Rightarrow> raise_tx e | Some n \<Rightarrow> insert_xp u n) db1 = Inr ((), db')"
    by (cases "g u") (auto elim!: bind_txE)
  note s = insert_xp_shape [OF paid]
  from Cons.IH [OF _ rest] Cons.prems(1) have ih: "db' = db1\<lparr>xp_tbl := xp_tbl db'\<rparr>" "\<forall>u \<in> set us. g u \<noteq> None"
     "xp_total j db' = xp_total j db1 + (if j \<in> set us then the (g j) else 0)" by auto
  have "db1\<lparr>xp_tbl := xp_tbl db'\<rparr> = db\<lparr>xp_tbl := xp_tbl db'\<rparr>" by (subst s(2)) simp
  with ih(1) have "db' = db\<lparr>xp_tbl := xp_tbl db'\<rparr>" by simp
  with ih(2,3) Cons.prems(1) g s(1) [of j] show ?case by auto
qed simp

lemma auto_claim_pays:
  assumes "db_ok db" "auto_claim_completed_quests E db = Inr (z, db')"
  shows "coins_of u db' = map_option (\<lambda>c. c + due_sum fst u db) (coins_of u db)
    \<and> xp_total u db' = xp_total u db + due_sum snd u db
    \<and> quest_progress db' = quest_progress (with_claims E db)
    \<and> fst z = length (filter due_for_claim (quest_progress db))"
proof (intro conjI)
  let ?c = "with_claims E db"
  obtain db2 where pay: "pay_due_coins db ?c = Inr ((), db2)" and xp: "pay_due_xp db db2 = Inr ((), db')"
    and n: "fst z = length (filter due_for_claim (quest_progress db))"
    using auto_claim_shape [OF assms] by metis
  show "fst z = length (filter due_for_claim (quest_progress db))" by (rule n)
  have "users_ok ?c" using assms(1) by (simp add: db_ok_def users_ok_def with_claims_def)
  moreover have us: "distinct (claimants db)" by (simp add: claimants_def)
  ultimately have p: "db2 = ?c\<lparr>users := users db2\<rparr>" "\<forall>u \<in> set (claimants db). due_rewards fst u db \<noteq> None"
     "coins_of u db2 = map_option (\<lambda>c. if u \<in> set (claimants db) then c + the (due_rewards fst u db) else c) (coins_of u ?c)"
    using pay_coins_loop [OF _ _ pay [unfolded pay_due_coins_def]] by blast+
  from pay_xp_loop [OF us xp [unfolded pay_due_xp_def]] have x: "db' = db2\<lparr>xp_tbl := xp_tbl db'\<rparr>"
     "\<forall>u \<in> set (claimants db). due_rewards snd u db \<noteq> None"
     "xp_total u db' = xp_total u db2 + (if u \<in> set (claimants db) then the (due_rewards snd u db) else 0)"
    by blast+
  have sums: "(if u \<in> set (claimants db) then the (due_rewards f u db) else 0) = due_sum f u db"
    if "\<forall>u \<in> set (claimants db). due_rewards f u db \<noteq> None" for f
    using that due_rewards_sum by auto
  have "coins_of u db' = coins_of u db2" by (subst x(1)) (simp add: coins_of_def)
  moreover have "coins_of u ?c = coins_of u db" by (simp add: coins_of_def with_claims_def)
  ultimately show "coins_of u db' = map_option (\<lambda>c. c + due_sum fst u db) (coins_of u db)"
    using p(3) sums [OF p(2)] by (auto split: if_splits intro!: map_option_cong)
  have "xp_total u db2 = xp_total u db" by (subst p(1)) (simp add: xp_total_def xp_of_def with_claims_def)
  then show "xp_total u db' = xp_total u db + due_sum snd u db"
    using x(3) sums [OF x(2)] by simp
  have "quest_progress db' = quest_progress db2" by (subst x(1)) simp
  also have "\<dots> = quest_progress ?c" by (subst p(1)) simp
  finally show "quest_progress db' = quest_progress ?c" .
qed

lemma with_claims_none_due: "filter due_for_claim (quest_progress (with_claims E db)) = []"
  by (auto simp: with_claims_def filter_empty_conv update_where_def due_for_claim_def claim_row_def)

lemma auto_claim_none_due:
  "filter due_for_claim (quest_progress db) = [] \<Longrightarrow> auto_claim_completed_quests E db = Inr ((0, 0, 0), db)"
  by (simp add: auto_claim_completed_quests_def Let_def sql_sum_def bind_check_tx int4_ok_def)

end
