(* ===== verification/Quest_Claims.thy ===== *)
theory Quest_Claims
  imports Quest_Rows Samples
begin

section \<open>Claiming quests: properties\<close>

text \<open>
  Every outcome of \<open>claim_quest\<close>, the weekly automatic claim, and the life of a completed quest
  under any sequence of calls.
\<close>

subsection \<open>Helpers\<close>

text \<open>A grant adds the gain, or fails: before the commit, or without a channel after it.\<close>

definition xp_granted :: "int \<Rightarrow> int \<Rightarrow> econ \<Rightarrow> err + xp_grant_response \<Rightarrow> econ \<Rightarrow> bool" where
  "xp_granted u gain db r db' \<longleftrightarrow> (case r of
      Inr res \<Rightarrow> xg_new_amount res - xg_previous_amount res = gain \<and> xg_new_amount res = xp_total u db'
        \<and> xp_total u db' = xp_total u db + gain
    | Inl e \<Rightarrow> xp_total u db' = xp_total u db + (if e = Amqp then gain else 0))"

lemma upsert_user_xp_error: "upsert_user_xp u n m db = Inl e \<Longrightarrow> e \<noteq> Amqp"
  by (auto simp: upsert_user_xp_def Let_def split: if_splits option.splits)

lemma grant_user_xp_effect:
  assumes "grant_user_xp E pytest u data w = (r, w')"
  shows "quest_progress (wdb w') = quest_progress (wdb w) \<and> users (wdb w') = users (wdb w)
    \<and> xp_granted u (xp_gain (xgr_amount data) (fetch_xp_multiplier (wdb w))) (wdb w) r (wdb w')"
proof (cases "upsert_user_xp u (xgr_amount data) (fetch_xp_multiplier (wdb w)) (wdb w)")
  case (Inl e)
  with assms have "r = Inl e" "w' = w"
    by (simp_all add: grant_user_xp_def grant_xp_def bind_atomically_Inl)
  then show ?thesis using upsert_user_xp_error [OF Inl] by (simp add: xp_granted_def)
next
  case (Inr z)
  obtain res db1 where z: "z = (res, db1)" by fastforce
  define ev where "ev = XpGrant (xp_event u (xgr_amount data) (xgr_type data) (xgr_reason data) res)"
  define sent where "sent = publish_message E (env_job_ids E 0) pytest ''api.xp.grant'' ev None (w\<lparr>wdb := db1\<rparr>)"
  have key: "''api.xp.grant'' \<in> set ignore_idempotency" by (simp add: ignore_idempotency_def)
  have fst: "fst sent = Inl Amqp \<or> (\<exists>j. fst sent = Inr j)"
    unfolding sent_def publish_message_ignored_key [OF key] by (simp split: broker.splits)
  have run: "grant_user_xp E pytest u data w = (case fst sent of Inl e \<Rightarrow> (Inl e, snd sent) | Inr j \<Rightarrow> (Inr res, snd sent))"
    by (simp add: grant_user_xp_def grant_xp_def bind_atomically_Inr Inr z sent_def ev_def)
       (auto simp: bind_io_def sent_def ev_def split: sum.splits prod.splits)
  have db: "wdb (snd sent) = db1\<lparr>jobs := jobs (wdb (snd sent))\<rparr>"
    unfolding sent_def by (subst publish_message_db) simp
  note up = Inr [unfolded z]
  have xp: "xp_total u (wdb (snd sent)) = xp_total u (wdb w) + xp_gain (xgr_amount data) (fetch_xp_multiplier (wdb w))"
    by (subst db) (use xp_total_upsert [OF up, of u] in \<open>simp add: xp_total_def xp_of_def\<close>)
  have w': "w' = snd sent" and r: "r = Inl Amqp \<or> r = Inr res"
    using assms fst by (auto simp: run)
  have "quest_progress db1 = quest_progress (wdb w)" "users db1 = users (wdb w)"
    by (subst upsert_user_xp_shape(4) [OF up], simp)+
  then have "quest_progress (wdb w') = quest_progress (wdb w)" "users (wdb w') = users (wdb w)"
    by (subst w', subst db, simp)+
  then show ?thesis
    using r xp upsert_user_xp_shape(3) [OF up] by (auto simp: w' xp_granted_def)
qed

text \<open>The transaction of a claim, branch by branch.\<close>

lemma claimable_row:
  assumes "db_ok db"
  shows "first_where (claimable i u) (quest_progress db) =
    (case get_user_quest_progress u i db of Some p \<Rightarrow> if due_for_claim p then Some p else None | None \<Rightarrow> None)"
proof (cases "get_user_quest_progress u i db")
  case None
  then have "first_where (claimable i u) (quest_progress db) = None"
    by (auto simp: get_user_quest_progress_def first_where_None claimable_def)
  with None show ?thesis by simp
next
  case (Some p)
  then have p: "p \<in> set (quest_progress db)" "pg_id p = i" "pg_user_id p = u"
    by (auto simp: get_user_quest_progress_def dest: first_where_SomeD)
  have only: "x = p" if "x \<in> set (quest_progress db)" "pg_id x = i" for x
    using that p progress_row_unique [OF assms] by simp
  show ?thesis
  proof (cases "first_where (claimable i u) (quest_progress db)")
    case None
    with p Some show ?thesis by (auto simp: first_where_None claimable_def)
  next
    case (Some q)
    then have "q \<in> set (quest_progress db)" "claimable i u q" by (auto dest: first_where_SomeD)
    with only have "q = p" "due_for_claim p" by (auto simp: claimable_def)
    with Some \<open>get_user_quest_progress u i db = Some p\<close> show ?thesis by simp
  qed
qed

lemma coins_of_progress [simp]: "coins_of u (db\<lparr>quest_progress := ps\<rparr>) = coins_of u db"
  by (simp add: coins_of_def)

lemma claim_quest_tx_run:
  assumes "db_ok db"
  shows "claim_quest_tx E u i db =
    (case get_user_quest_progress u i db of
       None \<Rightarrow> Inl (Store (QuestNotFoundError i))
     | Some p \<Rightarrow>
         if pg_claimed_at p \<noteq> None then Inl (Store (QuestAlreadyClaimedError i))
         else if pg_completed_at p = None then Inl (Store (QuestNotCompletedError i))
         else case claim_columns p of
            Inl e \<Rightarrow> Inl (Pg e)
          | Inr cx \<Rightarrow>
              case update_user_coins u (opt_zero (fst cx)) (db\<lparr>quest_progress := update_where (\<lambda>r. pg_id r = i \<and> pg_user_id r = u
                  \<and> due_for_claim r) (claim_row E cx) (quest_progress db)\<rparr>) of
                Inl e \<Rightarrow> Inl e
              | Inr (nc, db') \<Rightarrow> Inr ((pg_quest_data p, opt_zero (fst cx), opt_zero (snd cx), nc), db'))"
  unfolding claim_quest_tx_def bind_read_tx claimable_row [OF assms]
  by (auto simp: due_for_claim_def update_progress_row_def Let_def opt_zero_def bind_tx_def
      split: option.splits sum.splits)

lemma claimed_row_found:
  assumes "get_user_quest_progress u i db = Some p" "due_for_claim p" "db_ok db"
  shows "get_user_quest_progress u i (db\<lparr>quest_progress := update_where (\<lambda>r. pg_id r = i \<and> pg_user_id r = u
     \<and> due_for_claim r) (claim_row E cx) (quest_progress db)\<rparr>) = Some (claim_row E cx p)"
  using assms by (auto simp: get_user_quest_progress_def first_where_update_where claim_row_def dest: first_where_SomeD)

lemma claim_quest_run:
  assumes "claim_quest_tx E u i (wdb w) = Inr ((d, c, x, nc), db1)"
  shows "claim_quest E pytest u i w =
    (if 0 < x then
       (case grant_user_xp E pytest u \<lparr>xgr_amount = x, xgr_type = Quest, xgr_reason = None\<rparr> (w\<lparr>wdb := db1\<rparr>) of
          (Inl e, w') \<Rightarrow> (Inl e, w')
        | (Inr res, w') \<Rightarrow> (Inr \<lparr>cqr_success = True, cqr_quest_name = dget d ''name'', cqr_coins_earned = c,
            cqr_xp_earned = xg_new_amount res - xg_previous_amount res, cqr_new_coin_balance = nc,
            cqr_new_xp = xg_new_amount res\<rparr>, w'))
     else (Inr \<lparr>cqr_success = True, cqr_quest_name = dget d ''name'', cqr_coins_earned = c, cqr_xp_earned = 0,
            cqr_new_coin_balance = nc, cqr_new_xp = 0\<rparr>, w\<lparr>wdb := db1\<rparr>))"
  by (simp add: claim_quest_def bind_atomically_Inr [where m = "claim_quest_tx E u i", OF assms])
     (auto simp: bind_io_def split: sum.splits prod.splits)

text \<open>
  What a successful transaction leaves: the row claimed, the coins paid; then the XP, with the
  multiplier the database had, or an error while granting it.
\<close>

definition claim_paid ::
  "env \<Rightarrow> int \<Rightarrow> int \<Rightarrow> progress_row \<Rightarrow> int option \<times> int option \<Rightarrow> econ \<Rightarrow> err + claim_quest_response \<Rightarrow> econ \<Rightarrow> bool" where
  "claim_paid E u i p cx db r db' \<longleftrightarrow>
     (let gain = (if 0 < opt_zero (snd cx) then xp_gain (opt_zero (snd cx)) (fetch_xp_multiplier db) else 0)
      in coins_of u db' = map_option (\<lambda>c. c + opt_zero (fst cx)) (coins_of u db)
       \<and> get_user_quest_progress u i db' = Some (claim_row E cx p)
       \<and> (case r of
            Inr res \<Rightarrow> cqr_coins_earned res = opt_zero (fst cx) \<and> cqr_new_coin_balance res = coins_of u db'
              \<and> cqr_xp_earned res = gain \<and> xp_total u db' = xp_total u db + gain
          | Inl e \<Rightarrow> 0 < opt_zero (snd cx) \<and> xp_total u db' = xp_total u db + (if e = Amqp then gain else 0)))"

lemma claim_quest_tx_paid:
  assumes ok: "db_ok db" and p: "get_user_quest_progress u i db = Some p" "due_for_claim p" "claim_columns p = Inr cx"
    and c: "coins_of u db = Some c" "int4_ok (c + opt_zero (fst cx))"
  obtains db1 where
    "claim_quest_tx E u i db = Inr ((pg_quest_data p, opt_zero (fst cx), opt_zero (snd cx), Some (c + opt_zero (fst cx))), db1)"
    "coins_of u db1 = Some (c + opt_zero (fst cx))" "get_user_quest_progress u i db1 = Some (claim_row E cx p)"
    "xp_total u db1 = xp_total u db" "fetch_xp_multiplier db1 = fetch_xp_multiplier db"
proof -
  let ?db = "db\<lparr>quest_progress := update_where (\<lambda>r. pg_id r = i \<and> pg_user_id r = u \<and> due_for_claim r)
      (claim_row E cx) (quest_progress db)\<rparr>"
  have c1: "coins_of u ?db = Some c" using c(1) by (simp add: coins_of_def)
  with c(2) obtain db1 where paid: "update_user_coins u (opt_zero (fst cx)) ?db = Inr (Some (c + opt_zero (fst cx)), db1)"
    by (simp add: update_user_coins_def bind_check_tx)
  have uok: "users_ok ?db" using ok by (simp add: db_ok_def users_ok_def)
  from users_ok_update_user_coins [OF uok paid] have db1: "db1 = ?db\<lparr>users := users db1\<rparr>" by blast
  show ?thesis
  proof (rule that)
    show "claim_quest_tx E u i db = Inr ((pg_quest_data p, opt_zero (fst cx), opt_zero (snd cx), Some (c + opt_zero (fst cx))), db1)"
      using p paid by (simp add: claim_quest_tx_run [OF ok] due_for_claim_def)
    show "coins_of u db1 = Some (c + opt_zero (fst cx))"
      using coins_of_update_user_coins [OF uok paid, of u] c1 by simp
    have "get_user_quest_progress u i db1 = get_user_quest_progress u i ?db"
      by (subst db1) (simp add: get_user_quest_progress_def)
    then show "get_user_quest_progress u i db1 = Some (claim_row E cx p)"
      using claimed_row_found [OF p(1,2) ok] by simp
    show "xp_total u db1 = xp_total u db" "fetch_xp_multiplier db1 = fetch_xp_multiplier db"
      by (subst db1, simp add: xp_total_def xp_of_def fetch_xp_multiplier_def)+
  qed
qed

lemma claim_quest_paid:
  assumes "db_ok (wdb w)" "get_user_quest_progress u i (wdb w) = Some p" "due_for_claim p" "claim_columns p = Inr cx"
    and c: "coins_of u (wdb w) = Some c" "int4_ok (c + opt_zero (fst cx))"
    and run: "claim_quest E pytest u i w = (r, w')"
  shows "claim_paid E u i p cx (wdb w) r (wdb w')"
  using assms(1-4) c
proof (rule claim_quest_tx_paid)
  fix db1
  assume tx: "claim_quest_tx E u i (wdb w) = Inr ((pg_quest_data p, opt_zero (fst cx), opt_zero (snd cx), Some (c + opt_zero (fst cx))), db1)"
    and db1: "coins_of u db1 = Some (c + opt_zero (fst cx))" "get_user_quest_progress u i db1 = Some (claim_row E cx p)"
      "xp_total u db1 = xp_total u (wdb w)" "fetch_xp_multiplier db1 = fetch_xp_multiplier (wdb w)"
  note run = run [unfolded claim_quest_run [OF tx]]
  show ?thesis
  proof (cases "0 < opt_zero (snd cx)")
    case False
    with run db1 c show ?thesis by (auto simp: claim_paid_def Let_def)
  next
    case True
    obtain g v where g: "grant_user_xp E pytest u \<lparr>xgr_amount = opt_zero (snd cx), xgr_type = Quest, xgr_reason = None\<rparr>
        (w\<lparr>wdb := db1\<rparr>) = (g, v)" by fastforce
    note eff = grant_user_xp_effect [OF g]
    from run True g have w': "w' = v" by (cases g) simp_all
    from eff db1 have "coins_of u (wdb v) = Some (c + opt_zero (fst cx))"
        "get_user_quest_progress u i (wdb v) = Some (claim_row E cx p)"
      by (simp_all add: coins_of_def get_user_quest_progress_def)
    with run True g eff db1 c show ?thesis
      by (cases g) (auto simp: w' xp_granted_def claim_paid_def Let_def)
  qed
qed

lemma progress_user_balance:
  assumes "db_ok db" "get_user_quest_progress u i db = Some p"
  obtains c where "coins_of u db = Some c"
proof -
  from assms(2) have "p \<in> set (quest_progress db)" "pg_user_id p = u"
    by (auto simp: get_user_quest_progress_def dest: first_where_SomeD)
  with assms(1) have "user_exists u db" by (auto simp: db_ok_def quest_progress_ok_def)
  with that show ?thesis using coins_of_None [of u db] by auto
qed

subsection \<open>Properties\<close>

text \<open>C3: every outcome of a claim. An unknown, claimed or incomplete quest is refused with its own
  error; so are rewards that are no integers and a balance that would leave its range; none of
  these changes anything. Otherwise the row is claimed with the rewards of its quest data and the
  coins are paid, both before XP is granted with the current multiplier - so an error from there
  on leaves a claimed quest, and without the XP unless only the channel was missing.\<close>

theorem claim_quest_outcome:
  assumes "db_ok (wdb w)" "claim_quest E pytest u i w = (r, w')"
  shows "case get_user_quest_progress u i (wdb w) of
      None \<Rightarrow> r = Inl (Store (QuestNotFoundError i)) \<and> w' = w
    | Some p \<Rightarrow>
        if pg_claimed_at p \<noteq> None then r = Inl (Store (QuestAlreadyClaimedError i)) \<and> w' = w
        else if pg_completed_at p = None then r = Inl (Store (QuestNotCompletedError i)) \<and> w' = w
        else case claim_columns p of
            Inl e \<Rightarrow> r = Inl (Pg e) \<and> w' = w
          | Inr cx \<Rightarrow> \<exists>c. coins_of u (wdb w) = Some c \<and>
              (if int4_ok (c + opt_zero (fst cx)) then claim_paid E u i p cx (wdb w) r (wdb w')
               else r = Inl (Pg NumericOutOfRange) \<and> w' = w)"
proof -
  have refused: "claim_quest_tx E u i (wdb w) = Inl e \<Longrightarrow> r = Inl e \<and> w' = w" for e
    using assms(2) by (simp add: claim_quest_def bind_atomically_Inl)
  show ?thesis
  proof (cases "\<exists>p. get_user_quest_progress u i (wdb w) = Some p \<and> due_for_claim p \<and> (\<exists>cx. claim_columns p = Inr cx)")
    case False
    with refused show ?thesis
      by (auto simp: claim_quest_tx_run [OF assms(1)] due_for_claim_def split: option.splits sum.splits)
  next
    case True
    then obtain p cx where p: "get_user_quest_progress u i (wdb w) = Some p" "due_for_claim p" "claim_columns p = Inr cx"
      by blast
    obtain c where c: "coins_of u (wdb w) = Some c" by (rule progress_user_balance [OF assms(1) p(1)])
    have "claim_quest_tx E u i (wdb w) = Inl (Pg NumericOutOfRange)" if "\<not> int4_ok (c + opt_zero (fst cx))"
      using that p c by (simp add: claim_quest_tx_run [OF assms(1)] due_for_claim_def update_user_coins_def)
    with refused claim_quest_paid [OF assms(1) p c _ assms(2)] p c show ?thesis
      by (auto simp: due_for_claim_def)
  qed
qed

theorem claim_quest_outcome_witness:
  "\<exists>r w' p. claim_quest sample_env False 1 1 sample_world = (r, w')
     \<and> get_user_quest_progress 1 1 sample_db = Some p
     \<and> claim_paid sample_env 1 1 p (Some 500, Some 75) sample_db r (wdb w')"
proof -
  obtain r w' where run: "claim_quest sample_env False 1 1 sample_world = (r, w')" by fastforce
  have db: "wdb sample_world = sample_db" by (simp add: sample_world_def)
  obtain p where p: "get_user_quest_progress 1 1 sample_db = Some p" "pg_claimed_at p = None"
     "pg_completed_at p \<noteq> None" "claim_columns p = Inr (Some 500, Some 75)"
    by (simp add: get_user_quest_progress_def sample_db_def claim_columns_def sample_quest_data_def
        dget_def json_int4.simps int4_ok_def)
  have "coins_of 1 sample_db = Some 3000" by (simp add: coins_of_def)
  with claim_quest_outcome [OF _ run] p sample_db_ok
  have "claim_paid sample_env 1 1 p (Some 500, Some 75) sample_db r (wdb w')"
    by (simp add: db opt_zero_def int4_ok_def)
  with run p(1) show ?thesis by blast
qed

text \<open>The weekly rotation pays every completed, unclaimed quest once: each user's balance and
  XP grow by the sums over their due rows, no row stays due, and claiming again pays nothing.\<close>

lemma auto_claim_pays_once:
  assumes "db_ok db" "auto_claim_completed_quests E db = Inr (z, db')"
  shows "coins_of u db' = map_option (\<lambda>c. c + due_sum fst u db) (coins_of u db)
    \<and> xp_total u db' = xp_total u db + due_sum snd u db
    \<and> fst z = length (filter due_for_claim (quest_progress db))
    \<and> auto_claim_completed_quests E db' = Inr ((0, 0, 0), db')"
  using auto_claim_pays [OF assms, of u]
  by (simp_all add: auto_claim_none_due with_claims_none_due)

lemma auto_claim_pays_once_witness:
  "\<exists>z db'. auto_claim_completed_quests sample_env sample_db = Inr (z, db')
     \<and> coins_of 1 db' = Some 3500 \<and> xp_total 1 db' = 12420 \<and> coins_of 2 db' = Some 50"
proof -
  have run: "\<exists>z db'. auto_claim_completed_quests sample_env sample_db = Inr (z, db')"
    by (simp add: auto_claim_completed_quests_def sample_defs due_for_claim_def claim_columns_def dget_def
        json_int4.simps int4_ok_def sql_sum_def Let_def claim_row_def update_user_coins_def coins_of_def
        insert_xp_def xp_total_def xp_of_def user_exists_def bind_tx_def check_tx_def write_tx_def return_tx_def)
  then obtain z db' where z: "auto_claim_completed_quests sample_env sample_db = Inr (z, db')" by blast
  have sums: "due_sum fst 1 sample_db = 500" "due_sum snd 1 sample_db = 75" "due_sum fst 2 sample_db = 0"
    by (simp_all add: due_sum_def sample_defs due_for_claim_def row_rewards_def claim_columns_def dget_def
        json_int4.simps int4_ok_def opt_zero_def)
  have "coins_of 1 sample_db = Some 3000" "coins_of 2 sample_db = Some 50" "xp_total 1 sample_db = 12345"
    by (simp_all add: coins_of_def xp_total_def xp_of_def sample_db_def)
  with auto_claim_pays_once [OF sample_db_ok z, of 1] auto_claim_pays_once [OF sample_db_ok z, of 2] sums
  show ?thesis using z by (auto simp del: split_paired_Ex)
qed

text \<open>C35: whatever calls follow, in any order and with any outcome, short of an admin update: a
  completed quest keeps its row, and the only change the row can see is the one claim, with the
  rewards its quest data names.\<close>

theorem completed_quest_settles:
  assumes "econ_reach False w0 w" "db_ok (wdb w0)" "p \<in> set (quest_progress (wdb w0))" "pg_completed_at p \<noteq> None"
  shows "\<exists>p' \<in> set (quest_progress (wdb w)). p' = p \<or> pg_claimed_at p = None
     \<and> (\<exists>E cx. claim_columns p = Inr cx \<and> p' = claim_row E cx p)"
proof -
  have "completed_kept p (wdb w0)" using assms(2,3) by (auto simp: completed_kept_def row_after_def)
  from completed_kept_reach [OF assms(1,4) this] show ?thesis
    by (auto simp: completed_kept_def row_after_def)
qed

theorem completed_quest_settles_witness:
  "\<exists>p p'. p \<in> set (quest_progress sample_db) \<and> pg_completed_at p \<noteq> None
     \<and> p' \<in> set (quest_progress (wdb (snd (purchase_keys sample_env 1 ''Classic'' 3
           (snd (claim_quest sample_env False 1 1 sample_world))))))
     \<and> pg_id p' = pg_id p"
proof -
  let ?w = "snd (purchase_keys sample_env 1 ''Classic'' 3 (snd (claim_quest sample_env False 1 1 sample_world)))"
  have reach: "econ_reach False sample_world ?w"
    by (rule econ_reach.call [OF econ_reach.call [OF econ_reach.start econ_step.claim] econ_step.buy_keys])
  have db: "wdb sample_world = sample_db" by (simp add: sample_world_def)
  have "\<exists>p \<in> set (quest_progress sample_db). pg_completed_at p \<noteq> None" by (simp add: sample_db_def)
  then obtain p where p: "p \<in> set (quest_progress sample_db)" "pg_completed_at p \<noteq> None" by blast
  from completed_quest_settles [OF reach _ _ p(2)] p(1) db sample_db_ok
  obtain p' where "p' \<in> set (quest_progress (wdb ?w))" "pg_id p' = pg_id p"
    by (auto simp: claim_row_def)
  with p show ?thesis by blast
qed

text \<open>Every sequence of calls keeps the database well-formed: unique keys, valid references,
  the check constraints of the schema and integers in the range of their columns.\<close>

lemma economy_well_formed:
  assumes "econ_reach admin w0 w" "db_ok (wdb w0)"
  shows "db_ok (wdb w)"
  using assms by (rule econ_reach_db_ok)

lemma economy_well_formed_witness:
  "db_ok (wdb (snd (claim_quest sample_env False 1 1 (snd (purchase_keys sample_env 1 ''Classic'' 3 sample_world)))))"
proof (rule economy_well_formed)
  show "econ_reach False sample_world (snd (claim_quest sample_env False 1 1
      (snd (purchase_keys sample_env 1 ''Classic'' 3 sample_world))))"
    by (rule econ_reach.call [OF econ_reach.call [OF econ_reach.start econ_step.buy_keys] econ_step.claim])
  show "db_ok (wdb sample_world)" by (simp add: sample_world_def sample_db_ok)
qed

end
