(* ===== verification/Till.thy ===== *)
theory Till
  imports Ledger
begin

section \<open>Tills: sales that are paid for and booked\<close>

text \<open>
  The interface of the store to what it stores sales in. A till is a ledger with a record of what
  each account has spent. A sale debits the price, delivers, and books the price; a refused debit
  is an error. The client's lemma: what an account holds and has spent together never changes.
\<close>

locale till = ledger balance credit debit inv
  for balance :: "'k \<Rightarrow> 's \<Rightarrow> int option"
    and credit :: "'k \<Rightarrow> int \<Rightarrow> ('e, 's, unit) tx"
    and debit :: "'k \<Rightarrow> int \<Rightarrow> ('e, 's, int option) tx"
    and inv :: "'s \<Rightarrow> bool" +
  fixes spent :: "'k \<Rightarrow> 's \<Rightarrow> int"
    and book :: "'i \<Rightarrow> 'k \<Rightarrow> int \<Rightarrow> ('e, 's, unit) tx"
  assumes book_inv: "keeps inv (book i k n)"
    and book_spent: "inv s \<Longrightarrow> book i k n s = Inr (x, s') \<Longrightarrow> spent j s' = spent j s + (if j = k then n else 0)"
    and book_balance: "inv s \<Longrightarrow> book i k n s = Inr (x, s') \<Longrightarrow> balance j s' = balance j s"
    and debit_spent: "inv s \<Longrightarrow> debit k n s = Inr (r, s') \<Longrightarrow> spent j s' = spent j s"
begin

text \<open>The wealth of an account: what it holds and what it has spent.\<close>

definition wealth :: "'k \<Rightarrow> int \<Rightarrow> 's \<Rightarrow> bool" where
  "wealth j t s \<longleftrightarrow> inv s \<and> (\<exists>c. balance j s = Some c \<and> c + spent j s = t)"

lemma wealth_unchanged:
  "wealth j t s \<Longrightarrow> inv s' \<Longrightarrow> balance j s' = balance j s \<Longrightarrow> spent j s' = spent j s \<Longrightarrow> wealth j t s'"
  by (auto simp: wealth_def)

lemma sale_keeps_wealth:
  assumes refuse: "\<And>s. \<exists>e. refuse s = Inl e"
    and goods: "\<And>b. keeps inv (deliver b)"
      "\<And>b s x s'. inv s \<Longrightarrow> deliver b s = Inr (x, s') \<Longrightarrow> balance j s' = balance j s \<and> spent j s' = spent j s"
  shows "keeps (wealth j t) (bind_tx (debit k n) (\<lambda>r. case r of
      None \<Rightarrow> refuse | Some b \<Rightarrow> bind_tx (deliver b) (\<lambda>_. bind_tx (book i k n) (\<lambda>_. return_tx b))))"
proof (rule keepsI)
  fix s b s' assume wealth: "wealth j t s" and run: "bind_tx (debit k n) (\<lambda>r. case r of
      None \<Rightarrow> refuse | Some b \<Rightarrow> bind_tx (deliver b) (\<lambda>_. bind_tx (book i k n) (\<lambda>_. return_tx b))) s = Inr (b, s')"
  from wealth have inv: "inv s" by (simp add: wealth_def)
  from run obtain r s1 where debit: "debit k n s = Inr (r, s1)" and rest: "(case r of
      None \<Rightarrow> refuse | Some b \<Rightarrow> bind_tx (deliver b) (\<lambda>_. bind_tx (book i k n) (\<lambda>_. return_tx b))) s1 = Inr (b, s')"
    by (rule bind_txE)
  have "r \<noteq> None" using rest refuse [of s1] by (cases r) auto
  then obtain d where r: "r = Some d" by blast
  from rest r obtain x s2 where deliver: "deliver d s1 = Inr (x, s2)" and booked: "book i k n s2 = Inr ((), s')"
    by (auto elim!: bind_txE)
  have inv1: "inv s1" by (rule keepsD [OF debit_inv inv debit])
  have inv2: "inv s2" by (rule keepsD [OF goods(1) inv1 deliver])
  have "inv s'" by (rule keepsD [OF book_inv inv2 booked])
  moreover have "balance j s' = balance j s1" "spent j s' = spent j s + (if j = k then n else 0)"
    using goods(2) [OF inv1 deliver] book_spent [OF inv2 booked, of j] book_balance [OF inv2 booked, of j]
      debit_spent [OF inv debit, of j] by simp_all
  moreover from wealth obtain c where c: "balance j s = Some c" "c + spent j s = t" by (auto simp: wealth_def)
  moreover have "balance j s1 = Some (if j \<noteq> k then c else c - n)"
    using debit_balance [OF inv debit c(1)] r by simp
  ultimately show "wealth j t s'" by (auto simp: wealth_def)
qed

end

end
