(* ===== verification/Store_Sales.thy ===== *)
theory Store_Sales
  imports Store_Invariants Till
begin

section \<open>Sales of the store\<close>

text \<open>
  The store's tables are a till: deducting coins is the debit, a purchase row the booking. Then
  the two purchase transactions, branch by branch.
\<close>

subsection \<open>The till\<close>

definition spent :: "int \<Rightarrow> econ \<Rightarrow> int" where
  "spent u db = sum_list (map pu_price_paid (filter (\<lambda>p. pu_user_id p = u) (purchases db)))"

text \<open>What is sold: the purchase type, the key type, how many, and the item with its rotation.\<close>

type_synonym goods = "string \<times> string \<times> int \<times> string option \<times> string option \<times> int option"

definition book_purchase :: "env \<Rightarrow> goods \<Rightarrow> int \<Rightarrow> int \<Rightarrow> unit etx" where
  "book_purchase E g u price = (case g of (ty, kt, n, name, ity, rot) \<Rightarrow> insert_purchase E u ty kt n price name ity rot)"

lemma book_purchase_effect:
  assumes "book_purchase E g u price db = Inr (x, db')"
  shows "users db' = users db \<and> (\<exists>p. purchases db' = purchases db @ [p] \<and> pu_user_id p = u \<and> pu_price_paid p = price)"
proof -
  obtain ty kt m name ity rot where "g = (ty, kt, m, name, ity, rot)" by (cases g) auto
  with assms show ?thesis
    by (auto simp: book_purchase_def insert_purchase_def bind_check_tx Let_def split: if_splits)
qed

lemma deduct_user_coins_frame:
  assumes "users_ok db" "deduct_user_coins u n db = Inr (q, db')"
  shows "db' = db\<lparr>users := users db'\<rparr>"
  using deduct_user_coins_shape [OF assms] by (auto split: option.splits)

interpretation shop: till coins_of add_user_coins deduct_user_coins users_ok spent "book_purchase E" for E
proof unfold_locales
  fix i :: goods and k j n r :: int and s s' :: econ and x :: unit and q :: "int option"
  show "keeps users_ok (book_purchase E i k n)"
    using book_purchase_effect by (fastforce simp: users_ok_def intro!: keepsI)
  show "users_ok s \<Longrightarrow> book_purchase E i k n s = Inr (x, s') \<Longrightarrow> spent j s' = spent j s + (if j = k then n else 0)"
    using book_purchase_effect [of E i k n s x s'] by (auto simp: spent_def)
  show "users_ok s \<Longrightarrow> book_purchase E i k n s = Inr (x, s') \<Longrightarrow> coins_of j s' = coins_of j s"
    using book_purchase_effect [of E i k n s x s'] by (auto simp: coins_of_def)
  assume "users_ok s" "deduct_user_coins k n s = Inr (q, s')"
  from deduct_user_coins_frame [OF this] have "purchases s' = purchases s"
    by (cases s; cases s'; simp)
  then show "spent j s' = spent j s" by (simp add: spent_def)
qed

subsection \<open>Paying and delivering\<close>

lemma take_payment_run:
  assumes "users_ok db"
  shows "take_payment u n db =
    (if \<not> int4_ok n then Inl (Pg NumericOutOfRange)
     else case coins_of u db of
        None \<Rightarrow> Inl (Store (InsufficientCoinsError 0 n))
      | Some c \<Rightarrow> if c < n then Inl (Store (InsufficientCoinsError c n))
           else if \<not> int4_ok (c - n) then Inl (Pg NumericOutOfRange)
           else Inr (c - n, db\<lparr>users := update_where (\<lambda>r. usr_id r = u) (\<lambda>r. r\<lparr>usr_coins := usr_coins r - n\<rparr>) (users db)\<rparr>))"
proof (cases "deduct_user_coins u n db")
  case (Inl e)
  then show ?thesis
    using users_ok_row [OF assms] coins_of_row [OF assms]
    by (fastforce simp: take_payment_def bind_tx_def deduct_user_coins_def
        split: if_splits option.splits dest!: first_where_SomeD)
next
  case (Inr z)
  obtain q db' where z: "z = (q, db')" by fastforce
  have n: "int4_ok n" using Inr by (auto simp: deduct_user_coins_def split: if_splits)
  note shape = deduct_user_coins_shape [OF assms Inr [unfolded z]]
  show ?thesis
  proof (cases q)
    case None
    with shape n Inr z show ?thesis
      by (auto simp: take_payment_def bind_tx_def fetch_user_coins_def split: option.splits)
  next
    case (Some b)
    with shape have s: "coins_of u db = Some (b + n)" "0 \<le> b"
      "db' = db\<lparr>users := update_where (\<lambda>r. usr_id r = u) (\<lambda>r. r\<lparr>usr_coins := usr_coins r - n\<rparr>) (users db)\<rparr>" by auto
    from Inr z Some have "int4_ok b" by (auto simp: deduct_user_coins_def split: if_splits option.splits)
    with s n Some Inr z show ?thesis by (simp add: take_payment_def bind_tx_def)
  qed
qed

lemma insert_user_key_run:
  "user_exists u db \<Longrightarrow> kt \<in> set (key_types db) \<Longrightarrow> insert_user_key E u kt db =
     Inr ((), db\<lparr>user_keys := user_keys db @ [\<lparr>uk_user_id = u, uk_key_type = kt, uk_earned_at = env_now E\<rparr>]\<rparr>)"
  by (simp add: insert_user_key_def)

lemma deliver_keys_run:
  "user_exists u db \<Longrightarrow> kt \<in> set (key_types db) \<Longrightarrow> for_tx xs (\<lambda>_. insert_user_key E u kt) db =
     Inr ((), db\<lparr>user_keys := user_keys db @ replicate (length xs)
       \<lparr>uk_user_id = u, uk_key_type = kt, uk_earned_at = env_now E\<rparr>\<rparr>)"
proof (induction xs arbitrary: db)
  case (Cons x xs)
  let ?db = "db\<lparr>user_keys := user_keys db @ [\<lparr>uk_user_id = u, uk_key_type = kt, uk_earned_at = env_now E\<rparr>]\<rparr>"
  have "user_exists u ?db" "kt \<in> set (key_types ?db)" using Cons.prems by (simp_all add: user_exists_def)
  from Cons.IH [OF this] Cons.prems show ?case
    by (simp add: bind_tx_def insert_user_key_run)
qed simp

subsection \<open>The two purchases\<close>

lemma bind_case_option_tx:
  "bind_tx (case v of None \<Rightarrow> m | Some x \<Rightarrow> f x) k = (case v of None \<Rightarrow> bind_tx m k | Some x \<Rightarrow> bind_tx (f x) k)"
  by (cases v) simp_all

text \<open>Each is a sale of the till.\<close>

definition refuse_payment :: "int \<Rightarrow> int \<Rightarrow> int etx" where
  "refuse_payment u price = bind_tx (read_tx (fetch_user_coins u)) (\<lambda>c. raise_tx (Store (InsufficientCoinsError c price)))"

lemma refuse_payment_fails: "\<exists>e. refuse_payment u price s = Inl e"
  by (simp add: refuse_payment_def)

lemma take_payment_sale:
  "bind_tx (take_payment u price) (\<lambda>b. bind_tx (deliver b) (\<lambda>_. bind_tx (book_purchase E g u price) (\<lambda>_. return_tx (f b)))) =
   bind_tx (bind_tx (deduct_user_coins u price) (\<lambda>r. case r of None \<Rightarrow> refuse_payment u price
      | Some b \<Rightarrow> bind_tx (deliver b) (\<lambda>_. bind_tx (book_purchase E g u price) (\<lambda>_. return_tx b)))) (\<lambda>b. return_tx (f b))"
  unfolding take_payment_def bind_assoc_tx bind_case_option_tx refuse_payment_def
  by (rule arg_cong [where f = "bind_tx (deduct_user_coins u price)"])
     (auto simp: fun_eq_iff bind_tx_def return_tx_def raise_tx_def read_tx_def split: option.splits sum.splits prod.splits)

lemma keeps_wealth_sale:
  assumes "\<And>b. keeps users_ok (deliver b)"
    "\<And>b s x s'. users_ok s \<Longrightarrow> deliver b s = Inr (x, s') \<Longrightarrow> coins_of j s' = coins_of j s \<and> spent j s' = spent j s"
  shows "keeps (shop.wealth j t) (bind_tx (take_payment u price)
     (\<lambda>b. bind_tx (deliver b) (\<lambda>_. bind_tx (book_purchase E g u price) (\<lambda>_. return_tx (f b)))))"
  unfolding take_payment_sale
  by (intro keeps_bind keeps_basic shop.sale_keeps_wealth refuse_payment_fails assms)

lemma keeps_wealth_purchase_keys: "keeps (shop.wealth j t) (purchase_keys_tx E u kt q price)"
proof -
  have frame: "keeps (\<lambda>s. users s = us \<and> purchases s = ps) (for_tx xs (\<lambda>_. insert_user_key E u kt))" for us ps and xs :: "nat list"
    by (intro keeps_rules) (auto intro!: keepsI simp: insert_user_key_def bind_check_tx split: if_splits)
  have eq: "insert_purchase E u ''key'' kt q price None None None = book_purchase E (''key'', kt, q, None, None, None) u price"
    by (simp add: book_purchase_def)
  have sale: "keeps (shop.wealth j t) (bind_tx (take_payment u price) (\<lambda>b. bind_tx (for_tx [0..<nat q] (\<lambda>_. insert_user_key E u kt))
      (\<lambda>_. bind_tx (book_purchase E (''key'', kt, q, None, None, None) u price) (\<lambda>_. return_tx (id b)))))"
  proof (rule keeps_wealth_sale)
    show "keeps users_ok (for_tx [0..<nat q] (\<lambda>_. insert_user_key E u kt))"
      using frame by (fastforce simp: keeps_def users_ok_def)
    show "coins_of j s' = coins_of j s \<and> spent j s' = spent j s"
      if "for_tx [0..<nat q] (\<lambda>_. insert_user_key E u kt) s = Inr (x, s')" for s x s'
      using keepsD [OF frame _ that] by (fastforce simp: coins_of_def spent_def)
  qed
  show ?thesis
    unfolding purchase_keys_tx_def eq ensure_key_type_exists_def
    by (rule keeps_bind, intro keeps_rules) (use sale in simp)
qed

lemma keeps_wealth_purchase_item: "keeps (shop.wealth j t) (purchase_item_tx E u name ty kt)"
proof -
  have frame: "keeps (\<lambda>s. users s = us \<and> purchases s = ps) (insert_user_reward E u ty kt name)" for us ps
    by (auto intro!: keepsI simp: insert_user_reward_def bind_check_tx split: if_splits)
  have sale: "keeps (shop.wealth j t) (bind_tx (take_payment u price) (\<lambda>b. bind_tx (insert_user_reward E u ty kt name)
      (\<lambda>_. bind_tx (book_purchase E (''item'', kt, 1, Some name, Some ty, Some rot) u price) (\<lambda>_. return_tx (price, b)))))" for price rot
  proof (rule keeps_wealth_sale)
    show "keeps users_ok (insert_user_reward E u ty kt name)"
      using frame by (fastforce simp: keeps_def users_ok_def)
    show "coins_of j s' = coins_of j s \<and> spent j s' = spent j s"
      if "insert_user_reward E u ty kt name s = Inr (x, s')" for s x s'
      using keepsD [OF frame _ that] by (fastforce simp: coins_of_def spent_def)
  qed
  show ?thesis
    unfolding purchase_item_tx_def
    by (rule keeps_bind, rule keeps_basic, rule keeps_option, rule keeps_basic, rule keeps_if, rule keeps_basic,
        rule keeps_bind, rule keeps_basic, rule keeps_if, rule keeps_basic) (use sale in \<open>simp add: book_purchase_def\<close>)
qed

end
