(* ===== verification/Store_Props.thy ===== *)
theory Store_Props
  imports Store_Sales Samples
begin

section \<open>The store: properties\<close>

text \<open>
  Key prices, every outcome of the two purchases, the accounting of sales, and the item rotation.
\<close>

subsection \<open>Helpers\<close>

lemma key_price_table:
  "calculate_key_price q active =
     (if q = 1 then Inr (if active then 500 else 1000)
      else if q = 3 then Inr (if active then 1275 else 2550)
      else if q = 5 then Inr (if active then 1750 else 3500)
      else Inl (ValueError ''Invalid quantity''))"
proof -
  have "py_trunc (fl (1500 * bulk_discount_3x)) = 1275" "py_trunc (fl (3000 * bulk_discount_3x)) = 2550"
    "py_trunc (fl (2500 * bulk_discount_5x)) = 1750" "py_trunc (fl (5000 * bulk_discount_5x)) = 3500"
    by code_simp+
  then show ?thesis
    by (simp add: calculate_key_price_def active_key_base_price_def inactive_key_base_price_def)
qed

definition key_cost :: "int \<Rightarrow> bool \<Rightarrow> int" where
  "key_cost q active = (if q = 1 then 500 else if q = 3 then 1275 else 1750) * (if active then 1 else 2)"

lemma key_price_cost: "q \<in> {1, 3, 5} \<Longrightarrow> calculate_key_price q active = Inr (key_cost q active)"
  by (auto simp: key_price_table key_cost_def)

lemma key_cost_pos: "0 < key_cost q active"
  by (simp add: key_cost_def)

lemma key_type_known: "fetch_all_key_types (Some k) db = [] \<longleftrightarrow> k \<notin> set (key_types db)"
proof -
  have "fetch_all_key_types (Some k) db = [] \<longleftrightarrow> set (fetch_all_key_types (Some k) db) = {}" by (rule set_empty [symmetric])
  also have "\<dots> \<longleftrightarrow> k \<notin> set (key_types db)" by (auto simp: fetch_all_key_types_def opt_eq_def)
  finally show ?thesis .
qed

lemma key_cost_int4: "int4_ok (key_cost q active)"
  by (simp add: key_cost_def int4_ok_def)

lemma coins_int4: "users_ok db \<Longrightarrow> coins_of u db = Some c \<Longrightarrow> int4_ok c"
  by (auto simp: users_ok_def dest: coins_of_SomeD)

lemma purchase_keys_tx_run:
  assumes ok: "users_ok db" and q: "q \<in> {1, 3, 5}" and price: "0 < price" "int4_ok price"
  shows "purchase_keys_tx E u kt q price db =
    (if kt \<notin> set (key_types db) then Inl (Store (InvalidKeyTypeError kt))
     else case coins_of u db of
        None \<Rightarrow> Inl (Store (InsufficientCoinsError 0 price))
      | Some c \<Rightarrow> if c < price then Inl (Store (InsufficientCoinsError c price))
          else if \<not> int4_ok (c - price) then Inl (Pg NumericOutOfRange)
          else Inr (c - price, db\<lparr>users := update_where (\<lambda>r. usr_id r = u) (\<lambda>r. r\<lparr>usr_coins := usr_coins r - price\<rparr>) (users db),
            user_keys := user_keys db @ replicate (nat q) \<lparr>uk_user_id = u, uk_key_type = kt, uk_earned_at = env_now E\<rparr>,
            purchases := purchases db @ [\<lparr>pu_id = next_purchase_id db, pu_user_id = u, pu_purchase_type = ''key'',
              pu_item_name = None, pu_item_type = None, pu_key_type = kt, pu_quantity = q, pu_price_paid = price,
              pu_rotation_id = None, pu_purchased_at = env_now E\<rparr>],
            next_purchase_id := next_purchase_id db + 1\<rparr>))"
proof (cases "kt \<in> set (key_types db) \<and> (\<exists>c. coins_of u db = Some c \<and> price \<le> c \<and> int4_ok (c - price))")
  case False
  then show ?thesis using price
    by (auto simp: purchase_keys_tx_def ensure_key_type_exists_def key_type_known bind_tx_def take_payment_run [OF ok]
        split: option.splits)
next
  case True
  then obtain c where c: "kt \<in> set (key_types db)" "coins_of u db = Some c" "price \<le> c" "int4_ok (c - price)" by blast
  let ?db = "db\<lparr>users := update_where (\<lambda>r. usr_id r = u) (\<lambda>r. r\<lparr>usr_coins := usr_coins r - price\<rparr>) (users db)\<rparr>"
  have paid: "take_payment u price db = Inr (c - price, ?db)" using c price by (simp add: take_payment_run [OF ok])
  have "user_exists u db" using c(2) coins_of_None [of u db] by auto
  then have u: "user_exists u ?db" by (simp add: user_exists_def has_row_update_where)
  have k: "kt \<in> set (key_types ?db)" using c by simp
  have q4: "int4_ok q" using q by (auto simp: int4_ok_def)
  have booked: "user_exists u (?db\<lparr>user_keys := ks\<rparr>)" for ks using u by (simp add: user_exists_def)
  show ?thesis
    using c q price q4 booked
    by (auto simp: purchase_keys_tx_def ensure_key_type_exists_def key_type_known bind_tx_def paid
        deliver_keys_run [OF u k] insert_purchase_def check_tx_def Let_def purchase_fields_ok_def
        split: option.splits)
qed

lemma purchase_item_tx_run:
  assumes ok: "db_ok db" and item: "fetch_rotation_item E name ty kt db = Some it"
    and fresh: "\<not> ro_available_until it < env_clock E"
    and new: "check_user_has_reward u ty kt name db = None \<or> check_user_has_reward u ty kt name db = Some []"
  shows "purchase_item_tx E u name ty kt db =
    (case coins_of u db of
        None \<Rightarrow> Inl (Store (InsufficientCoinsError 0 (ro_price it)))
      | Some c \<Rightarrow> if c < ro_price it then Inl (Store (InsufficientCoinsError c (ro_price it)))
          else if \<not> int4_ok (c - ro_price it) then Inl (Pg NumericOutOfRange)
          else Inr ((ro_price it, c - ro_price it),
            db\<lparr>users := update_where (\<lambda>r. usr_id r = u) (\<lambda>r. r\<lparr>usr_coins := usr_coins r - ro_price it\<rparr>) (users db),
            user_rewards := user_rewards db @ [\<lparr>uw_user_id = u, uw_reward_name = name, uw_earned_at = env_now E,
              uw_reward_type = ty, uw_key_type = kt\<rparr>],
            purchases := purchases db @ [\<lparr>pu_id = next_purchase_id db, pu_user_id = u, pu_purchase_type = ''item'',
              pu_item_name = Some name, pu_item_type = Some ty, pu_key_type = kt, pu_quantity = 1,
              pu_price_paid = ro_price it, pu_rotation_id = Some (ro_rotation_id it), pu_purchased_at = env_now E\<rparr>],
            next_purchase_id := next_purchase_id db + 1\<rparr>))"
proof -
  from item have it: "it \<in> set (rotations db)" "ro_item_name it = name" "ro_item_type it = ty" "ro_key_type it = kt"
    by (auto simp: fetch_rotation_item_def dest: first_where_SomeD)
  with ok have price: "int4_ok (ro_price it)" and reward: "reward_exists name ty kt db"
    by (auto simp: db_ok_def rotations_ok_def)
  from reward ok have kt: "kt \<in> set (key_types db)"
    by (auto simp: reward_exists_def has_row_iff db_ok_def catalog_ok_def)
  from ok have users: "users_ok db" by (simp add: db_ok_def)
  have tx: "purchase_item_tx E u name ty kt db =
      bind_tx (take_payment u (ro_price it)) (\<lambda>b. bind_tx (insert_user_reward E u ty kt name) (\<lambda>_.
      bind_tx (insert_purchase E u ''item'' kt 1 (ro_price it) (Some name) (Some ty) (Some (ro_rotation_id it))) (\<lambda>_.
      return_tx (ro_price it, b)))) db"
    using item fresh new by (auto simp: purchase_item_tx_def)
  show ?thesis
  proof (cases "\<exists>c. coins_of u db = Some c \<and> ro_price it \<le> c \<and> int4_ok (c - ro_price it)")
    case False
    then show ?thesis unfolding tx using price
      by (auto simp: bind_tx_def take_payment_run [OF users] split: option.splits)
  next
    case True
    then obtain c where c: "coins_of u db = Some c" "ro_price it \<le> c" "int4_ok (c - ro_price it)" by blast
    let ?db = "db\<lparr>users := update_where (\<lambda>r. usr_id r = u) (\<lambda>r. r\<lparr>usr_coins := usr_coins r - ro_price it\<rparr>) (users db)\<rparr>"
    have "user_exists u db" using c(1) coins_of_None [of u db] by auto
    then have u: "user_exists u ?db" "\<And>ws. user_exists u (?db\<lparr>user_rewards := ws\<rparr>)"
      by (simp_all add: user_exists_def has_row_update_where)
    have r: "reward_exists name ty kt ?db" using reward by (simp add: reward_exists_def)
    show ?thesis unfolding tx using c price kt u r
      by (simp add: bind_tx_def take_payment_run [OF users] insert_user_reward_def insert_purchase_def
          check_tx_def Let_def purchase_fields_ok_def int4_ok_def)
  qed
qed

text \<open>The price list, row by row.\<close>

definition price_row :: "store_config_row \<Rightarrow> string \<Rightarrow> key_pricing_response" where
  "price_row cfg k = (let a = (k = sc_active_key_type cfg) in
     \<lparr>kpr_key_type = k, kpr_is_active = a, kpr_prices =
       [\<lparr>kp_quantity = 1, kp_price = key_cost 1 a, kp_discount_percent = 0\<rparr>,
        \<lparr>kp_quantity = 3, kp_price = key_cost 3 a, kp_discount_percent = 15\<rparr>,
        \<lparr>kp_quantity = 5, kp_price = key_cost 5 a, kp_discount_percent = 30\<rparr>]\<rparr>)"

lemma get_key_pricing_run:
  assumes "store_config (wdb w) = Some cfg"
  shows "get_key_pricing w = (Inr (map (price_row cfg) (sort (key_types (wdb w)))), w)"
proof -
  have infos: "key_price_infos a = Inr [\<lparr>kp_quantity = 1, kp_price = key_cost 1 a, kp_discount_percent = 0\<rparr>,
      \<lparr>kp_quantity = 3, kp_price = key_cost 3 a, kp_discount_percent = 15\<rparr>,
      \<lparr>kp_quantity = 5, kp_price = key_cost 5 a, kp_discount_percent = 30\<rparr>]" for a
    by (simp add: key_price_infos_def key_price_cost)
  have "map_io ks (\<lambda>k. bind_io (lift_io (lift_py (key_price_infos (k = sc_active_key_type cfg)))) (\<lambda>prices.
       return_io \<lparr>kpr_key_type = k, kpr_is_active = (k = sc_active_key_type cfg), kpr_prices = prices\<rparr>)) v =
       (Inr (map (price_row cfg) ks), v)" for ks and v :: econ_world
    by (induction ks) (simp_all add: infos price_row_def bind_io_def Let_def)
  with assms show ?thesis
    by (simp add: get_key_pricing_def active_key_type_def fetch_config_def fetch_all_key_types_def opt_eq_def)
qed

lemma purchase_keys_charges:
  assumes "store_config (wdb w) = Some cfg" "purchase_keys E u k q w = (Inr res, v)"
  shows "kpu_price_paid res = key_cost q (k = sc_active_key_type cfg) \<and> kpu_keys_purchased res = q"
  using assms
  by (auto simp: purchase_keys_def active_key_type_def fetch_config_def key_price_cost elim!: bind_ioE split: if_splits)

subsection \<open>Prices\<close>

text \<open>The price list is complete and honest: it names the key types in order, each with the
  quantities 1, 3 and 5, and a purchase of that quantity costs exactly the price listed.\<close>

lemma advertised_price_charged:
  assumes "get_key_pricing w = (Inr ps, w')"
  shows "w' = w \<and> map kpr_key_type ps = sort (key_types (wdb w))
     \<and> list_all (\<lambda>p. map kp_quantity (kpr_prices p) = [1, 3, 5]
        \<and> list_all (\<lambda>i. \<forall>E u res v. purchase_keys E u (kpr_key_type p) (kp_quantity i) w = (Inr res, v) \<longrightarrow>
              kpu_price_paid res = kp_price i \<and> kpu_keys_purchased res = kp_quantity i) (kpr_prices p)) ps"
proof -
  obtain cfg where cfg: "store_config (wdb w) = Some cfg"
    using assms by (cases "store_config (wdb w)") (simp_all add: get_key_pricing_def active_key_type_def fetch_config_def)
  show ?thesis
    using assms purchase_keys_charges [OF cfg]
    by (auto simp: get_key_pricing_run [OF cfg] price_row_def list_all_iff comp_def Let_def)
qed

lemma advertised_price_charged_witness:
  "\<exists>ps. get_key_pricing sample_world = (Inr ps, sample_world) \<and> map kpr_key_type ps = [''Classic'', ''Winter'']
     \<and> list_all (\<lambda>p. map kp_quantity (kpr_prices p) = [1, 3, 5]) ps"
proof -
  have "\<exists>cfg. store_config (wdb sample_world) = Some cfg" and keys: "sort (key_types (wdb sample_world)) = [''Classic'', ''Winter'']"
    by (simp_all add: sample_world_def sample_db_def)
  then obtain ps where run: "get_key_pricing sample_world = (Inr ps, sample_world)" using get_key_pricing_run by blast
  from advertised_price_charged [OF run] run keys show ?thesis by (auto simp: list_all_iff)
qed

subsection \<open>Purchases\<close>

text \<open>C1: every outcome of a key purchase. A wrong quantity, an unknown key type and a balance
  below the price are refused, each with its error, and change nothing; otherwise, in one step, the
  price leaves the balance, that many keys arrive and one purchase row is written.\<close>

theorem purchase_keys_outcome:
  assumes "db_ok (wdb w)" "store_config (wdb w) = Some cfg"
  shows "purchase_keys E u kt q w =
    (let db = wdb w; price = key_cost q (kt = sc_active_key_type cfg) in
     if q \<notin> {1, 3, 5} then (Inl (Store (InvalidQuantityError q)), w)
     else if kt \<notin> set (key_types db) then (Inl (Store (InvalidKeyTypeError kt)), w)
     else if fetch_user_coins u db < price then (Inl (Store (InsufficientCoinsError (fetch_user_coins u db) price)), w)
     else (Inr \<lparr>kpu_success = True, kpu_keys_purchased = q, kpu_price_paid = price,
             kpu_remaining_coins = fetch_user_coins u db - price\<rparr>,
           w\<lparr>wdb := db\<lparr>users := update_where (\<lambda>r. usr_id r = u) (\<lambda>r. r\<lparr>usr_coins := usr_coins r - price\<rparr>) (users db),
             user_keys := user_keys db @ replicate (nat q) \<lparr>uk_user_id = u, uk_key_type = kt, uk_earned_at = env_now E\<rparr>,
             purchases := purchases db @ [\<lparr>pu_id = next_purchase_id db, pu_user_id = u, pu_purchase_type = ''key'',
               pu_item_name = None, pu_item_type = None, pu_key_type = kt, pu_quantity = q, pu_price_paid = price,
               pu_rotation_id = None, pu_purchased_at = env_now E\<rparr>],
             next_purchase_id := next_purchase_id db + 1\<rparr>\<rparr>))"
proof (cases "q \<in> {1, 3, 5}")
  case False
  then show ?thesis by (simp add: purchase_keys_def)
next
  case q: True
  let ?price = "key_cost q (kt = sc_active_key_type cfg)"
  have ok: "users_ok (wdb w)" using assms(1) by (simp add: db_ok_def)
  have in_range: "int4_ok (c - ?price)" if "coins_of u (wdb w) = Some c" "\<not> c < ?price" for c
    using coins_int4 [OF ok that(1)] that(2) key_cost_pos [of q "kt = sc_active_key_type cfg"] by (simp add: int4_ok_def)
  have "purchase_keys E u kt q w = bind_io (atomically (purchase_keys_tx E u kt q ?price)) (\<lambda>remaining_coins.
      return_io \<lparr>kpu_success = True, kpu_keys_purchased = q, kpu_price_paid = ?price, kpu_remaining_coins = remaining_coins\<rparr>) w"
    using q assms(2) by (simp add: purchase_keys_def active_key_type_def fetch_config_def key_price_cost)
  then show ?thesis
    using q in_range key_cost_pos [of q "kt = sc_active_key_type cfg"]
    by (auto simp: bind_io_def atomically_def purchase_keys_tx_run [OF ok q key_cost_pos key_cost_int4] Let_def
        fetch_user_coins_def split: option.splits)
qed

theorem purchase_keys_outcome_witness:
  "fst (purchase_keys sample_env 1 ''Classic'' 5 sample_world) =
     Inr \<lparr>kpu_success = True, kpu_keys_purchased = 5, kpu_price_paid = 1750, kpu_remaining_coins = 1250\<rparr>
   \<and> fst (purchase_keys sample_env 2 ''Winter'' 1 sample_world) = Inl (Store (InsufficientCoinsError 50 1000))"
proof -
  have ok: "db_ok (wdb sample_world)" by (simp add: sample_world_def sample_db_ok)
  have db: "store_config (wdb sample_world) = Some \<lparr>sc_rotation_period_days = 7, sc_last_rotation_at = 0,
        sc_next_rotation_at = 1000, sc_active_key_type = ''Classic''\<rparr>"
      "key_types (wdb sample_world) = [''Classic'', ''Winter'']"
      "fetch_user_coins 1 (wdb sample_world) = 3000" "fetch_user_coins 2 (wdb sample_world) = 50"
    by (simp_all add: sample_world_def fetch_user_coins_def coins_of_def) (simp_all add: sample_db_def)
  show ?thesis
    unfolding purchase_keys_outcome [OF ok db(1)] by (simp add: key_cost_def db Let_def)
qed

text \<open>C2: every outcome of an item purchase. An item outside the current rotation, an expired
  rotation, an item the user owns and a balance below the price are refused, in this order, and
  change nothing; otherwise the price leaves the balance, the reward row and one purchase row with
  the rotation are written, all or nothing.\<close>

theorem purchase_item_outcome:
  assumes "db_ok (wdb w)"
  shows "purchase_item E u name ty kt w =
    (let db = wdb w; owned = check_user_has_reward u ty kt name db in
     case fetch_rotation_item E name ty kt db of
       None \<Rightarrow> (Inl (Store (ItemNotInRotationError name)), w)
     | Some it \<Rightarrow>
         if ro_available_until it < env_clock E then (Inl (Store RotationExpiredError), w)
         else if owned \<noteq> None \<and> owned \<noteq> Some [] then (Inl (Store (AlreadyOwnedError name)), w)
         else case coins_of u db of
            None \<Rightarrow> (Inl (Store (InsufficientCoinsError 0 (ro_price it))), w)
          | Some c \<Rightarrow>
              if c < ro_price it then (Inl (Store (InsufficientCoinsError c (ro_price it))), w)
              else if \<not> int4_ok (c - ro_price it) then (Inl (Pg NumericOutOfRange), w)
              else (Inr \<lparr>ipr_success = True, ipr_item_name = name, ipr_item_type = ty, ipr_price_paid = ro_price it,
                      ipr_remaining_coins = c - ro_price it\<rparr>,
                 w\<lparr>wdb := db\<lparr>users := update_where (\<lambda>r. usr_id r = u) (\<lambda>r. r\<lparr>usr_coins := usr_coins r - ro_price it\<rparr>) (users db),
                   user_rewards := user_rewards db @ [\<lparr>uw_user_id = u, uw_reward_name = name, uw_earned_at = env_now E,
                     uw_reward_type = ty, uw_key_type = kt\<rparr>],
                   purchases := purchases db @ [\<lparr>pu_id = next_purchase_id db, pu_user_id = u, pu_purchase_type = ''item'',
                     pu_item_name = Some name, pu_item_type = Some ty, pu_key_type = kt, pu_quantity = 1,
                     pu_price_paid = ro_price it, pu_rotation_id = Some (ro_rotation_id it), pu_purchased_at = env_now E\<rparr>],
                   next_purchase_id := next_purchase_id db + 1\<rparr>\<rparr>))"
proof (cases "\<exists>it. fetch_rotation_item E name ty kt (wdb w) = Some it \<and> \<not> ro_available_until it < env_clock E
    \<and> (check_user_has_reward u ty kt name (wdb w) = None \<or> check_user_has_reward u ty kt name (wdb w) = Some [])")
  case False
  then show ?thesis
    by (auto simp: purchase_item_def purchase_item_tx_def bind_io_def atomically_def bind_tx_def split: option.splits)
next
  case True
  then obtain it where it: "fetch_rotation_item E name ty kt (wdb w) = Some it" "\<not> ro_available_until it < env_clock E"
    "check_user_has_reward u ty kt name (wdb w) = None \<or> check_user_has_reward u ty kt name (wdb w) = Some []" by blast
  show ?thesis
    using it by (auto simp: purchase_item_def bind_io_def atomically_def purchase_item_tx_run [OF assms it] Let_def
        split: option.splits)
qed

theorem purchase_item_outcome_witness:
  "fst (purchase_item sample_env 1 ''Kabuki'' ''skin'' ''Classic'' sample_world) =
     Inr \<lparr>ipr_success = True, ipr_item_name = ''Kabuki'', ipr_item_type = ''skin'', ipr_price_paid = 3000,
       ipr_remaining_coins = 0\<rparr>
   \<and> fst (purchase_item sample_env 1 ''Oni'' ''skin'' ''Classic'' sample_world) = Inl (Store (ItemNotInRotationError ''Oni''))"
proof -
  have ok: "db_ok (wdb sample_world)" by (simp add: sample_world_def sample_db_ok)
  show ?thesis
    unfolding purchase_item_outcome [OF ok]
    by (simp add: sample_world_def fetch_rotation_item_def current_rotation_def sort_desc_def rotation_active_def
        sample_env_def check_user_has_reward_def coins_of_def Let_def int4_ok_def sample_db_def)
qed

text \<open>Any number of purchase requests, by anyone and in any order, refused ones included.\<close>

datatype order = BuyKeys string int | BuyItem string string string

fun place_order :: "env \<times> int \<times> order \<Rightarrow> econ_world \<Rightarrow> econ_world" where
  "place_order (E, u, BuyKeys kt q) w = snd (purchase_keys E u kt q w)"
| "place_order (E, u, BuyItem name ty kt) w = snd (purchase_item E u name ty kt w)"

lemma place_order_wealth: "shop.wealth j t (wdb w) \<Longrightarrow> shop.wealth j t (wdb (place_order x w))"
proof (induction x w rule: place_order.induct)
  case (1 E u kt q w)
  have "keeps_io (shop.wealth j t) (purchase_keys E u kt q)"
    unfolding purchase_keys_def active_key_type_def by (intro keeps_rules keeps_wealth_purchase_keys)
  with 1 show ?case by (simp add: keeps_ioD)
next
  case (2 E u name ty kt w)
  have "keeps_io (shop.wealth j t) (purchase_item E u name ty kt)"
    unfolding purchase_item_def by (intro keeps_rules keeps_wealth_purchase_item)
  with 2 show ?case by (simp add: keeps_ioD)
qed

text \<open>C32: no purchase loses or makes a coin: whatever orders are placed, what a user holds and what
  the purchase rows say the user paid add up to the same amount as before.\<close>

theorem purchases_accounted:
  assumes "users_ok (wdb w)" "coins_of u (wdb w) = Some c"
  shows "\<exists>c'. coins_of u (wdb (fold place_order orders w)) = Some c'
     \<and> c' + spent u (wdb (fold place_order orders w)) = c + spent u (wdb w)"
proof -
  have "shop.wealth u (c + spent u (wdb w)) (wdb (fold place_order orders v))"
    if "shop.wealth u (c + spent u (wdb w)) (wdb v)" for v
    using that by (induction orders arbitrary: v) (simp_all add: place_order_wealth)
  from this [of w] assms show ?thesis by (auto simp: shop.wealth_def)
qed

theorem purchases_accounted_witness:
  "\<exists>c'. coins_of 1 (wdb (fold place_order [(sample_env, 1, BuyKeys ''Classic'' 3), (sample_env, 1, BuyItem ''Kabuki'' ''skin'' ''Classic'')]
       sample_world)) = Some c'
     \<and> c' + spent 1 (wdb (fold place_order [(sample_env, 1, BuyKeys ''Classic'' 3), (sample_env, 1, BuyItem ''Kabuki'' ''skin'' ''Classic'')]
       sample_world)) = 3000"
proof -
  have "users_ok (wdb sample_world)" "coins_of 1 (wdb sample_world) = Some 3000" "spent 1 (wdb sample_world) = 0"
    by (simp_all add: sample_world_def sample_users_ok coins_of_def spent_def) (simp add: sample_db_def)
  from purchases_accounted [OF this(1,2), of "[(sample_env, 1, BuyKeys ''Classic'' 3), (sample_env, 1, BuyItem ''Kabuki'' ''skin'' ''Classic'')]"]
    this(3) show ?thesis by simp
qed

subsection \<open>The item rotation\<close>

text \<open>The shop window and the till agree: the rotation a client is shown consists of exactly
  the items a purchase finds.\<close>

lemma shown_iff_for_sale:
  assumes "rotations_ok db"
  shows "it \<in> set (fetch_current_rotation E db) \<longleftrightarrow>
    fetch_rotation_item E (ro_item_name it) (ro_item_type it) (ro_key_type it) db = Some it"
proof -
  let ?sold = "\<lambda>r. current_rotation E db = Some (ro_rotation_id r) \<and> ro_item_name r = ro_item_name it
      \<and> ro_item_type r = ro_item_type it \<and> ro_key_type r = ro_key_type it \<and> rotation_active E r"
  have shown: "it \<in> set (fetch_current_rotation E db) \<longleftrightarrow> it \<in> set (rotations db) \<and> ?sold it"
    by (auto simp: fetch_current_rotation_def sort_desc_def)
  have only: "r = it" if "r \<in> set (rotations db)" "it \<in> set (rotations db)" "?sold r" "?sold it" for r
    using that assms by (auto simp: rotations_ok_def rotation_key_def dest!: distinct_map [THEN iffD1] inj_onD [of _ _ r it])
  show ?thesis
  proof (cases "first_where ?sold (rotations db)")
    case None
    then have "it \<notin> set (rotations db) \<or> \<not> ?sold it" by (auto simp: first_where_None)
    with None show ?thesis by (simp add: shown fetch_rotation_item_def)
  next
    case (Some r)
    with first_where_SomeD [OF Some] only show ?thesis by (auto simp: shown fetch_rotation_item_def)
  qed
qed

lemma shown_iff_for_sale_witness:
  "\<exists>it. it \<in> set (fetch_current_rotation sample_env sample_db) \<and> ro_item_name it = ''Kabuki''
     \<and> fetch_rotation_item sample_env ''Kabuki'' (ro_item_type it) (ro_key_type it) sample_db = Some it"
proof -
  obtain it where it: "fetch_rotation_item sample_env ''Kabuki'' ''skin'' ''Classic'' sample_db = Some it"
      "ro_item_name it = ''Kabuki''" "ro_item_type it = ''skin''" "ro_key_type it = ''Classic''"
    by (simp add: fetch_rotation_item_def current_rotation_def sort_desc_def rotation_active_def sample_env_def sample_db_def)
  have "rotations_ok sample_db" using sample_db_ok by (simp add: db_ok_def)
  from shown_iff_for_sale [OF this, of it sample_env] it show ?thesis by auto
qed

text \<open>What one draw of the generator adds.\<close>

definition item_of :: "rotation_row \<Rightarrow> string \<times> string \<times> string" where
  "item_of r = (ro_item_name r, ro_item_type r, ro_key_type r)"

definition new_row :: "env \<Rightarrow> int \<Rightarrow> rotation_row \<Rightarrow> bool" where
  "new_row E t r \<longleftrightarrow> ro_rotation_id r = env_uuid E \<and> ro_available_from r = env_now E \<and> ro_available_until r = t
     \<and> (ro_rarity r, ro_price r) \<in> {(''legendary'', 3000), (''epic'', 1500), (''rare'', 750)}"

lemma draw_adds:
  assumes "draw_rotation_items E keys recent rarity price m (Some t) db = Inr (j, db')"
    and "(rarity, price) \<in> {(''legendary'', 3000), (''epic'', 1500), (''rare'', 750)}"
  shows "\<exists>rows. db' = db\<lparr>rotations := rotations db @ rows\<rparr> \<and> length rows = j \<and> j \<le> m
    \<and> (\<forall>r \<in> set rows. new_row E t r \<and> ro_rarity r = rarity
         \<and> (\<forall>s \<in> set (rotations db). ro_rotation_id s \<in> set recent \<longrightarrow> item_of s \<noteq> item_of r))"
  using assms(1)
proof (rule draw_rotation_items_shape)
  assume "j = 0" "db' = db"
  then show ?thesis by (intro exI [of _ "[]"]) simp
next
  fix t' picked
  assume p: "Some t = Some t'" "picked = take m (order_by_random keys (rotation_pool recent rarity db))" "j = length picked"
    "db' = db\<lparr>rotations := rotations db @ rotation_rows E rarity price t' picked\<rparr>"
  have "set picked \<subseteq> set (rotation_pool recent rarity db)" using p(2) by (auto dest: in_set_takeD)
  then have fresh: "\<not> has_row (\<lambda>sr. ro_rotation_id sr \<in> set recent \<and> ro_item_name sr = rt_name rt
      \<and> ro_item_type sr = rt_type rt \<and> ro_key_type sr = rt_key_type rt) (rotations db)" if "rt \<in> set picked" for rt
    using that by (auto simp: rotation_pool_def)
  have "length picked \<le> m" by (simp add: p(2))
  moreover have "new_row E t r \<and> ro_rarity r = rarity
       \<and> (\<forall>s \<in> set (rotations db). ro_rotation_id s \<in> set recent \<longrightarrow> item_of s \<noteq> item_of r)"
    if "r \<in> set (rotation_rows E rarity price t' picked)" for r
    using that fresh assms(2) p(1) by (auto simp: rotation_rows_def new_row_def item_of_def has_row_iff)
  ultimately show ?thesis using p by (intro exI [of _ "rotation_rows E rarity price t' picked"]) (simp add: rotation_rows_def)
qed

lemma sort_key_map_inv: "(\<And>x. f (g x) = f x) \<Longrightarrow> sort_key f (map g xs) = map g (sort_key f xs)"
proof (induction xs)
  case (Cons x xs)
  have "insort_key f (g x) (map g ys) = map g (insort_key f x ys)" for ys
    by (induction ys) (simp_all add: Cons.prems)
  with Cons show ?case by simp
qed simp

lemma recent_expire: "recent_rotations (expire_active E rows) = recent_rotations rows"
  by (simp add: recent_rotations_def expire_active_def update_where_def sort_key_map_inv comp_def if_distrib
      cong: if_cong)

lemma expired_inactive: "r \<in> set (expire_active E rows) \<Longrightarrow> \<not> rotation_active E r"
  by (auto simp: expire_active_def rotation_active_def dest!: in_update_whereD split: if_splits)

text \<open>A generated rotation: what was there, expired, then the three draws.\<close>

definition fresh_rows :: "env \<Rightarrow> int \<Rightarrow> string \<Rightarrow> rotation_row list \<Rightarrow> rotation_row list \<Rightarrow> bool" where
  "fresh_rows E t rarity old rows \<longleftrightarrow> (\<forall>r \<in> set rows. new_row E t r \<and> ro_rarity r = rarity
     \<and> (\<forall>s \<in> set old. ro_rotation_id s \<in> set (recent_rotations old) \<longrightarrow> item_of s \<noteq> item_of r))"

lemma fresh_expired:
  assumes "\<forall>r \<in> set rows. new_row E t r \<and> ro_rarity r = rarity
       \<and> (\<forall>s \<in> set (expire_active E old @ later). ro_rotation_id s \<in> set (recent_rotations (expire_active E old)) \<longrightarrow> item_of s \<noteq> item_of r)"
  shows "fresh_rows E t rarity old rows"
  unfolding fresh_rows_def
proof (intro ballI conjI impI)
  fix r s assume r: "r \<in> set rows" and s: "s \<in> set old" "ro_rotation_id s \<in> set (recent_rotations old)"
  let ?s = "if rotation_active E s then s\<lparr>ro_available_until := env_now E\<rparr> else s"
  have "?s \<in> set (expire_active E old)" "ro_rotation_id ?s = ro_rotation_id s" "item_of ?s = item_of s"
    using s(1) by (auto simp: expire_active_def update_where_def item_of_def)
  with assms r s(2) show "item_of s \<noteq> item_of r" unfolding recent_expire by (metis UnI1 set_append)
qed (use assms in auto)

lemma generated_rows:
  assumes "store_config db = Some cfg" "repo_generate_rotation E epic_roll keys n db = Inr ((i, k, until), db')"
  obtains t r1 r2 r3 where "t = env_now E + sc_rotation_period_days cfg * day_us" "until = Some t"
    "rotations db' = expire_active E (rotations db) @ r1 @ r2 @ r3" "k = length (r1 @ r2 @ r3)" "int k \<le> n"
    "length r1 \<le> 1" "length r2 \<le> max 1 epic_roll"
    "fresh_rows E t ''legendary'' (rotations db) r1" "fresh_rows E t ''epic'' (rotations db) r2"
    "fresh_rows E t ''rare'' (rotations db) r3"
proof -
  define t where "t = env_now E + sc_rotation_period_days cfg * day_us"
  define db0 where "db0 = db\<lparr>rotations := expire_active E (rotations db)\<rparr>"
  define recent where "recent = recent_rotations (rotations db0)"
  define epic where "epic = (if epic_roll = 0 then 1 else epic_roll)"
  let ?draw = "\<lambda>i rarity price m. draw_rotation_items E (keys i) recent rarity price m (Some t)"
  let ?stamp = "\<lambda>db. db\<lparr>store_config := map_option (\<lambda>c. c\<lparr>sc_last_rotation_at := env_now E,
       sc_next_rotation_at := env_now E + sc_rotation_period_days c * day_us\<rparr>) (store_config db)\<rparr>"
  have n: "0 \<le> n - 1 - int epic" and run: "bind_tx (?draw 0 ''legendary'' 3000 1) (\<lambda>n1. bind_tx (?draw 1 ''epic'' 1500 epic) (\<lambda>n2.
      bind_tx (?draw 2 ''rare'' 750 (nat (n - 1 - int epic))) (\<lambda>n3. bind_tx (write_tx ?stamp) (\<lambda>_.
      return_tx (env_uuid E, n1 + n2 + n3, Some t))))) db0 = Inr ((i, k, until), db')"
    using assms(2) unfolding repo_generate_rotation_def bind_read_tx bind_write_tx assms(1) option.map Let_def
      epic_def [symmetric] recent_def t_def db0_def
    by (simp_all only: run_tx sum.distinct linorder_not_less split: if_splits)
  from run obtain n1 db1 where d1: "?draw 0 ''legendary'' 3000 1 db0 = Inr (n1, db1)" and run: "bind_tx (?draw 1 ''epic'' 1500 epic) (\<lambda>n2.
      bind_tx (?draw 2 ''rare'' 750 (nat (n - 1 - int epic))) (\<lambda>n3. bind_tx (write_tx ?stamp) (\<lambda>_.
      return_tx (env_uuid E, n1 + n2 + n3, Some t)))) db1 = Inr ((i, k, until), db')" by (rule bind_txE)
  from run obtain n2 db2 where d2: "?draw 1 ''epic'' 1500 epic db1 = Inr (n2, db2)" and run: "bind_tx (?draw 2 ''rare'' 750 (nat (n - 1 - int epic)))
      (\<lambda>n3. bind_tx (write_tx ?stamp) (\<lambda>_. return_tx (env_uuid E, n1 + n2 + n3, Some t))) db2 = Inr ((i, k, until), db')" by (rule bind_txE)
  from run obtain n3 db3 where d3: "?draw 2 ''rare'' 750 (nat (n - 1 - int epic)) db2 = Inr (n3, db3)"
    and k: "k = n1 + n2 + n3" "until = Some t" "rotations db' = rotations db3" by (rule bind_txE) auto
  have prices: "(''legendary'', 3000 :: int) \<in> {(''legendary'', 3000), (''epic'', 1500), (''rare'', 750)}"
    "(''epic'', 1500 :: int) \<in> {(''legendary'', 3000), (''epic'', 1500), (''rare'', 750)}"
    "(''rare'', 750 :: int) \<in> {(''legendary'', 3000), (''epic'', 1500), (''rare'', 750)}" by simp_all
  let ?fresh = "\<lambda>rarity db rows. \<forall>r \<in> set rows. new_row E t r \<and> ro_rarity r = rarity
       \<and> (\<forall>s \<in> set (rotations db). ro_rotation_id s \<in> set recent \<longrightarrow> item_of s \<noteq> item_of r)"
  obtain r1 where r1: "db1 = db0\<lparr>rotations := rotations db0 @ r1\<rparr>" "length r1 = n1" "n1 \<le> 1" "?fresh ''legendary'' db0 r1"
    using draw_adds [OF d1 prices(1)] by blast
  obtain r2 where r2: "db2 = db1\<lparr>rotations := rotations db1 @ r2\<rparr>" "length r2 = n2" "n2 \<le> epic" "?fresh ''epic'' db1 r2"
    using draw_adds [OF d2 prices(2)] by blast
  obtain r3 where r3: "db3 = db2\<lparr>rotations := rotations db2 @ r3\<rparr>" "length r3 = n3" "n3 \<le> nat (n - 1 - int epic)" "?fresh ''rare'' db2 r3"
    using draw_adds [OF d3 prices(3)] by blast
  note r = r1(1) r2(1) r3(1) and len = r1(2,3) r2(2,3) r3(2,3) and new = r1(4) r2(4) r3(4)
  show ?thesis
  proof (rule that [of t r1 r2 r3])
    show "rotations db' = expire_active E (rotations db) @ r1 @ r2 @ r3" by (simp add: k r db0_def)
    show "k = length (r1 @ r2 @ r3)" using len k by simp
    show "int k \<le> n" using len k n by linarith
    show "length r2 \<le> max 1 epic_roll" using len by (simp add: epic_def split: if_splits)
    show "fresh_rows E t ''legendary'' (rotations db) r1" "fresh_rows E t ''epic'' (rotations db) r2"
      "fresh_rows E t ''rare'' (rotations db) r3"
      using fresh_expired [of r1 E t _ "rotations db" "[]"] fresh_expired [of r2 E t _ "rotations db" r1]
        fresh_expired [of r3 E t _ "rotations db" "r1 @ r2"] new by (simp_all add: r db0_def recent_def)
  qed (use len k t_def in simp_all)
qed

text \<open>Generating a rotation replaces what is on sale: afterwards exactly the new items are
  active, at most as many as asked for, at most one legendary and two epic ones, each at the price
  of its rarity, and none that one of the two latest rotations offered.\<close>

lemma rotation_generated:
  assumes "db_ok db" "store_config db = Some cfg" "epic_roll \<le> 2"
    and "repo_generate_rotation E epic_roll keys n db = Inr ((i, k, until), db')"
  shows "\<exists>new t. until = Some t \<and> env_now E < t \<and> filter (rotation_active E) (rotations db') = new
     \<and> length new = k \<and> int k \<le> n
     \<and> length (filter (\<lambda>r. ro_rarity r = ''legendary'') new) \<le> 1
     \<and> length (filter (\<lambda>r. ro_rarity r = ''epic'') new) \<le> 2
     \<and> (\<forall>r \<in> set new. new_row E t r
          \<and> (\<forall>s \<in> set (rotations db). ro_rotation_id s \<in> set (recent_rotations (rotations db)) \<longrightarrow> item_of s \<noteq> item_of r))"
  using assms(2,4)
proof (rule generated_rows)
  fix t r1 r2 r3
  assume t: "t = env_now E + sc_rotation_period_days cfg * day_us" "until = Some t"
    and rot: "rotations db' = expire_active E (rotations db) @ r1 @ r2 @ r3" "k = length (r1 @ r2 @ r3)" "int k \<le> n"
    and len: "length r1 \<le> 1" "length r2 \<le> max 1 epic_roll"
    and new: "fresh_rows E t ''legendary'' (rotations db) r1" "fresh_rows E t ''epic'' (rotations db) r2"
      "fresh_rows E t ''rare'' (rotations db) r3"
  let ?new = "r1 @ r2 @ r3"
  have later: "env_now E < t"
    using assms(1,2) by (auto simp: t db_ok_def store_config_ok_def day_us_def second_us_def)
  have rows: "\<forall>x \<in> set ?new. new_row E t x
      \<and> (\<forall>s \<in> set (rotations db). ro_rotation_id s \<in> set (recent_rotations (rotations db)) \<longrightarrow> item_of s \<noteq> item_of x)"
    using new by (auto simp: fresh_rows_def)
  then have "filter (rotation_active E) (rotations db') = ?new"
    using expired_inactive later
    by (auto simp: rot(1) filter_empty_conv filter_id_conv new_row_def rotation_active_def)
  moreover have "filter (\<lambda>x. ro_rarity x = ''legendary'') ?new = r1" "filter (\<lambda>x. ro_rarity x = ''epic'') ?new = r2"
    using new by (auto simp: fresh_rows_def filter_empty_conv filter_id_conv)
  ultimately show ?thesis
    using rows len later t(2) rot(2,3) assms(3) by (intro exI [of _ ?new] exI [of _ t]) simp
qed

lemma rotation_generated_witness:
  "\<exists>i k until db'. repo_generate_rotation sample_env 1 (\<lambda>_. id) 3 sample_db = Inr ((i, k, until), db')
     \<and> int k \<le> 3 \<and> length (filter (rotation_active sample_env) (rotations db')) = k"
proof -
  have cfg: "store_config sample_db = Some \<lparr>sc_rotation_period_days = 7, sc_last_rotation_at = 0,
        sc_next_rotation_at = 1000, sc_active_key_type = ''Classic''\<rparr>" by (simp add: sample_db_def)
  have "\<exists>i k until db'. repo_generate_rotation sample_env 1 (\<lambda>_. id) 3 sample_db = Inr ((i, k, until), db')"
    by (simp add: repo_generate_rotation_def draw_rotation_items_def sample_db_def sample_env_def expire_active_def
        rotation_active_def recent_rotations_def order_by_random_def rotation_key_def Let_def bind_tx_def write_tx_def return_tx_def)
  then obtain i k until db' where run: "repo_generate_rotation sample_env 1 (\<lambda>_. id) 3 sample_db = Inr ((i, k, until), db')"
    by blast
  from rotation_generated [OF sample_db_ok cfg _ run] run show ?thesis by auto
qed

end
