(* ===== verification/Quest_Schedule.thy ===== *)
theory Quest_Schedule
  imports Quest_Rows Samples
begin

section \<open>The schedule of the weekly rotation\<close>

text \<open>
  What the configured weekday and hour mean for the next rotation, and what a weekly check does.
\<close>

subsection \<open>The schedule\<close>

lemma day_us_val: "day_us = 86400000000" "hour_us = 3600000000" "week_us = 604800000000"
  by (simp_all add: day_us_def hour_us_def week_us_def second_us_def)

lemma isoweekday_range: "1 \<le> isoweekday t \<and> isoweekday t \<le> 7"
  by (simp add: isoweekday_def)

text \<open>A moment on a weekday at a full hour.\<close>

definition falls_on :: "int \<Rightarrow> int \<Rightarrow> int \<Rightarrow> bool" where
  "falls_on day hour t \<longleftrightarrow> isoweekday t = day \<and> t mod day_us = hour * hour_us"

lemma next_rotation_candidate_first:
  assumes day: "1 \<le> day" "day \<le> 7" and hour: "0 \<le> hour" "hour \<le> 23"
  shows "now < next_rotation_candidate now day hour"
    and "next_rotation_candidate now day hour \<le> now + week_us"
    and "falls_on day hour (next_rotation_candidate now day hour)"
    and "now < t \<Longrightarrow> falls_on day hour t \<Longrightarrow> next_rotation_candidate now day hour \<le> t"
proof -
  define a where "a = now div day_us"
  define h where "h = hour * hour_us"
  define s where "s = (day - ((a + 3) mod 7 + 1)) mod 7"
  have h: "0 \<le> h" "h < day_us" using hour by (simp_all add: h_def day_us_val)
  have now: "a * day_us \<le> now" "now < a * day_us + day_us"
    by (simp_all add: a_def day_us_val)
  have div: "(b * day_us + h) div day_us = b" "(b * day_us + h) mod day_us = h" for b
    using h by (simp_all add: day_us_val)
  have s: "0 \<le> s" "s \<le> 6" by (simp_all add: s_def)
  define n where "n = (if (a + s) * day_us + h \<le> now then a + s + 7 else a + s)"
  have wd: "(day - isoweekday (a * day_us + h)) mod 7 = s" by (simp add: isoweekday_def div s_def)
  have "next_rotation_candidate now day hour
      = (if a * day_us + h + s * day_us \<le> now then a * day_us + h + s * day_us + 7 * day_us
         else a * day_us + h + s * day_us)"
    by (simp only: next_rotation_candidate_def Let_def a_def [symmetric] h_def [symmetric] wd)
  then have cand: "next_rotation_candidate now day hour = n * day_us + h" by (simp add: n_def algebra_simps)
  have "(a + 3 + s) mod 7 = (a + 3 + (day - ((a + 3) mod 7 + 1))) mod 7" unfolding s_def by (rule mod_add_right_eq)
  also have "a + 3 + (day - ((a + 3) mod 7 + 1)) = a + 3 + (day - 1) - (a + 3) mod 7" by simp
  also have "(a + 3 + (day - 1) - (a + 3) mod 7) mod 7 = (a + 3 + (day - 1) - (a + 3)) mod 7" by (rule mod_diff_right_eq)
  also have "\<dots> = day - 1" using day by simp
  finally have s7: "(a + 3 + s) mod 7 = day - 1" .
  have n3: "n + 3 = (a + 3 + s) + (if (a + s) * day_us + h \<le> now then 7 else 0)" by (simp add: n_def)
  have "(n + 3) mod 7 = (a + 3 + s) mod 7"
    unfolding n3 by (simp only: mod_add_self2 add_0_right split: if_split) simp
  with s7 have weekday: "(n + 3) mod 7 + 1 = day" by simp
  show "now < next_rotation_candidate now day hour"
    using now s h unfolding cand n_def by (auto simp: day_us_val)
  show "next_rotation_candidate now day hour \<le> now + week_us"
    using now s h unfolding cand n_def by (auto simp: day_us_val)
  show "falls_on day hour (next_rotation_candidate now day hour)"
    unfolding falls_on_def isoweekday_def cand div using weekday by (simp add: h_def)
  assume t: "now < t" "falls_on day hour t"
  define b where "b = t div day_us"
  have tb: "t = b * day_us + h"
    using t(2) by (simp add: falls_on_def b_def h_def) (metis div_mult_mod_eq)
  have bday: "(b + 3) mod 7 + 1 = day" using t(2) by (simp add: falls_on_def isoweekday_def b_def)
  have "n \<le> b"
  proof (rule ccontr)
    assume "\<not> n \<le> b"
    then have "b < n" by simp
    with weekday bday have "b \<le> n - 7" by presburger
    then have "b * day_us + h \<le> now" using now s h unfolding n_def by (auto simp: day_us_val split: if_splits)
    with t(1) tb show False by simp
  qed
  then show "next_rotation_candidate now day hour \<le> t" unfolding cand tb by (simp add: day_us_val)
qed

lemma apply_updates_config:
  "qc_rotation_day (fold apply_config_update (opt_update RotationDay d @ opt_update RotationHour h
     @ opt_update EasyQuestCount e @ opt_update MediumQuestCount m @ opt_update HardQuestCount n @ [NextRotationAt t]) c)
   = (case d of None \<Rightarrow> qc_rotation_day c | Some x \<Rightarrow> x)"
  "qc_rotation_hour (fold apply_config_update (opt_update RotationDay d @ opt_update RotationHour h
     @ opt_update EasyQuestCount e @ opt_update MediumQuestCount m @ opt_update HardQuestCount n @ [NextRotationAt t]) c)
   = (case h of None \<Rightarrow> qc_rotation_hour c | Some x \<Rightarrow> x)"
  "qc_next_rotation_at (fold apply_config_update (opt_update RotationDay d @ opt_update RotationHour h
     @ opt_update EasyQuestCount e @ opt_update MediumQuestCount m @ opt_update HardQuestCount n @ [NextRotationAt t]) c) = t"
  by (auto simp: opt_update_def split: option.splits)

text \<open>After a change of the rotation day or hour the next quest rotation is the first moment
  after the clock that falls on the configured weekday at the configured hour - except that the
  hour 0 is taken for no hour, and the old hour stays in the schedule.\<close>

lemma quest_schedule_updated:
  assumes "quest_config (wdb w) = Some c" "db_ok (wdb w)" "day \<noteq> None \<or> hour \<noteq> None"
    and "update_quest_config E day hour e m h w = (Inr res, w')"
  shows "\<exists>c'. quest_config (wdb w') = Some c'
     \<and> qc_rotation_day c' = (case day of None \<Rightarrow> qc_rotation_day c | Some d \<Rightarrow> d)
     \<and> qc_rotation_hour c' = (case hour of None \<Rightarrow> qc_rotation_hour c | Some x \<Rightarrow> x)
     \<and> (let next = qc_next_rotation_at c'; used = (if hour = Some 0 then qc_rotation_hour c else qc_rotation_hour c')
        in uqc_next_rotation_at res = Some next
         \<and> env_clock E < next \<and> next \<le> env_clock E + week_us \<and> falls_on (qc_rotation_day c') used next
         \<and> (\<forall>t. env_clock E < t \<and> falls_on (qc_rotation_day c') used t \<longrightarrow> next \<le> t))"
proof -
  let ?d = "int_or day (map_option qc_rotation_day (Some c)) 1" and ?h = "int_or hour (map_option qc_rotation_hour (Some c)) 0"
  let ?t = "next_rotation_candidate (env_clock E) ?d ?h"
  define us where "us = opt_update RotationDay day @ opt_update RotationHour hour @ opt_update EasyQuestCount e
     @ opt_update MediumQuestCount m @ opt_update HardQuestCount h @ [NextRotationAt ?t]"
  have us: "us \<noteq> []" by (simp add: us_def)
  from assms(1,3,4) have hours: "0 \<le> ?h" "?h \<le> 23" and res: "uqc_next_rotation_at res = Some ?t"
    and run: "atomically (repo_update_quest_config us) w = (Inr (), w')"
    by (auto simp: update_quest_config_def fetch_quest_config_def Let_def us_def elim!: bind_ioE split: if_splits)
  define c' where "c' = fold apply_config_update us c"
  from run assms(1) us have c': "quest_config (wdb w') = Some c'" "quest_config_row_ok c'"
    by (auto simp: atomically_def repo_update_quest_config_def bind_check_tx Let_def c'_def split: sum.splits if_splits)
  have day': "qc_rotation_day c' = (case day of None \<Rightarrow> qc_rotation_day c | Some d \<Rightarrow> d)"
    and hour': "qc_rotation_hour c' = (case hour of None \<Rightarrow> qc_rotation_hour c | Some x \<Rightarrow> x)"
    and next': "qc_next_rotation_at c' = ?t"
    by (simp_all only: c'_def us_def apply_updates_config)
  have d: "?d = qc_rotation_day c'" "1 \<le> ?d" "?d \<le> 7"
    using c'(2) day' assms(1,2) by (auto simp: quest_config_row_ok_def int_or_def db_ok_def quest_config_ok_def split: option.splits)
  have used: "?h = (if hour = Some 0 then qc_rotation_hour c else qc_rotation_hour c')"
    using hour' by (auto simp: int_or_def split: option.splits)
  note first = next_rotation_candidate_first [OF d(2,3) hours, where now = "env_clock E"]
  show ?thesis
    using c' day' hour' first res unfolding used [symmetric] d(1) [symmetric]
    by (intro exI [of _ c']) (simp add: Let_def next' used [symmetric] d(1) [symmetric])
qed

lemma quest_schedule_updated_witness:
  "\<exists>res w'. update_quest_config sample_env (Some 3) (Some 0) None None None sample_world = (Inr res, w')
     \<and> (\<exists>c'. quest_config (wdb w') = Some c' \<and> qc_rotation_day c' = 3 \<and> falls_on 3 0 (qc_next_rotation_at c'))"
proof -
  have "\<exists>res w'. update_quest_config sample_env (Some 3) (Some 0) None None None sample_world = (Inr res, w')"
    by (simp add: update_quest_config_def fetch_quest_config_def repo_update_quest_config_def opt_update_def int_or_def
        atomically_def bind_io_def lift_io_def return_io_def bind_tx_def read_tx_def check_tx_def write_tx_def
        return_tx_def Let_def quest_config_row_ok_def int4_ok_def sample_world_def sample_db_def)
  then obtain res w' where run: "update_quest_config sample_env (Some 3) (Some 0) None None None sample_world = (Inr res, w')"
    by blast
  have c: "quest_config (wdb sample_world) \<noteq> None" "db_ok (wdb sample_world)"
      "\<And>c. quest_config (wdb sample_world) = Some c \<Longrightarrow> qc_rotation_hour c = 0"
    by (simp_all add: sample_world_def sample_db_ok) (simp_all add: sample_db_def)
  from quest_schedule_updated [OF _ c(2) _ run] c show ?thesis
    by (intro exI [of _ res] exI [of _ w']) (auto simp: run Let_def)
qed

subsection \<open>The quests of a week\<close>

definition quest_pool :: "string \<Rightarrow> econ \<Rightarrow> quest_row list" where
  "quest_pool difficulty db = filter (\<lambda>q. qs_is_active q \<and> qs_quest_type q = ''global''
     \<and> qs_difficulty q = difficulty) (quests db)"


text \<open>Rows for chosen quests, with consecutive ids.\<close>

fun rotation_rows_for :: "int \<Rightarrow> int \<Rightarrow> int \<Rightarrow> int \<Rightarrow> quest_row list \<Rightarrow> quest_rotation_row list" where
  "rotation_rows_for k rot start stop [] = []"
| "rotation_rows_for k rot start stop (q # qs) =
     \<lparr>qr_id = k, qr_rotation_id = rot, qr_quest_id = Some (qs_id q), qr_user_id = None,
        qr_quest_data = pool_quest_data q, qr_available_from = start, qr_available_until = stop\<rparr>
     # rotation_rows_for (k + 1) rot start stop qs"

lemma rotation_rows_for_append:
  "rotation_rows_for k rot a b (qs @ qs') = rotation_rows_for k rot a b qs @ rotation_rows_for (k + int (length qs)) rot a b qs'"
  by (induction qs arbitrary: k) (simp_all add: algebra_simps)


lemma length_rotation_rows_for [simp]: "length (rotation_rows_for k rot a b qs) = length qs"
  by (induction qs arbitrary: k) auto

definition with_quests :: "int \<Rightarrow> int \<Rightarrow> int \<Rightarrow> quest_row list \<Rightarrow> econ \<Rightarrow> econ" where
  "with_quests rot start stop qs db = db\<lparr>
     quest_rotation := quest_rotation db @ rotation_rows_for (next_quest_rotation_id db) rot start stop qs,
     next_quest_rotation_id := next_quest_rotation_id db + int (length qs)\<rparr>"



lemma with_quests_simps [simp]:
  "with_quests rot a b [] db = db" "quests (with_quests rot a b qs db) = quests db"
  "with_quests rot a b qs' (with_quests rot a b qs db) = with_quests rot a b (qs @ qs') db"
  by (simp_all add: with_quests_def rotation_rows_for_append)




lemma quest_pool_with_quests [simp]: "quest_pool d (with_quests rot a b qs db) = quest_pool d db"
  by (simp add: quest_pool_def)




subsection \<open>The weekly check\<close>









subsection \<open>Catching up\<close>


text \<open>Checks one after the other, each in a transaction of its own: which of them generated a rotation. A check that
  fails is rolled back and its caller gets the error.\<close>

fun weekly_checks :: "(env \<times> (nat \<Rightarrow> nat \<Rightarrow> nat)) list \<Rightarrow> econ \<Rightarrow> bool list \<times> econ" where
  "weekly_checks [] db = ([], db)"
| "weekly_checks ((E, keys) # calls) db = (case check_and_generate_quest_rotation E keys db of
      Inl e \<Rightarrow> (case weekly_checks calls db of (gs, db') \<Rightarrow> (False # gs, db'))
    | Inr ((rot, generated, claimed, n), db1) \<Rightarrow> (case weekly_checks calls db1 of (gs, db') \<Rightarrow> (generated # gs, db')))"












text \<open>While a completed quest cannot be paid, no check commits and the rotation stands still.\<close>

lemma unpayable_quest_stops_rotation:
  assumes "quest_config db = Some c"
    and "\<forall>(E, keys) \<in> set calls. rotation_due E (Some c) \<and> (\<exists>e. auto_claim_completed_quests E db = Inl e)"
  shows "weekly_checks calls db = (replicate (length calls) False, db)"
  using assms(2)
proof (induction calls)
  case (Cons call calls)
  obtain E keys where call: "call = (E, keys)" by (cases call)
  with Cons.prems obtain e where "rotation_due E (Some c)" "auto_claim_completed_quests E db = Inl e" by auto
  then have "check_and_generate_quest_rotation E keys db = Inl e"
    using assms(1) by (simp add: check_and_generate_quest_rotation_def bind_tx_def Let_def)
  with Cons call show ?case by simp
qed simp

end
