(* ===== verification/Quest_Events.thy ===== *)
theory Quest_Events
  imports Quest_Rows Quest_Kinds Samples
begin

section \<open>Events and the quests of a user\<close>

text \<open>
  What \<open>update_quest_progress\<close> makes of an event: a loop over the user's quests of the current
  rotation, written as one function of a row. Then the percentage the quest list shows.
\<close>

subsection \<open>One event\<close>

text \<open>The row after the event: new progress if the quest matches, completed when it is complete.\<close>

definition row_event :: "env \<Rightarrow> string \<Rightarrow> dict \<Rightarrow> progress_row \<Rightarrow> py_error + progress_row" where
  "row_event E event_type event_data p =
     (if pg_completed_at p \<noteq> None then Inr p
      else
        bind_py (dict_or_empty (dget (pg_quest_data p) ''requirements'')) (\<lambda>requirements.
        bind_py (event_matches_quest requirements event_type event_data) (\<lambda>matches.
        if \<not> matches then Inr p
        else
          bind_py (calculate_new_progress (pg_progress p) requirements event_data) (\<lambda>progress.
          bind_py (is_quest_complete progress requirements) (\<lambda>complete.
          Inr (p\<lparr>pg_progress := progress,
                 pg_completed_at := if complete then Some (env_now E) else None\<rparr>))))))"

text \<open>What the handler returns for a quest that became complete.\<close>

definition announced :: "progress_row \<Rightarrow> progress_row \<Rightarrow> dict list" where
  "announced p q = (if pg_completed_at p = None \<and> pg_completed_at q \<noteq> None
     then [dupdate [(''progress_id'', JInt (pg_id p))] (pg_quest_data p)] else [])"

lemma row_event_ids: "row_event E ty d p = Inr q \<Longrightarrow> pg_id q = pg_id p \<and> pg_user_id q = pg_user_id p"
  by (auto simp: row_event_def bind_py_def split: if_splits sum.splits)

lemma update_where_id:
  assumes "distinct (map pg_id rows)" "p \<in> set rows"
  shows "update_where (\<lambda>r. pg_id r = pg_id p) f rows = map (\<lambda>r. if r = p then f p else r) rows"
  using assms by (auto simp: update_where_def distinct_map dest: inj_onD)

lemma update_one_quest_row:
  assumes "distinct (map pg_id (quest_progress db))" "p \<in> set (quest_progress db)"
  shows "update_one_quest E ty d (active_quest_of p) db = (case row_event E ty d p of
      Inl e \<Rightarrow> Inl (Py e)
    | Inr q \<Rightarrow> Inr (announced p q, db\<lparr>quest_progress := map (\<lambda>r. if r = p then q else r) (quest_progress db)\<rparr>))"
proof -
  note ids = update_where_id [OF assms]
  have same: "map (\<lambda>r. if r = p then p else r) xs = xs" for xs :: "progress_row list" by (simp add: map_idI)
  have twice: "update_where (\<lambda>r. pg_id r = pg_id p \<and> pg_completed_at r = None) g
       (map (\<lambda>r. if r = p then p\<lparr>pg_progress := x\<rparr> else r) (quest_progress db))
     = map (\<lambda>r. if r = p then g (p\<lparr>pg_progress := x\<rparr>) else r) (quest_progress db)" if "pg_completed_at p = None" for g x
    using assms that by (auto simp: update_where_def distinct_map dest: inj_onD)
  have upd: "p\<lparr>pg_progress := x, pg_completed_at := Some t\<rparr> = p\<lparr>pg_completed_at := Some t, pg_progress := x\<rparr>"
    "pg_completed_at p = None \<Longrightarrow> p\<lparr>pg_progress := x, pg_completed_at := None\<rparr> = p\<lparr>pg_progress := x\<rparr>" for x t
    by simp_all
  show ?thesis
    by (auto simp: update_one_quest_def row_event_def active_quest_of_def quest_requirements_def announced_def
        repo_update_quest_progress_def mark_quest_complete_def update_progress_row_def ids twice same bind_py_def upd
        split: sum.splits)
qed

text \<open>The row after an event that raises no error.\<close>

definition event_row :: "env \<Rightarrow> string \<Rightarrow> dict \<Rightarrow> progress_row \<Rightarrow> progress_row" where
  "event_row E event_type event_data p = projr (row_event E event_type event_data p)"

definition event_fails :: "env \<Rightarrow> string \<Rightarrow> dict \<Rightarrow> progress_row \<Rightarrow> bool" where
  "event_fails E event_type event_data p \<longleftrightarrow> isl (row_event E event_type event_data p)"

lemma update_quests_loop:
  assumes "distinct (map pg_id (quest_progress db))" "set ps \<subseteq> set (quest_progress db)" "distinct (map pg_id ps)"
  shows "map_tx (map active_quest_of ps) (update_one_quest E ty d) db = (case List.find (event_fails E ty d) ps of
      Some p \<Rightarrow> Inl (Py (projl (row_event E ty d p)))
    | None \<Rightarrow> Inr (map (\<lambda>p. announced p (event_row E ty d p)) ps,
         db\<lparr>quest_progress := map (\<lambda>r. if r \<in> set ps then event_row E ty d r else r) (quest_progress db)\<rparr>))"
  using assms
proof (induction ps arbitrary: db)
  case (Cons p ps)
  show ?case
  proof (cases "row_event E ty d p")
    case (Inl e)
    then have "update_one_quest E ty d (active_quest_of p) db = Inl (Py e)"
      using Cons.prems by (simp add: update_one_quest_row)
    with Inl show ?thesis by (simp add: bind_tx_Inl event_fails_def)
  next
    case (Inr q)
    let ?db = "db\<lparr>quest_progress := map (\<lambda>r. if r = p then q else r) (quest_progress db)\<rparr>"
    have run: "update_one_quest E ty d (active_quest_of p) db = Inr (announced p q, ?db)"
      using Cons.prems Inr by (simp add: update_one_quest_row)
    have "pg_id q = pg_id p" using row_event_ids [OF Inr] by simp
    then have "map pg_id (quest_progress ?db) = map pg_id (quest_progress db)" by auto
    then have "distinct (map pg_id (quest_progress ?db))" using Cons.prems(1) by (simp only:)
    moreover have "p \<notin> set ps" using Cons.prems(3) by auto
    then have "set ps \<subseteq> set (quest_progress ?db)" using Cons.prems(2) by (auto simp: image_iff)
    ultimately have IH: "map_tx (map active_quest_of ps) (update_one_quest E ty d) ?db = (case List.find (event_fails E ty d) ps of
        Some p \<Rightarrow> Inl (Py (projl (row_event E ty d p)))
      | None \<Rightarrow> Inr (map (\<lambda>p. announced p (event_row E ty d p)) ps,
           ?db\<lparr>quest_progress := map (\<lambda>r. if r \<in> set ps then event_row E ty d r else r) (quest_progress ?db)\<rparr>))"
      by (rule Cons.IH) (use Cons.prems(3) in simp)
    have q: "q \<in> set ps \<Longrightarrow> False"
    proof -
      assume "q \<in> set ps"
      then have "pg_id p \<in> set (map pg_id ps)" using \<open>pg_id q = pg_id p\<close> by (metis image_eqI list.set_map)
      with Cons.prems(3) show False by simp
    qed
    have "(if (if r = p then q else r) \<in> set ps then event_row E ty d (if r = p then q else r) else (if r = p then q else r))
        = (if r \<in> set (p # ps) then event_row E ty d r else r)" for r
      using q \<open>p \<notin> set ps\<close> Inr by (auto simp: event_row_def)
    moreover have "event_row E ty d p = q" "\<not> event_fails E ty d p" using Inr by (simp_all add: event_row_def event_fails_def)
    ultimately show ?thesis
      using run IH by (auto simp: bind_tx_def comp_def split: option.splits)
  qed
qed (simp add: map_idI)

lemma active_rows_mine:
  "p \<in> set (active_rows u db) \<longleftrightarrow> p \<in> set (quest_progress db) \<and> pg_user_id p = u
     \<and> (\<exists>c. quest_config db = Some c \<and> qc_current_rotation_id c = Some (pg_rotation_id p))"
  by (auto simp: active_rows_def split: option.splits)

lemma distinct_active_rows: "distinct (map pg_id (quest_progress db)) \<Longrightarrow> distinct (map pg_id (active_rows u db))"
  by (simp add: active_rows_def distinct_map_filter distinct_map inj_on_def)

text \<open>C4: an event touches exactly the user's quests of the current rotation, each as the quest
  engine says for that row alone, and returns those it completed in the order of their ids; the
  first quest that raises an error undoes the whole event.\<close>

theorem quest_event_effect:
  assumes "db_ok db"
  shows "update_quests_tx E u ty d db = (case List.find (event_fails E ty d) (active_rows u db) of
      Some p \<Rightarrow> Inl (Py (projl (row_event E ty d p)))
    | None \<Rightarrow> Inr (concat (map (\<lambda>p. announced p (event_row E ty d p)) (active_rows u db)),
         db\<lparr>quest_progress := map (\<lambda>p. if p \<in> set (active_rows u db) then event_row E ty d p else p) (quest_progress db)\<rparr>))"
proof -
  from assms have d: "distinct (map pg_id (quest_progress db))" by (simp add: db_ok_def quest_progress_ok_def)
  have "set (active_rows u db) \<subseteq> set (quest_progress db)" by (auto simp: active_rows_mine)
  from update_quests_loop [OF d this distinct_active_rows [OF d]] show ?thesis
    by (simp add: update_quests_tx_def get_active_user_quests_def bind_tx_def split: option.splits)
qed

definition sample_event :: dict where
  "sample_event = [(''map_id'', JInt 7), (''difficulty'', JStr ''Hell''), (''category'', JStr ''Classic'')]"

definition sample_open_row :: progress_row where
  "sample_open_row = quest_progress sample_db ! 1"

definition sample_completed_row :: progress_row where
  "sample_completed_row = sample_open_row\<lparr>pg_progress := [(''current'', JInt 1), (''target'', JInt 1),
     (''completed_map_ids'', JArr [JInt 7]), (''details'', JObj [(''hell'', JInt 1)])], pg_completed_at := Some 100\<rparr>"

lemma sample_row_event:
  "row_event sample_env ''completion'' sample_event sample_open_row = Inr sample_completed_row"
  by code_simp

lemma sample_event_row:
  "event_row sample_env ''completion'' sample_event sample_open_row = sample_completed_row"
  "\<not> event_fails sample_env ''completion'' sample_event sample_open_row"
  by (simp_all add: event_row_def event_fails_def sample_row_event)

lemma sample_active_rows: "active_rows 2 sample_db = [sample_open_row]"
  by (simp add: active_rows_def sample_open_row_def) (simp add: sample_db_def)

lemma sample_progress_rows:
  "\<exists>q. quest_progress sample_db = [q, sample_open_row] \<and> q \<noteq> sample_open_row \<and> pg_completed_at q = Some 60"
  unfolding sample_open_row_def by (simp add: sample_db_def)

theorem quest_event_effect_witness:
  "\<exists>db'. update_quests_tx sample_env 2 ''completion'' sample_event sample_db
        = Inr ([dupdate [(''progress_id'', JInt 2)] sample_quest_data], db')
     \<and> map pg_completed_at (quest_progress db') = [Some 60, Some 100]"
proof -
  have p: "pg_completed_at sample_open_row = None" "pg_id sample_open_row = 2" "pg_quest_data sample_open_row = sample_quest_data"
    by (simp_all add: sample_open_row_def) (simp_all add: sample_db_def)
  have q: "pg_completed_at sample_completed_row = Some 100" by (simp add: sample_completed_row_def)
  from sample_progress_rows p q quest_event_effect [OF sample_db_ok, of sample_env 2 "''completion''" sample_event]
  show ?thesis
    by (auto simp: sample_active_rows sample_event_row announced_def)
qed

subsection \<open>The percentage of a counting quest\<close>

lemma percentage_full:
  fixes c t :: int
  assumes "0 < t" "t \<le> c"
  shows "100 \<le> fl (fl (of_int c / of_int t) * 100)"
proof -
  have "(1 :: rat) \<le> of_int c / of_int t" using assms by simp
  then have "1 \<le> fl (of_int c / of_int t)" using fl_mono [of 1 "of_int c / of_int t"] fl_of_int [of 1] by simp
  then show ?thesis using fl_mono [of 100 "fl (of_int c / of_int t) * 100"] fl_of_int [of 100]
    by simp
qed

lemma percentage_open:
  fixes c t :: int
  assumes "0 \<le> c" "c < t" "t \<le> 10 ^ 9"
  shows "0 \<le> fl (fl (of_int c / of_int t) * 100)" "fl (fl (of_int c / of_int t) * 100) < 100"
proof -
  define q :: rat where "q = of_int c / of_int t"
  have q0: "0 \<le> q" using assms by (simp add: q_def)
  then show "0 \<le> fl (fl (of_int c / of_int t) * 100)" unfolding q_def [symmetric] by (intro fl_nonneg) (simp add: fl_nonneg)
  have t: "(of_int t :: rat) \<le> 10 ^ 9" using assms(3) by (metis of_int_le_iff of_int_numeral of_int_power)
  have "(of_int c :: rat) + 1 \<le> of_int t" using assms(2) by (metis of_int_1 of_int_add of_int_le_iff zless_imp_add1_zle)
  then have gap: "q \<le> 1 - 1 / 10 ^ 9"
    using assms t by (simp add: q_def divide_le_eq algebra_simps)
  show "fl (fl (of_int c / of_int t) * 100) < 100"
  proof (cases "c = 0")
    case False
    have tiny: "(2 :: rat) powi (- 1022) \<le> 1 / 10 ^ 9"
      using power_int_increasing [of "- 1022" "- 30" "2 :: rat"] by (simp add: power_int_minus) 
    have "1 / of_int t \<le> q" using False assms by (simp add: q_def divide_le_cancel)
    moreover have "(1 :: rat) / 10 ^ 9 \<le> 1 / of_int t" using t assms by (simp add: frac_le)
    ultimately have q1: "2 powi (- 1022) \<le> q" "1 / 10 ^ 9 \<le> q" using tiny by linarith+
    have a: "fl q \<le> q * (1 + 1 / 2 ^ 53)" "q * (1 - 1 / 2 ^ 53) \<le> fl q" using fl_close [OF q1(1)] by simp_all
    then have "2 powi (- 1022) \<le> fl q * 100" using q1 tiny q0 by (simp add: algebra_simps)
    from fl_close(1) [OF this] have "fl (fl q * 100) \<le> fl q * 100 * (1 + 1 / 2 ^ 53)" .
    also have "\<dots> \<le> q * (1 + 1 / 2 ^ 53) * 100 * (1 + 1 / 2 ^ 53)" using a(1) by (intro mult_right_mono) auto
    also have "\<dots> \<le> (1 - 1 / 10 ^ 9) * (1 + 1 / 2 ^ 53) * 100 * (1 + 1 / 2 ^ 53)" using gap by (intro mult_right_mono) auto
    also have "\<dots> < 100" by (simp add: field_simps)
    finally show ?thesis by (simp add: q_def)
  qed simp
qed

lemma dget_or_int: "dget d k = JInt n \<Longrightarrow> dget_or d k v = JInt n"
  by (auto simp: dget_def dget_or_def split: option.splits)

text \<open>The quest list shows a percentage from 0 to 100, and 100 exactly for the counting quests
  that are complete.\<close>

lemma quest_percentage_complete:
  assumes "counting r" "required_count r = JInt t" "dget p ''target'' = JInt t" "dget p ''current'' = JInt c"
    and "0 \<le> c" "c \<le> 10 ^ 9" "0 < t" "t \<le> 10 ^ 9"
  shows "0 \<le> quest_percentage p done \<and> quest_percentage p done \<le> 100
     \<and> is_quest_complete p r = Inr (quest_percentage p done = 100)"
proof -
  have pow: "(10 :: int) ^ 9 \<le> 2 ^ 53" by simp
  have "fl (of_int t) = of_int t" "fl (of_int c) = of_int c"
    using assms(5-8) pow by (auto intro!: fl_of_int)
  then have "quest_percentage p done = min 100 (py_trunc (fl (fl (of_int c / of_int t) * 100)))"
    using assms by (simp add: quest_percentage_def float_or_zero_def Let_def)
  moreover have "is_quest_complete p r = Inr (t \<le> c)"
    using assms by (simp add: complete_dispatch dget_or_int py_ge_def)
  ultimately show ?thesis
    using percentage_full [OF assms(7), of c] percentage_open [OF assms(5) _ assms(8)] 
    by (cases "t \<le> c") (auto simp: py_trunc_def min_def floor_eq_iff)
qed

lemma quest_percentage_complete_witness:
  "quest_percentage [(''current'', JInt 2), (''target'', JInt 3)] False \<noteq> 100
     \<and> quest_percentage [(''current'', JInt 3), (''target'', JInt 3)] False = 100"
proof -
  let ?r = "[(''type'', JStr ''complete_maps''), (''count'', JInt 3)]"
  have r: "counting ?r" "required_count ?r = JInt 3"
    by (simp_all add: counting_def has_type_def required_count_def dget_def dget_or_def)
  have "is_quest_complete [(''current'', JInt 2), (''target'', JInt 3)] ?r = Inr False"
    "is_quest_complete [(''current'', JInt 3), (''target'', JInt 3)] ?r = Inr True"
    using r by (simp_all add: complete_dispatch dget_or_def py_ge_def)
  with quest_percentage_complete [OF r, of "[(''current'', JInt 2), (''target'', JInt 3)]" 2 False]
    quest_percentage_complete [OF r, of "[(''current'', JInt 3), (''target'', JInt 3)]" 3 False]
  show ?thesis by (simp add: dget_def)
qed

end
