(* ===== verification/Quest_Provision.thy ===== *)
theory Quest_Provision
  imports Quest_Rows Quest_Kinds Samples
begin

section \<open>Provisioning and bounties\<close>

text \<open>
  A user's rows for a rotation are created once, whoever asks first; a bounty is never complete
  when it is handed out; a rival bounty asks for a time the rival has run.
\<close>

subsection \<open>Seeding progress rows\<close>

definition fresh_row :: "int \<Rightarrow> int \<Rightarrow> progress_row \<Rightarrow> bool" where
  "fresh_row user_id rotation_id p \<longleftrightarrow> pg_user_id p = user_id \<and> pg_rotation_id p = rotation_id
     \<and> start_progress (pg_quest_data p) = Inr (pg_progress p)
     \<and> pg_completed_at p = None \<and> pg_claimed_at p = None"

text \<open>The database with new progress rows, which take the next ids.\<close>

definition with_rows :: "econ \<Rightarrow> progress_row list \<Rightarrow> econ" where
  "with_rows db new = db\<lparr>quest_progress := quest_progress db @ new, next_progress_id := next_progress_id db + int (length new)\<rparr>"

lemma with_rows_simps [simp]:
  "with_rows db [] = db" "quest_progress (with_rows db new) = quest_progress db @ new"
  "with_rows (with_rows db new) new' = with_rows db (new @ new')"
  "quest_rotation (with_rows db new) = quest_rotation db" "users (with_rows db new) = users db"
  "quest_config (with_rows db new) = quest_config db"
  "get_bounty_for_user r u (with_rows db new) = get_bounty_for_user r u db"
  "get_global_quests r (with_rows db new) = get_global_quests r db"
  by (simp_all add: with_rows_def get_bounty_for_user_def get_global_quests_def)

definition taken :: "int \<Rightarrow> int \<Rightarrow> int option \<Rightarrow> econ \<Rightarrow> bool" where
  "taken user_id rotation_id quest_id db \<longleftrightarrow>
     (\<exists>p \<in> set (quest_progress db). pg_user_id p = user_id \<and> pg_rotation_id p = rotation_id \<and> pg_quest_id p = quest_id)"

lemma insert_progress_new:
  assumes "insert_progress u r q d p db = Inr ((), db')" "\<not> taken u r q db"
  obtains row where "db' = with_rows db [row]" "pg_quest_id row = q" "pg_quest_data row = d" "pg_progress row = p"
    "pg_user_id row = u" "pg_rotation_id row = r" "pg_completed_at row = None" "pg_claimed_at row = None"
  using assms by (auto simp: insert_progress_def taken_def has_row_iff with_rows_def split: if_splits)

lemma seed_rows:
  assumes "for_tx records (\<lambda>(q, d, p). insert_progress u r q d p) db = Inr ((), db')"
    and "distinct (map fst records)" "\<And>q. q \<in> fst ` set records \<Longrightarrow> \<not> taken u r q db"
    and "\<forall>(q, d, p) \<in> set records. start_progress d = Inr p"
  shows "\<exists>new. db' = with_rows db new \<and> map pg_quest_id new = map fst records \<and> (\<forall>p \<in> set new. fresh_row u r p)"
  using assms
proof (induction records arbitrary: db)
  case Nil
  then show ?case by (intro exI [of _ "[]"]) simp
next
  case (Cons rec records)
  obtain q d p where rec: "rec = (q, d, p)" by (cases rec)
  with Cons.prems(1) obtain db1 where 1: "insert_progress u r q d p db = Inr ((), db1)"
      and 2: "for_tx records (\<lambda>(q, d, p). insert_progress u r q d p) db1 = Inr ((), db')"
    by (auto elim!: bind_txE)
  have "\<not> taken u r q db" using Cons.prems(3) rec by simp
  with 1 obtain row where row: "db1 = with_rows db [row]" "pg_quest_id row = q" "pg_quest_data row = d" "pg_progress row = p"
    "pg_user_id row = u" "pg_rotation_id row = r" "pg_completed_at row = None" "pg_claimed_at row = None"
    by (rule insert_progress_new)
  have "\<not> taken u r q' db1" if "q' \<in> fst ` set records" for q'
    using Cons.prems(2,3) rec row that by (auto simp: taken_def)
  with Cons.IH [OF 2] Cons.prems(2,4) obtain new where new: "db' = with_rows db1 new" "map pg_quest_id new = map fst records"
      "\<forall>p \<in> set new. fresh_row u r p" by auto
  have "fresh_row u r row" using row Cons.prems(4) rec by (simp add: fresh_row_def)
  with new row rec show ?case by (intro exI [of _ "row # new"]) simp
qed

lemma seed_records:
  assumes f: "\<And>q d. f (q, d) = bind_tx (lift_tx (lift_py (start_progress d))) (\<lambda>p. return_tx (q, d, p))"
  shows "map_tx qs f db = Inr (records, db') \<Longrightarrow>
     db' = db \<and> map fst records = map fst qs \<and> (\<forall>(q, d, p) \<in> set records. start_progress d = Inr p)"
proof (induction qs arbitrary: records)
  case (Cons x qs)
  obtain q d where x: "x = (q, d)" by (cases x)
  with Cons.prems obtain p rs where p: "start_progress d = Inr p" "records = (q, d, p) # rs"
      and run: "map_tx qs f db = Inr (rs, db')"
    by (cases "start_progress d") (auto simp: f elim!: bind_txE)
  from Cons.IH [OF run] p x show ?case by simp
qed simp

lemma seed_global_progress_rows:
  assumes "seed_global_progress u r qs db = Inr ((), db')" "distinct (map fst qs)" "\<not> has_progress_rows u r db"
  shows "\<exists>new. db' = with_rows db new \<and> map pg_quest_id new = map fst qs \<and> (\<forall>p \<in> set new. fresh_row u r p)"
proof -
  from assms(1) obtain records db1 where rec: "map_tx qs (\<lambda>(q, d). bind_tx (lift_tx (lift_py (start_progress d)))
        (\<lambda>p. return_tx (q, d, p))) db = Inr (records, db1)"
      and run: "for_tx records (\<lambda>(q, d, p). insert_progress u r q d p) db1 = Inr ((), db')"
    by (auto simp: seed_global_progress_def elim!: bind_txE)
  note records = seed_records [OF _ rec, simplified]
  have "\<not> taken u r q db" for q using assms(3) by (auto simp: taken_def has_progress_rows_def has_row_iff)
  with seed_rows [OF run] records assms(2) show ?thesis by auto
qed

lemma distinct_global_quests:
  assumes "db_ok db" shows "distinct (map fst (get_global_quests r db))"
proof -
  have "inj_on (\<lambda>x. (r, qr_quest_id x)) {x \<in> set (quest_rotation db). qr_rotation_id x = r \<and> qr_user_id x = None}"
  proof (rule inj_onI)
    fix x y assume *: "x \<in> {x \<in> set (quest_rotation db). qr_rotation_id x = r \<and> qr_user_id x = None}"
      "y \<in> {x \<in> set (quest_rotation db). qr_rotation_id x = r \<and> qr_user_id x = None}"
      "(r, qr_quest_id x) = (r, qr_quest_id y)"
    have "inj_on (\<lambda>r. (qr_rotation_id r, qr_quest_id r)) (set (filter (\<lambda>r. qr_user_id r = None) (quest_rotation db)))"
      using assms by (simp add: db_ok_def quest_rotation_ok_def global_rotation_keys_def distinct_map)
    with * show "x = y" by (auto dest: inj_onD)
  qed
  then have "inj_on qr_quest_id {x \<in> set (quest_rotation db). qr_rotation_id x = r \<and> qr_user_id x = None}"
    by (auto simp: inj_on_def)
  moreover have "distinct (quest_rotation db)"
    using assms by (simp add: db_ok_def quest_rotation_ok_def distinct_map)
  ultimately show ?thesis by (simp add: get_global_quests_def comp_def distinct_map)
qed

lemma global_quest_ids: "db_ok db \<Longrightarrow> None \<notin> set (map fst (get_global_quests r db))"
  by (auto simp: get_global_quests_def db_ok_def quest_rotation_ok_def)

lemma insert_bounty_frame:
  assumes "insert_bounty r u d db = Inr ((), db')"
  shows "quest_progress db' = quest_progress db \<and> next_progress_id db' = next_progress_id db
     \<and> get_bounty_for_user r u db' \<noteq> None \<and> get_global_quests r db' = get_global_quests r db"
  using assms
  by (auto simp: insert_bounty_def get_bounty_for_user_def get_global_quests_def first_where_None has_row_iff
      split: option.splits prod.splits if_splits)

lemma provision_again:
  "has_progress_rows u r db \<Longrightarrow> provision_quests R u r db = Inr ((), db)"
  "get_global_quests r db = [] \<Longrightarrow> get_bounty_for_user r u db \<noteq> None \<Longrightarrow> provision_quests R u r db = Inr ((), db)"
  by (auto simp: provision_quests_def seed_global_progress_def)

text \<open>Provisioning creates, for a user without rows in the rotation, one open row with its
  initial progress for every global quest and for a new bounty, and no other row; doing it again
  changes nothing, whatever bounty the dice would give.\<close>

lemma provisioned_once:
  assumes "db_ok db" "provision_quests R u r db = Inr ((), db')"
  shows "(\<exists>new. quest_progress db' = quest_progress db @ new
        \<and> map pg_quest_id new = (if has_progress_rows u r db then [] else map fst (get_global_quests r db)
             @ (if get_bounty_for_user r u db = None then [None] else []))
        \<and> (\<forall>p \<in> set new. fresh_row u r p))
     \<and> provision_quests R' u r db' = Inr ((), db')"
proof (cases "has_progress_rows u r db")
  case True
  with provision_again(1) [OF True] assms(2) show ?thesis by simp
next
  case False
  with assms(2) obtain db1 where seed: "seed_global_progress u r (get_global_quests r db) db = Inr ((), db1)"
    and rest: "(case get_bounty_for_user r u db1 of Some _ \<Rightarrow> return_tx ()
        | None \<Rightarrow> bind_tx (read_tx (generate_bounty_for_user R u r)) (\<lambda>bounty.
            bind_tx (insert_bounty r u (bo_quest_data bounty)) (\<lambda>_.
            seed_bounty_progress u r (bo_quest_data bounty)))) db1 = Inr ((), db')"
    by (auto simp: provision_quests_def elim!: bind_txE)
  from seed_global_progress_rows [OF seed distinct_global_quests [OF assms(1)] False]
  obtain new where new: "db1 = with_rows db new" "map pg_quest_id new = map fst (get_global_quests r db)"
      "\<forall>p \<in> set new. fresh_row u r p" by auto
  show ?thesis
  proof (cases "get_bounty_for_user r u db")
    case (Some b)
    then have db': "db' = db1" using rest new by simp
    have "provision_quests R' u r db1 = Inr ((), db1)"
    proof (cases new)
      case Nil
      with new Some show ?thesis by (intro provision_again(2)) auto
    next
      case (Cons p ps)
      with new show ?thesis by (intro provision_again(1)) (auto simp: has_progress_rows_def has_row_iff fresh_row_def)
    qed
    with new Some db' False show ?thesis by auto
  next
    case None
    with rest new obtain d db2 where bounty: "insert_bounty r u d db1 = Inr ((), db2)"
        and seed2: "seed_bounty_progress u r d db2 = Inr ((), db')"
      by (auto elim!: bind_txE)
    from seed2 obtain p where p: "start_progress d = Inr p" "insert_progress u r None d p db2 = Inr ((), db')"
      by (cases "start_progress d") (auto simp: seed_bounty_progress_def)
    have rows2: "quest_progress db2 = quest_progress db @ new"
      using insert_bounty_frame [OF bounty] new by simp
    have "pg_quest_id q \<noteq> None" if "q \<in> set new" for q
      using that new(2) global_quest_ids [OF assms(1), of r] by (metis image_eqI list.set_map)
    then have "\<not> taken u r None db2"
      using False by (auto simp: taken_def rows2 has_progress_rows_def has_row_iff)
    with p(2) obtain row where row: "db' = with_rows db2 [row]" "pg_quest_id row = None" "pg_quest_data row = d"
        "pg_progress row = p" "pg_user_id row = u" "pg_rotation_id row = r" "pg_completed_at row = None"
        "pg_claimed_at row = None"
      by (rule insert_progress_new)
    have "fresh_row u r row" using row p(1) by (simp add: fresh_row_def)
    moreover have "has_progress_rows u r db'" using row by (simp add: has_progress_rows_def has_row_iff rows2)
    ultimately show ?thesis using None False new row rows2 provision_again(1) by (intro conjI exI [of _ "new @ [row]"]) auto
  qed
qed

definition sample_rolls :: bounty_rolls where
  "sample_rolls = \<lparr>br_type = 0, br_completion = 0, br_rival = 0, br_map = 0, br_rival_keys = id,
     br_map_keys = id, br_gap_keys = id\<rparr>"

definition sample_new_week :: econ where
  "sample_new_week = sample_db\<lparr>quest_progress := []\<rparr>"

lemma sample_new_week_ok: "db_ok sample_new_week"
  using sample_db_ok by (simp add: sample_new_week_def db_ok_def db_ok_parts db_lookup_defs)

lemma provisioned_once_witness:
  "\<exists>db'. provision_quests sample_rolls 1 500 sample_new_week = Inr ((), db')
     \<and> map pg_quest_id (quest_progress db') = [Some 19, None]"
proof -
  have "case provision_quests sample_rolls 1 500 sample_new_week of Inr _ \<Rightarrow> True | Inl _ \<Rightarrow> False"
    by code_simp
  then obtain db' where run: "provision_quests sample_rolls 1 500 sample_new_week = Inr ((), db')"
    by (auto split: sum.splits)
  have "map fst (get_global_quests 500 sample_new_week) = [Some 19]" "get_bounty_for_user 500 1 sample_new_week = None"
    "\<not> has_progress_rows 1 500 sample_new_week" "quest_progress sample_new_week = []"
    by (simp_all add: get_global_quests_def get_bounty_for_user_def has_progress_rows_def sample_new_week_def sample_db_def)
  with provisioned_once [OF sample_new_week_ok run] run show ?thesis by auto
qed

subsection \<open>Bounties\<close>

text \<open>A hundredth of a second is the shortest time the database stores.\<close>

definition times_ok :: "econ \<Rightarrow> bool" where
  "times_ok db \<longleftrightarrow> (\<forall>c \<in> set (completions db). 1 / 100 \<le> cp_time c)"

lemma tiny: "(2 :: rat) powi (- 1022) \<le> 1 / 1000"
  using power_int_increasing [of "- 1022" "- 10" "2 :: rat"] by (simp add: power_int_minus)

lemma best_time_on_ge:
  assumes "\<forall>c \<in> set (completions db). a \<le> cp_time c" "best_time_on u m db = Some t"
  shows "a \<le> t"
proof -
  let ?ts = "map cp_time (filter (\<lambda>c. counts_for_bounty u c \<and> cp_map_id c = m) (completions db))"
  from assms(2) obtain z zs where ts: "?ts = z # zs" and t: "t = foldl min z zs"
    unfolding best_time_on_def by (cases ?ts) auto
  have "t \<in> set ?ts" unfolding ts t foldl_min_Min using Min_in [of "insert z (set zs)"] by simp
  then show ?thesis using assms(1) by auto
qed

lemma nine_tenths:
  assumes "1 / 1000 \<le> x" shows "fl (x * fl (9 / 10)) < x"
proof -
  have a: "fl (9 / 10) \<le> 9 / 10 * (1 + 1 / 2 ^ 53)" "9 / 10 * (1 - 1 / 2 ^ 53) \<le> fl (9 / 10)"
    using fl_close [of "9 / 10"] tiny by simp_all
  have "(2 :: rat) powi (- 1022) \<le> 1 / 2 ^ 100" using power_int_increasing [of "- 1022" "- 100" "2 :: rat"]
    by (simp add: power_int_minus inverse_eq_divide)
  also have "\<dots> \<le> 1 / 1000 * (1 / 2)" by simp
  also have "\<dots> \<le> x * fl (9 / 10)" using assms a(2) by (intro mult_mono) (auto intro: order_trans)
  finally have "fl (x * fl (9 / 10)) \<le> x * fl (9 / 10) * (1 + 1 / 2 ^ 53)" by (rule fl_close)
  also have "\<dots> \<le> x * (9 / 10 * (1 + 1 / 2 ^ 53)) * (1 + 1 / 2 ^ 53)"
    using assms a(1) by (intro mult_right_mono mult_left_mono) auto
  also have "\<dots> < x" using assms by (simp add: field_simps)
  finally show ?thesis .
qed

lemma improvement_target_faster:
  "1 / 1000 \<le> x \<Longrightarrow> fst (improvement_target x m p) < x"
  using nine_tenths [of x] by (auto simp: improvement_target_def Let_def)

lemma completion_time_ok:
  assumes "times_ok db" "c \<in> set (get_user_completions u db)"
  shows "1 / 1000 \<le> bc_time c"
proof -
  from assms(2) have "\<exists>m t. best_time_on u m db = Some t \<and> bc_time c = fl t"
    by (auto simp: get_user_completions_def split: option.splits) (metis bounty_completion.select_convs(2))+
  then obtain m t where t: "best_time_on u m db = Some t" "bc_time c = fl t" by blast
  from best_time_on_ge [OF assms(1) [unfolded times_ok_def] t(1)] have "1 / 100 \<le> t" .
  moreover then have "t * (1 - 1 / 2 ^ 53) \<le> fl t" using fl_close(2) [of t] tiny by linarith
  ultimately show ?thesis using t(2) by (simp add: field_simps)
qed

text \<open>A bounty whose quest starts open.\<close>

definition starts_open :: "bounty \<Rightarrow> bool" where
  "starts_open b \<longleftrightarrow> (\<exists>r p. requirements_of (bo_quest_data b) = Inr r \<and> requirements_ok r
     \<and> start_progress (bo_quest_data b) = Inr p \<and> is_quest_complete p r = Inr False)"

lemma requirements_of_bounty [simp]: "requirements_of (bounty_data n d t r) = Inr r"
  by (simp add: requirements_of_def bounty_data_def dget_or_def)

lemma starts_open_bounty:
  "starts_open \<lparr>bo_user_id = u, bo_rotation_id = i, bo_quest_data = bounty_data n d t r\<rparr>
     \<longleftrightarrow> requirements_ok r \<and> (\<exists>p. initial_progress r = Inr p \<and> is_quest_complete p r = Inr False)"
  by (simp add: starts_open_def start_progress_def)

lemma open_timed:
  assumes "requirements_ok r" "timed r" "dget r ''target_time'' = JFloat x"
    and "dget r ''current_best'' = JNull \<or> (\<exists>y. dget r ''current_best'' = JFloat y \<and> x \<le> y)"
  shows "starts_open \<lparr>bo_user_id = u, bo_rotation_id = i, bo_quest_data = bounty_data n d t r\<rparr>"
proof -
  from initial_progress_ok [OF assms(1)] assms(2) obtain p where p: "initial_progress r = Inr p"
      "dget p ''best_attempt'' = dget r ''current_best''" by blast
  have "number_or_null (dget p ''best_attempt'')" "number_or_null (dget r ''target_time'')"
    using p assms(1) by (simp_all add: requirements_ok_def)
  from timed_complete [OF this] have "is_complete_time_target p r = Inr False"
    using assms(3,4) p(2) by (auto simp: best_time_def time_of_def)
  with p(1) assms(1,2) show ?thesis by (simp add: starts_open_bounty complete_dispatch)
qed

lemma open_gap_filling: "starts_open (generate_gap_filling_bounty R u r db)"
  by (simp add: generate_gap_filling_bounty_def Let_def starts_open_bounty initial_progress_def text_or_null_def
      has_type_def dget_def hashable_def requirements_ok_def medal_req_ok_def number_or_null_def is_quest_complete_def dget_or_def)

lemma random_choice_in: "xs \<noteq> [] \<Longrightarrow> random_choice k xs \<in> set xs"
  by (simp add: random_choice_def)

lemma open_personal_improvement:
  assumes "times_ok db" shows "starts_open (generate_personal_improvement_bounty R u r db)"
proof (cases "get_user_completions u db = []")
  case True
  then show ?thesis by (simp add: generate_personal_improvement_bounty_def open_gap_filling)
next
  case False
  let ?c = "random_choice (br_completion R) (get_user_completions u db)"
  from False have "1 / 1000 \<le> bc_time ?c" by (intro completion_time_ok [OF assms, where u = u] random_choice_in)
  note faster = improvement_target_faster [OF this]
  obtain x k where k: "improvement_target (bc_time ?c) (map_option fst (next_medal (bc_time ?c) (get_medal_thresholds
      (mp_id (bc_map ?c)) db))) (get_percentile_target_time (mp_id (bc_map ?c)) (fl (6 / 10)) db) = (x, k)"
    by fastforce
  then have x: "x < bc_time ?c" using faster by (metis fst_conv)
  let ?r = "\<lambda>extra. [(''type'', JStr ''beat_time''), (''map_id'', JInt (mp_id (bc_map ?c))), (''target_time'', JFloat x),
     (''target_type'', JStr k), (''current_best'', JFloat (bc_time ?c))] @ extra"
  have "requirements_ok (?r extra)" "timed (?r extra)" "dget (?r extra) ''target_time'' = JFloat x"
    "dget (?r extra) ''current_best'' = JFloat (bc_time ?c)" if "extra = [] \<or> (\<exists>v. extra = [(''medal_type'', v)] \<and> text_or_null v)" for extra
    using that by (auto simp: requirements_ok_def medal_req_ok_def timed_def has_type_def dget_def number_or_null_def text_or_null_def)
  then have "starts_open \<lparr>bo_user_id = u, bo_rotation_id = r, bo_quest_data = bounty_data n d t (?r extra)\<rparr>"
    if "extra = [] \<or> (\<exists>v. extra = [(''medal_type'', v)] \<and> text_or_null v)" for extra n d t
    using that x by (intro open_timed) auto
  then show ?thesis
    using False k by (auto simp: generate_personal_improvement_bounty_def Let_def text_or_null_def split: option.split)
qed

lemma open_rival_challenge:
  assumes "times_ok db" shows "starts_open (generate_rival_challenge_bounty R u r db)"
proof -
  have "starts_open \<lparr>bo_user_id = u, bo_rotation_id = r, bo_quest_data = bounty_data n d t
     [(''type'', JStr ''beat_rival''), (''map_id'', JInt m), (''rival_user_id'', JInt v), (''rival_time'', JFloat x),
      (''target_time'', JFloat x)]\<rparr>" for n d t m v x
    by (rule open_timed) (simp_all add: requirements_ok_def medal_req_ok_def timed_def has_type_def dget_def
        number_or_null_def text_or_null_def)
  then show ?thesis
    using open_personal_improvement [OF assms]
    by (auto simp: generate_rival_challenge_bounty_def Let_def split: option.split)
qed

text \<open>Whatever the dice say, the bounty handed to a user has well-formed requirements and an
  initial progress that is not complete: a personal best to beat is faster than the user's own
  best time.\<close>

lemma bounty_starts_open:
  assumes "times_ok db"
  shows "\<exists>req p. requirements_of (bo_quest_data (generate_bounty_for_user R u r db)) = Inr req \<and> requirements_ok req
     \<and> start_progress (bo_quest_data (generate_bounty_for_user R u r db)) = Inr p \<and> is_quest_complete p req = Inr False"
  using open_personal_improvement [OF assms] open_rival_challenge [OF assms] open_gap_filling
  unfolding generate_bounty_for_user_def Let_def starts_open_def by (auto split: if_split)

lemma bounty_starts_open_witness:
  "starts_open (generate_bounty_for_user sample_rolls 1 500 (sample_db\<lparr>completions := [\<lparr>cp_map_id = 7,
     cp_user_id = 1, cp_time = 1 / 100, cp_verified = True, cp_legacy = False, cp_inserted_at = 0\<rparr>]\<rparr>))"
  unfolding starts_open_def by (rule bounty_starts_open) (simp add: times_ok_def)

end
