(* ===== verification/Tourney_Db.thy ===== *)
theory Tourney_Db
  imports Lootbox_Service
begin

section \<open>The tournament database\<close>

text \<open>
  The tables of the schema \<open>tournaments\<close> after migration 0030, next to the economy they pay
  into. The generated columns \<open>verified\<close> and \<open>completion\<close> of a completion are functions of its
  row. The tier columns of a category are the lists the service encodes into them; the payload of
  an outbox row keeps the keys of its JSON object, so a key may be missing.
\<close>

subsection \<open>Rows\<close>

datatype cycle_status = CyclePending | CycleActive | CycleFinalizing | CycleCompleted

datatype edition_status = EditionActive | EditionAwaitingResults | EditionCompleted

datatype verdict = VerdictPending | VerdictVerified | VerdictRejected

record tournament_config_row =
  cg_blacklist_weeks :: int
  cg_biweekly :: bool
  cg_anchor_weekday :: int
  cg_anchor_time :: int
  cg_anchor_tz :: string
  cg_transitions_paused :: bool
  cg_debug_cycle_seconds :: "int option"

record category_row =
  ca_id :: int
  ca_name :: string
  ca_difficulties :: "string list"
  ca_participation_xp :: int
  ca_placement_xp :: "placement_tier list"
  ca_streak_xp :: "streak_tier list"
  ca_is_active :: bool

record cycle_row =
  cy_id :: int
  cy_category_id :: int
  cy_map_id :: int
  cy_status :: cycle_status
  cy_started_at :: "int option"
  cy_edition_id :: "int option"

record tcompletion_row =
  tc_id :: int
  tc_cycle_id :: int
  tc_user_id :: int
  tc_map_id :: int
  tc_time :: rat
  tc_video :: "string option"
  tc_status :: verdict
  tc_inserted_at :: int

definition tc_verified :: "tcompletion_row \<Rightarrow> bool" where
  "tc_verified c \<longleftrightarrow> tc_status c = VerdictVerified"

definition tc_completion :: "tcompletion_row \<Rightarrow> bool" where
  "tc_completion c \<longleftrightarrow> tc_video c \<noteq> None"

record streak_row =
  sk_user_id :: int
  sk_current_streak :: int
  sk_max_streak :: int
  sk_last_cycle_id :: "int option"

record grant_row =
  gr_cycle_id :: int
  gr_user_id :: int
  gr_reason :: string
  gr_amount :: int

record edition_row =
  ed_id :: int
  ed_started_at :: int
  ed_ends_at :: int
  ed_status :: edition_status
  ed_start_announced :: bool

record transition_payload =
  pl_edition_id :: int
  pl_results :: "cycle_completed_event list"
  pl_started :: "cycle_started_event list option"
  pl_results_pending :: "bool option"

record transition_row =
  tn_id :: int
  tn_edition_id :: "int option"
  tn_event_type :: string
  tn_payload :: transition_payload
  tn_published :: bool
  tn_created_at :: int

record tdb =
  economy :: econ
  tconfig :: tournament_config_row
  categories :: "category_row list"
  cycles :: "cycle_row list"
  tcompletions :: "tcompletion_row list"
  streaks :: "streak_row list"
  xp_grants :: "grant_row list"
  editions :: "edition_row list"
  transitions :: "transition_row list"
  next_cycle_id :: int
  next_tcompletion_id :: int
  next_edition_id :: int
  next_transition_id :: int

type_synonym tworld = "(tdb, message) world"
type_synonym 'a ttx = "(err, tdb, 'a) tx"
type_synonym 'a tio = "(err, tworld, 'a) io"

subsection \<open>Statements on the economy\<close>

text \<open>The lootbox statements run on the same connection as the tournament statements.\<close>

definition in_econ :: "'a etx \<Rightarrow> 'a ttx" where
  "in_econ m = (\<lambda>db. case m (economy db) of
      Inl e \<Rightarrow> Inl e | Inr (x, ec) \<Rightarrow> Inr (x, db\<lparr>economy := ec\<rparr>))"

text \<open>A method of another service, on its own connections.\<close>

definition on_econ :: "'a eio \<Rightarrow> 'a tio" where
  "on_econ m = (\<lambda>w. case m \<lparr>wdb = economy (wdb w), wmq = wmq w\<rparr> of
      (r, w') \<Rightarrow> (r, w\<lparr>wdb := (wdb w)\<lparr>economy := wdb w'\<rparr>, wmq := wmq w'\<rparr>))"

subsection \<open>A transaction that publishes\<close>

text \<open>
  The outbox publishes while its transaction is open. \<open>publish_message\<close> takes a connection of its
  own: the job row it inserts is committed at once, and the message is sent, whatever becomes of
  the transaction. So an open transaction \<open>'a ptx\<close> has two states: its own view of the database and
  the committed world outside; an error discards the first only.
\<close>

type_synonym 'a ptx = "tdb \<Rightarrow> econ_world \<Rightarrow> (err + 'a \<times> tdb) \<times> econ_world"

definition return_p :: "'a \<Rightarrow> 'a ptx" where
  "return_p x = (\<lambda>db out. (Inr (x, db), out))"

definition bind_p :: "'a ptx \<Rightarrow> ('a \<Rightarrow> 'b ptx) \<Rightarrow> 'b ptx" where
  "bind_p m k = (\<lambda>db out. case m db out of
      (Inl e, out') \<Rightarrow> (Inl e, out') | (Inr (x, db'), out') \<Rightarrow> k x db' out')"

definition tx_p :: "'a ttx \<Rightarrow> 'a ptx" where
  "tx_p m = (\<lambda>db out. (m db, out))"

definition outside_p :: "(econ_world \<Rightarrow> 'a eio) \<Rightarrow> 'a ptx" where
  "outside_p m = (\<lambda>db out. case m out out of
      (Inl e, out') \<Rightarrow> (Inl e, out') | (Inr x, out') \<Rightarrow> (Inr (x, db), out'))"

fun fold_p :: "'b list \<Rightarrow> ('b \<Rightarrow> 'a \<Rightarrow> 'a ptx) \<Rightarrow> 'a \<Rightarrow> 'a ptx" where
  "fold_p [] f a = return_p a"
| "fold_p (x # xs) f a = bind_p (f x a) (fold_p xs f)"

text \<open>Commit: the job rows are those of the world outside, every other table is the transaction's.\<close>

definition in_transaction :: "'a ptx \<Rightarrow> 'a tio" where
  "in_transaction m = (\<lambda>w. case m (wdb w) \<lparr>wdb = economy (wdb w), wmq = wmq w\<rparr> of
      (Inl e, out) \<Rightarrow> (Inl e, w\<lparr>wdb := (wdb w)\<lparr>economy := wdb out\<rparr>, wmq := wmq out\<rparr>)
    | (Inr (x, db), out) \<Rightarrow> (Inr x, w\<lparr>wdb := db\<lparr>economy := (economy db)\<lparr>jobs := jobs (wdb out)\<rparr>\<rparr>, wmq := wmq out\<rparr>))"

lemma bind_p_simps [simp]:
  "bind_p (return_p x) k = k x" "bind_p (bind_p m k) l = bind_p m (\<lambda>x. bind_p (k x) l)"
  by (auto simp: fun_eq_iff bind_p_def return_p_def split: prod.splits sum.splits)

lemma bind_tx_p: "bind_p (tx_p m) k db out = (case m db of Inl e \<Rightarrow> (Inl e, out) | Inr (x, db') \<Rightarrow> k x db' out)"
  by (simp add: bind_p_def tx_p_def split: sum.splits)

lemma bind_pE:
  assumes "bind_p m k db out = (Inr (y, db'), out')"
  obtains x db1 out1 where "m db out = (Inr (x, db1), out1)" "k x db1 out1 = (Inr (y, db'), out')"
  using assms by (auto simp: bind_p_def split: prod.splits sum.splits)

end
