(* ===== verification/Tourney_Repo.thy ===== *)
theory Tourney_Repo
  imports Tourney_Db Quest_Bounty "HOL-Library.Product_Lexorder"
begin

section \<open>Tournament repository\<close>

text \<open>
  The methods of \<open>apps/api/repository/tournaments_repository.py\<close> the reward service, the outbox
  and the verdicts use: categories, streaks, the grant ledger, verdicts, editions and their cycles,
  the leaderboard and the outbox table.
\<close>

subsection \<open>Lookups\<close>

definition fetch_category :: "int \<Rightarrow> tdb \<Rightarrow> category_row option" where
  "fetch_category category_id db = first_where (\<lambda>c. ca_id c = category_id) (categories db)"

definition fetch_cycle :: "int \<Rightarrow> tdb \<Rightarrow> cycle_row option" where
  "fetch_cycle cycle_id db = first_where (\<lambda>c. cy_id c = cycle_id) (cycles db)"

definition cycle_exists :: "int \<Rightarrow> tdb \<Rightarrow> bool" where
  "cycle_exists i db \<longleftrightarrow> has_row (\<lambda>c. cy_id c = i) (cycles db)"

definition fetch_streak :: "int \<Rightarrow> tdb \<Rightarrow> streak_row option" where
  "fetch_streak user_id db = first_where (\<lambda>s. sk_user_id s = user_id) (streaks db)"

definition fetch_all_streak_user_ids :: "tdb \<Rightarrow> int list" where
  "fetch_all_streak_user_ids db = map sk_user_id (streaks db)"

definition fetch_cycle_participants :: "int \<Rightarrow> tdb \<Rightarrow> int list" where
  "fetch_cycle_participants cycle_id db =
     remdups (map tc_user_id (filter (\<lambda>c. tc_cycle_id c = cycle_id) (tcompletions db)))"

definition fetch_tournament_completion :: "int \<Rightarrow> tdb \<Rightarrow> tcompletion_row option" where
  "fetch_tournament_completion tournament_completion_id db =
     first_where (\<lambda>c. tc_id c = tournament_completion_id) (tcompletions db)"

subsection \<open>Streaks\<close>

text \<open>\<open>INSERT .. ON CONFLICT (user_id) DO UPDATE\<close>; the returned row is the one after the update.\<close>

definition advance_streak :: "int \<Rightarrow> int \<Rightarrow> bool \<Rightarrow> streak_row ttx" where
  "advance_streak user_id cycle_id participated = (\<lambda>db.
     let no_user = Inl (Repo (ForeignKeyViolationError ''streaks_user_id_fkey'' ''tournaments.streaks''));
         no_cycle = Inl (Repo (ForeignKeyViolationError ''streaks_last_cycle_id_fkey'' ''tournaments.streaks''))
     in case fetch_streak user_id db of
       None \<Rightarrow>
         let n = (if participated then 1 else 0);
             row = \<lparr>sk_user_id = user_id, sk_current_streak = n, sk_max_streak = n, sk_last_cycle_id = Some cycle_id\<rparr>
         in if \<not> user_exists user_id (economy db) then no_user
            else if \<not> cycle_exists cycle_id db then no_cycle
            else Inr (row, db\<lparr>streaks := streaks db @ [row]\<rparr>)
     | Some s \<Rightarrow>
         let n = sk_current_streak s + 1;
             row =
               (if \<not> participated then s\<lparr>sk_current_streak := 0, sk_last_cycle_id := Some cycle_id\<rparr>
                else if sk_last_cycle_id s = Some cycle_id then s
                else s\<lparr>sk_current_streak := n, sk_max_streak := max (sk_max_streak s) n, sk_last_cycle_id := Some cycle_id\<rparr>)
         in if \<not> int4_ok (sk_current_streak row) then Inl (Pg NumericOutOfRange)
            else if \<not> cycle_exists cycle_id db then no_cycle
            else Inr (row, db\<lparr>streaks := update_where (\<lambda>r. sk_user_id r = user_id) (\<lambda>_. row) (streaks db)\<rparr>))"

subsection \<open>The grant ledger\<close>

definition granted :: "int \<Rightarrow> int \<Rightarrow> string \<Rightarrow> tdb \<Rightarrow> bool" where
  "granted cycle_id user_id reason db \<longleftrightarrow>
     has_row (\<lambda>g. gr_cycle_id g = cycle_id \<and> gr_user_id g = user_id \<and> gr_reason g = reason) (xp_grants db)"

definition claim_xp_grant :: "int \<Rightarrow> int \<Rightarrow> string \<Rightarrow> int \<Rightarrow> bool ttx" where
  "claim_xp_grant cycle_id user_id reason amount = (\<lambda>db.
     if \<not> int4_ok amount then Inl (Pg NumericOutOfRange)
     else if reason \<notin> {''participation'', ''placement'', ''streak''}
     then Inl (Pg (CheckViolation ''xp_grants_reason_check''))
     else if granted cycle_id user_id reason db then Inr (False, db)
     else if \<not> cycle_exists cycle_id db
     then Inl (Repo (ForeignKeyViolationError ''xp_grants_cycle_id_fkey'' ''tournaments.xp_grants''))
     else if \<not> user_exists user_id (economy db)
     then Inl (Repo (ForeignKeyViolationError ''xp_grants_user_id_fkey'' ''tournaments.xp_grants''))
     else Inr (True, db\<lparr>xp_grants := xp_grants db @
            [\<lparr>gr_cycle_id = cycle_id, gr_user_id = user_id, gr_reason = reason, gr_amount = amount\<rparr>]\<rparr>))"

subsection \<open>Submissions\<close>

text \<open>\<open>numeric(10,2)\<close>: two decimals, halves away from zero, fewer than eight digits before the point.\<close>

definition numeric_10_2 :: "rat \<Rightarrow> err + rat" where
  "numeric_10_2 x =
     (let n = (if x < 0 then - \<lfloor>- x * 100 + 1 / 2\<rfloor> else \<lfloor>x * 100 + 1 / 2\<rfloor>)
      in if \<bar>n\<bar> < 10 ^ 10 then Inr (of_int n / 100) else Inl (Pg NumericOutOfRange))"

definition create_tournament_completion ::
  "env \<Rightarrow> int \<Rightarrow> int \<Rightarrow> int \<Rightarrow> rat \<Rightarrow> string option \<Rightarrow> tcompletion_row ttx" where
  "create_tournament_completion E cycle_id user_id map_id time video = (\<lambda>db.
     case numeric_10_2 (float_text time) of Inl e \<Rightarrow> Inl e | Inr t \<Rightarrow>
       let row = \<lparr>tc_id = next_tcompletion_id db, tc_cycle_id = cycle_id, tc_user_id = user_id, tc_map_id = map_id,
                  tc_time = t, tc_video = video, tc_status = VerdictPending, tc_inserted_at = env_now E\<rparr>;
           no_row = (\<lambda>c. Inl (Repo (ForeignKeyViolationError c ''tournaments.completions'')))
       in if has_row (\<lambda>c. tc_cycle_id c = cycle_id \<and> tc_user_id c = user_id \<and> tc_inserted_at c = env_now E) (tcompletions db)
          then Inl (Repo (UniqueConstraintViolationError ''completions_cycle_id_user_id_inserted_at_key'' ''tournaments.completions''))
          else if \<not> cycle_exists cycle_id db then no_row ''completions_cycle_id_fkey''
          else if \<not> user_exists user_id (economy db) then no_row ''completions_user_id_fkey''
          else if \<not> has_row (\<lambda>m. mp_id m = map_id) (maps_tbl (economy db)) then no_row ''completions_map_id_fkey''
          else Inr (row, db\<lparr>tcompletions := tcompletions db @ [row], next_tcompletion_id := next_tcompletion_id db + 1\<rparr>))"

subsection \<open>Verdicts\<close>

text \<open>The row as updated, or \<open>None\<close> if there is none or it has the verdict already.\<close>

definition set_tournament_verified :: "int \<Rightarrow> bool \<Rightarrow> tcompletion_row option ttx" where
  "set_tournament_verified tournament_completion_id verified =
     (let target = (if verified then VerdictVerified else VerdictRejected);
          changes = (\<lambda>c. tc_id c = tournament_completion_id \<and> tc_status c \<noteq> target)
      in bind_tx (read_tx (\<lambda>db. first_where changes (tcompletions db))) (\<lambda>row.
         bind_tx (write_tx (\<lambda>db. db\<lparr>tcompletions := update_where changes (\<lambda>c. c\<lparr>tc_status := target\<rparr>)
            (tcompletions db)\<rparr>)) (\<lambda>_.
         return_tx (map_option (\<lambda>c. c\<lparr>tc_status := target\<rparr>) row))))"

subsection \<open>Editions\<close>

definition count_inflight_verifications :: "int \<Rightarrow> tdb \<Rightarrow> nat" where
  "count_inflight_verifications edition_id db =
     length (filter (\<lambda>c. tc_status c = VerdictPending
        \<and> (\<exists>cy \<in> set (cycles db). cy_id cy = tc_cycle_id c \<and> cy_edition_id cy = Some edition_id
             \<and> (cy_status cy = CycleActive \<or> cy_status cy = CycleFinalizing))) (tcompletions db))"

definition fetch_awaiting_results_editions :: "tdb \<Rightarrow> edition_row list" where
  "fetch_awaiting_results_editions db =
     sort_key ed_ends_at (filter (\<lambda>e. ed_status e = EditionAwaitingResults) (editions db))"

definition fetch_edition_child_cycles :: "int \<Rightarrow> tdb \<Rightarrow> (int \<times> int) list" where
  "fetch_edition_child_cycles edition_id db =
     map (\<lambda>c. (cy_id c, cy_category_id c))
       (sort_key cy_id (filter (\<lambda>c. cy_edition_id c = Some edition_id \<and> cy_status c = CycleFinalizing) (cycles db)))"

definition fetch_active_edition_started_cycles :: "tdb \<Rightarrow> cycle_started_event list" where
  "fetch_active_edition_started_cycles db =
     concat (map (\<lambda>cy. concat (map (\<lambda>ed. map (\<lambda>m.
          \<lparr>cs_cycle_id = cy_id cy, cs_category_id = cy_category_id cy, cs_map_id = cy_map_id cy,
           cs_map_code = (case mp_code m of Some c \<Rightarrow> Some c | None \<Rightarrow> mp_original_code m),
           cs_map_name = mp_name m, cs_started_at = ed_started_at ed, cs_ends_at = ed_ends_at ed\<rparr>)
          (filter (\<lambda>m. mp_id m = cy_map_id cy) (maps_tbl (economy db))))
        (filter (\<lambda>ed. cy_edition_id cy = Some (ed_id ed) \<and> ed_status ed = EditionActive) (editions db))))
      (sort_key cy_id (filter (\<lambda>cy. cy_status cy = CycleActive) (cycles db))))"

definition mark_edition_start_announced :: "int \<Rightarrow> unit ttx" where
  "mark_edition_start_announced edition_id = write_tx (\<lambda>db. db\<lparr>editions :=
     update_where (\<lambda>e. ed_id e = edition_id) (\<lambda>e. e\<lparr>ed_start_announced := True\<rparr>) (editions db)\<rparr>)"

definition complete_edition :: "int \<Rightarrow> unit ttx" where
  "complete_edition edition_id =
     bind_tx (write_tx (\<lambda>db. db\<lparr>cycles := update_where (\<lambda>c. cy_edition_id c = Some edition_id)
        (\<lambda>c. c\<lparr>cy_status := CycleCompleted\<rparr>) (cycles db)\<rparr>)) (\<lambda>_.
     write_tx (\<lambda>db. db\<lparr>editions := update_where (\<lambda>e. ed_id e = edition_id)
        (\<lambda>e. e\<lparr>ed_status := EditionCompleted\<rparr>) (editions db)\<rparr>))"

subsection \<open>The leaderboard\<close>

text \<open>Verified first, then runs with a video, then the faster, then the earlier.\<close>

definition run_key :: "tcompletion_row \<Rightarrow> bool \<times> bool \<times> rat \<times> int" where
  "run_key c = (\<not> tc_verified c, \<not> tc_completion c, tc_time c, tc_inserted_at c)"

text \<open>\<open>DISTINCT ON (user_id)\<close>: each user's best run, of the users that exist.\<close>

definition best_runs :: "int \<Rightarrow> tdb \<Rightarrow> tcompletion_row list" where
  "best_runs cycle_id db =
     concat (map (\<lambda>u. take 1 (sort_key run_key
          (filter (\<lambda>c. tc_cycle_id c = cycle_id \<and> tc_user_id c = u) (tcompletions db))))
       (filter (\<lambda>u. user_exists u (economy db)) (fetch_cycle_participants cycle_id db)))"

definition standing_key :: "tcompletion_row \<Rightarrow> (bool \<times> bool \<times> rat \<times> int) \<times> int" where
  "standing_key c = (run_key c, tc_user_id c)"

definition display_name :: "int \<Rightarrow> econ \<Rightarrow> string" where
  "display_name user_id db = (case first_where (\<lambda>u. usr_id u = user_id) (users db) of
      None \<Rightarrow> ''Unknown'' | Some u \<Rightarrow> username u)"

text \<open>\<open>RANK()\<close> is one more than the number of rows that come strictly before.\<close>

definition fetch_leaderboard :: "int \<Rightarrow> tdb \<Rightarrow> leaderboard_entry list" where
  "fetch_leaderboard cycle_id db =
     (let runs = best_runs cycle_id db in
      map (\<lambda>c. \<lparr>le_rank = 1 + int (length (filter (\<lambda>d. standing_key d < standing_key c) runs)),
                le_user_id = tc_user_id c, le_name = display_name (tc_user_id c) (economy db),
                le_time = fl (tc_time c), le_verified = tc_verified c, le_completion = tc_completion c\<rparr>)
        (sort_key standing_key runs))"

subsection \<open>The outbox table\<close>

definition create_pending_transition :: "env \<Rightarrow> int \<Rightarrow> string \<Rightarrow> transition_payload \<Rightarrow> unit ttx" where
  "create_pending_transition E edition_id event_type payload = (\<lambda>db.
     if \<not> has_row (\<lambda>e. ed_id e = edition_id) (editions db)
     then Inl (Repo (ForeignKeyViolationError ''pending_transitions_edition_id_fkey'' ''tournaments.pending_transitions''))
     else if event_type \<notin> {''cycle_started'', ''cycle_completed'', ''edition_rollover'', ''edition_results''}
     then Inl (Repo (CheckConstraintViolationError ''pending_transitions_event_type_check'' ''tournaments.pending_transitions''))
     else Inr ((), db\<lparr>transitions := transitions db @
            [\<lparr>tn_id = next_transition_id db, tn_edition_id = Some edition_id, tn_event_type = event_type,
              tn_payload = payload, tn_published = False, tn_created_at = env_now E\<rparr>],
            next_transition_id := next_transition_id db + 1\<rparr>))"

definition fetch_unpublished_transitions :: "tdb \<Rightarrow> transition_row list" where
  "fetch_unpublished_transitions db = sort_key tn_created_at (filter (\<lambda>t. \<not> tn_published t) (transitions db))"

definition mark_transition_published :: "int \<Rightarrow> unit ttx" where
  "mark_transition_published transition_id = write_tx (\<lambda>db. db\<lparr>transitions :=
     update_where (\<lambda>t. tn_id t = transition_id \<and> \<not> tn_published t) (\<lambda>t. t\<lparr>tn_published := True\<rparr>)
       (transitions db)\<rparr>)"

end
