(* ===== verification/Tourney_Rewards.thy ===== *)
theory Tourney_Rewards
  imports Tourney_Repo
begin

section \<open>Tournament rewards\<close>

text \<open>
  \<open>apps/api/services/tournament_reward_service.py\<close>. Every grant claims a ledger row first; XP is
  written in the caller's transaction and its event is handed back to be published later.
\<close>

subsection \<open>Ledger-guarded grants\<close>

definition ledger_grant_xp ::
  "int \<Rightarrow> int \<Rightarrow> string \<Rightarrow> int \<Rightarrow> string \<Rightarrow> xp_grant_event list \<Rightarrow> xp_grant_event list ttx" where
  "ledger_grant_xp user_id amount reason cycle_id grant_reason_key pending_events =
     bind_tx (claim_xp_grant cycle_id user_id grant_reason_key amount) (\<lambda>claimed.
     if \<not> claimed then return_tx pending_events
     else
       bind_tx (in_econ (grant_xp_deferred user_id amount Tournament (Some reason) pending_events)) (\<lambda>(_, events).
       return_tx events))"

subsection \<open>Participation\<close>

definition award_participation :: "int \<Rightarrow> int \<Rightarrow> int \<Rightarrow> xp_grant_event list ttx" where
  "award_participation cycle_id category_id user_id =
     bind_tx (read_tx (fetch_category category_id)) (\<lambda>category. case category of
        None \<Rightarrow> return_tx []
      | Some c \<Rightarrow>
          if ca_participation_xp c = 0 then return_tx []
          else ledger_grant_xp user_id (ca_participation_xp c) ''Tournament Participation'' cycle_id
                 ''participation'' [])"

subsection \<open>Placements\<close>

text \<open>A dictionary from a list of tiers: the last tier with a key wins.\<close>

definition placement_by_place :: "placement_tier list \<Rightarrow> int \<Rightarrow> int option" where
  "placement_by_place tiers = map_of (rev (map (\<lambda>t. (pt_place t, pt_xp t)) tiers))"

definition placement_reason :: "int \<Rightarrow> string" where
  "placement_reason rank = ''Tournament Placement #'' @ str_of_int rank"

fun grant_placements ::
  "(int \<Rightarrow> int option) \<Rightarrow> int \<Rightarrow> leaderboard_entry list \<Rightarrow> xp_grant_event list \<Rightarrow> xp_grant_event list ttx" where
  "grant_placements xp_of_place cycle_id [] pending = return_tx pending"
| "grant_placements xp_of_place cycle_id (entry # entries) pending =
     (case xp_of_place (le_rank entry) of
        None \<Rightarrow> grant_placements xp_of_place cycle_id entries pending
      | Some xp \<Rightarrow>
          if xp = 0 then grant_placements xp_of_place cycle_id entries pending
          else bind_tx (ledger_grant_xp (le_user_id entry) xp (placement_reason (le_rank entry)) cycle_id
                 ''placement'' pending)
               (grant_placements xp_of_place cycle_id entries))"

definition award_cycle_placements :: "cycle_completed_event \<Rightarrow> xp_grant_event list ttx" where
  "award_cycle_placements event =
     bind_tx (read_tx (fetch_category (ce_category_id event))) (\<lambda>category. case category of
        None \<Rightarrow> return_tx []
      | Some c \<Rightarrow> grant_placements (placement_by_place (ca_placement_xp c)) (ce_cycle_id event)
                    (ce_standings event) [])"

subsection \<open>Streaks\<close>

definition streak_tiers :: "int \<Rightarrow> tdb \<Rightarrow> int \<Rightarrow> int option" where
  "streak_tiers category_id db = (case fetch_category category_id db of
      None \<Rightarrow> (\<lambda>_. None)
    | Some c \<Rightarrow> map_of (rev (map (\<lambda>t. (st_threshold t, st_xp t)) (ca_streak_xp c))))"

text \<open>Who submitted in any cycle of the edition, and in which categories.\<close>

definition edition_participants :: "cycle_completed_event list \<Rightarrow> tdb \<Rightarrow> int list" where
  "edition_participants results db =
     remdups (concat (map (\<lambda>e. fetch_cycle_participants (ce_cycle_id e) db) results))"

definition categories_played :: "cycle_completed_event list \<Rightarrow> int \<Rightarrow> tdb \<Rightarrow> int list" where
  "categories_played results user_id db =
     remdups (map ce_category_id (filter (\<lambda>e. user_id \<in> set (fetch_cycle_participants (ce_cycle_id e) db)) results))"

text \<open>\<open>max(.., default=0)\<close> over the categories played.\<close>

definition streak_bonus :: "cycle_completed_event list \<Rightarrow> int \<Rightarrow> int \<Rightarrow> tdb \<Rightarrow> int" where
  "streak_bonus results user_id current db =
     (case map (\<lambda>c. case streak_tiers c db current of Some xp \<Rightarrow> xp | None \<Rightarrow> 0)
         (categories_played results user_id db) of
        [] \<Rightarrow> 0 | x # xs \<Rightarrow> foldl max x xs)"

definition marker_cycle :: "cycle_completed_event list \<Rightarrow> int" where
  "marker_cycle results = (case map ce_cycle_id results of [] \<Rightarrow> 0 | x # xs \<Rightarrow> foldl max x xs)"

definition streak_reason :: "int \<Rightarrow> string" where
  "streak_reason n = ''Tournament Streak x'' @ str_of_int n"

fun advance_participants ::
  "(int \<Rightarrow> int \<Rightarrow> int) \<Rightarrow> int \<Rightarrow> int list \<Rightarrow> xp_grant_event list \<Rightarrow> xp_grant_event list ttx" where
  "advance_participants bonus_of marker [] pending = return_tx pending"
| "advance_participants bonus_of marker (user_id # us) pending =
     bind_tx (advance_streak user_id marker True) (\<lambda>streak.
     let bonus = bonus_of user_id (sk_current_streak streak) in
     if bonus = 0 then advance_participants bonus_of marker us pending
     else bind_tx (ledger_grant_xp user_id bonus (streak_reason (sk_current_streak streak)) marker ''streak'' pending)
            (advance_participants bonus_of marker us))"

text \<open>
  Python iterates over sets in an order of its own: \<open>set_order\<close> is that order. The categories and
  participants are read before the first write.
\<close>

definition award_edition_streaks ::
  "(nat \<Rightarrow> nat) \<Rightarrow> cycle_completed_event list \<Rightarrow> xp_grant_event list ttx" where
  "award_edition_streaks set_order results =
     (if results = [] then return_tx []
      else
        let marker = marker_cycle results in
        bind_tx (read_tx (edition_participants results)) (\<lambda>participants.
        bind_tx (read_tx (\<lambda>db user_id current. streak_bonus results user_id current db)) (\<lambda>bonus_of.
        bind_tx (advance_participants bonus_of marker (order_by_random set_order participants) []) (\<lambda>events.
        bind_tx (read_tx fetch_all_streak_user_ids) (\<lambda>tracked.
        bind_tx (for_tx (order_by_random set_order (filter (\<lambda>u. u \<notin> set participants) (remdups tracked)))
           (\<lambda>u. bind_tx (advance_streak u marker False) (\<lambda>_. return_tx ()))) (\<lambda>_.
        return_tx events))))))"

end
