(* ===== verification/Tourney_Outbox.thy ===== *)
theory Tourney_Outbox
  imports Tourney_Rewards
begin

section \<open>The tournament outbox\<close>

text \<open>
  \<open>apps/api/services/tournament_outbox_service.py\<close>: the poll that settles the editions waiting for
  their results, pays the rewards and publishes the rows of \<open>tournaments.pending_transitions\<close>.
\<close>

subsection \<open>Events from rows\<close>

datatype outbox_event = Rollover rollover_event | Results results_event

primrec event_edition_id :: "outbox_event \<Rightarrow> int" where
  "event_edition_id (Rollover e) = re_edition_id e"
| "event_edition_id (Results e) = rs_edition_id e"

primrec event_results :: "outbox_event \<Rightarrow> cycle_completed_event list" where
  "event_results (Rollover e) = re_results e"
| "event_results (Results e) = rs_results e"

primrec event_payload :: "outbox_event \<Rightarrow> payload" where
  "event_payload (Rollover e) = TournamentRollover e"
| "event_payload (Results e) = TournamentEditionResults e"

text \<open>\<open>msgspec.convert\<close> refuses a payload without \<open>started\<close>, and a started cycle without a map code.\<close>

definition convert_rollover :: "transition_payload \<Rightarrow> py_error + rollover_event" where
  "convert_rollover p = (case pl_started p of
      None \<Rightarrow> Inl ValidationError
    | Some started \<Rightarrow>
        if \<exists>c \<in> set started. cs_map_code c = None then Inl ValidationError
        else Inr \<lparr>re_edition_id = pl_edition_id p, re_results = pl_results p, re_started = started,
                  re_results_pending = (case pl_results_pending p of Some b \<Rightarrow> b | None \<Rightarrow> False)\<rparr>)"

definition build_event :: "transition_row \<Rightarrow> py_error + string \<times> outbox_event" where
  "build_event row =
     (if tn_event_type row = ''edition_rollover''
      then (case convert_rollover (tn_payload row) of
              Inl e \<Rightarrow> Inl e | Inr ev \<Rightarrow> Inr (''api.tournament.rollover'', Rollover ev))
      else if tn_event_type row = ''edition_results''
      then Inr (''api.tournament.results'',
             Results \<lparr>rs_edition_id = pl_edition_id (tn_payload row), rs_results = pl_results (tn_payload row)\<rparr>)
      else Inl (KeyError (tn_event_type row)))"

definition idempotency_key :: "string \<Rightarrow> int \<Rightarrow> string" where
  "idempotency_key event_type edition_id =
     (if event_type = ''edition_results'' then ''tournament:results:'' @ str_of_int edition_id
      else ''tournament:rollover:'' @ str_of_int edition_id @ '':start'')"

definition rollover_key :: "int \<Rightarrow> string" where
  "rollover_key edition_id = ''tournament:rollover:'' @ str_of_int edition_id"

subsection \<open>Publishing inside the transaction\<close>

text \<open>
  Each message takes the next job id and meets the broker in a state of its own; both are counted
  by the rows of the job table. The headers are empty, and the answer of \<open>publish_message\<close>, which may
  be the status \<open>Failed\<close>, is dropped.
\<close>

definition at_job :: "env \<Rightarrow> (nat \<Rightarrow> broker) \<Rightarrow> nat \<Rightarrow> env" where
  "at_job E outages n = E\<lparr>env_broker := outages n, env_job_ids := (\<lambda>i. env_job_ids E (n + i))\<rparr>"

definition publish_event :: "env \<Rightarrow> (nat \<Rightarrow> broker) \<Rightarrow> string \<Rightarrow> payload \<Rightarrow> string \<Rightarrow> unit ptx" where
  "publish_event E outages routing_key data key =
     bind_p (outside_p (\<lambda>out.
         let n = length (jobs (wdb out)); E' = at_job E outages n
         in publish_message E' (env_job_ids E' 0) False routing_key data (Some key)))
       (\<lambda>_. return_p ())"

subsection \<open>Results of an edition\<close>

definition build_cycle_completed_event :: "int \<Rightarrow> int \<Rightarrow> tdb \<Rightarrow> cycle_completed_event" where
  "build_cycle_completed_event cycle_id category_id db =
     (let standings = fetch_leaderboard cycle_id db in
      \<lparr>ce_cycle_id = cycle_id, ce_category_id = category_id, ce_standings = standings,
       ce_winner_user_id = (case standings of [] \<Rightarrow> None
           | e # _ \<Rightarrow> if le_rank e = 1 then Some (le_user_id e) else None)\<rparr>)"

definition write_drained_results_row :: "env \<Rightarrow> int \<Rightarrow> unit ttx" where
  "write_drained_results_row E edition_id =
     bind_tx (read_tx (\<lambda>db. map (\<lambda>(c, k). build_cycle_completed_event c k db)
        (fetch_edition_child_cycles edition_id db))) (\<lambda>results.
     bind_tx (create_pending_transition E edition_id ''edition_results''
        \<lparr>pl_edition_id = edition_id, pl_results = results, pl_started = None, pl_results_pending = None\<rparr>) (\<lambda>_.
     complete_edition edition_id))"

text \<open>Each child's leaderboard is read and its placements are paid before the next child.\<close>

fun award_children ::
  "(int \<times> int) list \<Rightarrow> cycle_completed_event list \<Rightarrow> xp_grant_event list \<Rightarrow>
     (cycle_completed_event list \<times> xp_grant_event list) ttx" where
  "award_children [] results pending = return_tx (results, pending)"
| "award_children ((cycle_id, category_id) # children) results pending =
     bind_tx (read_tx (build_cycle_completed_event cycle_id category_id)) (\<lambda>entry.
     bind_tx (award_cycle_placements entry) (\<lambda>events.
     award_children children (results @ [entry]) (pending @ events)))"

subsection \<open>Editions waiting for their results\<close>

definition announce_start ::
  "env \<Rightarrow> (nat \<Rightarrow> broker) \<Rightarrow> int \<Rightarrow> cycle_started_event list \<Rightarrow> unit ptx" where
  "announce_start E outages edition_id started =
     bind_p (tx_p (mark_edition_start_announced edition_id)) (\<lambda>_.
     publish_event E outages ''api.tournament.rollover''
       (TournamentRollover \<lparr>re_edition_id = edition_id, re_results = [], re_started = started,
          re_results_pending = True\<rparr>) (rollover_key edition_id))"

definition settle_edition ::
  "env \<Rightarrow> (nat \<Rightarrow> broker) \<Rightarrow> (nat \<Rightarrow> nat) \<Rightarrow> int \<Rightarrow> cycle_started_event list \<Rightarrow> xp_grant_event list ptx" where
  "settle_edition E outages set_order edition_id started =
     bind_p (tx_p (bind_tx (read_tx (fetch_edition_child_cycles edition_id)) (\<lambda>children.
       bind_tx (award_children children [] []) (\<lambda>(results, placed).
       bind_tx (award_edition_streaks set_order results) (\<lambda>streaked.
       return_tx (results, placed @ streaked)))))) (\<lambda>(results, events).
     bind_p (publish_event E outages ''api.tournament.rollover''
       (TournamentRollover \<lparr>re_edition_id = edition_id, re_results = results, re_started = started,
          re_results_pending = False\<rparr>) (rollover_key edition_id)) (\<lambda>_.
     bind_p (tx_p (complete_edition edition_id)) (\<lambda>_.
     return_p events)))"

definition process_awaiting_edition ::
  "env \<Rightarrow> (nat \<Rightarrow> broker) \<Rightarrow> (nat \<Rightarrow> nat) \<Rightarrow> edition_row \<Rightarrow> xp_grant_event list \<Rightarrow> xp_grant_event list ptx" where
  "process_awaiting_edition E outages set_order edition pending =
     bind_p (tx_p (read_tx (\<lambda>db. (count_inflight_verifications (ed_id edition) db,
        fetch_active_edition_started_cycles db)))) (\<lambda>(inflight, started).
     if \<not> ed_start_announced edition \<and> 0 < inflight
     then bind_p (announce_start E outages (ed_id edition) started) (\<lambda>_. return_p pending)
     else if \<not> ed_start_announced edition \<and> inflight = 0
     then bind_p (settle_edition E outages set_order (ed_id edition) started) (\<lambda>events.
            return_p (pending @ events))
     else if inflight = 0
     then bind_p (tx_p (write_drained_results_row E (ed_id edition))) (\<lambda>_. return_p pending)
     else return_p pending)"

definition process_awaiting_results_editions ::
  "env \<Rightarrow> (nat \<Rightarrow> broker) \<Rightarrow> (nat \<Rightarrow> nat) \<Rightarrow> xp_grant_event list ptx" where
  "process_awaiting_results_editions E outages set_order =
     bind_p (tx_p (read_tx fetch_awaiting_results_editions)) (\<lambda>eds.
     fold_p eds (process_awaiting_edition E outages set_order) [])"

subsection \<open>Draining the outbox\<close>

fun award_results ::
  "cycle_completed_event list \<Rightarrow> xp_grant_event list \<Rightarrow> xp_grant_event list ttx" where
  "award_results [] pending = return_tx pending"
| "award_results (entry # entries) pending =
     bind_tx (award_cycle_placements entry) (\<lambda>events. award_results entries (pending @ events))"

definition publish_transition ::
  "env \<Rightarrow> (nat \<Rightarrow> broker) \<Rightarrow> (nat \<Rightarrow> nat) \<Rightarrow> transition_row \<Rightarrow> xp_grant_event list \<Rightarrow> xp_grant_event list ptx" where
  "publish_transition E outages set_order row pending =
     bind_p (tx_p (lift_tx (lift_py (build_event row)))) (\<lambda>(routing_key, event).
     bind_p (tx_p (bind_tx (award_results (event_results event) pending) (\<lambda>placed.
        bind_tx (award_edition_streaks set_order (event_results event)) (\<lambda>streaked.
        return_tx (placed @ streaked))))) (\<lambda>events.
     bind_p (publish_event E outages routing_key (event_payload event)
        (idempotency_key (tn_event_type row) (event_edition_id event))) (\<lambda>_.
     bind_p (tx_p (mark_transition_published (tn_id row))) (\<lambda>_.
     return_p events))))"

definition poll_transaction ::
  "env \<Rightarrow> (nat \<Rightarrow> broker) \<Rightarrow> (nat \<Rightarrow> nat) \<Rightarrow> xp_grant_event list ptx" where
  "poll_transaction E outages set_order =
     bind_p (process_awaiting_results_editions E outages set_order) (\<lambda>settled.
     bind_p (tx_p (read_tx fetch_unpublished_transitions)) (\<lambda>rows.
     fold_p rows (publish_transition E outages set_order) settled))"

definition publish_pending_transitions ::
  "env \<Rightarrow> (nat \<Rightarrow> broker) \<Rightarrow> (nat \<Rightarrow> nat) \<Rightarrow> unit tio" where
  "publish_pending_transitions E outages set_order =
     bind_io (in_transaction (poll_transaction E outages set_order)) (\<lambda>events.
     \<lambda>w. on_econ (publish_xp_events (at_job E outages (length (jobs (economy (wdb w))))) False events) w)"

end
