(* ===== verification/Tourney_Verdicts.thy ===== *)
theory Tourney_Verdicts
  imports Tourney_Outbox
begin

section \<open>Verdicts and the forced publication of results\<close>

text \<open>
  The methods of \<open>apps/api/services/tournament_service.py\<close> that decide a run of its own and the escape
  hatch for results. \<open>meanwhile\<close> is what other calls commit between the first look at the run and the
  transaction that decides it. The services run with a reward service.
\<close>

subsection \<open>A verdict\<close>

definition verdict_event :: "tcompletion_row \<Rightarrow> bool \<Rightarrow> verification_changed_event" where
  "verdict_event row verified =
     \<lparr>vc_tournament_completion_id = tc_id row, vc_cycle_id = tc_cycle_id row, vc_user_id = tc_user_id row,
      vc_verified = verified, vc_time = fl (tc_time row)\<rparr>"

definition publish_verdict ::
  "env \<Rightarrow> (nat \<Rightarrow> broker) \<Rightarrow> bool \<Rightarrow> tcompletion_row \<Rightarrow> bool \<Rightarrow> string \<Rightarrow> job_status_response tio" where
  "publish_verdict E outages pytest row verified key = (\<lambda>w.
     let E' = at_job E outages (length (jobs (economy (wdb w))))
     in on_econ (publish_message E' (env_job_ids E' 0) pytest ''api.tournament.verification.changed''
          (TournamentVerificationChanged (verdict_event row verified)) (Some key)) w)"

definition noop_verdict_job ::
  "env \<Rightarrow> (nat \<Rightarrow> broker) \<Rightarrow> int \<Rightarrow> string \<Rightarrow> job_status_response tio" where
  "noop_verdict_job E outages tournament_completion_id key =
     bind_io (atomically (read_tx (fetch_tournament_completion tournament_completion_id))) (\<lambda>existing.
     case existing of
       None \<Rightarrow> raise_io (Tourney (TournamentCompletionNotFoundError tournament_completion_id))
     | Some row \<Rightarrow> publish_verdict E outages False row (tc_status row = VerdictVerified) key)"

definition decide_tx :: "int \<Rightarrow> bool \<Rightarrow> (tcompletion_row option \<times> xp_grant_event list) ttx" where
  "decide_tx tournament_completion_id verified =
     bind_tx (set_tournament_verified tournament_completion_id verified) (\<lambda>updated.
     case updated of
       None \<Rightarrow> return_tx (None, [])
     | Some row \<Rightarrow>
         if \<not> verified then return_tx (Some row, [])
         else bind_tx (read_tx (fetch_cycle (tc_cycle_id row))) (\<lambda>cycle. case cycle of
             None \<Rightarrow> return_tx (Some row, [])
           | Some cy \<Rightarrow> bind_tx (award_participation (cy_id cy) (cy_category_id cy) (tc_user_id row)) (\<lambda>events.
               return_tx (Some row, events))))"

definition publish_after :: "env \<Rightarrow> (nat \<Rightarrow> broker) \<Rightarrow> bool \<Rightarrow> xp_grant_event list \<Rightarrow> unit tio" where
  "publish_after E outages pytest events = (\<lambda>w.
     on_econ (publish_xp_events (at_job E outages (length (jobs (economy (wdb w))))) pytest events) w)"

definition set_verified ::
  "env \<Rightarrow> (nat \<Rightarrow> broker) \<Rightarrow> bool \<Rightarrow> (tdb \<Rightarrow> tdb) \<Rightarrow> int \<Rightarrow> bool \<Rightarrow> string \<Rightarrow> job_status_response tio" where
  "set_verified E outages pytest meanwhile i verified key =
     bind_io (atomically (read_tx (fetch_tournament_completion i))) (\<lambda>existing.
     case existing of
       None \<Rightarrow> raise_io (Tourney (TournamentCompletionNotFoundError i))
     | Some row0 \<Rightarrow>
         if tc_status row0 = VerdictVerified
         then (if verified then noop_verdict_job E outages i key
               else raise_io (Tourney (AlreadyVerifiedError i)))
         else
           bind_io (atomically (write_tx meanwhile)) (\<lambda>_.
           bind_io (atomically (decide_tx i verified)) (\<lambda>(updated, events).
           let conclude = (\<lambda>row.
             bind_io (publish_after E outages False events) (\<lambda>_.
             publish_verdict E outages pytest row verified key))
           in case updated of
             Some row \<Rightarrow> conclude row
           | None \<Rightarrow>
               bind_io (atomically (read_tx (fetch_tournament_completion i))) (\<lambda>current. case current of
                 None \<Rightarrow> raise_io (Tourney (TournamentCompletionNotFoundError i))
               | Some row \<Rightarrow>
                   if tc_status row = (if verified then VerdictVerified else VerdictRejected)
                   then noop_verdict_job E outages i key
                   else conclude row))))"

definition verify_tournament_completion ::
  "env \<Rightarrow> (nat \<Rightarrow> broker) \<Rightarrow> bool \<Rightarrow> (tdb \<Rightarrow> tdb) \<Rightarrow> int \<Rightarrow> job_status_response tio" where
  "verify_tournament_completion E outages pytest meanwhile i =
     set_verified E outages pytest meanwhile i True (''tournament:verify:'' @ str_of_int i)"

definition reject_tournament_completion ::
  "env \<Rightarrow> (nat \<Rightarrow> broker) \<Rightarrow> bool \<Rightarrow> (tdb \<Rightarrow> tdb) \<Rightarrow> int \<Rightarrow> job_status_response tio" where
  "reject_tournament_completion E outages pytest meanwhile i =
     set_verified E outages pytest meanwhile i False (''tournament:reject:'' @ str_of_int i)"

subsection \<open>Forced results\<close>

definition force_publish_tx :: "env \<Rightarrow> unit ttx" where
  "force_publish_tx E = bind_tx (read_tx fetch_awaiting_results_editions) (\<lambda>eds. case eds of
      [] \<Rightarrow> raise_tx (Tourney NoAwaitingResultsEditionError)
    | edition # _ \<Rightarrow> write_drained_results_row E (ed_id edition))"

definition force_publish_results :: "env \<Rightarrow> unit tio" where
  "force_publish_results E = atomically (force_publish_tx E)"

end
