(* ===== verification/Tourney_Editions.thy ===== *)
theory Tourney_Editions
  imports Tourney_Repo
begin

section \<open>Editions\<close>

text \<open>
  How editions begin: \<open>bootstrap_edition\<close> of \<open>apps/api/services/tournament_service.py\<close> and the scheduled
  function \<open>process_edition_transitions\<close> of migration 0025, with the selection of maps both use.
\<close>

subsection \<open>Time zones\<close>

text \<open>
  What PostgreSQL knows about time zones: \<open>AT TIME ZONE\<close> in both directions, and adding whole days to
  an instant in the zone of the session.
\<close>

record calendar =
  cl_local :: "string \<Rightarrow> int \<Rightarrow> int"
  cl_instant :: "string \<Rightarrow> int \<Rightarrow> int"
  cl_plus_days :: "int \<Rightarrow> int \<Rightarrow> int"

text \<open>A day number's \<open>EXTRACT(DOW)\<close>: the epoch was a Thursday.\<close>

definition next_grid_boundary :: "calendar \<Rightarrow> int \<Rightarrow> int \<Rightarrow> int \<Rightarrow> string \<Rightarrow> int \<Rightarrow> int" where
  "next_grid_boundary C now weekday tod tz period_days =
     (let local_day = cl_local C tz now div day_us;
          anchor_day = local_day + (weekday - (local_day + 4) mod 7 + 7) mod 7;
          candidate = cl_instant C tz (anchor_day * day_us + tod)
      in if candidate \<le> now then cl_plus_days C period_days candidate else candidate)"

definition cadence_days :: "tournament_config_row \<Rightarrow> int" where
  "cadence_days cg = (if cg_biweekly cg then 14 else 7)"

text \<open>\<open>_period_from_config\<close>: a \<open>timedelta\<close>, so a week is exactly seven days.\<close>

definition period_from_config :: "tournament_config_row \<Rightarrow> int" where
  "period_from_config cg = (case cg_debug_cycle_seconds cg of
      Some s \<Rightarrow> s * second_us | None \<Rightarrow> cadence_days cg * day_us)"

subsection \<open>Choosing a map\<close>

definition map_matches :: "string list \<Rightarrow> map_row \<Rightarrow> bool" where
  "map_matches difficulties m \<longleftrightarrow> mp_official m \<and> \<not> mp_archived m \<and> mp_code m \<noteq> None
     \<and> base_difficulty (mp_difficulty m) \<in> set difficulties"

text \<open>A cycle that has not started has no \<open>started_at\<close>, and \<open>NULL > t\<close> is not true.\<close>

definition used_since :: "int \<Rightarrow> tdb \<Rightarrow> int \<Rightarrow> bool" where
  "used_since t db map_id \<longleftrightarrow> has_row (\<lambda>cy. cy_map_id cy = map_id
     \<and> (case cy_started_at cy of Some s \<Rightarrow> t < s | None \<Rightarrow> False)) (cycles db)"

definition pending_map :: "tdb \<Rightarrow> int \<Rightarrow> bool" where
  "pending_map db map_id \<longleftrightarrow> has_row (\<lambda>cy. cy_map_id cy = map_id \<and> cy_status cy = CyclePending) (cycles db)"

definition fetch_eligible_maps ::
  "calendar \<Rightarrow> int \<Rightarrow> (nat \<Rightarrow> nat) \<Rightarrow> string list \<Rightarrow> int \<Rightarrow> int list \<Rightarrow> tdb \<Rightarrow> map_row list" where
  "fetch_eligible_maps C now keys difficulties blacklist_weeks exclude_map_ids db =
     order_by_random keys (filter (\<lambda>m. map_matches difficulties m
        \<and> \<not> used_since (cl_plus_days C (- (7 * blacklist_weeks)) now) db (mp_id m)
        \<and> \<not> pending_map db (mp_id m) \<and> mp_id m \<notin> set exclude_map_ids) (maps_tbl (economy db)))"

text \<open>
  One row per map and cycle on it: \<open>LEFT JOIN .. ORDER BY started_at ASC NULLS FIRST\<close>. The key of a row
  puts the rows without a start first.
\<close>

definition start_key :: "cycle_row option \<Rightarrow> bool \<times> int" where
  "start_key r = (case r of None \<Rightarrow> (False, 0)
     | Some cy \<Rightarrow> (case cy_started_at cy of None \<Rightarrow> (False, 0) | Some s \<Rightarrow> (True, s)))"

definition map_uses :: "string list \<Rightarrow> tdb \<Rightarrow> (map_row \<times> cycle_row option) list" where
  "map_uses difficulties db =
     concat (map (\<lambda>m. map (Pair m) (left_join (\<lambda>cy. cy_map_id cy = mp_id m) (cycles db)))
       (filter (map_matches difficulties) (maps_tbl (economy db))))"

definition fetch_least_recently_used_map :: "string list \<Rightarrow> tdb \<Rightarrow> map_row option" where
  "fetch_least_recently_used_map difficulties db =
     (case sort_key (start_key \<circ> snd) (map_uses difficulties db) of [] \<Rightarrow> None | (m, _) # _ \<Rightarrow> Some m)"

definition choose_eligible_map ::
  "calendar \<Rightarrow> int \<Rightarrow> (nat \<Rightarrow> nat) \<Rightarrow> string list \<Rightarrow> int \<Rightarrow> int list \<Rightarrow> tdb \<Rightarrow> map_row option" where
  "choose_eligible_map C now keys difficulties blacklist_weeks exclude_map_ids db =
     (case fetch_eligible_maps C now keys difficulties blacklist_weeks exclude_map_ids db of
        m # _ \<Rightarrow> Some m | [] \<Rightarrow> fetch_least_recently_used_map difficulties db)"

subsection \<open>Rows of an edition\<close>

definition fetch_active_edition :: "tdb \<Rightarrow> edition_row option" where
  "fetch_active_edition db =
     (case sort_key (\<lambda>e. - ed_started_at e) (filter (\<lambda>e. ed_status e = EditionActive) (editions db)) of
        [] \<Rightarrow> None | e # _ \<Rightarrow> Some e)"

definition create_edition :: "int \<Rightarrow> int \<Rightarrow> edition_row ttx" where
  "create_edition started_at ends_at = (\<lambda>db.
     let row = \<lparr>ed_id = next_edition_id db, ed_started_at = started_at, ed_ends_at = ends_at,
                ed_status = EditionActive, ed_start_announced = False\<rparr>
     in Inr (row, db\<lparr>editions := editions db @ [row], next_edition_id := next_edition_id db + 1\<rparr>))"

definition create_cycle_for_edition :: "int \<Rightarrow> int \<Rightarrow> int \<Rightarrow> int \<Rightarrow> cycle_row ttx" where
  "create_cycle_for_edition edition_id category_id map_id started_at = (\<lambda>db.
     let row = \<lparr>cy_id = next_cycle_id db, cy_category_id = category_id, cy_map_id = map_id,
                cy_status = CycleActive, cy_started_at = Some started_at, cy_edition_id = Some edition_id\<rparr>
     in if \<not> has_row (\<lambda>e. ed_id e = edition_id) (editions db)
        then Inl (Repo (ForeignKeyViolationError ''cycles_edition_id_fkey'' ''tournaments.cycles''))
        else if \<not> has_row (\<lambda>c. ca_id c = category_id) (categories db)
        then Inl (Repo (ForeignKeyViolationError ''cycles_category_id_fkey'' ''tournaments.cycles''))
        else if \<not> has_row (\<lambda>m. mp_id m = map_id) (maps_tbl (economy db))
        then Inl (Repo (ForeignKeyViolationError ''cycles_map_id_fkey'' ''tournaments.cycles''))
        else Inr (row, db\<lparr>cycles := cycles db @ [row], next_cycle_id := next_cycle_id db + 1\<rparr>))"

definition set_transitions_paused :: "bool \<Rightarrow> unit ttx" where
  "set_transitions_paused paused = write_tx (\<lambda>db. db\<lparr>tconfig := (tconfig db)\<lparr>cg_transitions_paused := paused\<rparr>\<rparr>)"

definition set_debug_cycle_seconds :: "int option \<Rightarrow> unit ttx" where
  "set_debug_cycle_seconds seconds = (\<lambda>db.
     if (case seconds of Some s \<Rightarrow> s \<le> 0 | None \<Rightarrow> False)
     then Inl (Repo (CheckConstraintViolationError ''config_debug_cycle_seconds_check'' ''tournaments.config''))
     else Inr ((), db\<lparr>tconfig := (tconfig db)\<lparr>cg_debug_cycle_seconds := seconds\<rparr>\<rparr>))"

subsection \<open>The first edition\<close>

text \<open>The keys of \<open>random()\<close> are drawn afresh for each category.\<close>

fun start_cycles ::
  "calendar \<Rightarrow> int \<Rightarrow> (nat \<Rightarrow> nat \<Rightarrow> nat) \<Rightarrow> int \<Rightarrow> edition_row \<Rightarrow> category_row list \<Rightarrow>
     cycle_started_event list ttx" where
  "start_cycles C now keys blacklist_weeks edition [] = return_tx []"
| "start_cycles C now keys blacklist_weeks edition (category # cs) =
     bind_tx (read_tx (choose_eligible_map C now (keys (length cs)) (ca_difficulties category) blacklist_weeks []))
       (\<lambda>selected. case selected of
          None \<Rightarrow> raise_tx (Tourney (NoEligibleMapsError (ca_id category)))
        | Some m \<Rightarrow>
            bind_tx (create_cycle_for_edition (ed_id edition) (ca_id category) (mp_id m) (ed_started_at edition)) (\<lambda>created.
            bind_tx (start_cycles C now keys blacklist_weeks edition cs) (\<lambda>events.
            return_tx (\<lparr>cs_cycle_id = cy_id created, cs_category_id = ca_id category, cs_map_id = mp_id m,
               cs_map_code = mp_code m, cs_map_name = mp_name m, cs_started_at = ed_started_at edition,
               cs_ends_at = ed_ends_at edition\<rparr> # events))))"

definition bootstrap_tx :: "env \<Rightarrow> calendar \<Rightarrow> (nat \<Rightarrow> nat \<Rightarrow> nat) \<Rightarrow> edition_row ttx" where
  "bootstrap_tx E C keys =
     bind_tx (read_tx fetch_active_edition) (\<lambda>active. case active of
       Some e \<Rightarrow> raise_tx (Tourney (CycleAlreadyLiveError 0 (ed_id e)))
     | None \<Rightarrow>
         bind_tx (read_tx tconfig) (\<lambda>config.
         let started_at = (if cg_debug_cycle_seconds config \<noteq> None then env_now E
               else next_grid_boundary C (env_now E) (cg_anchor_weekday config) (cg_anchor_time config)
                      (cg_anchor_tz config) (cadence_days config)) in
         bind_tx (create_edition started_at (started_at + period_from_config config)) (\<lambda>edition.
         bind_tx (set_transitions_paused False) (\<lambda>_.
         bind_tx (read_tx (\<lambda>db. filter ca_is_active (sort_key ca_name (categories db)))) (\<lambda>cats.
         bind_tx (start_cycles C (env_now E) keys (cg_blacklist_weeks config) edition cats) (\<lambda>started.
         bind_tx (create_pending_transition E (ed_id edition) ''edition_rollover''
            \<lparr>pl_edition_id = ed_id edition, pl_results = [], pl_started = Some started,
             pl_results_pending = Some False\<rparr>) (\<lambda>_.
         return_tx edition)))))))"

definition bootstrap_edition :: "env \<Rightarrow> calendar \<Rightarrow> (nat \<Rightarrow> nat \<Rightarrow> nat) \<Rightarrow> edition_row tio" where
  "bootstrap_edition E C keys = atomically (bootstrap_tx E C keys)"

subsection \<open>The scheduled transition\<close>

text \<open>
  \<open>process_edition_transitions\<close>; \<open>unlocked\<close> is the answer of the advisory lock. A category without a
  map is passed over.
\<close>

definition select_eligible_map :: "calendar \<Rightarrow> int \<Rightarrow> (nat \<Rightarrow> nat) \<Rightarrow> int \<Rightarrow> tdb \<Rightarrow> map_row option" where
  "select_eligible_map C now keys category_id db =
     choose_eligible_map C now keys (case fetch_category category_id db of Some c \<Rightarrow> ca_difficulties c | None \<Rightarrow> [])
       (cg_blacklist_weeks (tconfig db)) [] db"

fun start_scheduled_cycles ::
  "calendar \<Rightarrow> int \<Rightarrow> (nat \<Rightarrow> nat \<Rightarrow> nat) \<Rightarrow> edition_row \<Rightarrow> int list \<Rightarrow> unit ttx" where
  "start_scheduled_cycles C now keys edition [] = return_tx ()"
| "start_scheduled_cycles C now keys edition (category_id # cs) =
     bind_tx (read_tx (select_eligible_map C now (keys (length cs)) category_id)) (\<lambda>selected.
     bind_tx (case selected of
         None \<Rightarrow> return_tx ()
       | Some m \<Rightarrow> bind_tx (create_cycle_for_edition (ed_id edition) category_id (mp_id m) (ed_started_at edition))
                    (\<lambda>_. return_tx ())) (\<lambda>_.
     start_scheduled_cycles C now keys edition cs))"

definition scheduled_end :: "calendar \<Rightarrow> tournament_config_row \<Rightarrow> int \<Rightarrow> int" where
  "scheduled_end C cg t = (case cg_debug_cycle_seconds cg of
      Some s \<Rightarrow> t + s * second_us | None \<Rightarrow> cl_plus_days C (cadence_days cg) t)"

definition due_edition :: "int \<Rightarrow> tdb \<Rightarrow> edition_row option" where
  "due_edition now db =
     (case sort_key ed_ends_at (filter (\<lambda>e. ed_status e = EditionActive \<and> ed_ends_at e \<le> now) (editions db)) of
        [] \<Rightarrow> None | e # _ \<Rightarrow> Some e)"

definition process_edition_transitions ::
  "bool \<Rightarrow> calendar \<Rightarrow> int \<Rightarrow> (nat \<Rightarrow> nat \<Rightarrow> nat) \<Rightarrow> unit ttx" where
  "process_edition_transitions unlocked C now keys =
     (if \<not> unlocked then return_tx ()
      else bind_tx (read_tx tconfig) (\<lambda>cfg.
        bind_tx (read_tx (due_edition now)) (\<lambda>due. case due of
          None \<Rightarrow> return_tx ()
        | Some edition \<Rightarrow>
            bind_tx (write_tx (\<lambda>db. db\<lparr>cycles := update_where (\<lambda>cy. cy_edition_id cy = Some (ed_id edition)
                \<and> (cy_status cy = CycleActive \<or> cy_status cy = CycleFinalizing))
                (\<lambda>cy. cy\<lparr>cy_status := CycleFinalizing\<rparr>) (cycles db)\<rparr>)) (\<lambda>_.
            bind_tx (write_tx (\<lambda>db. db\<lparr>editions := update_where (\<lambda>e. ed_id e = ed_id edition)
                (\<lambda>e. e\<lparr>ed_status := EditionAwaitingResults\<rparr>) (editions db)\<rparr>)) (\<lambda>_.
            if cg_transitions_paused cfg then return_tx ()
            else bind_tx (create_edition (ed_ends_at edition) (scheduled_end C cfg (ed_ends_at edition))) (\<lambda>new_edition.
              bind_tx (read_tx (\<lambda>db. map ca_id (filter ca_is_active (sort_key ca_id (categories db))))) (\<lambda>cats.
              start_scheduled_cycles C now keys new_edition cats)))))))"

definition run_edition_transitions ::
  "bool \<Rightarrow> calendar \<Rightarrow> int \<Rightarrow> (nat \<Rightarrow> nat \<Rightarrow> nat) \<Rightarrow> unit tio" where
  "run_edition_transitions unlocked C now keys = atomically (process_edition_transitions unlocked C now keys)"

end
