(* ===== verification/Tourney_Steps.thy ===== *)
theory Tourney_Steps
  imports Tourney_Verdicts Tourney_Editions
begin

section \<open>Relations every step respects\<close>

text \<open>
  A relation between the database before and after that holds of no step and composes (the ledger
  pays for what is added to it, a lifecycle only advances) holds of a transaction when it holds of
  the statements that write. The locales carry it through the combinators; the components
  interpret them on the relations of their own.
\<close>

named_theorems moves_rules

definition moves :: "('s \<Rightarrow> 's \<Rightarrow> bool) \<Rightarrow> ('e, 's, 'a) tx \<Rightarrow> bool" where
  "moves R m \<longleftrightarrow> (\<forall>s x s'. m s = Inr (x, s') \<longrightarrow> R s s')"

definition moves_p :: "(tdb \<Rightarrow> tdb \<Rightarrow> bool) \<Rightarrow> 'a ptx \<Rightarrow> bool" where
  "moves_p R m \<longleftrightarrow> (\<forall>db out x db' out'. m db out = (Inr (x, db'), out') \<longrightarrow> R db db')"

definition moves_io :: "('db \<Rightarrow> 'db \<Rightarrow> bool) \<Rightarrow> ('e, ('db, 'msg) world, 'a) io \<Rightarrow> bool" where
  "moves_io R m \<longleftrightarrow> (\<forall>w. R (wdb w) (wdb (snd (m w))))"

lemma movesI: "(\<And>s x s'. m s = Inr (x, s') \<Longrightarrow> R s s') \<Longrightarrow> moves R m"
  by (simp add: moves_def)

lemma movesD: "moves R m \<Longrightarrow> m s = Inr (x, s') \<Longrightarrow> R s s'"
  by (simp add: moves_def)

lemma moves_ioD: "moves_io R m \<Longrightarrow> R (wdb w) (wdb (snd (m w)))"
  by (simp add: moves_io_def)

lemma moves_pD: "moves_p R m \<Longrightarrow> m db out = (Inr (x, db'), out') \<Longrightarrow> R db db'"
  unfolding moves_p_def by blast

lemma moves_write: "(\<And>s. R s (f s)) \<Longrightarrow> moves R (write_tx f)"
  by (simp add: moves_def write_tx_def)

lemma moves_raise: "moves R (raise_tx e)"
  by (simp add: moves_def raise_tx_def)

lemma moves_p_tx: "moves R m \<Longrightarrow> moves_p R (tx_p m)"
  by (auto simp: moves_def moves_p_def tx_p_def)

locale step_relation =
  fixes R :: "'s \<Rightarrow> 's \<Rightarrow> bool"
  assumes refl: "R s s"
    and trans: "R s t \<Longrightarrow> R t u \<Longrightarrow> R s u"
begin

lemma basic: "moves R (return_tx x)" "moves R (raise_tx e)" "moves R (read_tx f)" "moves R (lift_tx r)"
  by (auto simp: moves_def return_tx_def raise_tx_def read_tx_def lift_tx_def refl split: sum.splits)

lemma bind: "moves R m \<Longrightarrow> (\<And>x. moves R (k x)) \<Longrightarrow> moves R (bind_tx m k)"
  by (rule movesI, erule bind_txE) (blast dest: movesD intro: trans)

lemma if_tx: "(b \<Longrightarrow> moves R m) \<Longrightarrow> (\<not> b \<Longrightarrow> moves R m') \<Longrightarrow> moves R (if b then m else m')"
  by simp

lemma option: "(x = None \<Longrightarrow> moves R m) \<Longrightarrow> (\<And>y. x = Some y \<Longrightarrow> moves R (f y)) \<Longrightarrow>
    moves R (case x of None \<Rightarrow> m | Some y \<Rightarrow> f y)"
  by (cases x) simp_all

lemma list: "(x = [] \<Longrightarrow> moves R m) \<Longrightarrow> (\<And>y ys. x = y # ys \<Longrightarrow> moves R (f y ys)) \<Longrightarrow>
    moves R (case x of [] \<Rightarrow> m | y # ys \<Rightarrow> f y ys)"
  by (cases x) simp_all

lemma prod: "(\<And>a b. x = (a, b) \<Longrightarrow> moves R (f a b)) \<Longrightarrow> moves R (case x of (a, b) \<Rightarrow> f a b)"
  by (cases x) simp

lemma let_tx: "(\<And>x. moves R (f x)) \<Longrightarrow> moves R (Let v f)"
  by simp

lemma for_tx: "(\<And>x. moves R (f x)) \<Longrightarrow> moves R (for_tx xs f)"
  by (induction xs) (auto intro: bind basic)

lemmas rules = basic bind if_tx option list prod let_tx for_tx

lemma basic_io: "moves_io R (return_io x)" "moves_io R (raise_io e)" "moves_io R (lift_io r)"
  by (simp_all add: moves_io_def return_io_def raise_io_def lift_io_def refl)

lemma atomically: "moves R m \<Longrightarrow> moves_io R (atomically m)"
  by (auto simp: moves_def moves_io_def atomically_def refl split: sum.splits prod.splits)

lemma bind_io: "moves_io R m \<Longrightarrow> (\<And>x. moves_io R (k x)) \<Longrightarrow> moves_io R (bind_io m k)"
  unfolding moves_io_def bind_io_def
  by (auto split: sum.splits prod.splits) (metis snd_conv trans)+

lemma if_io: "(b \<Longrightarrow> moves_io R m) \<Longrightarrow> (\<not> b \<Longrightarrow> moves_io R m') \<Longrightarrow> moves_io R (if b then m else m')"
  by simp

lemma option_io: "(x = None \<Longrightarrow> moves_io R m) \<Longrightarrow> (\<And>y. x = Some y \<Longrightarrow> moves_io R (f y)) \<Longrightarrow>
    moves_io R (case x of None \<Rightarrow> m | Some y \<Rightarrow> f y)"
  by (cases x) simp_all

lemma prod_io: "(\<And>a b. x = (a, b) \<Longrightarrow> moves_io R (f a b)) \<Longrightarrow> moves_io R (case x of (a, b) \<Rightarrow> f a b)"
  by (cases x) simp

lemma let_io: "(\<And>x. moves_io R (f x)) \<Longrightarrow> moves_io R (Let v f)"
  by simp

lemmas io_rules = basic_io bind_io if_io option_io prod_io let_io

end

text \<open>On the tournament database, a relation that does not see the job table.\<close>

definition with_jobs :: "job_row list \<Rightarrow> tdb \<Rightarrow> tdb" where
  "with_jobs js db = db\<lparr>economy := (economy db)\<lparr>jobs := js\<rparr>\<rparr>"

text \<open>What an open transaction does outside is to publish: of the database only the job table grows.\<close>

definition jobs_only :: "'a ptx \<Rightarrow> bool" where
  "jobs_only m \<longleftrightarrow> (\<forall>db out. \<exists>js. wdb (snd (m db out)) = (wdb out)\<lparr>jobs := js\<rparr>)"

lemma jobs_onlyD: "jobs_only m \<Longrightarrow> m db out = (r, out') \<Longrightarrow> \<exists>js. wdb out' = (wdb out)\<lparr>jobs := js\<rparr>"
  unfolding jobs_only_def by (metis snd_conv)

lemma jobs_only_basic: "jobs_only (return_p x)" "jobs_only (tx_p m)"
proof -
  have "\<exists>js. wdb out = (wdb out)\<lparr>jobs := js\<rparr>" for out :: econ_world
    by (rule exI [of _ "jobs (wdb out)"]) simp
  then show "jobs_only (return_p x)" "jobs_only (tx_p m)"
    by (simp_all add: jobs_only_def return_p_def tx_p_def)
qed

lemma jobs_only_bind:
  assumes "jobs_only m" "\<And>x. jobs_only (k x)"
  shows "jobs_only (bind_p m k)"
  unfolding jobs_only_def
proof (intro allI)
  fix db out
  obtain r out1 where m: "m db out = (r, out1)" by fastforce
  from jobs_onlyD [OF assms(1) m] obtain js where js: "wdb out1 = (wdb out)\<lparr>jobs := js\<rparr>" by auto
  show "\<exists>js. wdb (snd (bind_p m k db out)) = (wdb out)\<lparr>jobs := js\<rparr>"
  proof (cases r)
    case (Inl e)
    then show ?thesis using js by (auto simp: bind_p_def m)
  next
    case (Inr xd)
    obtain x db1 where xd: "xd = (x, db1)" by fastforce
    obtain r2 out2 where k: "k x db1 out1 = (r2, out2)" by fastforce
    from jobs_onlyD [OF assms(2) k] js show ?thesis by (auto simp: bind_p_def m Inr xd k)
  qed
qed

lemma jobs_only_outside:
  assumes "\<And>w. wdb (snd (m w w)) = (wdb w)\<lparr>jobs := jobs (wdb (snd (m w w)))\<rparr>"
  shows "jobs_only (outside_p m)"
  unfolding jobs_only_def
proof (intro allI)
  fix db out
  have "snd (outside_p m db out) = snd (m out out)"
    by (simp add: outside_p_def split: prod.splits sum.splits)
  then show "\<exists>js. wdb (snd (outside_p m db out)) = (wdb out)\<lparr>jobs := js\<rparr>" using assms [of out] by metis
qed

lemma jobs_only_publish: "jobs_only (publish_event E outages key data idem)"
  unfolding publish_event_def Let_def
  by (intro jobs_only_bind jobs_only_basic jobs_only_outside publish_message_db)

lemma jobs_only_if: "jobs_only m \<Longrightarrow> jobs_only m' \<Longrightarrow> jobs_only (if b then m else m')"
  by simp

lemma jobs_only_prod: "(\<And>a b. jobs_only (f a b)) \<Longrightarrow> jobs_only (case x of (a, b) \<Rightarrow> f a b)"
  by (cases x) simp

lemma jobs_only_fold: "(\<And>x a. jobs_only (f x a)) \<Longrightarrow> jobs_only (fold_p xs f a)"
  by (induction xs arbitrary: a) (auto intro: jobs_only_basic jobs_only_bind)

lemmas jobs_only_rules = jobs_only_basic jobs_only_bind jobs_only_publish jobs_only_if jobs_only_prod jobs_only_fold

lemma jobs_only_poll: "jobs_only (poll_transaction E outages set_order)"
  unfolding poll_transaction_def process_awaiting_results_editions_def process_awaiting_edition_def
    announce_start_def settle_edition_def publish_transition_def
  by (intro jobs_only_rules)

locale tourney_relation = step_relation R for R :: "tdb \<Rightarrow> tdb \<Rightarrow> bool" +
  assumes jobs_ignored: "R db db' \<Longrightarrow> R db (with_jobs js db')"
begin

lemma return_p: "moves_p R (return_p x)"
  by (auto simp: moves_p_def return_p_def refl)

lemma bind_p: "moves_p R m \<Longrightarrow> (\<And>x. moves_p R (k x)) \<Longrightarrow> moves_p R (bind_p m k)"
  unfolding moves_p_def by (fastforce elim!: bind_pE intro: trans)

lemma outside_p: "moves_p R (outside_p m)"
  by (auto simp: moves_p_def outside_p_def refl split: sum.splits prod.splits)

lemma if_p: "(b \<Longrightarrow> moves_p R m) \<Longrightarrow> (\<not> b \<Longrightarrow> moves_p R m') \<Longrightarrow> moves_p R (if b then m else m')"
  by simp

lemma prod_p: "(\<And>a b. x = (a, b) \<Longrightarrow> moves_p R (f a b)) \<Longrightarrow> moves_p R (case x of (a, b) \<Rightarrow> f a b)"
  by (cases x) simp

lemma fold_p: "(\<And>x a. moves_p R (f x a)) \<Longrightarrow> moves_p R (fold_p xs f a)"
  by (induction xs arbitrary: a) (auto intro: return_p bind_p)

lemma publish_event: "moves_p R (publish_event E outages key data idem)"
  unfolding publish_event_def by (intro bind_p outside_p return_p)

lemmas p_rules = return_p bind_p outside_p if_p prod_p fold_p publish_event

lemma on_econ_jobs:
  assumes "\<And>w. wdb (snd (m w)) = (wdb w)\<lparr>jobs := jobs (wdb (snd (m w)))\<rparr>"
  shows "moves_io R (on_econ m)"
  unfolding moves_io_def
proof
  fix w :: tworld
  let ?w = "\<lparr>wdb = economy (wdb w), wmq = wmq w\<rparr>"
  have "wdb (snd (on_econ m w)) = with_jobs (jobs (wdb (snd (m ?w)))) (wdb w)"
    using assms [of ?w] by (simp add: on_econ_def with_jobs_def split: prod.splits)
  then show "R (wdb w) (wdb (snd (on_econ m w)))" by (simp add: jobs_ignored refl)
qed

lemma in_transaction:
  assumes "moves_p R m" "jobs_only m"
  shows "moves_io R (in_transaction m)"
  unfolding moves_io_def
proof
  fix w :: tworld
  let ?out = "\<lparr>wdb = economy (wdb w), wmq = wmq w\<rparr>"
  obtain r out' where m: "m (wdb w) ?out = (r, out')" by fastforce
  from jobs_onlyD [OF assms(2) m] obtain js where js: "wdb out' = (economy (wdb w))\<lparr>jobs := js\<rparr>" by auto
  show "R (wdb w) (wdb (snd (in_transaction m w)))"
  proof (cases r)
    case (Inl e)
    then have "wdb (snd (in_transaction m w)) = with_jobs js (wdb w)"
      by (simp add: in_transaction_def m js with_jobs_def)
    then show ?thesis by (simp add: jobs_ignored refl)
  next
    case (Inr xd)
    obtain x db where xd: "xd = (x, db)" by fastforce
    then have "wdb (snd (in_transaction m w)) = with_jobs (jobs (wdb out')) db"
      by (simp add: in_transaction_def m Inr with_jobs_def)
    moreover have "R (wdb w) db" using moves_pD [OF assms(1)] m Inr xd by simp
    ultimately show ?thesis by (simp add: jobs_ignored)
  qed
qed

end

end
