(* ===== verification/Tourney_Ledger.thy ===== *)
theory Tourney_Ledger
  imports Tourney_Steps
begin

section \<open>The grant ledger and the XP it accounts for\<close>

text \<open>
  No operation of the tournaments changes anybody's XP but by rows it adds to the grant ledger, a
  row per (cycle, user, reason): each new row pays its amount at the current multiplier.
\<close>

definition grant_key :: "grant_row \<Rightarrow> int \<times> int \<times> string" where
  "grant_key g = (gr_cycle_id g, gr_user_id g, gr_reason g)"

definition ledger_ok :: "tdb \<Rightarrow> bool" where
  "ledger_ok db \<longleftrightarrow> distinct (map grant_key (xp_grants db))"

definition grants_pay :: "rat \<Rightarrow> int \<Rightarrow> grant_row list \<Rightarrow> int" where
  "grants_pay multiplier u gs =
     sum_list (map (\<lambda>g. xp_gain (gr_amount g) multiplier) (filter (\<lambda>g. gr_user_id g = u) gs))"

definition accounted :: "tdb \<Rightarrow> tdb \<Rightarrow> bool" where
  "accounted db db' \<longleftrightarrow> (\<exists>gs. xp_grants db' = xp_grants db @ gs
     \<and> (ledger_ok db \<longrightarrow> ledger_ok db')
     \<and> fetch_xp_multiplier (economy db') = fetch_xp_multiplier (economy db)
     \<and> (\<forall>u. xp_total u (economy db') =
          xp_total u (economy db) + grants_pay (fetch_xp_multiplier (economy db)) u gs))"

lemma grants_pay_append [simp]: "grants_pay m u (gs @ gs') = grants_pay m u gs + grants_pay m u gs'"
  by (simp add: grants_pay_def)

lemma grants_pay_Nil [simp]: "grants_pay m u [] = 0"
  by (simp add: grants_pay_def)

lemma accounted_same:
  assumes "xp_grants db' = xp_grants db" "xp_tbl (economy db') = xp_tbl (economy db)"
    and "xp_multiplier (economy db') = xp_multiplier (economy db)"
  shows "accounted db db'"
  unfolding accounted_def
  by (rule exI [of _ "[]"]) (use assms in \<open>simp add: ledger_ok_def xp_total_def xp_of_def fetch_xp_multiplier_def\<close>)

interpretation paid: tourney_relation accounted
proof
  show "accounted s s" for s by (rule accounted_same) simp_all
  show "accounted s t \<Longrightarrow> accounted t u \<Longrightarrow> accounted s u" for s t u
    unfolding accounted_def
  proof (elim exE conjE, goal_cases)
    case (1 gs gs')
    then show ?case by (intro exI [of _ "gs @ gs'"]) simp
  qed
  show "accounted db db' \<Longrightarrow> accounted db (with_jobs js db')" for db db' js
    by (simp add: accounted_def with_jobs_def ledger_ok_def xp_total_def xp_of_def fetch_xp_multiplier_def)
qed

subsection \<open>Grants\<close>

lemma claim_xp_grant_shape:
  assumes "claim_xp_grant c u k n db = Inr (b, db')"
  shows "b \<longleftrightarrow> \<not> granted c u k db"
    "db' = (if b then db\<lparr>xp_grants := xp_grants db @ [\<lparr>gr_cycle_id = c, gr_user_id = u, gr_reason = k, gr_amount = n\<rparr>]\<rparr> else db)"
  using assms by (auto simp: claim_xp_grant_def split: if_splits)

lemma granted_iff: "granted c u k db \<longleftrightarrow> (c, u, k) \<in> grant_key ` set (xp_grants db)"
  by (auto simp: granted_def has_row_iff grant_key_def)

text \<open>A grant: nothing if the row is there; otherwise one row and its XP.\<close>

lemma ledger_grant_xp_effect:
  assumes "ledger_grant_xp u n reason c k pending db = Inr (events, db')"
  shows "(granted c u k db \<and> events = pending \<and> db' = db) \<or>
     (\<not> granted c u k db
      \<and> xp_grants db' = xp_grants db @ [\<lparr>gr_cycle_id = c, gr_user_id = u, gr_reason = k, gr_amount = n\<rparr>]
      \<and> db' = db\<lparr>xp_grants := xp_grants db', economy := (economy db)\<lparr>xp_tbl := xp_tbl (economy db')\<rparr>\<rparr>
      \<and> (\<forall>j. xp_total j (economy db') =
           xp_total j (economy db) + (if j = u then xp_gain n (fetch_xp_multiplier (economy db)) else 0)))"
proof -
  from assms obtain b db1 where claim: "claim_xp_grant c u k n db = Inr (b, db1)"
    and rest: "(if \<not> b then return_tx pending
        else bind_tx (in_econ (grant_xp_deferred u n Tournament (Some reason) pending)) (\<lambda>(_, events). return_tx events)) db1
        = Inr (events, db')"
    unfolding ledger_grant_xp_def by (elim bind_txE)
  note shape = claim_xp_grant_shape [OF claim]
  show ?thesis
  proof (cases b)
    case False
    with shape rest show ?thesis by simp
  next
    case True
    with rest obtain res ec where
      up: "upsert_user_xp u n (fetch_xp_multiplier (economy db1)) (economy db1) = Inr (res, ec)"
      and db': "db' = db1\<lparr>economy := ec\<rparr>"
      by (auto simp: in_econ_def grant_xp_deferred_def bind_tx_def return_tx_def read_tx_def split: sum.splits prod.splits)
    have ec: "economy db1 = economy db" "ec = (economy db)\<lparr>xp_tbl := xp_tbl ec\<rparr>"
      using upsert_user_xp_shape(4) [OF up] shape(2) by simp_all
    show ?thesis
      using True shape xp_total_upsert [OF up] ec by (simp add: db')
  qed
qed

lemma ledger_grant_xp_paid: "moves accounted (ledger_grant_xp u n reason c k pending)"
proof (rule movesI)
  fix db events db' assume run: "ledger_grant_xp u n reason c k pending db = Inr (events, db')"
  show "accounted db db'"
  proof (cases "granted c u k db")
    case True
    with ledger_grant_xp_effect [OF run] show ?thesis by (simp add: paid.refl)
  next
    case False
    with ledger_grant_xp_effect [OF run] have eff:
      "xp_grants db' = xp_grants db @ [\<lparr>gr_cycle_id = c, gr_user_id = u, gr_reason = k, gr_amount = n\<rparr>]"
      "db' = db\<lparr>xp_grants := xp_grants db', economy := (economy db)\<lparr>xp_tbl := xp_tbl (economy db')\<rparr>\<rparr>"
      "\<forall>j. xp_total j (economy db') =
           xp_total j (economy db) + (if j = u then xp_gain n (fetch_xp_multiplier (economy db)) else 0)"
      by auto
    have "ledger_ok db \<Longrightarrow> ledger_ok db'"
      using False by (simp add: ledger_ok_def eff(1) granted_iff) (simp add: grant_key_def)
    moreover have "fetch_xp_multiplier (economy db') = fetch_xp_multiplier (economy db)"
      by (subst eff(2)) (simp add: fetch_xp_multiplier_def)
    ultimately show ?thesis unfolding accounted_def
      using eff(1,3) by (intro exI [of _ "[\<lparr>gr_cycle_id = c, gr_user_id = u, gr_reason = k, gr_amount = n\<rparr>]"])
        (simp add: grants_pay_def)
  qed
qed

subsection \<open>Every transaction\<close>

named_theorems paid_rules

declare ledger_grant_xp_paid [paid_rules]

lemma advance_streak_paid [paid_rules]: "moves accounted (advance_streak u c b)"
  by (rule movesI, rule accounted_same)
    (auto simp: advance_streak_def Let_def split: option.splits if_splits)

lemma writes_paid [paid_rules]:
  "moves accounted (set_tournament_verified i v)" "moves accounted (mark_edition_start_announced e)"
  "moves accounted (complete_edition e)" "moves accounted (mark_transition_published t)"
  "moves accounted (set_transitions_paused b)"
  unfolding set_tournament_verified_def mark_edition_start_announced_def complete_edition_def
    mark_transition_published_def set_transitions_paused_def Let_def
  by (intro paid.rules moves_write accounted_same; simp)+

lemma inserts_paid [paid_rules]:
  "moves accounted (create_pending_transition E e ty p)" "moves accounted (create_edition t1 t2)"
  "moves accounted (create_cycle_for_edition e c m t3)" "moves accounted (set_debug_cycle_seconds secs)"
  "moves accounted (create_tournament_completion E c u m tm v)"
  by (rule movesI, rule accounted_same;
      auto simp: create_pending_transition_def create_edition_def create_cycle_for_edition_def
        set_debug_cycle_seconds_def create_tournament_completion_def Let_def split: if_splits sum.splits option.splits)+

lemma grant_placements_paid [paid_rules]: "moves accounted (grant_placements f c entries pending)"
proof (induction entries arbitrary: pending)
  case (Cons e entries)
  then show ?case by (auto intro!: paid.rules paid_rules split: option.splits)
qed (simp add: paid.rules)

lemma awards_paid [paid_rules]:
  "moves accounted (award_participation c k u)" "moves accounted (award_cycle_placements ev)"
  unfolding award_participation_def award_cycle_placements_def by (intro paid.rules paid_rules)+

lemma advance_participants_paid [paid_rules]: "moves accounted (advance_participants f m us pending)"
proof (induction us arbitrary: pending)
  case (Cons u us)
  then show ?case by (auto simp: Let_def intro!: paid.rules paid_rules)
qed (simp add: paid.rules)

lemma award_edition_streaks_paid [paid_rules]: "moves accounted (award_edition_streaks set_order results)"
  unfolding award_edition_streaks_def by (intro paid.rules paid_rules)

lemma award_results_paid [paid_rules]: "moves accounted (award_results entries pending)"
proof (induction entries arbitrary: pending)
  case (Cons e entries)
  then show ?case by (auto intro!: paid.rules paid_rules)
qed (simp add: paid.rules)

lemma award_children_paid [paid_rules]: "moves accounted (award_children cs results pending)"
proof (induction cs arbitrary: results pending)
  case (Cons c cs)
  show ?case by (cases c) (simp only: award_children.simps, intro paid.rules paid_rules Cons.IH)
qed (simp add: paid.rules)

lemma outbox_paid [paid_rules]:
  "moves accounted (write_drained_results_row E e)" "moves_p accounted (poll_transaction E outages set_order)"
  unfolding write_drained_results_row_def poll_transaction_def process_awaiting_results_editions_def
    process_awaiting_edition_def announce_start_def settle_edition_def publish_transition_def
  by (intro paid.rules paid.p_rules moves_p_tx paid_rules)+

lemma verdicts_paid [paid_rules]: "moves accounted (decide_tx i v)" "moves accounted (force_publish_tx E)"
  unfolding decide_tx_def force_publish_tx_def by (intro paid.rules paid_rules)+

lemma start_cycles_paid [paid_rules]:
  "moves accounted (start_cycles C now keys w e cats)" "moves accounted (start_scheduled_cycles C now keys e cs)"
proof (induction cats)
  case (Cons c cats)
  { case 1 show ?case by (simp only: start_cycles.simps) (intro paid.rules paid_rules Cons.IH(1)) }
  { case 2 from Cons(2) show ?case . }
next
  case Nil
  { case 1 show ?case by (simp only: start_cycles.simps paid.rules) }
  { case 2 show ?case
    proof (induction cs)
      case (Cons c cs)
      show ?case by (simp only: start_scheduled_cycles.simps) (intro paid.rules paid_rules Cons.IH)
    qed (simp only: start_scheduled_cycles.simps paid.rules) }
qed

lemma editions_paid [paid_rules]:
  "moves accounted (bootstrap_tx E C keys)" "moves accounted (process_edition_transitions unlocked C now keys)"
  unfolding bootstrap_tx_def process_edition_transitions_def Let_def
  by (intro paid.rules paid_rules moves_write accounted_same; simp)+

end
