(* ===== verification/Tourney_Awards.thy ===== *)
theory Tourney_Awards
  imports Tourney_Ledger
begin

section \<open>What the rewards of an edition do\<close>

text \<open>
  The rewards touch the streaks, the ledger and the XP only; the streaks of an edition advance by
  one for those who took part and fall to zero for the others; and a second delivery of the same
  results changes nothing.
\<close>

subsection \<open>The frame\<close>

definition rewards_only :: "tdb \<Rightarrow> tdb \<Rightarrow> bool" where
  "rewards_only db db' \<longleftrightarrow>
     (\<exists>s g x. db' = db\<lparr>streaks := s, xp_grants := g, economy := (economy db)\<lparr>xp_tbl := x\<rparr>\<rparr>)"

definition ledger_only :: "tdb \<Rightarrow> tdb \<Rightarrow> bool" where
  "ledger_only db db' \<longleftrightarrow>
     (\<exists>gs x. db' = db\<lparr>xp_grants := xp_grants db @ gs, economy := (economy db)\<lparr>xp_tbl := x\<rparr>\<rparr>)"

lemma rewards_only_frame:
  assumes "rewards_only db db'"
  shows "tconfig db' = tconfig db" "categories db' = categories db" "cycles db' = cycles db"
    "tcompletions db' = tcompletions db" "editions db' = editions db" "transitions db' = transitions db"
    "next_transition_id db' = next_transition_id db" "users (economy db') = users (economy db)"
    "jobs (economy db') = jobs (economy db)" "xp_multiplier (economy db') = xp_multiplier (economy db)"
    "maps_tbl (economy db') = maps_tbl (economy db)"
  using assms by (auto simp: rewards_only_def)

lemma ledger_only_rewards: "ledger_only db db' \<Longrightarrow> rewards_only db db' \<and> streaks db' = streaks db"
proof (intro conjI)
  assume "ledger_only db db'"
  then obtain gs x where db': "db' = db\<lparr>xp_grants := xp_grants db @ gs, economy := (economy db)\<lparr>xp_tbl := x\<rparr>\<rparr>"
    unfolding ledger_only_def by blast
  show "rewards_only db db'" unfolding rewards_only_def
    by (intro exI [of _ "streaks db"] exI [of _ "xp_grants db @ gs"] exI [of _ x]) (simp add: db')
  show "streaks db' = streaks db" by (simp add: db')
qed

interpretation frame: step_relation rewards_only
proof
  show "rewards_only s s" for s unfolding rewards_only_def
    by (intro exI [of _ "streaks s"] exI [of _ "xp_grants s"] exI [of _ "xp_tbl (economy s)"]) simp
  show "rewards_only s t \<Longrightarrow> rewards_only t u \<Longrightarrow> rewards_only s u" for s t u
    unfolding rewards_only_def by (elim exE) (simp, blast)
qed

interpretation book: step_relation ledger_only
proof
  show "ledger_only s s" for s unfolding ledger_only_def
    by (intro exI [of _ "[]"] exI [of _ "xp_tbl (economy s)"]) simp
  show "ledger_only s t \<Longrightarrow> ledger_only t u \<Longrightarrow> ledger_only s u" for s t u
    unfolding ledger_only_def by (elim exE) (simp, blast)
qed

lemma ledger_grant_xp_book: "moves ledger_only (ledger_grant_xp u n reason c k pending)"
proof (rule movesI)
  fix db events db' assume "ledger_grant_xp u n reason c k pending db = Inr (events, db')"
  from ledger_grant_xp_effect [OF this] show "ledger_only db db'"
    unfolding ledger_only_def
    by (elim disjE conjE) (metis book.refl ledger_only_def, metis)
qed

lemma grant_placements_book: "moves ledger_only (grant_placements f c entries pending)"
proof (induction entries arbitrary: pending)
  case (Cons e entries)
  then show ?case by (auto intro!: book.rules ledger_grant_xp_book split: option.splits)
qed (simp add: book.rules)

lemma award_cycle_placements_book: "moves ledger_only (award_cycle_placements ev)"
  unfolding award_cycle_placements_def by (intro book.rules grant_placements_book)

lemma award_results_book: "moves ledger_only (award_results entries pending)"
proof (induction entries arbitrary: pending)
  case (Cons e entries)
  show ?case by (simp only: award_results.simps) (intro book.rules award_cycle_placements_book Cons.IH)
qed (simp only: award_results.simps book.rules)

lemma award_children_book: "moves ledger_only (award_children cs results pending)"
proof (induction cs arbitrary: results pending)
  case (Cons c cs)
  show ?case by (cases c) (simp only: award_children.simps, intro book.rules award_cycle_placements_book Cons.IH)
qed (simp only: award_children.simps book.rules)

subsection \<open>Streaks\<close>

definition streak_advanced :: "int \<Rightarrow> int \<Rightarrow> streak_row option \<Rightarrow> streak_row" where
  "streak_advanced u marker s = (case s of
      None \<Rightarrow> \<lparr>sk_user_id = u, sk_current_streak = 1, sk_max_streak = 1, sk_last_cycle_id = Some marker\<rparr>
    | Some r \<Rightarrow>
        if sk_last_cycle_id r = Some marker then r
        else r\<lparr>sk_current_streak := sk_current_streak r + 1,
               sk_max_streak := max (sk_max_streak r) (sk_current_streak r + 1), sk_last_cycle_id := Some marker\<rparr>)"

definition streak_reset :: "int \<Rightarrow> streak_row \<Rightarrow> streak_row" where
  "streak_reset marker r = r\<lparr>sk_current_streak := 0, sk_last_cycle_id := Some marker\<rparr>"

lemma fetch_streak_user: "fetch_streak u db = Some r \<Longrightarrow> sk_user_id r = u"
  by (auto simp: fetch_streak_def dest: first_where_SomeD)

lemma tracked_iff: "u \<in> set (fetch_all_streak_user_ids db) \<longleftrightarrow> fetch_streak u db \<noteq> None"
  by (auto simp: fetch_all_streak_user_ids_def fetch_streak_def first_where_None)

lemma streak_advanced_user: "sk_user_id (streak_advanced u m (fetch_streak u db)) = u"
  by (auto simp: streak_advanced_def fetch_streak_user split: option.splits)

lemma fetch_streak_set:
  assumes "sk_user_id r = u" "fetch_streak u db \<noteq> None"
  shows "fetch_streak v (db\<lparr>streaks := update_where (\<lambda>x. sk_user_id x = u) (\<lambda>_. r) (streaks db)\<rparr>) =
     (if v = u then Some r else fetch_streak v db)"
proof -
  have "first_where (\<lambda>x. sk_user_id x = v) (update_where (\<lambda>x. sk_user_id x = u) (\<lambda>_. r) rows) =
     (if v = u \<and> first_where (\<lambda>x. sk_user_id x = u) rows \<noteq> None then Some r else first_where (\<lambda>x. sk_user_id x = v) rows)"
    for rows using assms(1) by (induction rows) auto
  with assms(2) show ?thesis by (simp add: fetch_streak_def)
qed

lemma advance_streak_True:
  assumes "advance_streak u m True db = Inr (r, db')"
  shows "r = streak_advanced u m (fetch_streak u db)"
    "fetch_streak v db' = (if v = u then Some r else fetch_streak v db)"
    "db' = db\<lparr>streaks := streaks db'\<rparr>"
proof -
  show r: "r = streak_advanced u m (fetch_streak u db)"
    using assms by (auto simp: advance_streak_def streak_advanced_def Let_def split: option.splits if_splits)
  show "db' = db\<lparr>streaks := streaks db'\<rparr>"
    using assms by (auto simp: advance_streak_def Let_def split: option.splits if_splits)
  show "fetch_streak v db' = (if v = u then Some r else fetch_streak v db)"
  proof (cases "fetch_streak u db")
    case None
    with assms have "db' = db\<lparr>streaks := streaks db @ [r]\<rparr>" "sk_user_id r = u"
      by (auto simp: advance_streak_def Let_def split: if_splits)
    with None show ?thesis by (auto simp: fetch_streak_def first_where_append split: option.splits)
  next
    case (Some s)
    with assms have db': "db' = db\<lparr>streaks := update_where (\<lambda>x. sk_user_id x = u) (\<lambda>_. r) (streaks db)\<rparr>"
      by (auto simp: advance_streak_def Let_def split: if_splits)
    show ?thesis unfolding db' by (rule fetch_streak_set) (use r Some streak_advanced_user [of u m db] in auto)
  qed
qed

lemma advance_streak_False:
  assumes "advance_streak u m False db = Inr (r, db')" "fetch_streak u db = Some s"
  shows "fetch_streak v db' = (if v = u then Some (streak_reset m s) else fetch_streak v db)"
    "db' = db\<lparr>streaks := streaks db'\<rparr>"
proof -
  from assms have db': "db' = db\<lparr>streaks := update_where (\<lambda>x. sk_user_id x = u) (\<lambda>_. streak_reset m s) (streaks db)\<rparr>"
    by (auto simp: advance_streak_def streak_reset_def Let_def split: if_splits)
  show "fetch_streak v db' = (if v = u then Some (streak_reset m s) else fetch_streak v db)"
    unfolding db' by (rule fetch_streak_set) (use fetch_streak_user [OF assms(2)] assms(2) in \<open>simp_all add: streak_reset_def\<close>)
  show "db' = db\<lparr>streaks := streaks db'\<rparr>" by (simp add: db')
qed

lemma streaks_rewards: "db' = db\<lparr>streaks := s\<rparr> \<Longrightarrow> rewards_only db db'"
  unfolding rewards_only_def by (intro exI [of _ s] exI [of _ "xp_grants db"] exI [of _ "xp_tbl (economy db)"]) simp

lemma ledger_grant_xp_frame:
  assumes "ledger_grant_xp u n reason c k pending db = Inr (events, db')"
  shows "rewards_only db db'" "fetch_streak v db' = fetch_streak v db"
  using ledger_only_rewards [OF movesD [OF ledger_grant_xp_book assms]] by (simp_all add: fetch_streak_def)

lemma advance_participants_step:
  assumes "advance_participants f m (u # us) pending db = Inr (events, db')"
  obtains pending1 db1 where "advance_participants f m us pending1 db1 = Inr (events, db')"
    "rewards_only db db1"
    "\<And>v. fetch_streak v db1 = (if v = u then Some (streak_advanced u m (fetch_streak u db)) else fetch_streak v db)"
proof -
  from assms obtain r db0 where adv: "advance_streak u m True db = Inr (r, db0)"
    and rest: "(let bonus = f u (sk_current_streak r) in
     if bonus = 0 then advance_participants f m us pending
     else bind_tx (ledger_grant_xp u bonus (streak_reason (sk_current_streak r)) m ''streak'' pending)
            (advance_participants f m us)) db0 = Inr (events, db')"
    by (auto elim: bind_txE)
  note a = advance_streak_True [OF adv]
  show thesis
  proof (cases "f u (sk_current_streak r) = 0")
    case True
    with rest have run: "advance_participants f m us pending db0 = Inr (events, db')" by simp
    show thesis by (rule that [OF run streaks_rewards [OF a(3)]]) (simp add: a(1,2))
  next
    case False
    with rest obtain p1 db1 where g: "ledger_grant_xp u (f u (sk_current_streak r)) (streak_reason (sk_current_streak r))
        m ''streak'' pending db0 = Inr (p1, db1)"
      and run: "advance_participants f m us p1 db1 = Inr (events, db')" by (auto simp: Let_def elim: bind_txE)
    note fr = ledger_grant_xp_frame [OF g]
    show thesis by (rule that [OF run frame.trans [OF streaks_rewards [OF a(3)] fr(1)]]) (simp add: a(1,2) fr(2))
  qed
qed

lemma advance_participants_effect:
  assumes "advance_participants f m us pending db = Inr (events, db')" "distinct us"
  shows "rewards_only db db'"
    "fetch_streak v db' = (if v \<in> set us then Some (streak_advanced v m (fetch_streak v db)) else fetch_streak v db)"
proof -
  have "rewards_only db db' \<and>
    fetch_streak v db' = (if v \<in> set us then Some (streak_advanced v m (fetch_streak v db)) else fetch_streak v db)"
    using assms
  proof (induction us arbitrary: pending db)
    case Nil
    then show ?case by (simp add: return_tx_def frame.refl)
  next
    case (Cons u us)
    from advance_participants_step [OF Cons.prems(1)] obtain p1 db1 where
      run: "advance_participants f m us p1 db1 = Inr (events, db')" and fr: "rewards_only db db1"
      and st: "\<And>v. fetch_streak v db1 = (if v = u then Some (streak_advanced u m (fetch_streak u db)) else fetch_streak v db)"
      by metis
    from Cons.IH [OF run] Cons.prems(2) fr st show ?case by (auto intro: frame.trans)
  qed
  then show "rewards_only db db'"
    "fetch_streak v db' = (if v \<in> set us then Some (streak_advanced v m (fetch_streak v db)) else fetch_streak v db)"
    by blast+
qed

lemma reset_streaks_effect:
  assumes "for_tx us (\<lambda>u. bind_tx (advance_streak u m False) (\<lambda>_. return_tx ())) db = Inr (x, db')"
    and "distinct us" "\<And>u. u \<in> set us \<Longrightarrow> fetch_streak u db \<noteq> None"
  shows "rewards_only db db' \<and>
    fetch_streak v db' = (if v \<in> set us then map_option (streak_reset m) (fetch_streak v db) else fetch_streak v db)"
  using assms
proof (induction us arbitrary: db)
  case Nil
  then show ?case by (simp add: return_tx_def frame.refl)
next
  case (Cons u us)
  from Cons.prems(3) [of u] obtain s where s: "fetch_streak u db = Some s" by auto
  let ?reset = "\<lambda>u. bind_tx (advance_streak u m False) (\<lambda>_. return_tx ())"
  from Cons.prems(1) obtain y db1 where "?reset u db = Inr (y, db1)" and run: "for_tx us ?reset db1 = Inr (x, db')"
    by (simp only: for_tx.simps) (erule bind_txE)
  then obtain r where adv: "advance_streak u m False db = Inr (r, db1)" by (auto elim!: bind_txE)
  note a = advance_streak_False [OF adv s]
  from Cons.IH [OF run] Cons.prems(2,3) a(1) have "rewards_only db1 db' \<and>
    fetch_streak v db' = (if v \<in> set us then map_option (streak_reset m) (fetch_streak v db1) else fetch_streak v db1)" by auto
  with streaks_rewards [OF a(2)] a(1) s Cons.prems(2) show ?case by (auto intro: frame.trans)
qed

subsection \<open>The streaks of an edition\<close>

definition streak_after :: "cycle_completed_event list \<Rightarrow> tdb \<Rightarrow> int \<Rightarrow> streak_row option" where
  "streak_after results db u =
     (let m = marker_cycle results in
      if u \<in> set (edition_participants results db) then Some (streak_advanced u m (fetch_streak u db))
      else map_option (streak_reset m) (fetch_streak u db))"

lemma distinct_edition_participants: "distinct (edition_participants results db)"
  by (simp add: edition_participants_def)

lemma award_edition_streaks_run:
  assumes "award_edition_streaks so results db = Inr (events, db')" "results \<noteq> []"
  obtains db1 where
    "advance_participants (\<lambda>u n. streak_bonus results u n db) (marker_cycle results)
        (order_by_random so (edition_participants results db)) [] db = Inr (events, db1)"
    "for_tx (order_by_random so (filter (\<lambda>u. u \<notin> set (edition_participants results db))
        (remdups (fetch_all_streak_user_ids db1))))
        (\<lambda>u. bind_tx (advance_streak u (marker_cycle results) False) (\<lambda>_. return_tx ())) db1 = Inr ((), db')"
proof -
  define m P where "m = marker_cycle results" and "P = edition_participants results db"
  define reset where "reset = (\<lambda>u. bind_tx (advance_streak u m False) (\<lambda>_. return_tx ()))"
  from assms have "bind_tx (advance_participants (\<lambda>u n. streak_bonus results u n db) m (order_by_random so P) []) (\<lambda>events.
      bind_tx (read_tx fetch_all_streak_user_ids) (\<lambda>tracked.
      bind_tx (for_tx (order_by_random so (filter (\<lambda>u. u \<notin> set P) (remdups tracked))) reset) (\<lambda>_.
      return_tx events))) db = Inr (events, db')"
    unfolding award_edition_streaks_def m_def P_def reset_def Let_def by (simp only: if_False bind_read_tx)
  then obtain ev db1 where one: "advance_participants (\<lambda>u n. streak_bonus results u n db) m (order_by_random so P) [] db = Inr (ev, db1)"
    and "bind_tx (for_tx (order_by_random so (filter (\<lambda>u. u \<notin> set P) (remdups (fetch_all_streak_user_ids db1)))) reset)
      (\<lambda>_. return_tx ev) db1 = Inr (events, db')"
    by (rule bind_txE) (simp only: bind_read_tx)
  then obtain x where "for_tx (order_by_random so (filter (\<lambda>u. u \<notin> set P) (remdups (fetch_all_streak_user_ids db1)))) reset db1 = Inr (x, db')"
    "ev = events" by (elim bind_txE) (simp add: return_tx_def)
  with one show thesis by (intro that [of db1]) (simp_all add: m_def P_def reset_def)
qed

lemma distinct_order_by_random: "distinct (order_by_random keys xs) = distinct xs"
  by (metis map_snd_sort_zip mset_eq_imp_distinct_iff)

lemma award_edition_streaks_effect:
  assumes "award_edition_streaks so results db = Inr (events, db')" "results \<noteq> []"
  shows "rewards_only db db'" "fetch_streak u db' = streak_after results db u"
proof -
  let ?m = "marker_cycle results" and ?P = "edition_participants results db"
  from award_edition_streaks_run [OF assms] obtain db1 where
    adv: "advance_participants (\<lambda>u n. streak_bonus results u n db) ?m (order_by_random so ?P) [] db = Inr (events, db1)"
    and res: "for_tx (order_by_random so (filter (\<lambda>u. u \<notin> set ?P) (remdups (fetch_all_streak_user_ids db1))))
        (\<lambda>u. bind_tx (advance_streak u ?m False) (\<lambda>_. return_tx ())) db1 = Inr ((), db')" by metis
  note a = advance_participants_effect [OF adv, unfolded distinct_order_by_random set_order_by_random,
      OF distinct_edition_participants]
  let ?us = "order_by_random so (filter (\<lambda>u. u \<notin> set ?P) (remdups (fetch_all_streak_user_ids db1)))"
  have us: "set ?us = {v. v \<notin> set ?P \<and> fetch_streak v db1 \<noteq> None}" by (auto simp: tracked_iff)
  have dist: "distinct ?us" by (simp add: distinct_order_by_random)
  have tracked: "fetch_streak v db1 \<noteq> None" if "v \<in> set ?us" for v using that unfolding us by blast
  note reset = reset_streaks_effect [OF res dist tracked, of u]
  have r: "rewards_only db1 db'"
    "fetch_streak u db' = (if u \<in> set ?us then map_option (streak_reset ?m) (fetch_streak u db1) else fetch_streak u db1)"
    using reset by blast+
  show "rewards_only db db'" using a(1) r(1) by (rule frame.trans)
  show "fetch_streak u db' = streak_after results db u"
    unfolding r(2) us streak_after_def Let_def mem_Collect_eq by (simp add: a(2))
qed

end
