(* ===== verification/Tourney_System.thy ===== *)
theory Tourney_System
  imports Tourney_Ledger
begin

section \<open>The tournaments as a transition system\<close>

text \<open>
  The transactions the calls commit and the calls themselves, in any order, with any time, clock,
  random choice and broker. A call that fails leaves what it had committed. Between the first look
  of a verdict and its transaction others may commit.
\<close>

inductive commit :: "tdb \<Rightarrow> tdb \<Rightarrow> bool" where
  bootstrap: "bootstrap_tx E C keys db = Inr (ed, db') \<Longrightarrow> commit db db'"
| scheduled: "process_edition_transitions unlocked C now keys db = Inr (x, db') \<Longrightarrow> commit db db'"
| submit: "create_tournament_completion E c u m time video db = Inr (row, db') \<Longrightarrow> commit db db'"
| decide: "decide_tx i v db = Inr (res, db') \<Longrightarrow> commit db db'"
| force: "force_publish_tx E db = Inr (y, db') \<Longrightarrow> commit db db'"
| pause: "set_transitions_paused b db = Inr (z, db') \<Longrightarrow> commit db db'"
| debug: "set_debug_cycle_seconds secs db = Inr (z, db') \<Longrightarrow> commit db db'"
| poll: "poll_transaction E outages set_order db out = (Inr (events, db'), out') \<Longrightarrow> commit db db'"

inductive tour_step :: "tworld \<Rightarrow> tworld \<Rightarrow> bool" where
  bootstrap_call: "tour_step w (snd (bootstrap_edition E C keys w))"
| scheduled_call: "tour_step w (snd (run_edition_transitions unlocked C now keys w))"
| submit_call: "tour_step w (snd (atomically (create_tournament_completion E c u m time video) w))"
| verify_call: "(\<And>db. commit\<^sup>*\<^sup>* db (meanwhile db)) \<Longrightarrow>
    tour_step w (snd (verify_tournament_completion E outages pytest meanwhile i w))"
| reject_call: "(\<And>db. commit\<^sup>*\<^sup>* db (meanwhile db)) \<Longrightarrow>
    tour_step w (snd (reject_tournament_completion E outages pytest meanwhile i w))"
| force_call: "tour_step w (snd (force_publish_results E w))"
| pause_call: "tour_step w (snd (atomically (set_transitions_paused b) w))"
| debug_call: "tour_step w (snd (atomically (set_debug_cycle_seconds secs) w))"
| poll_call: "tour_step w (snd (publish_pending_transitions E outages set_order w))"

inductive_cases commitE: "commit db db'"
inductive_cases tour_stepE: "tour_step w w'"

definition tour_reach :: "tworld \<Rightarrow> tworld \<Rightarrow> bool" where
  "tour_reach = tour_step\<^sup>*\<^sup>*"

text \<open>A relation the transactions respect, however many the calls commit, holds along every run.\<close>

lemma publish_xp_events_jobs:
  "wdb (snd (publish_xp_events E pytest events w)) =
     (wdb w)\<lparr>jobs := jobs (wdb (snd (publish_xp_events E pytest events w)))\<rparr>"
proof -
  obtain w' js where run: "for_io (zip [0..<length events] events) (publish_one E pytest) w = (Inr (), w')"
    "wdb w' = (wdb w)\<lparr>jobs := js\<rparr>" using publish_all_total by blast
  have "publish_xp_events E pytest events = for_io (zip [0..<length events] events) (publish_one E pytest)"
    by (simp add: publish_xp_events_def publish_one_def)
  then show ?thesis by (simp add: run)
qed

locale commit_relation = tourney_relation +
  assumes commit: "commit db db' \<Longrightarrow> R db db'"
begin

lemma commits: "commit\<^sup>*\<^sup>* db db' \<Longrightarrow> R db db'"
  by (induction rule: rtranclp_induct) (auto intro: refl commit trans)

lemma committed: "(\<And>db x db'. m db = Inr (x, db') \<Longrightarrow> commit db db') \<Longrightarrow> moves R m"
  by (rule movesI) (blast intro: commit)

lemma publishes:
  "moves_io R (publish_verdict E outages pytest row v key)" "moves_io R (publish_after E outages pytest events)"
  using on_econ_jobs [OF publish_message_db] on_econ_jobs [OF publish_xp_events_jobs]
  by (simp_all add: moves_io_def publish_verdict_def publish_after_def Let_def)

lemma transactions:
  "moves R (bootstrap_tx E C keys)" "moves R (process_edition_transitions unlocked C now keys)"
  "moves R (create_tournament_completion E c u m time video)" "moves R (decide_tx i v)"
  "moves R (force_publish_tx E)" "moves R (set_transitions_paused b)" "moves R (set_debug_cycle_seconds secs)"
  by (rule committed, erule commit.intros)+

lemma poll_moves: "moves_p R (poll_transaction E outages set_order)"
  unfolding moves_p_def by (blast intro: commit commit.poll)

lemma noop_moves: "moves_io R (noop_verdict_job E outages i key)"
  unfolding noop_verdict_job_def by (intro io_rules atomically basic publishes)

lemma verdict_moves:
  assumes "\<And>db. commit\<^sup>*\<^sup>* db (meanwhile db)"
  shows "moves_io R (set_verified E outages pytest meanwhile i v key)"
  unfolding set_verified_def Let_def
  by (intro io_rules atomically basic publishes noop_moves transactions moves_write commits assms)

lemma publish_pending_moves: "moves_io R (publish_pending_transitions E outages set_order)"
proof -
  have "moves_io R (\<lambda>w. on_econ (publish_xp_events (at_job E outages (length (jobs (economy (wdb w))))) False events) w)"
    for events using publishes(2) by (simp add: publish_after_def)
  then show ?thesis unfolding publish_pending_transitions_def
    by (intro io_rules in_transaction poll_moves jobs_only_poll)
qed

lemma step: "tour_step w w' \<Longrightarrow> R (wdb w) (wdb w')"
  by (erule tour_stepE; hypsubst; rule moves_ioD)
    (auto simp: bootstrap_edition_def run_edition_transitions_def force_publish_results_def
       verify_tournament_completion_def reject_tournament_completion_def
     intro: atomically transactions verdict_moves publish_pending_moves)

lemma reach: "tour_reach w w' \<Longrightarrow> R (wdb w) (wdb w')"
  unfolding tour_reach_def by (induction rule: rtranclp_induct) (auto intro: refl step trans)

end

lemma commit_accounted: "commit db db' \<Longrightarrow> accounted db db'"
  by (erule commitE; (erule movesD [rotated] | erule moves_pD [rotated]); rule paid_rules)

interpretation paid: commit_relation accounted
  by unfold_locales (rule commit_accounted)

end
