(* ===== verification/Tourney_Lifecycle.thy ===== *)
theory Tourney_Lifecycle
  imports Tourney_System
begin

section \<open>The lifecycle of the tournament tables\<close>

text \<open>
  Rows are never removed by these calls, and each moves only forward: an edition from active over
  awaiting results to completed, its window fixed; a cycle likewise; a decided run never back to
  pending; a published row stays published. At most one edition is active.
\<close>

subsection \<open>Tables that grow\<close>

definition grows :: "('r \<Rightarrow> 'r \<Rightarrow> bool) \<Rightarrow> 'r list \<Rightarrow> 'r list \<Rightarrow> bool" where
  "grows P xs ys \<longleftrightarrow> (\<exists>pre post. ys = pre @ post \<and> list_all2 P xs pre)"

lemma grows_same: "(\<And>x. P x x) \<Longrightarrow> grows P xs xs"
  unfolding grows_def by (rule exI [of _ xs], rule exI [of _ "[]"]) (simp add: list_all2_same)

lemma grows_append: "(\<And>x. P x x) \<Longrightarrow> grows P xs (xs @ ys)"
  unfolding grows_def by (rule exI [of _ xs], rule exI [of _ ys]) (simp add: list_all2_same)

lemma grows_update:
  "(\<And>x. P x x) \<Longrightarrow> (\<And>x. Q x \<Longrightarrow> P x (f x)) \<Longrightarrow> grows P xs (update_where Q f xs)"
  unfolding grows_def
  by (rule exI [of _ "update_where Q f xs"], rule exI [of _ "[]"])
    (simp add: update_where_def list.rel_map list_all2_same)

lemma grows_trans:
  assumes "grows P xs ys" "grows P ys zs" "\<And>x y z. P x y \<Longrightarrow> P y z \<Longrightarrow> P x z"
  shows "grows P xs zs"
proof -
  from assms(1) obtain pre post where ys: "ys = pre @ post" "list_all2 P xs pre" by (auto simp: grows_def)
  from assms(2) obtain pre' post' where zs: "zs = pre' @ post'" "list_all2 P (pre @ post) pre'"
    by (auto simp: grows_def ys(1))
  from zs(2) obtain a b where ab: "pre' = a @ b" "list_all2 P pre a" by (auto simp: list_all2_append1)
  from list_all2_trans [of P P P, OF _ ys(2) ab(2)] assms(3) have "list_all2 P xs a" by blast
  then show ?thesis unfolding grows_def zs(1) ab(1) by auto
qed

lemma grows_in:
  assumes "grows P xs ys" "x \<in> set xs"
  obtains y where "y \<in> set ys" "P x y"
proof -
  from assms(1) obtain pre post where ys: "ys = pre @ post" "list_all2 P xs pre" by (auto simp: grows_def)
  from assms(2) obtain i where i: "i < length xs" "x = xs ! i" by (auto simp: in_set_conv_nth)
  with ys(2) have "i < length pre" "P x (pre ! i)" by (auto simp: list_all2_conv_all_nth)
  with that [of "pre ! i"] ys(1) show thesis by simp
qed

subsection \<open>How each row moves\<close>

primrec edition_stage :: "edition_status \<Rightarrow> nat" where
  "edition_stage EditionActive = 0"
| "edition_stage EditionAwaitingResults = 1"
| "edition_stage EditionCompleted = 2"

primrec cycle_stage :: "cycle_status \<Rightarrow> nat" where
  "cycle_stage CyclePending = 0"
| "cycle_stage CycleActive = 1"
| "cycle_stage CycleFinalizing = 2"
| "cycle_stage CycleCompleted = 3"

definition edition_moves :: "edition_row \<Rightarrow> edition_row \<Rightarrow> bool" where
  "edition_moves e e' \<longleftrightarrow> ed_id e' = ed_id e \<and> ed_started_at e' = ed_started_at e \<and> ed_ends_at e' = ed_ends_at e
     \<and> edition_stage (ed_status e) \<le> edition_stage (ed_status e') \<and> (ed_start_announced e \<longrightarrow> ed_start_announced e')"

definition cycle_moves :: "cycle_row \<Rightarrow> cycle_row \<Rightarrow> bool" where
  "cycle_moves c c' \<longleftrightarrow> (\<exists>st. c' = c\<lparr>cy_status := st\<rparr> \<and> cycle_stage (cy_status c) \<le> cycle_stage st)"

definition run_moves :: "tcompletion_row \<Rightarrow> tcompletion_row \<Rightarrow> bool" where
  "run_moves c c' \<longleftrightarrow> (\<exists>v. c' = c\<lparr>tc_status := v\<rparr> \<and> (tc_status c \<noteq> VerdictPending \<longrightarrow> v \<noteq> VerdictPending))"

definition transition_moves :: "transition_row \<Rightarrow> transition_row \<Rightarrow> bool" where
  "transition_moves t t' \<longleftrightarrow> (\<exists>b. t' = t\<lparr>tn_published := b\<rparr> \<and> (tn_published t \<longrightarrow> b))"

definition active_editions :: "tdb \<Rightarrow> edition_row list" where
  "active_editions db = filter (\<lambda>e. ed_status e = EditionActive) (editions db)"

text \<open>The primary key of the editions.\<close>

definition editions_keyed :: "tdb \<Rightarrow> bool" where
  "editions_keyed db \<longleftrightarrow> distinct (map ed_id (editions db)) \<and> (\<forall>e \<in> set (editions db). ed_id e < next_edition_id db)"

definition advanced :: "tdb \<Rightarrow> tdb \<Rightarrow> bool" where
  "advanced db db' \<longleftrightarrow> (editions_keyed db \<longrightarrow> editions_keyed db'
     \<and> grows edition_moves (editions db) (editions db') \<and> grows cycle_moves (cycles db) (cycles db')
     \<and> grows run_moves (tcompletions db) (tcompletions db')
     \<and> grows transition_moves (transitions db) (transitions db')
     \<and> (length (active_editions db) \<le> 1 \<longrightarrow> length (active_editions db') \<le> 1))"

lemmas row_moves_defs = edition_moves_def cycle_moves_def run_moves_def transition_moves_def

lemma row_moves_refl: "edition_moves e e" "cycle_moves c c" "run_moves r r" "transition_moves t t"
proof -
  show "edition_moves e e" by (simp add: edition_moves_def)
  show "cycle_moves c c" unfolding cycle_moves_def by (rule exI [of _ "cy_status c"]) simp
  show "run_moves r r" unfolding run_moves_def by (rule exI [of _ "tc_status r"]) simp
  show "transition_moves t t" unfolding transition_moves_def by (rule exI [of _ "tn_published t"]) simp
qed

lemma row_moves_trans:
  "edition_moves e e' \<Longrightarrow> edition_moves e' e'' \<Longrightarrow> edition_moves e e''"
  "cycle_moves c c' \<Longrightarrow> cycle_moves c' c'' \<Longrightarrow> cycle_moves c c''"
  "run_moves r r' \<Longrightarrow> run_moves r' r'' \<Longrightarrow> run_moves r r''"
  "transition_moves t t' \<Longrightarrow> transition_moves t' t'' \<Longrightarrow> transition_moves t t''"
  by (auto simp: row_moves_defs)

lemma advanced_same:
  assumes "editions db' = editions db" "cycles db' = cycles db" "tcompletions db' = tcompletions db"
    and "transitions db' = transitions db" "next_edition_id db' = next_edition_id db"
  shows "advanced db db'"
  using assms by (simp add: advanced_def grows_same row_moves_refl active_editions_def editions_keyed_def)

interpretation life: tourney_relation advanced
proof
  show "advanced s s" for s by (rule advanced_same) simp_all
  show "advanced s t \<Longrightarrow> advanced t u \<Longrightarrow> advanced s u" for s t u
    unfolding advanced_def by (blast intro: grows_trans row_moves_trans)
  show "advanced db db' \<Longrightarrow> advanced db (with_jobs js db')" for db db' js
    by (simp add: advanced_def with_jobs_def active_editions_def editions_keyed_def)
qed

subsection \<open>Every transaction moves forward\<close>

named_theorems life_rules

lemma advanced_editions:
  assumes "editions_keyed db \<Longrightarrow> editions_keyed (db\<lparr>editions := es, next_edition_id := n\<rparr>)"
    and "editions_keyed db \<Longrightarrow> grows edition_moves (editions db) es"
    and "length (filter (\<lambda>e. ed_status e = EditionActive) (editions db)) \<le> 1 \<Longrightarrow>
           length (filter (\<lambda>e. ed_status e = EditionActive) es) \<le> 1"
  shows "advanced db (db\<lparr>editions := es, next_edition_id := n\<rparr>)"
  using assms by (simp add: advanced_def grows_same row_moves_refl active_editions_def)

lemma advanced_update_editions:
  assumes "\<And>e. e \<in> set (editions db) \<Longrightarrow> P e \<Longrightarrow> edition_moves e (f e)"
  shows "advanced db (db\<lparr>editions := update_where P f (editions db)\<rparr>)"
proof -
  have es: "grows edition_moves (editions db) (update_where P f (editions db))"
    unfolding grows_def using assms
    by (intro exI [of _ "update_where P f (editions db)"] exI [of _ "[]"])
      (simp add: update_where_def list.rel_map list_all2_same row_moves_refl)
  have ids: "map ed_id (update_where P f (editions db)) = map ed_id (editions db)"
    using assms by (auto simp: update_where_def edition_moves_def)
  have le: "length (filter (\<lambda>e. ed_status e = EditionActive) (update_where P f xs))
      \<le> length (filter (\<lambda>e. ed_status e = EditionActive) xs)" if "set xs \<subseteq> set (editions db)" for xs
    using that
  proof (induction xs)
    case (Cons x xs)
    have "ed_status x = EditionActive" if "P x" "ed_status (f x) = EditionActive"
      using assms [of x] that Cons.prems by (cases "ed_status x") (auto simp: edition_moves_def)
    with Cons show ?case by auto
  qed simp
  have keyed: "editions_keyed (db\<lparr>editions := update_where P f (editions db)\<rparr>)" if "editions_keyed db"
    using that ids unfolding editions_keyed_def
    by simp (metis (no_types, lifting) imageE image_eqI list.set_map)
  show ?thesis
    using es le [OF order_refl] keyed by (simp add: advanced_def grows_same row_moves_refl active_editions_def)
qed

lemma advanced_other:
  "grows cycle_moves (cycles db) cs \<Longrightarrow> advanced db (db\<lparr>cycles := cs\<rparr>)"
  "grows run_moves (tcompletions db) rs \<Longrightarrow> advanced db (db\<lparr>tcompletions := rs\<rparr>)"
  "grows transition_moves (transitions db) ts \<Longrightarrow> advanced db (db\<lparr>transitions := ts\<rparr>)"
  by (simp_all add: advanced_def grows_same row_moves_refl active_editions_def editions_keyed_def)

lemma ledger_grant_xp_life [life_rules]: "moves advanced (ledger_grant_xp u n reason c k pending)"
  by (rule movesI, drule ledger_grant_xp_effect, rule advanced_same)
    (elim disjE conjE, simp, erule ssubst, simp)+

lemma advance_streak_life [life_rules]: "moves advanced (advance_streak u c b)"
  by (rule movesI, rule advanced_same)
    (auto simp: advance_streak_def Let_def split: option.splits if_splits)

lemma writes_life [life_rules]:
  "moves advanced (set_tournament_verified i v)" "moves advanced (mark_transition_published t)"
  "moves advanced (set_transitions_paused b)" "moves advanced (mark_edition_start_announced e)"
proof -
  show "moves advanced (set_tournament_verified i v)"
    unfolding set_tournament_verified_def Let_def
    by (intro life.rules moves_write advanced_other grows_update row_moves_refl) (auto simp: run_moves_def)
  show "moves advanced (mark_transition_published t)"
    unfolding mark_transition_published_def
    by (intro moves_write advanced_other grows_update row_moves_refl) (auto simp: transition_moves_def)
  show "moves advanced (set_transitions_paused b)"
    unfolding set_transitions_paused_def by (intro moves_write advanced_same; simp)
  show "moves advanced (mark_edition_start_announced e)"
    unfolding mark_edition_start_announced_def
    by (intro moves_write advanced_update_editions) (simp add: edition_moves_def)
qed

lemma inserts_life [life_rules]:
  "moves advanced (create_pending_transition E e ty p)" "moves advanced (create_cycle_for_edition e c m t3)"
  "moves advanced (set_debug_cycle_seconds secs)" "moves advanced (create_tournament_completion E c u m tm v)"
  by (rule movesI;
      auto simp: create_pending_transition_def create_cycle_for_edition_def advanced_def grows_same grows_append row_moves_refl
        active_editions_def editions_keyed_def set_debug_cycle_seconds_def create_tournament_completion_def Let_def
      split: if_splits sum.splits option.splits)+

lemma stage_bounds: "edition_stage s \<le> 2" "cycle_stage c \<le> 3"
  by (cases s; simp) (cases c; simp)

lemma cycle_moves_to: "cycle_stage (cy_status c) \<le> cycle_stage st \<Longrightarrow> cycle_moves c (c\<lparr>cy_status := st\<rparr>)"
  unfolding cycle_moves_def by blast

lemma complete_edition_life [life_rules]: "moves advanced (complete_edition e)"
  unfolding complete_edition_def
  by (intro life.rules moves_write advanced_other advanced_update_editions grows_update row_moves_refl cycle_moves_to)
    (simp_all add: edition_moves_def stage_bounds)

text \<open>The boundary: the due edition stops being active before its successor begins.\<close>

lemma due_edition_active: "due_edition now db = Some e \<Longrightarrow> e \<in> set (editions db) \<and> ed_status e = EditionActive \<and> ed_ends_at e \<le> now"
proof -
  assume due: "due_edition now db = Some e"
  let ?es = "sort_key ed_ends_at (filter (\<lambda>e. ed_status e = EditionActive \<and> ed_ends_at e \<le> now) (editions db))"
  from due obtain es where "?es = e # es" by (auto simp: due_edition_def split: list.splits)
  then have "e \<in> set ?es" by (metis list.set_intros(1))
  then show ?thesis by simp
qed

lemma fewer_active:
  assumes "e \<in> set es" "ed_status e = EditionActive"
  shows "length (filter (\<lambda>e. ed_status e = EditionActive)
      (update_where (\<lambda>x. ed_id x = ed_id e) (\<lambda>x. x\<lparr>ed_status := EditionAwaitingResults\<rparr>) es))
    < length (filter (\<lambda>e. ed_status e = EditionActive) es)"
proof -
  let ?f = "\<lambda>es. length (filter (\<lambda>e. ed_status e = EditionActive) es)"
  let ?u = "update_where (\<lambda>x. ed_id x = ed_id e) (\<lambda>x. x\<lparr>ed_status := EditionAwaitingResults\<rparr>)"
  have le: "?f (?u xs) \<le> ?f xs" for xs by (induction xs) auto
  from assms(1) obtain as bs where "es = as @ e # bs" by (meson split_list)
  then have "?f (?u es) = ?f (?u as) + ?f (?u bs)" "?f es = ?f as + 1 + ?f bs"
    using assms(2) by (simp_all add: update_where_def)
  with le [of as] le [of bs] show ?thesis by linarith
qed

definition stop_edition :: "edition_row \<Rightarrow> tdb \<Rightarrow> tdb" where
  "stop_edition e db = db\<lparr>
     cycles := update_where (\<lambda>cy. cy_edition_id cy = Some (ed_id e)
        \<and> (cy_status cy = CycleActive \<or> cy_status cy = CycleFinalizing)) (\<lambda>cy. cy\<lparr>cy_status := CycleFinalizing\<rparr>) (cycles db),
     editions := update_where (\<lambda>x. ed_id x = ed_id e) (\<lambda>x. x\<lparr>ed_status := EditionAwaitingResults\<rparr>) (editions db)\<rparr>"

definition next_edition :: "calendar \<Rightarrow> edition_row \<Rightarrow> tdb \<Rightarrow> edition_row" where
  "next_edition C e db = \<lparr>ed_id = next_edition_id db, ed_started_at = ed_ends_at e,
     ed_ends_at = scheduled_end C (tconfig db) (ed_ends_at e), ed_status = EditionActive, ed_start_announced = False\<rparr>"

lemma process_edition_transitions_run:
  "process_edition_transitions unlocked C now keys db =
     (if \<not> unlocked then Inr ((), db)
      else case due_edition now db of
        None \<Rightarrow> Inr ((), db)
      | Some e \<Rightarrow>
          if cg_transitions_paused (tconfig db) then Inr ((), stop_edition e db)
          else start_scheduled_cycles C now keys (next_edition C e db)
                 (map ca_id (filter ca_is_active (sort_key ca_id (categories db))))
                 ((stop_edition e db)\<lparr>editions := editions (stop_edition e db) @ [next_edition C e db],
                    next_edition_id := next_edition_id db + 1\<rparr>))"
  by (simp add: process_edition_transitions_def stop_edition_def create_edition_def next_edition_def bind_tx_def
      read_tx_def write_tx_def return_tx_def Let_def split: option.splits)

lemma stop_edition_advanced:
  assumes "due_edition now db = Some e"
  shows "advanced db (stop_edition e db)"
proof (cases "editions_keyed db")
  case True
  note due = due_edition_active [OF assms]
  have same: "x = e" if "x \<in> set (editions db)" "ed_id x = ed_id e" for x
    using True due that by (auto simp: editions_keyed_def distinct_map dest: inj_onD)
  let ?db1 = "db\<lparr>cycles := cycles (stop_edition e db)\<rparr>"
  have "advanced db ?db1" unfolding stop_edition_def
    by (simp, intro advanced_other grows_update row_moves_refl cycle_moves_to) auto
  moreover have "advanced ?db1 (?db1\<lparr>editions := update_where (\<lambda>x. ed_id x = ed_id e)
      (\<lambda>x. x\<lparr>ed_status := EditionAwaitingResults\<rparr>) (editions ?db1)\<rparr>)"
    using due by (intro advanced_update_editions) (auto simp: edition_moves_def dest!: same)
  ultimately show ?thesis by (auto simp: stop_edition_def elim: life.trans)
qed (simp add: advanced_def)

lemma next_edition_advanced:
  assumes "due_edition now db = Some e"
  shows "advanced db ((stop_edition e db)\<lparr>editions := editions (stop_edition e db) @ [next_edition C e db],
      next_edition_id := next_edition_id db + 1\<rparr>)" (is "advanced db ?db'")
proof (cases "editions_keyed db")
  case True
  note stop = stop_edition_advanced [OF assms]
  note due = due_edition_active [OF assms]
  have "length (active_editions (stop_edition e db)) < length (active_editions db)"
    using fewer_active [of e "editions db"] due by (simp add: active_editions_def stop_edition_def)
  moreover have "length (active_editions ?db') = length (active_editions (stop_edition e db)) + 1"
    by (simp add: active_editions_def next_edition_def)
  ultimately have "length (active_editions db) \<le> 1 \<longrightarrow> length (active_editions ?db') \<le> 1" by linarith
  moreover have "editions_keyed (stop_edition e db)" "next_edition_id (stop_edition e db) = next_edition_id db"
    using stop True by (simp_all add: advanced_def stop_edition_def)
  then have "editions_keyed ?db'" by (auto simp: editions_keyed_def next_edition_def)
  moreover have "grows edition_moves (editions (stop_edition e db)) (editions ?db')"
    by (simp add: grows_append row_moves_refl)
  then have "grows edition_moves (editions db) (editions ?db')"
    using stop True unfolding advanced_def by (blast intro: grows_trans row_moves_trans)
  ultimately show ?thesis using stop True by (simp add: advanced_def)
qed (simp add: advanced_def)

lemma start_scheduled_cycles_life [life_rules]: "moves advanced (start_scheduled_cycles C now keys e cs)"
proof (induction cs)
  case (Cons c cs)
  show ?case by (simp only: start_scheduled_cycles.simps) (intro life.rules life_rules Cons.IH)
qed (simp only: start_scheduled_cycles.simps life.rules)

lemma start_cycles_life [life_rules]: "moves advanced (start_cycles C now keys w e cats)"
proof (induction cats)
  case (Cons c cats)
  show ?case by (simp only: start_cycles.simps) (intro life.rules life_rules Cons.IH)
qed (simp only: start_cycles.simps life.rules)

lemma process_edition_transitions_life [life_rules]:
  "moves advanced (process_edition_transitions unlocked C now keys)"
proof (rule movesI)
  fix db x db' assume run: "process_edition_transitions unlocked C now keys db = Inr (x, db')"
  note unfolded = run [unfolded process_edition_transitions_run]
  show "advanced db db'"
  proof (cases "due_edition now db")
    case None
    with unfolded have "db' = db" by (simp split: if_splits)
    then show ?thesis by (simp add: life.refl)
  next
    case (Some e)
    consider "\<not> unlocked" | "unlocked" "cg_transitions_paused (tconfig db)"
      | "unlocked" "\<not> cg_transitions_paused (tconfig db)" by blast
    then show ?thesis
    proof cases
      case 1
      with unfolded show ?thesis by (simp add: life.refl)
    next
      case 2
      with unfolded Some have "db' = stop_edition e db" by simp
      with stop_edition_advanced [OF Some] show ?thesis by simp
    next
      case 3
      with unfolded Some have "start_scheduled_cycles C now keys (next_edition C e db)
         (map ca_id (filter ca_is_active (sort_key ca_id (categories db))))
         ((stop_edition e db)\<lparr>editions := editions (stop_edition e db) @ [next_edition C e db],
            next_edition_id := next_edition_id db + 1\<rparr>) = Inr (x, db')" by simp
      from life.trans [OF next_edition_advanced [OF Some] movesD [OF start_scheduled_cycles_life this]]
      show ?thesis .
    qed
  qed
qed

lemma create_first_edition_life:
  assumes "fetch_active_edition db = None" "create_edition a b db = Inr (e, db')"
  shows "advanced db db'"
proof -
  from assms(1) have "sort_key (\<lambda>e. - ed_started_at e) (active_editions db) = []"
    by (simp add: fetch_active_edition_def active_editions_def split: list.splits)
  then have "active_editions db = []" by (metis length_0_conv length_sort)
  then have one: "length (active_editions db') \<le> 1"
    using assms(2) by (auto simp: create_edition_def Let_def active_editions_def)
  have db': "db' = db\<lparr>editions := editions db @ [e], next_edition_id := next_edition_id db + 1\<rparr>"
    "ed_id e = next_edition_id db"
    using assms(2) by (auto simp: create_edition_def Let_def)
  have "editions_keyed db \<Longrightarrow> editions_keyed db'" by (auto simp: db' editions_keyed_def)
  with one show ?thesis by (simp add: advanced_def) (simp add: db' grows_same grows_append row_moves_refl)
qed

lemma bootstrap_life [life_rules]: "moves advanced (bootstrap_tx E C keys)"
proof (rule movesI)
  fix db e db' assume run: "bootstrap_tx E C keys db = Inr (e, db')"
  then have none: "fetch_active_edition db = None"
    by (auto simp: bootstrap_tx_def bind_tx_def read_tx_def raise_tx_def split: option.splits)
  define rest where "rest = (\<lambda>edition. bind_tx (set_transitions_paused False) (\<lambda>_.
         bind_tx (read_tx (\<lambda>db. filter ca_is_active (sort_key ca_name (categories db)))) (\<lambda>cats.
         bind_tx (start_cycles C (env_now E) keys (cg_blacklist_weeks (tconfig db)) edition cats) (\<lambda>started.
         bind_tx (create_pending_transition E (ed_id edition) ''edition_rollover''
            \<lparr>pl_edition_id = ed_id edition, pl_results = [], pl_started = Some started,
             pl_results_pending = Some False\<rparr>) (\<lambda>_. return_tx edition)))))"
  from run none obtain a b where "bind_tx (create_edition a b) rest db = Inr (e, db')"
    by (auto simp: bootstrap_tx_def rest_def Let_def)
  then obtain ed db1 where "create_edition a b db = Inr (ed, db1)" "rest ed db1 = Inr (e, db')" by (elim bind_txE)
  moreover have "moves advanced (rest ed)" unfolding rest_def by (intro life.rules life_rules)
  ultimately show "advanced db db'"
    by (blast intro: life.trans create_first_edition_life [OF none] movesD)
qed

lemma grant_placements_life [life_rules]: "moves advanced (grant_placements f c entries pending)"
proof (induction entries arbitrary: pending)
  case (Cons e entries)
  then show ?case by (auto intro!: life.rules life_rules split: option.splits)
qed (simp add: life.rules)

lemma awards_life [life_rules]:
  "moves advanced (award_participation c k u)" "moves advanced (award_cycle_placements ev)"
  unfolding award_participation_def award_cycle_placements_def by (intro life.rules life_rules)+

lemma advance_participants_life [life_rules]: "moves advanced (advance_participants f m us pending)"
proof (induction us arbitrary: pending)
  case (Cons u us)
  then show ?case by (auto simp: Let_def intro!: life.rules life_rules)
qed (simp add: life.rules)

lemma award_edition_streaks_life [life_rules]: "moves advanced (award_edition_streaks set_order results)"
  unfolding award_edition_streaks_def by (intro life.rules life_rules)

lemma award_lists_life [life_rules]:
  "moves advanced (award_results entries pending)" "moves advanced (award_children cs results pending)"
proof (induction entries arbitrary: pending)
  case Nil
  { case 1 show ?case by (simp only: award_results.simps life.rules) }
  { case 2 show ?case
    proof (induction cs arbitrary: results pending)
      case (Cons c cs)
      show ?case by (cases c) (simp only: award_children.simps, intro life.rules life_rules Cons.IH)
    qed (simp only: award_children.simps life.rules) }
next
  case (Cons e entries)
  { case 1 show ?case by (simp only: award_results.simps) (intro life.rules life_rules Cons.IH(1)) }
  { case 2 show ?case by (rule Cons.IH(2)) }
qed

lemma outbox_life [life_rules]:
  "moves advanced (write_drained_results_row E e)" "moves_p advanced (poll_transaction E outages set_order)"
  unfolding write_drained_results_row_def poll_transaction_def process_awaiting_results_editions_def
    process_awaiting_edition_def announce_start_def settle_edition_def publish_transition_def
  by (intro life.rules life.p_rules moves_p_tx life_rules)+

lemma verdicts_life [life_rules]: "moves advanced (decide_tx i v)" "moves advanced (force_publish_tx E)"
  unfolding decide_tx_def force_publish_tx_def by (intro life.rules life_rules)+

lemma commit_advanced: "commit db db' \<Longrightarrow> advanced db db'"
  by (erule commitE; (erule movesD [rotated] | erule moves_pD [rotated]); rule life_rules)

interpretation life: commit_relation advanced
  by unfold_locales (rule commit_advanced)

end
