(* ===== verification/Tourney_Poll.thy ===== *)
theory Tourney_Poll
  imports Tourney_Awards Tourney_Lifecycle
begin

section \<open>What a poll does\<close>

text \<open>
  A poll that succeeds settles every edition that can be settled and publishes every outbox row; a
  poll that fails leaves the tables as they were; and the tables never show whether the broker took
  the messages.
\<close>

subsection \<open>Shapes of the steps\<close>

lemma tx_p_run: "tx_p m db out = (Inr (x, db'), out') \<longleftrightarrow> m db = Inr (x, db') \<and> out' = out"
  by (auto simp: tx_p_def)

lemma publish_event_db:
  "publish_event E outages key data idem db out = (Inr (x, db'), out') \<Longrightarrow> db' = db"
  by (auto simp: publish_event_def bind_p_def outside_p_def return_p_def split: prod.splits sum.splits)

lemma return_p_run: "return_p x db out = (Inr (y, db'), out') \<longleftrightarrow> y = x \<and> db' = db \<and> out' = out"
  by (auto simp: return_p_def)

lemma award_results_frame: "award_results rs p db = Inr (ev, db') \<Longrightarrow> rewards_only db db'"
  using ledger_only_rewards [OF movesD [OF award_results_book]] by blast

lemma award_children_frame: "award_children cs rs p db = Inr (ev, db') \<Longrightarrow> rewards_only db db'"
  using ledger_only_rewards [OF movesD [OF award_children_book]] by blast

lemma award_edition_streaks_frame: "award_edition_streaks so rs db = Inr (ev, db') \<Longrightarrow> rewards_only db db'"
proof (cases "rs = []")
  case True
  moreover assume "award_edition_streaks so rs db = Inr (ev, db')"
  ultimately show ?thesis by (simp add: award_edition_streaks_def return_tx_def frame.refl)
qed (rule award_edition_streaks_effect(1))

definition edition_settled :: "nat \<Rightarrow> edition_row \<Rightarrow> edition_row \<Rightarrow> edition_row" where
  "edition_settled inflight e x =
     (if inflight = 0 then x\<lparr>ed_status := EditionCompleted\<rparr>
      else if ed_start_announced e then x else x\<lparr>ed_start_announced := True\<rparr>)"

definition cycles_settled :: "nat \<Rightarrow> int \<Rightarrow> cycle_row list \<Rightarrow> cycle_row list" where
  "cycles_settled inflight i cs = (if inflight = 0
      then update_where (\<lambda>c. cy_edition_id c = Some i) (\<lambda>c. c\<lparr>cy_status := CycleCompleted\<rparr>) cs else cs)"

lemma complete_edition_run:
  "complete_edition i db = Inr ((), db\<lparr>
     cycles := update_where (\<lambda>c. cy_edition_id c = Some i) (\<lambda>c. c\<lparr>cy_status := CycleCompleted\<rparr>) (cycles db),
     editions := update_where (\<lambda>e. ed_id e = i) (\<lambda>e. e\<lparr>ed_status := EditionCompleted\<rparr>) (editions db)\<rparr>)"
  by (simp add: complete_edition_def bind_tx_def write_tx_def)

lemma settle_edition_shape:
  assumes "settle_edition E outages so i started db out = (Inr (ev, db'), out')"
  shows "tcompletions db' = tcompletions db"
    "cycles db' = update_where (\<lambda>c. cy_edition_id c = Some i) (\<lambda>c. c\<lparr>cy_status := CycleCompleted\<rparr>) (cycles db)"
    "editions db' = update_where (\<lambda>e. ed_id e = i) (\<lambda>e. e\<lparr>ed_status := EditionCompleted\<rparr>) (editions db)"
proof -
  from assms obtain rs ev1 db1 out1 db2 out2 where
    award: "bind_tx (read_tx (fetch_edition_child_cycles i)) (\<lambda>children.
       bind_tx (award_children children [] []) (\<lambda>(results, placed).
       bind_tx (award_edition_streaks so results) (\<lambda>streaked. return_tx (results, placed @ streaked)))) db
       = Inr ((rs, ev1), db1)"
    and pub: "publish_event E outages ''api.tournament.rollover'' (TournamentRollover \<lparr>re_edition_id = i,
         re_results = rs, re_started = started, re_results_pending = False\<rparr>) (rollover_key i) db1 out1 = (Inr ((), db2), out2)"
    and compl: "complete_edition i db2 = Inr ((), db')"
    unfolding settle_edition_def
    by (elim bind_pE) (auto simp: tx_p_run return_p_run elim!: bind_pE split: prod.splits)
  from award have "rewards_only db db1"
    by (auto elim!: bind_txE simp: return_tx_def split: prod.splits
        intro: frame.trans dest!: award_children_frame award_edition_streaks_frame)
  then show "tcompletions db' = tcompletions db"
    "cycles db' = update_where (\<lambda>c. cy_edition_id c = Some i) (\<lambda>c. c\<lparr>cy_status := CycleCompleted\<rparr>) (cycles db)"
    "editions db' = update_where (\<lambda>e. ed_id e = i) (\<lambda>e. e\<lparr>ed_status := EditionCompleted\<rparr>) (editions db)"
    using compl publish_event_db [OF pub] by (auto simp: complete_edition_run rewards_only_frame)
qed

lemma process_awaiting_edition_shape:
  assumes "process_awaiting_edition E outages so e p db out = (Inr (ev, db'), out')"
  defines "n \<equiv> count_inflight_verifications (ed_id e) db"
  shows "tcompletions db' = tcompletions db" "cycles db' = cycles_settled n (ed_id e) (cycles db)"
    "editions db' = update_where (\<lambda>x. ed_id x = ed_id e) (edition_settled n e) (editions db)"
proof -
  have id: "update_where P (\<lambda>x. x) rows = rows" for P and rows :: "edition_row list" by (simp add: update_where_def)
  have "tcompletions db' = tcompletions db \<and> cycles db' = cycles_settled n (ed_id e) (cycles db)
    \<and> editions db' = update_where (\<lambda>x. ed_id x = ed_id e) (edition_settled n e) (editions db)"
  proof (cases "n = 0")
    case True
    then have settled: "edition_settled n e = (\<lambda>x. x\<lparr>ed_status := EditionCompleted\<rparr>)"
      "cycles_settled n (ed_id e) (cycles db) = update_where (\<lambda>c. cy_edition_id c = Some (ed_id e))
        (\<lambda>c. c\<lparr>cy_status := CycleCompleted\<rparr>) (cycles db)"
      by (simp_all add: edition_settled_def cycles_settled_def fun_eq_iff)
    show ?thesis
    proof (cases "ed_start_announced e")
      case False
      with assms(1) True obtain ev1 out1 where
        s: "settle_edition E outages so (ed_id e) (fetch_active_edition_started_cycles db) db out = (Inr (ev1, db'), out1)"
        unfolding process_awaiting_edition_def n_def by (auto elim!: bind_pE simp: tx_p_run return_p_run)
      from settle_edition_shape [OF s] show ?thesis unfolding settled by simp
    next
      case ann: True
      with assms(1) True have "write_drained_results_row E (ed_id e) db = Inr ((), db')"
        unfolding process_awaiting_edition_def n_def by (auto elim!: bind_pE simp: tx_p_run return_p_run)
      then show ?thesis unfolding settled write_drained_results_row_def
        by (auto elim!: bind_txE simp: complete_edition_run create_pending_transition_def split: if_splits)
    qed
  next
    case False
    then show ?thesis
    proof (cases "ed_start_announced e")
      case ann: False
      with assms(1) False obtain x out1 db1 where "mark_edition_start_announced (ed_id e) db = Inr (x, db1)" "db' = db1"
        unfolding process_awaiting_edition_def announce_start_def n_def
        by (auto elim!: bind_pE simp: tx_p_run return_p_run dest!: publish_event_db)
      with False ann show ?thesis
        by (simp add: mark_edition_start_announced_def write_tx_def edition_settled_def cycles_settled_def)
          (auto simp: edition_settled_def fun_eq_iff intro!: arg_cong2 [of _ _ _ _ "update_where _"])
    next
      case ann: True
      with assms(1) False have "db' = db"
        unfolding process_awaiting_edition_def n_def by (auto elim!: bind_pE simp: tx_p_run return_p_run)
      moreover have "edition_settled n e = (\<lambda>x. x)" using False ann by (simp add: edition_settled_def fun_eq_iff)
      ultimately show ?thesis using False by (simp add: cycles_settled_def id)
    qed
  qed
  then show "tcompletions db' = tcompletions db" "cycles db' = cycles_settled n (ed_id e) (cycles db)"
    "editions db' = update_where (\<lambda>x. ed_id x = ed_id e) (edition_settled n e) (editions db)" by blast+
qed

subsection \<open>The editions\<close>

text \<open>Settling one edition does not change what is in flight for another.\<close>

lemma inflight_other:
  assumes "tcompletions db' = tcompletions db" "cycles db' = cycles_settled n i (cycles db)" "j \<noteq> i"
  shows "count_inflight_verifications j db' = count_inflight_verifications j db"
proof -
  have "(\<exists>cy \<in> set (cycles db'). cy_id cy = c \<and> cy_edition_id cy = Some j \<and> (cy_status cy = CycleActive \<or> cy_status cy = CycleFinalizing))
    \<longleftrightarrow> (\<exists>cy \<in> set (cycles db). cy_id cy = c \<and> cy_edition_id cy = Some j \<and> (cy_status cy = CycleActive \<or> cy_status cy = CycleFinalizing))"
    for c using assms(3) unfolding assms(2) cycles_settled_def by (auto simp: update_where_def)
  then show ?thesis unfolding count_inflight_verifications_def assms(1) by simp
qed

definition settle_row :: "tdb \<Rightarrow> edition_row list \<Rightarrow> edition_row \<Rightarrow> edition_row" where
  "settle_row db es x = (case first_where (\<lambda>e. ed_id e = ed_id x) es of
      None \<Rightarrow> x | Some e \<Rightarrow> edition_settled (count_inflight_verifications (ed_id x) db) e x)"

lemma edition_settled_id: "ed_id (edition_settled n e x) = ed_id x"
  by (simp add: edition_settled_def)

lemma process_editions_shape:
  assumes "fold_p es (process_awaiting_edition E outages so) p db out = (Inr (ev, db'), out')"
    and "distinct (map ed_id es)"
  shows "tcompletions db' = tcompletions db \<and> editions db' = map (settle_row db es) (editions db)"
  using assms
proof (induction es arbitrary: p db out)
  case Nil
  then show ?case by (simp add: return_p_run settle_row_def map_idI)
next
  case (Cons e es)
  from Cons.prems(1) obtain p1 db1 out1 where
    one: "process_awaiting_edition E outages so e p db out = (Inr (p1, db1), out1)"
    and rest: "fold_p es (process_awaiting_edition E outages so) p1 db1 out1 = (Inr (ev, db'), out')"
    by (simp only: fold_p.simps) (erule bind_pE)
  note sh = process_awaiting_edition_shape [OF one]
  have tail: "tcompletions db' = tcompletions db1 \<and> editions db' = map (settle_row db1 es) (editions db1)"
    using Cons.IH [OF rest] Cons.prems(2) by simp
  have absent: "first_where (\<lambda>x. ed_id x = ed_id e) es = None"
    using Cons.prems(2) by (auto simp: first_where_None) (metis image_eqI)
  have "settle_row db1 es (if ed_id x = ed_id e then edition_settled (count_inflight_verifications (ed_id e) db) e x else x)
      = settle_row db (e # es) x" for x
  proof (cases "ed_id x = ed_id e")
    case True
    then show ?thesis using absent by (simp add: settle_row_def edition_settled_id)
  next
    case False
    then show ?thesis using inflight_other [OF sh(1,2) False] by (simp add: settle_row_def split: option.splits)
  qed
  then show ?case using tail sh(1,3) by (simp add: update_where_def)
qed

subsection \<open>The outbox rows\<close>

definition unpublished_ids :: "tdb \<Rightarrow> int set" where
  "unpublished_ids db = tn_id ` {t \<in> set (transitions db). \<not> tn_published t}"

lemma publish_transition_shape:
  assumes "publish_transition E outages so row p db out = (Inr (ev, db'), out')"
  shows "editions db' = editions db" "unpublished_ids db' \<subseteq> unpublished_ids db - {tn_id row}"
proof -
  from assms obtain key event ev1 db1 where
    award: "bind_tx (award_results (event_results event) p) (\<lambda>placed.
        bind_tx (award_edition_streaks so (event_results event)) (\<lambda>streaked. return_tx (placed @ streaked))) db = Inr (ev1, db1)"
    and mark: "mark_transition_published (tn_id row) db1 = Inr ((), db')"
    unfolding publish_transition_def
    by (auto elim!: bind_pE simp: tx_p_run return_p_run lift_tx_def split: prod.splits sum.splits dest!: publish_event_db)
  from award have "rewards_only db db1"
    by (auto elim!: bind_txE simp: return_tx_def intro: frame.trans dest!: award_results_frame award_edition_streaks_frame)
  with mark show "editions db' = editions db" "unpublished_ids db' \<subseteq> unpublished_ids db - {tn_id row}"
    by (auto simp: mark_transition_published_def write_tx_def rewards_only_frame unpublished_ids_def update_where_def
        split: if_splits)
qed

lemma publish_transitions_shape:
  assumes "fold_p rows (publish_transition E outages so) p db out = (Inr (ev, db'), out')"
  shows "editions db' = editions db \<and> unpublished_ids db' \<subseteq> unpublished_ids db - tn_id ` set rows"
  using assms
proof (induction rows arbitrary: p db out)
  case Nil
  then show ?case by (simp add: return_p_run)
next
  case (Cons r rows)
  from Cons.prems obtain p1 db1 out1 where
    one: "publish_transition E outages so r p db out = (Inr (p1, db1), out1)"
    and rest: "fold_p rows (publish_transition E outages so) p1 db1 out1 = (Inr (ev, db'), out')"
    by (simp only: fold_p.simps) (erule bind_pE)
  from Cons.IH [OF rest] publish_transition_shape [OF one] show ?case by auto
qed

text \<open>What a poll makes of an edition, from the state before it.\<close>

definition edition_after_poll :: "tdb \<Rightarrow> edition_row \<Rightarrow> edition_row" where
  "edition_after_poll db e =
     (if ed_status e \<noteq> EditionAwaitingResults then e
      else if count_inflight_verifications (ed_id e) db = 0 then e\<lparr>ed_status := EditionCompleted\<rparr>
      else e\<lparr>ed_start_announced := True\<rparr>)"

lemma poll_transaction_shape:
  assumes "poll_transaction E outages so db out = (Inr (ev, db'), out')" "editions_keyed db"
  shows "editions db' = map (edition_after_poll db) (editions db)" "\<forall>t \<in> set (transitions db'). tn_published t"
proof -
  let ?es = "fetch_awaiting_results_editions db"
  from assms(1) obtain ev1 db1 out1 where
    one: "fold_p ?es (process_awaiting_edition E outages so) [] db out = (Inr (ev1, db1), out1)"
    and two: "fold_p (fetch_unpublished_transitions db1) (publish_transition E outages so) ev1 db1 out1 = (Inr (ev, db'), out')"
    unfolding poll_transaction_def process_awaiting_results_editions_def
    by (elim bind_pE) (auto simp: tx_p_run elim!: bind_pE)
  have keyed: "distinct (map ed_id (editions db))" using assms(2) by (simp add: editions_keyed_def)
  have "mset (map ed_id ?es) = mset (map ed_id (filter (\<lambda>e. ed_status e = EditionAwaitingResults) (editions db)))"
    by (simp add: fetch_awaiting_results_editions_def mset_map)
  then have "distinct (map ed_id ?es)"
    using mset_eq_imp_distinct_iff distinct_map_filter [OF keyed] by metis
  from process_editions_shape [OF one this] publish_transitions_shape [OF two]
  have "editions db' = map (settle_row db ?es) (editions db)" by simp
  moreover have "settle_row db ?es x = edition_after_poll db x" if x: "x \<in> set (editions db)" for x
  proof (cases "ed_status x = EditionAwaitingResults")
    case True
    then have "x \<in> set ?es" using x by (simp add: fetch_awaiting_results_editions_def)
    then have "first_where (\<lambda>e. ed_id e = ed_id x) ?es = Some x"
      using \<open>distinct (map ed_id ?es)\<close> by (simp add: first_where_unique)
    with True show ?thesis
      by (cases x) (simp add: settle_row_def edition_after_poll_def edition_settled_def)
  next
    case False
    have "ed_id e \<noteq> ed_id x" if "e \<in> set ?es" for e
      using that x keyed False by (auto simp: fetch_awaiting_results_editions_def distinct_map dest: inj_onD)
    then have "first_where (\<lambda>e. ed_id e = ed_id x) ?es = None" by (auto simp: first_where_None)
    with False show ?thesis by (simp add: settle_row_def edition_after_poll_def)
  qed
  ultimately show "editions db' = map (edition_after_poll db) (editions db)" by simp
  have "unpublished_ids db1 = tn_id ` set (fetch_unpublished_transitions db1)"
    by (simp add: unpublished_ids_def fetch_unpublished_transitions_def)
  with publish_transitions_shape [OF two] have "unpublished_ids db' = {}" by auto
  then show "\<forall>t \<in> set (transitions db'). tn_published t" by (auto simp: unpublished_ids_def)
qed

subsection \<open>The whole call\<close>

lemma publish_xp_events_run:
  "\<exists>js. publish_xp_events E False events w = (Inr (), snd (publish_xp_events E False events w))
     \<and> wdb (snd (publish_xp_events E False events w)) = (wdb w)\<lparr>jobs := js\<rparr>"
proof -
  have eq: "publish_xp_events E False events = for_io (zip [0..<length events] events) (publish_one E False)"
    by (simp add: publish_xp_events_def publish_one_def)
  from publish_all_total [of "zip [0..<length events] events" E False w] show ?thesis unfolding eq by auto
qed

definition poll_out :: "tworld \<Rightarrow> econ_world" where
  "poll_out w = \<lparr>wdb = economy (wdb w), wmq = wmq w\<rparr>"

lemma poll_failed:
  assumes "publish_pending_transitions E outages so w = (Inl e, w')"
  shows "\<exists>js. wdb w' = with_jobs js (wdb w)"
proof -
  obtain r out where run: "poll_transaction E outages so (wdb w) (poll_out w) = (r, out)" by fastforce
  from assms run publish_xp_events_run have "\<exists>e. r = Inl e" and w': "w' = snd (in_transaction (poll_transaction E outages so) w)"
    by (auto simp: publish_pending_transitions_def bind_io_def in_transaction_def on_econ_def poll_out_def
        split: sum.splits prod.splits) (metis fst_conv old.sum.exhaust sum.distinct(1))+
  then have "wdb w' = (wdb w)\<lparr>economy := wdb out\<rparr>"
    using run by (auto simp: in_transaction_def poll_out_def)
  moreover obtain js where "wdb out = (wdb (poll_out w))\<lparr>jobs := js\<rparr>" using jobs_onlyD [OF jobs_only_poll run] by blast
  ultimately show ?thesis by (auto simp: with_jobs_def poll_out_def)
qed

lemma poll_succeeded:
  assumes "publish_pending_transitions E outages so w = (Inr x, w')"
  obtains events db out js where
    "poll_transaction E outages so (wdb w) (poll_out w) = (Inr (events, db), out)" "wdb w' = with_jobs js db"
proof -
  obtain r out where run: "poll_transaction E outages so (wdb w) (poll_out w) = (r, out)" by fastforce
  show thesis
  proof (cases r)
    case (Inl e)
    with assms run show thesis by (simp add: publish_pending_transitions_def bind_io_def in_transaction_def poll_out_def)
  next
    case (Inr xd)
    obtain events db where xd: "xd = (events, db)" by fastforce
    let ?w1 = "w\<lparr>wdb := with_jobs (jobs (wdb out)) db, wmq := wmq out\<rparr>"
    let ?E = "at_job E outages (length (jobs (wdb out)))" and ?ow = "\<lparr>wdb = economy (wdb ?w1), wmq = wmq out\<rparr>"
    from assms run Inr xd have "w' = snd (on_econ (publish_xp_events ?E False events) ?w1)"
      by (simp add: publish_pending_transitions_def bind_io_def in_transaction_def poll_out_def with_jobs_def)
    then have "wdb w' = (wdb ?w1)\<lparr>economy := wdb (snd (publish_xp_events ?E False events ?ow))\<rparr>"
      by (simp add: on_econ_def split: prod.splits)
    moreover obtain js where "wdb (snd (publish_xp_events ?E False events ?ow)) = (wdb ?ow)\<lparr>jobs := js\<rparr>"
      using publish_xp_events_run by blast
    ultimately have "wdb w' = with_jobs js db" by (simp add: with_jobs_def)
    with run Inr xd that show thesis by blast
  qed
qed

end
