(* ===== verification/Tourney_Broker.thy ===== *)
theory Tourney_Broker
  imports Tourney_Poll
begin

section \<open>The broker is invisible\<close>

text \<open>
  Two runs of the same poll against brokers in different states, as long as both give channels: a
  simulation that keeps the results and the databases equal and says nothing of the messages.
\<close>

definition blind :: "'a ptx \<Rightarrow> 'a ptx \<Rightarrow> bool" where
  "blind m m' \<longleftrightarrow> (\<forall>db out out'. wdb out = wdb out' \<longrightarrow>
     fst (m db out) = fst (m' db out') \<and> wdb (snd (m db out)) = wdb (snd (m' db out')))"

definition silent :: "'a ptx \<Rightarrow> bool" where
  "silent m \<longleftrightarrow> (\<forall>db out. wmq (snd (m db out)) = wmq out)"

lemma blindD:
  assumes "blind m m'" "wdb out = wdb out'" "m db out = (r, o1)" "m' db out' = (r', o2)"
  shows "r = r'" "wdb o1 = wdb o2"
  using assms unfolding blind_def by (metis fst_conv, metis snd_conv)

lemma blind_basic: "blind (tx_p m) (tx_p m)" "blind (return_p x) (return_p x)"
  by (simp_all add: blind_def tx_p_def return_p_def)

lemma blind_bind:
  assumes "blind m m'" "\<And>x. blind (k x) (k' x)"
  shows "blind (bind_p m k) (bind_p m' k')"
  unfolding blind_def
proof (intro allI impI)
  fix db and out out' :: econ_world assume eq: "wdb out = wdb out'"
  obtain r o1 r' o2 where m: "m db out = (r, o1)" "m' db out' = (r', o2)" by fastforce
  note same = blindD [OF assms(1) eq m]
  show "fst (bind_p m k db out) = fst (bind_p m' k' db out') \<and> wdb (snd (bind_p m k db out)) = wdb (snd (bind_p m' k' db out'))"
  proof (cases r)
    case (Inl e)
    with m same show ?thesis by (auto simp: bind_p_def)
  next
    case (Inr xd)
    obtain x d where "xd = (x, d)" by fastforce
    moreover obtain r1 o3 r2 o4 where "k x d o1 = (r1, o3)" "k' x d o2 = (r2, o4)" by fastforce
    moreover from blindD [OF assms(2) same(2) this] have "r1 = r2" "wdb o3 = wdb o4" by simp_all
    ultimately show ?thesis using m same(1) Inr by (auto simp: bind_p_def)
  qed
qed

lemma blind_if: "blind m m' \<Longrightarrow> blind n n' \<Longrightarrow> blind (if b then m else n) (if b then m' else n')"
  by simp

lemma blind_prod: "(\<And>a b. blind (f a b) (f' a b)) \<Longrightarrow> blind (case x of (a, b) \<Rightarrow> f a b) (case x of (a, b) \<Rightarrow> f' a b)"
  by (cases x) simp

lemma blind_fold: "(\<And>x a. blind (f x a) (f' x a)) \<Longrightarrow> blind (fold_p xs f a) (fold_p xs f' a)"
  by (induction xs arbitrary: a) (auto intro: blind_basic blind_bind)

text \<open>A message: with or without the broker's help the job row is written and the call goes on.\<close>

lemma publish_event_run:
  assumes "outages (length (jobs (wdb out))) \<noteq> NoChannel"
  shows "fst (publish_event E outages key data idem db out) =
      (if key \<notin> set ignore_idempotency \<and> idem = [] then Inl (Py (ValueError ''idempotency_key required'')) else Inr ((), db))"
    "wdb (snd (publish_event E outages key data idem db out)) =
      (let i = env_job_ids E (length (jobs (wdb out))) in
       if key \<notin> set ignore_idempotency \<and> idem = [] \<or> has_row (\<lambda>j. jb_id j = i) (jobs (wdb out)) then wdb out
       else (wdb out)\<lparr>jobs := jobs (wdb out) @ [\<lparr>jb_id = i, jb_action = key\<rparr>]\<rparr>)"
    "outages (length (jobs (wdb out))) = PublishFails \<Longrightarrow>
       wmq (snd (publish_event E outages key data idem db out)) = wmq out"
  using assms
  by (cases "outages (length (jobs (wdb out)))";
      auto simp: publish_event_def bind_p_def outside_p_def return_p_def at_job_def publish_message_def Let_def
        raise_io_def catch_io_def bind_io_def atomically_def insert_job_def bind_tx_def check_tx_def write_tx_def
        return_io_def send_io_def split: if_splits)+

lemma blind_publish:
  assumes "\<And>n. outages n \<noteq> NoChannel" "\<And>n. outages' n \<noteq> NoChannel"
  shows "blind (publish_event E outages key data idem) (publish_event E outages' key data idem)"
  unfolding blind_def
  by (simp add: publish_event_run(1,2) [of outages, OF assms(1)] publish_event_run(1,2) [of outages', OF assms(2)] Let_def)

lemmas blind_rules = blind_basic blind_bind blind_if blind_prod blind_fold

lemma blind_poll:
  assumes "\<And>n. outages n \<noteq> NoChannel" "\<And>n. outages' n \<noteq> NoChannel"
  shows "blind (poll_transaction E outages so) (poll_transaction E outages' so)"
  unfolding poll_transaction_def process_awaiting_results_editions_def process_awaiting_edition_def
    announce_start_def settle_edition_def publish_transition_def
  by (intro blind_rules blind_publish assms)

subsection \<open>Silence\<close>

lemma silent_basic: "silent (tx_p m)" "silent (return_p x)"
  by (simp_all add: silent_def tx_p_def return_p_def)

lemma silent_bind: "silent m \<Longrightarrow> (\<And>x. silent (k x)) \<Longrightarrow> silent (bind_p m k)"
  unfolding silent_def bind_p_def by (auto split: prod.splits sum.splits) (metis snd_conv)+

lemma silent_if: "silent m \<Longrightarrow> silent n \<Longrightarrow> silent (if b then m else n)"
  by simp

lemma silent_prod: "(\<And>a b. silent (f a b)) \<Longrightarrow> silent (case x of (a, b) \<Rightarrow> f a b)"
  by (cases x) simp

lemma silent_fold: "(\<And>x a. silent (f x a)) \<Longrightarrow> silent (fold_p xs f a)"
  by (induction xs arbitrary: a) (auto intro: silent_basic silent_bind)

lemma silent_poll: "silent (poll_transaction E (\<lambda>_. PublishFails) so)"
  unfolding poll_transaction_def process_awaiting_results_editions_def process_awaiting_edition_def
    announce_start_def settle_edition_def publish_transition_def
  by (intro silent_basic silent_bind silent_if silent_prod silent_fold)
    (simp_all add: silent_def publish_event_run(3))

subsection \<open>The events after the commit\<close>

lemma publish_all_blind:
  assumes "env_broker E \<noteq> NoChannel" "env_broker E' \<noteq> NoChannel" "env_job_ids E' = env_job_ids E" "wdb w = wdb w'"
  shows "wdb (snd (for_io ps (publish_one E False) w)) = wdb (snd (for_io ps (publish_one E' False) w'))"
  using assms(4)
proof (induction ps arbitrary: w w')
  case (Cons p ps)
  obtain i ev where p: "p = (i, ev)" by fastforce
  obtain w1 w1' where one: "publish_one E False p w = (Inr (), w1)" "publish_one E' False p w' = (Inr (), w1')"
    and eq: "wdb w1 = wdb w1'"
    using assms(1-3) Cons.prems unfolding p publish_one_run Let_def by (auto split: if_splits)
  show ?case using Cons.IH [OF eq] for_io_Cons_run [of "publish_one E False", OF one(1)]
      for_io_Cons_run [of "publish_one E' False", OF one(2)] by simp
qed simp

lemma publish_all_silent:
  assumes "env_broker E = PublishFails"
  shows "wmq (snd (for_io ps (publish_one E False) w)) = wmq w"
proof (induction ps arbitrary: w)
  case (Cons p ps)
  obtain i ev where p: "p = (i, ev)" by fastforce
  obtain w1 where one: "publish_one E False p w = (Inr (), w1)" "wmq w1 = wmq w"
    using assms unfolding p publish_one_run Let_def by (auto split: if_splits)
  show ?case using Cons.IH [of w1] for_io_Cons_run [of "publish_one E False", OF one(1)] one(2) by simp
qed simp

subsection \<open>The whole poll\<close>

lemma poll_ok_run:
  assumes "poll_transaction E outages so (wdb w) (poll_out w) = (Inr (events, db), out)"
  shows "publish_pending_transitions E outages so w =
     on_econ (publish_xp_events (at_job E outages (length (jobs (wdb out)))) False events)
       (w\<lparr>wdb := with_jobs (jobs (wdb out)) db, wmq := wmq out\<rparr>)"
  using assms
  by (simp add: publish_pending_transitions_def bind_io_def in_transaction_def poll_out_def with_jobs_def)

lemma poll_err_run:
  assumes "poll_transaction E outages so (wdb w) (poll_out w) = (Inl e, out)"
  shows "publish_pending_transitions E outages so w =
     (Inl e, w\<lparr>wdb := (wdb w)\<lparr>economy := wdb out\<rparr>, wmq := wmq out\<rparr>)"
  using assms
  by (simp add: publish_pending_transitions_def bind_io_def in_transaction_def poll_out_def)

lemma publish_xp_events_eq:
  "publish_xp_events E False events = for_io (zip [0..<length events] events) (publish_one E False)"
  by (simp add: publish_xp_events_def publish_one_def)

lemma on_econ_run:
  "fst (on_econ m w) = fst (m (poll_out w))"
  "wdb (snd (on_econ m w)) = (wdb w)\<lparr>economy := wdb (snd (m (poll_out w)))\<rparr>"
  "wmq (snd (on_econ m w)) = wmq (snd (m (poll_out w)))"
  by (simp_all add: on_econ_def poll_out_def split: prod.splits)

lemma poll_blind:
  assumes up: "\<And>n. outages n \<noteq> NoChannel" and up': "\<And>n. outages' n \<noteq> NoChannel"
  shows "fst (publish_pending_transitions E outages so w) = fst (publish_pending_transitions E outages' so w)"
    "wdb (snd (publish_pending_transitions E outages so w)) = wdb (snd (publish_pending_transitions E outages' so w))"
proof -
  obtain r out r' out' where run: "poll_transaction E outages so (wdb w) (poll_out w) = (r, out)"
    "poll_transaction E outages' so (wdb w) (poll_out w) = (r', out')" by fastforce
  from blindD [OF blind_poll [OF up up'] refl run] have eq: "r' = r" "wdb out' = wdb out" by simp_all
  have "fst (publish_pending_transitions E outages so w) = fst (publish_pending_transitions E outages' so w)
    \<and> wdb (snd (publish_pending_transitions E outages so w)) = wdb (snd (publish_pending_transitions E outages' so w))"
  proof (cases r)
    case (Inl e)
    then show ?thesis using poll_err_run [OF run(1) [unfolded Inl]] poll_err_run [OF run(2) [unfolded eq Inl]] eq by simp
  next
    case (Inr xd)
    obtain events db where xd: "xd = (events, db)" by fastforce
    note one = poll_ok_run [OF run(1) [unfolded Inr xd]]
      and two = poll_ok_run [OF run(2) [unfolded eq Inr xd]]
    let ?n = "length (jobs (wdb out))"
    have "wdb (poll_out (w\<lparr>wdb := d, wmq := q\<rparr>)) = wdb (poll_out (w\<lparr>wdb := d, wmq := q'\<rparr>))" for d q q'
      by (simp add: poll_out_def)
    from publish_all_blind [OF _ _ _ this, of "at_job E outages ?n" "at_job E outages' ?n"] up up'
    show ?thesis
      using publish_xp_events_run [of "at_job E outages ?n" events] publish_xp_events_run [of "at_job E outages' ?n" events]
      unfolding one two eq on_econ_run
      by (auto simp: at_job_def publish_xp_events_eq) (metis fst_conv)
  qed
  then show "fst (publish_pending_transitions E outages so w) = fst (publish_pending_transitions E outages' so w)"
    "wdb (snd (publish_pending_transitions E outages so w)) = wdb (snd (publish_pending_transitions E outages' so w))"
    by blast+
qed

lemma poll_silent: "wmq (snd (publish_pending_transitions E (\<lambda>_. PublishFails) so w)) = wmq w"
proof -
  obtain r out where run: "poll_transaction E (\<lambda>_. PublishFails) so (wdb w) (poll_out w) = (r, out)" by fastforce
  have out: "wmq out = wmq w"
    using silent_poll [of E so, unfolded silent_def, rule_format, of "wdb w" "poll_out w"] run by (simp add: poll_out_def)
  show ?thesis
  proof (cases r)
    case (Inl e)
    with poll_err_run run out show ?thesis by simp
  next
    case (Inr xd)
    obtain events db where xd: "xd = (events, db)" by fastforce
    show ?thesis unfolding poll_ok_run [OF run [unfolded Inr xd]] on_econ_run publish_xp_events_eq
      by (subst publish_all_silent) (simp_all add: at_job_def poll_out_def out)
  qed
qed

end
