(* ===== verification/Tourney_Replay.thy ===== *)
theory Tourney_Replay
  imports Tourney_Awards
begin

section \<open>Delivering the same results again\<close>

text \<open>
  What a run of the rewards leaves behind - ledger rows and streaks marked with the edition - makes a
  second run a no-op.
\<close>

definition streaks_keyed :: "tdb \<Rightarrow> bool" where
  "streaks_keyed db \<longleftrightarrow> distinct (map sk_user_id (streaks db))"

lemma granted_mono: "accounted db db' \<Longrightarrow> granted c u k db \<Longrightarrow> granted c u k db'"
  by (auto simp: accounted_def granted_iff)

lemma update_where_same:
  assumes "distinct (map key rows)" "first_where (\<lambda>x. key x = k) rows = Some r"
  shows "update_where (\<lambda>x. key x = k) (\<lambda>_. r) rows = rows"
  using assms
proof (induction rows)
  case (Cons x rows)
  show ?case
  proof (cases "key x = k")
    case True
    then have "k \<notin> key ` set rows" using Cons.prems(1) by auto
    then have "update_where (\<lambda>x. key x = k) (\<lambda>_. r) rows = rows"
      by (intro update_where_none) (auto simp: has_row_iff)
    with True Cons.prems(2) show ?thesis by simp
  next
    case False
    with Cons show ?thesis by simp
  qed
qed simp

subsection \<open>Grants\<close>

lemma ledger_grant_xp_done:
  assumes "ledger_grant_xp u n reason c k p db = Inr (ev, db')"
  shows "int4_ok n" "k \<in> {''participation'', ''placement'', ''streak''}" "granted c u k db'"
proof -
  show "int4_ok n" "k \<in> {''participation'', ''placement'', ''streak''}"
    using assms by (auto simp: ledger_grant_xp_def bind_tx_def claim_xp_grant_def split: if_splits)
  show "granted c u k db'"
    using ledger_grant_xp_effect [OF assms] by (auto simp: granted_iff grant_key_def)
qed

lemma ledger_grant_xp_skip:
  assumes "int4_ok n" "k \<in> {''participation'', ''placement'', ''streak''}" "granted c u k db"
  shows "ledger_grant_xp u n reason c k p db = Inr (p, db)"
  using assms by (auto simp: ledger_grant_xp_def bind_tx_def claim_xp_grant_def return_tx_def)

subsection \<open>Placements\<close>

definition placed :: "(int \<Rightarrow> int option) \<Rightarrow> int \<Rightarrow> leaderboard_entry list \<Rightarrow> tdb \<Rightarrow> bool" where
  "placed f c entries db \<longleftrightarrow> (\<forall>e \<in> set entries. \<forall>xp. f (le_rank e) = Some xp \<longrightarrow> xp \<noteq> 0 \<longrightarrow>
     int4_ok xp \<and> granted c (le_user_id e) ''placement'' db)"

lemma placed_mono: "accounted db db' \<Longrightarrow> placed f c entries db \<Longrightarrow> placed f c entries db'"
  by (auto simp: placed_def intro: granted_mono)

lemma grant_placements_done: "grant_placements f c entries p db = Inr (ev, db') \<Longrightarrow> placed f c entries db'"
proof (induction entries arbitrary: p db)
  case Nil
  then show ?case by (simp add: placed_def)
next
  case (Cons e entries)
  show ?case
  proof (cases "f (le_rank e) = None \<or> f (le_rank e) = Some 0")
    case True
    with Cons.prems have "grant_placements f c entries p db = Inr (ev, db')" by auto
    from Cons.IH [OF this] True show ?thesis by (auto simp: placed_def)
  next
    case False
    then obtain xp where xp: "f (le_rank e) = Some xp" "xp \<noteq> 0" by auto
    with Cons.prems obtain p1 db1 where
      g: "ledger_grant_xp (le_user_id e) xp (placement_reason (le_rank e)) c ''placement'' p db = Inr (p1, db1)"
      and rest: "grant_placements f c entries p1 db1 = Inr (ev, db')" by (auto elim: bind_txE)
    from granted_mono [OF movesD [OF grant_placements_paid rest] ledger_grant_xp_done(3) [OF g]]
      ledger_grant_xp_done(1) [OF g] Cons.IH [OF rest] xp show ?thesis by (auto simp: placed_def)
  qed
qed

lemma grant_placements_skip: "placed f c entries db \<Longrightarrow> grant_placements f c entries p db = Inr (p, db)"
proof (induction entries)
  case (Cons e entries)
  then have IH: "grant_placements f c entries p db = Inr (p, db)" by (auto simp: placed_def)
  show ?case
  proof (cases "f (le_rank e)")
    case None
    with IH show ?thesis by simp
  next
    case (Some xp)
    with Cons.prems have "xp \<noteq> 0 \<Longrightarrow> ledger_grant_xp (le_user_id e) xp (placement_reason (le_rank e)) c ''placement'' p db = Inr (p, db)"
      by (intro ledger_grant_xp_skip) (auto simp: placed_def)
    with Some IH show ?thesis by (simp add: bind_tx_Inr)
  qed
qed (simp add: return_tx_def)

definition cycle_placed :: "cycle_completed_event \<Rightarrow> tdb \<Rightarrow> bool" where
  "cycle_placed ev db \<longleftrightarrow> (case fetch_category (ce_category_id ev) db of None \<Rightarrow> True
     | Some c \<Rightarrow> placed (placement_by_place (ca_placement_xp c)) (ce_cycle_id ev) (ce_standings ev) db)"

lemma cycle_placed_mono:
  "accounted db db' \<Longrightarrow> rewards_only db db' \<Longrightarrow> cycle_placed ev db \<Longrightarrow> cycle_placed ev db'"
  by (auto simp: cycle_placed_def fetch_category_def rewards_only_frame intro: placed_mono split: option.splits)

lemma fetch_category_frame: "rewards_only db db' \<Longrightarrow> fetch_category k db' = fetch_category k db"
  by (simp add: fetch_category_def rewards_only_frame)

lemma award_cycle_placements_done:
  assumes "award_cycle_placements ev db = Inr (events, db')"
  shows "cycle_placed ev db'"
  using fetch_category_frame [OF conjunct1 [OF ledger_only_rewards [OF movesD [OF award_cycle_placements_book assms]]]] assms
  by (auto simp: award_cycle_placements_def cycle_placed_def split: option.splits dest: grant_placements_done)

lemma award_cycle_placements_skip: "cycle_placed ev db \<Longrightarrow> award_cycle_placements ev db = Inr ([], db)"
  by (auto simp: award_cycle_placements_def cycle_placed_def return_tx_def grant_placements_skip split: option.splits)

lemma award_results_done:
  "award_results rs p db = Inr (events, db') \<Longrightarrow> ev \<in> set rs \<Longrightarrow> cycle_placed ev db'"
proof (induction rs arbitrary: p db)
  case (Cons r rs)
  from Cons.prems(1) obtain e1 db1 where one: "award_cycle_placements r db = Inr (e1, db1)"
    and rest: "award_results rs (p @ e1) db1 = Inr (events, db')" by (auto elim: bind_txE)
  have "accounted db1 db'" "rewards_only db1 db'"
    using movesD [OF award_results_paid rest] ledger_only_rewards [OF movesD [OF award_results_book rest]] by simp_all
  from cycle_placed_mono [OF this award_cycle_placements_done [OF one]] Cons.IH [OF rest] Cons.prems(2)
  show ?case by auto
qed simp

lemma award_results_skip: "(\<And>ev. ev \<in> set rs \<Longrightarrow> cycle_placed ev db) \<Longrightarrow> award_results rs p db = Inr (p, db)"
  by (induction rs) (simp_all add: return_tx_def award_cycle_placements_skip bind_tx_Inr)

subsection \<open>Streaks\<close>

lemma advance_streak_keyed:
  assumes "advance_streak u m b db = Inr (r, db')" "streaks_keyed db"
  shows "streaks_keyed db'"
proof (cases "fetch_streak u db")
  case None
  with assms(1) have "sk_user_id r = u" "db' = db\<lparr>streaks := streaks db @ [r]\<rparr>"
    by (auto simp: advance_streak_def Let_def split: if_splits)
  moreover from None have "u \<notin> set (map sk_user_id (streaks db))" by (auto simp: fetch_streak_def first_where_None)
  ultimately show ?thesis using assms(2) by (simp add: streaks_keyed_def)
next
  case (Some s)
  from assms(1) Some have "sk_user_id r = u"
    "db' = db\<lparr>streaks := update_where (\<lambda>x. sk_user_id x = u) (\<lambda>_. r) (streaks db)\<rparr>"
    using fetch_streak_user [OF Some] by (auto simp: advance_streak_def Let_def split: if_splits)
  moreover from this have "map sk_user_id (update_where (\<lambda>x. sk_user_id x = u) (\<lambda>_. r) (streaks db)) = map sk_user_id (streaks db)"
    by (auto simp: update_where_def)
  ultimately show ?thesis using assms(2) by (simp add: streaks_keyed_def)
qed

text \<open>A streak already marked with the cycle is left as it is.\<close>

lemma advance_streak_skip:
  assumes "streaks_keyed db" "fetch_streak u db = Some r" "sk_last_cycle_id r = Some m"
    and "int4_ok (sk_current_streak r)" "cycle_exists m db" "b \<or> sk_current_streak r = 0"
  shows "advance_streak u m b db = Inr (r, db)"
proof -
  have same: "update_where (\<lambda>x. sk_user_id x = u) (\<lambda>_. r) (streaks db) = streaks db"
    using assms(1,2) by (intro update_where_same) (simp_all add: streaks_keyed_def fetch_streak_def)
  show ?thesis
  proof (cases b)
    case True
    with assms(2-5) same show ?thesis by (simp add: advance_streak_def Let_def)
  next
    case False
    with assms(3,6) have r: "r\<lparr>sk_current_streak := 0, sk_last_cycle_id := Some m\<rparr> = r" by (cases r) simp
    from False assms(2,4,5) show ?thesis by (simp add: advance_streak_def Let_def r same)
  qed
qed

lemma advance_streak_marks:
  assumes "advance_streak u m True db = Inr (r, db')"
  shows "sk_last_cycle_id r = Some m" "int4_ok (sk_current_streak r)" "cycle_exists m db"
  using assms by (auto simp: advance_streak_def Let_def int4_ok_def split: option.splits if_splits)

definition streak_settled :: "(int \<Rightarrow> int \<Rightarrow> int) \<Rightarrow> int \<Rightarrow> int \<Rightarrow> tdb \<Rightarrow> bool" where
  "streak_settled f m u db \<longleftrightarrow> (\<exists>r. fetch_streak u db = Some r \<and> sk_last_cycle_id r = Some m
     \<and> int4_ok (sk_current_streak r) \<and> cycle_exists m db
     \<and> (f u (sk_current_streak r) \<noteq> 0 \<longrightarrow> int4_ok (f u (sk_current_streak r)) \<and> granted m u ''streak'' db))"

lemma streak_settled_mono:
  "streak_settled f m u db \<Longrightarrow> accounted db db' \<Longrightarrow> rewards_only db db' \<Longrightarrow> fetch_streak u db' = fetch_streak u db \<Longrightarrow>
     streak_settled f m u db'"
  by (auto simp: streak_settled_def cycle_exists_def rewards_only_frame intro: granted_mono)

lemma advance_participants_skip:
  assumes "streaks_keyed db" "\<And>u. u \<in> set us \<Longrightarrow> streak_settled f m u db"
  shows "advance_participants f m us p db = Inr (p, db)"
  using assms(2)
proof (induction us)
  case (Cons u us)
  then have IH: "advance_participants f m us p db = Inr (p, db)" by simp
  from Cons.prems [of u] obtain r where r: "fetch_streak u db = Some r" "sk_last_cycle_id r = Some m"
    "int4_ok (sk_current_streak r)" "cycle_exists m db"
    "f u (sk_current_streak r) \<noteq> 0 \<Longrightarrow> int4_ok (f u (sk_current_streak r)) \<and> granted m u ''streak'' db"
    by (auto simp: streak_settled_def)
  have adv: "advance_streak u m True db = Inr (r, db)" using assms(1) r(1-4) by (simp add: advance_streak_skip)
  have "f u (sk_current_streak r) \<noteq> 0 \<Longrightarrow> ledger_grant_xp u (f u (sk_current_streak r))
      (streak_reason (sk_current_streak r)) m ''streak'' p db = Inr (p, db)"
    using r(5) by (intro ledger_grant_xp_skip) auto
  then show ?case by (simp add: bind_tx_def adv IH Let_def)
qed (simp add: return_tx_def)

lemma advance_participants_settles:
  assumes "advance_participants f m us p db = Inr (ev, db')" "distinct us" "u \<in> set us"
  shows "streak_settled f m u db'"
  using assms
proof (induction us arbitrary: p db)
  case (Cons x us)
  from Cons.prems(1) obtain r db0 where adv: "advance_streak x m True db = Inr (r, db0)"
    and rest: "(let bonus = f x (sk_current_streak r) in
     if bonus = 0 then advance_participants f m us p
     else bind_tx (ledger_grant_xp x bonus (streak_reason (sk_current_streak r)) m ''streak'' p)
            (advance_participants f m us)) db0 = Inr (ev, db')" by (auto elim: bind_txE)
  note marks = advance_streak_marks [OF adv] and a = advance_streak_True [OF adv]
  have settled0: "fetch_streak x db0 = Some r" "cycle_exists m db0"
    using a(2) [of x] marks(3) by (simp, subst a(3), simp add: cycle_exists_def)
  have "\<exists>p1 db1. advance_participants f m us p1 db1 = Inr (ev, db') \<and> streak_settled f m x db1"
  proof (cases "f x (sk_current_streak r) = 0")
    case True
    with rest settled0 marks show ?thesis by (auto simp: streak_settled_def)
  next
    case False
    with rest obtain p1 db1 where g: "ledger_grant_xp x (f x (sk_current_streak r)) (streak_reason (sk_current_streak r))
        m ''streak'' p db0 = Inr (p1, db1)" and run: "advance_participants f m us p1 db1 = Inr (ev, db')"
      by (auto simp: Let_def elim: bind_txE)
    have "cycle_exists m db1" using ledger_grant_xp_frame(1) [OF g] settled0(2)
      by (simp add: cycle_exists_def rewards_only_frame)
    with ledger_grant_xp_done [OF g] ledger_grant_xp_frame(2) [OF g, of x] settled0 marks run show ?thesis
      by (auto simp: streak_settled_def)
  qed
  then obtain p1 db1 where run: "advance_participants f m us p1 db1 = Inr (ev, db')" "streak_settled f m x db1" by blast
  show ?case
  proof (cases "u = x")
    case True
    note eff = advance_participants_effect [OF run(1)]
    from run Cons.prems(2) eff(1) eff(2) [of x] True show ?thesis
      by (intro streak_settled_mono [OF _ movesD [OF advance_participants_paid run(1)]]) auto
  next
    case False
    with Cons.IH [OF run(1)] Cons.prems(2,3) show ?thesis by simp
  qed
qed simp

lemma advance_participants_keyed:
  assumes "advance_participants f m us p db = Inr (ev, db')" "streaks_keyed db"
  shows "streaks_keyed db'"
  using assms
proof (induction us arbitrary: p db)
  case (Cons x us)
  from Cons.prems(1) obtain r db0 where adv: "advance_streak x m True db = Inr (r, db0)"
    and rest: "(let bonus = f x (sk_current_streak r) in
     if bonus = 0 then advance_participants f m us p
     else bind_tx (ledger_grant_xp x bonus (streak_reason (sk_current_streak r)) m ''streak'' p)
            (advance_participants f m us)) db0 = Inr (ev, db')" by (auto elim: bind_txE)
  have k0: "streaks_keyed db0" by (rule advance_streak_keyed [OF adv Cons.prems(2)])
  show ?case
  proof (cases "f x (sk_current_streak r) = 0")
    case True
    with rest Cons.IH k0 show ?thesis by simp
  next
    case False
    with rest obtain p1 db1 where g: "ledger_grant_xp x (f x (sk_current_streak r)) (streak_reason (sk_current_streak r))
        m ''streak'' p db0 = Inr (p1, db1)" and run: "advance_participants f m us p1 db1 = Inr (ev, db')"
      by (auto simp: Let_def elim: bind_txE)
    from ledger_only_rewards [OF movesD [OF ledger_grant_xp_book g]] k0 have "streaks_keyed db1"
      by (simp add: streaks_keyed_def)
    then show ?thesis by (rule Cons.IH [OF run])
  qed
qed simp

abbreviation reset_streaks :: "int \<Rightarrow> int list \<Rightarrow> unit ttx" where
  "reset_streaks m us \<equiv> for_tx us (\<lambda>u. bind_tx (advance_streak u m False) (\<lambda>_. return_tx ()))"

lemma reset_streaks_keyed:
  "reset_streaks m us db = Inr (x, db') \<Longrightarrow> streaks_keyed db \<Longrightarrow> streaks_keyed db'"
proof (induction us arbitrary: db)
  case (Cons u us)
  from Cons.prems(1) obtain y db1 where one: "bind_tx (advance_streak u m False) (\<lambda>_. return_tx ()) db = Inr (y, db1)"
    and run: "reset_streaks m us db1 = Inr (x, db')" by (simp only: for_tx.simps) (erule bind_txE)
  from one obtain r where "advance_streak u m False db = Inr (r, db1)" by (auto elim!: bind_txE)
  from advance_streak_keyed [OF this Cons.prems(2)] show ?case by (rule Cons.IH [OF run])
qed simp

lemma reset_streaks_skip:
  assumes "streaks_keyed db" "\<And>u. u \<in> set us \<Longrightarrow> \<exists>r. fetch_streak u db = Some r \<and> sk_last_cycle_id r = Some m \<and> sk_current_streak r = 0"
    and "us \<noteq> [] \<Longrightarrow> cycle_exists m db"
  shows "reset_streaks m us db = Inr ((), db)"
  using assms(2,3)
proof (induction us)
  case (Cons u us)
  from Cons.prems obtain r where r: "fetch_streak u db = Some r" "sk_last_cycle_id r = Some m" "sk_current_streak r = 0" by auto
  have "advance_streak u m False db = Inr (r, db)"
    using assms(1) r Cons.prems(2) by (intro advance_streak_skip) (auto simp: int4_ok_def)
  moreover have "reset_streaks m us db = Inr ((), db)" by (rule Cons.IH) (use Cons.prems in auto)
  ultimately show ?case by (simp add: bind_tx_def return_tx_def)
qed (simp add: return_tx_def)

lemma reset_streaks_cycle:
  assumes "reset_streaks m us db = Inr (x, db')" "us \<noteq> []" "fetch_streak (hd us) db \<noteq> None"
  shows "cycle_exists m db"
  using assms by (cases us) (auto simp: advance_streak_def Let_def bind_tx_def split: option.splits if_splits sum.splits)

subsection \<open>The whole edition\<close>

lemma participants_frame:
  "rewards_only db db' \<Longrightarrow> edition_participants rs db' = edition_participants rs db"
  by (simp add: edition_participants_def fetch_cycle_participants_def rewards_only_frame)

lemma streak_bonus_frame: "rewards_only db db' \<Longrightarrow> streak_bonus rs u n db' = streak_bonus rs u n db"
  by (simp add: streak_bonus_def categories_played_def fetch_cycle_participants_def streak_tiers_def
      fetch_category_frame rewards_only_frame)

lemma award_edition_streaks_again:
  assumes run: "award_edition_streaks so rs db = Inr (events, db')" and keyed: "streaks_keyed db"
  shows "award_edition_streaks so' rs db' = Inr ([], db')"
proof (cases "rs = []")
  case True
  then show ?thesis by (simp add: award_edition_streaks_def return_tx_def)
next
  case False
  let ?m = "marker_cycle rs" and ?P = "edition_participants rs db" and ?f = "\<lambda>u n. streak_bonus rs u n db"
  from award_edition_streaks_run [OF run False] obtain db1 where
    adv: "advance_participants ?f ?m (order_by_random so ?P) [] db = Inr (events, db1)"
    and res: "reset_streaks ?m (order_by_random so (filter (\<lambda>u. u \<notin> set ?P) (remdups (fetch_all_streak_user_ids db1)))) db1
        = Inr ((), db')" by metis
  let ?us = "order_by_random so (filter (\<lambda>u. u \<notin> set ?P) (remdups (fetch_all_streak_user_ids db1)))"
  note eff = award_edition_streaks_effect [OF run False]
  have keyed': "streaks_keyed db'" by (rule reset_streaks_keyed [OF res advance_participants_keyed [OF adv keyed]])
  have us: "set ?us = {v. v \<notin> set ?P \<and> fetch_streak v db1 \<noteq> None}" by (auto simp: tracked_iff)
  have tracked: "fetch_streak v db1 \<noteq> None" if "v \<in> set ?us" for v using that unfolding us by blast
  have distinct: "distinct (order_by_random so ?P)" "distinct ?us"
    by (simp_all add: distinct_order_by_random distinct_edition_participants)
  have reset: "rewards_only db1 db'" "\<And>u. u \<in> set ?P \<Longrightarrow> fetch_streak u db' = fetch_streak u db1"
    "\<And>u. fetch_streak u db1 = None \<Longrightarrow> fetch_streak u db' = None"
    using reset_streaks_effect [OF res distinct(2) tracked] unfolding us by (auto split: if_splits)
  have "moves accounted (reset_streaks ?m ?us)" by (intro paid.rules paid_rules)
  with res have reset_paid: "accounted db1 db'" unfolding moves_def by blast
  have settled: "streak_settled ?f ?m u db'" if "u \<in> set ?P" for u
    using streak_settled_mono [OF advance_participants_settles [OF adv distinct(1)] reset_paid reset(1)] reset(2) that by simp
  have again: "advance_participants ?f ?m (order_by_random so' ?P) [] db' = Inr ([], db')"
    by (rule advance_participants_skip [OF keyed']) (simp add: settled)
  let ?vs = "order_by_random so' (filter (\<lambda>u. u \<notin> set ?P) (remdups (fetch_all_streak_user_ids db')))"
  have vs: "set ?vs = {v. v \<notin> set ?P \<and> fetch_streak v db' \<noteq> None}" by (auto simp: tracked_iff)
  have zero: "\<exists>r. fetch_streak v db' = Some r \<and> sk_last_cycle_id r = Some ?m \<and> sk_current_streak r = 0" if "v \<in> set ?vs" for v
    using that eff(2) [of v] unfolding vs by (auto simp: streak_after_def streak_reset_def Let_def)
  have "reset_streaks ?m ?vs db' = Inr ((), db')"
  proof (rule reset_streaks_skip [OF keyed' zero])
    assume "?vs \<noteq> []"
    then obtain v where "v \<in> set ?vs" by (meson hd_in_set)
    then have "v \<in> set ?us" using reset(3) [of v] unfolding us vs by (cases "fetch_streak v db1") auto
    then have "?us \<noteq> []" by (metis empty_iff empty_set)
    from reset_streaks_cycle [OF res this tracked [OF hd_in_set [OF this]]] have "cycle_exists ?m db1" .
    then show "cycle_exists ?m db'" using reset(1) by (simp add: cycle_exists_def rewards_only_frame)
  qed
  then show ?thesis
    unfolding award_edition_streaks_def Let_def using False again
    by (simp only: if_False bind_read_tx participants_frame [OF eff(1)] streak_bonus_frame [OF eff(1)])
      (simp add: bind_tx_def return_tx_def read_tx_def)
qed

end
