(* ===== verification/Tourney_Standings.thy ===== *)
theory Tourney_Standings
  imports Tourney_Lifecycle
begin

section \<open>Standings and the choice of maps\<close>

text \<open>
  What the leaderboard query computes, and what the fallback of the map selection does once every
  map has been played.
\<close>

subsection \<open>Sorting\<close>

lemma strict_rank:
  fixes f :: "'a \<Rightarrow> 'b::linorder"
  assumes "sorted_wrt (\<lambda>x y. f x < f y) xs" "i < length xs"
  shows "length (filter (\<lambda>y. f y < f (xs ! i)) xs) = i"
  using assms
proof (induction xs arbitrary: i)
  case (Cons x xs)
  show ?case
  proof (cases i)
    case 0
    have "\<not> f y < f x" if "y \<in> set xs" for y using Cons.prems(1) that by auto
    then have "filter (\<lambda>y. f y < f x) xs = []" by (auto simp: filter_empty_conv)
    then show ?thesis using 0 by simp
  next
    case (Suc j)
    then have "f x < f (xs ! j)" using Cons.prems by auto
    with Suc Cons show ?thesis by simp
  qed
qed simp

lemma sort_key_strict:
  fixes f :: "'a \<Rightarrow> 'b::linorder"
  assumes "distinct (map f xs)"
  shows "sorted_wrt (\<lambda>x y. f x < f y) (sort_key f xs)"
proof -
  have "sorted (map f (sort_key f xs))" by simp
  moreover have "distinct (map f (sort_key f xs))"
    using assms by (metis mset_eq_imp_distinct_iff mset_map mset_sort)
  ultimately have "sorted_wrt (<) (map f (sort_key f xs))" by (simp add: strict_sorted_iff)
  then show ?thesis by (simp add: sorted_wrt_map)
qed

lemma hd_sort_key:
  fixes f :: "'a \<Rightarrow> 'b::linorder"
  assumes "xs \<noteq> []"
  shows "hd (sort_key f xs) = hd (filter (\<lambda>y. f y = Min (f ` set xs)) xs)"
proof -
  obtain y ys where s: "sort_key f xs = y # ys" using assms by (metis neq_Nil_conv length_0_conv length_sort)
  have sorted: "sorted (map f (y # ys))" using s by (metis sorted_sort_key)
  have set: "set xs = set (y # ys)" by (simp only: s [symmetric] set_sort)
  have "f y \<le> f x" if "x \<in> set xs" for x using that sorted unfolding set by auto
  then have "f y = Min (f ` set xs)" by (intro Min_eqI [symmetric]) (auto simp: set)
  moreover have "filter (\<lambda>z. f z = f y) (sort_key f xs) = filter (\<lambda>z. f z = f y) xs"
    by (rule sort_key_stable)
  ultimately have "filter (\<lambda>z. f z = Min (f ` set xs)) xs = y # filter (\<lambda>z. f z = f y) ys"
    using s by simp
  then show ?thesis by (simp add: s)
qed

subsection \<open>Best runs\<close>

definition runs_of :: "int \<Rightarrow> int \<Rightarrow> tdb \<Rightarrow> tcompletion_row list" where
  "runs_of cycle_id u db = filter (\<lambda>c. tc_cycle_id c = cycle_id \<and> tc_user_id c = u) (tcompletions db)"

definition ranked_users :: "int \<Rightarrow> tdb \<Rightarrow> int list" where
  "ranked_users cycle_id db = filter (\<lambda>u. user_exists u (economy db)) (fetch_cycle_participants cycle_id db)"

definition best_run :: "int \<Rightarrow> tdb \<Rightarrow> int \<Rightarrow> tcompletion_row" where
  "best_run cycle_id db u = hd (sort_key run_key (runs_of cycle_id u db))"

lemma runs_of_nonempty: "u \<in> set (ranked_users c db) \<Longrightarrow> runs_of c u db \<noteq> []"
  by (auto simp: ranked_users_def fetch_cycle_participants_def runs_of_def filter_empty_conv)

lemma best_runs_map: "best_runs c db = map (best_run c db) (ranked_users c db)"
proof -
  have "concat (map (\<lambda>u. take 1 (sort_key run_key (runs_of c u db))) us) = map (best_run c db) us"
    if "\<And>u. u \<in> set us \<Longrightarrow> runs_of c u db \<noteq> []" for us
    using that
  proof (induction us)
    case (Cons u us)
    then have "sort_key run_key (runs_of c u db) \<noteq> []" by (metis length_0_conv length_sort list.set_intros(1))
    then have "take 1 (sort_key run_key (runs_of c u db)) = [best_run c db u]"
      by (cases "sort_key run_key (runs_of c u db)") (simp_all add: best_run_def)
    with Cons show ?case by simp
  qed simp
  from this [of "ranked_users c db"] runs_of_nonempty show ?thesis
    by (simp add: best_runs_def ranked_users_def runs_of_def)
qed

lemma best_run_in:
  assumes "u \<in> set (ranked_users c db)"
  shows "best_run c db u \<in> set (runs_of c u db)" "tc_user_id (best_run c db u) = u"
    "r \<in> set (runs_of c u db) \<Longrightarrow> run_key (best_run c db u) \<le> run_key r"
proof -
  let ?s = "sort_key run_key (runs_of c u db)"
  have ne: "?s \<noteq> []" using runs_of_nonempty [OF assms] by (metis length_0_conv length_sort)
  then show mem: "best_run c db u \<in> set (runs_of c u db)" by (metis best_run_def hd_in_set set_sort)
  then show "tc_user_id (best_run c db u) = u" by (simp add: runs_of_def)
  show "run_key (best_run c db u) \<le> run_key r" if "r \<in> set (runs_of c u db)"
  proof -
    obtain y ys where s: "?s = y # ys" using ne by (cases ?s) auto
    have "sorted (map run_key ?s)" by simp
    moreover have "r \<in> set ?s" using that by simp
    ultimately show ?thesis unfolding best_run_def s by auto
  qed
qed

definition standings :: "int \<Rightarrow> tdb \<Rightarrow> tcompletion_row list" where
  "standings c db = sort_key standing_key (best_runs c db)"

lemma standings_users: "mset (map tc_user_id (standings c db)) = mset (ranked_users c db)"
proof -
  have "map tc_user_id (map (best_run c db) (ranked_users c db)) = ranked_users c db"
    by (simp add: map_idI best_run_in(2))
  then show ?thesis by (metis best_runs_map mset_map mset_sort standings_def)
qed

lemma distinct_ranked: "distinct (ranked_users c db)"
  by (simp add: ranked_users_def fetch_cycle_participants_def)

lemma standings_strict: "sorted_wrt (\<lambda>x y. standing_key x < standing_key y) (standings c db)"
  unfolding standings_def
proof (rule sort_key_strict)
  have "distinct (map tc_user_id (best_runs c db))"
    by (simp add: best_runs_map map_idI best_run_in(2) distinct_ranked cong: map_cong)
  then show "distinct (map standing_key (best_runs c db))"
    by (auto simp: distinct_map inj_on_def standing_key_def)
qed

lemma standings_best:
  assumes "r \<in> set (standings c db)"
  shows "r \<in> set (runs_of c (tc_user_id r) db)"
    and "r' \<in> set (runs_of c (tc_user_id r) db) \<Longrightarrow> run_key r \<le> run_key r'"
proof -
  from assms obtain u where "u \<in> set (ranked_users c db)" "r = best_run c db u"
    by (auto simp: standings_def best_runs_map)
  with best_run_in show "r \<in> set (runs_of c (tc_user_id r) db)"
    "r' \<in> set (runs_of c (tc_user_id r) db) \<Longrightarrow> run_key r \<le> run_key r'" by auto
qed

lemma fetch_leaderboard_map:
  "fetch_leaderboard c db = map (\<lambda>i. let r = standings c db ! i in
      \<lparr>le_rank = 1 + int i, le_user_id = tc_user_id r, le_name = display_name (tc_user_id r) (economy db),
       le_time = fl (tc_time r), le_verified = tc_verified r, le_completion = tc_completion r\<rparr>) [0..<length (standings c db)]"
proof -
  have "length (filter (\<lambda>d. standing_key d < standing_key (standings c db ! i)) (best_runs c db)) = i"
    if "i < length (standings c db)" for i
  proof -
    have "length (filter P (best_runs c db)) = length (filter P (standings c db))" for P
      by (metis mset_filter mset_sort size_mset standings_def)
    then show ?thesis using strict_rank [OF standings_strict that] by simp
  qed
  then show ?thesis
    by (intro nth_equalityI) (simp_all add: fetch_leaderboard_def standings_def Let_def)
qed

subsection \<open>What the choice of a map returns\<close>

definition playable :: "tdb \<Rightarrow> string list \<Rightarrow> bool" where
  "playable db difficulties \<longleftrightarrow> has_row (map_matches difficulties) (maps_tbl (economy db))"

lemma map_uses_maps: "fst ` set (map_uses ds db) = {m \<in> set (maps_tbl (economy db)). map_matches ds m}"
proof -
  have "\<exists>x. x \<in> set (left_join P cs)" for P :: "cycle_row \<Rightarrow> bool" and cs
    by (metis list.set_intros(1) neq_Nil_conv left_join_nonempty)
  then show ?thesis by (auto simp: map_uses_def image_iff)
qed

lemma least_recently_used_hd:
  "fetch_least_recently_used_map ds db =
     (if map_uses ds db = [] then None else Some (fst (hd (sort_key (start_key \<circ> snd) (map_uses ds db)))))"
proof (cases "sort_key (start_key \<circ> snd) (map_uses ds db)")
  case Nil
  then have "map_uses ds db = []" by (metis length_0_conv length_sort)
  then show ?thesis by (simp add: fetch_least_recently_used_map_def)
next
  case (Cons r rs)
  then have "map_uses ds db \<noteq> []" by (metis list.distinct(1) sort_key_simps(1))
  then show ?thesis by (simp add: fetch_least_recently_used_map_def Cons split: prod.splits)
qed

lemma least_recently_used_matches:
  assumes "fetch_least_recently_used_map ds db = Some m"
  shows "m \<in> set (maps_tbl (economy db))" "map_matches ds m"
proof -
  let ?s = "sort_key (start_key \<circ> snd) (map_uses ds db)"
  from assms have ne: "map_uses ds db \<noteq> []" and m: "m = fst (hd ?s)"
    by (simp_all add: least_recently_used_hd split: if_splits)
  from ne have "?s \<noteq> []" by (metis length_0_conv length_sort)
  then have "hd ?s \<in> set (map_uses ds db)" by (metis hd_in_set set_sort)
  then have "m \<in> fst ` set (map_uses ds db)" unfolding m by (rule imageI)
  then show "m \<in> set (maps_tbl (economy db))" "map_matches ds m" by (simp_all add: map_uses_maps)
qed

lemma least_recently_used_None: "fetch_least_recently_used_map ds db = None \<longleftrightarrow> \<not> playable db ds"
proof -
  have "map_uses ds db = [] \<longleftrightarrow> fst ` set (map_uses ds db) = {}" by simp
  then show ?thesis unfolding map_uses_maps by (auto simp: least_recently_used_hd playable_def has_row_iff)
qed

lemma choose_eligible_map_matches:
  assumes "choose_eligible_map C now keys ds weeks exclude db = Some m"
  shows "m \<in> set (maps_tbl (economy db))" "map_matches ds m"
proof -
  have "m \<in> set (maps_tbl (economy db)) \<and> map_matches ds m"
  proof (cases "fetch_eligible_maps C now keys ds weeks exclude db")
    case Nil
    with assms least_recently_used_matches [of ds db m] show ?thesis by (simp add: choose_eligible_map_def)
  next
    case (Cons x xs)
    then have "m \<in> set (fetch_eligible_maps C now keys ds weeks exclude db)"
      using assms by (simp add: choose_eligible_map_def)
    then show ?thesis by (simp add: fetch_eligible_maps_def)
  qed
  then show "m \<in> set (maps_tbl (economy db))" "map_matches ds m" by simp_all
qed

lemma choose_eligible_map_None:
  "choose_eligible_map C now keys ds weeks exclude db = None \<longleftrightarrow> \<not> playable db ds"
proof
  assume "choose_eligible_map C now keys ds weeks exclude db = None"
  then have "fetch_least_recently_used_map ds db = None" by (simp add: choose_eligible_map_def split: list.splits)
  then show "\<not> playable db ds" by (simp add: least_recently_used_None)
next
  assume no: "\<not> playable db ds"
  show "choose_eligible_map C now keys ds weeks exclude db = None"
  proof (rule ccontr)
    assume "\<not> ?thesis"
    then obtain m where "choose_eligible_map C now keys ds weeks exclude db = Some m" by blast
    from choose_eligible_map_matches [OF this] no show False by (auto simp: playable_def has_row_iff)
  qed
qed

subsection \<open>The fallback never moves on\<close>

text \<open>
  Rows that come after all the others do not change which row is first; a fresh use of a played map
  only adds such rows, so the map with the oldest first use stays in front.
\<close>

lemma hd_sort_key_late:
  fixes f :: "'a \<Rightarrow> 'b::linorder"
  assumes "filter (\<lambda>r. f r < b) ys = xs" "xs \<noteq> []"
  shows "hd (sort_key f ys) = hd (sort_key f xs)"
proof -
  from assms have xs: "set xs = {r \<in> set ys. f r < b}" by auto
  then have sub: "f ` set xs \<subseteq> f ` set ys" by auto
  have low: "Min (f ` set xs) \<in> f ` set xs" using assms(2) by (intro Min_in) auto
  then have lt: "Min (f ` set xs) < b" using xs by auto
  have "Min (f ` set ys) = Min (f ` set xs)"
  proof (rule Min_eqI)
    show "Min (f ` set xs) \<in> f ` set ys" using low sub by blast
    show "Min (f ` set xs) \<le> k" if "k \<in> f ` set ys" for k
    proof (cases "k < b")
      case True
      with that xs have "k \<in> f ` set xs" by auto
      then show ?thesis by simp
    qed (use lt in simp)
  qed simp
  moreover have "filter (\<lambda>r. f r = Min (f ` set xs)) ys = filter (\<lambda>r. f r = Min (f ` set xs)) xs"
    using lt unfolding assms(1) [symmetric] filter_filter by (intro filter_cong) auto
  moreover have "ys \<noteq> []" using assms by auto
  ultimately show ?thesis by (simp add: hd_sort_key assms(2))
qed

lemma map_uses_again:
  assumes "\<forall>x \<in> set (cycles db). \<exists>t. cy_started_at x = Some t \<and> t < s"
    and "cy \<in> set (cycles db)" "cy_map_id cy = cy_map_id c" "cy_started_at c = Some s"
  shows "filter (\<lambda>r. (start_key \<circ> snd) r < (True, s)) (map_uses ds (db\<lparr>cycles := cycles db @ [c]\<rparr>)) = map_uses ds db"
proof -
  have one: "filter (\<lambda>r. (start_key \<circ> snd) r < (True, s)) (map (Pair m) (left_join (\<lambda>cy. cy_map_id cy = mp_id m) (cycles db @ [c])))
      = map (Pair m) (left_join (\<lambda>cy. cy_map_id cy = mp_id m) (cycles db))" for m :: map_row
  proof -
    let ?cs = "filter (\<lambda>cy. cy_map_id cy = mp_id m) (cycles db)"
    have early: "start_key (Some x) < (True, s)" if "x \<in> set ?cs" for x
      using assms(1) that by (auto simp: start_key_def)
    have late: "\<not> start_key (Some c) < (True, s)" using assms(4) by (simp add: start_key_def)
    show ?thesis
    proof (cases ?cs)
      case Nil
      with assms(2,3) have "cy_map_id c \<noteq> mp_id m" by (auto simp: filter_empty_conv)
      with Nil show ?thesis by (simp add: left_join_def start_key_def)
    next
      case (Cons x xs)
      note before = early [unfolded Cons]
      show ?thesis using late before by (simp add: left_join_def Cons)
    qed
  qed
  then show ?thesis by (simp add: map_uses_def filter_concat comp_def)
qed

subsection \<open>The cycles of the next edition\<close>

definition category_playable :: "tdb \<Rightarrow> int \<Rightarrow> bool" where
  "category_playable db k \<longleftrightarrow>
     playable db (case fetch_category k db of Some c \<Rightarrow> ca_difficulties c | None \<Rightarrow> [])"

definition starts_in :: "edition_row \<Rightarrow> tdb \<Rightarrow> cycle_row \<Rightarrow> bool" where
  "starts_in e db cy \<longleftrightarrow> cy_status cy = CycleActive \<and> cy_started_at cy = Some (ed_started_at e)
     \<and> cy_edition_id cy = Some (ed_id e)
     \<and> (\<exists>m \<in> set (maps_tbl (economy db)). mp_id m = cy_map_id cy
          \<and> map_matches (case fetch_category (cy_category_id cy) db of Some c \<Rightarrow> ca_difficulties c | None \<Rightarrow> []) m)"

lemma more_cycles_frame:
  "category_playable (db\<lparr>cycles := cs, next_cycle_id := n\<rparr>) = category_playable db"
  "starts_in e (db\<lparr>cycles := cs, next_cycle_id := n\<rparr>) = starts_in e db"
  by (simp_all add: fun_eq_iff category_playable_def starts_in_def playable_def fetch_category_def)

lemma start_scheduled_cycles_run:
  assumes "has_row (\<lambda>x. ed_id x = ed_id e) (editions db)"
    and "\<And>k. k \<in> set ks \<Longrightarrow> has_row (\<lambda>c. ca_id c = k) (categories db)"
  shows "\<exists>new. start_scheduled_cycles C now keys e ks db =
       Inr ((), db\<lparr>cycles := cycles db @ new, next_cycle_id := next_cycle_id db + int (length new)\<rparr>)
     \<and> map cy_category_id new = filter (category_playable db) ks \<and> (\<forall>cy \<in> set new. starts_in e db cy)"
  using assms
proof (induction ks arbitrary: db)
  case Nil
  show ?case by (rule exI [of _ "[]"]) (simp add: return_tx_def)
next
  case (Cons k ks)
  let ?sel = "select_eligible_map C now (keys (length ks)) k db"
  show ?case
  proof (cases ?sel)
    case None
    then have no: "\<not> category_playable db k"
      by (simp add: select_eligible_map_def choose_eligible_map_None category_playable_def)
    from None have "start_scheduled_cycles C now keys e (k # ks) db = start_scheduled_cycles C now keys e ks db"
      by (simp add: bind_tx_def read_tx_def return_tx_def)
    with Cons.IH [of db] Cons.prems no show ?thesis by simp
  next
    case (Some m)
    note m = choose_eligible_map_matches [OF Some [unfolded select_eligible_map_def]]
    then have yes: "category_playable db k" by (auto simp: category_playable_def playable_def has_row_iff)
    let ?c = "\<lparr>cy_id = next_cycle_id db, cy_category_id = k, cy_map_id = mp_id m, cy_status = CycleActive,
      cy_started_at = Some (ed_started_at e), cy_edition_id = Some (ed_id e)\<rparr>"
    let ?db = "db\<lparr>cycles := cycles db @ [?c], next_cycle_id := next_cycle_id db + 1\<rparr>"
    have "has_row (\<lambda>x. mp_id x = mp_id m) (maps_tbl (economy db))" using m(1) by (auto simp: has_row_iff)
    then have "create_cycle_for_edition (ed_id e) k (mp_id m) (ed_started_at e) db = Inr (?c, ?db)"
      using Cons.prems by (simp add: create_cycle_for_edition_def Let_def)
    then have run: "start_scheduled_cycles C now keys e (k # ks) db = start_scheduled_cycles C now keys e ks ?db"
      using Some by (simp add: bind_tx_def read_tx_def return_tx_def)
    from Cons.IH [of ?db] Cons.prems obtain new where new: "start_scheduled_cycles C now keys e ks ?db =
         Inr ((), ?db\<lparr>cycles := cycles ?db @ new, next_cycle_id := next_cycle_id ?db + int (length new)\<rparr>)"
       "map cy_category_id new = filter (category_playable db) ks" "\<forall>cy \<in> set new. starts_in e db cy"
      unfolding more_cycles_frame by auto
    have "starts_in e db ?c" using m by (auto simp: starts_in_def)
    with new yes show ?thesis unfolding run by (intro exI [of _ "?c # new"]) simp
  qed
qed

end
