(* ===== verification/Tourney_Rulings.thy ===== *)
theory Tourney_Rulings
  imports Tourney_System
begin

section \<open>What a verdict does\<close>

text \<open>
  The transaction of a verdict on every branch, and the calls around it, which only publish.
\<close>

subsection \<open>Calls that only publish\<close>

definition job_rows_only :: "tdb \<Rightarrow> tdb \<Rightarrow> bool" where
  "job_rows_only db db' \<longleftrightarrow> (\<exists>js. db' = with_jobs js db)"

lemma with_jobs_same: "with_jobs (jobs (economy db)) db = db"
  by (simp add: with_jobs_def)

lemma with_jobs_twice [simp]: "with_jobs js (with_jobs js' db) = with_jobs js db"
  by (simp add: with_jobs_def)

interpretation quiet: tourney_relation job_rows_only
proof
  show "job_rows_only s s" for s unfolding job_rows_only_def by (metis with_jobs_same)
qed (auto simp: job_rows_only_def)

lemma quiet_publishes:
  "moves_io job_rows_only (publish_verdict E outages pytest row v key)"
  "moves_io job_rows_only (publish_after E outages pytest events)"
  using quiet.on_econ_jobs [OF publish_message_db] quiet.on_econ_jobs [OF publish_xp_events_jobs]
  by (simp_all add: moves_io_def publish_verdict_def publish_after_def Let_def)

lemma quiet_noop: "moves_io job_rows_only (noop_verdict_job E outages i key)"
  unfolding noop_verdict_job_def by (intro quiet.io_rules quiet.atomically quiet.basic quiet_publishes)

lemma quietD: "moves_io job_rows_only m \<Longrightarrow> m w = (r, w') \<Longrightarrow> \<exists>js. wdb w' = with_jobs js (wdb w)"
  unfolding moves_io_def job_rows_only_def by (metis snd_conv)

subsection \<open>The transaction\<close>

definition target_verdict :: "bool \<Rightarrow> verdict" where
  "target_verdict v = (if v then VerdictVerified else VerdictRejected)"

definition with_verdict :: "int \<Rightarrow> bool \<Rightarrow> tcompletion_row list \<Rightarrow> tcompletion_row list" where
  "with_verdict i v rows = update_where (\<lambda>c. tc_id c = i) (\<lambda>c. c\<lparr>tc_status := target_verdict v\<rparr>) rows"

lemma with_verdict_changes:
  "update_where (\<lambda>c. tc_id c = i \<and> tc_status c \<noteq> target_verdict v) (\<lambda>c. c\<lparr>tc_status := target_verdict v\<rparr>) rows
     = with_verdict i v rows"
  by (induction rows) (auto simp: with_verdict_def)

lemma set_tournament_verified_run:
  "set_tournament_verified i v db = Inr
     (map_option (\<lambda>c. c\<lparr>tc_status := target_verdict v\<rparr>)
        (first_where (\<lambda>c. tc_id c = i \<and> tc_status c \<noteq> target_verdict v) (tcompletions db)),
      db\<lparr>tcompletions := with_verdict i v (tcompletions db)\<rparr>)"
  by (simp add: set_tournament_verified_def bind_tx_def read_tx_def write_tx_def return_tx_def Let_def
      with_verdict_changes [symmetric] target_verdict_def)

definition participation_grant :: "tcompletion_row \<Rightarrow> grant_row \<Rightarrow> bool" where
  "participation_grant row g \<longleftrightarrow> gr_cycle_id g = tc_cycle_id row \<and> gr_user_id g = tc_user_id row
     \<and> gr_reason g = ''participation''"

lemma award_participation_effect:
  assumes "award_participation c k u db = Inr (events, db')"
  shows "tcompletions db' = tcompletions db
     \<and> (\<exists>gs. xp_grants db' = xp_grants db @ gs \<and> length gs \<le> 1
          \<and> (\<forall>g \<in> set gs. gr_cycle_id g = c \<and> gr_user_id g = u \<and> gr_reason g = ''participation''))"
proof -
  have "(db' = db) \<or> (\<exists>n reason. ledger_grant_xp u n reason c ''participation'' [] db = Inr (events, db'))"
    using assms by (auto simp: award_participation_def bind_tx_def read_tx_def return_tx_def split: option.splits if_splits)
  then show ?thesis
  proof
    assume "\<exists>n reason. ledger_grant_xp u n reason c ''participation'' [] db = Inr (events, db')"
    then obtain n reason where "ledger_grant_xp u n reason c ''participation'' [] db = Inr (events, db')" by blast
    from ledger_grant_xp_effect [OF this] show ?thesis
    proof (elim disjE conjE)
      assume grants: "xp_grants db' = xp_grants db @ [\<lparr>gr_cycle_id = c, gr_user_id = u, gr_reason = ''participation'', gr_amount = n\<rparr>]"
        and "db' = db\<lparr>xp_grants := xp_grants db', economy := (economy db)\<lparr>xp_tbl := xp_tbl (economy db')\<rparr>\<rparr>"
      from this(2) have "tcompletions db' = tcompletions db"
        by (metis tdb.select_convs(5) tdb.surjective tdb.update_convs(1) tdb.update_convs(7))
      with grants show ?thesis by simp
    qed simp
  qed simp
qed

lemma decide_tx_effect:
  assumes "decide_tx i v db = Inr ((updated, events), db')"
  shows "tcompletions db' = with_verdict i v (tcompletions db)"
    "\<exists>gs. xp_grants db' = xp_grants db @ gs \<and> length gs \<le> 1
       \<and> (\<forall>g \<in> set gs. v \<and> (\<exists>row \<in> set (tcompletions db). tc_id row = i \<and> participation_grant row g))"
    "updated = None \<Longrightarrow> \<not> has_row (\<lambda>c. tc_id c = i \<and> tc_status c \<noteq> target_verdict v) (tcompletions db)"
proof -
  let ?P = "\<lambda>c. tc_id c = i \<and> tc_status c \<noteq> target_verdict v"
  let ?db = "db\<lparr>tcompletions := with_verdict i v (tcompletions db)\<rparr>"
  have "tcompletions db' = with_verdict i v (tcompletions db)
    \<and> (\<exists>gs. xp_grants db' = xp_grants db @ gs \<and> length gs \<le> 1
       \<and> (\<forall>g \<in> set gs. v \<and> (\<exists>row \<in> set (tcompletions db). tc_id row = i \<and> participation_grant row g)))
    \<and> (updated = None \<longrightarrow> \<not> has_row ?P (tcompletions db))"
  proof (cases "first_where ?P (tcompletions db)")
    case None
    with assms have "updated = None" "db' = ?db"
      by (auto simp: decide_tx_def bind_tx_def set_tournament_verified_run return_tx_def)
    with None show ?thesis by (auto simp: first_where_None has_row_iff)
  next
    case (Some row)
    then have row: "row \<in> set (tcompletions db)" "tc_id row = i" by (auto dest: first_where_SomeD)
    have "db' = ?db \<or> (v \<and> (\<exists>k. award_participation (tc_cycle_id row) k (tc_user_id row) ?db = Inr (events, db')))"
      and updated: "updated \<noteq> None"
      using assms Some by (auto simp: decide_tx_def bind_tx_def set_tournament_verified_run return_tx_def read_tx_def
          fetch_cycle_def dest!: first_where_SomeD split: option.splits if_splits sum.splits prod.splits)
    then show ?thesis using row award_participation_effect [of "tc_cycle_id row" _ "tc_user_id row" ?db events db']
      by (fastforce simp: participation_grant_def)
  qed
  then show "tcompletions db' = with_verdict i v (tcompletions db)"
    "\<exists>gs. xp_grants db' = xp_grants db @ gs \<and> length gs \<le> 1
       \<and> (\<forall>g \<in> set gs. v \<and> (\<exists>row \<in> set (tcompletions db). tc_id row = i \<and> participation_grant row g))"
    "updated = None \<Longrightarrow> \<not> has_row ?P (tcompletions db)" by blast+
qed

lemma decide_reject_run:
  "\<exists>res. decide_tx i False db = Inr (res, db\<lparr>tcompletions := with_verdict i False (tcompletions db)\<rparr>)"
  by (simp add: decide_tx_def bind_tx_def set_tournament_verified_run return_tx_def split: option.splits)

subsection \<open>The call\<close>

definition ruling_reported :: "env \<Rightarrow> (nat \<Rightarrow> broker) \<Rightarrow> bool \<Rightarrow> int \<Rightarrow> bool \<Rightarrow> string \<Rightarrow>
    tcompletion_row option \<Rightarrow> xp_grant_event list \<Rightarrow> job_status_response tio" where
  "ruling_reported E outages pytest i v key updated events =
     (let conclude = (\<lambda>row. bind_io (publish_after E outages False events) (\<lambda>_.
             publish_verdict E outages pytest row v key))
      in case updated of
        Some row \<Rightarrow> conclude row
      | None \<Rightarrow> bind_io (atomically (read_tx (fetch_tournament_completion i))) (\<lambda>current. case current of
            None \<Rightarrow> raise_io (Tourney (TournamentCompletionNotFoundError i))
          | Some row \<Rightarrow> if tc_status row = (if v then VerdictVerified else VerdictRejected)
              then noop_verdict_job E outages i key else conclude row))"

lemma quiet_ruling: "moves_io job_rows_only (ruling_reported E outages pytest i v key updated events)"
  unfolding ruling_reported_def Let_def
  by (intro quiet.io_rules quiet.atomically quiet.basic quiet_publishes quiet_noop)

lemma set_verified_run:
  "set_verified E outages pytest meanwhile i v key w =
     (case fetch_tournament_completion i (wdb w) of
        None \<Rightarrow> (Inl (Tourney (TournamentCompletionNotFoundError i)), w)
      | Some row \<Rightarrow>
          if tc_status row = VerdictVerified
          then if v then noop_verdict_job E outages i key w else (Inl (Tourney (AlreadyVerifiedError i)), w)
          else case decide_tx i v (meanwhile (wdb w)) of
              Inl e \<Rightarrow> (Inl e, w\<lparr>wdb := meanwhile (wdb w)\<rparr>)
            | Inr ((updated, events), db') \<Rightarrow> ruling_reported E outages pytest i v key updated events (w\<lparr>wdb := db'\<rparr>))"
  by (simp add: set_verified_def ruling_reported_def bind_io_def atomically_def read_tx_def write_tx_def raise_io_def
      split: option.splits sum.splits prod.splits)

lemma verdict_settled:
  assumes "set_verified E outages pytest meanwhile i v key w = (r, w')"
    and "fetch_tournament_completion i (wdb w) = Some row" "tc_status row \<noteq> VerdictVerified"
    and "decide_tx i v (meanwhile (wdb w)) = Inr (res, db')"
  shows "\<exists>js. wdb w' = with_jobs js db'"
proof -
  obtain updated events where res: "res = (updated, events)" by fastforce
  from assms have "ruling_reported E outages pytest i v key updated events (w\<lparr>wdb := db'\<rparr>) = (r, w')"
    by (simp add: set_verified_run res)
  from quietD [OF quiet_ruling this] show ?thesis by simp
qed

end
