(* ===== verification/Tourney_Samples.thy ===== *)
theory Tourney_Samples
  imports Samples Tourney_Broker Tourney_Replay Tourney_Standings Tourney_Rulings
begin

section \<open>A concrete tournament\<close>

text \<open>
  One category, a finished edition waiting for its results with two verified runs, and the edition
  that follows it. The witnesses run the model on it.
\<close>

definition sample_tdb :: tdb where
  "sample_tdb =
     \<lparr>economy = sample_db,
      tconfig = \<lparr>cg_blacklist_weeks = 4, cg_biweekly = False, cg_anchor_weekday = 1, cg_anchor_time = 0,
        cg_anchor_tz = ''UTC'', cg_transitions_paused = False, cg_debug_cycle_seconds = None\<rparr>,
      categories = [\<lparr>ca_id = 1, ca_name = ''Pros'', ca_difficulties = [''Hell''], ca_participation_xp = 10,
        ca_placement_xp = [\<lparr>pt_place = 1, pt_xp = 100\<rparr>], ca_streak_xp = [\<lparr>st_threshold = 1, st_xp = 30\<rparr>],
        ca_is_active = True\<rparr>],
      cycles = [\<lparr>cy_id = 11, cy_category_id = 1, cy_map_id = 7, cy_status = CycleFinalizing,
          cy_started_at = Some 0, cy_edition_id = Some 1\<rparr>,
        \<lparr>cy_id = 12, cy_category_id = 1, cy_map_id = 7, cy_status = CycleActive,
          cy_started_at = Some 90, cy_edition_id = Some 2\<rparr>],
      tcompletions = [\<lparr>tc_id = 1, tc_cycle_id = 11, tc_user_id = 1, tc_map_id = 7, tc_time = 42, tc_video = None,
          tc_status = VerdictVerified, tc_inserted_at = 5\<rparr>,
        \<lparr>tc_id = 2, tc_cycle_id = 12, tc_user_id = 2, tc_map_id = 7, tc_time = 40, tc_video = Some ''v'',
          tc_status = VerdictPending, tc_inserted_at = 95\<rparr>],
      streaks = [\<lparr>sk_user_id = 2, sk_current_streak = 3, sk_max_streak = 4, sk_last_cycle_id = None\<rparr>],
      xp_grants = [],
      editions = [\<lparr>ed_id = 1, ed_started_at = 0, ed_ends_at = 90, ed_status = EditionAwaitingResults,
          ed_start_announced = False\<rparr>,
        \<lparr>ed_id = 2, ed_started_at = 90, ed_ends_at = 180, ed_status = EditionActive, ed_start_announced = False\<rparr>],
      transitions = [],
      next_cycle_id = 13, next_tcompletion_id = 3, next_edition_id = 3, next_transition_id = 1\<rparr>"

definition sample_tworld :: tworld where
  "sample_tworld = \<lparr>wdb = sample_tdb, wmq = []\<rparr>"

text \<open>A session in UTC.\<close>

definition utc :: calendar where
  "utc = \<lparr>cl_local = (\<lambda>_ t. t), cl_instant = (\<lambda>_ t. t), cl_plus_days = (\<lambda>n t. t + n * day_us)\<rparr>"

abbreviation no_outage :: "nat \<Rightarrow> broker" where
  "no_outage \<equiv> (\<lambda>_. BrokerUp)"

subsection \<open>What it evaluates to\<close>

lemma sample_multiplier: "fetch_xp_multiplier sample_db = 3 / 2"
  by code_simp

lemma sample_float: "float_text (3 / 2) = 3 / 2"
  by code_simp

lemma sample_xp: "xp_of 2 sample_db = None" "xp_of 1 sample_db = Some 12345"
  by code_simp+

definition sample_results :: "cycle_completed_event list" where
  "sample_results = [build_cycle_completed_event 11 1 sample_tdb]"

lemma sample_results: "sample_results = [\<lparr>ce_cycle_id = 11, ce_category_id = 1,
  ce_standings = [\<lparr>le_rank = 1, le_user_id = 1, le_name = ''Ana'', le_time = 42, le_verified = True, le_completion = False\<rparr>], ce_winner_user_id = Some 1\<rparr>]"
  by code_simp

lemmas sample_run_simps = bind_tx_def read_tx_def write_tx_def return_tx_def fetch_category_def fetch_cycle_def
    ledger_grant_xp_def claim_xp_grant_def int4_ok_def granted_def cycle_exists_def user_exists_def in_econ_def
    grant_xp_deferred_def sample_multiplier upsert_user_xp_def sample_xp sample_float

text \<open>After its placement is paid.\<close>

abbreviation sample_placed :: tdb where
  "sample_placed \<equiv> sample_tdb\<lparr>xp_grants := [\<lparr>gr_cycle_id = 11, gr_user_id = 1, gr_reason = ''placement'', gr_amount = 100\<rparr>],
     economy := sample_db\<lparr>xp_tbl := update_where (\<lambda>r. xp_user_id r = 1) (\<lambda>r. r\<lparr>xp_amount := xp_amount r + 150\<rparr>) (xp_tbl sample_db)\<rparr>\<rparr>"

lemma sample_award: "\<exists>events. award_results sample_results [] sample_tdb = Inr (events, sample_placed)"
  unfolding sample_results
  by (simp add: award_cycle_placements_def sample_run_simps sample_tdb_def placement_by_place_def)

lemma sample_fields:
  "streaks sample_tdb = [\<lparr>sk_user_id = 2, sk_current_streak = 3, sk_max_streak = 4, sk_last_cycle_id = None\<rparr>]"
  "economy sample_tdb = sample_db"
  "has_row (\<lambda>c. cy_id c = 11) (cycles sample_tdb)"
  by (simp_all add: sample_tdb_def)

lemma sample_reads:
  "edition_participants sample_results sample_placed = [1]" "marker_cycle sample_results = 11"
  "streak_bonus sample_results 1 1 sample_placed = 30" "sample_results \<noteq> []"
  by code_simp+

lemma sample_streaks: "\<exists>events db'. award_edition_streaks id sample_results sample_placed = Inr (events, db')
   \<and> streaks db' = [\<lparr>sk_user_id = 2, sk_current_streak = 0, sk_max_streak = 4, sk_last_cycle_id = Some 11\<rparr>,
       \<lparr>sk_user_id = 1, sk_current_streak = 1, sk_max_streak = 1, sk_last_cycle_id = Some 11\<rparr>]"
proof -
  have a: "order_by_random id [1::int] = [1]" "order_by_random id [2::int] = [2]" "order_by_random id ([]::int list) = []" by code_simp+
  have b: "fetch_xp_multiplier (sample_db\<lparr>xp_tbl := x\<rparr>) = 3 / 2" for x using sample_multiplier by (simp add: fetch_xp_multiplier_def)
  have c: "xp_of 1 (sample_db\<lparr>xp_tbl := update_where (\<lambda>r. xp_user_id r = 1) (\<lambda>r. r\<lparr>xp_amount := xp_amount r + 150\<rparr>) (xp_tbl sample_db)\<rparr>) = Some 12495" by code_simp
  show ?thesis
    by (simp add: award_edition_streaks_def sample_run_simps sample_reads sample_fields
      advance_streak_def fetch_streak_def fetch_all_streak_user_ids_def a b c Let_def)
qed

lemma sample_hell: "base_difficulty ''Hell'' = ''Hell''"
  by code_simp

lemma sample_fallback: "\<exists>m. fetch_least_recently_used_map [''Hell''] sample_tdb = Some m \<and> mp_id m = 7"
  by (simp add: sample_tdb_def sample_db_def fetch_least_recently_used_map_def map_uses_def map_matches_def left_join_def
      start_key_def sample_hell)

lemma sample_due: "due_edition 200 sample_tdb = Some \<lparr>ed_id = 2, ed_started_at = 90, ed_ends_at = 180,
    ed_status = EditionActive, ed_start_announced = False\<rparr>"
  by code_simp

lemma sample_decide:
  "\<exists>row events db. decide_tx 2 True sample_tdb = Inr ((Some row, events), db)
     \<and> xp_grants db = [\<lparr>gr_cycle_id = 12, gr_user_id = 2, gr_reason = ''participation'', gr_amount = 10\<rparr>]"
  by (simp add: decide_tx_def sample_run_simps set_tournament_verified_run sample_tdb_def target_verdict_def
      with_verdict_def award_participation_def)

end
