(* ===== verification/Tourney_Props.thy ===== *)
theory Tourney_Props
  imports Tourney_Samples
begin

section \<open>Properties of the tournaments\<close>

subsection \<open>The ledger accounts for the XP\<close>

text \<open>C5: along any sequence of the calls of \<open>tour_step\<close> - polls that fail or repeat, verdicts that race, forced results,
  bootstraps and scheduled transitions - each user's XP has grown by exactly what the grant rows added
  to the ledger are worth at the multiplier, and no (cycle, user, reason) is ever in the ledger twice.\<close>

theorem tournament_xp_accounted:
  assumes "tour_reach w w'" "ledger_ok (wdb w)"
  shows "\<exists>gs. xp_grants (wdb w') = xp_grants (wdb w) @ gs \<and> distinct (map grant_key (xp_grants (wdb w')))
     \<and> (\<forall>u. xp_total u (economy (wdb w')) =
          xp_total u (economy (wdb w)) + grants_pay (fetch_xp_multiplier (economy (wdb w))) u gs)"
  using paid.reach [OF assms(1)] assms(2) unfolding accounted_def ledger_ok_def by blast

lemma sample_ledger_ok: "ledger_ok sample_tdb"
  by (simp add: ledger_ok_def sample_tdb_def)

theorem tournament_xp_accounted_witness:
  "\<exists>gs. let db = wdb (snd (publish_pending_transitions sample_env no_outage id sample_tworld))
     in xp_grants db = gs \<and> xp_total 1 (economy db) = 12345 + grants_pay (3 / 2) 1 gs"
proof -
  let ?w = "snd (publish_pending_transitions sample_env no_outage id sample_tworld)"
  have "tour_reach sample_tworld ?w" unfolding tour_reach_def by (rule r_into_rtranclp, rule tour_step.poll_call)
  from tournament_xp_accounted [OF this] sample_ledger_ok obtain gs where
    "xp_grants (wdb ?w) = gs"
    "xp_total 1 (economy (wdb ?w)) = xp_total 1 sample_db + grants_pay (fetch_xp_multiplier sample_db) 1 gs"
    by (auto simp: sample_tworld_def sample_tdb_def)
  moreover have "xp_total 1 sample_db = 12345" by (simp add: xp_total_def xp_of_def sample_db_def)
  moreover have "fetch_xp_multiplier sample_db = 3 / 2" by code_simp
  ultimately show ?thesis by (simp add: Let_def)
qed

subsection \<open>The lifecycle\<close>

text \<open>C6: along any sequence of the calls of \<open>tour_step\<close> (bootstrap, scheduled transitions, submissions, verdicts,
  forced results, pausing, debug timing and polls of the outbox, but not the administrators' rerolls, map choices and
  changes of categories, which delete cycles and runs on purpose) no edition, cycle, run or outbox row disappears; an edition keeps its
  window and its status only advances from active over awaiting results to completed, a cycle's likewise, a
  decided run is never pending again and a published row stays published; and if at most one edition was
  active, at most one is.\<close>

theorem tournament_lifecycle:
  assumes "tour_reach w w'" "editions_keyed (wdb w)" "length (active_editions (wdb w)) \<le> 1"
  shows "grows edition_moves (editions (wdb w)) (editions (wdb w'))
     \<and> grows cycle_moves (cycles (wdb w)) (cycles (wdb w'))
     \<and> grows run_moves (tcompletions (wdb w)) (tcompletions (wdb w'))
     \<and> grows transition_moves (transitions (wdb w)) (transitions (wdb w'))
     \<and> editions_keyed (wdb w') \<and> length (active_editions (wdb w')) \<le> 1"
  using life.reach [OF assms(1)] assms(2,3) unfolding advanced_def by blast

lemma sample_keyed: "editions_keyed sample_tdb" "length (active_editions sample_tdb) = 1"
  by (simp_all add: editions_keyed_def active_editions_def sample_tdb_def)

theorem tournament_lifecycle_witness:
  "length (active_editions (wdb (snd (run_edition_transitions True utc 200 (\<lambda>_. id) sample_tworld)))) \<le> 1"
proof -
  let ?w = "snd (run_edition_transitions True utc 200 (\<lambda>_. id) sample_tworld)"
  have "tour_reach sample_tworld ?w" unfolding tour_reach_def by (rule r_into_rtranclp, rule tour_step.scheduled_call)
  from tournament_lifecycle [OF this] show ?thesis using sample_keyed by (simp add: sample_tworld_def)
qed

subsection \<open>The poll\<close>

text \<open>C7: a poll of the outbox works as a whole or not at all: if it fails, the database is as before but for
  rows of the job table; if it succeeds, no row of the outbox is left unpublished, and each edition that
  waited for its results is completed exactly when none of its runs awaited a verdict, else announced.\<close>

theorem poll_all_or_nothing:
  assumes "publish_pending_transitions E outages set_order w = (r, w')" "editions_keyed (wdb w)"
  shows "case r of
      Inl e \<Rightarrow> \<exists>js. wdb w' = with_jobs js (wdb w)
    | Inr _ \<Rightarrow> (\<forall>t \<in> set (transitions (wdb w')). tn_published t)
        \<and> editions (wdb w') = map (edition_after_poll (wdb w)) (editions (wdb w))"
proof (cases r)
  case (Inl e)
  with poll_failed assms(1) show ?thesis by simp
next
  case (Inr x)
  from poll_succeeded [OF assms(1) [unfolded Inr]] obtain events db out js where
    run: "poll_transaction E outages set_order (wdb w) (poll_out w) = (Inr (events, db), out)"
    and w': "wdb w' = with_jobs js db" .
  from poll_transaction_shape [OF run assms(2)] show ?thesis by (simp add: Inr w' with_jobs_def)
qed

theorem poll_all_or_nothing_witness:
  "case publish_pending_transitions sample_env no_outage id sample_tworld of
     (Inl e, w') \<Rightarrow> \<exists>js. wdb w' = with_jobs js sample_tdb
   | (Inr x, w') \<Rightarrow> editions (wdb w') = map (edition_after_poll sample_tdb) (editions sample_tdb)"
  using poll_all_or_nothing [of sample_env no_outage id sample_tworld] sample_keyed(1)
  by (auto simp: sample_tworld_def split: prod.splits sum.splits)



subsection \<open>Rewards of an edition\<close>

text \<open>C10: delivering an edition's results a second time, in any order of its participants, pays nothing: once
  its placements and streaks are paid, both passes leave the database as it is and announce no XP.\<close>

theorem redelivery_pays_nothing:
  assumes "streaks_keyed db" "award_results rs [] db = Inr (ev1, db1)"
    and "award_edition_streaks set_order rs db1 = Inr (ev2, db2)"
  shows "award_results rs pending db2 = Inr (pending, db2)
     \<and> award_edition_streaks set_order' rs db2 = Inr ([], db2)"
proof
  have "accounted db1 db2" "rewards_only db1 db2"
    using movesD [OF award_edition_streaks_paid assms(3)] award_edition_streaks_frame [OF assms(3)] by blast+
  with award_results_done [OF assms(2)] have "cycle_placed ev db2" if "ev \<in> set rs" for ev
    using cycle_placed_mono that by blast
  then show "award_results rs pending db2 = Inr (pending, db2)" by (rule award_results_skip)
  from ledger_only_rewards [OF movesD [OF award_results_book assms(2)]] assms(1) have "streaks_keyed db1"
    by (simp add: streaks_keyed_def)
  from award_edition_streaks_again [OF assms(3) this] show "award_edition_streaks set_order' rs db2 = Inr ([], db2)" .
qed

theorem redelivery_pays_nothing_witness:
  "\<exists>events db'. award_edition_streaks id sample_results sample_placed = Inr (events, db')
     \<and> award_results sample_results [] db' = Inr ([], db')
     \<and> award_edition_streaks id sample_results db' = Inr ([], db')"
proof -
  obtain ev1 where one: "award_results sample_results [] sample_tdb = Inr (ev1, sample_placed)"
    using sample_award by blast
  obtain ev2 db2 where two: "award_edition_streaks id sample_results sample_placed = Inr (ev2, db2)"
    using sample_streaks by blast
  have "streaks_keyed sample_tdb" by (simp add: streaks_keyed_def sample_tdb_def)
  from redelivery_pays_nothing [OF this one two, of "[]" id] two show ?thesis by blast
qed

text \<open>After an edition's streaks are settled every participant's streak has advanced by one, unless this
  edition's cycle is already its last, and every other tracked user's streak is back to zero.\<close>

lemma edition_streaks_settled:
  assumes "award_edition_streaks set_order results db = Inr (events, db')" "results \<noteq> []"
  shows "fetch_streak u db' = (if u \<in> set (edition_participants results db)
       then Some (streak_advanced u (marker_cycle results) (fetch_streak u db))
       else map_option (streak_reset (marker_cycle results)) (fetch_streak u db))"
  using award_edition_streaks_effect(2) [OF assms] unfolding streak_after_def Let_def .

lemma edition_streaks_settled_witness:
  "\<exists>events db'. award_edition_streaks id sample_results sample_placed = Inr (events, db')
     \<and> fetch_streak 1 db' = Some (streak_advanced 1 11 None)"
proof -
  obtain events db' where run: "award_edition_streaks id sample_results sample_placed = Inr (events, db')"
    using sample_streaks by blast
  from edition_streaks_settled [OF run sample_reads(4), of 1] run show ?thesis
    by (simp add: sample_reads sample_fields fetch_streak_def)
qed

subsection \<open>Standings\<close>

text \<open>C33: the leaderboard of a cycle ranks one run of each existing user who submitted in it, that user's best:
  verified before unverified, with a video before without, then by time and submission; the entries are in that
  order and their ranks are 1, 2, 3 and so on. Rejected and pending runs take places too.\<close>

theorem leaderboard_standings:
  "\<exists>runs. fetch_leaderboard c db = map (\<lambda>i. let r = runs ! i in
        \<lparr>le_rank = 1 + int i, le_user_id = tc_user_id r, le_name = display_name (tc_user_id r) (economy db),
         le_time = fl (tc_time r), le_verified = tc_verified r, le_completion = tc_completion r\<rparr>) [0..<length runs]
     \<and> sorted_wrt (\<lambda>x y. (\<not> tc_verified x, \<not> tc_completion x, tc_time x, tc_inserted_at x, tc_user_id x)
          < (\<not> tc_verified y, \<not> tc_completion y, tc_time y, tc_inserted_at y, tc_user_id y)) runs
     \<and> distinct (map tc_user_id runs)
     \<and> tc_user_id ` set runs = {u. user_exists u (economy db) \<and> (\<exists>r \<in> set (tcompletions db). tc_cycle_id r = c \<and> tc_user_id r = u)}
     \<and> (\<forall>r \<in> set runs. r \<in> set (tcompletions db) \<and> tc_cycle_id r = c
          \<and> (\<forall>r' \<in> set (tcompletions db). tc_cycle_id r' = c \<and> tc_user_id r' = tc_user_id r \<longrightarrow>
               (\<not> tc_verified r, \<not> tc_completion r, tc_time r, tc_inserted_at r)
                 \<le> (\<not> tc_verified r', \<not> tc_completion r', tc_time r', tc_inserted_at r')))"
proof (intro exI [of _ "standings c db"] conjI ballI impI)
  have users: "mset (map tc_user_id (standings c db)) = mset (ranked_users c db)" by (rule standings_users)
  then show "distinct (map tc_user_id (standings c db))" using distinct_ranked mset_eq_imp_distinct_iff by blast
  from users have "set (map tc_user_id (standings c db)) = set (ranked_users c db)" by (rule mset_eq_setD)
  then show "tc_user_id ` set (standings c db) = {u. user_exists u (economy db) \<and> (\<exists>r \<in> set (tcompletions db). tc_cycle_id r = c \<and> tc_user_id r = u)}"
    by (auto simp: ranked_users_def fetch_cycle_participants_def)
  show "fetch_leaderboard c db = map (\<lambda>i. let r = standings c db ! i in
        \<lparr>le_rank = 1 + int i, le_user_id = tc_user_id r, le_name = display_name (tc_user_id r) (economy db),
         le_time = fl (tc_time r), le_verified = tc_verified r, le_completion = tc_completion r\<rparr>) [0..<length (standings c db)]"
    by (rule fetch_leaderboard_map)
  show "sorted_wrt (\<lambda>x y. (\<not> tc_verified x, \<not> tc_completion x, tc_time x, tc_inserted_at x, tc_user_id x)
          < (\<not> tc_verified y, \<not> tc_completion y, tc_time y, tc_inserted_at y, tc_user_id y)) (standings c db)"
    by (rule sorted_wrt_mono_rel [OF _ standings_strict]) (auto simp: standing_key_def run_key_def less_prod_def' prod.split)
  fix r assume "r \<in> set (standings c db)"
  note best = standings_best [OF this]
  then show "r \<in> set (tcompletions db)" "tc_cycle_id r = c" by (simp_all add: runs_of_def)
  fix r' assume "r' \<in> set (tcompletions db)" "tc_cycle_id r' = c \<and> tc_user_id r' = tc_user_id r"
  with best show "(\<not> tc_verified r, \<not> tc_completion r, tc_time r, tc_inserted_at r)
                 \<le> (\<not> tc_verified r', \<not> tc_completion r', tc_time r', tc_inserted_at r')"
    by (simp add: runs_of_def run_key_def)
qed

theorem leaderboard_standings_witness:
  "\<exists>runs :: tcompletion_row list. length (fetch_leaderboard 11 sample_tdb) = length runs \<and> tc_user_id ` set runs = {1}"
proof -
  have "{u. user_exists u (economy sample_tdb) \<and> (\<exists>r \<in> set (tcompletions sample_tdb). tc_cycle_id r = 11 \<and> tc_user_id r = u)} = {1}"
    by (auto simp: sample_tdb_def user_exists_def)
  note users = this
  show ?thesis using leaderboard_standings [of 11 sample_tdb, unfolded users]
  proof (elim exE conjE)
    fix runs :: "tcompletion_row list"
    assume "fetch_leaderboard 11 sample_tdb = map (\<lambda>i. let r = runs ! i in
        \<lparr>le_rank = 1 + int i, le_user_id = tc_user_id r, le_name = display_name (tc_user_id r) (economy sample_tdb),
         le_time = fl (tc_time r), le_verified = tc_verified r, le_completion = tc_completion r\<rparr>) [0..<length runs]"
    from arg_cong [OF this, of length] have "length (fetch_leaderboard 11 sample_tdb) = length runs" by simp
    moreover assume "tc_user_id ` set runs = {1}"
    ultimately show ?thesis by blast
  qed
qed

subsection \<open>Editions\<close>

text \<open>C8: the scheduled transition never fails. Without its advisory lock, or with no edition due, it changes
  nothing. A due edition waits for its results and its cycles are finalizing; while transitions are paused that is
  all, and no successor is created. Otherwise the successor starts exactly when the edition ended, and has one active
  cycle for every active category for which some map exists, on such a map; the economy is untouched.\<close>

theorem edition_rolled_over:
  "\<exists>db'. process_edition_transitions unlocked C now keys db = Inr ((), db') \<and>
     (case (if unlocked then due_edition now db else None) of
        None \<Rightarrow> db' = db
      | Some e \<Rightarrow>
          if cg_transitions_paused (tconfig db) then db' = stop_edition e db
          else \<exists>new. let e' = next_edition C e db in
            editions db' = update_where (\<lambda>x. ed_id x = ed_id e) (\<lambda>x. x\<lparr>ed_status := EditionAwaitingResults\<rparr>) (editions db) @ [e']
          \<and> ed_started_at e' = ed_ends_at e \<and> ed_status e' = EditionActive
          \<and> cycles db' = cycles (stop_edition e db) @ new
          \<and> map cy_category_id new =
               filter (category_playable db) (map ca_id (filter ca_is_active (sort_key ca_id (categories db))))
          \<and> (\<forall>cy \<in> set new. starts_in e' db cy) \<and> economy db' = economy db)"
proof (cases "unlocked \<and> due_edition now db \<noteq> None \<and> \<not> cg_transitions_paused (tconfig db)")
  case False
  then show ?thesis by (cases "due_edition now db") (auto simp: process_edition_transitions_run)
next
  case True
  then obtain e where e: "due_edition now db = Some e" by blast
  let ?e = "next_edition C e db"
  let ?db = "(stop_edition e db)\<lparr>editions := editions (stop_edition e db) @ [?e], next_edition_id := next_edition_id db + 1\<rparr>"
  let ?ks = "map ca_id (filter ca_is_active (sort_key ca_id (categories db)))"
  have "has_row (\<lambda>x. ed_id x = ed_id ?e) (editions ?db)" by simp
  moreover have "has_row (\<lambda>c. ca_id c = k) (categories ?db)" if "k \<in> set ?ks" for k
    using that by (auto simp: has_row_iff stop_edition_def)
  ultimately obtain new where new: "start_scheduled_cycles C now keys ?e ?ks ?db =
       Inr ((), ?db\<lparr>cycles := cycles ?db @ new, next_cycle_id := next_cycle_id ?db + int (length new)\<rparr>)"
     "map cy_category_id new = filter (category_playable ?db) ?ks" "\<forall>cy \<in> set new. starts_in ?e ?db cy"
    using start_scheduled_cycles_run [of ?e ?db ?ks C now keys] by blast
  have same: "category_playable ?db = category_playable db" "starts_in ?e ?db = starts_in ?e db"
    by (simp_all add: fun_eq_iff category_playable_def starts_in_def playable_def fetch_category_def stop_edition_def)
  have run: "process_edition_transitions unlocked C now keys db =
      Inr ((), ?db\<lparr>cycles := cycles ?db @ new, next_cycle_id := next_cycle_id ?db + int (length new)\<rparr>)"
    using True e new(1) by (simp add: process_edition_transitions_run)
  show ?thesis
    by (rule exI, rule conjI, rule run)
      (use True e new(2,3) [unfolded same] in \<open>auto simp: Let_def stop_edition_def next_edition_def\<close>)
qed

theorem edition_rolled_over_witness:
  "(\<exists>new db'. process_edition_transitions True utc 200 (\<lambda>_. id) sample_tdb = Inr ((), db')
     \<and> cycles db' = cycles (stop_edition (editions sample_tdb ! 1) sample_tdb) @ new)
   \<and> process_edition_transitions False utc 200 (\<lambda>_. id) sample_tdb = Inr ((), sample_tdb)"
proof
  have "editions sample_tdb ! 1 = \<lparr>ed_id = 2, ed_started_at = 90, ed_ends_at = 180,
    ed_status = EditionActive, ed_start_announced = False\<rparr>" "\<not> cg_transitions_paused (tconfig sample_tdb)"
    by (simp_all add: sample_tdb_def)
  with edition_rolled_over [of True utc 200 "\<lambda>_. id" sample_tdb] sample_due
  show "\<exists>new db'. process_edition_transitions True utc 200 (\<lambda>_. id) sample_tdb = Inr ((), db')
     \<and> cycles db' = cycles (stop_edition (editions sample_tdb ! 1) sample_tdb) @ new"
    unfolding Let_def by (simp split: if_splits) metis
  from edition_rolled_over [of False utc 200 "\<lambda>_. id" sample_tdb]
  show "process_edition_transitions False utc 200 (\<lambda>_. id) sample_tdb = Inr ((), sample_tdb)" by simp
qed

text \<open>Once every matching map has been played, the least-recently-used fallback never moves on: a map it
  picks is still its pick after a cycle on it has started, however recent, because the query orders the maps by
  all their uses and not by the latest.\<close>

lemma lru_fallback_stuck:
  assumes "fetch_least_recently_used_map ds db = Some m"
    and "\<forall>x \<in> set (cycles db). \<exists>t. cy_started_at x = Some t \<and> t < s"
    and "cy \<in> set (cycles db)" "cy_map_id cy = mp_id m" "cy_map_id c = mp_id m" "cy_started_at c = Some s"
  shows "fetch_least_recently_used_map ds (db\<lparr>cycles := cycles db @ [c]\<rparr>) = Some m"
proof -
  let ?f = "start_key \<circ> snd" let ?db = "db\<lparr>cycles := cycles db @ [c]\<rparr>"
  have late: "filter (\<lambda>r. ?f r < (True, s)) (map_uses ds ?db) = map_uses ds db"
    using map_uses_again [OF assms(2,3) _ assms(6)] assms(4,5) by simp
  from assms(1) have ne: "map_uses ds db \<noteq> []" by (simp add: least_recently_used_hd split: if_splits)
  then have "map_uses ds ?db \<noteq> []" using late by auto
  with hd_sort_key_late [OF late ne] assms(1) ne show ?thesis by (simp add: least_recently_used_hd comp_def)
qed

lemma lru_fallback_stuck_witness:
  "\<exists>m. fetch_least_recently_used_map [''Hell''] (sample_tdb\<lparr>cycles := cycles sample_tdb @
     [\<lparr>cy_id = 13, cy_category_id = 1, cy_map_id = 7, cy_status = CycleActive, cy_started_at = Some 180,
       cy_edition_id = Some 3\<rparr>]\<rparr>) = Some m"
proof -
  let ?c = "\<lparr>cy_id = 13, cy_category_id = 1, cy_map_id = 7, cy_status = CycleActive, cy_started_at = Some 180,
       cy_edition_id = Some 3\<rparr>"
  obtain m where m: "fetch_least_recently_used_map [''Hell''] sample_tdb = Some m" "mp_id m = 7"
    using sample_fallback by blast
  have "\<forall>x \<in> set (cycles sample_tdb). \<exists>t. cy_started_at x = Some t \<and> t < 180" by (simp add: sample_tdb_def)
  moreover have "hd (cycles sample_tdb) \<in> set (cycles sample_tdb)" "cy_map_id (hd (cycles sample_tdb)) = mp_id m"
    by (simp_all add: sample_tdb_def m(2))
  ultimately show ?thesis using lru_fallback_stuck [OF m(1), of 180 "hd (cycles sample_tdb)" ?c] m(2) by auto
qed

subsection \<open>Verdicts\<close>

text \<open>C9: the outcome of a verdict that nothing interferes with, on every branch: an unknown run is an error and
  nothing changes; a verified run cannot be rejected, and verifying it again changes no table but the jobs; an
  error of the transaction changes nothing; otherwise the run gets its verdict and at most one row is added to
  the ledger, the participation of its user, and that only by a verification.\<close>

theorem verdict_outcome:
  assumes "set_verified E outages pytest id i v key w = (r, w')"
  shows "case fetch_tournament_completion i (wdb w) of
      None \<Rightarrow> r = Inl (Tourney (TournamentCompletionNotFoundError i)) \<and> w' = w
    | Some row \<Rightarrow>
        if tc_status row = VerdictVerified
        then if v then \<exists>js. wdb w' = with_jobs js (wdb w)
             else r = Inl (Tourney (AlreadyVerifiedError i)) \<and> w' = w
        else case decide_tx i v (wdb w) of
            Inl e \<Rightarrow> r = Inl e \<and> w' = w
          | Inr _ \<Rightarrow> tcompletions (wdb w') = update_where (\<lambda>c. tc_id c = i)
                (\<lambda>c. c\<lparr>tc_status := if v then VerdictVerified else VerdictRejected\<rparr>) (tcompletions (wdb w))
              \<and> (\<exists>gs. xp_grants (wdb w') = xp_grants (wdb w) @ gs \<and> length gs \<le> (if v then 1 else 0)
                   \<and> (\<forall>g \<in> set gs. \<exists>c \<in> set (tcompletions (wdb w)). tc_id c = i \<and> participation_grant c g))"
proof (cases "fetch_tournament_completion i (wdb w)")
  case None
  with assms show ?thesis by (simp add: set_verified_run)
next
  case (Some row)
  show ?thesis
  proof (cases "tc_status row = VerdictVerified")
    case True
    with Some assms quietD [OF quiet_noop, of E outages i key w r w'] show ?thesis by (auto simp: set_verified_run)
  next
    case False
    show ?thesis
    proof (cases "decide_tx i v (wdb w)")
      case (Inl e)
      with Some False assms show ?thesis by (simp add: set_verified_run)
    next
      case (Inr p)
      obtain updated events db' where p: "p = ((updated, events), db')" by (metis prod.collapse)
      from verdict_settled [OF assms Some False] Inr p obtain js where w': "wdb w' = with_jobs js db'" by auto
      from decide_tx_effect(2) [OF Inr [unfolded p]] obtain gs where gs: "xp_grants db' = xp_grants (wdb w) @ gs"
        "length gs \<le> 1" "\<forall>g \<in> set gs. v \<and> (\<exists>c \<in> set (tcompletions (wdb w)). tc_id c = i \<and> participation_grant c g)"
        by blast
      from gs(3) have "\<not> v \<Longrightarrow> gs = []" by (cases gs) auto
      with gs decide_tx_effect(1) [OF Inr [unfolded p]] show ?thesis
        by (simp add: Some False Inr w' with_jobs_def with_verdict_def target_verdict_def)
    qed
  qed
qed

theorem verdict_outcome_witness:
  "tcompletions (wdb (snd (reject_tournament_completion sample_env no_outage False id 2 sample_tworld)))
     = update_where (\<lambda>c. tc_id c = 2) (\<lambda>c. c\<lparr>tc_status := VerdictRejected\<rparr>) (tcompletions sample_tdb)"
proof -
  obtain r w' where run: "set_verified sample_env no_outage False id 2 False (''tournament:reject:'' @ str_of_int 2) sample_tworld = (r, w')"
    by fastforce
  have "\<exists>row. fetch_tournament_completion 2 sample_tdb = Some row \<and> tc_status row = VerdictPending"
    by (simp add: fetch_tournament_completion_def sample_tdb_def)
  moreover obtain res db' where "decide_tx 2 False sample_tdb = Inr (res, db')" using decide_reject_run by blast
  ultimately show ?thesis using verdict_outcome [OF run] run
    by (auto simp: reject_tournament_completion_def sample_tworld_def)
qed

text \<open>C37: a rejection that looked at a run before it was verified still rejects it after: the run ends rejected,
  with the participation its verification paid kept in the ledger, although a verified run is meant to be
  final.\<close>

theorem reject_overtakes_verify:
  assumes "fetch_tournament_completion i (wdb w) = Some row" "tc_status row \<noteq> VerdictVerified"
    and "decide_tx i True (wdb w) = Inr (res, db1)"
    and "reject_tournament_completion E outages pytest (\<lambda>_. db1) i w = (r, w')"
  shows "tcompletions (wdb w') =
       update_where (\<lambda>c. tc_id c = i) (\<lambda>c. c\<lparr>tc_status := VerdictRejected\<rparr>) (tcompletions (wdb w))
     \<and> xp_grants (wdb w') = xp_grants db1"
proof -
  obtain u e where res: "res = (u, e)" by fastforce
  from decide_tx_effect(1) [OF assms(3) [unfolded res]]
  have verified: "tcompletions db1 = with_verdict i True (tcompletions (wdb w))" .
  from decide_reject_run [of i db1] obtain res' where
    "decide_tx i False db1 = Inr (res', db1\<lparr>tcompletions := with_verdict i False (tcompletions db1)\<rparr>)" by blast
  from verdict_settled [OF assms(4) [unfolded reject_tournament_completion_def] assms(1,2) this]
  obtain js where w': "wdb w' = with_jobs js (db1\<lparr>tcompletions := with_verdict i False (tcompletions db1)\<rparr>)" by blast
  have "with_verdict i False (with_verdict i True rows) = with_verdict i False rows" for rows
    by (induction rows) (simp_all add: with_verdict_def target_verdict_def)
  then show ?thesis by (simp add: w' with_jobs_def verified) (simp add: with_verdict_def target_verdict_def)
qed

theorem reject_overtakes_verify_witness:
  "\<exists>db1. let w' = snd (reject_tournament_completion sample_env no_outage False (\<lambda>_. db1) 2 sample_tworld)
     in map tc_status (tcompletions (wdb w')) = [VerdictVerified, VerdictRejected]
      \<and> xp_grants (wdb w') = [\<lparr>gr_cycle_id = 12, gr_user_id = 2, gr_reason = ''participation'', gr_amount = 10\<rparr>]"
proof -
  obtain row events db1 where verify: "decide_tx 2 True sample_tdb = Inr ((Some row, events), db1)"
    "xp_grants db1 = [\<lparr>gr_cycle_id = 12, gr_user_id = 2, gr_reason = ''participation'', gr_amount = 10\<rparr>]"
    using sample_decide by blast
  obtain r w' where run: "reject_tournament_completion sample_env no_outage False (\<lambda>_. db1) 2 sample_tworld = (r, w')"
    by fastforce
  have "\<exists>row. fetch_tournament_completion 2 sample_tdb = Some row \<and> tc_status row = VerdictPending"
    by (simp add: fetch_tournament_completion_def sample_tdb_def)
  then obtain row0 where "fetch_tournament_completion 2 (wdb sample_tworld) = Some row0" "tc_status row0 \<noteq> VerdictVerified"
    by (auto simp: sample_tworld_def)
  from reject_overtakes_verify [OF this _ run] verify have
    "tcompletions (wdb w') = update_where (\<lambda>c. tc_id c = 2) (\<lambda>c. c\<lparr>tc_status := VerdictRejected\<rparr>) (tcompletions sample_tdb)
      \<and> xp_grants (wdb w') = xp_grants db1" by (simp add: sample_tworld_def)
  then show ?thesis using verify(2) run by (intro exI [of _ db1]) (simp add: sample_tdb_def)
qed

end
