(* ===== verification/Skill_Score.thy ===== *)
theory Skill_Score
  imports Economy_Db
begin

section \<open>The skill score\<close>

text \<open>
  The scorer of \<open>apps/api/services/skill_service.py\<close>: the score of one run, the breakdown of one player
  and the difference of two breakdowns. \<open>x ** y\<close> on floats is the \<open>pow\<close> of the platform's C library, an
  argument; it may raise \<open>ZeroDivisionError\<close> or \<open>OverflowError\<close>.
\<close>

subsection \<open>Python arithmetic\<close>

type_synonym float_pow = "rat \<Rightarrow> rat \<Rightarrow> py_error + rat"

definition py_div :: "rat \<Rightarrow> rat \<Rightarrow> py_error + rat" where
  "py_div x y = (if y = 0 then Inl ZeroDivisionError else Inr (fl (x / y)))"

fun map_py :: "('a \<Rightarrow> 'e + 'b) \<Rightarrow> 'a list \<Rightarrow> 'e + 'b list" where
  "map_py f [] = Inr []"
| "map_py f (x # xs) = bind_py (f x) (\<lambda>y. bind_py (map_py f xs) (\<lambda>ys. Inr (y # ys)))"

subsection \<open>Rows\<close>

record weights =
  w_diff_base :: rat
  w_gamma :: rat
  w_time_bonus :: rat
  w_shrink_k :: rat
  w_wr_bonus :: rat
  w_partial_factor :: rat
  w_medal_gold :: rat
  w_medal_silver :: rat
  w_medal_bronze :: rat

text \<open>A row of the input query, with the columns the scorer reads.\<close>

record skill_input =
  si_user_id :: int
  si_map_id :: int
  si_code :: string
  si_map_name :: string
  si_difficulty :: string
  si_raw_difficulty :: rat
  si_fully_verified :: bool
  si_field_size :: int
  si_video_rank :: "int option"
  si_time_pct :: rat
  si_medal :: "string option"

text \<open>A stored row may lack the map's id.\<close>

record breakdown_row =
  br_map_id :: "int option"
  br_map_name :: string
  br_difficulty :: string
  br_raw :: rat
  br_fully_verified :: bool
  br_medal :: "string option"
  br_wr :: bool
  br_raw_score :: rat
  br_contribution :: rat
  br_rank :: int

subsection \<open>One run\<close>

definition diff_weight :: "float_pow \<Rightarrow> rat \<Rightarrow> weights \<Rightarrow> py_error + rat" where
  "diff_weight pow raw w = pow (w_diff_base w) (fl (raw - 3 / 2))"

definition medal_mult :: "string option \<Rightarrow> weights \<Rightarrow> rat" where
  "medal_mult medal w =
     (if medal = Some ''Gold'' then w_medal_gold w
      else if medal = Some ''Silver'' then w_medal_silver w
      else if medal = Some ''Bronze'' then w_medal_bronze w
      else 1)"

definition time_mult :: "rat \<Rightarrow> skill_input \<Rightarrow> weights \<Rightarrow> rat" where
  "time_mult shrink r w = fl (1 + fl (fl (w_time_bonus w * shrink) * si_time_pct r))"

definition wr_mult :: "skill_input \<Rightarrow> weights \<Rightarrow> rat" where
  "wr_mult r w = (if si_video_rank r = Some 1 then fl (1 + w_wr_bonus w) else 1)"

definition field_shrink :: "skill_input \<Rightarrow> weights \<Rightarrow> py_error + rat" where
  "field_shrink r w =
     (let n = fl (of_int (if si_field_size r = 0 then 1 else si_field_size r))
      in py_div n (fl (n + w_shrink_k w)))"

definition map_score :: "float_pow \<Rightarrow> skill_input \<Rightarrow> weights \<Rightarrow> py_error + rat" where
  "map_score pow r w =
     bind_py (diff_weight pow (si_raw_difficulty r) w) (\<lambda>base.
     if \<not> si_fully_verified r then Inr (fl (base * w_partial_factor w))
     else bind_py (field_shrink r w) (\<lambda>s.
       Inr (fl (fl (fl (base * time_mult s r w) * medal_mult (si_medal r) w) * wr_mult r w))))"

subsection \<open>One player\<close>

definition display_map :: "skill_input \<Rightarrow> string" where
  "display_map r =
     (if si_map_name r \<noteq> [] then si_map_name r
      else if si_code r \<noteq> [] then si_code r
      else ''map '' @ str_of_int (si_map_id r))"

definition breakdown_entry :: "float_pow \<Rightarrow> weights \<Rightarrow> nat \<times> rat \<times> skill_input \<Rightarrow> py_error + breakdown_row" where
  "breakdown_entry pow w = (\<lambda>(i, s, r).
     bind_py (pow (of_nat i) (w_gamma w)) (\<lambda>decay.
     bind_py (py_div s decay) (\<lambda>contribution.
     Inr \<lparr>br_map_id = Some (si_map_id r), br_map_name = display_map r, br_difficulty = si_difficulty r,
          br_raw = si_raw_difficulty r, br_fully_verified = si_fully_verified r, br_medal = si_medal r,
          br_wr = (si_video_rank r = Some 1), br_raw_score = s, br_contribution = contribution,
          br_rank = int i\<rparr>)))"

definition player_breakdown :: "float_pow \<Rightarrow> skill_input list \<Rightarrow> weights \<Rightarrow> py_error + breakdown_row list" where
  "player_breakdown pow rows w =
     bind_py (map_py (\<lambda>r. map_score pow r w) rows) (\<lambda>scores.
     let scored = sort_key (\<lambda>t. - fst t) (zip scores rows)
     in map_py (breakdown_entry pow w) (enumerate 1 scored))"

definition breakdown_score :: "breakdown_row list \<Rightarrow> rat" where
  "breakdown_score breakdown = py_sum (map br_contribution breakdown)"

definition player_score :: "float_pow \<Rightarrow> skill_input list \<Rightarrow> weights \<Rightarrow> py_error + rat" where
  "player_score pow rows w = bind_py (player_breakdown pow rows w) (\<lambda>b. Inr (breakdown_score b))"

subsection \<open>The difference of two breakdowns\<close>

datatype diff_key = MapId int | MapName string

definition diff_key_of :: "breakdown_row \<Rightarrow> diff_key" where
  "diff_key_of row = (case br_map_id row of Some i \<Rightarrow> MapId i | None \<Rightarrow> MapName (br_map_name row))"

record impact_row =
  im_map :: string
  im_prev :: rat
  im_new :: rat
  im_impact :: rat

text \<open>A dictionary keyed by the rows: the last row with a key.\<close>

definition by_diff_key :: "breakdown_row list \<Rightarrow> diff_key \<Rightarrow> breakdown_row option" where
  "by_diff_key rows = map_of (rev (map (\<lambda>r. (diff_key_of r, r)) rows))"

definition side_contribution :: "breakdown_row option \<Rightarrow> rat" where
  "side_contribution r = (case r of None \<Rightarrow> 0 | Some x \<Rightarrow> br_contribution x)"

definition impact_display :: "breakdown_row option \<Rightarrow> breakdown_row option \<Rightarrow> string" where
  "impact_display prev new =
     (let name = (case new of Some n \<Rightarrow> br_map_name n | None \<Rightarrow> (case prev of Some p \<Rightarrow> br_map_name p | None \<Rightarrow> []))
      in if name = [] then ''unknown'' else name)"

text \<open>The keys of both sides, in the order Python walks a set.\<close>

definition build_diff :: "(nat \<Rightarrow> nat) \<Rightarrow> breakdown_row list \<Rightarrow> breakdown_row list \<Rightarrow> impact_row list" where
  "build_diff set_order prev_breakdown new_breakdown =
     map (\<lambda>k. let p = by_diff_key prev_breakdown k; n = by_diff_key new_breakdown k;
                  prev_c = side_contribution p; new_c = side_contribution n
              in \<lparr>im_map = impact_display p n, im_prev = prev_c, im_new = new_c, im_impact = fl (new_c - prev_c)\<rparr>)
       (order_by_random set_order (remdups (map diff_key_of (prev_breakdown @ new_breakdown))))"

end
