(* ===== verification/Skill_Db.thy ===== *)
theory Skill_Db
  imports Skill_Score "HOL-Library.Product_Lexorder"
begin

section \<open>The skill repository\<close>

text \<open>
  The schema \<open>skill\<close> (migrations 0027, 0028 and 0031), the tables the input query reads and the methods
  of \<open>apps/api/repository/skill_repository.py\<close>. The single rows of the two configuration tables may be
  missing. JSON columns hold the rows themselves: the codec gives a float back as it was.
\<close>

subsection \<open>Tables\<close>

record skill_map_row = map_row +
  mp_raw_difficulty :: rat

record run_row = completion_row +
  cp_id :: int
  cp_completion :: bool

record skill_source =
  sr_maps :: "skill_map_row list"
  sr_runs :: "run_row list"
  sr_users :: "user_row list"
  sr_medals :: "medals_row list"
  sr_flags :: "int list"

record snapshot_row =
  sn_user_id :: int
  sn_skill_score :: rat
  sn_maps_cleared :: int
  sn_video_clears :: int
  sn_hardest_raw :: rat
  sn_breakdown :: "breakdown_row list"
  sn_computed_at :: int

record tier_config_row =
  tg_boundaries :: "rat list"
  tg_percentiles :: "rat list"
  tg_computed_at :: int

record history_row =
  hs_user_id :: int
  hs_captured_at :: int
  hs_skill_score :: rat

record change_row =
  ch_change_id :: int
  ch_user_id :: int
  ch_captured_at :: int
  ch_previous_score :: rat
  ch_new_score :: rat
  ch_delta :: rat
  ch_cause_category :: string
  ch_reason :: "string option"
  ch_diff :: "impact_row list"

record skdb =
  source :: skill_source
  snapshot :: "snapshot_row list"
  weight_config :: "weights option"
  tier_config :: "tier_config_row option"
  score_history :: "history_row list"
  score_changes :: "change_row list"
  next_change_id :: int

type_synonym 'a ktx = "(err, skdb, 'a) tx"
type_synonym kworld = "(skdb, unit) world"
type_synonym 'a kio = "(err, kworld, 'a) io"

subsection \<open>The input query\<close>

text \<open>
  The fastest verified run of each user on each live map. Among equally fast runs the database takes
  any: \<open>ties\<close> shuffles the table first.
\<close>

definition live_map :: "skill_source \<Rightarrow> int \<Rightarrow> bool" where
  "live_map src i \<longleftrightarrow> has_row (\<lambda>m. mp_id m = i \<and> \<not> mp_archived m \<and> mp_code m \<noteq> None) (sr_maps src)"

definition eligible_run :: "skill_source \<Rightarrow> run_row \<Rightarrow> bool" where
  "eligible_run src c \<longleftrightarrow> cp_verified c \<and> \<not> cp_legacy c \<and> live_map src (cp_map_id c)"

definition run_pair :: "run_row \<Rightarrow> int \<times> int" where
  "run_pair c = (cp_user_id c, cp_map_id c)"

definition best_eligible :: "(nat \<Rightarrow> nat) \<Rightarrow> skill_source \<Rightarrow> run_row list" where
  "best_eligible ties src =
     distinct_on run_pair [] (sort_key (\<lambda>c. (cp_user_id c, cp_map_id c, cp_time c))
       (filter (eligible_run src) (order_by_random ties (sr_runs src))))"

text \<open>
  \<open>percent_rank()\<close> of the times descending, cast to \<open>numeric\<close> (fifteen digits), rounded to four places,
  cast back.
\<close>

definition field_of :: "run_row list \<Rightarrow> run_row \<Rightarrow> run_row list" where
  "field_of best c = filter (\<lambda>d. cp_map_id d = cp_map_id c) best"

definition float8_numeric :: "rat \<Rightarrow> rat" where
  "float8_numeric x = (if x = 0 then 0
     else case List.find (\<lambda>n. 10 ^ 14 \<le> \<bar>x\<bar> * 10 ^ n) [0..<400] of Some n \<Rightarrow> dec_round n x | None \<Rightarrow> 0)"

definition round_4 :: "rat \<Rightarrow> rat" where
  "round_4 x = sgn x * of_int \<lfloor>\<bar>x\<bar> * 10000 + 1 / 2\<rfloor> / 10000"

definition time_percentile :: "run_row list \<Rightarrow> run_row \<Rightarrow> rat" where
  "time_percentile best c =
     (let field = field_of best c; slower = length (filter (\<lambda>d. cp_time c < cp_time d) field)
      in if length field \<le> 1 then 0 else fl (of_nat slower / of_nat (length field - 1)))"

definition video_rank_of :: "run_row list \<Rightarrow> run_row \<Rightarrow> int option" where
  "video_rank_of best c = (if cp_completion c then None
     else Some (1 + int (length (filter (\<lambda>d. \<not> cp_completion d \<and> cp_time d < cp_time c) (field_of best c)))))"

definition medal_of :: "skill_source \<Rightarrow> run_row \<Rightarrow> string option" where
  "medal_of src c = (case first_where (\<lambda>md. md_map_id md = cp_map_id c) (sr_medals src) of
      None \<Rightarrow> None
    | Some md \<Rightarrow>
        let reached = (\<lambda>t. case t of None \<Rightarrow> False | Some x \<Rightarrow> cp_time c \<le> x)
        in if reached (md_gold md) then Some ''Gold''
           else if reached (md_silver md) then Some ''Silver''
           else if reached (md_bronze md) then Some ''Bronze''
           else None)"

definition input_rows :: "run_row list \<Rightarrow> skill_source \<Rightarrow> (skill_input \<times> bool) list" where
  "input_rows best src =
     concat (map (\<lambda>c. map (\<lambda>m.
         (\<lparr>si_user_id = cp_user_id c, si_map_id = cp_map_id c,
           si_code = (case mp_code m of Some x \<Rightarrow> x | None \<Rightarrow> []), si_map_name = mp_name m,
           si_difficulty = mp_difficulty m, si_raw_difficulty = fl (mp_raw_difficulty m),
           si_fully_verified = (\<not> cp_completion c), si_field_size = int (length (field_of best c)),
           si_video_rank = video_rank_of best c,
           si_time_pct = fl (round_4 (float8_numeric (time_percentile best c))),
           si_medal = medal_of src c\<rparr>, cp_id c \<in> set (sr_flags src)))
       (filter (\<lambda>m. mp_id m = cp_map_id c) (sr_maps src)))
     (filter (\<lambda>c. has_row (\<lambda>u. usr_id u = cp_user_id c) (sr_users src)) best))"

text \<open>The rows of flagged runs are dropped at the end. Rows of equal difficulty come in any order.\<close>

definition fetch_skill_inputs :: "(nat \<Rightarrow> nat) \<Rightarrow> (nat \<Rightarrow> nat) \<Rightarrow> skdb \<Rightarrow> skill_input list" where
  "fetch_skill_inputs ties order db =
     (let rows = input_rows (best_eligible ties (source db)) (source db)
      in map fst (filter (\<lambda>r. \<not> snd r)
           (sort_key (\<lambda>r. (si_user_id (fst r), - si_raw_difficulty (fst r))) (order_by_random order rows))))"

subsection \<open>The snapshot\<close>

definition snapshot_is_empty :: "skdb \<Rightarrow> bool" where
  "snapshot_is_empty db \<longleftrightarrow> snapshot db = []"

definition fetch_snapshot :: "int \<Rightarrow> skdb \<Rightarrow> snapshot_row option" where
  "fetch_snapshot user_id db = first_where (\<lambda>s. sn_user_id s = user_id) (snapshot db)"

definition fetch_all_snapshots :: "skdb \<Rightarrow> int \<Rightarrow> (rat \<times> breakdown_row list) option" where
  "fetch_all_snapshots db user_id =
     map_option (\<lambda>s. (sn_skill_score s, sn_breakdown s)) (fetch_snapshot user_id db)"

definition replace_snapshot :: "snapshot_row list \<Rightarrow> unit ktx" where
  "replace_snapshot rows = (\<lambda>db.
     if distinct (map sn_user_id rows) then Inr ((), db\<lparr>snapshot := rows\<rparr>)
     else Inl (Pg (UniqueViolation ''snapshot_pkey'')))"

definition insert_history_row :: "history_row \<Rightarrow> history_row list \<Rightarrow> history_row list" where
  "insert_history_row r rows =
     (if has_row (\<lambda>h. hs_user_id h = hs_user_id r \<and> hs_captured_at h = hs_captured_at r) rows then rows else rows @ [r])"

definition bulk_insert_history :: "history_row list \<Rightarrow> unit ktx" where
  "bulk_insert_history rows = write_tx (\<lambda>db. db\<lparr>score_history := fold insert_history_row rows (score_history db)\<rparr>)"

definition insert_change_row :: "change_row \<Rightarrow> unit ktx" where
  "insert_change_row r = (\<lambda>db.
     if ch_cause_category r \<notin> {''PLAYER_ACTION'', ''MAP_ENVIRONMENT'', ''SYSTEM''}
     then Inl (Pg (CheckViolation ''score_change_cause_category_check''))
     else Inr ((), db\<lparr>score_changes := score_changes db @ [r\<lparr>ch_change_id := next_change_id db\<rparr>],
                     next_change_id := next_change_id db + 1\<rparr>))"

definition bulk_insert_changes :: "change_row list \<Rightarrow> unit ktx" where
  "bulk_insert_changes rows = for_tx rows insert_change_row"

subsection \<open>Configuration\<close>

definition fetch_weights :: "weights ktx" where
  "fetch_weights = bind_tx (read_tx weight_config) (\<lambda>w. case w of
      None \<Rightarrow> raise_tx (Skill (SkillConfigNotSeededError ''weight_config'')) | Some x \<Rightarrow> return_tx x)"

text \<open>A partial update; a field that is not set is \<open>None\<close>.\<close>

record weights_patch =
  wp_diff_base :: "rat option"
  wp_gamma :: "rat option"
  wp_time_bonus :: "rat option"
  wp_shrink_k :: "rat option"
  wp_wr_bonus :: "rat option"
  wp_partial_factor :: "rat option"
  wp_medal_gold :: "rat option"
  wp_medal_silver :: "rat option"
  wp_medal_bronze :: "rat option"

definition or_else :: "'a option \<Rightarrow> 'a \<Rightarrow> 'a" where
  "or_else x y = (case x of None \<Rightarrow> y | Some z \<Rightarrow> z)"

definition patch_weights :: "weights_patch \<Rightarrow> weights \<Rightarrow> weights" where
  "patch_weights p w =
     \<lparr>w_diff_base = or_else (wp_diff_base p) (w_diff_base w), w_gamma = or_else (wp_gamma p) (w_gamma w),
      w_time_bonus = or_else (wp_time_bonus p) (w_time_bonus w), w_shrink_k = or_else (wp_shrink_k p) (w_shrink_k w),
      w_wr_bonus = or_else (wp_wr_bonus p) (w_wr_bonus w),
      w_partial_factor = or_else (wp_partial_factor p) (w_partial_factor w),
      w_medal_gold = or_else (wp_medal_gold p) (w_medal_gold w),
      w_medal_silver = or_else (wp_medal_silver p) (w_medal_silver w),
      w_medal_bronze = or_else (wp_medal_bronze p) (w_medal_bronze w)\<rparr>"

definition empty_patch :: weights_patch where
  "empty_patch = \<lparr>wp_diff_base = None, wp_gamma = None, wp_time_bonus = None, wp_shrink_k = None,
     wp_wr_bonus = None, wp_partial_factor = None, wp_medal_gold = None, wp_medal_silver = None, wp_medal_bronze = None\<rparr>"

definition repo_update_weights :: "weights_patch \<Rightarrow> weights option ktx" where
  "repo_update_weights p =
     (if p = empty_patch then bind_tx fetch_weights (\<lambda>w. return_tx (Some w))
      else (\<lambda>db. case weight_config db of
          None \<Rightarrow> Inr (None, db)
        | Some w \<Rightarrow>
            let w' = patch_weights p w
            in if w_gamma w' < 1 / 2 then Inl (Pg (CheckViolation ''weight_config_gamma_floor''))
               else Inr (Some w', db\<lparr>weight_config := Some w'\<rparr>)))"

definition update_percentiles :: "rat list \<Rightarrow> unit ktx" where
  "update_percentiles percentiles =
     write_tx (\<lambda>db. db\<lparr>tier_config := map_option (\<lambda>t. t\<lparr>tg_percentiles := percentiles\<rparr>) (tier_config db)\<rparr>)"

definition fetch_tier_config :: "tier_config_row ktx" where
  "fetch_tier_config = bind_tx (read_tx tier_config) (\<lambda>t. case t of
      None \<Rightarrow> raise_tx (Skill (SkillConfigNotSeededError ''tier_config'')) | Some x \<Rightarrow> return_tx x)"

subsection \<open>Tiers\<close>

text \<open>\<open>percentile_cont(p) WITHIN GROUP (ORDER BY x)\<close> over sorted values.\<close>

definition percentile_cont :: "rat list \<Rightarrow> rat \<Rightarrow> pg_error + rat" where
  "percentile_cont xs p =
     (if p < 0 \<or> 1 < p then Inl NumericOutOfRange
      else let pos = fl (p * of_nat (length xs - 1)); lo = xs ! nat \<lfloor>pos\<rfloor>; hi = xs ! nat \<lceil>pos\<rceil>
           in if \<lfloor>pos\<rfloor> = \<lceil>pos\<rceil> then Inr lo
              else Inr (fl (lo + fl (fl (pos - of_int \<lfloor>pos\<rfloor>) * fl (hi - lo)))))"

definition ranked_scores :: "skdb \<Rightarrow> rat list" where
  "ranked_scores db = sort (filter (\<lambda>x. 0 < x) (map sn_skill_score (snapshot db)))"

definition tier_population_floor :: nat where
  "tier_population_floor = 20"

definition compute_tier_boundaries :: "int \<Rightarrow> unit ktx" where
  "compute_tier_boundaries now = (\<lambda>db. case tier_config db of
      None \<Rightarrow> Inr ((), db)
    | Some t \<Rightarrow>
        let scores = ranked_scores db
        in case (if tier_population_floor \<le> length scores
                 then map_py (percentile_cont scores) (tg_percentiles t) else Inr []) of
             Inl e \<Rightarrow> Inl (Pg e)
           | Inr bs \<Rightarrow> Inr ((), db\<lparr>tier_config := Some (t\<lparr>tg_boundaries := bs, tg_computed_at := now\<rparr>)\<rparr>))"

text \<open>PostgreSQL's \<open>width_bucket\<close> on an array: a binary search for the number of bounds not above \<open>x\<close>.\<close>

function bucket_between :: "rat \<Rightarrow> rat list \<Rightarrow> nat \<Rightarrow> nat \<Rightarrow> nat" where
  "bucket_between x bs left right =
     (if left < right
      then let mid = (left + right) div 2
           in if x < bs ! mid then bucket_between x bs left mid else bucket_between x bs (mid + 1) right
      else left)"
  by pat_completeness auto

termination by (relation "measure (\<lambda>(x, bs, left, right). right - left)") auto

declare bucket_between.simps [simp del]

definition width_bucket :: "rat \<Rightarrow> rat list \<Rightarrow> nat" where
  "width_bucket x bs = bucket_between x bs 0 (length bs)"

definition tier_of :: "rat \<Rightarrow> rat list \<Rightarrow> int" where
  "tier_of score boundaries =
     (if score \<le> 0 \<or> boundaries = [] then 0 else int (width_bucket score boundaries) + 1)"

definition score_percentile :: "rat \<Rightarrow> skdb \<Rightarrow> rat" where
  "score_percentile score db =
     (let ranked = ranked_scores db
      in if ranked = [] then 0
         else fl (fl (of_nat (length (filter (\<lambda>x. x \<le> score) ranked))) / of_nat (length ranked)))"

definition fetch_snapshot_with_tier :: "int \<Rightarrow> skdb \<Rightarrow> (snapshot_row \<times> int \<times> rat) option" where
  "fetch_snapshot_with_tier user_id db =
     (case (fetch_snapshot user_id db, tier_config db) of
        (Some s, Some t) \<Rightarrow> Some (s, tier_of (sn_skill_score s) (tg_boundaries t), score_percentile (sn_skill_score s) db)
      | _ \<Rightarrow> None)"

subsection \<open>History and changes\<close>

definition fetch_history :: "int \<Rightarrow> int \<Rightarrow> skdb \<Rightarrow> history_row list" where
  "fetch_history user_id since db =
     sort_key hs_captured_at (filter (\<lambda>h. hs_user_id h = user_id \<and> since \<le> hs_captured_at h) (score_history db))"

definition fetch_changes :: "int \<Rightarrow> int \<Rightarrow> nat \<Rightarrow> nat \<Rightarrow> skdb \<Rightarrow> change_row list" where
  "fetch_changes user_id since limit offset db =
     take limit (drop offset (sort_key (\<lambda>c. - ch_captured_at c)
       (filter (\<lambda>c. ch_user_id c = user_id \<and> since \<le> ch_captured_at c) (score_changes db))))"

definition fetch_change :: "int \<Rightarrow> int \<Rightarrow> skdb \<Rightarrow> change_row option" where
  "fetch_change user_id change_id db =
     first_where (\<lambda>c. ch_change_id c = change_id \<and> ch_user_id c = user_id) (score_changes db)"

end
