(* ===== verification/Skill_Service.thy ===== *)
theory Skill_Service
  imports Skill_Db
begin

section \<open>The skill service\<close>

text \<open>
  \<open>SkillService\<close> of \<open>apps/api/services/skill_service.py\<close>: the rebuild of the snapshot, the guard that
  collapses bursts of triggers, the reads and the two configuration updates.
\<close>

subsection \<open>Causes\<close>

record trigger_descriptor =
  td_cause_category :: string
  td_actor_user_id :: "int option"

definition system_trigger :: trigger_descriptor where
  "system_trigger = \<lparr>td_cause_category = ''SYSTEM'', td_actor_user_id = None\<rparr>"

definition resolve_cause_policy :: "trigger_descriptor list \<Rightarrow> string \<times> int option" where
  "resolve_cause_policy drained = (case drained of
      [d] \<Rightarrow> if td_cause_category d = ''PLAYER_ACTION'' \<and> td_actor_user_id d \<noteq> None
             then (''PLAYER_ACTION'', td_actor_user_id d) else (''SYSTEM'', None)
    | _ \<Rightarrow> (''SYSTEM'', None))"

definition user_cause :: "string \<times> int option \<Rightarrow> int \<Rightarrow> string" where
  "user_cause policy user_id =
     (if fst policy = ''SYSTEM'' then ''SYSTEM''
      else if snd policy = Some user_id then ''PLAYER_ACTION'' else ''MAP_ENVIRONMENT'')"

definition policy_reason :: "string \<times> int option \<Rightarrow> string" where
  "policy_reason policy = (if fst policy = ''SYSTEM'' then ''global recalculation'' else ''verified completion'')"

subsection \<open>The rebuild\<close>

text \<open>A dictionary of lists keeps the users in the order of their first row.\<close>

definition by_user :: "skill_input list \<Rightarrow> (int \<times> skill_input list) list" where
  "by_user rows = map (\<lambda>u. (u, filter (\<lambda>r. si_user_id r = u) rows)) (distinct_on id [] (map si_user_id rows))"

definition hardest :: "skill_input list \<Rightarrow> rat" where
  "hardest rows = (case map si_raw_difficulty rows of [] \<Rightarrow> 0 | x # xs \<Rightarrow> foldl max x xs)"

definition score_user ::
  "float_pow \<Rightarrow> weights \<Rightarrow> (nat \<Rightarrow> nat) \<Rightarrow> int \<Rightarrow> string \<times> int option \<Rightarrow>
     (int \<Rightarrow> (rat \<times> breakdown_row list) option) \<Rightarrow> int \<times> skill_input list \<Rightarrow>
     py_error + snapshot_row \<times> history_row \<times> change_row" where
  "score_user pow w set_order computed_at policy prev = (\<lambda>(user_id, urows).
     bind_py (player_breakdown pow urows w) (\<lambda>breakdown.
     let new_score = breakdown_score breakdown;
         previous_score = (case prev user_id of Some (x, _) \<Rightarrow> x | None \<Rightarrow> 0);
         previous_breakdown = (case prev user_id of Some (_, b) \<Rightarrow> b | None \<Rightarrow> [])
     in Inr
       (\<lparr>sn_user_id = user_id, sn_skill_score = new_score, sn_maps_cleared = int (length urows),
         sn_video_clears = int (length (filter si_fully_verified urows)), sn_hardest_raw = hardest urows,
         sn_breakdown = breakdown, sn_computed_at = computed_at\<rparr>,
        \<lparr>hs_user_id = user_id, hs_captured_at = computed_at, hs_skill_score = new_score\<rparr>,
        \<lparr>ch_change_id = 0, ch_user_id = user_id, ch_captured_at = computed_at, ch_previous_score = previous_score,
         ch_new_score = new_score, ch_delta = fl (new_score - previous_score),
         ch_cause_category = user_cause policy user_id, ch_reason = Some (policy_reason policy),
         ch_diff = build_diff set_order previous_breakdown breakdown\<rparr>)))"

text \<open>
  The weights and the inputs are read before the transaction; \<open>meanwhile\<close> is what others commit in
  between. \<open>computed_at\<close> is Python's clock, \<open>now\<close> that of the transaction.
\<close>

definition recompute_tx ::
  "float_pow \<Rightarrow> (nat \<Rightarrow> nat) \<Rightarrow> int \<Rightarrow> int \<Rightarrow> string \<times> int option \<Rightarrow> weights \<Rightarrow> skill_input list \<Rightarrow> unit ktx" where
  "recompute_tx pow set_order computed_at now policy w rows =
     bind_tx (read_tx fetch_all_snapshots) (\<lambda>prev.
     bind_tx (lift_tx (lift_py (map_py (score_user pow w set_order computed_at policy prev) (by_user rows)))) (\<lambda>scored.
     bind_tx (replace_snapshot (map fst scored)) (\<lambda>_.
     bind_tx (bulk_insert_history (map (fst \<circ> snd) scored)) (\<lambda>_.
     bind_tx (bulk_insert_changes (map (snd \<circ> snd) scored)) (\<lambda>_.
     compute_tier_boundaries now)))))"

record rebuild_env =
  rb_pow :: float_pow
  rb_ties :: "nat \<Rightarrow> nat"
  rb_order :: "nat \<Rightarrow> nat"
  rb_set_order :: "nat \<Rightarrow> nat"
  rb_computed_at :: int
  rb_now :: int
  rb_meanwhile :: "skdb \<Rightarrow> skdb"

definition do_recompute :: "rebuild_env \<Rightarrow> string \<times> int option \<Rightarrow> unit kio" where
  "do_recompute R policy =
     bind_io (atomically fetch_weights) (\<lambda>w.
     bind_io (atomically (read_tx (fetch_skill_inputs (rb_ties R) (rb_order R)))) (\<lambda>rows.
     bind_io (atomically (write_tx (rb_meanwhile R))) (\<lambda>_.
     atomically (recompute_tx (rb_pow R) (rb_set_order R) (rb_computed_at R) (rb_now R) policy w rows))))"

subsection \<open>The guard\<close>

text \<open>
  \<open>recompute_all\<close> up to its first \<open>await\<close>, and what happens each time its rebuild returns. A batch is
  the triggers one rebuild serves.
\<close>

record guard =
  g_locked :: bool
  g_rerun :: bool
  g_pending :: "trigger_descriptor list"
  g_running :: "trigger_descriptor list option"

definition idle_guard :: guard where
  "idle_guard = \<lparr>g_locked = False, g_rerun = False, g_pending = [], g_running = None\<rparr>"

definition loop_head :: "guard \<Rightarrow> guard" where
  "loop_head g =
     (if g_rerun g then g\<lparr>g_rerun := False, g_pending := [], g_running := Some (g_pending g)\<rparr>
      else g\<lparr>g_locked := False, g_running := None\<rparr>)"

definition recompute_enter :: "trigger_descriptor option \<Rightarrow> guard \<Rightarrow> guard" where
  "recompute_enter descriptor g =
     (let g' = g\<lparr>g_pending := g_pending g @ [or_else descriptor system_trigger], g_rerun := True\<rparr>
      in if g_locked g then g' else loop_head (g'\<lparr>g_locked := True\<rparr>))"

text \<open>An exception leaves the loop and releases the lock; nothing else is undone.\<close>

definition recompute_abort :: "guard \<Rightarrow> guard" where
  "recompute_abort g = g\<lparr>g_locked := False, g_running := None\<rparr>"

subsection \<open>Reads\<close>

definition skill_tier_name :: "int \<Rightarrow> string" where
  "skill_tier_name tier = or_else (map_of
     [(0, ''Unranked''), (1, ''Bronze''), (2, ''Silver''), (3, ''Gold''), (4, ''Emerald''), (5, ''Diamond''),
      (6, ''Ascendant''), (7, ''Elite''), (8, ''Champion'')] tier) ''Unranked''"

record skill_summary =
  ks_user_id :: int
  ks_skill_score :: rat
  ks_maps_cleared :: int
  ks_video_clears :: int
  ks_hardest_raw :: rat
  ks_tier :: int
  ks_percentile :: rat
  ks_skill_tier_name :: string

definition get_user_skill :: "int \<Rightarrow> skdb \<Rightarrow> skill_summary" where
  "get_user_skill user_id db = (case fetch_snapshot_with_tier user_id db of
      None \<Rightarrow> \<lparr>ks_user_id = user_id, ks_skill_score = 0, ks_maps_cleared = 0, ks_video_clears = 0,
                ks_hardest_raw = 0, ks_tier = 0, ks_percentile = 0, ks_skill_tier_name = skill_tier_name 0\<rparr>
    | Some (s, tier, p) \<Rightarrow>
        \<lparr>ks_user_id = sn_user_id s, ks_skill_score = sn_skill_score s, ks_maps_cleared = sn_maps_cleared s,
         ks_video_clears = sn_video_clears s, ks_hardest_raw = sn_hardest_raw s, ks_tier = tier,
         ks_percentile = p, ks_skill_tier_name = skill_tier_name tier\<rparr>)"

definition get_user_breakdown :: "int \<Rightarrow> skdb \<Rightarrow> breakdown_row list" where
  "get_user_breakdown user_id db =
     (case fetch_snapshot user_id db of None \<Rightarrow> [] | Some s \<Rightarrow> sn_breakdown s)"

definition window_days :: "string \<Rightarrow> int option" where
  "window_days = map_of [(''7d'', 7), (''30d'', 30), (''90d'', 90), (''1y'', 365)]"

definition window_since :: "int \<Rightarrow> string \<Rightarrow> int" where
  "window_since clock window = (case window_days window of None \<Rightarrow> 0 | Some n \<Rightarrow> clock - n * day_us)"

record extremum =
  ex_score :: rat
  ex_date :: "int option"

record history_summary =
  hy_point_change :: rat
  hy_percent_change :: "rat option"
  hy_best :: extremum
  hy_lowest :: extremum
  hy_average :: rat

record skill_history =
  hr_user_id :: int
  hr_points :: "(int \<times> rat) list"
  hr_summary :: history_summary

text \<open>\<open>max\<close> and \<open>min\<close> with a key take the first of equals.\<close>

definition extremum_by :: "(rat \<Rightarrow> rat \<Rightarrow> bool) \<Rightarrow> (int \<times> rat) list \<Rightarrow> extremum" where
  "extremum_by better points = (case points of [] \<Rightarrow> \<lparr>ex_score = 0, ex_date = None\<rparr>
     | p # ps \<Rightarrow> let b = foldl (\<lambda>b q. if better (snd q) (snd b) then q else b) p ps
                in \<lparr>ex_score = snd b, ex_date = Some (fst b)\<rparr>)"

definition history_summary_of :: "(int \<times> rat) list \<Rightarrow> history_summary" where
  "history_summary_of points =
     (if points = [] then \<lparr>hy_point_change = 0, hy_percent_change = Some 0, hy_best = \<lparr>ex_score = 0, ex_date = None\<rparr>,
        hy_lowest = \<lparr>ex_score = 0, ex_date = None\<rparr>, hy_average = 0\<rparr>
      else let first = snd (hd points); point_change = fl (snd (last points) - first)
        in \<lparr>hy_point_change = point_change,
            hy_percent_change = (if first \<noteq> 0 then Some (fl (fl (point_change / first) * 100)) else None),
            hy_best = extremum_by (>) points, hy_lowest = extremum_by (<) points,
            hy_average = fl (py_sum (map snd points) / of_nat (length points))\<rparr>)"

definition get_user_history :: "int \<Rightarrow> string \<Rightarrow> int \<Rightarrow> skdb \<Rightarrow> skill_history" where
  "get_user_history user_id window clock db =
     (let points = map (\<lambda>h. (hs_captured_at h, hs_skill_score h)) (fetch_history user_id (window_since clock window) db)
      in \<lparr>hr_user_id = user_id, hr_points = points, hr_summary = history_summary_of points\<rparr>)"

record change_feed_item =
  cf_change_id :: int
  cf_captured_at :: int
  cf_delta :: rat
  cf_cause_category :: string
  cf_description :: string

definition change_description :: "change_row \<Rightarrow> string" where
  "change_description c = (case ch_reason c of
      None \<Rightarrow> ch_cause_category c | Some s \<Rightarrow> if s = [] then ch_cause_category c else s)"

definition get_user_changes :: "int \<Rightarrow> string \<Rightarrow> nat \<Rightarrow> nat \<Rightarrow> int \<Rightarrow> skdb \<Rightarrow> change_feed_item list" where
  "get_user_changes user_id window limit offset clock db =
     map (\<lambda>c. \<lparr>cf_change_id = ch_change_id c, cf_captured_at = ch_captured_at c, cf_delta = ch_delta c,
          cf_cause_category = ch_cause_category c, cf_description = change_description c\<rparr>)
       (fetch_changes user_id (window_since clock window) limit offset db)"

record change_cause =
  cc_map :: string
  cc_reason :: string
  cc_impact :: rat

record change_detail =
  cd_change_id :: int
  cd_captured_at :: int
  cd_previous_score :: rat
  cd_new_score :: rat
  cd_delta :: rat
  cd_percent_change :: rat
  cd_cause_category :: string
  cd_main_causes :: "change_cause list"
  cd_other_factors :: rat

definition top_n :: nat where
  "top_n = 5"

definition change_detail_of :: "change_row \<Rightarrow> change_detail" where
  "change_detail_of c =
     (let maps = sort_key (\<lambda>m. - \<bar>im_impact m\<bar>) (ch_diff c)
      in \<lparr>cd_change_id = ch_change_id c, cd_captured_at = ch_captured_at c, cd_previous_score = ch_previous_score c,
          cd_new_score = ch_new_score c, cd_delta = ch_delta c,
          cd_percent_change = (if ch_previous_score c \<noteq> 0 then fl (fl (ch_delta c / ch_previous_score c) * 100) else 0),
          cd_cause_category = ch_cause_category c,
          cd_main_causes = map (\<lambda>m. \<lparr>cc_map = im_map m, cc_reason = change_description c, cc_impact = im_impact m\<rparr>)
             (take top_n maps),
          cd_other_factors = py_sum (map im_impact (drop top_n maps))\<rparr>)"

definition get_user_change_detail :: "int \<Rightarrow> int \<Rightarrow> skdb \<Rightarrow> change_detail option" where
  "get_user_change_detail user_id change_id db = map_option change_detail_of (fetch_change user_id change_id db)"

subsection \<open>Configuration\<close>

definition get_weights :: "weights kio" where
  "get_weights = atomically fetch_weights"

definition update_weights :: "weights_patch \<Rightarrow> weights kio" where
  "update_weights data =
     (if (case wp_gamma data of None \<Rightarrow> False | Some g \<Rightarrow> g < 1 / 2)
      then raise_io (Skill (InvalidGammaError (or_else (wp_gamma data) 0)))
      else bind_io (atomically (repo_update_weights data)) (\<lambda>row. case row of
          None \<Rightarrow> raise_io (Py ValidationError) | Some w \<Rightarrow> return_io w))"

definition get_tier_config :: "tier_config_row kio" where
  "get_tier_config = atomically fetch_tier_config"

definition tier_percentile_count :: nat where
  "tier_percentile_count = 7"

definition update_tier_config :: "int \<Rightarrow> rat list \<Rightarrow> tier_config_row kio" where
  "update_tier_config now percentiles =
     (if length percentiles \<noteq> tier_percentile_count
      then raise_io (Skill (InvalidPercentilesError ''percentiles must contain exactly 7 values.''))
      else if \<exists>p \<in> set percentiles. \<not> (0 < p \<and> p < 1)
      then raise_io (Skill (InvalidPercentilesError ''every percentile must be strictly between 0 and 1.''))
      else if \<exists>(a, b) \<in> set (zip percentiles (tl percentiles)). b \<le> a
      then raise_io (Skill (InvalidPercentilesError ''percentiles must be strictly increasing.''))
      else atomically (bind_tx (update_percentiles percentiles) (\<lambda>_.
        bind_tx (compute_tier_boundaries now) (\<lambda>_. fetch_tier_config))))"

end
