(* ===== verification/Float_Rules.thy ===== *)
theory Float_Rules
  imports Float64
begin

section \<open>Rules of rounding\<close>

text \<open>
  Rounding to doubles is monotone, does nothing to a double, and keeps products and quotients on the side
  of a factor they are on; what the text of a double says about the number and about its two decimals.
\<close>

subsection \<open>Order\<close>

lemma fl_mono0: "0 \<le> x \<Longrightarrow> x \<le> y \<Longrightarrow> fl x \<le> fl y"
  using fl_mono [of x y] fl_nonneg [of y] by (cases "x = 0") auto

lemma fl_one [simp]: "fl 1 = 1"
  using fl_of_int [of 1] by simp

lemma fl_pos: "0 < x \<Longrightarrow> fl x = of_int (round_half_even (x / 2 powi (max (ilog2 x - 52) (- 1074))))
    * 2 powi (max (ilog2 x - 52) (- 1074))"
  by (simp add: fl_def Let_def)

lemma fl_grid:
  assumes "0 < y" "y / 2 powi (max (ilog2 y - 52) (- 1074)) = of_int n"
  shows "fl y = y"
  unfolding fl_pos [OF assms(1)] assms(2) round_half_even_int
  by (simp flip: assms(2))

lemma round_half_even_small: "0 \<le> x \<Longrightarrow> x < 1 / 2 \<Longrightarrow> round_half_even x = 0"
proof -
  assume "0 \<le> x" "x < 1 / 2"
  moreover from this have "\<lfloor>x\<rfloor> = 0" by linarith
  ultimately show ?thesis by (simp add: round_half_even_def Let_def)
qed

text \<open>A rounded value is a float: rounding it again does nothing.\<close>

lemma fl_idem:
  assumes "0 \<le> x"
  shows "fl (fl x) = fl x"
proof (cases "x = 0 \<or> fl x = 0")
  case False
  with assms have x: "0 < x" and y: "0 < fl x" using fl_nonneg [of x] by auto
  define e k where "e = ilog2 x" and "k = max (e - 52) (- 1074)"
  define n where "n = round_half_even (x / 2 powi k)"
  have eq: "fl x = of_int n * 2 powi k" using fl_pos [OF x] by (simp add: n_def k_def e_def)
  have upper: "x < 2 powi (e + 1)" using ilog2_bounds [OF x] by (simp add: e_def)
  have s: "0 < (2 :: rat) powi k" by simp
  have top: "fl x \<le> 2 powi (e + 1)"
  proof (cases "k \<le> e + 1")
    case True
    have "x / 2 powi k \<le> of_int (2 ^ nat (e + 1 - k))"
      using upper s powi_multiple [OF True] by (metis divide_right_mono less_imp_le)
    then have "of_int n \<le> (2 :: rat) powi (e + 1) / 2 powi k"
      unfolding powi_multiple [OF True] n_def using round_half_even_le_int by (simp only: of_int_le_iff)
    then show ?thesis unfolding eq using s by (simp add: pos_le_divide_eq)
  next
    case False
    then have "(2 :: rat) powi (e + 1) \<le> 2 powi (k - 1)" by (intro power_int_increasing) auto
    then have "x < 2 powi k / 2" using upper by (simp add: power_int_diff)
    then have "x / 2 powi k < 1 / 2" using s by (simp add: pos_divide_less_eq)
    moreover have "0 \<le> x / 2 powi k" using assms s by simp
    ultimately have "n = 0" unfolding n_def by (intro round_half_even_small)
    with eq y show ?thesis by simp
  qed
  define e' k' where "e' = ilog2 (fl x)" and "k' = max (e' - 52) (- 1074)"
  have low': "2 powi e' \<le> fl x" using ilog2_bounds [OF y] by (simp add: e'_def)
  show ?thesis
  proof (cases "k' \<le> k")
    case True
    have "fl x / 2 powi k' = of_int n * of_int (2 ^ nat (k - k'))"
      unfolding eq using powi_multiple [OF True] by (metis times_divide_eq_right)
    then have "fl x / 2 powi k' = of_int (n * 2 ^ nat (k - k'))" by simp
    then show ?thesis unfolding k'_def e'_def by (rule fl_grid [OF y])
  next
    case False
    then have k': "k' = e' - 52" and "e < e'" by (auto simp: k'_def k_def)
    then have "(2 :: rat) powi (e + 1) \<le> 2 powi e'" by (intro power_int_increasing) auto
    with low' top have "fl x = 2 powi e'" by simp
    then have "fl x / 2 powi k' = of_int (2 ^ nat (e' - k'))" using powi_multiple [of k' e'] k' by simp
    then show ?thesis unfolding k'_def e'_def by (rule fl_grid [OF y])
  qed
qed auto

lemma fl_mult_ge: "0 \<le> x \<Longrightarrow> 1 \<le> m \<Longrightarrow> fl x \<le> fl (fl x * m)"
  using fl_mono0 [of "fl x" "fl x * m"] fl_idem [of x] fl_nonneg [of x] by (simp add: mult_le_cancel_left1)

lemma fl_mult_le: "0 \<le> x \<Longrightarrow> 0 \<le> m \<Longrightarrow> m \<le> 1 \<Longrightarrow> fl (fl x * m) \<le> fl x"
  using fl_mono0 [of "fl x * m" "fl x"] fl_idem [of x] fl_nonneg [of x] by (simp add: mult_left_le)

lemma fl_one_plus: "0 \<le> x \<Longrightarrow> 1 \<le> fl (1 + x)"
  using fl_mono0 [of 1 "1 + x"] by simp

lemma fl_div_le: "0 \<le> x \<Longrightarrow> 1 \<le> d \<Longrightarrow> fl (fl x / d) \<le> fl x"
  using fl_mono0 [of "fl x / d" "fl x"] fl_idem [of x] fl_nonneg [of x] by (simp add: divide_le_eq mult_le_cancel_left1)

subsection \<open>The text of a double\<close>

lemma float_text_back: "fl x = x \<Longrightarrow> fl (float_text x) = x"
  by (auto simp: float_text_def find_Some_iff split: option.splits)

lemma float_text_nonneg: "0 \<le> x \<Longrightarrow> 0 \<le> float_text x"
  by (auto simp: float_text_def dec_round_def round_half_even_nonneg split: option.splits)

lemma numeric_2_nonneg: "0 \<le> x \<Longrightarrow> numeric_2 x = of_int \<lfloor>x * 100 + 1 / 2\<rfloor> / 100"
  by (cases "x = 0") (simp_all add: numeric_2_def floor_eq_iff)

text \<open>
  Two decimals of a double stay on the side of a threshold of two decimals the double is on; below it they
  may reach it.
\<close>

lemma numeric_2_below:
  assumes "fl x = x" "0 \<le> x" "x < fl (of_int k / 100)" "0 \<le> k"
  shows "numeric_2 (float_text x) \<le> of_int k / 100"
proof -
  let ?z = "float_text x"
  have z: "0 \<le> ?z" "fl ?z = x" using float_text_nonneg [OF assms(2)] float_text_back [OF assms(1)] by auto
  have less: "?z < of_int k / 100"
  proof (rule ccontr)
    assume "\<not> ?z < of_int k / 100"
    then have le: "of_int k / 100 \<le> ?z" by simp
    have "0 \<le> (of_int k / 100 :: rat)" using assms(4) by simp
    from fl_mono0 [OF this le] z(2) assms(3) show False by simp
  qed
  then have "\<lfloor>?z * 100 + 1 / 2\<rfloor> \<le> k" by linarith
  then show ?thesis by (simp add: numeric_2_nonneg [OF z(1)] divide_right_mono)
qed

lemma fl_gap:
  assumes "0 < k" "k \<le> 1000"
  shows "fl (of_int k / 100 - 1 / 200) < fl (of_int k / 100)"
proof -
  let ?t = "of_int k / 100 :: rat" and ?s = "of_int k / 100 - 1 / 200 :: rat"
  have k: "1 \<le> (of_int k :: rat)" "(of_int k :: rat) \<le> 1000" using assms by simp_all
  then have s: "1 / 200 \<le> ?s" "?t \<le> 10" by simp_all
  have small: "2 powi (- 1022) \<le> (1 / 200 :: rat)"
  proof -
    have "(2 :: rat) powi (- 1022) \<le> 2 powi (- 8)" by (intro power_int_increasing) auto
    also have "\<dots> \<le> 1 / 200" by (simp add: power_int_minus)
    finally show ?thesis .
  qed
  have "fl ?s \<le> ?s * (1 + 1 / 2 ^ 53)" using s small by (intro fl_close) auto
  moreover have "?t * (1 - 1 / 2 ^ 53) \<le> fl ?t" using s small by (intro fl_close) auto
  moreover have "?s * (1 + 1 / 2 ^ 53) < ?t * (1 - 1 / 2 ^ 53)" using k by (simp add: field_simps)
  ultimately show ?thesis by linarith
qed

lemma numeric_2_above:
  assumes "fl x = x" "0 \<le> x" "fl (of_int k / 100) \<le> x" "0 \<le> k" "k \<le> 1000"
  shows "of_int k / 100 \<le> numeric_2 (float_text x)"
proof -
  let ?z = "float_text x"
  have z: "0 \<le> ?z" "fl ?z = x" using float_text_nonneg [OF assms(2)] float_text_back [OF assms(1)] by auto
  have "k \<le> \<lfloor>?z * 100 + 1 / 2\<rfloor>"
  proof (cases "k = 0")
    case True
    then show ?thesis using z(1) by simp
  next
    case False
    with assms(4,5) have gap: "fl (of_int k / 100 - 1 / 200) < fl (of_int k / 100)" by (intro fl_gap) auto
    have "of_int k / 100 - 1 / 200 < ?z"
    proof (rule ccontr)
      assume "\<not> of_int k / 100 - 1 / 200 < ?z"
      then have "fl ?z \<le> fl (of_int k / 100 - 1 / 200)" using z(1) by (intro fl_mono0) auto
      with gap z(2) assms(3) show False by simp
    qed
    then show ?thesis by (simp add: le_floor_iff)
  qed
  then have "(of_int k :: rat) \<le> of_int \<lfloor>?z * 100 + 1 / 2\<rfloor>" by (simp only: of_int_le_iff)
  then show ?thesis by (simp add: numeric_2_nonneg [OF z(1)] divide_right_mono)
qed

end
