(* ===== verification/Skill_Rules.thy ===== *)
theory Skill_Rules
  imports Skill_Service Float_Rules
begin

section \<open>Rules of the scorer\<close>

text \<open>
  What a run scores, what a breakdown is made of, and what the difference of two breakdowns adds up to.
\<close>

subsection \<open>One run\<close>

definition sane_weights :: "weights \<Rightarrow> bool" where
  "sane_weights w \<longleftrightarrow> 0 \<le> w_time_bonus w \<and> 0 \<le> w_shrink_k w \<and> 0 \<le> w_wr_bonus w
     \<and> 0 \<le> w_partial_factor w \<and> w_partial_factor w \<le> 1
     \<and> 1 \<le> w_medal_gold w \<and> 1 \<le> w_medal_silver w \<and> 1 \<le> w_medal_bronze w"

definition float :: "rat \<Rightarrow> bool" where
  "float x \<longleftrightarrow> fl x = x"

lemma medal_mult_ge: "sane_weights w \<Longrightarrow> 1 \<le> medal_mult m w"
  by (auto simp: sane_weights_def medal_mult_def)

lemma wr_mult_ge: "sane_weights w \<Longrightarrow> 1 \<le> wr_mult r w"
  by (simp add: sane_weights_def wr_mult_def fl_one_plus)

lemma field_shrink_total:
  assumes "sane_weights w" "0 \<le> si_field_size r"
  shows "\<exists>s. field_shrink r w = Inr s \<and> 0 \<le> s"
proof -
  let ?n = "fl (of_int (if si_field_size r = 0 then 1 else si_field_size r))"
  have "fl 1 \<le> ?n" using assms(2) by (intro fl_mono0) auto
  then have n: "1 \<le> ?n" by simp
  have "fl ?n \<le> fl (?n + w_shrink_k w)" using n assms(1) by (intro fl_mono0) (auto simp: sane_weights_def)
  moreover have "1 \<le> fl ?n" using fl_mono0 [of 1 ?n] n by simp
  ultimately show ?thesis using n by (simp add: field_shrink_def Let_def py_div_def fl_nonneg)
qed

lemma map_score_full:
  assumes "sane_weights w" "0 \<le> si_field_size r" "0 \<le> si_time_pct r"
    and "diff_weight pow (si_raw_difficulty r) w = Inr b" "0 \<le> b" "float b" "si_fully_verified r"
  shows "\<exists>s. map_score pow r w = Inr s \<and> b \<le> s \<and> float s"
proof -
  from field_shrink_total [OF assms(1,2)] obtain s where s: "field_shrink r w = Inr s" "0 \<le> s" by blast
  have t: "1 \<le> time_mult s r w"
    using assms(1,3) s(2) unfolding time_mult_def by (intro fl_one_plus fl_nonneg mult_nonneg_nonneg) (auto simp: sane_weights_def)
  define x y z where "x = fl (b * time_mult s r w)" and "y = fl (x * medal_mult (si_medal r) w)"
    and "z = fl (y * wr_mult r w)"
  have bx: "b \<le> x" using fl_mult_ge [OF assms(5) t] assms(6) by (simp add: x_def float_def)
  then have bt: "0 \<le> b * time_mult s r w" using assms(5) t by simp
  have xy: "x \<le> y" unfolding y_def x_def by (rule fl_mult_ge [OF bt medal_mult_ge [OF assms(1)]])
  have x0: "0 \<le> x * medal_mult (si_medal r) w"
    using bx assms(5) medal_mult_ge [OF assms(1), of "si_medal r"] by simp
  have yz: "y \<le> z" unfolding z_def y_def by (rule fl_mult_ge [OF x0 wr_mult_ge [OF assms(1)]])
  have "0 \<le> y * wr_mult r w" using bx xy assms(5) wr_mult_ge [OF assms(1), of r] by simp
  then have "float z" unfolding z_def float_def by (rule fl_idem)
  moreover have "map_score pow r w = Inr z"
    using assms(4,7) s(1) by (simp add: map_score_def x_def y_def z_def)
  ultimately show ?thesis using bx xy yz by auto
qed

lemma map_score_partial:
  assumes "sane_weights w" "diff_weight pow (si_raw_difficulty r) w = Inr b" "0 \<le> b" "float b" "\<not> si_fully_verified r"
  shows "\<exists>s. map_score pow r w = Inr s \<and> 0 \<le> s \<and> s \<le> b \<and> float s"
proof -
  have "0 \<le> b * w_partial_factor w" using assms(1,3) by (simp add: sane_weights_def)
  then show ?thesis using assms fl_mult_le [of b "w_partial_factor w"]
    by (simp add: map_score_def float_def sane_weights_def fl_nonneg fl_idem)
qed

subsection \<open>One player\<close>

lemma map_py_Inr: "map_py f xs = Inr ys \<longleftrightarrow> list_all2 (\<lambda>x y. f x = Inr y) xs ys"
proof (induction xs arbitrary: ys)
  case (Cons x xs)
  show ?case
    by (auto simp: bind_py_Inr Cons.IH list_all2_Cons1)
qed auto

lemma map_py_total: "(\<And>x. x \<in> set xs \<Longrightarrow> \<exists>y. f x = Inr y) \<Longrightarrow> \<exists>ys. map_py f xs = Inr ys"
  by (induction xs) fastforce+

definition scored_runs :: "float_pow \<Rightarrow> skill_input list \<Rightarrow> weights \<Rightarrow> (rat \<times> skill_input) list \<Rightarrow> bool" where
  "scored_runs pow rows w scored \<longleftrightarrow> mset (map snd scored) = mset rows
     \<and> (\<forall>(s, r) \<in> set scored. map_score pow r w = Inr s) \<and> sorted_wrt (\<lambda>x y. fst y \<le> fst x) scored"

lemma player_breakdown_runs:
  assumes "player_breakdown pow rows w = Inr b"
  obtains scored where "scored_runs pow rows w scored" "length b = length scored"
    "\<And>i. i < length b \<Longrightarrow> breakdown_entry pow w (Suc i, scored ! i) = Inr (b ! i)"
proof -
  from assms obtain scores where scores: "list_all2 (\<lambda>r s. map_score pow r w = Inr s) rows scores"
    and entries: "list_all2 (\<lambda>x y. breakdown_entry pow w x = Inr y)
        (enumerate 1 (sort_key (\<lambda>t. - fst t) (zip scores rows))) b"
    by (auto simp: player_breakdown_def bind_py_Inr map_py_Inr Let_def)
  let ?scored = "sort_key (\<lambda>t. - fst t) (zip scores rows)"
  have len: "length scores = length rows" using scores by (auto dest: list_all2_lengthD)
  have "mset (map snd ?scored) = mset (map snd (zip scores rows))" by (simp only: mset_map mset_sort)
  then have "mset (map snd ?scored) = mset rows" using len by simp
  moreover have "\<forall>(s, r) \<in> set ?scored. map_score pow r w = Inr s"
    using scores by (auto simp: list_all2_conv_all_nth set_zip)
  moreover have "sorted_wrt (\<lambda>x y. fst y \<le> fst x) ?scored"
    using sorted_sort_key [of "\<lambda>t. - fst t" "zip scores rows"] by (simp add: sorted_map)
  ultimately have "scored_runs pow rows w ?scored" by (simp add: scored_runs_def)
  moreover have "length b = length ?scored" using entries by (auto dest: list_all2_lengthD)
  moreover have "breakdown_entry pow w (Suc i, ?scored ! i) = Inr (b ! i)" if "i < length b" for i
    using entries that len by (auto simp: list_all2_conv_all_nth nth_enumerate_eq)
  ultimately show thesis using that by blast
qed

lemma breakdown_entry_Inr:
  assumes "breakdown_entry pow w (i, s, r) = Inr x"
  shows "\<exists>d. pow (of_nat i) (w_gamma w) = Inr d \<and> d \<noteq> 0 \<and> br_contribution x = fl (s / d)"
    "br_map_id x = Some (si_map_id r)" "br_raw_score x = s" "br_rank x = int i"
    "br_fully_verified x = si_fully_verified r"
  using assms by (auto simp: breakdown_entry_def bind_py_Inr py_div_def split: if_splits)

lemma breakdown_of_runs_shape:
  assumes "player_breakdown pow rows w = Inr b"
  shows "sorted_wrt (\<lambda>x y. br_raw_score y \<le> br_raw_score x) b"
    "i < length b \<Longrightarrow> \<exists>d. pow (of_int (int (Suc i))) (w_gamma w) = Inr d \<and> br_contribution (b ! i) = fl (br_raw_score (b ! i) / d)"
proof -
  from assms obtain scored where scored: "scored_runs pow rows w scored" and len: "length b = length scored"
    and entry: "\<And>i. i < length b \<Longrightarrow> breakdown_entry pow w (Suc i, scored ! i) = Inr (b ! i)"
    by (elim player_breakdown_runs) blast
  have row: "br_raw_score (b ! i) = fst (scored ! i)"
    "\<exists>d. pow (of_nat (Suc i)) (w_gamma w) = Inr d \<and> br_contribution (b ! i) = fl (fst (scored ! i) / d)"
    if "i < length b" for i
    using breakdown_entry_Inr [of pow w "Suc i" "fst (scored ! i)" "snd (scored ! i)" "b ! i"] entry [OF that] by auto
  show "sorted_wrt (\<lambda>x y. br_raw_score y \<le> br_raw_score x) b"
    using scored row len unfolding scored_runs_def sorted_wrt_iff_nth_less by auto
  show "i < length b \<Longrightarrow> \<exists>d. pow (of_int (int (Suc i))) (w_gamma w) = Inr d \<and> br_contribution (b ! i) = fl (br_raw_score (b ! i) / d)"
    using row [of i] by simp
qed

subsection \<open>Differences\<close>

definition diff_keyed :: "breakdown_row list \<Rightarrow> bool" where
  "diff_keyed rows \<longleftrightarrow> distinct (map diff_key_of rows)"

lemma by_diff_key_in:
  assumes "diff_keyed rows" "r \<in> set rows"
  shows "by_diff_key rows (diff_key_of r) = Some r"
  unfolding by_diff_key_def
  by (rule map_of_is_SomeI)
    (use assms in \<open>auto simp: diff_keyed_def rev_map comp_def distinct_map inj_on_def\<close>)

lemma by_diff_key_out: "k \<notin> diff_key_of ` set rows \<Longrightarrow> by_diff_key rows k = None"
  by (auto simp: by_diff_key_def map_of_eq_None_iff)

lemma side_total:
  assumes "diff_keyed rows" "finite K" "diff_key_of ` set rows \<subseteq> K"
  shows "(\<Sum>k \<in> K. side_contribution (by_diff_key rows k)) = sum_list (map br_contribution rows)"
proof -
  let ?f = "\<lambda>k. side_contribution (by_diff_key rows k)"
  have "(\<Sum>k \<in> K. ?f k) = (\<Sum>k \<in> diff_key_of ` set rows. ?f k)"
    using assms(2,3) by (intro sum.mono_neutral_right) (auto simp: by_diff_key_out side_contribution_def)
  also have "\<dots> = (\<Sum>r \<in> set rows. ?f (diff_key_of r))"
    using assms(1) by (subst sum.reindex) (auto simp: diff_keyed_def distinct_map)
  also have "\<dots> = (\<Sum>r \<in> set rows. br_contribution r)"
    using by_diff_key_in [OF assms(1)] by (intro sum.cong) (auto simp: side_contribution_def)
  also have "\<dots> = sum_list (map br_contribution rows)"
    using assms(1) by (intro sum_list_distinct_conv_sum_set [symmetric]) (auto simp: diff_keyed_def distinct_map)
  finally show ?thesis .
qed

lemma build_diff_keys:
  obtains ks where "distinct ks" "set ks = diff_key_of ` (set p \<union> set n)"
    "build_diff so p n = map (\<lambda>k. \<lparr>im_map = impact_display (by_diff_key p k) (by_diff_key n k),
        im_prev = side_contribution (by_diff_key p k), im_new = side_contribution (by_diff_key n k),
        im_impact = fl (side_contribution (by_diff_key n k) - side_contribution (by_diff_key p k))\<rparr>) ks"
proof -
  let ?ks = "order_by_random so (remdups (map diff_key_of (p @ n)))"
  have "mset ?ks = mset (remdups (map diff_key_of (p @ n)))" by (rule map_snd_sort_zip)
  then have "distinct ?ks" using mset_eq_imp_distinct_iff distinct_remdups by blast
  moreover have "set ?ks = diff_key_of ` (set p \<union> set n)" by auto
  ultimately show thesis by (rule that) (simp add: build_diff_def Let_def)
qed

lemma build_diff_total:
  assumes "diff_keyed p" "diff_keyed n"
  shows "sum_list (map im_prev (build_diff so p n)) = sum_list (map br_contribution p)"
    "sum_list (map im_new (build_diff so p n)) = sum_list (map br_contribution n)"
    "m \<in> set (build_diff so p n) \<Longrightarrow> im_impact m = fl (im_new m - im_prev m)"
proof -
  obtain ks where ks: "distinct ks" "set ks = diff_key_of ` (set p \<union> set n)"
    and diff: "build_diff so p n = map (\<lambda>k. \<lparr>im_map = impact_display (by_diff_key p k) (by_diff_key n k),
        im_prev = side_contribution (by_diff_key p k), im_new = side_contribution (by_diff_key n k),
        im_impact = fl (side_contribution (by_diff_key n k) - side_contribution (by_diff_key p k))\<rparr>) ks"
    by (rule build_diff_keys)
  have "sum_list (map f ks) = sum f (set ks)" for f :: "diff_key \<Rightarrow> rat"
    using ks(1) by (rule sum_list_distinct_conv_sum_set)
  then show "sum_list (map im_prev (build_diff so p n)) = sum_list (map br_contribution p)"
    "sum_list (map im_new (build_diff so p n)) = sum_list (map br_contribution n)"
    using side_total [OF assms(1) finite_set, of ks] side_total [OF assms(2) finite_set, of ks]
    by (simp_all add: diff comp_def ks(2) image_Un)
  show "m \<in> set (build_diff so p n) \<Longrightarrow> im_impact m = fl (im_new m - im_prev m)" by (auto simp: diff)
qed

end
