(* ===== verification/Skill_System.thy ===== *)
theory Skill_System
  imports Skill_Rules
begin

section \<open>Rebuilds\<close>

text \<open>
  The guard as an automaton on events, what a rebuild does to the database, and the calls as a step
  relation.
\<close>

subsection \<open>The guard\<close>

datatype guard_event = Trigger "trigger_descriptor option" | Rebuilt | Aborted

definition guard_step :: "guard_event \<Rightarrow> guard \<Rightarrow> guard" where
  "guard_step ev g = (case ev of
      Trigger d \<Rightarrow> recompute_enter d g
    | Rebuilt \<Rightarrow> if g_running g = None then g else loop_head g
    | Aborted \<Rightarrow> if g_running g = None then g else recompute_abort g)"

text \<open>
  The batch whose rebuild an event starts: what the guard holds as drained (\<open>g_running\<close>) once it has handled
  the event, when the event could start a rebuild at all (a trigger that finds the lock free, or the end of the
  rebuild before).
\<close>

definition batch_started :: "guard_event \<Rightarrow> guard \<Rightarrow> trigger_descriptor list list" where
  "batch_started ev g =
     (let drained = (case g_running (guard_step ev g) of None \<Rightarrow> [] | Some batch \<Rightarrow> [batch])
      in case ev of
           Trigger d \<Rightarrow> if g_locked g then [] else drained
         | Rebuilt \<Rightarrow> if g_running g = None then [] else drained
         | Aborted \<Rightarrow> [])"

fun guard_run :: "guard_event list \<Rightarrow> guard \<Rightarrow> guard \<times> trigger_descriptor list list" where
  "guard_run [] g = (g, [])"
| "guard_run (ev # evs) g = (case guard_run evs (guard_step ev g) of (g', bs) \<Rightarrow> (g', batch_started ev g @ bs))"

fun triggers_of :: "guard_event list \<Rightarrow> trigger_descriptor list" where
  "triggers_of [] = []"
| "triggers_of (Trigger d # evs) = or_else d system_trigger # triggers_of evs"
| "triggers_of (_ # evs) = triggers_of evs"

definition guard_ok :: "guard \<Rightarrow> bool" where
  "guard_ok g \<longleftrightarrow> (g_locked g \<longleftrightarrow> g_running g \<noteq> None) \<and> (g_rerun g \<longleftrightarrow> g_pending g \<noteq> [])"

lemmas guard_defs = guard_step_def recompute_enter_def loop_head_def recompute_abort_def batch_started_def Let_def

lemma guard_ok_idle: "guard_ok idle_guard"
  by (simp add: guard_ok_def idle_guard_def)

lemma guard_ok_step: "guard_ok g \<Longrightarrow> guard_ok (guard_step ev g)"
  by (cases ev) (auto simp: guard_ok_def guard_defs)

lemma guard_ok_run: "guard_ok g \<Longrightarrow> guard_ok (fst (guard_run evs g))"
proof (induction evs arbitrary: g)
  case (Cons ev evs)
  from Cons.IH [OF guard_ok_step [OF Cons.prems], of ev] show ?case
    by (cases "guard_run evs (guard_step ev g)") simp
qed simp

lemma guard_run_append:
  "guard_run (evs @ evs') g = (case guard_run evs g of (g', bs) \<Rightarrow> case guard_run evs' g' of (g'', bs') \<Rightarrow> (g'', bs @ bs'))"
  by (induction evs arbitrary: g) (auto split: prod.splits)

lemma guard_step_ledger:
  assumes "guard_ok g"
  shows "concat (batch_started ev g) @ g_pending (guard_step ev g) = g_pending g @ triggers_of [ev]"
    "\<forall>b \<in> set (batch_started ev g). b \<noteq> []"
  using assms by (cases ev; auto simp: guard_ok_def guard_defs)+

lemma guard_run_ledger:
  assumes "guard_ok g" "guard_run evs g = (g', bs)"
  shows "concat bs @ g_pending g' = g_pending g @ triggers_of evs \<and> (\<forall>b \<in> set bs. b \<noteq> [])"
  using assms
proof (induction evs arbitrary: g bs)
  case (Cons ev evs)
  obtain bs1 where run: "guard_run evs (guard_step ev g) = (g', bs1)" and bs: "bs = batch_started ev g @ bs1"
    using Cons.prems(2) by (auto split: prod.splits)
  note ih = Cons.IH [OF guard_ok_step [OF Cons.prems(1)] run]
  note ledger = guard_step_ledger [OF Cons.prems(1), of ev]
  have "triggers_of (ev # evs) = triggers_of [ev] @ triggers_of evs" by (cases ev) auto
  then show ?case using ih ledger unfolding bs by (metis Un_iff append.assoc concat_append set_append)
qed simp

text \<open>While the lock is held the batch being rebuilt is the last one started.\<close>

lemma guard_step_running:
  assumes "guard_ok g"
  shows "g_running (guard_step ev g) = (if g_locked (guard_step ev g)
      then (if batch_started ev g = [] then g_running g else Some (last (batch_started ev g))) else None)"
  using assms by (cases ev) (auto simp: guard_ok_def guard_defs split: option.splits)

lemma guard_run_running:
  assumes "guard_ok g" "guard_run evs g = (g', bs)"
  shows "g_running g' = (if g_locked g' then (if bs = [] then g_running g else Some (last bs)) else None)"
  using assms
proof (induction evs arbitrary: g bs)
  case Nil
  then show ?case by (auto simp: guard_ok_def)
next
  case (Cons ev evs)
  obtain bs1 where run: "guard_run evs (guard_step ev g) = (g', bs1)" and bs: "bs = batch_started ev g @ bs1"
    using Cons.prems(2) by (auto split: prod.splits)
  note step = guard_ok_step [OF Cons.prems(1), of ev]
  have "guard_ok g'" using guard_ok_run [OF step, of evs] run by simp
  with Cons.IH [OF step run] guard_step_running [OF Cons.prems(1), of ev] step show ?case
    by (auto simp: bs guard_ok_def split: if_splits)
qed

lemma guard_idle_empty:
  assumes "guard_ok g" "\<not> g_locked g \<longrightarrow> g_pending g = []" "Aborted \<notin> set evs"
  shows "\<not> g_locked (fst (guard_run evs g)) \<longrightarrow> g_pending (fst (guard_run evs g)) = []"
  using assms
proof (induction evs arbitrary: g)
  case (Cons ev evs)
  have "\<not> g_locked (guard_step ev g) \<longrightarrow> g_pending (guard_step ev g) = []"
    using Cons.prems by (cases ev) (auto simp: guard_ok_def guard_defs)
  from Cons.IH [OF guard_ok_step [OF Cons.prems(1)] this] Cons.prems(3) show ?case by (auto split: prod.splits)
qed simp

lemma two_rebuilds_end:
  assumes "guard_ok g"
  shows "\<not> g_locked (guard_step Rebuilt (guard_step Rebuilt g))"
  using assms by (auto simp: guard_ok_def guard_defs)

lemma length_batches: "\<forall>b \<in> set bs. b \<noteq> [] \<Longrightarrow> length bs \<le> length (concat bs)"
proof (induction bs)
  case (Cons b bs)
  then show ?case by (cases b) auto
qed simp

subsection \<open>The transaction\<close>

lemma user_cause_cases: "user_cause policy u \<in> {''PLAYER_ACTION'', ''MAP_ENVIRONMENT'', ''SYSTEM''}"
  by (simp add: user_cause_def)

definition numbered :: "int \<Rightarrow> change_row list \<Rightarrow> change_row list" where
  "numbered k rows = map (\<lambda>(i, r). r\<lparr>ch_change_id := k + int i\<rparr>) (enumerate 0 rows)"

lemma numbered_simps:
  "numbered k [] = []"
  "numbered k (r # rows) = r\<lparr>ch_change_id := k\<rparr> # numbered (k + 1) rows"
proof -
  show "numbered k [] = []" by (simp add: numbered_def)
  show "numbered k (r # rows) = r\<lparr>ch_change_id := k\<rparr> # numbered (k + 1) rows"
    by (simp add: numbered_def enumerate_Suc_eq comp_def split_def)
qed

lemma bulk_insert_changes_run:
  assumes "\<forall>r \<in> set rows. ch_cause_category r \<in> {''PLAYER_ACTION'', ''MAP_ENVIRONMENT'', ''SYSTEM''}"
  shows "bulk_insert_changes rows db = Inr ((), db\<lparr>score_changes := score_changes db @ numbered (next_change_id db) rows,
     next_change_id := next_change_id db + int (length rows)\<rparr>)"
  using assms unfolding bulk_insert_changes_def
proof (induction rows arbitrary: db)
  case (Cons r rows)
  then show ?case
    by (simp add: bind_tx_def insert_change_row_def numbered_simps add.commute add.left_commute)
qed (simp add: numbered_simps)

lemma compute_tier_boundaries_frame:
  assumes "compute_tier_boundaries now db = Inr (x, db')"
  shows "\<exists>t. db' = db\<lparr>tier_config := t\<rparr>"
proof (cases "tier_config db")
  case None
  with assms have "db' = db\<lparr>tier_config := tier_config db\<rparr>" by (simp add: compute_tier_boundaries_def)
  then show ?thesis by blast
next
  case (Some t)
  with assms show ?thesis by (auto simp: compute_tier_boundaries_def Let_def split: sum.splits)
qed

lemma score_user_Inr:
  assumes "score_user pow w so clock policy prev (u, rs) = Inr (s, h, c)"
  shows "player_breakdown pow rs w = Inr (sn_breakdown s)" "sn_user_id s = u" "hs_user_id h = u" "ch_user_id c = u"
    "sn_skill_score s = breakdown_score (sn_breakdown s)" "hs_skill_score h = sn_skill_score s"
    "hs_captured_at h = clock" "ch_captured_at c = clock"
    "ch_new_score c = sn_skill_score s" "ch_cause_category c = user_cause policy u"
    "ch_previous_score c = (case prev u of Some (x, _) \<Rightarrow> x | None \<Rightarrow> 0)"
    "ch_delta c = fl (ch_new_score c - ch_previous_score c)"
    "ch_diff c = build_diff so (case prev u of Some (_, b) \<Rightarrow> b | None \<Rightarrow> []) (sn_breakdown s)"
  using assms by (auto simp: score_user_def bind_py_Inr Let_def)

lemma distinct_by_user: "distinct (map fst (by_user rows))"
  using distinct_on_keys [of id "[]" "map si_user_id rows"] by (simp add: by_user_def comp_def)

text \<open>What a rebuild that commits has done.\<close>

definition user_rebuilt ::
  "(skill_input list \<Rightarrow> py_error + breakdown_row list) \<Rightarrow> (nat \<Rightarrow> nat) \<Rightarrow> int \<Rightarrow> string \<times> int option \<Rightarrow> skdb \<Rightarrow>
     int \<times> skill_input list \<Rightarrow> snapshot_row \<times> history_row \<times> change_row \<Rightarrow> bool" where
  "user_rebuilt breakdown so clock policy db = (\<lambda>(u, rs) (s, h, c).
     breakdown rs = Inr (sn_breakdown s) \<and> sn_user_id s = u \<and> sn_skill_score s = breakdown_score (sn_breakdown s)
     \<and> hs_user_id h = u \<and> hs_captured_at h = clock \<and> hs_skill_score h = sn_skill_score s
     \<and> ch_user_id c = u \<and> ch_captured_at c = clock \<and> ch_cause_category c = user_cause policy u
     \<and> ch_previous_score c = (case fetch_snapshot u db of Some p \<Rightarrow> sn_skill_score p | None \<Rightarrow> 0)
     \<and> ch_new_score c = sn_skill_score s \<and> ch_delta c = fl (ch_new_score c - ch_previous_score c)
     \<and> ch_diff c = build_diff so (case fetch_snapshot u db of Some p \<Rightarrow> sn_breakdown p | None \<Rightarrow> []) (sn_breakdown s))"

lemma score_user_rebuilt:
  assumes "score_user pow w so clock policy (fetch_all_snapshots db) p = Inr q"
  shows "user_rebuilt (\<lambda>rs. player_breakdown pow rs w) so clock policy db p q"
proof -
  obtain u rs s h c where pq: "p = (u, rs)" "q = (s, h, c)" by (metis prod.collapse)
  note facts = score_user_Inr [OF assms [unfolded pq]]
  show ?thesis unfolding user_rebuilt_def pq
    by (simp add: facts fetch_all_snapshots_def split: option.splits)
qed

definition rebuilt ::
  "(skill_input list \<Rightarrow> py_error + breakdown_row list) \<Rightarrow> (nat \<Rightarrow> nat) \<Rightarrow> int \<Rightarrow> string \<times> int option \<Rightarrow>
     skill_input list \<Rightarrow> skdb \<Rightarrow> skdb \<Rightarrow> bool" where
  "rebuilt breakdown so clock policy rows db db' \<longleftrightarrow>
     (\<exists>scored t. list_all2 (user_rebuilt breakdown so clock policy db) (by_user rows) scored
      \<and> db' = db\<lparr>snapshot := map fst scored,
          score_history := fold insert_history_row (map (fst \<circ> snd) scored) (score_history db),
          score_changes := score_changes db @ numbered (next_change_id db) (map (snd \<circ> snd) scored),
          next_change_id := next_change_id db + int (length scored), tier_config := t\<rparr>)"

lemma recompute_tx_run:
  assumes "recompute_tx pow so clock now policy w rows db = Inr (x, db')"
  shows "rebuilt (\<lambda>rs. player_breakdown pow rs w) so clock policy rows db db'"
proof -
  let ?score = "score_user pow w so clock policy (fetch_all_snapshots db)"
  from assms obtain scored where scored: "map_py ?score (by_user rows) = Inr scored"
    and rest: "bind_tx (replace_snapshot (map fst scored)) (\<lambda>_.
       bind_tx (bulk_insert_history (map (fst \<circ> snd) scored)) (\<lambda>_.
       bind_tx (bulk_insert_changes (map (snd \<circ> snd) scored)) (\<lambda>_. compute_tier_boundaries now))) db = Inr (x, db')"
    by (auto simp: recompute_tx_def lift_py_def split: sum.splits)
  have all: "list_all2 (\<lambda>p q. ?score p = Inr q) (by_user rows) scored" using scored by (simp add: map_py_Inr)
  let ?db1 = "db\<lparr>snapshot := map fst scored\<rparr>"
  let ?db2 = "?db1\<lparr>score_history := fold insert_history_row (map (fst \<circ> snd) scored) (score_history db)\<rparr>"
  have cats: "\<forall>r \<in> set (map (snd \<circ> snd) scored). ch_cause_category r \<in> {''PLAYER_ACTION'', ''MAP_ENVIRONMENT'', ''SYSTEM''}"
  proof
    fix r assume "r \<in> set (map (snd \<circ> snd) scored)"
    then obtain i where i: "i < length scored" "r = snd (snd (scored ! i))" by (auto simp: in_set_conv_nth)
    obtain u rs where "by_user rows ! i = (u, rs)" by fastforce
    moreover obtain s h c where "scored ! i = (s, h, c)" by (metis prod.collapse)
    ultimately have "?score (u, rs) = Inr (s, h, c)" "r = c" using all i by (auto simp: list_all2_conv_all_nth)
    then show "ch_cause_category r \<in> {''PLAYER_ACTION'', ''MAP_ENVIRONMENT'', ''SYSTEM''}"
      using score_user_Inr(10) user_cause_cases by metis
  qed
  from rest have "distinct (map sn_user_id (map fst scored))"
    and tiers: "compute_tier_boundaries now (?db2\<lparr>score_changes := score_changes db @ numbered (next_change_id db) (map (snd \<circ> snd) scored),
       next_change_id := next_change_id db + int (length scored)\<rparr>) = Inr (x, db')"
    using bulk_insert_changes_run [OF cats, of ?db2]
    by (auto simp: bind_tx_def replace_snapshot_def bulk_insert_history_def split: if_splits)
  from compute_tier_boundaries_frame [OF tiers] obtain t where db': "db' = db\<lparr>snapshot := map fst scored,
          score_history := fold insert_history_row (map (fst \<circ> snd) scored) (score_history db),
          score_changes := score_changes db @ numbered (next_change_id db) (map (snd \<circ> snd) scored),
          next_change_id := next_change_id db + int (length scored), tier_config := t\<rparr>" by auto
  have "list_all2 (user_rebuilt (\<lambda>rs. player_breakdown pow rs w) so clock policy db) (by_user rows) scored"
    using all by (rule list_all2_mono) (rule score_user_rebuilt)
  then show ?thesis unfolding rebuilt_def using db' by blast
qed

subsection \<open>The change feed\<close>

definition changes_of :: "int \<Rightarrow> skdb \<Rightarrow> change_row list" where
  "changes_of u db = filter (\<lambda>c. ch_user_id c = u) (score_changes db)"

text \<open>A change starts where the one before it ended, or from nothing.\<close>

definition linked :: "change_row \<Rightarrow> change_row \<Rightarrow> bool" where
  "linked c c' \<longleftrightarrow> ch_previous_score c' = ch_new_score c \<or> ch_previous_score c' = 0"

definition chain_ok :: "skdb \<Rightarrow> bool" where
  "chain_ok db \<longleftrightarrow> (\<forall>u. successively linked (changes_of u db)
     \<and> (\<forall>s. fetch_snapshot u db = Some s \<longrightarrow>
          changes_of u db \<noteq> [] \<and> ch_new_score (last (changes_of u db)) = sn_skill_score s))
   \<and> (\<forall>c \<in> set (score_changes db). ch_delta c = fl (ch_new_score c - ch_previous_score c))"

lemma chain_ok_frame:
  "snapshot db' = snapshot db \<Longrightarrow> score_changes db' = score_changes db \<Longrightarrow> chain_ok db' = chain_ok db"
  by (simp add: chain_ok_def changes_of_def fetch_snapshot_def)

lemma numbered_deltas:
  "\<forall>c \<in> set rows. ch_delta c = fl (ch_new_score c - ch_previous_score c) \<Longrightarrow> c \<in> set (numbered k rows) \<Longrightarrow>
     ch_delta c = fl (ch_new_score c - ch_previous_score c)"
  by (induction rows arbitrary: k) (auto simp: numbered_simps)

lemma numbered_of_user:
  assumes "\<forall>q \<in> set scored. ch_user_id (snd (snd q)) = sn_user_id (fst q)" "distinct (map (sn_user_id \<circ> fst) scored)"
  shows "\<exists>k'. filter (\<lambda>c. ch_user_id c = u) (numbered k (map (snd \<circ> snd) scored)) =
     (case first_where (\<lambda>q. sn_user_id (fst q) = u) scored of
        None \<Rightarrow> [] | Some q \<Rightarrow> [(snd (snd q))\<lparr>ch_change_id := k'\<rparr>])"
  using assms
proof (induction scored arbitrary: k)
  case (Cons q scored)
  show ?case
  proof (cases "sn_user_id (fst q) = u")
    case True
    with Cons.prems have "first_where (\<lambda>q. sn_user_id (fst q) = u) scored = None"
      by (force simp: first_where_None image_iff)
    with Cons.IH [of "k + 1"] Cons.prems True show ?thesis by (auto simp: numbered_simps)
  next
    case False
    with Cons.IH [of "k + 1"] Cons.prems show ?thesis by (auto simp: numbered_simps)
  qed
qed (simp add: numbered_simps)

lemma first_where_map: "first_where P (map f rows) = map_option f (first_where (\<lambda>x. P (f x)) rows)"
  by (induction rows) auto

lemma rebuilt_chain:
  assumes "rebuilt breakdown so clock policy rows db db'" "chain_ok db"
  shows "chain_ok db'"
proof -
  from assms(1) obtain scored t where all: "list_all2 (user_rebuilt breakdown so clock policy db) (by_user rows) scored"
    and db': "db' = db\<lparr>snapshot := map fst scored,
          score_history := fold insert_history_row (map (fst \<circ> snd) scored) (score_history db),
          score_changes := score_changes db @ numbered (next_change_id db) (map (snd \<circ> snd) scored),
          next_change_id := next_change_id db + int (length scored), tier_config := t\<rparr>"
    unfolding rebuilt_def by blast
  have row: "\<exists>p. user_rebuilt breakdown so clock policy db p q" if "q \<in> set scored" for q
    using all that unfolding list_all2_conv_all_nth in_set_conv_nth by metis
  have users: "map (sn_user_id \<circ> fst) scored = map fst (by_user rows)"
    using all by (induction rule: list_all2_induct) (auto simp: user_rebuilt_def)
  have same: "\<forall>q \<in> set scored. ch_user_id (snd (snd q)) = sn_user_id (fst q)"
    using row by (fastforce simp: user_rebuilt_def)
  have distinct: "distinct (map (sn_user_id \<circ> fst) scored)" unfolding users by (rule distinct_by_user)
  have deltas: "\<forall>c \<in> set (map (snd \<circ> snd) scored). ch_delta c = fl (ch_new_score c - ch_previous_score c)"
    using row by (fastforce simp: user_rebuilt_def)
  have "successively linked (changes_of u db')
     \<and> (\<forall>s. fetch_snapshot u db' = Some s \<longrightarrow>
          changes_of u db' \<noteq> [] \<and> ch_new_score (last (changes_of u db')) = sn_skill_score s)" for u
  proof -
    from numbered_of_user [OF same distinct, of u "next_change_id db"] obtain k' where
      new: "changes_of u db' = changes_of u db @ (case first_where (\<lambda>q. sn_user_id (fst q) = u) scored of
        None \<Rightarrow> [] | Some q \<Rightarrow> [(snd (snd q))\<lparr>ch_change_id := k'\<rparr>])"
      by (auto simp: changes_of_def db')
    have snap: "fetch_snapshot u db' = map_option fst (first_where (\<lambda>q. sn_user_id (fst q) = u) scored)"
      by (simp add: fetch_snapshot_def db' first_where_map)
    have old: "successively linked (changes_of u db)"
      "fetch_snapshot u db = Some s \<Longrightarrow> changes_of u db \<noteq> [] \<and> ch_new_score (last (changes_of u db)) = sn_skill_score s" for s
      using assms(2) by (auto simp: chain_ok_def)
    show ?thesis
    proof (cases "first_where (\<lambda>q. sn_user_id (fst q) = u) scored")
      case None
      with old(1) show ?thesis by (simp add: new snap)
    next
      case (Some q)
      obtain s h c where q: "q = (s, h, c)" by (metis prod.collapse)
      from first_where_SomeD [OF Some] have qs: "q \<in> set scored" "sn_user_id s = u" by (simp_all add: q)
      from row [OF qs(1)] obtain p where "user_rebuilt breakdown so clock policy db p q" ..
      with qs(2) have c: "ch_previous_score c = (case fetch_snapshot u db of Some p \<Rightarrow> sn_skill_score p | None \<Rightarrow> 0)"
        "ch_new_score c = sn_skill_score s" by (auto simp: user_rebuilt_def q)
      have "changes_of u db \<noteq> [] \<Longrightarrow> linked (last (changes_of u db)) (c\<lparr>ch_change_id := k'\<rparr>)"
        using old(2) c(1) by (cases "fetch_snapshot u db") (auto simp: linked_def)
      with old(1) show ?thesis by (auto simp: new snap Some q c(2) successively_append_iff)
    qed
  qed
  moreover have "ch_delta c = fl (ch_new_score c - ch_previous_score c)" if "c \<in> set (score_changes db')" for c
    using that assms(2) numbered_deltas [OF deltas] by (auto simp: db' chain_ok_def)
  ultimately show ?thesis by (simp add: chain_ok_def)
qed

subsection \<open>The calls\<close>

text \<open>
  Only one rebuild runs at a time; what others do meanwhile touches the sources and the two
  configuration tables.
\<close>

definition config_only :: "skdb \<Rightarrow> skdb \<Rightarrow> bool" where
  "config_only db db' \<longleftrightarrow> (\<exists>s wc tc. db' = db\<lparr>source := s, weight_config := wc, tier_config := tc\<rparr>)"

lemma config_only_refl: "config_only db db"
  unfolding config_only_def by (intro exI [of _ "source db"] exI [of _ "weight_config db"] exI [of _ "tier_config db"]) simp

lemma config_onlyD: "config_only db db' \<Longrightarrow> snapshot db' = snapshot db \<and> score_changes db' = score_changes db
    \<and> score_history db' = score_history db"
  by (auto simp: config_only_def)

inductive skill_step :: "kworld \<Rightarrow> kworld \<Rightarrow> bool" where
  rebuild_call: "(\<And>db. config_only db (rb_meanwhile (R :: rebuild_env) db)) \<Longrightarrow> skill_step w (snd (do_recompute R policy w))"
| weights_call: "skill_step w (snd (update_weights p w))"
| tiers_call: "skill_step w (snd (update_tier_config now ps w))"
| source_edit: "skill_step w (w\<lparr>wdb := (wdb w)\<lparr>source := s\<rparr>\<rparr>)"

inductive_cases skill_stepE: "skill_step w w'"

definition skill_reach :: "kworld \<Rightarrow> kworld \<Rightarrow> bool" where
  "skill_reach = skill_step\<^sup>*\<^sup>*"

lemma do_recompute_cases:
  "wdb (snd (do_recompute R policy w)) \<in> {wdb w, rb_meanwhile R (wdb w)} \<or>
   (\<exists>wt. weight_config (wdb w) = Some wt \<and>
     rebuilt (\<lambda>rs. player_breakdown (rb_pow R) rs wt) (rb_set_order R) (rb_computed_at R) policy
       (fetch_skill_inputs (rb_ties R) (rb_order R) (wdb w)) (rb_meanwhile R (wdb w)) (wdb (snd (do_recompute R policy w))))"
proof (cases "weight_config (wdb w)")
  case None
  then show ?thesis by (simp add: do_recompute_def bind_io_def atomically_def fetch_weights_def)
next
  case (Some wt)
  let ?tx = "recompute_tx (rb_pow R) (rb_set_order R) (rb_computed_at R) (rb_now R) policy wt
    (fetch_skill_inputs (rb_ties R) (rb_order R) (wdb w))"
  have run: "do_recompute R policy w = atomically ?tx (w\<lparr>wdb := rb_meanwhile R (wdb w)\<rparr>)"
    by (simp add: do_recompute_def bind_io_def atomically_def fetch_weights_def Some)
  show ?thesis
  proof (cases "?tx (rb_meanwhile R (wdb w))")
    case (Inl e)
    then show ?thesis by (simp add: run atomically_def)
  next
    case (Inr p)
    obtain db' where p: "p = ((), db')" by (cases p) auto
    show ?thesis using recompute_tx_run [OF Inr [unfolded p]] Some Inr by (simp add: run atomically_def p)
  qed
qed

lemma update_weights_config: "config_only (wdb w) (wdb (snd (update_weights p w)))"
proof -
  have "wdb (snd (update_weights p w)) = wdb w \<or>
    (\<exists>wc. wdb (snd (update_weights p w)) = (wdb w)\<lparr>weight_config := wc\<rparr>)"
    by (auto simp: update_weights_def repo_update_weights_def fetch_weights_def bind_io_def atomically_def bind_tx_def
        Let_def split: option.splits)
  then show ?thesis
  proof
    assume "\<exists>wc. wdb (snd (update_weights p w)) = (wdb w)\<lparr>weight_config := wc\<rparr>"
    then show ?thesis unfolding config_only_def
      by (elim exE) (rule exI [of _ "source (wdb w)"], rule exI, rule exI [of _ "tier_config (wdb w)"], simp)
  qed (simp add: config_only_refl)
qed

lemma update_tier_config_config: "config_only (wdb w) (wdb (snd (update_tier_config now ps w)))"
proof -
  have "\<exists>tc. wdb (snd (update_tier_config now ps w)) = (wdb w)\<lparr>tier_config := tc\<rparr>"
  proof (cases "(bind_tx (update_percentiles ps) (\<lambda>_. bind_tx (compute_tier_boundaries now) (\<lambda>_. fetch_tier_config))) (wdb w)")
    case (Inl e)
    then have "wdb (snd (update_tier_config now ps w)) = (wdb w)\<lparr>tier_config := tier_config (wdb w)\<rparr>"
      by (simp add: update_tier_config_def atomically_def)
    then show ?thesis by blast
  next
    case (Inr q)
    from Inr obtain db1 where "compute_tier_boundaries now
        ((wdb w)\<lparr>tier_config := map_option (\<lambda>t. t\<lparr>tg_percentiles := ps\<rparr>) (tier_config (wdb w))\<rparr>) = Inr ((), db1)"
      and "snd q = db1"
      by (auto simp: bind_tx_def update_percentiles_def fetch_tier_config_def split: sum.splits option.splits)
    with compute_tier_boundaries_frame have "\<exists>tc. snd q = (wdb w)\<lparr>tier_config := tc\<rparr>" by fastforce
    moreover have "wdb (snd (update_tier_config now ps w)) \<in> {wdb w, snd q}"
      using Inr by (cases q) (simp add: update_tier_config_def atomically_def)
    moreover have "\<exists>tc. wdb w = (wdb w)\<lparr>tier_config := tc\<rparr>" by (rule exI [of _ "tier_config (wdb w)"]) simp
    ultimately show ?thesis by (elim insertE emptyE) simp_all
  qed
  then show ?thesis unfolding config_only_def
    by (elim exE) (rule exI [of _ "source (wdb w)"], rule exI [of _ "weight_config (wdb w)"], rule exI, simp)
qed

lemma skill_step_chain: "skill_step w w' \<Longrightarrow> chain_ok (wdb w) \<Longrightarrow> chain_ok (wdb w')"
proof (erule skill_stepE; hypsubst)
  fix R :: rebuild_env and policy assume "\<And>db. config_only db (rb_meanwhile R db)" and chain: "chain_ok (wdb w)"
  from config_onlyD [OF this(1)] chain have mid: "chain_ok (rb_meanwhile R (wdb w))" using chain_ok_frame by blast
  show "chain_ok (wdb (snd (do_recompute R policy w)))"
    using do_recompute_cases [of R policy w]
  proof (elim disjE exE conjE)
    assume "wdb (snd (do_recompute R policy w)) \<in> {wdb w, rb_meanwhile R (wdb w)}"
    then show ?thesis using chain mid by auto
  qed (erule rebuilt_chain [OF _ mid])
next
  show "chain_ok (wdb w) \<Longrightarrow> chain_ok (wdb (snd (update_weights p w)))" for p
    using config_onlyD [OF update_weights_config] chain_ok_frame by blast
next
  show "chain_ok (wdb w) \<Longrightarrow> chain_ok (wdb (snd (update_tier_config now ps w)))" for now ps
    using config_onlyD [OF update_tier_config_config] chain_ok_frame by blast
next
  show "chain_ok (wdb w) \<Longrightarrow> chain_ok (wdb (w\<lparr>wdb := (wdb w)\<lparr>source := s\<rparr>\<rparr>))" for s
    by (simp add: chain_ok_def changes_of_def fetch_snapshot_def)
qed

lemma skill_reach_chain: "skill_reach w w' \<Longrightarrow> chain_ok (wdb w) \<Longrightarrow> chain_ok (wdb w')"
  unfolding skill_reach_def by (induction rule: rtranclp_induct) (auto intro: skill_step_chain)

end
