(* ===== verification/Skill_Ranks.thy ===== *)
theory Skill_Ranks
  imports Skill_Service
begin

section \<open>The input query and the tiers\<close>

text \<open>
  What the four common table expressions of the input query select, and what the binary search for a
  tier finds.
\<close>

subsection \<open>Distinct rows\<close>

lemma first_rows:
  "distinct (map f (distinct_on f seen rows))" "f ` set (distinct_on f seen rows) = f ` set rows - set seen"
  "set (distinct_on f seen rows) \<subseteq> set rows"
proof -
  have "distinct (map f (distinct_on f seen rows)) \<and> f ` set (distinct_on f seen rows) = f ` set rows - set seen
    \<and> set (distinct_on f seen rows) \<subseteq> set rows"
    by (induction rows arbitrary: seen) auto
  then show "distinct (map f (distinct_on f seen rows))" "f ` set (distinct_on f seen rows) = f ` set rows - set seen"
    "set (distinct_on f seen rows) \<subseteq> set rows" by auto
qed

text \<open>Of rows sorted by a finer order, the one that stays is the first of its key.\<close>

lemma distinct_on_least:
  assumes "sorted_wrt (\<lambda>x y. g x \<le> g y) rows" "r \<in> set (distinct_on f seen rows)" "d \<in> set rows" "f d = f r"
  shows "g r \<le> (g d :: 'k::linorder)"
  using assms
proof (induction rows arbitrary: seen)
  case (Cons x rows)
  then show ?case by (auto split: if_splits) (metis Diff_iff first_rows(2) image_eqI list.set_intros(1))+
qed simp

lemma best_eligible_runs:
  "distinct (map run_pair (best_eligible ties src))"
  "run_pair ` set (best_eligible ties src) = run_pair ` {c \<in> set (sr_runs src). eligible_run src c}"
  "set (best_eligible ties src) \<subseteq> {c \<in> set (sr_runs src). eligible_run src c}"
  using first_rows [of run_pair "[]" "sort_key (\<lambda>c. (cp_user_id c, cp_map_id c, cp_time c))
       (filter (eligible_run src) (order_by_random ties (sr_runs src)))"]
  by (auto simp: best_eligible_def)

lemma best_eligible_fastest:
  assumes "c \<in> set (best_eligible ties src)" "d \<in> set (sr_runs src)" "eligible_run src d" "run_pair d = run_pair c"
  shows "cp_time c \<le> cp_time d"
proof -
  let ?g = "\<lambda>c :: run_row. (cp_user_id c, cp_map_id c, cp_time c)"
  let ?rows = "sort_key ?g (filter (eligible_run src) (order_by_random ties (sr_runs src)))"
  have "sorted_wrt (\<lambda>x y. ?g x \<le> ?g y) ?rows" using sorted_sort_key [of ?g] by (simp add: sorted_map)
  from distinct_on_least [OF this, of c run_pair "[]" d] assms have "?g c \<le> ?g d" by (auto simp: best_eligible_def)
  with assms(4) show ?thesis by (simp add: run_pair_def)
qed

subsection \<open>Percentiles of a field\<close>

lemma dec_round_unit:
  assumes "0 \<le> x" "x \<le> 1"
  shows "0 \<le> dec_round n x" "dec_round n x \<le> 1"
proof -
  have "x * 10 ^ n \<le> of_int (10 ^ n)" using assms(2) by (simp add: mult_left_le_one_le)
  then have "round_half_even (x * 10 ^ n) \<le> 10 ^ n" by (rule round_half_even_le_int)
  then have "(of_int (round_half_even (x * 10 ^ n)) :: rat) \<le> of_int (10 ^ n)" by (simp only: of_int_le_iff)
  then show "dec_round n x \<le> 1" by (simp add: dec_round_def)
  show "0 \<le> dec_round n x" using assms(1) by (simp add: dec_round_def round_half_even_nonneg)
qed

lemma float8_numeric_unit: "0 \<le> x \<Longrightarrow> x \<le> 1 \<Longrightarrow> 0 \<le> float8_numeric x \<and> float8_numeric x \<le> 1"
  using dec_round_unit by (auto simp: float8_numeric_def split: option.splits)

lemma round_4_unit:
  assumes "0 \<le> x" "x \<le> 1"
  shows "0 \<le> round_4 x" "round_4 x \<le> 1"
proof -
  have "\<lfloor>x * 10000 + 1 / 2\<rfloor> < 10001" using assms(2) by linarith
  then have "\<lfloor>x * 10000 + 1 / 2\<rfloor> \<le> 10000" by simp
  then have "(of_int \<lfloor>x * 10000 + 1 / 2\<rfloor> :: rat) \<le> of_int 10000" by (simp only: of_int_le_iff)
  then show "round_4 x \<le> 1" using assms(1) by (cases "x = 0") (simp_all add: round_4_def)
  show "0 \<le> round_4 x" using assms(1) by (cases "x = 0") (simp_all add: round_4_def)
qed

lemma fl_unit: "0 \<le> x \<Longrightarrow> x \<le> 1 \<Longrightarrow> 0 \<le> fl x \<and> fl x \<le> 1"
  using fl_mono [of x 1] fl_nonneg [of x] fl_of_int [of 1] by (cases "x = 0") auto

lemma time_percentile_unit:
  assumes "c \<in> set best"
  shows "0 \<le> time_percentile best c" "time_percentile best c \<le> 1"
proof -
  let ?field = "field_of best c" and ?slower = "filter (\<lambda>d. cp_time c < cp_time d) (field_of best c)"
  have "c \<in> set ?field" using assms by (simp add: field_of_def)
  then have "length ?slower < length ?field" by (intro length_filter_less) auto
  then have "0 \<le> (of_nat (length ?slower) / of_nat (length ?field - 1) :: rat)"
    "(of_nat (length ?slower) / of_nat (length ?field - 1) :: rat) \<le> 1"
    by (auto simp: divide_le_eq_1)
  from fl_unit [OF this] show "0 \<le> time_percentile best c" "time_percentile best c \<le> 1"
    by (auto simp: time_percentile_def Let_def)
qed

lemma stored_percentile_unit:
  assumes "c \<in> set best"
  shows "0 \<le> fl (round_4 (float8_numeric (time_percentile best c)))"
    "fl (round_4 (float8_numeric (time_percentile best c))) \<le> 1"
  using float8_numeric_unit [OF time_percentile_unit [OF assms]] round_4_unit fl_unit by blast+

subsection \<open>Buckets\<close>

lemma bucket_step:
  "left < right \<Longrightarrow> x < bs ! ((left + right) div 2) \<Longrightarrow>
     bucket_between x bs left right = bucket_between x bs left ((left + right) div 2)"
  "left < right \<Longrightarrow> \<not> x < bs ! ((left + right) div 2) \<Longrightarrow>
     bucket_between x bs left right = bucket_between x bs ((left + right) div 2 + 1) right"
  "\<not> left < right \<Longrightarrow> bucket_between x bs left right = left"
  by (simp_all add: bucket_between.simps [of x bs left right] Let_def)

lemma bucket_range: "left \<le> right \<Longrightarrow> left \<le> bucket_between x bs left right \<and> bucket_between x bs left right \<le> right"
proof (induction x bs left right rule: bucket_between.induct)
  case (1 x bs left right)
  let ?mid = "(left + right) div 2"
  show ?case
  proof (cases "left < right")
    case True
    then have mid: "left \<le> ?mid" "?mid < right" by auto
    show ?thesis
    proof (cases "x < bs ! ?mid")
      case below: True
      from 1(1) [OF True refl below mid(1)] mid show ?thesis unfolding bucket_step(1) [OF True below] by linarith
    next
      case above: False
      have "?mid + 1 \<le> right" using mid by simp
      from 1(2) [OF True refl above this] mid show ?thesis unfolding bucket_step(2) [OF True above] by linarith
    qed
  next
    case False
    with 1(3) show ?thesis by (simp add: bucket_step(3))
  qed
qed

lemma bucket_mono:
  "x \<le> y \<Longrightarrow> left \<le> right \<Longrightarrow> bucket_between x bs left right \<le> bucket_between y bs left right"
proof (induction x bs left right rule: bucket_between.induct)
  case (1 x bs left right)
  let ?mid = "(left + right) div 2"
  show ?case
  proof (cases "left < right")
    case True
    then have mid: "left \<le> ?mid" "?mid + 1 \<le> right" by auto
    show ?thesis
    proof (cases "x < bs ! ?mid")
      case below: True
      note x = bucket_step(1) [OF True below]
      show ?thesis
      proof (cases "y < bs ! ?mid")
        case y: True
        show ?thesis unfolding x bucket_step(1) [OF True y] by (rule 1(1) [OF True refl below 1(3) mid(1)])
      next
        case y: False
        show ?thesis unfolding x bucket_step(2) [OF True y]
          using bucket_range [OF mid(1), of x bs] bucket_range [OF mid(2), of y bs] by linarith
      qed
    next
      case above: False
      then have y: "\<not> y < bs ! ?mid" using 1(3) by simp
      show ?thesis unfolding bucket_step(2) [OF True above] bucket_step(2) [OF True y]
        by (rule 1(2) [OF True refl above 1(3) mid(2)])
    qed
  qed (simp add: bucket_step(3))
qed

lemma bucket_separates:
  assumes "sorted bs" "left \<le> right" "right \<le> length bs"
    and "\<forall>i < left. bs ! i \<le> x" "\<forall>i. right \<le> i \<and> i < length bs \<longrightarrow> x < bs ! i"
  shows "(\<forall>i < bucket_between x bs left right. bs ! i \<le> x)
    \<and> (\<forall>i. bucket_between x bs left right \<le> i \<and> i < length bs \<longrightarrow> x < bs ! i)"
  using assms
proof (induction x bs left right rule: bucket_between.induct)
  case (1 x bs left right)
  let ?mid = "(left + right) div 2"
  show ?case
  proof (cases "left < right")
    case True
    have mid: "?mid < length bs" "left \<le> ?mid" "?mid < right" using True 1(5) by auto
    show ?thesis
    proof (cases "x < bs ! ?mid")
      case below: True
      have "\<forall>i. ?mid \<le> i \<and> i < length bs \<longrightarrow> x < bs ! i"
        using below 1(3) by (metis le_less_trans less_le_trans sorted_nth_mono)
      with 1(1) [OF True refl below] 1(3-6) mid show ?thesis
        by (simp add: bucket_step(1) [OF True below])
    next
      case above: False
      have "\<forall>i < ?mid + 1. bs ! i \<le> x"
      proof (intro allI impI)
        fix i assume "i < ?mid + 1"
        then have "bs ! i \<le> bs ! ?mid" using 1(3) mid(1) by (intro sorted_nth_mono) auto
        then show "bs ! i \<le> x" using above by simp
      qed
      with 1(2) [OF True refl above] 1(3,5,7) mid show ?thesis
        by (simp add: bucket_step(2) [OF True above])
    qed
  next
    case False
    with 1(4,6,7) show ?thesis by (simp add: bucket_step(3))
  qed
qed

lemma width_bucket_range: "width_bucket x bs \<le> length bs"
  using bucket_range [of 0 "length bs" x bs] by (simp add: width_bucket_def)

lemma width_bucket_count:
  assumes "sorted bs"
  shows "width_bucket x bs = length (filter (\<lambda>b. b \<le> x) bs)"
proof -
  let ?n = "width_bucket x bs"
  have sep: "\<forall>i < ?n. bs ! i \<le> x" "\<forall>i. ?n \<le> i \<and> i < length bs \<longrightarrow> x < bs ! i"
    using bucket_separates [OF assms, of 0 "length bs" x] by (simp_all add: width_bucket_def)
  have n: "?n \<le> length bs" by (rule width_bucket_range)
  have "filter (\<lambda>b. b \<le> x) (take ?n bs) = take ?n bs"
    using sep(1) n by (intro filter_True) (auto simp: in_set_conv_nth)
  moreover have "filter (\<lambda>b. b \<le> x) (drop ?n bs) = []"
    using sep(2) by (auto simp: filter_empty_conv in_set_conv_nth not_le)
  ultimately have "filter (\<lambda>b. b \<le> x) bs = take ?n bs"
    by (metis append.right_neutral append_take_drop_id filter_append)
  then show ?thesis using n by simp
qed

lemma tier_mono: "x \<le> y \<Longrightarrow> tier_of x bs \<le> tier_of y bs"
  using bucket_mono [of x y 0 "length bs" bs] by (auto simp: tier_of_def width_bucket_def)

lemma tier_range: "0 \<le> tier_of x bs \<and> tier_of x bs \<le> int (length bs) + 1"
  using width_bucket_range [of x bs] by (simp add: tier_of_def)


subsection \<open>The rows of the query\<close>

lemma distinct_concat_keys:
  assumes "distinct (map g xs)" "\<And>x. x \<in> set xs \<Longrightarrow> length (f x) \<le> 1 \<and> (\<forall>y \<in> set (f x). k y = g x)"
  shows "distinct (map k (concat (map f xs)))"
  using assms
proof (induction xs)
  case (Cons x xs)
  have rest: "k ` set (concat (map f xs)) \<subseteq> g ` set xs" using Cons.prems(2) by force
  have "distinct (map k (f x)) \<and> k ` set (f x) \<subseteq> {g x}"
  proof (cases "f x")
    case (Cons y ys)
    with Cons.prems(2) [of x] show ?thesis by auto
  qed simp
  with rest Cons show ?case by fastforce
qed simp

lemma length_filter_key: "distinct (map k xs) \<Longrightarrow> length (filter (\<lambda>x. k x = i) xs) \<le> 1"
proof (induction xs)
  case (Cons x xs)
  have "filter (\<lambda>y. k y = i) xs = []" if "k x = i"
  proof (rule filter_False, intro ballI notI)
    fix y assume "y \<in> set xs" "k y = i"
    then have "k x \<in> set (map k xs)" using that by auto
    then show False using Cons.prems by simp
  qed
  with Cons show ?case by auto
qed simp

lemma input_rows_distinct:
  assumes "distinct (map mp_id (sr_maps src))" "distinct (map run_pair best)"
  shows "distinct (map (\<lambda>r. (si_user_id (fst r), si_map_id (fst r))) (input_rows best src))"
  unfolding input_rows_def
  by (rule distinct_concat_keys [of run_pair])
    (use assms length_filter_key [OF assms(1)] in \<open>auto simp: distinct_map_filter run_pair_def\<close>)

lemma input_rowsE:
  assumes "(r, flagged) \<in> set (input_rows best src)"
  obtains c m where "c \<in> set best" "m \<in> set (sr_maps src)" "mp_id m = cp_map_id c"
    "si_user_id r = cp_user_id c" "si_map_id r = cp_map_id c" "si_fully_verified r = (\<not> cp_completion c)"
    "si_raw_difficulty r = fl (mp_raw_difficulty m)" "si_field_size r = int (length (field_of best c))"
    "si_time_pct r = fl (round_4 (float8_numeric (time_percentile best c)))" "flagged = (cp_id c \<in> set (sr_flags src))"
  using assms unfolding input_rows_def by auto

lemma fetch_skill_inputs_rows:
  "mset (fetch_skill_inputs ties order db) =
     image_mset fst (filter_mset (\<lambda>r. \<not> snd r) (mset (input_rows (best_eligible ties (source db)) (source db))))"
  by (simp add: fetch_skill_inputs_def Let_def map_snd_sort_zip)

lemma field_counts_players:
  "int (length (field_of (best_eligible ties src) c)) =
     int (card {cp_user_id d | d. d \<in> set (sr_runs src) \<and> eligible_run src d \<and> cp_map_id d = cp_map_id c})"
proof -
  let ?field = "field_of (best_eligible ties src) c"
  have pairs: "distinct (map run_pair ?field)"
    using best_eligible_runs(1) [of ties src] by (simp add: field_of_def distinct_map_filter)
  have "inj_on cp_user_id (set ?field)"
    using pairs by (auto simp: distinct_map inj_on_def field_of_def run_pair_def)
  then have "length ?field = card (cp_user_id ` set ?field)"
    using pairs by (simp add: distinct_map card_image distinct_card)
  moreover have "cp_user_id ` set ?field =
      {cp_user_id d | d. d \<in> set (sr_runs src) \<and> eligible_run src d \<and> cp_map_id d = cp_map_id c}" (is "_ = ?players")
  proof
    show "cp_user_id ` set ?field \<subseteq> ?players" using best_eligible_runs(3) [of ties src] by (auto simp: field_of_def)
    show "?players \<subseteq> cp_user_id ` set ?field"
    proof
      fix u assume "u \<in> ?players"
      then obtain d where "d \<in> set (sr_runs src)" "eligible_run src d" "cp_map_id d = cp_map_id c" "u = cp_user_id d" by auto
      with best_eligible_runs(2) [of ties src] obtain e where "e \<in> set (best_eligible ties src)" "run_pair d = run_pair e" by blast
      with \<open>cp_map_id d = cp_map_id c\<close> \<open>u = cp_user_id d\<close> show "u \<in> cp_user_id ` set ?field"
        by (auto simp: field_of_def run_pair_def)
    qed
  qed
  ultimately show ?thesis by simp
qed

lemma inputs_distinct:
  assumes "distinct (map mp_id (sr_maps (source db)))"
  shows "distinct (map (\<lambda>r. (si_user_id r, si_map_id r)) (fetch_skill_inputs ties order db))"
proof -
  let ?k = "\<lambda>r :: skill_input. (si_user_id r, si_map_id r)"
  let ?rows = "filter (\<lambda>r. \<not> snd r) (input_rows (best_eligible ties (source db)) (source db))"
  have "distinct (map (\<lambda>r. ?k (fst r)) ?rows)"
    by (rule distinct_map_filter [OF input_rows_distinct [OF assms best_eligible_runs(1)]])
  moreover have "mset (map ?k (fetch_skill_inputs ties order db)) = mset (map (\<lambda>r. ?k (fst r)) ?rows)"
    by (simp add: fetch_skill_inputs_rows multiset.map_comp comp_def)
  ultimately show ?thesis using mset_eq_imp_distinct_iff by blast
qed

end
