(* ===== verification/Skill_Props.thy ===== *)
theory Skill_Props
  imports Skill_System Skill_Ranks
begin

section \<open>Properties of the skill score\<close>

subsection \<open>A concrete player base\<close>

text \<open>A power function that knows the exponents 0 and 1, and weights it can serve.\<close>

definition sample_pow :: float_pow where
  "sample_pow x y = (if y = 0 then Inr 1 else if y = 1 then Inr x else Inl (OutsideModel ''pow''))"

definition sample_weights :: weights where
  "sample_weights = \<lparr>w_diff_base = 2, w_gamma = 1, w_time_bonus = 1 / 2, w_shrink_k = 10, w_wr_bonus = 1 / 8,
     w_partial_factor = 1 / 2, w_medal_gold = 9 / 8, w_medal_silver = 1, w_medal_bronze = 1\<rparr>"

definition sample_run :: "int \<Rightarrow> int \<Rightarrow> rat \<Rightarrow> bool \<Rightarrow> skill_input" where
  "sample_run u m raw video = \<lparr>si_user_id = u, si_map_id = m, si_code = ''AB12C'', si_map_name = ''Hanamura'',
     si_difficulty = ''Hard'', si_raw_difficulty = raw, si_fully_verified = video, si_field_size = 2,
     si_video_rank = (if video then Some 1 else None), si_time_pct = 1, si_medal = Some ''Gold''\<rparr>"

definition sample_runs :: "skill_input list" where
  "sample_runs = [sample_run 1 1 (3 / 2) False, sample_run 1 2 (5 / 2) False]"

definition sample_skdb :: skdb where
  "sample_skdb = \<lparr>source = \<lparr>sr_maps = [], sr_runs = [], sr_users = [], sr_medals = [], sr_flags = []\<rparr>,
     snapshot = [], weight_config = Some sample_weights,
     tier_config = Some \<lparr>tg_boundaries = [1, 2, 4], tg_percentiles = [1 / 4, 1 / 2, 3 / 4], tg_computed_at = 0\<rparr>,
     score_history = [], score_changes = [], next_change_id = 1\<rparr>"

lemma sample_sane: "sane_weights sample_weights"
  by (simp add: sane_weights_def sample_weights_def)

subsection \<open>The score\<close>

text \<open>With sane weights a run with video proof never scores less than the difficulty of its map, and the
  same run without a video never more: proof cannot cost a player points.\<close>

lemma verified_run_scores_more:
  assumes "sane_weights w" "0 \<le> si_field_size r" "0 \<le> si_time_pct r"
    and "diff_weight pow (si_raw_difficulty r) w = Inr b" "0 \<le> b" "fl b = b"
  shows "\<exists>full partial. map_score pow (r\<lparr>si_fully_verified := True\<rparr>) w = Inr full
     \<and> map_score pow (r\<lparr>si_fully_verified := False\<rparr>) w = Inr partial \<and> 0 \<le> partial \<and> partial \<le> b \<and> b \<le> full"
  using map_score_full [of w "r\<lparr>si_fully_verified := True\<rparr>" pow b]
    map_score_partial [of w pow "r\<lparr>si_fully_verified := False\<rparr>" b] assms
  by (auto simp: float_def)

lemma verified_run_scores_more_witness:
  "\<exists>full partial. map_score sample_pow (sample_run 1 1 (5 / 2) True) sample_weights = Inr full
     \<and> map_score sample_pow (sample_run 1 1 (5 / 2) True\<lparr>si_fully_verified := False\<rparr>) sample_weights = Inr partial
     \<and> 0 \<le> partial \<and> partial \<le> 2 \<and> 2 \<le> full"
proof -
  let ?r = "sample_run 1 1 (5 / 2) True"
  have "diff_weight sample_pow (si_raw_difficulty ?r) sample_weights = Inr 2" "fl 2 = 2" by code_simp+
  from verified_run_scores_more [OF sample_sane _ _ this(1) _ this(2)] show ?thesis
    by (simp add: sample_run_def)
qed

text \<open>C28: the breakdown of a player has one row for each run, with the score of that run, sorted by score and
  ranked from one; the contribution of a row is its score divided by its rank to the power gamma.\<close>

theorem breakdown_of_runs:
  assumes "player_breakdown pow rows w = Inr b"
  shows "mset (map (\<lambda>x. (br_map_id x, Inr (br_raw_score x))) b) = mset (map (\<lambda>r. (Some (si_map_id r), map_score pow r w)) rows)
     \<and> sorted_wrt (\<lambda>x y. br_raw_score y \<le> br_raw_score x) b \<and> map br_rank b = map int [1..<Suc (length rows)]
     \<and> (\<forall>x \<in> set b. \<exists>d. pow (of_int (br_rank x)) (w_gamma w) = Inr d \<and> br_contribution x = fl (br_raw_score x / d))"
proof -
  from assms obtain scored where scored: "scored_runs pow rows w scored" and len: "length b = length scored"
    and entry: "\<And>i. i < length b \<Longrightarrow> breakdown_entry pow w (Suc i, scored ! i) = Inr (b ! i)"
    by (elim player_breakdown_runs) blast
  have row: "br_map_id (b ! i) = Some (si_map_id (snd (scored ! i)))" "br_raw_score (b ! i) = fst (scored ! i)"
    "br_rank (b ! i) = int (Suc i)"
    "\<exists>d. pow (of_nat (Suc i)) (w_gamma w) = Inr d \<and> br_contribution (b ! i) = fl (fst (scored ! i) / d)"
    if "i < length b" for i
    using breakdown_entry_Inr [of pow w "Suc i" "fst (scored ! i)" "snd (scored ! i)" "b ! i"] entry [OF that] by auto
  have "map (\<lambda>x. (br_map_id x, Inr (br_raw_score x))) b = map (\<lambda>(s, r). (Some (si_map_id r), Inr s)) scored"
    using row len by (intro nth_equalityI) (auto simp: split_def)
  also have "\<dots> = map (\<lambda>(s, r). (Some (si_map_id r), map_score pow r w)) scored"
    using scored by (auto simp: scored_runs_def)
  also have "\<dots> = map (\<lambda>r. (Some (si_map_id r), map_score pow r w)) (map snd scored)" by (simp add: split_def)
  finally have "mset (map (\<lambda>x. (br_map_id x, Inr (br_raw_score x))) b)
      = image_mset (\<lambda>r. (Some (si_map_id r), map_score pow r w)) (mset (map snd scored))" by (simp only: mset_map)
  moreover have mset: "mset (map snd scored) = mset rows" using scored by (simp add: scored_runs_def)
  moreover have "sorted_wrt (\<lambda>x y. br_raw_score y \<le> br_raw_score x) b"
    using scored row len unfolding scored_runs_def sorted_wrt_iff_nth_less by auto
  moreover have "length rows = length b" using mset_eq_length [OF mset] len by simp
  then have "map br_rank b = map int [1..<Suc (length rows)]"
    using row by (intro nth_equalityI) (simp_all del: upt_Suc)
  moreover have "\<exists>d. pow (of_int (br_rank x)) (w_gamma w) = Inr d \<and> br_contribution x = fl (br_raw_score x / d)"
    if "x \<in> set b" for x
  proof -
    from that obtain i where "i < length b" "x = b ! i" by (auto simp: in_set_conv_nth)
    with row [of i] show ?thesis by simp
  qed
  ultimately show ?thesis by (simp only: mset_map) blast
qed

lemma sample_breakdown:
  "\<exists>b. player_breakdown sample_pow sample_runs sample_weights = Inr b
     \<and> map br_map_id b = [Some 2, Some 1] \<and> map br_raw_score b = [1, 1 / 2] \<and> map br_contribution b = [1, 1 / 4]"
proof -
  have "map_sum id (map (\<lambda>x. (br_map_id x, br_raw_score x, br_contribution x)))
    (player_breakdown sample_pow sample_runs sample_weights)
    = Inr [(Some 2, 1, 1), (Some 1, 1 / 2, 1 / 4)]" by code_simp
  then show ?thesis
    by (cases "player_breakdown sample_pow sample_runs sample_weights") auto
qed

theorem breakdown_of_runs_witness:
  "\<exists>b. player_breakdown sample_pow sample_runs sample_weights = Inr b
     \<and> map br_rank b = [1, 2] \<and> map br_contribution b = [1, 1 / 4]"
proof -
  obtain b where b: "player_breakdown sample_pow sample_runs sample_weights = Inr b"
    "map br_contribution b = [1, 1 / 4]" by (rule exE [OF sample_breakdown]) (elim conjE, rule that)
  from breakdown_of_runs [OF b(1)] have "map br_rank b = map int [1..<Suc (length sample_runs)]" by (elim conjE)
  then have ranks: "map br_rank b = [1, 2]" by (simp add: sample_runs_def)
  show ?thesis by (intro exI [of _ b] conjI b ranks)
qed

text \<open>Returns diminish: if the powers of the ranks are at least one and do not fall, then no run contributes
  more than its score, and a run ranked lower never contributes more than one ranked higher.\<close>

lemma contributions_diminish:
  assumes "player_breakdown pow rows w = Inr b" "\<forall>x \<in> set b. 0 \<le> br_raw_score x \<and> fl (br_raw_score x) = br_raw_score x"
    and "\<And>i j d e. 1 \<le> i \<Longrightarrow> i \<le> j \<Longrightarrow> pow (of_int i) (w_gamma w) = Inr d \<Longrightarrow> pow (of_int j) (w_gamma w) = Inr e \<Longrightarrow>
           1 \<le> d \<and> d \<le> e"
  shows "(\<forall>x \<in> set b. 0 \<le> br_contribution x \<and> br_contribution x \<le> br_raw_score x)
     \<and> sorted_wrt (\<lambda>x y. br_contribution y \<le> br_contribution x) b"
proof
  note shape = breakdown_of_runs_shape [OF assms(1)]
  have row: "\<exists>d. pow (of_int (int (Suc i))) (w_gamma w) = Inr d \<and> br_contribution (b ! i) = fl (br_raw_score (b ! i) / d)"
    if "i < length b" for i
    using shape that by simp
  show "\<forall>x \<in> set b. 0 \<le> br_contribution x \<and> br_contribution x \<le> br_raw_score x"
  proof
    fix x assume x: "x \<in> set b"
    then obtain i where i: "i < length b" "x = b ! i" by (auto simp: in_set_conv_nth)
    from row [OF i(1)] obtain d where d: "pow (of_int (int (Suc i))) (w_gamma w) = Inr d" "br_contribution x = fl (br_raw_score x / d)"
      using i(2) by blast
    have "1 \<le> d" using assms(3) [OF _ _ d(1) d(1)] by simp
    moreover have "0 \<le> br_raw_score x" "fl (br_raw_score x) = br_raw_score x" using assms(2) x by auto
    ultimately show "0 \<le> br_contribution x \<and> br_contribution x \<le> br_raw_score x"
      using fl_div_le [of "br_raw_score x" d] by (simp add: d(2) fl_nonneg)
  qed
  show "sorted_wrt (\<lambda>x y. br_contribution y \<le> br_contribution x) b"
    unfolding sorted_wrt_iff_nth_less
  proof (intro allI impI)
    fix i j assume ij: "i < j" "j < length b"
    from row [of i] row [of j] ij obtain d e where
      d: "pow (of_int (int (Suc i))) (w_gamma w) = Inr d" "br_contribution (b ! i) = fl (br_raw_score (b ! i) / d)" and
      e: "pow (of_int (int (Suc j))) (w_gamma w) = Inr e" "br_contribution (b ! j) = fl (br_raw_score (b ! j) / e)" by auto
    have de: "1 \<le> d" "d \<le> e" using assms(3) [OF _ _ d(1) e(1)] ij by auto
    have s: "br_raw_score (b ! j) \<le> br_raw_score (b ! i)" "0 \<le> br_raw_score (b ! j)"
      using shape assms(2) ij by (auto simp: sorted_wrt_iff_nth_less)
    then have "br_raw_score (b ! j) / e \<le> br_raw_score (b ! i) / d" using de by (intro frac_le) auto
    then show "br_contribution (b ! j) \<le> br_contribution (b ! i)"
      unfolding d(2) e(2) using de s by (intro fl_mono0) auto
  qed
qed

lemma contributions_diminish_witness:
  "\<exists>b. player_breakdown sample_pow sample_runs sample_weights = Inr b
     \<and> sorted_wrt (\<lambda>x y. br_contribution y \<le> br_contribution x) b"
proof -
  obtain b where b: "player_breakdown sample_pow sample_runs sample_weights = Inr b"
    "map br_raw_score b = [1, 1 / 2]" by (rule exE [OF sample_breakdown]) (elim conjE, rule that)
  have "fl (1 / 2) = 1 / 2" by code_simp
  then have "\<forall>s \<in> set (map br_raw_score b). 0 \<le> s \<and> fl s = s" by (simp add: b(2))
  then have "\<forall>x \<in> set b. 0 \<le> br_raw_score x \<and> fl (br_raw_score x) = br_raw_score x" by simp
  from contributions_diminish [OF b(1) this]
  have falls: "sorted_wrt (\<lambda>x y. br_contribution y \<le> br_contribution x) b" by (simp add: sample_pow_def sample_weights_def)
  show ?thesis by (intro exI [of _ b] conjI b falls)
qed


subsection \<open>Differences\<close>

lemma player_breakdown_keyed:
  assumes "player_breakdown pow rows w = Inr b" "distinct (map si_map_id rows)"
  shows "diff_keyed b"
proof -
  obtain scored where scored: "scored_runs pow rows w scored" and len: "length b = length scored"
    and entry: "\<And>i. i < length b \<Longrightarrow> breakdown_entry pow w (Suc i, scored ! i) = Inr (b ! i)"
    by (rule player_breakdown_runs [OF assms(1)]) blast
  have "br_map_id (b ! i) = Some (si_map_id (snd (scored ! i)))" if "i < length b" for i
    using breakdown_entry_Inr [of pow w "Suc i" "fst (scored ! i)" "snd (scored ! i)" "b ! i"] entry [OF that] by auto
  then have "map diff_key_of b = map MapId (map si_map_id (map snd scored))"
    using len by (intro nth_equalityI) (simp_all add: diff_key_of_def)
  moreover have "mset (map si_map_id (map snd scored)) = mset (map si_map_id rows)"
    using scored by (simp only: scored_runs_def mset_map [of si_map_id])
  then have "distinct (map si_map_id (map snd scored))" using assms(2) mset_eq_imp_distinct_iff by blast
  ultimately show ?thesis by (simp add: diff_keyed_def distinct_map inj_on_def)
qed

text \<open>C29: the difference stored with a change splits both scores: whatever order Python's set takes, its old
  sides add up to the contributions of the old breakdown, its new sides to those of the new one, and each impact
  is the rounded difference of its two sides. No map is dropped or counted twice.\<close>

theorem diff_conserves:
  assumes "player_breakdown pow old_runs w = Inr p" "distinct (map si_map_id old_runs)"
    and "player_breakdown pow' new_runs w' = Inr n" "distinct (map si_map_id new_runs)"
  shows "sum_list (map im_prev (build_diff so p n)) = sum_list (map br_contribution p)
     \<and> sum_list (map im_new (build_diff so p n)) = sum_list (map br_contribution n)
     \<and> (\<forall>m \<in> set (build_diff so p n). im_impact m = fl (im_new m - im_prev m))"
  using build_diff_total [OF player_breakdown_keyed [OF assms(1,2)] player_breakdown_keyed [OF assms(3,4)]] by blast

lemma sample_single: "\<exists>b. player_breakdown sample_pow (take 1 sample_runs) sample_weights = Inr b \<and> map br_contribution b = [1 / 2]"
proof -
  have "map_sum id (map br_contribution) (player_breakdown sample_pow (take 1 sample_runs) sample_weights) = Inr [1 / 2]"
    by code_simp
  then show ?thesis by (cases "player_breakdown sample_pow (take 1 sample_runs) sample_weights") auto
qed

theorem diff_conserves_witness:
  "\<exists>p n. player_breakdown sample_pow (take 1 sample_runs) sample_weights = Inr p
     \<and> player_breakdown sample_pow sample_runs sample_weights = Inr n
     \<and> sum_list (map im_prev (build_diff id p n)) = 1 / 2 \<and> sum_list (map im_new (build_diff id p n)) = 5 / 4"
proof -
  obtain p where p: "player_breakdown sample_pow (take 1 sample_runs) sample_weights = Inr p"
    "map br_contribution p = [1 / 2]" by (rule exE [OF sample_single]) (elim conjE, rule that)
  obtain n where n: "player_breakdown sample_pow sample_runs sample_weights = Inr n"
    "map br_contribution n = [1, 1 / 4]" by (rule exE [OF sample_breakdown]) (elim conjE, rule that)
  have keys: "distinct (map si_map_id (take 1 sample_runs))" "distinct (map si_map_id sample_runs)" by code_simp+
  from diff_conserves [OF p(1) keys(1) n(1) keys(2), of id] p n show ?thesis
    by (intro exI [of _ p] exI [of _ n] conjI) simp_all
qed

text \<open>
  The impacts themselves are rounded one by one, so they need not add up to the change of the score: from
  contributions 1 and 2^-53 to 1 and 3 * 2^-53 the score rises by 2^-51, the impacts by 2^-52.
\<close>

definition sample_contribution :: "int \<Rightarrow> rat \<Rightarrow> breakdown_row" where
  "sample_contribution m c = \<lparr>br_map_id = Some m, br_map_name = ''Hanamura'', br_difficulty = ''Hard'', br_raw = 5,
     br_fully_verified = True, br_medal = None, br_wr = False, br_raw_score = c, br_contribution = c, br_rank = m\<rparr>"

lemma impacts_miss_delta:
  "let p = [sample_contribution 1 1, sample_contribution 2 (1 / 2 ^ 53)];
       n = [sample_contribution 1 1, sample_contribution 2 (3 / 2 ^ 53)]
   in sum_list (map im_impact (build_diff id p n)) = 1 / 2 ^ 52
    \<and> fl (breakdown_score n - breakdown_score p) = 1 / 2 ^ 51"
  by code_simp

end
