(* ===== verification/Skill_Guarantees.thy ===== *)
theory Skill_Guarantees
  imports Skill_Props
begin

section \<open>Properties of the rebuilds and the reads\<close>

text \<open>
  What a burst of triggers, a rebuild and the calls on the skill tables leave behind, and what the tiers
  mean.
\<close>

subsection \<open>The guard\<close>

text \<open>C25: every trigger is served: whatever the order of triggers, finished and failed rebuilds, the batches the
  guard drained for its rebuilds so far, in order, and the triggers still waiting are exactly the triggers that came;
  no batch is empty, while the lock is held the last batch is the one being rebuilt, and unless a rebuild failed
  nothing waits once the guard is free.\<close>

theorem every_trigger_served:
  assumes "guard_run evs idle_guard = (g, batches)"
  shows "concat batches @ g_pending g = triggers_of evs \<and> (\<forall>b \<in> set batches. b \<noteq> [])
     \<and> (g_locked g \<longrightarrow> batches \<noteq> [] \<and> g_running g = Some (last batches))
     \<and> (Aborted \<notin> set evs \<and> \<not> g_locked g \<longrightarrow> g_pending g = [])"
  using guard_run_ledger [OF guard_ok_idle assms] guard_run_running [OF guard_ok_idle assms]
    guard_idle_empty [OF guard_ok_idle, of evs] guard_ok_run [OF guard_ok_idle, of evs] assms
  by (auto simp: idle_guard_def guard_ok_def split: if_splits)

definition sample_trigger :: "int \<Rightarrow> trigger_descriptor" where
  "sample_trigger u = \<lparr>td_cause_category = ''PLAYER_ACTION'', td_actor_user_id = Some u\<rparr>"

theorem every_trigger_served_witness:
  "guard_run [Trigger (Some (sample_trigger 1)), Trigger (Some (sample_trigger 2)), Trigger None, Rebuilt, Rebuilt] idle_guard
      = (idle_guard, [[sample_trigger 1], [sample_trigger 2, system_trigger]])
   \<and> concat [[sample_trigger 1], [sample_trigger 2, system_trigger]] = [sample_trigger 1, sample_trigger 2, system_trigger]"
proof -
  have run: "guard_run [Trigger (Some (sample_trigger 1)), Trigger (Some (sample_trigger 2)), Trigger None, Rebuilt, Rebuilt] idle_guard
      = (idle_guard, [[sample_trigger 1], [sample_trigger 2, system_trigger]])" by code_simp
  from every_trigger_served [OF this] run show ?thesis by (simp add: or_else_def idle_guard_def)
qed

text \<open>A failed rebuild forgets to serve the triggers that came while it ran: they wait for the next trigger.\<close>

lemma abort_strands_triggers:
  "fst (guard_run [Trigger (Some (sample_trigger 1)), Trigger (Some (sample_trigger 2)), Aborted] idle_guard)
     = \<lparr>g_locked = False, g_rerun = True, g_pending = [sample_trigger 2], g_running = None\<rparr>"
  by code_simp

text \<open>C30: the loop of the guard ends: a burst of triggers costs at most one rebuild each, and once triggers stop
  coming at most two more rebuilds run before the lock is free.\<close>

theorem rebuild_loop_ends:
  "length (snd (guard_run evs idle_guard)) \<le> length (triggers_of evs)
   \<and> \<not> g_locked (fst (guard_run (evs @ [Rebuilt, Rebuilt]) idle_guard))"
proof -
  obtain g batches where run: "guard_run evs idle_guard = (g, batches)" by fastforce
  from guard_run_ledger [OF guard_ok_idle run] have ledger: "concat batches @ g_pending g = triggers_of evs"
    and full: "\<forall>b \<in> set batches. b \<noteq> []" by (simp_all add: idle_guard_def)
  have "length (concat batches) \<le> length (triggers_of evs)" using ledger [symmetric] by simp
  with length_batches [OF full] have "length batches \<le> length (triggers_of evs)" by simp
  moreover have "guard_ok g" using guard_ok_run [OF guard_ok_idle, of evs] by (simp add: run)
  then have "\<not> g_locked (guard_step Rebuilt (guard_step Rebuilt g))" by (rule two_rebuilds_end)
  ultimately show ?thesis by (simp add: guard_run_append run)
qed

subsection \<open>A rebuild\<close>

text \<open>C26: a rebuild is all or nothing: if it fails, the database is what it was (with what others committed before
  its transaction), and without seeded weights nothing is even read; if it succeeds, each player with an eligible
  run has a fresh snapshot, a history point and a change that starts from their previous score, and nobody else
  has a snapshot.\<close>

theorem rebuild_all_or_nothing:
  "case do_recompute R policy w of
     (Inl e, w') \<Rightarrow> wdb w' = (if weight_config (wdb w) = None then wdb w else rb_meanwhile R (wdb w))
   | (Inr _, w') \<Rightarrow> \<exists>wt. weight_config (wdb w) = Some wt \<and>
       rebuilt (\<lambda>rs. player_breakdown (rb_pow R) rs wt) (rb_set_order R) (rb_computed_at R) policy
         (fetch_skill_inputs (rb_ties R) (rb_order R) (wdb w)) (rb_meanwhile R (wdb w)) (wdb w')"
proof (cases "weight_config (wdb w)")
  case None
  then show ?thesis by (simp add: do_recompute_def bind_io_def atomically_def fetch_weights_def)
next
  case (Some wt)
  then show ?thesis
    using recompute_tx_run [of "rb_pow R" "rb_set_order R" "rb_computed_at R" "rb_now R" policy wt
        "fetch_skill_inputs (rb_ties R) (rb_order R) (wdb w)" "rb_meanwhile R (wdb w)"]
    by (auto simp: do_recompute_def bind_io_def atomically_def fetch_weights_def split: sum.splits prod.splits)
qed

subsection \<open>The change feed\<close>

text \<open>In every state the calls reach from an empty feed, the changes of a player form a chain: each starts at
  the score the one before ended at, or from nothing if the player had left the snapshot; the last ends at the
  stored score, and each delta is the rounded difference of its two scores.\<close>

lemma change_feed_chained:
  assumes "skill_reach w w'" "snapshot (wdb w) = []" "score_changes (wdb w) = []"
  shows "chain_ok (wdb w')"
  using skill_reach_chain [OF assms(1)] assms(2,3) by (simp add: chain_ok_def changes_of_def fetch_snapshot_def)

definition sample_env :: rebuild_env where
  "sample_env = \<lparr>rb_pow = sample_pow, rb_ties = id, rb_order = id, rb_set_order = id, rb_computed_at = 5, rb_now = 5,
     rb_meanwhile = id\<rparr>"

definition sample_source :: skill_source where
  "sample_source =
     \<lparr>sr_maps = [\<lparr>mp_id = 7, mp_code = Some ''ABCDE'', mp_name = ''Hanamura'', mp_category = ''Classic'',
        mp_difficulty = ''Hard'', mp_official = True, mp_archived = False, mp_original_code = None,
        mp_raw_difficulty = 5 / 2\<rparr>],
      sr_runs = [\<lparr>cp_map_id = 7, cp_user_id = 1, cp_time = 30, cp_verified = True, cp_legacy = False,
        cp_inserted_at = 0, cp_id = 1, cp_completion = True\<rparr>],
      sr_users = [\<lparr>usr_id = 1, usr_nickname = None, usr_global_name = None, usr_coins = 0\<rparr>],
      sr_medals = [], sr_flags = []\<rparr>"

definition sample_kworld :: kworld where
  "sample_kworld = \<lparr>wdb = sample_skdb\<lparr>source := sample_source\<rparr>, wmq = []\<rparr>"

definition sample_input :: skill_input where
  "sample_input = \<lparr>si_user_id = 1, si_map_id = 7, si_code = ''ABCDE'', si_map_name = ''Hanamura'', si_difficulty = ''Hard'',
     si_raw_difficulty = 5 / 2, si_fully_verified = False, si_field_size = 1, si_video_rank = None, si_time_pct = 0,
     si_medal = None\<rparr>"

definition sample_row :: breakdown_row where
  "sample_row = \<lparr>br_map_id = Some 7, br_map_name = ''Hanamura'', br_difficulty = ''Hard'', br_raw = 5 / 2,
     br_fully_verified = False, br_medal = None, br_wr = False, br_raw_score = 1, br_contribution = 1, br_rank = 1\<rparr>"

lemma sample_fetched: "fetch_skill_inputs id id (wdb sample_kworld) = [sample_input]"
  by code_simp

lemma sample_scored: "player_breakdown sample_pow [sample_input] sample_weights = Inr [sample_row]"
  by code_simp

lemma sample_total: "breakdown_score [sample_row] = 1"
  by code_simp

lemma sample_rebuild:
  "\<exists>c. score_changes (wdb (snd (do_recompute sample_env (''SYSTEM'', None) sample_kworld))) = [c]
     \<and> ch_previous_score c = 0 \<and> ch_new_score c = 1 \<and> ch_delta c = 1"
proof -
  have users: "by_user [sample_input] = [(1, [sample_input])]" by (simp add: by_user_def sample_input_def)
  have db: "weight_config (wdb sample_kworld) = Some sample_weights" "snapshot (wdb sample_kworld) = []"
    "score_changes (wdb sample_kworld) = []" "score_history (wdb sample_kworld) = []"
    by (simp_all add: sample_kworld_def sample_skdb_def)
  show ?thesis
    by (simp add: do_recompute_def bind_io_def atomically_def fetch_weights_def db sample_env_def sample_fetched
        recompute_tx_def bind_tx_def lift_py_def users score_user_def sample_scored sample_total fetch_all_snapshots_def
        fetch_snapshot_def replace_snapshot_def bulk_insert_history_def bulk_insert_changes_def insert_change_row_def
        user_cause_def compute_tier_boundaries_def ranked_scores_def tier_population_floor_def Let_def
        split: option.splits)
qed

lemma change_feed_chained_witness:
  "chain_ok (wdb (snd (do_recompute sample_env (''SYSTEM'', None) sample_kworld)))
   \<and> map ch_new_score (score_changes (wdb (snd (do_recompute sample_env (''SYSTEM'', None) sample_kworld)))) = [1]"
proof
  have "skill_step sample_kworld (snd (do_recompute sample_env (''SYSTEM'', None) sample_kworld))"
    by (rule rebuild_call) (simp add: sample_env_def config_only_refl)
  then have "skill_reach sample_kworld (snd (do_recompute sample_env (''SYSTEM'', None) sample_kworld))"
    unfolding skill_reach_def by (rule r_into_rtranclp)
  then show "chain_ok (wdb (snd (do_recompute sample_env (''SYSTEM'', None) sample_kworld)))"
    by (rule change_feed_chained) (simp_all add: sample_kworld_def sample_skdb_def)
  show "map ch_new_score (score_changes (wdb (snd (do_recompute sample_env (''SYSTEM'', None) sample_kworld)))) = [1]"
    using sample_rebuild by (elim exE conjE) simp
qed

subsection \<open>Tiers\<close>

lemma tier_names: "0 \<le> t \<Longrightarrow> t \<le> 8 \<Longrightarrow> skill_tier_name t = ''Unranked'' \<longleftrightarrow> t = 0"
proof -
  assume "0 \<le> t" "t \<le> 8"
  then have "t = 0 \<or> t = 1 \<or> t = 2 \<or> t = 3 \<or> t = 4 \<or> t = 5 \<or> t = 6 \<or> t = 7 \<or> t = 8" by presburger
  then show ?thesis by (auto simp: skill_tier_name_def or_else_def)
qed

lemma score_percentile_mono: "x \<le> y \<Longrightarrow> score_percentile x db \<le> score_percentile y db"
proof -
  assume "x \<le> y"
  let ?n = "\<lambda>x. length (filter (\<lambda>s. s \<le> x) (ranked_scores db))"
  have "length (filter (\<lambda>s. s \<le> x) xs) \<le> length (filter (\<lambda>s. s \<le> y) xs)" for xs :: "rat list"
    using \<open>x \<le> y\<close> by (induction xs) auto
  from this [of "ranked_scores db"] have "?n x \<le> ?n y" .
  then have "fl (of_nat (?n x)) \<le> fl (of_nat (?n y))" by (intro fl_mono0) auto
  then show ?thesis
    unfolding score_percentile_def Let_def by (auto intro!: fl_mono0 divide_right_mono fl_nonneg divide_nonneg_nonneg)
qed

text \<open>C31: tiers follow scores: a player with no lower score has no lower tier and no lower percentile; over sorted
  boundaries the tier of a positive score is one more than the number of boundaries it reaches; with at most seven
  boundaries every tier from 1 to 8 has a name of its own kind, and only tier 0 is called unranked.\<close>

theorem tiers_follow_scores:
  assumes "fetch_snapshot u db = Some s" "fetch_snapshot v db = Some t" "tier_config db = Some c"
    and "sn_skill_score s \<le> sn_skill_score t"
  shows "ks_tier (get_user_skill u db) \<le> ks_tier (get_user_skill v db)
     \<and> ks_percentile (get_user_skill u db) \<le> ks_percentile (get_user_skill v db)
     \<and> (sorted (tg_boundaries c) \<and> tg_boundaries c \<noteq> [] \<and> 0 < sn_skill_score s \<longrightarrow>
          ks_tier (get_user_skill u db) = 1 + int (length (filter (\<lambda>b. b \<le> sn_skill_score s) (tg_boundaries c))))
     \<and> (length (tg_boundaries c) \<le> 7 \<longrightarrow>
          (ks_skill_tier_name (get_user_skill u db) = ''Unranked'' \<longleftrightarrow> ks_tier (get_user_skill u db) = 0))"
proof -
  have skill: "ks_tier (get_user_skill i db) = tier_of (sn_skill_score r) (tg_boundaries c)"
    "ks_percentile (get_user_skill i db) = score_percentile (sn_skill_score r) db"
    "ks_skill_tier_name (get_user_skill i db) = skill_tier_name (tier_of (sn_skill_score r) (tg_boundaries c))"
    if "fetch_snapshot i db = Some r" for i r
    using that assms(3) by (simp_all add: get_user_skill_def fetch_snapshot_with_tier_def)
  have "tier_of (sn_skill_score s) (tg_boundaries c) \<in> {0..8}" if "length (tg_boundaries c) \<le> 7"
    using tier_range [of "sn_skill_score s" "tg_boundaries c"] that by auto
  then show ?thesis
    using tier_names tier_mono [OF assms(4)] score_percentile_mono [OF assms(4)] width_bucket_count
    by (auto simp: skill [OF assms(1)] skill [OF assms(2)] tier_of_def)
qed

definition sample_ranked :: skdb where
  "sample_ranked = sample_skdb\<lparr>snapshot := map (\<lambda>(u, x). \<lparr>sn_user_id = u, sn_skill_score = x, sn_maps_cleared = 1,
     sn_video_clears = 1, sn_hardest_raw = 5, sn_breakdown = [], sn_computed_at = 0\<rparr>) [(1, 3), (2, 5)]\<rparr>"

theorem tiers_follow_scores_witness:
  "ks_tier (get_user_skill 1 sample_ranked) = 3 \<and> ks_tier (get_user_skill 2 sample_ranked) = 4
   \<and> ks_percentile (get_user_skill 1 sample_ranked) \<le> ks_percentile (get_user_skill 2 sample_ranked)"
proof -
  let ?s = "hd (snapshot sample_ranked)" and ?t = "last (snapshot sample_ranked)"
  have rows: "fetch_snapshot 1 sample_ranked = Some ?s" "fetch_snapshot 2 sample_ranked = Some ?t"
    "tier_config sample_ranked = Some (the (tier_config sample_ranked))"
    by (simp_all add: sample_ranked_def sample_skdb_def fetch_snapshot_def)
  have "sn_skill_score ?s \<le> sn_skill_score ?t" by (simp add: sample_ranked_def)
  from tiers_follow_scores [OF rows this]
  have "ks_percentile (get_user_skill 1 sample_ranked) \<le> ks_percentile (get_user_skill 2 sample_ranked)" by (elim conjE)
  moreover have "ks_tier (get_user_skill 1 sample_ranked) = 3 \<and> ks_tier (get_user_skill 2 sample_ranked) = 4" by code_simp
  ultimately show ?thesis by blast
qed


subsection \<open>The tier configuration\<close>

lemma strictly_increasing:
  "(\<exists>(a, b) \<in> set (zip xs (tl xs)). b \<le> a) \<longleftrightarrow> \<not> sorted_wrt (<) (xs :: rat list)"
proof (induction xs)
  case (Cons x xs)
  show ?case
  proof (cases xs)
    case (Cons y ys)
    have "transp ((<) :: rat \<Rightarrow> rat \<Rightarrow> bool)" by (rule transp_on_less)
    with Cons.IH show ?thesis by (auto simp: Cons sorted_wrt2 simp del: sorted_wrt.simps)
  qed simp
qed simp

lemma percentiles_found: "(\<And>p. p \<in> set ps \<Longrightarrow> 0 \<le> p \<and> p \<le> 1) \<Longrightarrow>
    \<exists>bs. map_py (percentile_cont xs) ps = Inr bs \<and> length bs = length ps"
proof -
  assume unit: "\<And>p. p \<in> set ps \<Longrightarrow> 0 \<le> p \<and> p \<le> 1"
  have "\<exists>bs. map_py (percentile_cont xs) ps = Inr bs"
    using unit by (intro map_py_total) (force simp: percentile_cont_def Let_def)
  then show ?thesis by (metis list_all2_lengthD map_py_Inr)
qed

text \<open>An update of the tiers takes exactly seven strictly increasing percentiles strictly between 0 and 1; then
  the stored row holds them with seven fresh boundaries, or none below twenty ranked players. Anything else is
  refused with nothing changed, and so is an update of tiers that were never seeded.\<close>

lemma update_tier_config_outcome:
  "let valid = (length ps = 7 \<and> (\<forall>p \<in> set ps. 0 < p \<and> p < 1) \<and> sorted_wrt (<) ps) in
   (\<not> valid \<longrightarrow> (\<exists>m. update_tier_config now ps w = (Inl (Skill (InvalidPercentilesError m)), w)))
   \<and> (valid \<and> tier_config (wdb w) = None \<longrightarrow>
        update_tier_config now ps w = (Inl (Skill (SkillConfigNotSeededError ''tier_config'')), w))
   \<and> (\<forall>t. valid \<and> tier_config (wdb w) = Some t \<longrightarrow> (\<exists>bs.
        length bs = (if length (ranked_scores (wdb w)) < 20 then 0 else 7)
        \<and> (let t' = t\<lparr>tg_boundaries := bs, tg_percentiles := ps, tg_computed_at := now\<rparr> in
           update_tier_config now ps w = (Inr t', w\<lparr>wdb := (wdb w)\<lparr>tier_config := Some t'\<rparr>\<rparr>))))"
proof -
  let ?valid = "length ps = 7 \<and> (\<forall>p \<in> set ps. 0 < p \<and> p < 1) \<and> sorted_wrt (<) ps"
  have refused: "\<exists>m. update_tier_config now ps w = (Inl (Skill (InvalidPercentilesError m)), w)" if "\<not> ?valid"
    using that by (auto simp: update_tier_config_def tier_percentile_count_def strictly_increasing raise_io_def)
  have run: "update_tier_config now ps w = atomically (bind_tx (update_percentiles ps) (\<lambda>_.
        bind_tx (compute_tier_boundaries now) (\<lambda>_. fetch_tier_config))) w" if ?valid
    using that by (simp add: update_tier_config_def tier_percentile_count_def strictly_increasing)
  have unseeded: "update_tier_config now ps w = (Inl (Skill (SkillConfigNotSeededError ''tier_config'')), w)"
    if ?valid "tier_config (wdb w) = None"
    using that(2) unfolding run [OF that(1)]
    by (simp add: atomically_def bind_tx_def update_percentiles_def compute_tier_boundaries_def fetch_tier_config_def)
  have stored: "\<exists>bs. length bs = (if length (ranked_scores (wdb w)) < 20 then 0 else 7)
        \<and> (let t' = t\<lparr>tg_boundaries := bs, tg_percentiles := ps, tg_computed_at := now\<rparr> in
           update_tier_config now ps w = (Inr t', w\<lparr>wdb := (wdb w)\<lparr>tier_config := Some t'\<rparr>\<rparr>))"
    if v: ?valid and t: "tier_config (wdb w) = Some t" for t
  proof -
    have "ranked_scores ((wdb w)\<lparr>tier_config := c\<rparr>) = ranked_scores (wdb w)" for c by (simp add: ranked_scores_def)
    moreover obtain bs where "map_py (percentile_cont (ranked_scores (wdb w))) ps = Inr bs" "length bs = 7"
      using percentiles_found [of ps "ranked_scores (wdb w)"] v by force
    ultimately show ?thesis unfolding run [OF v]
      by (intro exI [of _ "if length (ranked_scores (wdb w)) < 20 then [] else bs"], cases t)
        (simp add: atomically_def bind_tx_def update_percentiles_def compute_tier_boundaries_def
          fetch_tier_config_def t tier_population_floor_def Let_def)
  qed
  show ?thesis unfolding Let_def using refused unseeded stored unfolding Let_def by blast
qed

definition sample_percentiles :: "rat list" where
  "sample_percentiles = [1 / 8, 1 / 4, 3 / 8, 1 / 2, 5 / 8, 3 / 4, 7 / 8]"

lemma update_tier_config_outcome_witness:
  "(\<exists>m. update_tier_config 9 [1 / 2] sample_kworld = (Inl (Skill (InvalidPercentilesError m)), sample_kworld))
   \<and> (\<exists>bs t. length bs = 0 \<and> tg_boundaries t = bs \<and> tg_percentiles t = sample_percentiles \<and> tg_computed_at t = 9
        \<and> fst (update_tier_config 9 sample_percentiles sample_kworld) = Inr t)"
proof
  show "\<exists>m. update_tier_config 9 [1 / 2] sample_kworld = (Inl (Skill (InvalidPercentilesError m)), sample_kworld)"
    using update_tier_config_outcome [of "[1 / 2]" 9 sample_kworld] by (simp add: Let_def)
  have valid: "length sample_percentiles = 7 \<and> (\<forall>p \<in> set sample_percentiles. 0 < p \<and> p < 1) \<and> sorted_wrt (<) sample_percentiles"
    by (simp add: sample_percentiles_def)
  have few: "length (ranked_scores (wdb sample_kworld)) < 20"
    by (simp add: sample_kworld_def sample_skdb_def ranked_scores_def)
  obtain t where t: "tier_config (wdb sample_kworld) = Some t" by (simp add: sample_kworld_def sample_skdb_def)
  from update_tier_config_outcome [of sample_percentiles 9 sample_kworld, unfolded Let_def, THEN conjunct2, THEN conjunct2,
      THEN spec, THEN mp, OF conjI [OF valid t]]
  obtain bs where "length bs = 0" "update_tier_config 9 sample_percentiles sample_kworld =
      (Inr (t\<lparr>tg_boundaries := bs, tg_percentiles := sample_percentiles, tg_computed_at := 9\<rparr>),
       sample_kworld\<lparr>wdb := (wdb sample_kworld)\<lparr>tier_config :=
         Some (t\<lparr>tg_boundaries := bs, tg_percentiles := sample_percentiles, tg_computed_at := 9\<rparr>)\<rparr>\<rparr>)"
    unfolding if_P [OF few] by (elim exE conjE) (rule that)
  then show "\<exists>bs t. length bs = 0 \<and> tg_boundaries t = bs \<and> tg_percentiles t = sample_percentiles \<and> tg_computed_at t = 9
        \<and> fst (update_tier_config 9 sample_percentiles sample_kworld) = Inr t"
    by (intro exI [of _ bs]
        exI [of _ "t\<lparr>tg_boundaries := bs, tg_percentiles := sample_percentiles, tg_computed_at := 9\<rparr>"]) simp
qed


subsection \<open>The inputs\<close>

text \<open>C27: each input row of a rebuild is a verified run that is not flagged, not of the old rules and on a live
  map, the fastest of its player there; its field is the number of players with such a run on the map, itself
  counted; its percentile lies between 0 and 1; and no player has two rows for one map, however the database
  breaks ties.\<close>

theorem skill_inputs_sound:
  assumes "r \<in> set (fetch_skill_inputs ties order db)" "distinct (map mp_id (sr_maps (source db)))"
  shows "(\<exists>c \<in> set (sr_runs (source db)). eligible_run (source db) c \<and> cp_id c \<notin> set (sr_flags (source db))
        \<and> si_user_id r = cp_user_id c \<and> si_map_id r = cp_map_id c \<and> si_fully_verified r = (\<not> cp_completion c)
        \<and> (\<forall>d \<in> set (sr_runs (source db)). eligible_run (source db) d \<and> run_pair d = run_pair c \<longrightarrow> cp_time c \<le> cp_time d))
     \<and> si_field_size r = int (card {cp_user_id d | d. d \<in> set (sr_runs (source db)) \<and> eligible_run (source db) d
          \<and> cp_map_id d = si_map_id r}) \<and> 1 \<le> si_field_size r
     \<and> 0 \<le> si_time_pct r \<and> si_time_pct r \<le> 1
     \<and> distinct (map (\<lambda>r. (si_user_id r, si_map_id r)) (fetch_skill_inputs ties order db))"
proof -
  let ?src = "source db" and ?best = "best_eligible ties (source db)"
  have "r \<in># mset (fetch_skill_inputs ties order db)" using assms(1) by simp
  then have "(r, False) \<in> set (input_rows ?best ?src)" by (auto simp: fetch_skill_inputs_rows)
  then obtain c m where c: "c \<in> set ?best" "si_user_id r = cp_user_id c" "si_map_id r = cp_map_id c"
    "si_fully_verified r = (\<not> cp_completion c)" "si_field_size r = int (length (field_of ?best c))"
    "si_time_pct r = fl (round_4 (float8_numeric (time_percentile ?best c)))" "False = (cp_id c \<in> set (sr_flags ?src))"
    by (rule input_rowsE)
  have run: "c \<in> set (sr_runs ?src)" "eligible_run ?src c" using c(1) best_eligible_runs(3) [of ties ?src] by auto
  have "\<exists>c \<in> set (sr_runs ?src). eligible_run ?src c \<and> cp_id c \<notin> set (sr_flags ?src)
        \<and> si_user_id r = cp_user_id c \<and> si_map_id r = cp_map_id c \<and> si_fully_verified r = (\<not> cp_completion c)
        \<and> (\<forall>d \<in> set (sr_runs ?src). eligible_run ?src d \<and> run_pair d = run_pair c \<longrightarrow> cp_time c \<le> cp_time d)"
    using c run best_eligible_fastest [OF c(1)] by blast
  moreover have "si_field_size r = int (card {cp_user_id d | d. d \<in> set (sr_runs ?src) \<and> eligible_run ?src d
      \<and> cp_map_id d = si_map_id r})"
    using c(3,5) field_counts_players [of ties ?src c] by simp
  moreover have "c \<in> set (field_of ?best c)" using c(1) by (simp add: field_of_def)
  then have "1 \<le> si_field_size r" using c(5) by (cases "field_of ?best c") auto
  moreover have "0 \<le> si_time_pct r" "si_time_pct r \<le> 1" using stored_percentile_unit [OF c(1)] c(6) by simp_all
  moreover have "distinct (map (\<lambda>r. (si_user_id r, si_map_id r)) (fetch_skill_inputs ties order db))"
    by (rule inputs_distinct [OF assms(2)])
  ultimately show ?thesis by blast
qed

theorem skill_inputs_sound_witness:
  "\<exists>r. fetch_skill_inputs id id (wdb sample_kworld) = [r] \<and> si_map_id r = 7 \<and> 1 \<le> si_field_size r \<and> si_time_pct r \<le> 1"
proof -
  have "distinct (map mp_id (sr_maps (source (wdb sample_kworld))))"
    by (simp add: sample_kworld_def sample_source_def)
  from skill_inputs_sound [OF _ this, of sample_input id id] sample_fetched
  have "1 \<le> si_field_size sample_input" "si_time_pct sample_input \<le> 1" by simp_all
  then show ?thesis by (intro exI [of _ sample_input]) (simp add: sample_fetched, simp add: sample_input_def)
qed

end
