(* ===== verification/Notify_Db.thy ===== *)
theory Notify_Db
  imports Lootbox_Service
begin

section \<open>Notifications\<close>

text \<open>
  \<open>apps/api/repository/notifications_repository.py\<close> on the tables of migration 0007, and
  \<open>apps/api/services/notifications_service.py\<close>. The service commits every statement on its own. The
  codec of \<open>jsonb\<close> gives metadata back as it was; timestamps are not turned into text.
\<close>

subsection \<open>Tables\<close>

record event_row =
  ev_id :: int
  ev_user_id :: int
  ev_event_type :: string
  ev_title :: string
  ev_body :: string
  ev_metadata :: "dict option"
  ev_created_at :: int
  ev_read_at :: "int option"
  ev_dismissed_at :: "int option"

record preference_row =
  pr_user_id :: int
  pr_event_type :: string
  pr_channel :: string
  pr_enabled :: bool

record delivery_row =
  dl_event_id :: int
  dl_channel :: string
  dl_status :: string
  dl_attempted_at :: "int option"
  dl_delivered_at :: "int option"
  dl_error_message :: "string option"

record ndb =
  ntf_econ :: econ
  ntf_events :: "event_row list"
  ntf_preferences :: "preference_row list"
  ntf_deliveries :: "delivery_row list"
  next_event_id :: int

type_synonym nworld = "(ndb, message) world"
type_synonym 'a ntx = "(err, ndb, 'a) tx"
type_synonym 'a nio = "(err, nworld, 'a) io"

text \<open>A call of the base service on the tables of the economy.\<close>

definition ntf_base :: "'a eio \<Rightarrow> 'a nio" where
  "ntf_base = zoom_io ntf_econ (\<lambda>e db. db\<lparr>ntf_econ := e\<rparr>)"

subsection \<open>The repository\<close>

definition insert_event :: "int \<Rightarrow> create_request \<Rightarrow> int ntx" where
  "insert_event now data = (\<lambda>db.
     if \<not> user_exists (nc_user_id data) (ntf_econ db)
     then Inl (Repo (ForeignKeyViolationError ''events_user_id_fkey'' ''notifications.events''))
     else Inr (next_event_id db, db\<lparr>next_event_id := next_event_id db + 1,
       ntf_events := ntf_events db @ [\<lparr>ev_id = next_event_id db, ev_user_id = nc_user_id data,
         ev_event_type = nc_event_type data, ev_title = nc_title data, ev_body = nc_body data,
         ev_metadata = nc_metadata data, ev_created_at = now, ev_read_at = None, ev_dismissed_at = None\<rparr>]\<rparr>))"

definition fetch_event_by_id :: "int \<Rightarrow> ndb \<Rightarrow> event_row option" where
  "fetch_event_by_id event_id db = first_where (\<lambda>e. ev_id e = event_id) (ntf_events db)"

text \<open>Events of the same instant come in any order: \<open>ties\<close> shuffles them.\<close>

definition fetch_user_events :: "(nat \<Rightarrow> nat) \<Rightarrow> int \<Rightarrow> bool \<Rightarrow> nat \<Rightarrow> nat \<Rightarrow> ndb \<Rightarrow> event_row list" where
  "fetch_user_events ties user_id unread_only limit offset db =
     take limit (drop offset (sort_key (\<lambda>e. - ev_created_at e) (order_by_random ties
       (filter (\<lambda>e. ev_user_id e = user_id \<and> ev_dismissed_at e = None \<and> (unread_only \<longrightarrow> ev_read_at e = None))
          (ntf_events db)))))"

definition fetch_unread_count :: "int \<Rightarrow> ndb \<Rightarrow> int" where
  "fetch_unread_count user_id db = int (length
     (filter (\<lambda>e. ev_user_id e = user_id \<and> ev_read_at e = None \<and> ev_dismissed_at e = None) (ntf_events db)))"

definition set_events :: "(event_row \<Rightarrow> bool) \<Rightarrow> (event_row \<Rightarrow> event_row) \<Rightarrow> int ntx" where
  "set_events P f = (\<lambda>db. Inr (int (length (filter P (ntf_events db))),
     db\<lparr>ntf_events := update_where P f (ntf_events db)\<rparr>))"

definition mark_event_read :: "int \<Rightarrow> int \<Rightarrow> unit ntx" where
  "mark_event_read now event_id =
     bind_tx (set_events (\<lambda>e. ev_id e = event_id) (\<lambda>e. e\<lparr>ev_read_at := Some now\<rparr>)) (\<lambda>_. return_tx ())"

definition mark_all_events_read :: "int \<Rightarrow> int \<Rightarrow> int ntx" where
  "mark_all_events_read now user_id =
     set_events (\<lambda>e. ev_user_id e = user_id \<and> ev_read_at e = None) (\<lambda>e. e\<lparr>ev_read_at := Some now\<rparr>)"

definition dismiss_all_events :: "int \<Rightarrow> int \<Rightarrow> int ntx" where
  "dismiss_all_events now user_id =
     set_events (\<lambda>e. ev_user_id e = user_id \<and> ev_dismissed_at e = None)
       (\<lambda>e. e\<lparr>ev_dismissed_at := Some now,
              ev_read_at := (case ev_read_at e of None \<Rightarrow> Some now | Some t \<Rightarrow> Some t)\<rparr>)"

definition repo_dismiss_event :: "int \<Rightarrow> int \<Rightarrow> unit ntx" where
  "repo_dismiss_event now event_id =
     bind_tx (set_events (\<lambda>e. ev_id e = event_id) (\<lambda>e. e\<lparr>ev_dismissed_at := Some now\<rparr>)) (\<lambda>_. return_tx ())"

definition repo_record_delivery :: "int \<Rightarrow> int \<Rightarrow> string \<Rightarrow> string \<Rightarrow> string option \<Rightarrow> unit ntx" where
  "repo_record_delivery now event_id channel status error_message = (\<lambda>db.
     let here = (\<lambda>d. dl_event_id d = event_id \<and> dl_channel d = channel);
         delivered = (if status = ''delivered'' then Some now else None)
     in if fetch_event_by_id event_id db = None
        then Inl (Repo (ForeignKeyViolationError ''delivery_log_event_id_fkey'' ''notifications.delivery_log''))
        else if has_row here (ntf_deliveries db)
        then Inr ((), db\<lparr>ntf_deliveries := update_where here
               (\<lambda>d. d\<lparr>dl_status := status, dl_delivered_at := delivered, dl_error_message := error_message\<rparr>)
               (ntf_deliveries db)\<rparr>)
        else Inr ((), db\<lparr>ntf_deliveries := ntf_deliveries db @ [\<lparr>dl_event_id = event_id, dl_channel = channel,
               dl_status = status, dl_attempted_at = Some now, dl_delivered_at = delivered,
               dl_error_message = error_message\<rparr>]\<rparr>))"

definition fetch_preferences :: "int \<Rightarrow> ndb \<Rightarrow> preference_row list" where
  "fetch_preferences user_id db = filter (\<lambda>p. pr_user_id p = user_id) (ntf_preferences db)"

definition upsert_preference :: "int \<Rightarrow> string \<Rightarrow> string \<Rightarrow> bool \<Rightarrow> unit ntx" where
  "upsert_preference user_id event_type channel enabled = (\<lambda>db.
     let here = (\<lambda>p. pr_user_id p = user_id \<and> pr_event_type p = event_type \<and> pr_channel p = channel)
     in if \<not> user_exists user_id (ntf_econ db)
        then Inl (Repo (ForeignKeyViolationError ''preferences_user_id_fkey'' ''notifications.preferences''))
        else if has_row here (ntf_preferences db)
        then Inr ((), db\<lparr>ntf_preferences := update_where here (\<lambda>p. p\<lparr>pr_enabled := enabled\<rparr>) (ntf_preferences db)\<rparr>)
        else Inr ((), db\<lparr>ntf_preferences := ntf_preferences db @ [\<lparr>pr_user_id = user_id, pr_event_type = event_type,
               pr_channel = channel, pr_enabled = enabled\<rparr>]\<rparr>))"

end
