(* ===== verification/Notify_Service.thy ===== *)
theory Notify_Service
  imports Notify_Db
begin

section \<open>The notifications service\<close>

text \<open>\<open>apps/api/services/notifications_service.py\<close>, one definition per method.\<close>

subsection \<open>Preferences\<close>

text \<open>A dictionary filled row by row: the last row with a key wins.\<close>

definition explicit_preference :: "preference_row list \<Rightarrow> string \<Rightarrow> string \<Rightarrow> bool option" where
  "explicit_preference rows event_type channel =
     map_of (rev (map (\<lambda>p. ((pr_event_type p, pr_channel p), pr_enabled p)) rows)) (event_type, channel)"

definition get_preferences :: "int \<Rightarrow> ndb \<Rightarrow> preferences_response list" where
  "get_preferences user_id db =
     (let rows = fetch_preferences user_id db
      in map (\<lambda>(event_type, name). \<lparr>pf_event_type = name, pf_channels = map (\<lambda>c. (channel_value c,
             case explicit_preference rows name (channel_value c) of
               Some b \<Rightarrow> b | None \<Rightarrow> c \<in> set (event_type_default_channels event_type))) all_channels\<rparr>) event_types)"

definition get_enabled_channels :: "int \<Rightarrow> string \<Rightarrow> ndb \<Rightarrow> string list" where
  "get_enabled_channels user_id event_type db =
     (let prefs = filter (\<lambda>p. pr_event_type p = event_type) (fetch_preferences user_id db);
          defaults = (case event_type_of event_type of Some t \<Rightarrow> event_type_default_channels t | None \<Rightarrow> [])
      in map channel_value (filter (\<lambda>c. case explicit_preference prefs event_type (channel_value c) of
           Some b \<Rightarrow> b | None \<Rightarrow> c \<in> set defaults) all_channels))"

definition should_deliver :: "int \<Rightarrow> string \<Rightarrow> string \<Rightarrow> ndb \<Rightarrow> bool" where
  "should_deliver user_id event_type channel db \<longleftrightarrow> channel \<in> set (get_enabled_channels user_id event_type db)"

text \<open>A foreign key on the user is reported as a missing user.\<close>

definition or_missing_user :: "int \<Rightarrow> 'a nio \<Rightarrow> 'a nio" where
  "or_missing_user user_id m = catch_io m (\<lambda>e. case e of
      Repo (ForeignKeyViolationError c t) \<Rightarrow>
        if sublist ''user_id'' c then raise_io (User (UserNotFoundError user_id)) else raise_io e
    | _ \<Rightarrow> raise_io e)"

definition check_user :: "int \<Rightarrow> unit nio" where
  "check_user user_id = bind_io (atomically (read_tx (\<lambda>db. user_exists user_id (ntf_econ db))))
     (\<lambda>found. if found then return_io () else raise_io (User (UserNotFoundError user_id)))"

definition update_preference :: "int \<Rightarrow> string \<Rightarrow> string \<Rightarrow> bool \<Rightarrow> unit nio" where
  "update_preference user_id event_type channel enabled =
     bind_io (check_user user_id) (\<lambda>_.
     or_missing_user user_id (atomically (upsert_preference user_id event_type channel enabled)))"

definition bulk_update_preferences :: "int \<Rightarrow> (string \<times> string \<times> bool) list \<Rightarrow> unit nio" where
  "bulk_update_preferences user_id preferences =
     bind_io (check_user user_id) (\<lambda>_.
     for_io preferences (\<lambda>(event_type, channel, enabled). update_preference user_id event_type channel enabled))"

subsection \<open>Events\<close>

text \<open>An empty dictionary of metadata is falsy and comes back as none.\<close>

definition row_to_event_response :: "event_row \<Rightarrow> event_response" where
  "row_to_event_response e =
     \<lparr>er_id = ev_id e, er_user_id = ev_user_id e, er_event_type = ev_event_type e, er_title = ev_title e,
      er_body = ev_body e, er_metadata = (if ev_metadata e = Some [] then None else ev_metadata e),
      er_created_at = ev_created_at e, er_read_at = ev_read_at e, er_dismissed_at = ev_dismissed_at e\<rparr>"

definition discord_user_id_lower_limit :: int where
  "discord_user_id_lower_limit = 1000000000000000"

definition discord_channels :: "string list \<Rightarrow> string list" where
  "discord_channels channels = filter (\<lambda>c. c = channel_value DISCORD_DM \<or> c = channel_value DISCORD_PING) channels"

definition delivery_of :: "create_request \<Rightarrow> event_response \<Rightarrow> string list \<Rightarrow> delivery_event" where
  "delivery_of data event channels =
     \<lparr>de_event_id = er_id event, de_user_id = nc_user_id data, de_event_type = nc_event_type data,
      de_title = nc_title data, de_body = nc_body data, de_discord_message = nc_discord_message data,
      de_metadata = nc_metadata data, de_channels = channels\<rparr>"

definition create_and_dispatch :: "env \<Rightarrow> int \<Rightarrow> bool \<Rightarrow> create_request \<Rightarrow> event_response nio" where
  "create_and_dispatch E job_id pytest data =
     bind_io (or_missing_user (nc_user_id data) (atomically (insert_event (env_now E) data))) (\<lambda>event_id.
     bind_io (atomically (read_tx (fetch_event_by_id event_id))) (\<lambda>row. case row of
        None \<Rightarrow> raise_io (Py (RuntimeError ''Failed to fetch newly created notification event''))
      | Some r \<Rightarrow>
        let event = row_to_event_response r in
        bind_io (atomically (read_tx (get_enabled_channels (nc_user_id data) (nc_event_type data)))) (\<lambda>channels.
        let discord = discord_channels channels in
        if discord \<noteq> [] \<and> discord_user_id_lower_limit \<le> nc_user_id data
        then bind_io (ntf_base (publish_message E job_id pytest ''api.notification.delivery''
               (NotificationDelivery (delivery_of data event discord)) None)) (\<lambda>_. return_io event)
        else return_io event)))"

definition get_user_events :: "(nat \<Rightarrow> nat) \<Rightarrow> int \<Rightarrow> bool \<Rightarrow> nat \<Rightarrow> nat \<Rightarrow> ndb \<Rightarrow> event_response list" where
  "get_user_events ties user_id unread_only limit offset db =
     map row_to_event_response (fetch_user_events ties user_id unread_only limit offset db)"

definition get_unread_count :: "int \<Rightarrow> ndb \<Rightarrow> int" where
  "get_unread_count = fetch_unread_count"

definition mark_read :: "env \<Rightarrow> int \<Rightarrow> unit nio" where
  "mark_read E event_id = atomically (mark_event_read (env_now E) event_id)"

definition mark_all_read :: "env \<Rightarrow> int \<Rightarrow> int nio" where
  "mark_all_read E user_id = atomically (mark_all_events_read (env_now E) user_id)"

definition dismiss_all :: "env \<Rightarrow> int \<Rightarrow> int nio" where
  "dismiss_all E user_id = atomically (dismiss_all_events (env_now E) user_id)"

definition dismiss_event :: "env \<Rightarrow> int \<Rightarrow> unit nio" where
  "dismiss_event E event_id = atomically (repo_dismiss_event (env_now E) event_id)"

definition record_delivery_result :: "env \<Rightarrow> int \<Rightarrow> string \<Rightarrow> string \<Rightarrow> string option \<Rightarrow> unit nio" where
  "record_delivery_result E event_id channel status error_message =
     catch_io (atomically (repo_record_delivery (env_now E) event_id channel status error_message)) (\<lambda>e. case e of
       Repo (ForeignKeyViolationError c t) \<Rightarrow>
         if sublist ''event_id'' c then raise_io (Notify (NotificationEventNotFoundError event_id)) else raise_io e
     | _ \<Rightarrow> raise_io e)"

end
