(* ===== verification/Notify_Rules.thy ===== *)
theory Notify_Rules
  imports Notify_Service
begin

section \<open>Preferences as a table, and the calls\<close>

text \<open>
  The table of preferences as the interface its client relies on: a lookup knows each assignment and
  nothing else. The calls of the service as a step relation, and what no call undoes.
\<close>

subsection \<open>The interface of a table\<close>

locale assignments =
  fixes lookup :: "'s \<Rightarrow> 'k \<Rightarrow> 'v option" and assign :: "'k \<Rightarrow> 'v \<Rightarrow> 's \<Rightarrow> 's"
  assumes lookup_assign: "lookup (assign k v s) j = (if j = k then Some v else lookup s j)"
begin

definition effective :: "('k \<Rightarrow> 'v) \<Rightarrow> 's \<Rightarrow> 'k \<Rightarrow> 'v" where
  "effective d s k = (case lookup s k of Some v \<Rightarrow> v | None \<Rightarrow> d k)"

lemma effective_assign: "effective d (assign k v s) j = (if j = k then v else effective d s j)"
  by (simp add: effective_def lookup_assign)

text \<open>Of many assignments the last to a key counts.\<close>

lemma effective_assigns:
  "effective d (fold (\<lambda>(k, v). assign k v) kvs s) j =
     (case map_of (rev kvs) j of Some v \<Rightarrow> v | None \<Rightarrow> effective d s j)"
proof (induction kvs arbitrary: s)
  case (Cons kv kvs)
  obtain k v where "kv = (k, v)" by fastforce
  with Cons.IH [of "assign k v s"] show ?case
    by (simp add: effective_assign map_add_def split: option.splits)
qed simp

end

subsection \<open>The table of preferences\<close>

type_synonym preference_key = "int \<times> string \<times> string"

definition preference_key :: "preference_row \<Rightarrow> preference_key" where
  "preference_key p = (pr_user_id p, pr_event_type p, pr_channel p)"

definition stored_preference :: "preference_row list \<Rightarrow> preference_key \<Rightarrow> bool option" where
  "stored_preference rows = map_of (rev (map (\<lambda>p. (preference_key p, pr_enabled p)) rows))"

definition store_preference :: "preference_key \<Rightarrow> bool \<Rightarrow> preference_row list \<Rightarrow> preference_row list" where
  "store_preference k b rows =
     (if has_row (\<lambda>p. preference_key p = k) rows
      then update_where (\<lambda>p. preference_key p = k) (\<lambda>p. p\<lparr>pr_enabled := b\<rparr>) rows
      else rows @ [\<lparr>pr_user_id = fst k, pr_event_type = fst (snd k), pr_channel = snd (snd k), pr_enabled = b\<rparr>])"

lemma stored_preference_simps:
  "stored_preference [] j = None"
  "stored_preference (p # rows) j = (case stored_preference rows j of Some b \<Rightarrow> Some b
     | None \<Rightarrow> if preference_key p = j then Some (pr_enabled p) else None)"
  by (auto simp: stored_preference_def map_add_def split: option.splits)

lemma stored_preference_None: "stored_preference rows j = None \<longleftrightarrow> \<not> has_row (\<lambda>p. preference_key p = j) rows"
  by (auto simp: stored_preference_def map_of_eq_None_iff has_row_iff image_image)

lemma stored_preference_update:
  "stored_preference (update_where (\<lambda>p. preference_key p = k) (\<lambda>p. p\<lparr>pr_enabled := b\<rparr>) rows) j =
     (if j = k then map_option (\<lambda>_. b) (stored_preference rows j) else stored_preference rows j)"
  by (induction rows)
    (auto simp: stored_preference_simps update_where_def preference_key_def split: option.splits)

lemma stored_preference_append:
  "stored_preference (rows @ [p]) j = (if preference_key p = j then Some (pr_enabled p) else stored_preference rows j)"
  by (simp add: stored_preference_def)

interpretation prefs: assignments stored_preference store_preference
proof
  show "stored_preference (store_preference k v s) j = (if j = k then Some v else stored_preference s j)" for k v s j
  proof (cases "has_row (\<lambda>p. preference_key p = k) s")
    case True
    then obtain b where "stored_preference s k = Some b" using stored_preference_None by (metis option.exhaust)
    with True show ?thesis by (simp add: store_preference_def stored_preference_update)
  next
    case False
    then show ?thesis
      by (cases k) (simp add: store_preference_def stored_preference_append preference_key_def)
  qed
qed

subsection \<open>Preferences and delivery\<close>

definition default_of :: "preference_key \<Rightarrow> bool" where
  "default_of = (\<lambda>(u, e, c). case event_type_of e of None \<Rightarrow> False
     | Some t \<Rightarrow> c \<in> channel_value ` set (event_type_default_channels t))"

lemma explicit_stored: "explicit_preference (fetch_preferences u db) e c = stored_preference (ntf_preferences db) (u, e, c)"
proof -
  have "explicit_preference (filter (\<lambda>p. pr_user_id p = u) rows) e c = stored_preference rows (u, e, c)" for rows
    by (induction rows)
      (auto simp: explicit_preference_def stored_preference_def preference_key_def map_add_def split: option.splits)
  then show ?thesis by (simp add: fetch_preferences_def)
qed

lemma explicit_event_type:
  "explicit_preference (filter (\<lambda>p. pr_event_type p = e) rows) e c = explicit_preference rows e c"
  by (induction rows) (auto simp: explicit_preference_def map_add_def split: option.splits)

lemma channel_value_inj: "channel_value c = channel_value d \<longleftrightarrow> c = d"
  by (cases c; cases d) (simp_all add: channel_value_def)

lemma all_channels_UNIV: "set all_channels = UNIV"
  using notification_channel.exhaust by (auto simp: all_channels_def)

lemma should_deliver_effective:
  "should_deliver u e (channel_value c) db = prefs.effective default_of (ntf_preferences db) (u, e, channel_value c)"
proof -
  have "should_deliver u e (channel_value c) db \<longleftrightarrow>
      (case stored_preference (ntf_preferences db) (u, e, channel_value c) of Some b \<Rightarrow> b
       | None \<Rightarrow> c \<in> set (case event_type_of e of Some t \<Rightarrow> event_type_default_channels t | None \<Rightarrow> []))"
    by (auto simp: should_deliver_def get_enabled_channels_def Let_def explicit_event_type explicit_stored
        all_channels_UNIV channel_value_inj image_iff split: option.splits)
  also have "\<dots> \<longleftrightarrow> prefs.effective default_of (ntf_preferences db) (u, e, channel_value c)"
    unfolding prefs.effective_def default_of_def
    by (auto simp: channel_value_inj image_iff split: option.splits)
  finally show ?thesis .
qed

lemma should_deliver_other: "c \<notin> range channel_value \<Longrightarrow> \<not> should_deliver u e c db"
  by (auto simp: should_deliver_def get_enabled_channels_def Let_def)

lemma event_types_known: "(t, name) \<in> set event_types \<Longrightarrow> event_type_of name = Some t"
proof -
  have "list_all (\<lambda>(t, name). event_type_of name = Some t) event_types" by code_simp
  then show "(t, name) \<in> set event_types \<Longrightarrow> event_type_of name = Some t" by (auto simp: list_all_iff)
qed

subsection \<open>An update\<close>

lemma upsert_preference_run:
  "upsert_preference u e c b db = (if user_exists u (ntf_econ db)
     then Inr ((), db\<lparr>ntf_preferences := store_preference (u, e, c) b (ntf_preferences db)\<rparr>)
     else Inl (Repo (ForeignKeyViolationError ''preferences_user_id_fkey'' ''notifications.preferences'')))"
  by (simp add: upsert_preference_def store_preference_def preference_key_def Let_def)

lemma update_preference_run:
  "update_preference u e c b w = (if user_exists u (ntf_econ (wdb w))
     then (Inr (), w\<lparr>wdb := (wdb w)\<lparr>ntf_preferences := store_preference (u, e, c) b (ntf_preferences (wdb w))\<rparr>\<rparr>)
     else (Inl (User (UserNotFoundError u)), w))"
  by (simp add: update_preference_def check_user_def or_missing_user_def catch_io_def upsert_preference_run
      bind_io_def atomically_def)

lemma update_preferences_run:
  assumes "user_exists u (ntf_econ (wdb w))"
  shows "for_io ps (\<lambda>(e, c, b). update_preference u e c b) w = (Inr (),
     w\<lparr>wdb := (wdb w)\<lparr>ntf_preferences := fold (\<lambda>(k, b). store_preference k b)
       (map (\<lambda>(e, c, b). ((u, e, c), b)) ps) (ntf_preferences (wdb w))\<rparr>\<rparr>)"
  using assms
proof (induction ps arbitrary: w)
  case (Cons p ps)
  obtain e c b where p: "p = (e, c, b)" by (metis prod.collapse)
  let ?w = "w\<lparr>wdb := (wdb w)\<lparr>ntf_preferences := store_preference (u, e, c) b (ntf_preferences (wdb w))\<rparr>\<rparr>"
  have "update_preference u e c b w = (Inr (), ?w)" using Cons.prems by (simp add: update_preference_run)
  with Cons.IH [of ?w] Cons.prems show ?case by (simp add: p bind_io_def)
qed simp

subsection \<open>The calls\<close>

inductive notify_step :: "nworld \<Rightarrow> nworld \<Rightarrow> bool" where
  dispatch_call: "notify_step w (snd (create_and_dispatch E j pytest data w))"
| read_call: "notify_step w (snd (mark_read E i w))"
| read_all_call: "notify_step w (snd (mark_all_read E u w))"
| dismiss_call: "notify_step w (snd (dismiss_event E i w))"
| dismiss_all_call: "notify_step w (snd (dismiss_all E u w))"
| record_call: "notify_step w (snd (record_delivery_result E i c s m w))"
| preference_call: "notify_step w (snd (update_preference u e c b w))"
| preferences_call: "notify_step w (snd (bulk_update_preferences u ps w))"

inductive_cases notify_stepE: "notify_step w w'"

definition notify_reach :: "nworld \<Rightarrow> nworld \<Rightarrow> bool" where
  "notify_reach = notify_step\<^sup>*\<^sup>*"

text \<open>What happens to one event, and to the table.\<close>

definition advanced :: "event_row \<Rightarrow> event_row \<Rightarrow> bool" where
  "advanced e e' \<longleftrightarrow> (\<exists>r d. e' = e\<lparr>ev_read_at := r, ev_dismissed_at := d\<rparr>
     \<and> (ev_read_at e \<noteq> None \<longrightarrow> r \<noteq> None) \<and> (ev_dismissed_at e \<noteq> None \<longrightarrow> d \<noteq> None))"

definition grown :: "event_row list \<Rightarrow> event_row list \<Rightarrow> bool" where
  "grown es es' \<longleftrightarrow> (\<exists>old new. es' = old @ new \<and> list_all2 advanced es old)"

lemma advanced_refl: "advanced e e"
  unfolding advanced_def by (intro exI [of _ "ev_read_at e"] exI [of _ "ev_dismissed_at e"]) simp

lemma advanced_trans: "advanced a b \<Longrightarrow> advanced b c \<Longrightarrow> advanced a c"
  by (fastforce simp: advanced_def)

lemma grown_refl: "grown es es"
  by (auto simp: grown_def intro: exI [of _ "[]"] list_all2_refl advanced_refl)

lemma grown_trans:
  assumes "grown a b" "grown b c"
  shows "grown a c"
proof -
  from assms obtain b1 b2 c1 c2 where b: "b = b1 @ b2" "list_all2 advanced a b1"
    and c: "c = c1 @ c2" "list_all2 advanced b c1" by (auto simp: grown_def)
  from c(2) b(1) obtain d1 d2 where d: "c1 = d1 @ d2" "list_all2 advanced b1 d1"
    by (auto simp: list_all2_append1)
  have "list_all2 advanced a d1" by (rule list_all2_trans [OF advanced_trans b(2) d(2)])
  then show ?thesis unfolding grown_def c(1) d(1) by (intro exI [of _ d1] exI [of _ "d2 @ c2"]) simp
qed

lemma grown_append: "grown es (es @ new)"
  by (auto simp: grown_def intro: list_all2_refl advanced_refl)

lemma grown_update: "(\<And>e. advanced e (f e)) \<Longrightarrow> grown es (update_where P f es)"
  unfolding grown_def update_where_def
  by (intro exI [of _ "map (\<lambda>r. if P r then f r else r) es"] exI [of _ "[]"])
    (simp add: list_all2_map2 list_all2_same advanced_refl)

text \<open>Two conditions every call keeps, seen from a start \<open>es\<close>.\<close>

definition events_kept :: "event_row list \<Rightarrow> ndb \<Rightarrow> bool" where
  "events_kept es db \<longleftrightarrow> grown es (ntf_events db) \<and> distinct (map ev_id (ntf_events db))
     \<and> (\<forall>e \<in> set (ntf_events db). ev_id e < next_event_id db)"

lemma update_where_ids: "(\<And>e. ev_id (f e) = ev_id e) \<Longrightarrow> map ev_id (update_where P f es) = map ev_id es"
  by (simp add: update_where_def)

lemma update_where_ids_set: "(\<And>e. ev_id (f e) = ev_id e) \<Longrightarrow> ev_id ` set (update_where P f es) = ev_id ` set es"
  using update_where_ids [of f P es] by (metis image_set)

lemma keeps_set_events:
  assumes "\<And>e. advanced e (f e)"
  shows "keeps (events_kept es) (set_events P f)"
proof (rule keepsI)
  fix s x s' assume kept: "events_kept es s" and run: "set_events P f s = Inr (x, s')"
  have ids: "ev_id (f e) = ev_id e" for e using assms [of e] by (auto simp: advanced_def)
  from run have s': "s' = s\<lparr>ntf_events := update_where P f (ntf_events s)\<rparr>" by (auto simp: set_events_def)
  have "\<forall>i \<in> ev_id ` set (ntf_events s). i < next_event_id s" using kept by (auto simp: events_kept_def)
  then have "\<forall>i \<in> ev_id ` set (ntf_events s'). i < next_event_id s'" by (simp add: s' update_where_ids_set ids)
  then show "events_kept es s'"
    using kept grown_trans [OF _ grown_update [OF assms]] by (auto simp: events_kept_def s' update_where_ids ids)
qed

lemma keeps_insert_event: "keeps (events_kept es) (insert_event now data)"
  by (rule keepsI)
    (auto simp: insert_event_def events_kept_def split: if_splits intro: grown_trans [OF _ grown_append])

lemma keeps_ntf_base: "(\<And>e db. P db \<Longrightarrow> P (db\<lparr>ntf_econ := e\<rparr>)) \<Longrightarrow> keeps_io P (ntf_base m)"
  by (auto simp: keeps_io_def ntf_base_def zoom_io_def split: prod.splits)

lemma advanced_updates:
  "advanced e (e\<lparr>ev_read_at := Some t\<rparr>)" "advanced e (e\<lparr>ev_dismissed_at := Some t\<rparr>)"
  "advanced e (e\<lparr>ev_dismissed_at := Some t, ev_read_at := (case ev_read_at e of None \<Rightarrow> Some t | Some r \<Rightarrow> Some r)\<rparr>)"
  unfolding advanced_def
    apply (rule exI [of _ "Some t"], rule exI [of _ "ev_dismissed_at e"], cases e, simp)
   apply (rule exI [of _ "ev_read_at e"], rule exI [of _ "Some t"], cases e, simp)
  apply (rule exI [of _ "case ev_read_at e of None \<Rightarrow> Some t | Some r \<Rightarrow> Some r"], rule exI [of _ "Some t"], cases e,
      simp split: option.splits)
  done

lemma keeps_events_kept [keeps_rules]:
  "keeps (events_kept es) (mark_event_read now i)" "keeps (events_kept es) (mark_all_events_read now u)"
  "keeps (events_kept es) (dismiss_all_events now u)" "keeps (events_kept es) (repo_dismiss_event now i)"
  "keeps (events_kept es) (repo_record_delivery now i c s m)" "keeps (events_kept es) (upsert_preference u e c b)"
proof -
  show "keeps (events_kept es) (mark_event_read now i)" "keeps (events_kept es) (mark_all_events_read now u)"
    "keeps (events_kept es) (dismiss_all_events now u)" "keeps (events_kept es) (repo_dismiss_event now i)"
    unfolding mark_event_read_def mark_all_events_read_def dismiss_all_events_def repo_dismiss_event_def
    by (intro keeps_bind keeps_basic keeps_set_events advanced_updates)+
  show "keeps (events_kept es) (repo_record_delivery now i c s m)" "keeps (events_kept es) (upsert_preference u e c b)"
    by (rule keepsI, auto simp: repo_record_delivery_def upsert_preference_def events_kept_def Let_def split: if_splits)+
qed

lemmas notify_calls = create_and_dispatch_def mark_read_def mark_all_read_def dismiss_event_def dismiss_all_def
  record_delivery_result_def update_preference_def bulk_update_preferences_def check_user_def or_missing_user_def

lemma keeps_io_repo_error [keeps_rules]:
  "(\<And>c t. keeps_io P (f c t)) \<Longrightarrow> (\<And>e. keeps_io P (g e)) \<Longrightarrow>
     keeps_io P (case e of Repo (ForeignKeyViolationError c t) \<Rightarrow> f c t | _ \<Rightarrow> g e)"
  by (cases e) (auto split: repository_error.splits)

lemma notify_step_kept: "notify_step w w' \<Longrightarrow> events_kept es (wdb w) \<Longrightarrow> events_kept es (wdb w')"
  by (erule notify_stepE; hypsubst; rule keeps_ioD, unfold notify_calls,
      (intro keeps_rules keeps_insert_event keeps_ntf_base | simp add: events_kept_def)+)

lemma notify_reach_kept: "notify_reach w w' \<Longrightarrow> events_kept es (wdb w) \<Longrightarrow> events_kept es (wdb w')"
  unfolding notify_reach_def by (induction rule: rtranclp_induct) (auto intro: notify_step_kept)

end
