(* ===== verification/Notify_Props.thy ===== *)
theory Notify_Props
  imports Notify_Rules Samples
begin

section \<open>Properties of the notifications\<close>

definition sample_ndb :: ndb where
  "sample_ndb = \<lparr>ntf_econ = sample_db\<lparr>users := [\<lparr>usr_id = 2000000000000000, usr_nickname = None, usr_global_name = None,
       usr_coins = 0\<rparr>]\<rparr>,
     ntf_events = [], ntf_preferences = [], ntf_deliveries = [], next_event_id = 1\<rparr>"

abbreviation sample_user :: int where
  "sample_user \<equiv> 2000000000000000"

subsection \<open>Preferences\<close>

text \<open>C22: an update of preferences takes effect exactly as asked: for a user that exists it succeeds, and afterwards
  a notification is delivered on a channel if the last entry for that kind and channel says so, or, without an
  entry, if it was delivered before; nothing else of the database changes and nothing is sent. For a missing user
  it fails and changes nothing.\<close>

theorem preferences_take_effect:
  "case bulk_update_preferences u ps w of
     (Inl e, w') \<Rightarrow> e = User (UserNotFoundError u) \<and> w' = w \<and> \<not> user_exists u (ntf_econ (wdb w))
   | (Inr _, w') \<Rightarrow> user_exists u (ntf_econ (wdb w)) \<and> (\<exists>rows. w' = w\<lparr>wdb := (wdb w)\<lparr>ntf_preferences := rows\<rparr>\<rparr>)
       \<and> (\<forall>u' e c. should_deliver u' e (channel_value c) (wdb w') =
            (case map_of (rev (map (\<lambda>(e, c, b). ((u, e, c), b)) ps)) (u', e, channel_value c) of
               Some b \<Rightarrow> b | None \<Rightarrow> should_deliver u' e (channel_value c) (wdb w)))"
proof (cases "user_exists u (ntf_econ (wdb w))")
  case True
  then have "bulk_update_preferences u ps w = for_io ps (\<lambda>(e, c, b). update_preference u e c b) w"
    by (simp add: bulk_update_preferences_def check_user_def)
  with update_preferences_run [OF True] show ?thesis
    using True by (auto simp: should_deliver_effective prefs.effective_assigns split: option.split)
qed (simp add: bulk_update_preferences_def check_user_def bind_io_def atomically_def)

text \<open>The preferences a user is shown are those that decide: one row for each kind of notification in order, one
  entry for each channel, true exactly when a notification of that kind is delivered on that channel.\<close>

lemma preferences_shown_decide:
  "map pf_event_type (get_preferences u db) = map snd event_types
   \<and> (\<forall>p \<in> set (get_preferences u db). pf_channels p =
        map (\<lambda>c. (channel_value c, should_deliver u (pf_event_type p) (channel_value c) db)) all_channels)"
proof
  show "map pf_event_type (get_preferences u db) = map snd event_types"
    by (simp add: get_preferences_def Let_def split_def)
  show "\<forall>p \<in> set (get_preferences u db). pf_channels p =
        map (\<lambda>c. (channel_value c, should_deliver u (pf_event_type p) (channel_value c) db)) all_channels"
  proof
    fix p assume "p \<in> set (get_preferences u db)"
    then obtain t name where known: "(t, name) \<in> set event_types" and p: "pf_event_type p = name"
      "pf_channels p = map (\<lambda>c. (channel_value c, case explicit_preference (fetch_preferences u db) name (channel_value c) of
               Some b \<Rightarrow> b | None \<Rightarrow> c \<in> set (event_type_default_channels t))) all_channels"
      by (auto simp: get_preferences_def Let_def)
    then show "pf_channels p =
        map (\<lambda>c. (channel_value c, should_deliver u (pf_event_type p) (channel_value c) db)) all_channels"
      by (auto simp: should_deliver_effective prefs.effective_def default_of_def event_types_known [OF known]
          explicit_stored channel_value_inj split: option.splits)
  qed
qed

lemma preferences_shown_decide_witness:
  "map pf_event_type (get_preferences 1 sample_ndb) = map snd event_types
   \<and> pf_channels (hd (get_preferences 1 sample_ndb)) = [(''discord_dm'', True), (''discord_ping'', False), (''web'', True)]"
proof
  show "map pf_event_type (get_preferences 1 sample_ndb) = map snd event_types"
    by (rule conjunct1 [OF preferences_shown_decide])
  show "pf_channels (hd (get_preferences 1 sample_ndb)) = [(''discord_dm'', True), (''discord_ping'', False), (''web'', True)]"
    by code_simp
qed

subsection \<open>Dispatch\<close>

lemma user_constraint: "sublist ''user_id'' ''events_user_id_fkey''"
  unfolding sublist_def by (intro exI [of _ "''events_''"] exI [of _ "''_fkey''"]) simp

lemma insert_event_run:
  "user_exists (nc_user_id data) (ntf_econ db) \<Longrightarrow> insert_event now data db = Inr (next_event_id db,
     db\<lparr>next_event_id := next_event_id db + 1,
       ntf_events := ntf_events db @ [\<lparr>ev_id = next_event_id db, ev_user_id = nc_user_id data,
         ev_event_type = nc_event_type data, ev_title = nc_title data, ev_body = nc_body data,
         ev_metadata = nc_metadata data, ev_created_at = now, ev_read_at = None, ev_dismissed_at = None\<rparr>]\<rparr>)"
  by (simp add: insert_event_def)

lemma delivery_sent:
  assumes "env_broker E = BrokerUp" "\<not> has_row (\<lambda>j. jb_id j = jid) (jobs (ntf_econ (wdb w)))"
  shows "ntf_base (publish_message E jid False ''api.notification.delivery'' p None) w = (Inr (job_status jid Queued),
     w\<lparr>wdb := (wdb w)\<lparr>ntf_econ := (ntf_econ (wdb w))\<lparr>jobs := jobs (ntf_econ (wdb w)) @ [\<lparr>jb_id = jid,
         jb_action = ''api.notification.delivery''\<rparr>]\<rparr>\<rparr>,
       wmq := wmq w @ [\<lparr>ms_routing_key = ''api.notification.delivery'', ms_payload = p, ms_correlation_id = jid,
         ms_message_id = JobKey jid\<rparr>]\<rparr>)"
  using assms
  by (simp add: ntf_base_def zoom_io_def publish_message_def ignore_idempotency_def catch_io_def bind_io_def
      atomically_def insert_job_def check_tx_def bind_tx_def)

text \<open>C23: a dispatched notification is stored and sent as its preferences say: for a missing user the call fails
  with nothing changed; otherwise one unread event with a fresh id is appended, and, with the broker up, one message
  with the enabled Discord channels follows if there are any and the account is a Discord account, else none.\<close>

theorem dispatch_outcome:
  assumes "env_broker E = BrokerUp" "\<not> has_row (\<lambda>j. jb_id j = jid) (jobs (ntf_econ (wdb w)))"
    and "\<forall>e \<in> set (ntf_events (wdb w)). ev_id e < next_event_id (wdb w)"
  shows "case create_and_dispatch E jid False data w of
     (Inl e, w') \<Rightarrow> e = User (UserNotFoundError (nc_user_id data)) \<and> w' = w \<and> \<not> user_exists (nc_user_id data) (ntf_econ (wdb w))
   | (Inr r, w') \<Rightarrow> er_id r = next_event_id (wdb w) \<and> er_read_at r = None
       \<and> map ev_id (ntf_events (wdb w')) = map ev_id (ntf_events (wdb w)) @ [er_id r]
       \<and> (let discord = discord_channels (get_enabled_channels (nc_user_id data) (nc_event_type data) (wdb w)) in
          wmq w' = wmq w @ (if discord \<noteq> [] \<and> discord_user_id_lower_limit \<le> nc_user_id data
            then [\<lparr>ms_routing_key = ''api.notification.delivery'', ms_payload = NotificationDelivery (delivery_of data r discord),
                   ms_correlation_id = jid, ms_message_id = JobKey jid\<rparr>] else []))"
proof (cases "user_exists (nc_user_id data) (ntf_econ (wdb w))")
  case False
  then have "insert_event (env_now E) data (wdb w) = Inl (Repo (ForeignKeyViolationError ''events_user_id_fkey'' ''notifications.events''))"
    by (simp add: insert_event_def)
  with False show ?thesis
    by (simp add: create_and_dispatch_def or_missing_user_def catch_io_def bind_io_def atomically_def user_constraint)
next
  case True
  let ?i = "next_event_id (wdb w)"
  let ?row = "\<lparr>ev_id = ?i, ev_user_id = nc_user_id data, ev_event_type = nc_event_type data, ev_title = nc_title data,
     ev_body = nc_body data, ev_metadata = nc_metadata data, ev_created_at = env_now E, ev_read_at = None, ev_dismissed_at = None\<rparr>"
  let ?db = "(wdb w)\<lparr>next_event_id := ?i + 1, ntf_events := ntf_events (wdb w) @ [?row]\<rparr>"
  have fresh: "first_where (\<lambda>e. ev_id e = ?i) (ntf_events (wdb w)) = None"
    using assms(3) by (auto simp: first_where_None)
  then have "fetch_event_by_id ?i ?db = Some ?row" by (simp add: fetch_event_by_id_def first_where_append)
  moreover have "get_enabled_channels u e ?db = get_enabled_channels u e (wdb w)" for u e
    by (simp add: get_enabled_channels_def fetch_preferences_def)
  moreover have "\<not> has_row (\<lambda>j. jb_id j = jid) (jobs (ntf_econ ?db))" using assms(2) by simp
  note sent = delivery_sent [OF assms(1), of jid "w\<lparr>wdb := ?db\<rparr>", simplified, OF assms(2)]
  ultimately show ?thesis
    using insert_event_run [OF True, of "env_now E"]
    by (simp add: create_and_dispatch_def or_missing_user_def catch_io_def bind_io_def atomically_def Let_def sent
        row_to_event_response_def)
qed


definition sample_request :: "int \<Rightarrow> create_request" where
  "sample_request u = \<lparr>nc_user_id = u, nc_event_type = ''quest_complete'', nc_title = ''Done'', nc_body = ''Quest done'',
     nc_discord_message = None, nc_metadata = None\<rparr>"

definition sample_nworld :: nworld where
  "sample_nworld = \<lparr>wdb = sample_ndb, wmq = []\<rparr>"

lemma sample_dispatch_ready:
  "env_broker sample_env = BrokerUp" "\<not> has_row (\<lambda>j. jb_id j = 77) (jobs (ntf_econ (wdb sample_nworld)))"
  "\<forall>e \<in> set (ntf_events (wdb sample_nworld)). ev_id e < next_event_id (wdb sample_nworld)"
  by (simp_all add: sample_env_def sample_nworld_def sample_ndb_def sample_db_def)

lemma sample_channels:
  "discord_channels (get_enabled_channels sample_user ''quest_complete'' sample_ndb) = [''discord_dm'', ''discord_ping'']"
  by code_simp

theorem dispatch_outcome_witness:
  "(\<exists>r w'. create_and_dispatch sample_env 77 False (sample_request sample_user) sample_nworld = (Inr r, w')
      \<and> er_id r = 1 \<and> length (wmq w') = 1)
   \<and> (\<exists>w'. create_and_dispatch sample_env 77 False (sample_request 5) sample_nworld
        = (Inl (User (UserNotFoundError 5)), w') \<and> w' = sample_nworld)"
proof
  note outcome = dispatch_outcome [OF sample_dispatch_ready]
  have known: "user_exists sample_user (ntf_econ (wdb sample_nworld))" "\<not> user_exists 5 (ntf_econ (wdb sample_nworld))"
    by (simp_all add: sample_nworld_def sample_ndb_def user_exists_def)
  show "\<exists>r w'. create_and_dispatch sample_env 77 False (sample_request sample_user) sample_nworld = (Inr r, w')
      \<and> er_id r = 1 \<and> length (wmq w') = 1"
    using outcome [of "sample_request sample_user"] known(1) sample_channels
    by (auto simp: sample_request_def sample_nworld_def sample_ndb_def Let_def discord_user_id_lower_limit_def
        split: prod.splits sum.splits)
  show "\<exists>w'. create_and_dispatch sample_env 77 False (sample_request 5) sample_nworld
        = (Inl (User (UserNotFoundError 5)), w') \<and> w' = sample_nworld"
    using outcome [of "sample_request 5"] known(2) by (auto simp: create_and_dispatch_def or_missing_user_def
        insert_event_def sample_request_def catch_io_def bind_io_def atomically_def user_constraint)
qed

subsection \<open>The tray\<close>

text \<open>C24: no sequence of calls loses or rewrites a notification: every event stays in its place with its text, a read
  one stays read, a dismissed one stays dismissed, and ids stay unique.\<close>

theorem notifications_kept:
  assumes "notify_reach w w'" "distinct (map ev_id (ntf_events (wdb w)))"
    and "\<forall>e \<in> set (ntf_events (wdb w)). ev_id e < next_event_id (wdb w)"
  shows "(\<exists>old new. ntf_events (wdb w') = old @ new \<and> list_all2 advanced (ntf_events (wdb w)) old)
     \<and> distinct (map ev_id (ntf_events (wdb w')))"
  using notify_reach_kept [OF assms(1), of "ntf_events (wdb w)"] assms(2,3)
  by (simp add: events_kept_def grown_refl) (simp add: grown_def)

theorem notifications_kept_witness:
  "distinct (map ev_id (ntf_events (wdb (snd (mark_all_read sample_env sample_user
     (snd (create_and_dispatch sample_env 77 False (sample_request sample_user) sample_nworld)))))))"
proof -
  let ?w = "snd (create_and_dispatch sample_env 77 False (sample_request sample_user) sample_nworld)"
  have "notify_reach sample_nworld (snd (mark_all_read sample_env sample_user ?w))"
    unfolding notify_reach_def using dispatch_call [of sample_nworld] read_all_call [of ?w]
    by (rule converse_rtranclp_into_rtranclp [OF _ r_into_rtranclp])
  from notifications_kept [OF this] show ?thesis by (simp add: sample_nworld_def sample_ndb_def)
qed

text \<open>The tray agrees with its counter and empties: the counter is the number of unread notifications listed;
  marking all read reports at least that many and leaves none unread; dismissing all reports exactly as many as were
  listed and leaves the tray empty; neither touches what other users see.\<close>

lemma tray_empties:
  "get_unread_count u db = int (length (get_user_events ties u True (length (ntf_events db)) 0 db))
   \<and> (case mark_all_events_read now u db of Inl e \<Rightarrow> False | Inr (n, db') \<Rightarrow>
        get_unread_count u db \<le> n \<and> get_unread_count u db' = 0
        \<and> (\<forall>v. v \<noteq> u \<longrightarrow> get_unread_count v db' = get_unread_count v db))
   \<and> (case dismiss_all_events now u db of Inl e \<Rightarrow> False | Inr (n, db') \<Rightarrow>
        n = int (length (get_user_events ties u False (length (ntf_events db)) 0 db))
        \<and> get_user_events ties u False limit offset db' = []
        \<and> (\<forall>v. v \<noteq> u \<longrightarrow> get_unread_count v db' = get_unread_count v db))"
proof -
  have listed: "length (get_user_events ties u b (length (ntf_events db)) 0 db) =
      length (filter (\<lambda>e. ev_user_id e = u \<and> ev_dismissed_at e = None \<and> (b \<longrightarrow> ev_read_at e = None)) (ntf_events db))" for b
    by (simp add: get_user_events_def fetch_user_events_def min_absorb2)
  have unread: "length (filter (\<lambda>e. ev_user_id e = u \<and> ev_read_at e = None \<and> ev_dismissed_at e = None) es)
      \<le> length (filter (\<lambda>e. ev_user_id e = u \<and> ev_read_at e = None) es)" for es
    by (induction es) auto
  have others: "length (filter P (update_where Q f es)) = length (filter P es)"
    if "\<And>e. Q e \<Longrightarrow> P e = False" "\<And>e. Q e \<Longrightarrow> P (f e) = False" for P Q f and es :: "event_row list"
    using that by (induction es) (auto simp: update_where_def)
  have gone: "filter P (update_where Q f es) = []"
    if "\<And>e. P e \<Longrightarrow> Q e" "\<And>e. Q e \<Longrightarrow> \<not> P (f e)" for P Q f and es :: "event_row list"
    using that by (auto simp: update_where_def filter_empty_conv)
  have "get_unread_count u db = int (length (get_user_events ties u True (length (ntf_events db)) 0 db))"
    unfolding listed by (simp add: get_unread_count_def fetch_unread_count_def conj_ac)
  moreover have "case mark_all_events_read now u db of Inl e \<Rightarrow> False | Inr (n, db') \<Rightarrow>
        get_unread_count u db \<le> n \<and> get_unread_count u db' = 0
        \<and> (\<forall>v. v \<noteq> u \<longrightarrow> get_unread_count v db' = get_unread_count v db)"
    using unread [of "ntf_events db"]
    by (auto simp: mark_all_events_read_def set_events_def get_unread_count_def fetch_unread_count_def
        intro!: gone others)
  moreover have "case dismiss_all_events now u db of Inl e \<Rightarrow> False | Inr (n, db') \<Rightarrow>
        n = int (length (get_user_events ties u False (length (ntf_events db)) 0 db))
        \<and> get_user_events ties u False limit offset db' = []
        \<and> (\<forall>v. v \<noteq> u \<longrightarrow> get_unread_count v db' = get_unread_count v db)"
    unfolding listed
    by (auto simp: dismiss_all_events_def set_events_def get_unread_count_def fetch_unread_count_def get_user_events_def
        fetch_user_events_def gone intro!: others)
  ultimately show ?thesis by blast
qed

lemma tray_empties_witness:
  "get_unread_count 1 sample_ndb = 0 \<and> get_unread_count 1 sample_ndb
     = int (length (get_user_events id 1 True (length (ntf_events sample_ndb)) 0 sample_ndb))"
  using tray_empties [of 1 sample_ndb id 5 0 0] by (simp add: get_unread_count_def fetch_unread_count_def sample_ndb_def)

text \<open>A dismissed but unread notification is no longer counted, yet marking all read reports it.\<close>

lemma dismissed_still_reported:
  "let w = snd (dismiss_event sample_env 1 (snd (create_and_dispatch sample_env 77 True (sample_request sample_user) sample_nworld)))
   in get_unread_count sample_user (wdb w) = 0 \<and> fst (mark_all_read sample_env sample_user w) = Inr 1"
  by (simp add: create_and_dispatch_def or_missing_user_def catch_io_def bind_io_def atomically_def insert_event_def
      sample_nworld_def sample_ndb_def sample_request_def user_exists_def fetch_event_by_id_def Let_def
      discord_channels_def ntf_base_def zoom_io_def publish_message_def ignore_idempotency_def dismiss_event_def
      repo_dismiss_event_def set_events_def bind_tx_def update_where_def get_unread_count_def fetch_unread_count_def
      mark_all_read_def mark_all_events_read_def)

end
