(* ===== verification/Playtest_Db.thy ===== *)
theory Playtest_Db
  imports Lootbox_Service
begin

section \<open>The playtest repository\<close>

text \<open>
  \<open>apps/api/repository/playtest_repository.py\<close> on the tables of migration 0001, with the trigger that
  derives a map's difficulty from its number and the trigger that asks voters for a verified completion.
  The columns of \<open>core.maps\<close> that playtests write are rows of their own, beside the economy's.
\<close>

subsection \<open>Tables\<close>

datatype playtest_status = PlaytestApprovedStatus | PlaytestInProgress | PlaytestRejected

record playtest_map_row =
  py_map_id :: int
  py_playtesting :: playtest_status
  py_hidden :: bool
  py_raw_difficulty :: rat

record creator_row =
  cr_map_id :: int
  cr_user_id :: int
  cr_is_primary :: bool

record username_row =
  un_user_id :: int
  un_username :: string
  un_is_primary :: bool

record playtest_meta_row =
  pm_id :: int
  pm_thread_id :: "int option"
  pm_map_id :: int
  pm_verification_id :: "int option"
  pm_initial_difficulty :: rat
  pm_created_at :: int
  pm_updated_at :: int
  pm_completed :: bool

record vote_row =
  vt_user_id :: int
  vt_map_id :: int
  vt_thread_id :: int
  vt_difficulty :: rat

record pdb =
  pt_econ :: econ
  pt_maps :: "playtest_map_row list"
  pt_creators :: "creator_row list"
  pt_usernames :: "username_row list"
  pt_metas :: "playtest_meta_row list"
  pt_votes :: "vote_row list"

type_synonym pworld = "(pdb, message) world"
type_synonym 'a pltx = "(err, pdb, 'a) tx"
type_synonym 'a pio = "(err, pworld, 'a) io"

definition pt_base :: "'a eio \<Rightarrow> 'a pio" where
  "pt_base = zoom_io pt_econ (\<lambda>e db. db\<lparr>pt_econ := e\<rparr>)"

subsection \<open>Triggers and column types\<close>

definition difficulty_steps :: "(string \<times> int \<times> int) list" where
  "difficulty_steps =
     [(''Easy -'', 0, 118), (''Easy'', 118, 176), (''Easy +'', 176, 235),
      (''Medium -'', 235, 294), (''Medium'', 294, 353), (''Medium +'', 353, 412),
      (''Hard -'', 412, 471), (''Hard'', 471, 529), (''Hard +'', 529, 588),
      (''Very Hard -'', 588, 647), (''Very Hard'', 647, 706), (''Very Hard +'', 706, 765),
      (''Extreme -'', 765, 824), (''Extreme'', 824, 882), (''Extreme +'', 882, 941)]"

definition set_maps_difficulty_from_raw :: "rat \<Rightarrow> pg_error + string" where
  "set_maps_difficulty_from_raw raw =
     (case first_where (\<lambda>(d, lo, hi). hundredths lo \<le> raw \<and> raw < hundredths hi) difficulty_steps of
        Some (d, _) \<Rightarrow> Inr d
      | None \<Rightarrow> if hundredths 941 \<le> raw \<and> raw \<le> 10 then Inr ''Hell'' else Inl NumericOutOfRange)"

text \<open>A float parameter for a \<open>numeric(4, 2)\<close> column: its text, rounded, if it has room.\<close>

definition to_numeric_4_2 :: "rat \<Rightarrow> pg_error + rat" where
  "to_numeric_4_2 x = (let v = numeric_2 (float_text x) in if \<bar>v\<bar> < 100 then Inr v else Inl NumericOutOfRange)"

definition verified_completion :: "int \<Rightarrow> int \<Rightarrow> pdb \<Rightarrow> bool" where
  "verified_completion user_id map_id db \<longleftrightarrow>
     has_row (\<lambda>c. cp_user_id c = user_id \<and> cp_map_id c = map_id \<and> cp_verified c \<and> \<not> cp_legacy c)
       (completions (pt_econ db))"

text \<open>
  \<open>avg\<close> of a \<open>numeric(4, 2)\<close> column: the quotient of the sum and the count, with at least sixteen
  significant digits by the position and value of the leading base-10000 digits.
\<close>

fun numeric_weight :: "nat \<Rightarrow> nat" where
  "numeric_weight n = (if n < 10000 then 0 else Suc (numeric_weight (n div 10000)))"

declare numeric_weight.simps [simp del]

definition numeric_head :: "rat \<Rightarrow> int \<times> int" where
  "numeric_head x = (if x = 0 then (0, 0) else if x < 1 then (- 1, \<lfloor>x * 10000\<rfloor>)
     else let w = numeric_weight (nat \<lfloor>x\<rfloor>) in (int w, \<lfloor>x / 10000 ^ w\<rfloor>))"

definition avg_scale :: "rat \<Rightarrow> nat \<Rightarrow> nat" where
  "avg_scale x n = (case (numeric_head x, numeric_head (of_nat n)) of
     ((w1, d1), (w2, d2)) \<Rightarrow> nat (max 2 (16 - 4 * (w1 - w2 - (if d1 \<le> d2 then 1 else 0)))))"

definition round_scale :: "nat \<Rightarrow> rat \<Rightarrow> rat" where
  "round_scale s x = sgn x * of_int \<lfloor>\<bar>x\<bar> * 10 ^ s + 1 / 2\<rfloor> / 10 ^ s"

definition numeric_avg :: "rat list \<Rightarrow> rat" where
  "numeric_avg xs = round_scale (avg_scale (sum_list xs) (length xs)) (sum_list xs / of_nat (length xs))"

subsection \<open>Playtests\<close>

definition meta_of_thread :: "int \<Rightarrow> pdb \<Rightarrow> playtest_meta_row option" where
  "meta_of_thread thread_id db = first_where (\<lambda>m. pm_thread_id m = Some thread_id) (pt_metas db)"

definition pt_map_code :: "int \<Rightarrow> pdb \<Rightarrow> string option" where
  "pt_map_code map_id db =
     (case first_where (\<lambda>m. mp_id m = map_id) (maps_tbl (pt_econ db)) of None \<Rightarrow> None | Some m \<Rightarrow> mp_code m)"

record playtest_response =
  pl_id :: int
  pl_thread_id :: "int option"
  pl_code :: "string option"
  pl_verification_id :: "int option"
  pl_initial_difficulty :: rat
  pl_created_at :: int
  pl_updated_at :: int
  pl_completed :: bool

definition fetch_playtest :: "int \<Rightarrow> pdb \<Rightarrow> playtest_response option" where
  "fetch_playtest thread_id db = map_option (\<lambda>m. \<lparr>pl_id = pm_id m, pl_thread_id = pm_thread_id m,
      pl_code = pt_map_code (pm_map_id m) db, pl_verification_id = pm_verification_id m,
      pl_initial_difficulty = fl (pm_initial_difficulty m), pl_created_at = pm_created_at m,
      pl_updated_at = pm_updated_at m, pl_completed = pm_completed m\<rparr>) (meta_of_thread thread_id db)"

text \<open>
  A row that changes its thread: threads are unique, and the votes refer to the old one.
\<close>

definition thread_change :: "playtest_meta_row \<Rightarrow> int \<Rightarrow> pdb \<Rightarrow> pg_error option" where
  "thread_change m t db =
     (if pm_thread_id m = Some t then None
      else if has_row (\<lambda>m'. pm_thread_id m' = Some t) (pt_metas db) then Some (UniqueViolation ''meta_thread_id_key'')
      else if has_row (\<lambda>v. pm_thread_id m = Some (vt_thread_id v)) (pt_votes db)
      then Some (ForeignKeyViolation ''votes_playtest_thread_id_fkey'')
      else None)"

record playtest_patch =
  pp_thread_id :: "int option"
  pp_verification_id :: "int option"
  pp_completed :: "bool option"
  pp_thread_creation_status :: "string option"
  pp_thread_creation_failure_reason :: "string option option"
  pp_thread_creation_last_attempt_at :: "int option"

definition set_meta :: "(playtest_meta_row \<Rightarrow> bool) \<Rightarrow> int \<Rightarrow> (playtest_meta_row \<Rightarrow> playtest_meta_row) \<Rightarrow> unit pltx" where
  "set_meta P now f = write_tx (\<lambda>db. db\<lparr>pt_metas := update_where P (\<lambda>m. (f m)\<lparr>pm_updated_at := now\<rparr>) (pt_metas db)\<rparr>)"

definition patch_meta :: "playtest_patch \<Rightarrow> playtest_meta_row \<Rightarrow> playtest_meta_row" where
  "patch_meta p m = m\<lparr>pm_thread_id := (case pp_thread_id p of None \<Rightarrow> pm_thread_id m | Some t \<Rightarrow> Some t),
     pm_verification_id := (case pp_verification_id p of None \<Rightarrow> pm_verification_id m | Some v \<Rightarrow> Some v),
     pm_completed := (case pp_completed p of None \<Rightarrow> pm_completed m | Some c \<Rightarrow> c)\<rparr>"

definition update_playtest_meta :: "int \<Rightarrow> int \<Rightarrow> playtest_patch \<Rightarrow> unit pltx" where
  "update_playtest_meta now thread_id p = (\<lambda>db.
     if pp_thread_creation_status p \<noteq> None \<or> pp_thread_creation_failure_reason p \<noteq> None
        \<or> pp_thread_creation_last_attempt_at p \<noteq> None
     then Inl (Pg (UndefinedColumn ''thread_creation''))
     else case (meta_of_thread thread_id db, pp_thread_id p) of
         (Some m, Some t) \<Rightarrow> (case thread_change m t db of
             Some e \<Rightarrow> Inl (Pg e)
           | None \<Rightarrow> set_meta (\<lambda>m. pm_thread_id m = Some thread_id) now (patch_meta p) db)
       | _ \<Rightarrow> set_meta (\<lambda>m. pm_thread_id m = Some thread_id) now (patch_meta p) db)"

definition associate_thread :: "int \<Rightarrow> int \<Rightarrow> int \<Rightarrow> unit pltx" where
  "associate_thread now playtest_id thread_id = (\<lambda>db.
     case first_where (\<lambda>m. pm_id m = playtest_id) (pt_metas db) of
       None \<Rightarrow> Inr ((), db)
     | Some m \<Rightarrow> (case thread_change m thread_id db of
           Some e \<Rightarrow> Inl (Pg e)
         | None \<Rightarrow> set_meta (\<lambda>m. pm_id m = playtest_id) now (\<lambda>m. m\<lparr>pm_thread_id := Some thread_id\<rparr>) db))"

subsection \<open>Votes\<close>

record vote_with_user =
  vu_user_id :: int
  vu_name :: string
  vu_difficulty :: rat

definition voter_name :: "user_row \<Rightarrow> pdb \<Rightarrow> string" where
  "voter_name u db =
     (case first_where (\<lambda>n. un_user_id n = usr_id u \<and> un_is_primary n) (pt_usernames db) of
        Some n \<Rightarrow> un_username n
      | None \<Rightarrow> (case usr_nickname u of Some n \<Rightarrow> n
          | None \<Rightarrow> (case usr_global_name u of Some n \<Rightarrow> n | None \<Rightarrow> ''Unknown Name'')))"

definition fetch_playtest_votes :: "int \<Rightarrow> pdb \<Rightarrow> vote_with_user list" where
  "fetch_playtest_votes thread_id db =
     concat (map (\<lambda>v. map (\<lambda>u. \<lparr>vu_user_id = vt_user_id v, vu_name = voter_name u db, vu_difficulty = fl (vt_difficulty v)\<rparr>)
         (filter (\<lambda>u. usr_id u = vt_user_id v) (users (pt_econ db))))
       (filter (\<lambda>v. vt_thread_id v = thread_id \<and> has_row (\<lambda>m. mp_id m = vt_map_id v) (maps_tbl (pt_econ db))) (pt_votes db)))"

definition same_vote :: "int \<Rightarrow> int \<Rightarrow> int \<Rightarrow> vote_row \<Rightarrow> bool" where
  "same_vote user_id map_id thread_id v \<longleftrightarrow>
     vt_user_id v = user_id \<and> vt_map_id v = map_id \<and> vt_thread_id v = thread_id"

definition cast_vote_row :: "int \<Rightarrow> int \<Rightarrow> rat \<Rightarrow> unit pltx" where
  "cast_vote_row thread_id user_id difficulty = (\<lambda>db.
     case meta_of_thread thread_id db of
       None \<Rightarrow> Inr ((), db)
     | Some m \<Rightarrow> (case to_numeric_4_2 difficulty of
         Inl e \<Rightarrow> Inl (Pg e)
       | Inr d \<Rightarrow>
           if \<not> verified_completion user_id (pm_map_id m) db
           then Inl (Repo (CheckConstraintViolationError ''difficulty_range'' ''playtests.votes''))
           else if d < 0 \<or> 10 < d
           then Inl (Repo (CheckConstraintViolationError ''difficulty_range'' ''playtests.votes''))
           else if has_row (same_vote user_id (pm_map_id m) thread_id) (pt_votes db)
           then Inr ((), db\<lparr>pt_votes := update_where (same_vote user_id (pm_map_id m) thread_id)
                  (\<lambda>v. v\<lparr>vt_difficulty := d\<rparr>) (pt_votes db)\<rparr>)
           else if \<not> user_exists user_id (pt_econ db) then Inl (Pg (ForeignKeyViolation ''votes_user_id_fkey''))
           else Inr ((), db\<lparr>pt_votes := pt_votes db @ [\<lparr>vt_user_id = user_id, vt_map_id = pm_map_id m,
                  vt_thread_id = thread_id, vt_difficulty = d\<rparr>]\<rparr>)))"

definition check_vote_exists :: "int \<Rightarrow> int \<Rightarrow> pdb \<Rightarrow> bool" where
  "check_vote_exists thread_id user_id db =
     has_row (\<lambda>v. vt_thread_id v = thread_id \<and> vt_user_id v = user_id) (pt_votes db)"

definition delete_vote_rows :: "int \<Rightarrow> int \<Rightarrow> unit pltx" where
  "delete_vote_rows thread_id user_id = write_tx (\<lambda>db. db\<lparr>pt_votes :=
     filter (\<lambda>v. \<not> (vt_thread_id v = thread_id \<and> vt_user_id v = user_id)) (pt_votes db)\<rparr>)"

definition delete_all_vote_rows :: "int \<Rightarrow> unit pltx" where
  "delete_all_vote_rows thread_id = write_tx (\<lambda>db. db\<lparr>pt_votes :=
     filter (\<lambda>v. vt_thread_id v \<noteq> thread_id) (pt_votes db)\<rparr>)"

definition thread_votes :: "int \<Rightarrow> pdb \<Rightarrow> rat list" where
  "thread_votes thread_id db = map vt_difficulty (filter (\<lambda>v. vt_thread_id v = thread_id) (pt_votes db))"

definition get_average_difficulty :: "int \<Rightarrow> pdb \<Rightarrow> rat option" where
  "get_average_difficulty thread_id db =
     (let xs = thread_votes thread_id db in if xs = [] then None else Some (fl (numeric_avg xs)))"

subsection \<open>Decisions\<close>

definition get_map_id_from_thread :: "int \<Rightarrow> pdb \<Rightarrow> int option" where
  "get_map_id_from_thread thread_id db = map_option pm_map_id (meta_of_thread thread_id db)"

definition get_primary_creator :: "int \<Rightarrow> pdb \<Rightarrow> int option" where
  "get_primary_creator map_id db =
     map_option cr_user_id (first_where (\<lambda>c. cr_map_id c = map_id \<and> cr_is_primary c) (pt_creators db))"

text \<open>
  \<open>UPDATE core.maps\<close> with a new number: the trigger sets the difficulty's name, a column of the
  economy's rows.
\<close>

definition approve_map :: "int \<Rightarrow> rat \<Rightarrow> unit pltx" where
  "approve_map map_id difficulty = (\<lambda>db.
     if \<not> has_row (\<lambda>m. py_map_id m = map_id) (pt_maps db) then Inr ((), db)
     else case to_numeric_4_2 difficulty of
       Inl e \<Rightarrow> Inl (Pg e)
     | Inr raw \<Rightarrow> (case set_maps_difficulty_from_raw raw of
         Inl e \<Rightarrow> Inl (Pg e)
       | Inr name \<Rightarrow> Inr ((), db\<lparr>
           pt_maps := update_where (\<lambda>m. py_map_id m = map_id)
             (\<lambda>m. m\<lparr>py_playtesting := PlaytestApprovedStatus, py_raw_difficulty := raw\<rparr>) (pt_maps db),
           pt_econ := (pt_econ db)\<lparr>maps_tbl := update_where (\<lambda>m. mp_id m = map_id)
             (\<lambda>m. m\<lparr>mp_difficulty := name\<rparr>) (maps_tbl (pt_econ db))\<rparr>\<rparr>)))"

definition complete_meta :: "int \<Rightarrow> int \<Rightarrow> unit pltx" where
  "complete_meta now thread_id = set_meta (\<lambda>m. pm_thread_id m = Some thread_id) now (\<lambda>m. m\<lparr>pm_completed := True\<rparr>)"

definition approve_playtest :: "int \<Rightarrow> int \<Rightarrow> int \<Rightarrow> rat \<Rightarrow> unit pltx" where
  "approve_playtest now map_id thread_id average_difficulty =
     bind_tx (approve_map map_id average_difficulty) (\<lambda>_. complete_meta now thread_id)"

definition force_accept_playtest :: "int \<Rightarrow> int \<Rightarrow> int \<Rightarrow> rat \<Rightarrow> unit pltx" where
  "force_accept_playtest now map_id thread_id raw_difficulty =
     bind_tx (approve_map map_id raw_difficulty) (\<lambda>_. complete_meta now thread_id)"

definition force_deny_playtest :: "int \<Rightarrow> int \<Rightarrow> int \<Rightarrow> unit pltx" where
  "force_deny_playtest now map_id thread_id =
     bind_tx (write_tx (\<lambda>db. db\<lparr>pt_maps := update_where (\<lambda>m. py_map_id m = map_id)
        (\<lambda>m. m\<lparr>py_playtesting := PlaytestRejected, py_hidden := True\<rparr>) (pt_maps db)\<rparr>))
     (\<lambda>_. complete_meta now thread_id)"

definition delete_completions_for_playtest :: "int \<Rightarrow> unit pltx" where
  "delete_completions_for_playtest thread_id = write_tx (\<lambda>db. case meta_of_thread thread_id db of
      None \<Rightarrow> db
    | Some m \<Rightarrow> db\<lparr>pt_econ := (pt_econ db)\<lparr>completions :=
        filter (\<lambda>c. \<not> (cp_map_id c = pm_map_id m \<and> pm_created_at m \<le> cp_inserted_at c)) (completions (pt_econ db))\<rparr>\<rparr>)"

end
