(* ===== verification/Playtest_Service.thy ===== *)
theory Playtest_Service
  imports Playtest_Db
begin

section \<open>The playtest service\<close>

text \<open>
  \<open>apps/api/services/playtest_service.py\<close>, one definition per method. A decision commits before it is
  published.
\<close>

definition get_playtest :: "int \<Rightarrow> playtest_response pio" where
  "get_playtest thread_id = bind_io (atomically (read_tx (fetch_playtest thread_id))) (\<lambda>row. case row of
      None \<Rightarrow> raise_io (Playtests (PlaytestNotFoundError thread_id)) | Some r \<Rightarrow> return_io r)"

text \<open>\<open>round(x, 2)\<close> rounds the double itself, half to even.\<close>

definition get_votes :: "int \<Rightarrow> pdb \<Rightarrow> vote_with_user list \<times> rat" where
  "get_votes thread_id db =
     (let votes = fetch_playtest_votes thread_id db; values = map vu_difficulty votes
      in (votes, if values = [] then 0 else fl (dec_round 2 (fl (py_sum values / of_nat (length values))))))"

definition cast_vote :: "env \<Rightarrow> int \<Rightarrow> bool \<Rightarrow> int \<Rightarrow> int \<Rightarrow> rat \<Rightarrow> job_status_response pio" where
  "cast_vote E job_id pytest thread_id user_id difficulty =
     bind_io (catch_io (atomically (cast_vote_row thread_id user_id difficulty)) (\<lambda>e. case e of
         Repo (CheckConstraintViolationError c t) \<Rightarrow> raise_io (Playtests VoteConstraintError) | _ \<Rightarrow> raise_io e))
     (\<lambda>_. pt_base (publish_message E job_id pytest ''api.playtest.vote.cast''
        (PlaytestVoteCast \<lparr>vc_thread_id = thread_id, vc_voter_id = user_id, vc_difficulty_value = difficulty\<rparr>) None))"

definition delete_vote :: "env \<Rightarrow> int \<Rightarrow> bool \<Rightarrow> int \<Rightarrow> int \<Rightarrow> job_status_response pio" where
  "delete_vote E job_id pytest thread_id user_id =
     bind_io (atomically (read_tx (check_vote_exists thread_id user_id))) (\<lambda>exists.
     if \<not> exists then raise_io (Playtests (VoteNotFoundError thread_id user_id))
     else bind_io (atomically (delete_vote_rows thread_id user_id)) (\<lambda>_.
       pt_base (publish_message E job_id pytest ''api.playtest.vote.remove''
         (PlaytestVoteRemoved \<lparr>vr_thread_id = thread_id, vr_voter_id = user_id\<rparr>) None)))"

definition delete_all_votes :: "int \<Rightarrow> unit pio" where
  "delete_all_votes thread_id = atomically (delete_all_vote_rows thread_id)"

definition unset_patch :: playtest_patch where
  "unset_patch = \<lparr>pp_thread_id = None, pp_verification_id = None, pp_completed = None, pp_thread_creation_status = None,
     pp_thread_creation_failure_reason = None, pp_thread_creation_last_attempt_at = None\<rparr>"

definition edit_playtest_meta :: "env \<Rightarrow> int \<Rightarrow> playtest_patch \<Rightarrow> unit pio" where
  "edit_playtest_meta E thread_id data =
     (if data = unset_patch then raise_io (Playtests InvalidPatchError)
      else atomically (update_playtest_meta (env_now E) thread_id data))"

definition associate_playtest_meta :: "env \<Rightarrow> int \<Rightarrow> int \<Rightarrow> playtest_response pio" where
  "associate_playtest_meta E playtest_id thread_id =
     bind_io (atomically (associate_thread (env_now E) playtest_id thread_id)) (\<lambda>_. get_playtest thread_id)"

definition decision_key :: "string \<Rightarrow> int \<Rightarrow> string option" where
  "decision_key name thread_id = Some (''playtest:'' @ name @ '':'' @ str_of_int thread_id)"

definition require_map :: "int \<Rightarrow> int pltx" where
  "require_map thread_id = bind_tx (read_tx (get_map_id_from_thread thread_id)) (\<lambda>m. case m of
      None \<Rightarrow> raise_tx (Playtests (PlaytestNotFoundError thread_id)) | Some i \<Rightarrow> return_tx i)"

definition approve_tx :: "env \<Rightarrow> int \<Rightarrow> (rat \<times> int option \<times> string option) pltx" where
  "approve_tx E thread_id =
     bind_tx (require_map thread_id) (\<lambda>map_id.
     bind_tx (read_tx (get_average_difficulty thread_id)) (\<lambda>average. case average of
       None \<Rightarrow> raise_tx (Playtests (PlaytestStateError ''Cannot approve playtest with no votes.''))
     | Some difficulty \<Rightarrow>
         bind_tx (approve_playtest (env_now E) map_id thread_id difficulty) (\<lambda>_.
         bind_tx (read_tx (get_primary_creator map_id)) (\<lambda>creator.
         bind_tx (read_tx (pt_map_code map_id)) (\<lambda>code.
         return_tx (difficulty, creator, code))))))"

definition approve :: "env \<Rightarrow> int \<Rightarrow> bool \<Rightarrow> int \<Rightarrow> int \<Rightarrow> job_status_response pio" where
  "approve E job_id pytest thread_id verifier_id =
     bind_io (atomically (approve_tx E thread_id)) (\<lambda>(difficulty, creator, code). case code of
       None \<Rightarrow> raise_io (Playtests (PlaytestStateError ''Map code not found for playtest.''))
     | Some c \<Rightarrow> (case creator of
         None \<Rightarrow> raise_io (Playtests (PlaytestStateError ''Primary creator not found for map.''))
       | Some u \<Rightarrow> bind_io (lift_io (lift_py (convert_raw_difficulty_to_difficulty_all difficulty))) (\<lambda>name.
           pt_base (publish_message E job_id pytest ''api.playtest.approve''
             (PlaytestApproved \<lparr>pa_verifier_id = verifier_id, pa_difficulty = name, pa_thread_id = thread_id,
                pa_primary_creator_id = u, pa_code = c\<rparr>) (decision_key ''approve'' thread_id)))))"

definition force_accept_tx :: "env \<Rightarrow> int \<Rightarrow> string \<Rightarrow> unit pltx" where
  "force_accept_tx E thread_id difficulty =
     bind_tx (require_map thread_id) (\<lambda>map_id. case map_of difficulty_midpoints difficulty of
       None \<Rightarrow> raise_tx (Py (KeyError difficulty))
     | Some raw \<Rightarrow> force_accept_playtest (env_now E) map_id thread_id raw)"

definition force_accept :: "env \<Rightarrow> int \<Rightarrow> bool \<Rightarrow> int \<Rightarrow> string \<Rightarrow> int \<Rightarrow> job_status_response pio" where
  "force_accept E job_id pytest thread_id difficulty verifier_id =
     bind_io (atomically (force_accept_tx E thread_id difficulty)) (\<lambda>_.
     pt_base (publish_message E job_id pytest ''api.playtest.force_accept''
       (PlaytestForceAccepted \<lparr>fa_difficulty = difficulty, fa_verifier_id = verifier_id, fa_thread_id = thread_id\<rparr>)
       (decision_key ''force_accept'' thread_id)))"

definition force_deny :: "env \<Rightarrow> int \<Rightarrow> bool \<Rightarrow> int \<Rightarrow> int \<Rightarrow> string \<Rightarrow> job_status_response pio" where
  "force_deny E job_id pytest thread_id verifier_id reason =
     bind_io (atomically (bind_tx (require_map thread_id) (\<lambda>map_id. force_deny_playtest (env_now E) map_id thread_id))) (\<lambda>_.
     pt_base (publish_message E job_id pytest ''api.playtest.force_deny''
       (PlaytestForceDenied \<lparr>fd_verifier_id = verifier_id, fd_reason = reason, fd_thread_id = thread_id\<rparr>)
       (decision_key ''force_deny'' thread_id)))"

definition reset_tx :: "int \<Rightarrow> bool \<Rightarrow> bool \<Rightarrow> unit pltx" where
  "reset_tx thread_id remove_votes remove_completions =
     bind_tx (if remove_votes then delete_all_vote_rows thread_id else return_tx ()) (\<lambda>_.
     if remove_completions then delete_completions_for_playtest thread_id else return_tx ())"

definition reset_playtest :: "env \<Rightarrow> int \<Rightarrow> bool \<Rightarrow> int \<Rightarrow> int \<Rightarrow> string \<Rightarrow> bool \<Rightarrow> bool \<Rightarrow> job_status_response pio" where
  "reset_playtest E job_id pytest thread_id verifier_id reason remove_votes remove_completions =
     bind_io (atomically (reset_tx thread_id remove_votes remove_completions)) (\<lambda>_.
     pt_base (publish_message E job_id pytest ''api.playtest.reset''
       (PlaytestReset \<lparr>rs_verifier_id = verifier_id, rs_reason = reason, rs_remove_votes = remove_votes,
          rs_remove_completions = remove_completions, rs_thread_id = thread_id\<rparr>) (decision_key ''reset'' thread_id)))"

end
