(* ===== verification/Playtest_Rules.thy ===== *)
theory Playtest_Rules
  imports Playtest_Service Float_Rules
begin

section \<open>Rules of the playtests\<close>

text \<open>
  Which difficulty a number has, by the tables of the SDK and by the trigger of the database; averages of
  votes; the calls as a step relation and the state they keep.
\<close>

subsection \<open>Difficulties\<close>

definition band_names :: "string list" where
  "band_names = [''Easy -'', ''Easy'', ''Easy +'', ''Medium -'', ''Medium'', ''Medium +'', ''Hard -'', ''Hard'', ''Hard +'',
     ''Very Hard -'', ''Very Hard'', ''Very Hard +'', ''Extreme -'', ''Extreme'', ''Extreme +'', ''Hell'']"

definition band_bounds :: "int list" where
  "band_bounds = [0, 118, 176, 235, 294, 353, 412, 471, 529, 588, 647, 706, 765, 824, 882, 941, 1000]"

text \<open>In consecutive bands a number is in the first band whose lower bound it has reached and whose upper it has not.\<close>

lemma first_band:
  assumes "i < length bs" "bs ! i = (d, lo, hi)" "lo \<le> y" "y < (hi :: rat)"
    and "\<And>j d' lo' hi'. j < i \<Longrightarrow> bs ! j = (d', lo', hi') \<Longrightarrow> hi' \<le> lo"
  shows "first_where (\<lambda>(d, lo, hi). lo \<le> y \<and> y < hi) bs = Some (d, lo, hi)"
  using assms
proof (induction bs arbitrary: i)
  case (Cons b bs)
  show ?case
  proof (cases i)
    case 0
    with Cons.prems show ?thesis by simp
  next
    case (Suc k)
    obtain d' lo' hi' where b: "b = (d', lo', hi')" by (metis prod.collapse)
    then have "hi' \<le> lo" using Cons.prems(5) [of 0] Suc by simp
    with Cons.prems(3) have "\<not> y < hi'" by simp
    moreover have "first_where (\<lambda>(d, lo, hi). lo \<le> y \<and> y < hi) bs = Some (d, lo, hi)"
      by (rule Cons.IH [of k]) (use Cons.prems Suc in fastforce)+
    ultimately show ?thesis by (simp add: b)
  qed
qed simp

lemma band_tables:
  "length difficulty_ranges_all = 16" "length difficulty_steps = 15" "length band_names = 16" "length band_bounds = 17"
  "i < 16 \<Longrightarrow> difficulty_ranges_all ! i = (band_names ! i, fl (hundredths (band_bounds ! i)), fl (hundredths (band_bounds ! Suc i)))"
  "i < 15 \<Longrightarrow> difficulty_steps ! i = (band_names ! i, band_bounds ! i, band_bounds ! Suc i)"
proof -
  have all: "\<forall>i \<in> set [0..<16]. difficulty_ranges_all ! i
      = (band_names ! i, fl (hundredths (band_bounds ! i)), fl (hundredths (band_bounds ! Suc i)))"
    "\<forall>i \<in> set [0..<15]. difficulty_steps ! i = (band_names ! i, band_bounds ! i, band_bounds ! Suc i)"
    by (simp_all add: difficulty_ranges_all_def difficulty_steps_def band_names_def band_bounds_def upt_rec numeral_nat)
  show "length difficulty_ranges_all = 16" "length difficulty_steps = 15" "length band_names = 16" "length band_bounds = 17"
    by (simp_all add: difficulty_ranges_all_def difficulty_steps_def band_names_def band_bounds_def)
  show "i < 16 \<Longrightarrow> difficulty_ranges_all ! i = (band_names ! i, fl (hundredths (band_bounds ! i)), fl (hundredths (band_bounds ! Suc i)))"
    "i < 15 \<Longrightarrow> difficulty_steps ! i = (band_names ! i, band_bounds ! i, band_bounds ! Suc i)"
    using all by auto
qed

lemma band_bounds_mono: "i \<le> j \<Longrightarrow> j < 17 \<Longrightarrow> band_bounds ! i \<le> band_bounds ! j"
proof -
  have "sorted band_bounds" by (simp add: band_bounds_def)
  then show "i \<le> j \<Longrightarrow> j < 17 \<Longrightarrow> band_bounds ! i \<le> band_bounds ! j"
    using band_tables(4) by (auto simp: sorted_iff_nth_mono)
qed

lemma band_bounds_range: "i < 17 \<Longrightarrow> 0 \<le> band_bounds ! i \<and> band_bounds ! i \<le> 1000"
  using band_bounds_mono [of 0 i] band_bounds_mono [of i 16] by (simp add: band_bounds_def)

lemma hundredths_mono: "k \<le> l \<Longrightarrow> hundredths k \<le> hundredths l"
  by (simp add: hundredths_def divide_right_mono)

lemma fl_hundredths_mono: "0 \<le> k \<Longrightarrow> k \<le> l \<Longrightarrow> fl (hundredths k) \<le> fl (hundredths l)"
  using hundredths_mono by (intro fl_mono0) (simp_all add: hundredths_def)

lemma convert_in_band:
  assumes "i < 16" "fl (hundredths (band_bounds ! i)) \<le> y" "y < fl (hundredths (band_bounds ! Suc i))"
  shows "convert_raw_difficulty_to_difficulty_all y = Inr (band_names ! i)"
proof -
  have "first_where (\<lambda>(d, lo, hi). lo \<le> y \<and> y < hi) difficulty_ranges_all
      = Some (band_names ! i, fl (hundredths (band_bounds ! i)), fl (hundredths (band_bounds ! Suc i)))"
  proof (rule first_band [of i, OF _ band_tables(5) assms(2,3)])
    fix j d' lo' hi' assume j: "j < i" "difficulty_ranges_all ! j = (d', lo', hi')"
    then have "hi' = fl (hundredths (band_bounds ! Suc j))" using band_tables(5) [of j] assms(1) by auto
    with j assms(1) band_bounds_mono [of "Suc j" i] band_bounds_range [of "Suc j"]
    show "hi' \<le> fl (hundredths (band_bounds ! i))" by (simp add: fl_hundredths_mono)
  qed (use assms(1) band_tables(1) in simp_all)
  then show ?thesis by (simp add: convert_raw_difficulty_to_difficulty_all_def convert_raw_difficulty_def)
qed

lemma steps_in_band:
  assumes "i < 15" "hundredths (band_bounds ! i) \<le> r" "r < hundredths (band_bounds ! Suc i)"
  shows "set_maps_difficulty_from_raw r = Inr (band_names ! i)"
proof -
  let ?bs = "map (\<lambda>(d, lo, hi). (d, hundredths lo, hundredths hi)) difficulty_steps"
  have nth: "?bs ! j = (band_names ! j, hundredths (band_bounds ! j), hundredths (band_bounds ! Suc j))" if "j < 15" for j
    using that band_tables(2) band_tables(6) [OF that] by simp
  have "first_where (\<lambda>(d, lo, hi). lo \<le> r \<and> r < hi) ?bs
      = Some (band_names ! i, hundredths (band_bounds ! i), hundredths (band_bounds ! Suc i))"
  proof (rule first_band [of i, OF _ nth [OF assms(1)] assms(2,3)])
    fix j d' lo' hi' assume "j < i" "?bs ! j = (d', lo', hi')"
    then have "j < i" "hi' = hundredths (band_bounds ! Suc j)" using nth [of j] assms(1) by auto
    then show "hi' \<le> hundredths (band_bounds ! i)" using assms(1) by (simp add: hundredths_mono band_bounds_mono)
  qed (use assms(1) band_tables(2) in simp)
  moreover have "first_where (\<lambda>(d, lo, hi). lo \<le> r \<and> r < hi) (map (\<lambda>(d, lo, hi). (d, hundredths lo, hundredths hi)) xs)
      = map_option (\<lambda>(d, lo, hi). (d, hundredths lo, hundredths hi))
          (first_where (\<lambda>(d, lo, hi). hundredths lo \<le> r \<and> r < hundredths hi) xs)" for xs :: "(string \<times> int \<times> int) list"
    by (induction xs) auto
  ultimately obtain lo hi where
    "first_where (\<lambda>(d, lo, hi). hundredths lo \<le> r \<and> r < hundredths hi) difficulty_steps = Some (band_names ! i, lo, hi)"
    by auto
  then show ?thesis by (simp add: set_maps_difficulty_from_raw_def)
qed

lemma steps_hell:
  assumes "hundredths 941 \<le> r" "r \<le> 10"
  shows "set_maps_difficulty_from_raw r = Inr ''Hell''"
proof -
  have "first_where (\<lambda>(d, lo, hi). hundredths lo \<le> r \<and> r < hundredths hi) difficulty_steps = None"
    unfolding first_where_None
  proof
    fix b assume "b \<in> set difficulty_steps"
    then obtain j where j: "j < 15" "b = difficulty_steps ! j" using band_tables(2) by (auto simp: in_set_conv_nth)
    have "band_bounds ! Suc j \<le> band_bounds ! 15" using j(1) by (intro band_bounds_mono) auto
    then have "hundredths (band_bounds ! Suc j) \<le> r"
      using assms(1) hundredths_mono by (force simp: band_bounds_def)
    with j band_tables(6) [OF j(1)] show "\<not> (case b of (d, lo, hi) \<Rightarrow> hundredths lo \<le> r \<and> r < hundredths hi)" by simp
  qed
  then show ?thesis using assms by (simp add: set_maps_difficulty_from_raw_def)
qed

lemma band_exists:
  assumes "0 \<le> y" "y < 10"
  shows "\<exists>i < 16. fl (hundredths (band_bounds ! i)) \<le> y \<and> y < fl (hundredths (band_bounds ! Suc i))"
proof (rule ccontr)
  assume none: "\<not> ?thesis"
  have "fl (hundredths (band_bounds ! i)) \<le> y" if "i \<le> 16" for i
    using that
  proof (induction i)
    case 0
    show ?case using assms(1) by (simp add: band_bounds_def hundredths_def)
  next
    case (Suc i)
    then have "i < 16" "fl (hundredths (band_bounds ! i)) \<le> y" by simp_all
    with none show ?case by force
  qed
  from this [of 16] assms(2) show False by (simp add: band_bounds_def hundredths_def fl_numeral)
qed

text \<open>
  The difficulty announced for a number and the one stored with its two decimals: the same, or the next.
\<close>

lemma announced_and_stored:
  assumes "fl y = y" "0 \<le> y" "y \<le> 10"
  shows "\<exists>i j raw. convert_raw_difficulty_to_difficulty_all y = Inr (band_names ! i) \<and> to_numeric_4_2 y = Inr raw
     \<and> 0 \<le> raw \<and> raw \<le> 10 \<and> numeric_2 raw = raw
     \<and> set_maps_difficulty_from_raw raw = Inr (band_names ! j) \<and> i < 16 \<and> j < 16 \<and> (j = i \<or> j = Suc i)"
proof -
  let ?raw = "numeric_2 (float_text y)"
  have ten: "fl (of_int 1000 / 100) = 10" by (simp add: fl_numeral)
  have raw: "0 \<le> ?raw" "?raw \<le> 10"
  proof -
    show "0 \<le> ?raw" using numeric_2_above [OF assms(1,2), of 0] assms(2) by simp
    show "?raw \<le> 10"
    proof (cases "y = 10")
      case True
      have "float_text (10 :: rat) = 10"
      proof -
        have "[0..<400] = 0 # [1..<400]" by (simp add: upt_conv_Cons)
        moreover have "dec_round 0 10 = 10" using round_half_even_int [of 10] by (simp add: dec_round_def)
        ultimately show ?thesis by (simp add: float_text_def fl_numeral)
      qed
      then show ?thesis using True numeric_2_hundredths [of 1000] by simp
    next
      case False
      with assms(3) numeric_2_below [OF assms(1,2), of 1000] ten show ?thesis by simp
    qed
  qed
  then have conv: "to_numeric_4_2 y = Inr ?raw" by (simp add: to_numeric_4_2_def Let_def)
  have idem: "numeric_2 ?raw = ?raw" by simp
  show ?thesis
  proof (cases "y = 10")
    case True
    have "fl (hundredths 941) \<le> y"
      using fl_hundredths_mono [of 941 1000] True by (simp add: hundredths_def fl_numeral)
    then have "hundredths 941 \<le> ?raw" using numeric_2_above [OF assms(1,2), of 941] by (simp add: hundredths_def)
    then have "set_maps_difficulty_from_raw ?raw = Inr ''Hell''" using raw(2) by (rule steps_hell)
    moreover have "convert_raw_difficulty_to_difficulty_all y = Inr ''Hell''"
    proof -
      have "\<not> y < fl (hundredths (band_bounds ! Suc i))" if "i < 16" for i
        using fl_hundredths_mono [of "band_bounds ! Suc i" 1000] band_bounds_range [of "Suc i"] that True
        by (simp add: hundredths_def fl_numeral not_less)
      then have "first_where (\<lambda>(d, lo, hi). lo \<le> y \<and> y < hi) difficulty_ranges_all = None"
        using band_tables(1,5) by (auto simp: first_where_None in_set_conv_nth)
      with True show ?thesis by (simp add: convert_raw_difficulty_to_difficulty_all_def convert_raw_difficulty_def)
    qed
    moreover have "band_names ! 15 = ''Hell''" by (simp add: band_names_def)
    ultimately show ?thesis using conv raw idem by (intro exI [of _ 15] exI [of _ ?raw]) auto
  next
    case False
    with assms band_exists obtain i where i: "i < 16" "fl (hundredths (band_bounds ! i)) \<le> y"
      "y < fl (hundredths (band_bounds ! Suc i))" by force
    have lo: "hundredths (band_bounds ! i) \<le> ?raw"
      using numeric_2_above [OF assms(1,2), of "band_bounds ! i"] i band_bounds_range [of i] by (simp add: hundredths_def)
    have hi: "?raw \<le> hundredths (band_bounds ! Suc i)"
      using numeric_2_below [OF assms(1,2), of "band_bounds ! Suc i"] i band_bounds_range [of "Suc i"] by (simp add: hundredths_def)
    have last: "band_bounds ! 15 = 941" "band_names ! 15 = ''Hell''" by (simp_all add: band_bounds_def band_names_def)
    have hell: "set_maps_difficulty_from_raw r = Inr (band_names ! 15)" if "hundredths (band_bounds ! 15) \<le> r" "r \<le> 10" for r
      using steps_hell that by (simp add: last)
    have "\<exists>j. j < 16 \<and> (j = i \<or> j = Suc i) \<and> set_maps_difficulty_from_raw ?raw = Inr (band_names ! j)"
    proof (cases "i = 15")
      case True
      then show ?thesis using hell [OF _ raw(2)] lo by (intro exI [of _ 15]) simp
    next
      case False
      with i(1) have i15: "i < 15" by simp
      show ?thesis
      proof (cases "?raw < hundredths (band_bounds ! Suc i)")
        case True
        with steps_in_band [OF i15 lo] i show ?thesis by auto
      next
        case False
        with hi have at: "?raw = hundredths (band_bounds ! Suc i)" by simp
        show ?thesis
        proof (cases "Suc i = 15")
          case True
          then show ?thesis using hell [OF _ raw(2)] at by (intro exI [of _ 15]) simp
        next
          case False
          with i15 have "Suc i < 15" by simp
          moreover have "?raw < hundredths (band_bounds ! Suc (Suc i))"
          proof -
            have "\<forall>k \<in> set [0..<16]. band_bounds ! k < band_bounds ! Suc k"
              by (simp add: band_bounds_def upt_rec numeral_nat)
            then have "band_bounds ! Suc i < band_bounds ! Suc (Suc i)" using \<open>Suc i < 15\<close> by auto
            then show ?thesis unfolding at hundredths_def by (simp add: divide_strict_right_mono)
          qed
          ultimately show ?thesis using steps_in_band [of "Suc i" ?raw] at i15 by (intro exI [of _ "Suc i"]) simp
        qed
      qed
    qed
    then show ?thesis using convert_in_band [OF i] conv raw i(1) idem by blast
  qed
qed

text \<open>A number inside a band, a hundredth below its upper bound: announced and stored alike.\<close>

lemma inside_band:
  assumes "i < 16" "band_bounds ! i \<le> k" "k + 1 < band_bounds ! Suc i"
  shows "convert_raw_difficulty_to_difficulty_all (fl (hundredths k)) = Inr (band_names ! i)"
    "\<exists>raw. to_numeric_4_2 (fl (hundredths k)) = Inr raw \<and> set_maps_difficulty_from_raw raw = Inr (band_names ! i)"
proof -
  have range: "0 \<le> band_bounds ! i" "band_bounds ! Suc i \<le> 1000" "0 < band_bounds ! Suc i" "0 \<le> k" "k + 1 \<le> 1000"
    using band_bounds_range [of i] band_bounds_range [of "Suc i"] assms by auto
  let ?y = "fl (hundredths k)"
  have y: "fl ?y = ?y" "0 \<le> ?y" using range(4) by (simp_all add: fl_idem fl_nonneg hundredths_def)
  have lo: "fl (hundredths (band_bounds ! i)) \<le> ?y" using fl_hundredths_mono [OF range(1) assms(2)] .
  have below: "?y < fl (hundredths n)" if "k < n" "n \<le> 1000" for n
  proof -
    have "hundredths k \<le> of_int n / 100 - 1 / 200"
    proof -
      have "(of_int k :: rat) \<le> of_int (n - 1)" using that(1) by simp
      then show ?thesis by (simp add: hundredths_def)
    qed
    then have "?y \<le> fl (of_int n / 100 - 1 / 200)" using range(4) by (intro fl_mono0) (simp_all add: hundredths_def)
    also have "\<dots> < fl (hundredths n)" using fl_gap [of n] that range(4) by (simp add: hundredths_def)
    finally show ?thesis .
  qed
  show "convert_raw_difficulty_to_difficulty_all ?y = Inr (band_names ! i)"
    using lo below [of "band_bounds ! Suc i"] assms(3) range(2) by (intro convert_in_band [OF assms(1)]) simp_all
  let ?raw = "numeric_2 (float_text ?y)"
  have raw_lo: "hundredths (band_bounds ! i) \<le> ?raw"
    using numeric_2_above [OF y, of "band_bounds ! i"] lo range assms(2) by (simp add: hundredths_def)
  have "?raw \<le> hundredths (k + 1)"
    using numeric_2_below [OF y, of "k + 1"] below [of "k + 1"] range(4,5) by (simp add: hundredths_def)
  also have "\<dots> < hundredths (band_bounds ! Suc i)" using assms(3) by (simp add: hundredths_def divide_strict_right_mono)
  finally have raw_hi: "?raw < hundredths (band_bounds ! Suc i)" .
  have ten: "hundredths (band_bounds ! Suc i) \<le> 10" using hundredths_mono [OF range(2)] by (simp add: hundredths_def)
  have zero: "0 \<le> hundredths (band_bounds ! i)" using range(1) by (simp add: hundredths_def)
  have "to_numeric_4_2 ?y = Inr ?raw" using raw_lo raw_hi ten zero by (simp add: to_numeric_4_2_def Let_def)
  moreover have "set_maps_difficulty_from_raw ?raw = Inr (band_names ! i)"
  proof (cases "i = 15")
    case True
    then have "hundredths 941 \<le> ?raw" "?raw \<le> 10" using raw_lo raw_hi ten by (simp_all add: band_bounds_def)
    from steps_hell [OF this] True show ?thesis by (simp add: band_names_def)
  next
    case False
    with assms(1) steps_in_band [OF _ raw_lo raw_hi] show ?thesis by simp
  qed
  ultimately show "\<exists>raw. to_numeric_4_2 ?y = Inr raw \<and> set_maps_difficulty_from_raw raw = Inr (band_names ! i)" by blast
qed

definition band_midpoints :: "int list" where
  "band_midpoints = [89, 147, 206, 265, 323, 383, 442, 500, 558, 617, 676, 736, 795, 853, 912, 971]"

lemma midpoint_inside:
  assumes "map_of difficulty_midpoints d = Some raw"
  shows "\<exists>i k. i < 16 \<and> d = band_names ! i \<and> raw = fl (hundredths k) \<and> band_bounds ! i \<le> k \<and> k + 1 < band_bounds ! Suc i"
proof -
  have eq: "difficulty_midpoints = map (\<lambda>i. (band_names ! i, fl (hundredths (band_midpoints ! i)))) [0..<16]"
    by (simp add: difficulty_midpoints_def band_names_def band_midpoints_def upt_rec numeral_nat)
  have "set difficulty_midpoints = (\<lambda>i. (band_names ! i, fl (hundredths (band_midpoints ! i)))) ` {0..<16}"
    unfolding eq by (simp only: set_map set_upt)
  with map_of_SomeD [OF assms]
  have "(d, raw) \<in> (\<lambda>i. (band_names ! i, fl (hundredths (band_midpoints ! i)))) ` {0..<16}" by blast
  then obtain i where "i < 16" "d = band_names ! i" "raw = fl (hundredths (band_midpoints ! i))" by (elim imageE) simp
  moreover have "\<forall>i \<in> set [0..<16]. band_bounds ! i \<le> band_midpoints ! i \<and> band_midpoints ! i + 1 < band_bounds ! Suc i"
    by (simp add: band_bounds_def band_midpoints_def upt_rec numeral_nat)
  ultimately show ?thesis by (intro exI [of _ i] exI [of _ "band_midpoints ! i"]) simp
qed

end
