(* ===== verification/Playtest_System.thy ===== *)
theory Playtest_System
  imports Playtest_Rules
begin

section \<open>The state of the playtests\<close>

text \<open>What every call keeps: consistent difficulties, unique threads, votes in range that refer to a playtest.\<close>

subsection \<open>Averages\<close>

lemma sum_list_range: "\<forall>x \<in> set xs. 0 \<le> x \<and> x \<le> (10 :: rat) \<Longrightarrow> 0 \<le> sum_list xs \<and> sum_list xs \<le> 10 * of_nat (length xs)"
  by (induction xs) (auto simp: algebra_simps)

lemma round_scale_range:
  assumes "0 \<le> x" "x \<le> 10"
  shows "0 \<le> round_scale s x" "round_scale s x \<le> 10"
proof -
  have eq: "round_scale s x = of_int \<lfloor>x * 10 ^ s + 1 / 2\<rfloor> / 10 ^ s"
    using assms(1) by (cases "x = 0") (simp_all add: round_scale_def floor_eq_iff)
  have "x * 10 ^ s \<le> of_int (10 * 10 ^ s)" using assms(2) by simp
  then have "\<lfloor>x * 10 ^ s + 1 / 2\<rfloor> \<le> 10 * 10 ^ s" by linarith
  then have "(of_int \<lfloor>x * 10 ^ s + 1 / 2\<rfloor> :: rat) \<le> of_int (10 * 10 ^ s)" by (simp only: of_int_le_iff)
  then show "round_scale s x \<le> 10" by (simp add: eq pos_divide_le_eq)
  have "0 \<le> x * 10 ^ s" using assms(1) by simp
  then have "0 \<le> \<lfloor>x * 10 ^ s + 1 / 2\<rfloor>" by linarith
  then show "0 \<le> round_scale s x" by (simp add: eq)
qed

lemma numeric_avg_range:
  assumes "xs \<noteq> []" "\<forall>x \<in> set xs. 0 \<le> x \<and> x \<le> 10"
  shows "0 \<le> numeric_avg xs" "numeric_avg xs \<le> 10"
proof -
  have "0 \<le> sum_list xs / of_nat (length xs)" "sum_list xs / of_nat (length xs) \<le> 10"
    using sum_list_range [OF assms(2)] assms(1) by (simp_all add: pos_divide_le_eq)
  then show "0 \<le> numeric_avg xs" "numeric_avg xs \<le> 10"
    unfolding numeric_avg_def by (simp_all add: round_scale_range)
qed

lemma average_range:
  assumes "get_average_difficulty t db = Some y" "\<forall>v \<in> set (pt_votes db). 0 \<le> vt_difficulty v \<and> vt_difficulty v \<le> 10"
  shows "fl y = y" "0 \<le> y" "y \<le> 10"
proof -
  let ?xs = "thread_votes t db"
  from assms(1) have ne: "?xs \<noteq> []" and y: "y = fl (numeric_avg ?xs)"
    by (auto simp: get_average_difficulty_def Let_def split: if_splits)
  have "\<forall>x \<in> set ?xs. 0 \<le> x \<and> x \<le> 10" using assms(2) by (auto simp: thread_votes_def)
  note avg = numeric_avg_range [OF ne this]
  show "fl y = y" "0 \<le> y" using avg(1) by (simp_all add: y fl_idem fl_nonneg)
  show "y \<le> 10" using fl_mono0 [OF avg] by (simp add: y fl_numeral)
qed

subsection \<open>The invariant\<close>

definition apart :: "playtest_meta_row \<Rightarrow> playtest_meta_row \<Rightarrow> bool" where
  "apart m m' \<longleftrightarrow> pm_id m \<noteq> pm_id m' \<and> (pm_thread_id m = None \<or> pm_thread_id m \<noteq> pm_thread_id m')"

definition vote_key :: "vote_row \<Rightarrow> int \<times> int \<times> int" where
  "vote_key v = (vt_user_id v, vt_map_id v, vt_thread_id v)"

definition difficulties_ok :: "pdb \<Rightarrow> bool" where
  "difficulties_ok db \<longleftrightarrow> (\<forall>m \<in> set (pt_maps db). 0 \<le> py_raw_difficulty m \<and> py_raw_difficulty m \<le> 10
     \<and> numeric_2 (py_raw_difficulty m) = py_raw_difficulty m
     \<and> (\<forall>e \<in> set (maps_tbl (pt_econ db)). mp_id e = py_map_id m \<longrightarrow>
          set_maps_difficulty_from_raw (py_raw_difficulty m) = Inr (mp_difficulty e)))"

definition votes_ok :: "pdb \<Rightarrow> bool" where
  "votes_ok db \<longleftrightarrow> distinct (map vote_key (pt_votes db))
     \<and> (\<forall>v \<in> set (pt_votes db). 0 \<le> vt_difficulty v \<and> vt_difficulty v \<le> 10 \<and> numeric_2 (vt_difficulty v) = vt_difficulty v
        \<and> (\<exists>m \<in> set (pt_metas db). pm_thread_id m = Some (vt_thread_id v) \<and> pm_map_id m = vt_map_id v))"

definition playtests_ok :: "pdb \<Rightarrow> bool" where
  "playtests_ok db \<longleftrightarrow> db_ok (pt_econ db) \<and> difficulties_ok db \<and> sorted_wrt apart (pt_metas db) \<and> votes_ok db"

lemmas playtests_parts = playtests_ok_def difficulties_ok_def votes_ok_def

lemma to_numeric_shape: "to_numeric_4_2 x = Inr d \<Longrightarrow> numeric_2 d = d"
  by (auto simp: to_numeric_4_2_def Let_def split: if_splits)

lemma difficulty_in_range: "set_maps_difficulty_from_raw r = Inr d \<Longrightarrow> 0 \<le> r \<and> r \<le> 10"
proof -
  assume d: "set_maps_difficulty_from_raw r = Inr d"
  have low: "0 \<le> (hundredths 941)" by (simp add: hundredths_def)
  show ?thesis
  proof (cases "first_where (\<lambda>(d, lo, hi). hundredths lo \<le> r \<and> r < hundredths hi) difficulty_steps")
    case None
    with d low show ?thesis by (auto simp: set_maps_difficulty_from_raw_def split: if_splits)
  next
    case (Some b)
    from first_where_SomeD [OF this] obtain j where j: "j < 15" "difficulty_steps ! j = b"
      "case b of (d, lo, hi) \<Rightarrow> hundredths lo \<le> r \<and> r < hundredths hi"
      using band_tables(2) by (auto simp: in_set_conv_nth)
    then have "hundredths (band_bounds ! j) \<le> r" "r < hundredths (band_bounds ! Suc j)" using band_tables(6) [OF j(1)] by auto
    moreover have "0 \<le> hundredths (band_bounds ! j)" "hundredths (band_bounds ! Suc j) \<le> 10"
      using band_bounds_range [of j] band_bounds_range [of "Suc j"] j(1) hundredths_mono [of "band_bounds ! Suc j" 1000]
      by (auto simp: hundredths_def)
    ultimately show ?thesis by auto
  qed
qed

subsection \<open>Playtest rows\<close>

text \<open>An update of one row that moves it, at most, to a free thread while nobody has voted on the old one.\<close>

definition moves_well :: "pdb \<Rightarrow> (playtest_meta_row \<Rightarrow> bool) \<Rightarrow> (playtest_meta_row \<Rightarrow> playtest_meta_row) \<Rightarrow> bool" where
  "moves_well db P f \<longleftrightarrow> (\<forall>m m'. apart m m' \<longrightarrow> \<not> (P m \<and> P m'))
     \<and> (\<forall>m \<in> set (pt_metas db). P m \<longrightarrow> pm_id (f m) = pm_id m \<and> pm_map_id (f m) = pm_map_id m
        \<and> (pm_thread_id (f m) = pm_thread_id m \<or>
           (\<exists>t. pm_thread_id (f m) = Some t \<and> (\<forall>m' \<in> set (pt_metas db). pm_thread_id m' \<noteq> Some t)
              \<and> (\<forall>v \<in> set (pt_votes db). pm_thread_id m \<noteq> Some (vt_thread_id v)))))"

lemma set_meta_ok:
  assumes "playtests_ok db" "moves_well db P f"
  shows "playtests_ok (db\<lparr>pt_metas := update_where P (\<lambda>m. (f m)\<lparr>pm_updated_at := now\<rparr>) (pt_metas db)\<rparr>)"
proof -
  let ?f = "\<lambda>m. (f m)\<lparr>pm_updated_at := now\<rparr>"
  have move: "pm_id (f m) = pm_id m" "pm_map_id (f m) = pm_map_id m" "pm_thread_id (f m) = pm_thread_id m \<or>
           (\<exists>t. pm_thread_id (f m) = Some t \<and> (\<forall>m' \<in> set (pt_metas db). pm_thread_id m' \<noteq> Some t)
              \<and> (\<forall>v \<in> set (pt_votes db). pm_thread_id m \<noteq> Some (vt_thread_id v)))"
    if "m \<in> set (pt_metas db)" "P m" for m using assms(2) that by (auto simp: moves_well_def)
  have "sorted_wrt apart (update_where P ?f (pt_metas db))"
  proof (rule sorted_wrt_update_where [of apart])
    show "sorted_wrt apart (pt_metas db)" using assms(1) by (simp add: playtests_ok_def)
    fix x y assume xy: "x \<in> set (pt_metas db)" "y \<in> set (pt_metas db)" "apart x y"
    with assms(2) have "\<not> (P x \<and> P y)" by (auto simp: moves_well_def)
    then show "apart (if P x then ?f x else x) (if P y then ?f y else y)"
      using move [OF xy(1)] move [OF xy(2)] xy by (auto simp: apart_def)
  qed
  moreover have "\<exists>m \<in> set (update_where P ?f (pt_metas db)). pm_thread_id m = Some (vt_thread_id v) \<and> pm_map_id m = vt_map_id v"
    if v: "v \<in> set (pt_votes db)" for v
  proof -
    obtain m where m: "m \<in> set (pt_metas db)" "pm_thread_id m = Some (vt_thread_id v)" "pm_map_id m = vt_map_id v"
      using assms(1) v by (auto simp: playtests_parts)
    have "(if P m then ?f m else m) \<in> set (update_where P ?f (pt_metas db))" using m(1) by (auto simp: update_where_def)
    moreover have "pm_thread_id (if P m then ?f m else m) = Some (vt_thread_id v)" "pm_map_id (if P m then ?f m else m) = vt_map_id v"
      using move [OF m(1)] m v by auto
    ultimately show ?thesis by blast
  qed
  ultimately show ?thesis using assms(1) by (simp add: playtests_parts)
qed

lemma by_thread_well: "(\<And>m. pm_id (f m) = pm_id m \<and> pm_map_id (f m) = pm_map_id m \<and> pm_thread_id (f m) = pm_thread_id m) \<Longrightarrow>
    moves_well db (\<lambda>m. pm_thread_id m = Some t) f"
  by (auto simp: moves_well_def apart_def)

lemma thread_change_None:
  "thread_change m t db = None \<longleftrightarrow> pm_thread_id m = Some t \<or>
     (\<forall>m' \<in> set (pt_metas db). pm_thread_id m' \<noteq> Some t) \<and> (\<forall>v \<in> set (pt_votes db). pm_thread_id m \<noteq> Some (vt_thread_id v))"
  by (auto simp: thread_change_def has_row_iff)

lemma keeps_complete_meta [keeps_rules]: "keeps playtests_ok (complete_meta now t)"
  unfolding complete_meta_def set_meta_def by (intro keeps_write set_meta_ok by_thread_well) simp_all

lemma keeps_update_playtest_meta [keeps_rules]: "keeps playtests_ok (update_playtest_meta now t p)"
proof (rule keepsI)
  fix s x s' assume ok: "playtests_ok s" and run: "update_playtest_meta now t p s = Inr (x, s')"
  have apart: "\<And>m m'. apart m m' \<Longrightarrow> \<not> (pm_thread_id m = Some t \<and> pm_thread_id m' = Some t)" by (auto simp: apart_def)
  from run have s': "s' = s\<lparr>pt_metas := update_where (\<lambda>m. pm_thread_id m = Some t) (\<lambda>m. (patch_meta p m)\<lparr>pm_updated_at := now\<rparr>) (pt_metas s)\<rparr>"
    and chk: "\<And>m t'. meta_of_thread t s = Some m \<Longrightarrow> pp_thread_id p = Some t' \<Longrightarrow> thread_change m t' s = None"
    by (auto simp: update_playtest_meta_def set_meta_def split: if_splits option.splits)
  have "moves_well s (\<lambda>m. pm_thread_id m = Some t) (patch_meta p)"
    unfolding moves_well_def
  proof (intro conjI allI impI ballI)
    fix m assume m: "m \<in> set (pt_metas s)" "pm_thread_id m = Some t"
    show "pm_id (patch_meta p m) = pm_id m" "pm_map_id (patch_meta p m) = pm_map_id m" by (simp_all add: patch_meta_def)
    show "pm_thread_id (patch_meta p m) = pm_thread_id m \<or>
           (\<exists>t. pm_thread_id (patch_meta p m) = Some t \<and> (\<forall>m' \<in> set (pt_metas s). pm_thread_id m' \<noteq> Some t)
              \<and> (\<forall>v \<in> set (pt_votes s). pm_thread_id m \<noteq> Some (vt_thread_id v)))"
    proof (cases "pp_thread_id p")
      case (Some t')
      from m obtain m0 where m0: "meta_of_thread t s = Some m0" "pm_thread_id m0 = Some t"
        using first_where_None first_where_SomeD unfolding meta_of_thread_def
        by (metis (mono_tags, lifting) option.exhaust)
      from chk [OF m0(1) Some] m0(2) m(2) show ?thesis by (auto simp: thread_change_None patch_meta_def Some)
    qed (simp add: patch_meta_def)
  qed (use apart in blast)
  then show "playtests_ok s'" unfolding s' by (rule set_meta_ok [OF ok])
qed

lemma keeps_associate_thread [keeps_rules]: "keeps playtests_ok (associate_thread now i t)"
proof (rule keepsI)
  fix s x s' assume ok: "playtests_ok s" and run: "associate_thread now i t s = Inr (x, s')"
  show "playtests_ok s'"
  proof (cases "first_where (\<lambda>m. pm_id m = i) (pt_metas s)")
    case None
    with run ok show ?thesis by (simp add: associate_thread_def)
  next
    case (Some m0)
    with run have free: "thread_change m0 t s = None"
      and s': "s' = s\<lparr>pt_metas := update_where (\<lambda>m. pm_id m = i)
          (\<lambda>m. (m\<lparr>pm_thread_id := Some t\<rparr>)\<lparr>pm_updated_at := now\<rparr>) (pt_metas s)\<rparr>"
      by (auto simp: associate_thread_def set_meta_def split: option.splits)
    from first_where_SomeD [OF Some] have m0: "m0 \<in> set (pt_metas s)" "pm_id m0 = i" by auto
    have same: "m = m0" if "m \<in> set (pt_metas s)" "pm_id m = i" for m
    proof (rule ccontr)
      assume "m \<noteq> m0"
      moreover have "sorted_wrt apart (pt_metas s)" using ok by (simp add: playtests_ok_def)
      ultimately have "apart m m0 \<or> apart m0 m" using m0(1) that(1)
        by (metis in_set_conv_nth linorder_neqE_nat sorted_wrt_nth_less)
      with that(2) m0(2) show False by (auto simp: apart_def)
    qed
    have "moves_well s (\<lambda>m. pm_id m = i) (\<lambda>m. m\<lparr>pm_thread_id := Some t\<rparr>)"
      using free same by (auto simp: moves_well_def apart_def thread_change_None)
    then show ?thesis unfolding s' by (rule set_meta_ok [OF ok])
  qed
qed

subsection \<open>Votes and maps\<close>

lemma revoted:
  assumes "distinct (map vote_key vs)" "has_row (\<lambda>v. vote_key v = k) vs"
  shows "filter (\<lambda>v. vote_key v = k) (update_where (\<lambda>v. vote_key v = k) (\<lambda>v. v\<lparr>vt_difficulty := d\<rparr>) vs)
      = [case k of (u, m, t) \<Rightarrow> \<lparr>vt_user_id = u, vt_map_id = m, vt_thread_id = t, vt_difficulty = d\<rparr>]"
    and "filter (\<lambda>v. vote_key v \<noteq> k) (update_where (\<lambda>v. vote_key v = k) (\<lambda>v. v\<lparr>vt_difficulty := d\<rparr>) vs)
      = filter (\<lambda>v. vote_key v \<noteq> k) vs"
  using assms
proof (induction vs)
  case (Cons v vs)
  have same: "update_where (\<lambda>v. vote_key v = k) (\<lambda>v. v\<lparr>vt_difficulty := d\<rparr>) vs = vs" if "k \<notin> vote_key ` set vs"
    using that by (auto simp: update_where_def intro!: map_idI)
  { case 1 show ?case
    proof (cases "vote_key v = k")
      case True
      with 1 have fresh: "k \<notin> vote_key ` set vs" by auto
      then have none: "filter (\<lambda>v. vote_key v = k) vs = []" by (auto simp: filter_empty_conv)
      have "update_where (\<lambda>v. vote_key v = k) (\<lambda>v. v\<lparr>vt_difficulty := d\<rparr>) (v # vs) = v\<lparr>vt_difficulty := d\<rparr> # vs"
        using same [OF fresh] True by (simp add: update_where_def)
      moreover have "vote_key (v\<lparr>vt_difficulty := d\<rparr>) = k" using True by (simp add: vote_key_def)
      moreover have "v\<lparr>vt_difficulty := d\<rparr> = (case k of (u, m, t) \<Rightarrow>
          \<lparr>vt_user_id = u, vt_map_id = m, vt_thread_id = t, vt_difficulty = d\<rparr>)"
        using True by (cases v) (auto simp: vote_key_def)
      ultimately show ?thesis using none by simp
    next
      case False
      with 1 Cons.IH(1) show ?thesis by (auto simp: update_where_def has_row_iff)
    qed
  next
    case 2 show ?case
    proof (cases "vote_key v = k")
      case True
      with 2 have "k \<notin> vote_key ` set vs" by auto
      with same True show ?thesis by (simp add: update_where_def vote_key_def)
    next
      case False
      with 2 Cons.IH(2) show ?thesis by (auto simp: update_where_def has_row_iff)
    qed }
qed (simp_all add: has_row_iff)

lemma keeps_cast_vote_row [keeps_rules]: "keeps playtests_ok (cast_vote_row t u d)"
proof (rule keepsI)
  fix s x s' assume ok: "playtests_ok s" and run: "cast_vote_row t u d s = Inr (x, s')"
  show "playtests_ok s'"
  proof (cases "meta_of_thread t s")
    case None
    with run ok show ?thesis by (simp add: cast_vote_row_def)
  next
    case (Some m)
    from first_where_SomeD [OF Some [unfolded meta_of_thread_def]]
    have m: "m \<in> set (pt_metas s)" "pm_thread_id m = Some t" by auto
    from run Some obtain n where n: "to_numeric_4_2 d = Inr n" "\<not> n < 0" "\<not> 10 < n"
      and s': "s' = (if has_row (same_vote u (pm_map_id m) t) (pt_votes s)
        then s\<lparr>pt_votes := update_where (same_vote u (pm_map_id m) t) (\<lambda>v. v\<lparr>vt_difficulty := n\<rparr>) (pt_votes s)\<rparr>
        else s\<lparr>pt_votes := pt_votes s @ [\<lparr>vt_user_id = u, vt_map_id = pm_map_id m, vt_thread_id = t, vt_difficulty = n\<rparr>]\<rparr>)"
      by (auto simp: cast_vote_row_def split: sum.splits if_splits)
    have keys: "vote_key \<circ> (\<lambda>v. if Q v then v\<lparr>vt_difficulty := n\<rparr> else v) = vote_key" for Q
      by (auto simp: vote_key_def)
    show ?thesis using ok m n to_numeric_shape [OF n(1)]
      by (auto simp: s' playtests_parts update_where_def keys has_row_iff same_vote_def)
        (auto simp: vote_key_def)
  qed
qed

lemma keeps_delete_votes [keeps_rules]:
  "keeps playtests_ok (delete_vote_rows t u)" "keeps playtests_ok (delete_all_vote_rows t)"
  unfolding delete_vote_rows_def delete_all_vote_rows_def
  by (intro keeps_write, auto simp: playtests_parts distinct_map_filter)+

lemma db_ok_maps: "db_ok (e\<lparr>maps_tbl := ms\<rparr>) = db_ok e" "db_ok (e\<lparr>completions := cs\<rparr>) = db_ok e"
  by (simp_all add: db_ok_def db_ok_parts db_lookup_defs)

lemma keeps_approve_map [keeps_rules]: "keeps playtests_ok (approve_map i d)"
proof (rule keepsI)
  fix s x s' assume ok: "playtests_ok s" and run: "approve_map i d s = Inr (x, s')"
  show "playtests_ok s'"
  proof (cases "has_row (\<lambda>m. py_map_id m = i) (pt_maps s)")
    case False
    with run ok show ?thesis by (simp add: approve_map_def)
  next
    case True
    with run obtain raw name where n: "to_numeric_4_2 d = Inr raw" "set_maps_difficulty_from_raw raw = Inr name"
      and s': "s' = s\<lparr>pt_maps := update_where (\<lambda>m. py_map_id m = i)
             (\<lambda>m. m\<lparr>py_playtesting := PlaytestApprovedStatus, py_raw_difficulty := raw\<rparr>) (pt_maps s),
           pt_econ := (pt_econ s)\<lparr>maps_tbl := update_where (\<lambda>m. mp_id m = i)
             (\<lambda>m. m\<lparr>mp_difficulty := name\<rparr>) (maps_tbl (pt_econ s))\<rparr>\<rparr>"
      by (auto simp: approve_map_def split: sum.splits)
    show ?thesis using ok difficulty_in_range [OF n(2)] to_numeric_shape [OF n(1)] n(2)
      by (auto simp: s' playtests_parts db_ok_maps update_where_def)
  qed
qed

lemma keeps_force_deny_playtest [keeps_rules]: "keeps playtests_ok (force_deny_playtest now i t)"
  unfolding force_deny_playtest_def
  by (intro keeps_rules keeps_write) (auto simp: playtests_parts update_where_def)

lemma keeps_delete_completions [keeps_rules]: "keeps playtests_ok (delete_completions_for_playtest t)"
  unfolding delete_completions_for_playtest_def
  by (intro keeps_write) (auto simp: playtests_parts db_ok_maps split: option.splits)

subsection \<open>Approved maps\<close>

text \<open>A map row that a number of some difficulty was written to.\<close>

definition graded :: "int \<Rightarrow> rat \<Rightarrow> string \<Rightarrow> pdb \<Rightarrow> bool" where
  "graded i raw name db \<longleftrightarrow>
     (\<forall>m \<in> set (pt_maps db). py_map_id m = i \<longrightarrow> py_playtesting m = PlaytestApprovedStatus \<and> py_raw_difficulty m = raw)
     \<and> (\<forall>e \<in> set (maps_tbl (pt_econ db)). mp_id e = i \<longrightarrow> mp_difficulty e = name)"

lemma approve_map_run:
  assumes "has_row (\<lambda>m. py_map_id m = i) (pt_maps db)" "to_numeric_4_2 d = Inr raw" "set_maps_difficulty_from_raw raw = Inr name"
  shows "\<exists>ms es. approve_map i d db = Inr ((), db\<lparr>pt_maps := ms, pt_econ := (pt_econ db)\<lparr>maps_tbl := es\<rparr>\<rparr>)
     \<and> graded i raw name (db\<lparr>pt_maps := ms, pt_econ := (pt_econ db)\<lparr>maps_tbl := es\<rparr>\<rparr>) \<and> map mp_id es = map mp_id (maps_tbl (pt_econ db))
     \<and> map mp_code es = map mp_code (maps_tbl (pt_econ db))"
proof -
  define ms where "ms = update_where (\<lambda>m. py_map_id m = i)
        (\<lambda>m. m\<lparr>py_playtesting := PlaytestApprovedStatus, py_raw_difficulty := raw\<rparr>) (pt_maps db)"
  define es where "es = update_where (\<lambda>m. mp_id m = i) (\<lambda>m. m\<lparr>mp_difficulty := name\<rparr>) (maps_tbl (pt_econ db))"
  have "approve_map i d db = Inr ((), db\<lparr>pt_maps := ms, pt_econ := (pt_econ db)\<lparr>maps_tbl := es\<rparr>\<rparr>)"
    using assms by (simp add: approve_map_def ms_def es_def)
  moreover have "\<forall>m \<in> set ms. py_map_id m = i \<longrightarrow> py_playtesting m = PlaytestApprovedStatus \<and> py_raw_difficulty m = raw"
    unfolding ms_def update_where_def by (simp add: image_iff ball_Un)
  moreover have "\<forall>e \<in> set es. mp_id e = i \<longrightarrow> mp_difficulty e = name"
    unfolding es_def update_where_def by (simp add: image_iff ball_Un)
  moreover have "map mp_id es = map mp_id (maps_tbl (pt_econ db))" "map mp_code es = map mp_code (maps_tbl (pt_econ db))"
    by (simp_all add: es_def update_where_def)
  ultimately show ?thesis by (intro exI [of _ ms] exI [of _ es]) (simp add: graded_def)
qed

lemma average_graded:
  assumes "playtests_ok db" "get_average_difficulty t db = Some y"
  shows "\<exists>i j raw. i < 16 \<and> j < 16 \<and> (j = i \<or> j = Suc i) \<and> convert_raw_difficulty_to_difficulty_all y = Inr (band_names ! i)
     \<and> to_numeric_4_2 y = Inr raw \<and> set_maps_difficulty_from_raw raw = Inr (band_names ! j)"
proof -
  have "\<forall>v \<in> set (pt_votes db). 0 \<le> vt_difficulty v \<and> vt_difficulty v \<le> 10" using assms(1) by (simp add: playtests_parts)
  from announced_and_stored [OF average_range [OF assms(2) this]] show ?thesis by blast
qed

lemma pt_map_code_same:
  assumes "map mp_id es = map mp_id es'" "map mp_code es = map mp_code es'"
  shows "(case first_where (\<lambda>m. mp_id m = i) es of None \<Rightarrow> None | Some m \<Rightarrow> mp_code m)
       = (case first_where (\<lambda>m. mp_id m = i) es' of None \<Rightarrow> None | Some m \<Rightarrow> mp_code m)"
  using assms
proof (induction es arbitrary: es')
  case (Cons e es)
  then show ?case by (cases es') auto
qed simp

lemma approve_tx_run:
  assumes "playtests_ok db" "meta_of_thread t db = Some m" "get_average_difficulty t db = Some y"
  shows "\<exists>i j raw db'. i < 16 \<and> (j = i \<or> j = Suc i) \<and> convert_raw_difficulty_to_difficulty_all y = Inr (band_names ! i)
     \<and> approve_tx E t db = Inr ((y, get_primary_creator (pm_map_id m) db, pt_map_code (pm_map_id m) db), db')
     \<and> (has_row (\<lambda>r. py_map_id r = pm_map_id m) (pt_maps db) \<longrightarrow> graded (pm_map_id m) raw (band_names ! j) db')
     \<and> (\<forall>r \<in> set (pt_metas db'). pm_thread_id r = Some t \<longrightarrow> pm_completed r)
     \<and> pt_votes db' = pt_votes db \<and> jobs (pt_econ db') = jobs (pt_econ db)"
proof -
  from average_graded [OF assms(1,3)] obtain i j raw where ij: "i < 16" "j = i \<or> j = Suc i"
    "convert_raw_difficulty_to_difficulty_all y = Inr (band_names ! i)" "to_numeric_4_2 y = Inr raw"
    "set_maps_difficulty_from_raw raw = Inr (band_names ! j)" by blast
  let ?known = "has_row (\<lambda>r. py_map_id r = pm_map_id m) (pt_maps db)"
  obtain ms es where run:
    "approve_map (pm_map_id m) y db = Inr ((), db\<lparr>pt_maps := ms, pt_econ := (pt_econ db)\<lparr>maps_tbl := es\<rparr>\<rparr>)"
    "?known \<longrightarrow> graded (pm_map_id m) raw (band_names ! j) (db\<lparr>pt_maps := ms, pt_econ := (pt_econ db)\<lparr>maps_tbl := es\<rparr>\<rparr>)"
    and same: "map mp_id es = map mp_id (maps_tbl (pt_econ db))" "map mp_code es = map mp_code (maps_tbl (pt_econ db))"
  proof (cases ?known)
    case True
    from approve_map_run [OF True ij(4,5)] that show ?thesis by blast
  next
    case False
    then show ?thesis using that [of "maps_tbl (pt_econ db)" "pt_maps db"] by (simp add: approve_map_def)
  qed
  define metas where "metas = update_where (\<lambda>r. pm_thread_id r = Some t) (\<lambda>r. r\<lparr>pm_completed := True, pm_updated_at := env_now E\<rparr>) (pt_metas db)"
  let ?db = "db\<lparr>pt_maps := ms, pt_econ := (pt_econ db)\<lparr>maps_tbl := es\<rparr>, pt_metas := metas\<rparr>"
  have "approve_tx E t db = Inr ((y, get_primary_creator (pm_map_id m) db, pt_map_code (pm_map_id m) db), ?db)"
    using assms(2,3) run(1) pt_map_code_same [OF same, of "pm_map_id m"]
    by (simp add: approve_tx_def require_map_def get_map_id_from_thread_def approve_playtest_def bind_tx_def
        complete_meta_def set_meta_def get_primary_creator_def pt_map_code_def metas_def)
  moreover have "\<forall>r \<in> set metas. pm_thread_id r = Some t \<longrightarrow> pm_completed r"
    unfolding metas_def update_where_def by (simp add: image_iff ball_Un)
  moreover have "?known \<longrightarrow> graded (pm_map_id m) raw (band_names ! j) ?db" using run(2) by (simp add: graded_def)
  ultimately show ?thesis using ij(1-3)
    by (intro exI [of _ i] exI [of _ j] exI [of _ raw] exI [of _ ?db]) simp
qed

text \<open>
  What telling a decision answers and leaves behind, for every state of the broker: nothing under the tests; an
  error without a channel; a failed job, with or without its row, when the row or the message cannot be written.
\<close>

definition told ::
  "env \<Rightarrow> int \<Rightarrow> bool \<Rightarrow> string \<Rightarrow> payload \<Rightarrow> string \<Rightarrow> pworld \<Rightarrow> (err + job_status_response) \<times> pworld" where
  "told E jid pytest key p k w =
     (let logged = w\<lparr>wdb := (wdb w)\<lparr>pt_econ := (pt_econ (wdb w))\<lparr>jobs := jobs (pt_econ (wdb w)) @ [\<lparr>jb_id = jid, jb_action = key\<rparr>]\<rparr>\<rparr>\<rparr>
      in if pytest then (Inr (job_status jid Succeeded), w)
         else if env_broker E = NoChannel then (Inl Amqp, w)
         else if has_row (\<lambda>j. jb_id j = jid) (jobs (pt_econ (wdb w))) then (Inr (failed_job jid), w)
         else if env_broker E = PublishFails then (Inr (failed_job jid), logged)
         else (Inr (job_status jid Queued), logged\<lparr>wmq := wmq w @
           [\<lparr>ms_routing_key = key, ms_payload = p, ms_correlation_id = jid, ms_message_id = IdempotencyKey k\<rparr>]\<rparr>))"

lemma decision_told:
  assumes "k \<noteq> []"
  shows "pt_base (publish_message E jid pytest key p (Some k)) w = told E jid pytest key p k w"
  using assms
  by (cases "env_broker E") (auto simp: told_def Let_def pt_base_def zoom_io_def publish_message_def catch_io_def bind_io_def
      atomically_def insert_job_def check_tx_def bind_tx_def)

subsection \<open>The calls\<close>

inductive playtest_step :: "pworld \<Rightarrow> pworld \<Rightarrow> bool" where
  vote_call: "playtest_step w (snd (cast_vote E j py t u d w))"
| unvote_call: "playtest_step w (snd (delete_vote E j py t u w))"
| unvote_all_call: "playtest_step w (snd (delete_all_votes t w))"
| edit_call: "playtest_step w (snd (edit_playtest_meta E t p w))"
| associate_call: "playtest_step w (snd (associate_playtest_meta E i t w))"
| approve_call: "playtest_step w (snd (approve E j py t v w))"
| accept_call: "playtest_step w (snd (force_accept E j py t d v w))"
| deny_call: "playtest_step w (snd (force_deny E j py t v r w))"
| reset_call: "playtest_step w (snd (reset_playtest E j py t v r rv rc w))"

inductive_cases playtest_stepE: "playtest_step w w'"

definition playtest_reach :: "pworld \<Rightarrow> pworld \<Rightarrow> bool" where
  "playtest_reach = playtest_step\<^sup>*\<^sup>*"

lemma keeps_pt_base [keeps_rules]: "keeps_io playtests_ok (pt_base (publish_message E j py k d i))"
proof -
  have frame: "maps_tbl (wdb (snd (publish_message E j py k d i w))) = maps_tbl (wdb w)" for w
    by (simp add: publish_message_def catch_io_def bind_io_def atomically_def insert_job_def bind_tx_def check_tx_def
        split: sum.splits prod.splits)
  show ?thesis
    unfolding keeps_io_def
  proof (intro allI impI)
    fix w r w' assume ok: "playtests_ok (wdb w)" and run: "pt_base (publish_message E j py k d i) w = (r, w')"
    let ?v = "\<lparr>wdb = pt_econ (wdb w), wmq = wmq w\<rparr>"
    have "wdb w' = (wdb w)\<lparr>pt_econ := wdb (snd (publish_message E j py k d i ?v))\<rparr>"
      using run by (auto simp: pt_base_def zoom_io_def split: prod.splits)
    moreover have "db_ok (wdb (snd (publish_message E j py k d i ?v)))"
      using keeps_ioD [OF keeps_publish_message, of ?v] ok by (simp add: playtests_ok_def)
    ultimately show "playtests_ok (wdb w')" using ok frame [of ?v] by (simp add: playtests_parts)
  qed
qed

lemma keeps_io_check_error [keeps_rules]:
  "(\<And>c t. keeps_io P (f c t)) \<Longrightarrow> (\<And>e. keeps_io P (g e)) \<Longrightarrow>
     keeps_io P (case e of Repo (CheckConstraintViolationError c t) \<Rightarrow> f c t | _ \<Rightarrow> g e)"
  by (cases e) (auto split: repository_error.splits)

lemmas playtest_calls = cast_vote_def delete_vote_def delete_all_votes_def edit_playtest_meta_def
  associate_playtest_meta_def get_playtest_def approve_def approve_tx_def approve_playtest_def force_accept_def
  force_accept_tx_def force_accept_playtest_def force_deny_def reset_playtest_def reset_tx_def require_map_def

lemma playtest_step_ok: "playtest_step w w' \<Longrightarrow> playtests_ok (wdb w) \<Longrightarrow> playtests_ok (wdb w')"
  by (erule playtest_stepE; hypsubst; rule keeps_ioD, unfold playtest_calls, (intro keeps_rules | assumption)+)

lemma playtest_reach_ok: "playtest_reach w w' \<Longrightarrow> playtests_ok (wdb w) \<Longrightarrow> playtests_ok (wdb w')"
  unfolding playtest_reach_def by (induction rule: rtranclp_induct) (auto intro: playtest_step_ok)

end
