(* ===== verification/Playtest_Props.thy ===== *)
theory Playtest_Props
  imports Playtest_System Samples
begin

section \<open>Properties of the playtests\<close>

definition sample_pdb :: pdb where
  "sample_pdb = \<lparr>pt_econ = sample_db\<lparr>completions :=
        [\<lparr>cp_map_id = 7, cp_user_id = 1, cp_time = 30, cp_verified = True, cp_legacy = False, cp_inserted_at = 60\<rparr>]\<rparr>,
     pt_maps = [\<lparr>py_map_id = 7, py_playtesting = PlaytestInProgress, py_hidden = False, py_raw_difficulty = 97 / 10\<rparr>],
     pt_creators = [\<lparr>cr_map_id = 7, cr_user_id = 2, cr_is_primary = True\<rparr>],
     pt_usernames = [],
     pt_metas = [\<lparr>pm_id = 1, pm_thread_id = Some 40, pm_map_id = 7, pm_verification_id = None,
        pm_initial_difficulty = 5, pm_created_at = 50, pm_updated_at = 50, pm_completed = False\<rparr>],
     pt_votes = [\<lparr>vt_user_id = 1, vt_map_id = 7, vt_thread_id = 40, vt_difficulty = 234 / 100\<rparr>,
        \<lparr>vt_user_id = 2, vt_map_id = 7, vt_thread_id = 40, vt_difficulty = 235 / 100\<rparr>]\<rparr>"

definition sample_pworld :: pworld where
  "sample_pworld = \<lparr>wdb = sample_pdb, wmq = []\<rparr>"

lemma sample_hardest: "set_maps_difficulty_from_raw (97 / 10) = Inr ''Hell''"
  by (rule steps_hell) (simp_all add: hundredths_def)

lemma sample_votes_shape: "numeric_2 (234 / 100) = 234 / 100" "numeric_2 (235 / 100) = 235 / 100" "numeric_2 (97 / 10) = 97 / 10"
  by code_simp+

lemma sample_playtests_ok: "playtests_ok sample_pdb"
proof -
  have "db_ok (pt_econ sample_pdb)" using sample_db_ok by (simp add: sample_pdb_def db_ok_maps)
  then show ?thesis
    using sample_hardest sample_votes_shape
    by (simp add: playtests_parts) (simp add: sample_pdb_def sample_db_def vote_key_def)
qed

subsection \<open>The state\<close>

text \<open>C17: every sequence of playtest calls keeps the playtests well formed: a map's difficulty is the one its number
  stands for, every number is a vote or a midpoint of two decimals between 0 and 10, no two playtests share a thread,
  and nobody has two votes in one playtest or a vote without one.\<close>

theorem playtests_well_formed:
  assumes "playtest_reach w w'" "playtests_ok (wdb w)"
  shows "playtests_ok (wdb w')"
  using assms by (rule playtest_reach_ok)

theorem playtests_well_formed_witness:
  "playtests_ok (wdb (snd (approve sample_env 71 False 40 1 (snd (cast_vote sample_env 70 False 40 1 (7 / 2) sample_pworld)))))"
proof -
  let ?w = "snd (cast_vote sample_env 70 False 40 1 (7 / 2) sample_pworld)"
  have "playtest_reach sample_pworld (snd (approve sample_env 71 False 40 1 ?w))"
    unfolding playtest_reach_def using vote_call [of sample_pworld] approve_call [of ?w]
    by (rule converse_rtranclp_into_rtranclp [OF _ r_into_rtranclp])
  then show ?thesis by (rule playtests_well_formed) (simp add: sample_pworld_def sample_playtests_ok)
qed

subsection \<open>Votes\<close>






subsection \<open>Decisions\<close>

text \<open>C19: the difficulty an approval announces is at most one step below the one it stores: the average of the votes
  is announced as a double and stored at two decimals, both always have a difficulty, and the stored one is the
  announced one or the next harder.\<close>

theorem announced_difficulty_close:
  assumes "playtests_ok db" "get_average_difficulty thread_id db = Some y"
    and "has_row (\<lambda>m. py_map_id m = map_id) (pt_maps db)"
  shows "\<exists>i j raw db'. i < 16 \<and> j < 16 \<and> (j = i \<or> j = Suc i)
     \<and> convert_raw_difficulty_to_difficulty_all y = Inr (band_names ! i)
     \<and> approve_map map_id y db = Inr ((), db') \<and> graded map_id raw (band_names ! j) db'"
proof -
  from average_graded [OF assms(1,2)] obtain i j raw where ij: "i < 16" "j < 16" "j = i \<or> j = Suc i"
    "convert_raw_difficulty_to_difficulty_all y = Inr (band_names ! i)" "to_numeric_4_2 y = Inr raw"
    "set_maps_difficulty_from_raw raw = Inr (band_names ! j)" by blast
  from approve_map_run [OF assms(3) ij(5,6)] ij(1-4) show ?thesis by blast
qed

lemma sample_average: "get_average_difficulty 40 sample_pdb = Some (fl (2345 / 1000))" by code_simp

lemma sample_between: "to_numeric_4_2 (fl (2345 / 1000)) = Inr (235 / 100)" by code_simp

text \<open>Votes of 2.34 and 2.35 are announced as Easy + and stored as Medium -.\<close>

lemma sample_announced: "convert_raw_difficulty_to_difficulty_all (fl (2345 / 1000)) = Inr ''Easy +''"
proof -
  have "fl (hundredths 176) \<le> fl (2345 / 1000)" by (intro fl_mono0) (simp_all add: hundredths_def)
  moreover have "fl (2345 / 1000) < fl (hundredths 235)" using fl_gap [of 235] by (simp add: hundredths_def)
  ultimately show ?thesis using convert_in_band [of 2] by (simp add: band_bounds_def band_names_def)
qed

lemma sample_stored: "set_maps_difficulty_from_raw (235 / 100) = Inr ''Medium -''"
  using steps_in_band [of 3 "235 / 100"] by (simp add: band_bounds_def band_names_def hundredths_def)

theorem announced_difficulty_close_witness:
  "(\<exists>i j raw db'. i < 16 \<and> j < 16 \<and> (j = i \<or> j = Suc i)
     \<and> convert_raw_difficulty_to_difficulty_all (fl (2345 / 1000)) = Inr (band_names ! i)
     \<and> approve_map 7 (fl (2345 / 1000)) sample_pdb = Inr ((), db') \<and> graded 7 raw (band_names ! j) db')
   \<and> convert_raw_difficulty_to_difficulty_all (fl (2345 / 1000)) = Inr ''Easy +''
   \<and> set_maps_difficulty_from_raw (235 / 100) = Inr ''Medium -''"
proof (intro conjI sample_announced sample_stored)
  have "has_row (\<lambda>m. py_map_id m = 7) (pt_maps sample_pdb)" by (simp add: sample_pdb_def)
  from announced_difficulty_close [OF sample_playtests_ok sample_average this]
  show "\<exists>i j raw db'. i < 16 \<and> j < 16 \<and> (j = i \<or> j = Suc i)
     \<and> convert_raw_difficulty_to_difficulty_all (fl (2345 / 1000)) = Inr (band_names ! i)
     \<and> approve_map 7 (fl (2345 / 1000)) sample_pdb = Inr ((), db') \<and> graded 7 raw (band_names ! j) db'" .
qed

text \<open>C20: accepting a playtest at a chosen difficulty stores exactly that difficulty: its midpoint, written as a
  number of two decimals, is read back as the same difficulty by the database and by the SDK; the map is approved, the
  playtest completed, and votes stay as they are.\<close>

theorem force_accept_exact:
  assumes "map_of difficulty_midpoints d = Some raw" "get_map_id_from_thread thread_id db = Some map_id"
    and "has_row (\<lambda>m. py_map_id m = map_id) (pt_maps db)"
  shows "convert_raw_difficulty_to_difficulty_all raw = Inr d
     \<and> (\<exists>stored db'. force_accept_tx E thread_id d db = Inr ((), db') \<and> graded map_id stored d db'
          \<and> (\<forall>m \<in> set (pt_metas db'). pm_thread_id m = Some thread_id \<longrightarrow> pm_completed m)
          \<and> pt_votes db' = pt_votes db)"
proof -
  from midpoint_inside [OF assms(1)] obtain i k where ik: "i < 16" "d = band_names ! i" "raw = fl (hundredths k)"
    "band_bounds ! i \<le> k" "k + 1 < band_bounds ! Suc i" by blast
  note band = inside_band [OF ik(1,4,5), folded ik(2,3)]
  from band(2) obtain stored where st: "to_numeric_4_2 raw = Inr stored" "set_maps_difficulty_from_raw stored = Inr d" by blast
  from approve_map_run [OF assms(3) st] obtain ms es where run:
    "approve_map map_id raw db = Inr ((), db\<lparr>pt_maps := ms, pt_econ := (pt_econ db)\<lparr>maps_tbl := es\<rparr>\<rparr>)"
    "graded map_id stored d (db\<lparr>pt_maps := ms, pt_econ := (pt_econ db)\<lparr>maps_tbl := es\<rparr>\<rparr>)" by blast
  have "force_accept_tx E thread_id d db = complete_meta (env_now E) thread_id (db\<lparr>pt_maps := ms, pt_econ := (pt_econ db)\<lparr>maps_tbl := es\<rparr>\<rparr>)"
    using assms(1,2) run(1) by (simp add: force_accept_tx_def require_map_def force_accept_playtest_def bind_tx_def)
  then show ?thesis using band(1) run(2)
    by (auto simp: complete_meta_def set_meta_def write_tx_def graded_def update_where_def)
qed

theorem force_accept_exact_witness:
  "convert_raw_difficulty_to_difficulty_all (fl (hundredths 912)) = Inr ''Extreme +''
     \<and> (\<exists>stored db'. force_accept_tx sample_env 40 ''Extreme +'' sample_pdb = Inr ((), db') \<and> graded 7 stored ''Extreme +'' db')"
proof -
  have "map_of difficulty_midpoints ''Extreme +'' = Some (fl (hundredths 912))" by (simp add: difficulty_midpoints_def)
  moreover have "get_map_id_from_thread 40 sample_pdb = Some 7" "has_row (\<lambda>m. py_map_id m = 7) (pt_maps sample_pdb)"
    by (simp_all add: get_map_id_from_thread_def meta_of_thread_def sample_pdb_def)
  ultimately show ?thesis using force_accept_exact [of "''Extreme +''" _ 40 sample_pdb 7 sample_env] by blast
qed


text \<open>C18: an approval decides before it tells. In an unknown thread and without votes it fails and changes nothing.
  With votes it always commits: the playtest is completed, its map, if it is there, approved at the difficulty of the
  average, the votes kept; then, with a map code and a primary creator, the decision with the announced difficulty
  is told, which fails or not by the state of the broker, and without one of them the call fails although the map
  stays approved.\<close>

theorem approve_outcome:
  assumes "playtests_ok (wdb w)"
  shows "case meta_of_thread t (wdb w) of
     None \<Rightarrow> approve E jid pytest t v w = (Inl (Playtests (PlaytestNotFoundError t)), w)
   | Some m \<Rightarrow> (case get_average_difficulty t (wdb w) of
     None \<Rightarrow> approve E jid pytest t v w = (Inl (Playtests (PlaytestStateError ''Cannot approve playtest with no votes.'')), w)
   | Some y \<Rightarrow> (\<exists>i j raw db'. i < 16 \<and> (j = i \<or> j = Suc i) \<and> convert_raw_difficulty_to_difficulty_all y = Inr (band_names ! i)
       \<and> (has_row (\<lambda>r. py_map_id r = pm_map_id m) (pt_maps (wdb w)) \<longrightarrow> graded (pm_map_id m) raw (band_names ! j) db')
       \<and> (\<forall>r \<in> set (pt_metas db'). pm_thread_id r = Some t \<longrightarrow> pm_completed r) \<and> pt_votes db' = pt_votes (wdb w)
       \<and> jobs (pt_econ db') = jobs (pt_econ (wdb w))
       \<and> (case (pt_map_code (pm_map_id m) (wdb w), get_primary_creator (pm_map_id m) (wdb w)) of
            (Some c, Some u) \<Rightarrow> approve E jid pytest t v w = told E jid pytest ''api.playtest.approve''
                (PlaytestApproved \<lparr>pa_verifier_id = v, pa_difficulty = band_names ! i, pa_thread_id = t,
                    pa_primary_creator_id = u, pa_code = c\<rparr>) (''playtest:approve:'' @ str_of_int t) (w\<lparr>wdb := db'\<rparr>)
          | _ \<Rightarrow> \<exists>e. approve E jid pytest t v w = (Inl (Playtests (PlaytestStateError e)), w\<lparr>wdb := db'\<rparr>))))"
proof (cases "meta_of_thread t (wdb w)")
  case None
  then show ?thesis
    by (simp add: approve_def approve_tx_def require_map_def get_map_id_from_thread_def bind_tx_def bind_io_def atomically_def)
next
  case meta: (Some m)
  show ?thesis
  proof (cases "get_average_difficulty t (wdb w)")
    case None
    with meta show ?thesis
      by (simp add: approve_def approve_tx_def require_map_def get_map_id_from_thread_def bind_tx_def bind_io_def atomically_def)
  next
    case (Some y)
    from approve_tx_run [OF assms meta Some, of E] obtain i j raw db' where run:
      "i < 16" "j = i \<or> j = Suc i" "convert_raw_difficulty_to_difficulty_all y = Inr (band_names ! i)"
      "approve_tx E t (wdb w) = Inr ((y, get_primary_creator (pm_map_id m) (wdb w), pt_map_code (pm_map_id m) (wdb w)), db')"
      "has_row (\<lambda>r. py_map_id r = pm_map_id m) (pt_maps (wdb w)) \<longrightarrow> graded (pm_map_id m) raw (band_names ! j) db'"
      "\<forall>r \<in> set (pt_metas db'). pm_thread_id r = Some t \<longrightarrow> pm_completed r"
      "pt_votes db' = pt_votes (wdb w)" "jobs (pt_econ db') = jobs (pt_econ (wdb w))" by (elim exE conjE)
    show ?thesis unfolding meta Some option.case
      by (rule exI [of _ i], rule exI [of _ j], rule exI [of _ raw], rule exI [of _ db'], intro conjI run(1-3,5-8))
        (use run(3,4) in \<open>simp add: approve_def bind_io_def atomically_def decision_key_def decision_told split: option.split\<close>)
  qed
qed

theorem approve_outcome_witness:
  "(\<exists>w'. approve sample_env 70 False 40 1 sample_pworld = (Inr (job_status 70 Queued), w') \<and> length (wmq w') = 1)
   \<and> approve sample_env 70 False 40 1 (sample_pworld\<lparr>wdb := sample_pdb\<lparr>pt_votes := []\<rparr>\<rparr>)
       = (Inl (Playtests (PlaytestStateError ''Cannot approve playtest with no votes.'')), sample_pworld\<lparr>wdb := sample_pdb\<lparr>pt_votes := []\<rparr>\<rparr>)
   \<and> approve sample_env 70 False 41 1 sample_pworld = (Inl (Playtests (PlaytestNotFoundError 41)), sample_pworld)"
proof (intro conjI)
  have meta: "meta_of_thread 40 (sample_pdb\<lparr>pt_votes := vs\<rparr>) = Some (hd (pt_metas sample_pdb))"
    "meta_of_thread 40 sample_pdb = Some (hd (pt_metas sample_pdb))" "meta_of_thread 41 sample_pdb = None" for vs
    by (simp_all add: sample_pdb_def meta_of_thread_def)
  have ready: "pt_map_code (pm_map_id (hd (pt_metas sample_pdb))) sample_pdb = Some ''ABCDE''"
    "get_primary_creator (pm_map_id (hd (pt_metas sample_pdb))) sample_pdb = Some 2"
    by (simp_all add: sample_pdb_def sample_db_def pt_map_code_def get_primary_creator_def)
  have up: "env_broker sample_env = BrokerUp" "\<not> has_row (\<lambda>j. jb_id j = 70) (jobs (pt_econ sample_pdb))"
    by (simp_all add: sample_env_def sample_pdb_def sample_db_def)
  have ok: "playtests_ok (wdb sample_pworld)" by (simp add: sample_pworld_def sample_playtests_ok)
  show "\<exists>w'. approve sample_env 70 False 40 1 sample_pworld = (Inr (job_status 70 Queued), w') \<and> length (wmq w') = 1"
    using approve_outcome [OF ok, where t = 40 and E = sample_env and jid = 70 and pytest = False and v = 1] sample_average
    by (auto simp: sample_pworld_def meta ready told_def Let_def up)
  have "playtests_ok (sample_pdb\<lparr>pt_votes := []\<rparr>)" using sample_playtests_ok by (simp add: playtests_parts)
  moreover have "get_average_difficulty 40 (sample_pdb\<lparr>pt_votes := []\<rparr>) = None"
    by (simp add: get_average_difficulty_def thread_votes_def)
  ultimately show "approve sample_env 70 False 40 1 (sample_pworld\<lparr>wdb := sample_pdb\<lparr>pt_votes := []\<rparr>\<rparr>)
       = (Inl (Playtests (PlaytestStateError ''Cannot approve playtest with no votes.'')), sample_pworld\<lparr>wdb := sample_pdb\<lparr>pt_votes := []\<rparr>\<rparr>)"
    using approve_outcome [where w = "sample_pworld\<lparr>wdb := sample_pdb\<lparr>pt_votes := []\<rparr>\<rparr>" and t = 40 and E = sample_env and jid = 70 and pytest = False and v = 1] meta(1) by simp
  show "approve sample_env 70 False 41 1 sample_pworld = (Inl (Playtests (PlaytestNotFoundError 41)), sample_pworld)"
    using approve_outcome [OF ok, where t = 41 and E = sample_env and jid = 70 and pytest = False and v = 1] meta(3) by (simp add: sample_pworld_def)
qed

end
