(* ===== verification/Complete_Db.thy ===== *)
theory Complete_Db
  imports Quest_Service Tourney_Verdicts Notify_Service Playtest_Db
begin

section \<open>The completions repository\<close>

text \<open>
  \<open>apps/api/repository/completions_repository.py\<close> but for its listings, on \<open>core.completions\<close> with the
  speed trigger of migration 0033, the flags, upvotes and ratings. The economy, the tournaments and the
  notifications see the completions through views: their own rows are the columns they read. Ids of
  refused rows are not skipped. \<open>ties\<close> is the order PostgreSQL leaves open.
\<close>

subsection \<open>Tables\<close>

record completion_run =
  co_id :: int
  co_map_id :: int
  co_user_id :: int
  co_time :: rat
  co_screenshot :: string
  co_video :: "string option"
  co_verified :: bool
  co_verification_id :: "int option"
  co_message_id :: "int option"
  co_completion :: bool
  co_inserted_at :: int
  co_verified_by :: "int option"
  co_legacy :: bool
  co_legacy_medal :: "string option"
  co_wr_xp_check :: bool
  co_reason :: "string option"
  co_tournament_id :: "int option"

record flag_row =
  fg_id :: int
  fg_completion_id :: int
  fg_context :: string
  fg_flag_type :: string
  fg_flagged_by :: int

record upvote_row =
  uv_user_id :: int
  uv_message_id :: int

record rating_row =
  ra_map_id :: int
  ra_user_id :: int
  ra_quality :: int
  ra_verified :: bool

record cdb =
  cd_tourney :: tdb
  cd_maps :: "playtest_map_row list"
  cd_usernames :: "username_row list"
  cd_ntf :: ndb
  cd_runs :: "completion_run list"
  cd_flags :: "flag_row list"
  cd_upvotes :: "upvote_row list"
  cd_ratings :: "rating_row list"
  next_run_id :: int
  next_flag_id :: int

datatype outgoing = Published message | Emitted app_event

type_synonym cworld = "(cdb, outgoing) world"
type_synonym 'a ctx = "(err, cdb, 'a) tx"
type_synonym 'a cio = "(err, cworld, 'a) io"

subsection \<open>Views\<close>

definition short_row :: "completion_run \<Rightarrow> completion_row" where
  "short_row c = \<lparr>cp_map_id = co_map_id c, cp_user_id = co_user_id c, cp_time = co_time c,
     cp_verified = co_verified c, cp_legacy = co_legacy c, cp_inserted_at = co_inserted_at c\<rparr>"

definition econ_view :: "cdb \<Rightarrow> econ" where
  "econ_view db = (economy (cd_tourney db))\<lparr>completions := map short_row (cd_runs db)\<rparr>"

definition put_econ :: "econ \<Rightarrow> cdb \<Rightarrow> cdb" where
  "put_econ e db = db\<lparr>cd_tourney := (cd_tourney db)\<lparr>economy := e\<rparr>\<rparr>"

definition tourney_view :: "cdb \<Rightarrow> tdb" where
  "tourney_view db = (cd_tourney db)\<lparr>economy := econ_view db\<rparr>"

definition put_tourney :: "tdb \<Rightarrow> cdb \<Rightarrow> cdb" where
  "put_tourney t db = db\<lparr>cd_tourney := t\<rparr>"

definition ntf_view :: "cdb \<Rightarrow> ndb" where
  "ntf_view db = (cd_ntf db)\<lparr>ntf_econ := econ_view db\<rparr>"

definition put_ntf :: "ndb \<Rightarrow> cdb \<Rightarrow> cdb" where
  "put_ntf n db = put_econ (ntf_econ n) (db\<lparr>cd_ntf := n\<rparr>)"

text \<open>A call of another service: what it publishes joins what is sent.\<close>

definition call_part :: "(cdb \<Rightarrow> 't) \<Rightarrow> ('t \<Rightarrow> cdb \<Rightarrow> cdb) \<Rightarrow> (err, ('t, message) world, 'a) io \<Rightarrow> 'a cio" where
  "call_part get put m = (\<lambda>w. case m \<lparr>wdb = get (wdb w), wmq = []\<rparr> of
      (r, v) \<Rightarrow> (r, \<lparr>wdb = put (wdb v) (wdb w), wmq = wmq w @ map Published (wmq v)\<rparr>))"

definition on_store :: "'a eio \<Rightarrow> 'a cio" where
  "on_store = call_part econ_view put_econ"

definition on_tourney :: "'a tio \<Rightarrow> 'a cio" where
  "on_tourney = call_part tourney_view put_tourney"

definition on_notify :: "'a nio \<Rightarrow> 'a cio" where
  "on_notify = call_part ntf_view put_ntf"

definition in_tourney :: "'a ttx \<Rightarrow> 'a ctx" where
  "in_tourney = zoom_tx tourney_view put_tourney"

subsection \<open>Errors of statements\<close>

definition constraint_or_unknown :: "string \<Rightarrow> string" where
  "constraint_or_unknown c = (if c = [] then ''unknown'' else c)"

definition repo_error :: "string \<Rightarrow> bool \<Rightarrow> err \<Rightarrow> err" where
  "repo_error table checks e = (case e of
      Pg (UniqueViolation c) \<Rightarrow> Repo (UniqueConstraintViolationError (constraint_or_unknown c) table)
    | Pg (ForeignKeyViolation c) \<Rightarrow> Repo (ForeignKeyViolationError (constraint_or_unknown c) table)
    | Pg (CheckViolation c) \<Rightarrow> if checks then Repo (CheckConstraintViolationError (constraint_or_unknown c) table) else e
    | _ \<Rightarrow> e)"

definition translated :: "(err \<Rightarrow> err) \<Rightarrow> ('s \<Rightarrow> err + 'a) \<Rightarrow> 's \<Rightarrow> err + 'a" where
  "translated f m = (\<lambda>s. case m s of Inl e \<Rightarrow> Inl (f e) | Inr x \<Rightarrow> Inr x)"

subsection \<open>Maps and users\<close>

definition map_by_code :: "string option \<Rightarrow> cdb \<Rightarrow> map_row option" where
  "map_by_code code db =
     (case code of None \<Rightarrow> None | Some c \<Rightarrow> first_where (\<lambda>m. mp_code m = Some c) (maps_tbl (econ_view db)))"

definition check_map_exists :: "string \<Rightarrow> cdb \<Rightarrow> bool" where
  "check_map_exists code db = has_row (\<lambda>m. mp_code m = Some code \<and> \<not> mp_archived m) (maps_tbl (econ_view db))"

definition fetch_map_metadata_by_code :: "string option \<Rightarrow> cdb \<Rightarrow> (int \<times> string \<times> string) option" where
  "fetch_map_metadata_by_code code db =
     map_option (\<lambda>m. (mp_id m, mp_difficulty m, mp_category m)) (map_by_code code db)"

definition get_active_cycle_by_map_id :: "(nat \<Rightarrow> nat) \<Rightarrow> int \<Rightarrow> tdb \<Rightarrow> cycle_row option" where
  "get_active_cycle_by_map_id ties map_id db =
     (case order_by_random ties (filter (\<lambda>c. cy_map_id c = map_id \<and> cy_status c = CycleActive) (cycles db)) of
        [] \<Rightarrow> None | c # _ \<Rightarrow> Some c)"

text \<open>The display name of \<open>users_repository.fetch_user\<close>: the primary name, any other, or the account's.\<close>

definition coalesced_name :: "(nat \<Rightarrow> nat) \<Rightarrow> user_row \<Rightarrow> cdb \<Rightarrow> string" where
  "coalesced_name ties u db =
     (case sort_key (\<lambda>n. if un_is_primary n then (0 :: nat) else 1)
         (order_by_random ties (filter (\<lambda>n. un_user_id n = usr_id u) (cd_usernames db))) of
        n # _ \<Rightarrow> un_username n
      | [] \<Rightarrow> (case usr_nickname u of Some n \<Rightarrow> n
          | None \<Rightarrow> (case usr_global_name u of Some n \<Rightarrow> n | None \<Rightarrow> ''Unknown User'')))"

definition fetch_user_name :: "(nat \<Rightarrow> nat) \<Rightarrow> int \<Rightarrow> cdb \<Rightarrow> string option" where
  "fetch_user_name ties user_id db =
     map_option (\<lambda>u. coalesced_name ties u db) (first_where (\<lambda>u. usr_id u = user_id) (users (econ_view db)))"

definition account_names :: "user_row \<Rightarrow> (string \<times> int) list" where
  "account_names u = (case usr_global_name u of None \<Rightarrow> [] | Some n \<Rightarrow> [(n, 0)])
     @ (case usr_nickname u of None \<Rightarrow> [] | Some n \<Rightarrow> [(n, 0)])"

definition fetch_all_user_names :: "(nat \<Rightarrow> nat) \<Rightarrow> int \<Rightarrow> cdb \<Rightarrow> string list" where
  "fetch_all_user_names ties user_id db =
     (case first_where (\<lambda>u. usr_id u = user_id) (users (econ_view db)) of
        None \<Rightarrow> []
      | Some u \<Rightarrow>
          let all_names = map (\<lambda>n. (un_username n, if un_is_primary n then 2 else 1))
                (filter (\<lambda>n. un_user_id n = user_id) (cd_usernames db)) @ account_names u;
              deduped = distinct_on fst [] (sort_key fst (sort_key (\<lambda>(n, s). - s) all_names))
          in map fst (sort_key (\<lambda>(n, s). - s) (order_by_random ties deduped)))"

subsection \<open>Runs\<close>

definition run_by_id :: "int \<Rightarrow> cdb \<Rightarrow> completion_run option" where
  "run_by_id i db = first_where (\<lambda>c. co_id c = i) (cd_runs db)"

definition check_completion_exists :: "int \<Rightarrow> cdb \<Rightarrow> bool" where
  "check_completion_exists completion_id db = has_row (\<lambda>c. co_id c = completion_id) (cd_runs db)"

text \<open>The speed trigger: \<open>skip\<close> is the row being updated.\<close>

definition live_run :: "completion_run \<Rightarrow> bool" where
  "live_run c \<longleftrightarrow> \<not> co_legacy c \<and> (co_verified c \<or> co_verified_by c = None)"

definition rival_runs :: "int option \<Rightarrow> completion_run \<Rightarrow> cdb \<Rightarrow> completion_run list" where
  "rival_runs skip new db = filter (\<lambda>c. co_user_id c = co_user_id new \<and> co_map_id c = co_map_id new \<and> live_run c
     \<and> skip \<noteq> Some (co_id c) \<and> has_row (\<lambda>m. mp_id m = co_map_id c) (maps_tbl (econ_view db))) (cd_runs db)"

definition fastest_rival :: "(nat \<Rightarrow> nat) \<Rightarrow> int option \<Rightarrow> completion_run \<Rightarrow> cdb \<Rightarrow> completion_run option" where
  "fastest_rival ties skip new db = (case sort_key co_time (order_by_random ties (rival_runs skip new db)) of
      [] \<Rightarrow> None | c # _ \<Rightarrow> Some c)"

definition speed_rules_ok :: "(nat \<Rightarrow> nat) \<Rightarrow> int option \<Rightarrow> completion_run \<Rightarrow> cdb \<Rightarrow> bool" where
  "speed_rules_ok ties skip new db \<longleftrightarrow> co_legacy new \<or> (case fastest_rival ties skip new db of
      None \<Rightarrow> True
    | Some best \<Rightarrow> co_inserted_at new < co_inserted_at best
        \<or> (if co_completion new then co_time new < co_time best
           else co_completion best \<or> co_time new < co_time best))"

record pending_run =
  pd_id :: int
  pd_time :: rat
  pd_verification_id :: "int option"

definition is_pending :: "completion_run \<Rightarrow> bool" where
  "is_pending c \<longleftrightarrow> \<not> co_verified c \<and> co_verified_by c = None \<and> \<not> co_legacy c"

definition get_pending_verification :: "(nat \<Rightarrow> nat) \<Rightarrow> int \<Rightarrow> string \<Rightarrow> cdb \<Rightarrow> pending_run option" where
  "get_pending_verification ties user_id code db =
     (case map_by_code (Some code) db of None \<Rightarrow> None
      | Some m \<Rightarrow> (case sort_key co_time (order_by_random ties (filter (\<lambda>c. co_user_id c = user_id
            \<and> co_map_id c = mp_id m \<and> is_pending c) (cd_runs db))) of
          [] \<Rightarrow> None
        | c # _ \<Rightarrow> Some \<lparr>pd_id = co_id c, pd_time = fl (co_time c), pd_verification_id = co_verification_id c\<rparr>))"

definition set_runs :: "(completion_run \<Rightarrow> bool) \<Rightarrow> (completion_run \<Rightarrow> completion_run) \<Rightarrow> cdb \<Rightarrow> cdb" where
  "set_runs P f db = db\<lparr>cd_runs := update_where P f (cd_runs db)\<rparr>"

definition user_missing :: "int \<Rightarrow> cdb \<Rightarrow> bool" where
  "user_missing user_id db \<longleftrightarrow> \<not> user_exists user_id (econ_view db)"

definition reject_completion :: "int \<Rightarrow> int \<Rightarrow> unit ctx" where
  "reject_completion completion_id rejected_by = (\<lambda>db.
     if check_completion_exists completion_id db \<and> user_missing rejected_by db
     then Inl (Pg (ForeignKeyViolation ''completions_verified_by_fkey''))
     else Inr ((), set_runs (\<lambda>c. co_id c = completion_id) (\<lambda>c. c\<lparr>co_verified_by := Some rejected_by\<rparr>) db))"

definition in_playtest :: "int \<Rightarrow> cdb \<Rightarrow> bool" where
  "in_playtest map_id db = has_row (\<lambda>p. py_map_id p = map_id \<and> py_playtesting p = PlaytestInProgress) (cd_maps db)"

definition completion_flag :: "map_row \<Rightarrow> string option \<Rightarrow> cdb \<Rightarrow> bool" where
  "completion_flag m video db \<longleftrightarrow> in_playtest (mp_id m) db \<or> video = None \<or> video = Some [] \<or> \<not> mp_official m"

definition new_run :: "env \<Rightarrow> int \<Rightarrow> map_row \<Rightarrow> int \<Rightarrow> rat \<Rightarrow> string \<Rightarrow> string option \<Rightarrow> bool \<Rightarrow> completion_run" where
  "new_run E i m user_id t screenshot video flag =
     \<lparr>co_id = i, co_map_id = mp_id m, co_user_id = user_id, co_time = t, co_screenshot = screenshot, co_video = video,
      co_verified = False, co_verification_id = None, co_message_id = None, co_completion = flag,
      co_inserted_at = env_now E, co_verified_by = None, co_legacy = False, co_legacy_medal = None,
      co_wr_xp_check = False, co_reason = None, co_tournament_id = None\<rparr>"

definition insert_completion ::
  "env \<Rightarrow> (nat \<Rightarrow> nat) \<Rightarrow> string \<Rightarrow> int \<Rightarrow> rat \<Rightarrow> string \<Rightarrow> string option \<Rightarrow> int option ctx" where
  "insert_completion E ties code user_id time screenshot video = translated (repo_error ''core.completions'' False) (\<lambda>db.
     case map_by_code (Some code) db of
       None \<Rightarrow> Inr (None, db)
     | Some m \<Rightarrow> (case numeric_10_2 (float_text time) of
         Inl e \<Rightarrow> Inl e
       | Inr t \<Rightarrow>
           let new = new_run E (next_run_id db) m user_id t screenshot video (completion_flag m video db)
           in if \<not> speed_rules_ok ties None new db then Inl (Pg (CheckViolation []))
              else if has_row (\<lambda>c. co_map_id c = mp_id m \<and> co_user_id c = user_id \<and> co_inserted_at c = env_now E) (cd_runs db)
              then Inl (Pg (UniqueViolation ''completions_map_id_user_id_inserted_at_key''))
              else if user_missing user_id db then Inl (Pg (ForeignKeyViolation ''completions_user_id_fkey''))
              else Inr (Some (co_id new), db\<lparr>cd_runs := cd_runs db @ [new], next_run_id := next_run_id db + 1\<rparr>)))"

definition set_completion_tournament_link :: "int \<Rightarrow> int \<Rightarrow> unit ctx" where
  "set_completion_tournament_link core_completion_id tournament_completion_id =
     write_tx (set_runs (\<lambda>c. co_id c = core_completion_id) (\<lambda>c. c\<lparr>co_tournament_id := Some tournament_completion_id\<rparr>))"

definition no_patch :: completion_patch where
  "no_patch = \<lparr>cq_message_id = None, cq_completion = None, cq_verification_id = None, cq_legacy = None,
     cq_legacy_medal = None, cq_wr_xp_check = None\<rparr>"

definition or_old :: "'a option \<Rightarrow> 'a \<Rightarrow> 'a" where
  "or_old p old = (case p of None \<Rightarrow> old | Some x \<Rightarrow> x)"

definition build_completion_patch :: "completion_patch \<Rightarrow> completion_run \<Rightarrow> completion_run" where
  "build_completion_patch p c = c\<lparr>co_message_id := or_old (map_option Some (cq_message_id p)) (co_message_id c),
     co_completion := or_old (cq_completion p) (co_completion c),
     co_verification_id := or_old (map_option Some (cq_verification_id p)) (co_verification_id c),
     co_legacy := or_old (cq_legacy p) (co_legacy c), co_legacy_medal := or_old (cq_legacy_medal p) (co_legacy_medal c),
     co_wr_xp_check := or_old (cq_wr_xp_check p) (co_wr_xp_check c)\<rparr>"

definition repo_edit_completion :: "(nat \<Rightarrow> nat) \<Rightarrow> int \<Rightarrow> completion_patch \<Rightarrow> unit ctx" where
  "repo_edit_completion ties record_id p = (if p = no_patch then raise_tx (Py (ValueError ''No fields to update''))
     else translated (repo_error ''core.completions'' True) (\<lambda>db. case run_by_id record_id db of
       None \<Rightarrow> Inr ((), db)
     | Some c \<Rightarrow>
         let c' = build_completion_patch p c; moved = (co_message_id c' \<noteq> co_message_id c)
         in if (cq_completion p \<noteq> None \<or> cq_legacy p \<noteq> None) \<and> \<not> speed_rules_ok ties (Some record_id) c' db
            then Inl (Pg (CheckViolation []))
            else if moved \<and> has_row (\<lambda>r. co_message_id r = co_message_id c') (cd_runs db)
            then Inl (Pg (UniqueViolation ''completions_message_id_key''))
            else if moved \<and> has_row (\<lambda>u. co_message_id c = Some (uv_message_id u)) (cd_upvotes db)
            then Inl (Pg (ForeignKeyViolation ''upvotes_message_id_fkey''))
            else Inr ((), set_runs (\<lambda>r. co_id r = record_id) (build_completion_patch p) db)))"

text \<open>The trigger on a verified run: the rating of its player for its map counts from now on.\<close>

definition ratings_verify_on_completion :: "completion_run \<Rightarrow> cdb \<Rightarrow> cdb" where
  "ratings_verify_on_completion c db = db\<lparr>cd_ratings := update_where
     (\<lambda>r. ra_map_id r = co_map_id c \<and> ra_user_id r = co_user_id c) (\<lambda>r. r\<lparr>ra_verified := True\<rparr>) (cd_ratings db)\<rparr>"

definition after_verified :: "int \<Rightarrow> bool \<Rightarrow> cdb \<Rightarrow> cdb" where
  "after_verified record_id verified db = (case run_by_id record_id db of
      Some c \<Rightarrow> if verified then ratings_verify_on_completion c db else db | None \<Rightarrow> db)"

definition update_verification :: "int \<Rightarrow> bool \<Rightarrow> int \<Rightarrow> string option \<Rightarrow> unit ctx" where
  "update_verification record_id verified verified_by reason = translated (repo_error ''core.completions'' True) (\<lambda>db.
     if check_completion_exists record_id db \<and> user_missing verified_by db
     then Inl (Pg (ForeignKeyViolation ''completions_verified_by_fkey''))
     else Inr ((), after_verified record_id verified (set_runs (\<lambda>c. co_id c = record_id)
       (\<lambda>c. c\<lparr>co_verified := verified, co_verified_by := Some verified_by, co_reason := reason\<rparr>) db)))"

definition update_completion_time :: "(nat \<Rightarrow> nat) \<Rightarrow> int \<Rightarrow> rat \<Rightarrow> unit ctx" where
  "update_completion_time ties completion_id new_time = (\<lambda>db. case run_by_id completion_id db of
       None \<Rightarrow> Inr ((), db)
     | Some c \<Rightarrow> (case numeric_10_2 (float_text new_time) of
         Inl e \<Rightarrow> Inl e
       | Inr t \<Rightarrow>
           if \<not> speed_rules_ok ties (Some completion_id) (c\<lparr>co_time := t\<rparr>) db then Inl (Pg (CheckViolation []))
           else Inr ((), set_runs (\<lambda>r. co_id r = completion_id) (\<lambda>r. r\<lparr>co_time := t\<rparr>) db)))"

definition update_completion_verified :: "int \<Rightarrow> bool \<Rightarrow> unit ctx" where
  "update_completion_verified completion_id verified = write_tx (\<lambda>db. after_verified completion_id verified
     (set_runs (\<lambda>c. co_id c = completion_id) (\<lambda>c. c\<lparr>co_verified := verified\<rparr>) db))"

record moderation_info =
  mi_user_id :: int
  mi_code :: "string option"
  mi_old_time :: rat
  mi_old_verified :: bool
  mi_tournament_id :: "int option"

definition code_of_map :: "int \<Rightarrow> cdb \<Rightarrow> string option" where
  "code_of_map map_id db = (case first_where (\<lambda>m. mp_id m = map_id) (maps_tbl (econ_view db)) of
      None \<Rightarrow> None | Some m \<Rightarrow> mp_code m)"

definition fetch_completion_for_moderation :: "int \<Rightarrow> cdb \<Rightarrow> moderation_info option" where
  "fetch_completion_for_moderation completion_id db = map_option (\<lambda>c.
     \<lparr>mi_user_id = co_user_id c, mi_code = code_of_map (co_map_id c) db, mi_old_time = fl (co_time c),
      mi_old_verified = co_verified c, mi_tournament_id = co_tournament_id c\<rparr>) (run_by_id completion_id db)"

definition fetch_verified_times_for_user_map :: "(nat \<Rightarrow> nat) \<Rightarrow> int \<Rightarrow> int \<Rightarrow> cdb \<Rightarrow> rat list" where
  "fetch_verified_times_for_user_map ties user_id map_id db = map (\<lambda>c. fl (co_time c)) (order_by_random ties
     (filter (\<lambda>c. co_user_id c = user_id \<and> co_map_id c = map_id \<and> co_verified c) (cd_runs db)))"

definition fetch_pending_verifications :: "(nat \<Rightarrow> nat) \<Rightarrow> cdb \<Rightarrow> (int \<times> int) list" where
  "fetch_pending_verifications ties db = map (\<lambda>c. (co_id c, the (co_verification_id c)))
     (sort_key (\<lambda>c. - co_inserted_at c) (order_by_random ties (filter (\<lambda>c. \<not> co_verified c \<and> co_verified_by c = None
        \<and> co_verification_id c \<noteq> None) (cd_runs db))))"

definition check_previous_world_record_xp :: "string \<Rightarrow> int \<Rightarrow> cdb \<Rightarrow> bool" where
  "check_previous_world_record_xp code user_id db = (case map_by_code (Some code) db of
      None \<Rightarrow> False
    | Some m \<Rightarrow> has_row (\<lambda>c. co_map_id c = mp_id m \<and> co_user_id c = user_id \<and> \<not> co_legacy c \<and> co_wr_xp_check c) (cd_runs db))"

subsection \<open>Flags, upvotes, ratings\<close>

definition completion_of_message :: "(nat \<Rightarrow> nat) \<Rightarrow> int option \<Rightarrow> int option \<Rightarrow> cdb \<Rightarrow> completion_run option" where
  "completion_of_message ties message_id verification_id db =
     (case order_by_random ties (filter (\<lambda>c. case message_id of
           Some m \<Rightarrow> co_message_id c = Some m
         | None \<Rightarrow> verification_id \<noteq> None \<and> co_verification_id c = verification_id) (cd_runs db)) of
        [] \<Rightarrow> None | c # _ \<Rightarrow> Some c)"

definition add_flag :: "int \<Rightarrow> string \<Rightarrow> string \<Rightarrow> int \<Rightarrow> unit ctx" where
  "add_flag completion_id context flag_type flagged_by = (\<lambda>db.
     if \<not> check_completion_exists completion_id db
     then Inl (Pg (ForeignKeyViolation ''suspicious_flags_completion_id_fkey''))
     else if user_missing flagged_by db then Inl (Pg (ForeignKeyViolation ''suspicious_flags_flagged_by_fkey''))
     else Inr ((), db\<lparr>next_flag_id := next_flag_id db + 1, cd_flags := cd_flags db @ [\<lparr>fg_id = next_flag_id db,
            fg_completion_id = completion_id, fg_context = context, fg_flag_type = flag_type, fg_flagged_by = flagged_by\<rparr>]\<rparr>))"

definition insert_suspicious_flag :: "(nat \<Rightarrow> nat) \<Rightarrow> flag_request \<Rightarrow> unit ctx" where
  "insert_suspicious_flag ties data = translated (repo_error ''users.suspicious_flags'' False) (\<lambda>db.
     case completion_of_message ties (fq_message_id data) (fq_verification_id data) db of
       None \<Rightarrow> Inr ((), db)
     | Some c \<Rightarrow> add_flag (co_id c) (fq_context data) (fq_flag_type data) (fq_flagged_by data) db)"

definition insert_suspicious_flag_by_completion_id :: "int \<Rightarrow> string \<Rightarrow> string \<Rightarrow> int \<Rightarrow> unit ctx" where
  "insert_suspicious_flag_by_completion_id completion_id context flag_type flagged_by =
     translated (repo_error ''users.suspicious_flags'' False) (add_flag completion_id context flag_type flagged_by)"

definition check_suspicious_flag_exists :: "int \<Rightarrow> cdb \<Rightarrow> bool" where
  "check_suspicious_flag_exists completion_id db = has_row (\<lambda>f. fg_completion_id f = completion_id) (cd_flags db)"

definition delete_suspicious_flag :: "int \<Rightarrow> int ctx" where
  "delete_suspicious_flag completion_id = (\<lambda>db.
     Inr (int (length (filter (\<lambda>f. fg_completion_id f = completion_id) (cd_flags db))),
       db\<lparr>cd_flags := filter (\<lambda>f. fg_completion_id f \<noteq> completion_id) (cd_flags db)\<rparr>))"

definition delete_suspicious_flag_by_message :: "(nat \<Rightarrow> nat) \<Rightarrow> int option \<Rightarrow> int option \<Rightarrow> int ctx" where
  "delete_suspicious_flag_by_message ties message_id verification_id = (\<lambda>db.
     case completion_of_message ties message_id verification_id db of
       None \<Rightarrow> Inr (0, db) | Some c \<Rightarrow> delete_suspicious_flag (co_id c) db)"

definition fetch_completion_owner_by_message :: "(nat \<Rightarrow> nat) \<Rightarrow> int option \<Rightarrow> int option \<Rightarrow> cdb \<Rightarrow> int option" where
  "fetch_completion_owner_by_message ties message_id verification_id db =
     map_option co_user_id (completion_of_message ties message_id verification_id db)"

record flag_response =
  sf_id :: int
  sf_user_id :: int
  sf_context :: string
  sf_flag_type :: string
  sf_message_id :: "int option"
  sf_verification_id :: "int option"
  sf_flagged_by :: int

definition fetch_suspicious_flags :: "int \<Rightarrow> cdb \<Rightarrow> flag_response list" where
  "fetch_suspicious_flags user_id db = concat (map (\<lambda>f. case run_by_id (fg_completion_id f) db of
      None \<Rightarrow> []
    | Some c \<Rightarrow> if co_user_id c = user_id \<and> \<not> user_missing user_id db
        then [\<lparr>sf_id = fg_id f, sf_user_id = user_id, sf_context = fg_context f, sf_flag_type = fg_flag_type f,
               sf_message_id = co_message_id c, sf_verification_id = co_verification_id c, sf_flagged_by = fg_flagged_by f\<rparr>]
        else []) (cd_flags db))"

definition fetch_upvote_count :: "int \<Rightarrow> cdb \<Rightarrow> int" where
  "fetch_upvote_count message_id db = int (length (filter (\<lambda>u. uv_message_id u = message_id) (cd_upvotes db)))"

text \<open>The count of the \<open>RETURNING\<close> clause is that of the snapshot, and one.\<close>

definition insert_upvote :: "int \<Rightarrow> int \<Rightarrow> int option ctx" where
  "insert_upvote user_id message_id = translated (repo_error ''completions.upvotes'' False) (\<lambda>db.
     if has_row (\<lambda>u. uv_user_id u = user_id \<and> uv_message_id u = message_id) (cd_upvotes db) then Inr (None, db)
     else if user_missing user_id db then Inl (Pg (ForeignKeyViolation ''upvotes_user_id_fkey''))
     else if \<not> has_row (\<lambda>c. co_message_id c = Some message_id) (cd_runs db)
     then Inl (Pg (ForeignKeyViolation ''upvotes_message_id_fkey''))
     else Inr (Some (fetch_upvote_count message_id db + 1),
            db\<lparr>cd_upvotes := cd_upvotes db @ [\<lparr>uv_user_id = user_id, uv_message_id = message_id\<rparr>]\<rparr>))"

definition same_rating :: "int \<Rightarrow> int \<Rightarrow> rating_row \<Rightarrow> bool" where
  "same_rating map_id user_id r \<longleftrightarrow> ra_map_id r = map_id \<and> ra_user_id r = user_id"

definition upsert_quality_vote :: "string \<Rightarrow> int \<Rightarrow> int \<Rightarrow> unit ctx" where
  "upsert_quality_vote code user_id quality = translated (repo_error ''maps.ratings'' True) (\<lambda>db.
     case map_by_code (Some code) db of
       None \<Rightarrow> Inr ((), db)
     | Some m \<Rightarrow>
         if \<not> (1 \<le> quality \<and> quality \<le> 10) then Inl (Pg (CheckViolation ''quality_range''))
         else if has_row (same_rating (mp_id m) user_id) (cd_ratings db)
         then Inr ((), db\<lparr>cd_ratings := update_where (same_rating (mp_id m) user_id) (\<lambda>r. r\<lparr>ra_quality := quality\<rparr>) (cd_ratings db)\<rparr>)
         else if user_missing user_id db then Inl (Pg (ForeignKeyViolation ''ratings_user_id_fkey''))
         else Inr ((), db\<lparr>cd_ratings := cd_ratings db @ [\<lparr>ra_map_id = mp_id m, ra_user_id = user_id,
                ra_quality = quality, ra_verified = False\<rparr>]\<rparr>))"

end
