(* ===== verification/Complete_Service.thy ===== *)
theory Complete_Service
  imports Complete_Db
begin

section \<open>The completions service\<close>

text \<open>
  \<open>apps/api/services/completions_service.py\<close> but for its listings. A call gets a \<open>run_env\<close>: the
  environment, the state of the broker at each message, the random numbers of the quests, the order
  each statement leaves open and what others commit during a tournament verdict. \<open>pytest\<close> is the
  request's test header. The services run with notifications, tournaments and rewards.
\<close>

record run_env =
  rx_env :: env
  rx_outages :: "nat \<Rightarrow> broker"
  rx_rolls :: quest_rolls
  rx_ties :: "string \<Rightarrow> nat \<Rightarrow> nat"
  rx_meanwhile :: "tdb \<Rightarrow> tdb"

definition bot_user_id :: int where
  "bot_user_id = 969632729643753482"

subsection \<open>Sending\<close>

definition job_env :: "run_env \<Rightarrow> cdb \<Rightarrow> env" where
  "job_env X db = at_job (rx_env X) (rx_outages X) (length (jobs (econ_view db)))"

definition publish_run :: "run_env \<Rightarrow> bool \<Rightarrow> string \<Rightarrow> payload \<Rightarrow> string option \<Rightarrow> job_status_response cio" where
  "publish_run X pytest routing_key data key = (\<lambda>w. let E = job_env X (wdb w)
     in on_store (publish_message E (env_job_ids E 0) pytest routing_key data key) w)"

definition notify_user :: "run_env \<Rightarrow> bool \<Rightarrow> create_request \<Rightarrow> unit cio" where
  "notify_user X pytest data = (\<lambda>w. let E = job_env X (wdb w)
     in bind_io (on_notify (create_and_dispatch E (env_job_ids E 0) pytest data)) (\<lambda>_. return_io ()) w)"

definition emit_skill_recompute :: "bool \<Rightarrow> string \<Rightarrow> string \<Rightarrow> int option \<Rightarrow> unit cio" where
  "emit_skill_recompute request reason cause_category actor_user_id = (if \<not> request then return_io ()
     else send_io (Emitted (SkillRecomputeRequested \<lparr>sq_reason = reason, sq_cause_category = cause_category,
       sq_actor_user_id = actor_user_id\<rparr>)))"

definition run_repo_write :: "unit ctx \<Rightarrow> completions_error \<Rightarrow> completions_error \<Rightarrow> unit cio" where
  "run_repo_write operation unique_error fk_error = catch_io (atomically operation) (\<lambda>e. case e of
      Repo (UniqueConstraintViolationError c t) \<Rightarrow> raise_io (Runs unique_error)
    | Repo (ForeignKeyViolationError c t) \<Rightarrow> raise_io (Runs fk_error)
    | _ \<Rightarrow> raise_io e)"

subsection \<open>Quests of a run\<close>

definition compute_medal :: "rat \<Rightarrow> medals_row option \<Rightarrow> string option" where
  "compute_medal time thresholds = (case thresholds of None \<Rightarrow> None
    | Some m \<Rightarrow>
        let reached = (\<lambda>g. case g of None \<Rightarrow> False | Some x \<Rightarrow> fl x \<noteq> 0 \<and> time \<le> fl x)
        in if reached (md_gold m) then Some ''Gold'' else if reached (md_silver m) then Some ''Silver''
           else if reached (md_bronze m) then Some ''Bronze'' else None)"

definition run_event :: "int \<Rightarrow> string \<Rightarrow> string \<Rightarrow> rat \<Rightarrow> dict" where
  "run_event map_id difficulty category time =
     [(''map_id'', JInt map_id), (''difficulty'', JStr (convert_extended_difficulty_to_top_level difficulty)),
      (''category'', JStr category), (''time'', JFloat time)]"

definition json_str :: "string option \<Rightarrow> json" where
  "json_str s = (case s of None \<Rightarrow> JNull | Some t \<Rightarrow> JStr t)"

definition py_text :: "string option \<Rightarrow> string" where
  "py_text s = (case s of None \<Rightarrow> ''None'' | Some t \<Rightarrow> t)"

definition int_param :: "json \<Rightarrow> py_error + int" where
  "int_param v = (case v of JInt n \<Rightarrow> Inr n | JBool b \<Rightarrow> Inr (if b then 1 else 0)
    | _ \<Rightarrow> Inl (OutsideModel ''a user id that is not a number''))"

text \<open>\<open>d.get("requirements", {})\<close> and a method of it.\<close>

definition quest_requirements :: "dict \<Rightarrow> py_error + dict" where
  "quest_requirements quest = (case dget_or quest ''requirements'' (JObj []) of JObj d \<Rightarrow> Inr d | _ \<Rightarrow> Inl AttributeError)"

text \<open>The text of the notification with the keys that its kind adds; its arrow (U+2192) is written in ASCII.\<close>

definition quest_body :: "string \<Rightarrow> rat \<Rightarrow> string \<Rightarrow> string option \<Rightarrow> dict \<Rightarrow> dict \<Rightarrow> string \<Rightarrow> py_error + string \<times> dict" where
  "quest_body map_code time completer rival quest requirements reward_suffix =
     (let bounty_type = dget quest ''bounty_type''; code = (''map_code'', JStr map_code);
          timed = (\<lambda>k. [(''bounty_type'', bounty_type), code, (''completion_time'', JFloat time), (k, dget requirements k)])
      in if bounty_type = JStr ''rival_challenge'' then
           bind_py (fixed2_of (dget requirements ''rival_time'')) (\<lambda>t.
           Inr (completer @ '' beat '' @ py_text rival @ [CHR 0x27] @ ''s time on '' @ map_code @ '' ('' @ t @ ''s '' @ ''->'' @ '' ''
              @ fixed2 time @ ''s)'' @ reward_suffix, timed ''rival_time''))
         else if bounty_type = JStr ''personal_improvement'' then
           bind_py (fixed2_of (dget requirements ''target_time'')) (\<lambda>t.
           Inr (completer @ '' improved their time on '' @ map_code @ '' ('' @ t @ ''s '' @ ''->'' @ '' ''
              @ fixed2 time @ ''s)'' @ reward_suffix, timed ''target_time''))
         else if bounty_type = JStr ''gap_filling'' then
           Inr (completer @ '' completed '' @ map_code @ reward_suffix, [(''bounty_type'', bounty_type), code])
         else
           let description = dget_or quest ''description'' (JStr []) in
           bind_py (str_of_json (dget quest ''name'')) (\<lambda>name.
           bind_py (if truthy description then bind_py (str_of_json description) (\<lambda>d. Inr ('' ('' @ d @ '')''))
                    else Inr []) (\<lambda>desc_part.
           Inr (completer @ '' completed '' @ [CHR 0x27] @ name @ [CHR 0x27] @ desc_part @ reward_suffix,
                [(''quest_description'', description)]))))"

definition quest_metadata :: "string \<Rightarrow> string option \<Rightarrow> dict \<Rightarrow> dict \<Rightarrow> dict" where
  "quest_metadata completer rival quest requirements =
     [(''quest_id'', dget quest ''quest_id''), (''progress_id'', dget quest ''progress_id''),
      (''quest_name'', dget quest ''name''), (''quest_difficulty'', dget quest ''difficulty''),
      (''coin_reward'', dget quest ''coin_reward''), (''xp_reward'', dget quest ''xp_reward''),
      (''completer_display_name'', JStr completer), (''rival_user_id'', dget requirements ''rival_user_id''),
      (''rival_display_name'', json_str rival)]"

definition quest_notice ::
  "int \<Rightarrow> string \<Rightarrow> rat \<Rightarrow> string \<Rightarrow> string option \<Rightarrow> dict \<Rightarrow> dict \<Rightarrow> py_error + create_request" where
  "quest_notice user_id map_code time completer rival quest requirements =
     bind_py (str_of_json (dget_or quest ''coin_reward'' (JInt 0))) (\<lambda>coins.
     bind_py (str_of_json (dget_or quest ''xp_reward'' (JInt 0))) (\<lambda>xp.
     if \<not> dhas quest ''name'' then Inl (KeyError ''name'')
     else bind_py (quest_body map_code time completer rival quest requirements
           ('' and earned '' @ coins @ '' coins + '' @ xp @ '' XP.'')) (\<lambda>(body, extra).
       Inr \<lparr>nc_user_id = user_id, nc_event_type = ''quest_complete'', nc_title = ''Quest Completed!'', nc_body = body,
            nc_discord_message = None, nc_metadata = Some (dupdate (quest_metadata completer rival quest requirements) extra)\<rparr>)))"

definition rival_notice :: "int \<Rightarrow> int \<Rightarrow> string \<Rightarrow> dict \<Rightarrow> create_request" where
  "rival_notice rival_user_id user_id completer quest =
     (let text = completer @ '' completed a rival quest against you!''
      in \<lparr>nc_user_id = rival_user_id, nc_event_type = ''quest_rival_mention'', nc_title = ''Rival Quest Challenge'',
          nc_body = text, nc_discord_message = Some text,
          nc_metadata = Some [(''quest_name'', dget quest ''name''), (''quest_difficulty'', dget quest ''difficulty''),
            (''completer_user_id'', JInt user_id), (''completer_display_name'', JStr completer)]\<rparr>)"

definition shown_name :: "run_env \<Rightarrow> int \<Rightarrow> cdb \<Rightarrow> string" where
  "shown_name X user_id db =
     (case fetch_user_name (rx_ties X ''names'') user_id db of Some n \<Rightarrow> n | None \<Rightarrow> ''Unknown User'')"

definition announce_quest :: "run_env \<Rightarrow> bool \<Rightarrow> int \<Rightarrow> string \<Rightarrow> rat \<Rightarrow> dict \<Rightarrow> unit cio" where
  "announce_quest X pytest user_id map_code time quest =
     bind_io (lift_io (lift_py (quest_requirements quest))) (\<lambda>requirements.
     bind_io (atomically (read_tx (shown_name X user_id))) (\<lambda>completer.
     let rival_user_id = dget requirements ''rival_user_id'' in
     if truthy rival_user_id then
       bind_io (lift_io (lift_py (int_param rival_user_id))) (\<lambda>rival_id.
       bind_io (atomically (read_tx (shown_name X rival_id))) (\<lambda>rival.
       bind_io (lift_io (lift_py (quest_notice user_id map_code time completer (Some rival) quest requirements))) (\<lambda>data.
       bind_io (notify_user X pytest data) (\<lambda>_.
       notify_user X pytest (rival_notice rival_id user_id completer quest)))))
     else
       bind_io (lift_io (lift_py (quest_notice user_id map_code time completer None quest requirements))) (\<lambda>data.
       notify_user X pytest data)))"

definition update_quest_progress_for_completion :: "run_env \<Rightarrow> bool \<Rightarrow> int \<Rightarrow> string option \<Rightarrow> rat \<Rightarrow> unit cio" where
  "update_quest_progress_for_completion X pytest user_id map_code time =
     bind_io (atomically (read_tx (fetch_map_metadata_by_code map_code))) (\<lambda>map_meta. case map_meta of
        None \<Rightarrow> return_io ()
      | Some (map_id, difficulty, category) \<Rightarrow>
          bind_io (atomically (read_tx (\<lambda>db. get_medal_thresholds map_id (econ_view db)))) (\<lambda>thresholds.
          bind_io (on_store (update_quest_progress (rx_env X) (rx_rolls X) user_id ''completion''
             (run_event map_id difficulty category time @ [(''medal'', json_str (compute_medal time thresholds))]))) (\<lambda>quests.
          for_io quests (announce_quest X pytest user_id (py_text map_code) time))))"

definition revert_quest_progress_for_completion :: "run_env \<Rightarrow> int \<Rightarrow> string option \<Rightarrow> rat \<Rightarrow> unit cio" where
  "revert_quest_progress_for_completion X user_id map_code time =
     bind_io (atomically (read_tx (fetch_map_metadata_by_code map_code))) (\<lambda>map_meta. case map_meta of
        None \<Rightarrow> return_io ()
      | Some (map_id, difficulty, category) \<Rightarrow>
          bind_io (atomically (read_tx (fetch_verified_times_for_user_map (rx_ties X ''times'') user_id map_id))) (\<lambda>times.
          bind_io (atomically (read_tx (\<lambda>db. get_medal_thresholds map_id (econ_view db)))) (\<lambda>thresholds.
          on_store (revert_quest_progress (rx_env X) (rx_rolls X) user_id ''completion''
             (run_event map_id difficulty category time) times
             (concat (map (\<lambda>t. case compute_medal t thresholds of Some m \<Rightarrow> [m] | None \<Rightarrow> []) times))))))"

subsection \<open>Verdicts\<close>

definition propagate_tx :: "int \<Rightarrow> bool \<Rightarrow> int \<Rightarrow> (cycle_row option \<times> xp_grant_event list \<times> tcompletion_row option) ttx" where
  "propagate_tx tournament_completion_id verified user_id =
     bind_tx (read_tx (fetch_tournament_completion tournament_completion_id)) (\<lambda>row. case row of
        None \<Rightarrow> return_tx (None, [], None)
      | Some r \<Rightarrow> bind_tx (read_tx (fetch_cycle (tc_cycle_id r))) (\<lambda>cycle. case cycle of
          None \<Rightarrow> return_tx (None, [], None)
        | Some cy \<Rightarrow>
            bind_tx (set_tournament_verified tournament_completion_id verified) (\<lambda>updated.
            bind_tx (if verified then award_participation (cy_id cy) (cy_category_id cy) user_id else return_tx []) (\<lambda>events.
            return_tx (Some cy, events, updated)))))"

text \<open>On a connection without a transaction every statement commits on its own.\<close>

definition award_statements :: "cycle_row \<Rightarrow> int \<Rightarrow> xp_grant_event list cio" where
  "award_statements cy user_id =
     bind_io (atomically (in_tourney (read_tx (fetch_category (cy_category_id cy))))) (\<lambda>category. case category of
        None \<Rightarrow> return_io []
      | Some c \<Rightarrow> if ca_participation_xp c = 0 then return_io []
          else bind_io (atomically (in_tourney (claim_xp_grant (cy_id cy) user_id ''participation'' (ca_participation_xp c)))) (\<lambda>claimed.
            if \<not> claimed then return_io []
            else bind_io (atomically (in_tourney (in_econ (grant_xp_deferred user_id (ca_participation_xp c) Tournament
                   (Some ''Tournament Participation'') [])))) (\<lambda>(_, events). return_io events)))"

definition propagate_statements ::
  "int \<Rightarrow> bool \<Rightarrow> int \<Rightarrow> (cycle_row option \<times> xp_grant_event list \<times> tcompletion_row option) cio" where
  "propagate_statements tournament_completion_id verified user_id =
     bind_io (atomically (in_tourney (read_tx (fetch_tournament_completion tournament_completion_id)))) (\<lambda>row. case row of
        None \<Rightarrow> return_io (None, [], None)
      | Some r \<Rightarrow> bind_io (atomically (in_tourney (read_tx (fetch_cycle (tc_cycle_id r))))) (\<lambda>cycle. case cycle of
          None \<Rightarrow> return_io (None, [], None)
        | Some cy \<Rightarrow>
            bind_io (atomically (in_tourney (set_tournament_verified tournament_completion_id verified))) (\<lambda>updated.
            bind_io (if verified then award_statements cy user_id else return_io []) (\<lambda>events.
            return_io (Some cy, events, updated)))))"

definition publish_run_xp :: "run_env \<Rightarrow> xp_grant_event list \<Rightarrow> unit cio" where
  "publish_run_xp X events = (\<lambda>w. on_store (publish_xp_events (job_env X (wdb w)) False events) w)"

definition propagate_tournament_verdict :: "run_env \<Rightarrow> bool \<Rightarrow> bool \<Rightarrow> moderation_info \<Rightarrow> bool \<Rightarrow> unit cio" where
  "propagate_tournament_verdict X pooled pytest info verified = (case mi_tournament_id info of
      None \<Rightarrow> return_io ()
    | Some i \<Rightarrow>
        bind_io (if pooled then propagate_statements i verified (mi_user_id info)
                 else atomically (in_tourney (propagate_tx i verified (mi_user_id info)))) (\<lambda>(cycle, events, updated).
        case (cycle, updated) of
          (Some cy, Some row) \<Rightarrow>
            bind_io (if verified \<and> events \<noteq> [] then publish_run_xp X events else return_io ()) (\<lambda>_.
            bind_io (publish_run X pytest ''api.tournament.verification.changed'' (TournamentVerificationChanged
                \<lparr>vc_tournament_completion_id = i, vc_cycle_id = cy_id cy, vc_user_id = mi_user_id info,
                 vc_verified = verified, vc_time = fl (tc_time row)\<rparr>)
              (Some (''tournament:'' @ (if verified then ''verify'' else ''reject'') @ '':'' @ str_of_int i))) (\<lambda>_. return_io ()))
        | _ \<Rightarrow> return_io ()))"

definition verify_completion ::
  "run_env \<Rightarrow> bool \<Rightarrow> bool \<Rightarrow> bool \<Rightarrow> int \<Rightarrow> verification_update \<Rightarrow> job_status_response cio" where
  "verify_completion X pooled request pytest record_id data =
     bind_io (atomically (read_tx (check_completion_exists record_id))) (\<lambda>exists.
     if \<not> exists then raise_io (Runs (CompletionNotFoundError record_id)) else
     bind_io (atomically (read_tx (fetch_completion_for_moderation record_id))) (\<lambda>completion_info. case completion_info of
        None \<Rightarrow> raise_io (Runs (CompletionNotFoundError record_id))
      | Some info \<Rightarrow>
          bind_io (run_repo_write (update_verification record_id (vu_verified data) (vu_verified_by data) (vu_reason data))
             (DuplicateVerificationError record_id) (CompletionNotFoundError record_id)) (\<lambda>_.
          bind_io (if vu_verified data \<and> \<not> mi_old_verified info
             then update_quest_progress_for_completion X pytest (mi_user_id info) (mi_code info) (mi_old_time info)
             else return_io ()) (\<lambda>_.
          bind_io (if \<not> vu_verified data \<and> mi_old_verified info
             then revert_quest_progress_for_completion X (mi_user_id info) (mi_code info) (mi_old_time info)
             else return_io ()) (\<lambda>_.
          bind_io (propagate_tournament_verdict X pooled pytest info (vu_verified data)) (\<lambda>_.
          bind_io (emit_skill_recompute request (if vu_verified data then ''skill.recompute.requested:verify''
             else ''skill.recompute.requested:un-verify'') ''PLAYER_ACTION'' (Some (mi_user_id info))) (\<lambda>_.
          publish_run X pytest ''api.completion.verification'' (VerificationChanged \<lparr>vg_completion_id = record_id,
              vg_verified = vu_verified data, vg_verified_by = vu_verified_by data, vg_reason = vu_reason data\<rparr>)
            (Some (''completion:verify:'' @ str_of_int record_id)))))))))"

definition verify_completion_with_pool ::
  "run_env \<Rightarrow> bool \<Rightarrow> bool \<Rightarrow> int \<Rightarrow> verification_update \<Rightarrow> job_status_response cio" where
  "verify_completion_with_pool X request pytest record_id data = verify_completion X True request pytest record_id data"

subsection \<open>Submissions\<close>

record submission_response =
  sj_job_status :: "job_status_response option"
  sj_completion_id :: int

definition resolve_active_cycle :: "run_env \<Rightarrow> string \<Rightarrow> cdb \<Rightarrow> cycle_row option" where
  "resolve_active_cycle X code db = (case fetch_map_metadata_by_code (Some code) db of None \<Rightarrow> None
    | Some (map_id, _, _) \<Rightarrow> get_active_cycle_by_map_id (rx_ties X ''cycle'') map_id (tourney_view db))"

text \<open>What a violated constraint of a submission means.\<close>

definition submission_error :: "completion_create_request \<Rightarrow> err \<Rightarrow> err" where
  "submission_error data e = (case e of
      Repo (UniqueConstraintViolationError c t) \<Rightarrow> Runs (DuplicateCompletionError (cc_user_id data) (cc_code data))
    | Repo (ForeignKeyViolationError c t) \<Rightarrow>
        if sublist ''user_id'' c then Runs (CompletionNotFoundError (cc_user_id data)) else Runs (MapNotFoundError (cc_code data))
    | _ \<Rightarrow> e)"

definition record_tournament_completion :: "run_env \<Rightarrow> cycle_row \<Rightarrow> completion_create_request \<Rightarrow> int ctx" where
  "record_tournament_completion X cy data = translated (submission_error data)
     (bind_tx (in_tourney (create_tournament_completion (rx_env X) (cy_id cy) (cc_user_id data) (cy_map_id cy)
        (cc_time data) (cc_video data))) (\<lambda>row. return_tx (tc_id row)))"

text \<open>
  After a statement has failed, its transaction refuses every other one until it is rolled back: \<open>m\<close>
  begins with a statement.
\<close>

definition in_failed_transaction :: "'a ctx \<Rightarrow> 'a ctx" where
  "in_failed_transaction m = (\<lambda>db. Inl (Pg InFailedSqlTransaction))"

definition insert_or_relax ::
  "run_env \<Rightarrow> cycle_row option \<Rightarrow> completion_create_request \<Rightarrow> (int option \<times> (int \<times> cycle_row) option) ctx" where
  "insert_or_relax X active_cycle data = (\<lambda>db.
     case insert_completion (rx_env X) (rx_ties X ''best'') (cc_code data) (cc_user_id data) (cc_time data)
       (cc_screenshot data) (cc_video data) db of
       Inr (completion_id, db') \<Rightarrow> Inr ((completion_id, None), db')
     | Inl (Pg (CheckViolation c)) \<Rightarrow> (case active_cycle of
           None \<Rightarrow> Inl (Pg (CheckViolation c))
         | Some cy \<Rightarrow> in_failed_transaction (bind_tx (record_tournament_completion X cy data) (\<lambda>i. return_tx (None, Some (i, cy)))) db)
     | Inl e \<Rightarrow> Inl (submission_error data e))"

definition supersede_pending ::
  "cycle_row option \<Rightarrow> completion_create_request \<Rightarrow> pending_run option \<Rightarrow> int option ctx" where
  "supersede_pending active_cycle data pending = (case pending of
      None \<Rightarrow> return_tx None
    | Some p \<Rightarrow>
        if pd_time p \<le> cc_time data \<and> active_cycle = None
        then raise_tx (Runs (SlowerThanPendingError (cc_time data) (pd_time p)))
        else if cc_time data < pd_time p
        then bind_tx (reject_completion (pd_id p) bot_user_id) (\<lambda>_. return_tx (pd_verification_id p))
        else return_tx None)"

definition submission_tx ::
  "run_env \<Rightarrow> completion_create_request \<Rightarrow> (int option \<times> int option \<times> (int \<times> cycle_row) option) ctx" where
  "submission_tx X data =
     bind_tx (read_tx (resolve_active_cycle X (cc_code data))) (\<lambda>active_cycle.
     bind_tx (read_tx (get_pending_verification (rx_ties X ''pending'') (cc_user_id data) (cc_code data))) (\<lambda>pending.
     bind_tx (supersede_pending active_cycle data pending) (\<lambda>verification_id_to_delete.
     bind_tx (insert_or_relax X active_cycle data) (\<lambda>(completion_id, non_pb).
     bind_tx (case (active_cycle, completion_id) of
         (Some cy, Some i) \<Rightarrow> if i = 0 then return_tx () else
           bind_tx (record_tournament_completion X cy data) (\<lambda>t. set_completion_tournament_link i t)
       | _ \<Rightarrow> return_tx ()) (\<lambda>_.
     return_tx (completion_id, verification_id_to_delete, non_pb))))))"

definition no_video :: "completion_create_request \<Rightarrow> bool" where
  "no_video data \<longleftrightarrow> cc_video data = None \<or> cc_video data = Some []"

definition dispatch_non_pb_tournament ::
  "run_env \<Rightarrow> bool \<Rightarrow> int \<Rightarrow> cycle_row \<Rightarrow> completion_create_request \<Rightarrow> submission_response cio" where
  "dispatch_non_pb_tournament X pytest i cy data = (if no_video data
     then bind_io (send_io (Emitted (TournamentOcrRequested \<lparr>tq_tournament_completion_id = i, tq_cycle_id = cy_id cy,
            tq_user_id = cc_user_id data, tq_code = cc_code data, tq_time = cc_time data, tq_screenshot = cc_screenshot data\<rparr>)))
          (\<lambda>_. return_io \<lparr>sj_job_status = None, sj_completion_id = 0\<rparr>)
     else bind_io (publish_run X pytest ''api.tournament.completion.created'' (TournamentCompletionCreated
            \<lparr>tv_completion_id = i, tv_cycle_id = cy_id cy, tv_user_id = cc_user_id data, tv_time = cc_time data,
             tv_video = cc_video data, tv_screenshot = cc_screenshot data\<rparr>)
            (Some (''tournament:submission:'' @ str_of_int (cc_user_id data) @ '':'' @ str_of_int i)))
          (\<lambda>job. return_io \<lparr>sj_job_status = Some job, sj_completion_id = 0\<rparr>))"

definition submission_key :: "int \<Rightarrow> int \<Rightarrow> string option" where
  "submission_key user_id completion_id =
     Some (''completion:submission:'' @ str_of_int user_id @ '':'' @ str_of_int completion_id)"

definition submit_completion :: "run_env \<Rightarrow> bool \<Rightarrow> completion_create_request \<Rightarrow> submission_response cio" where
  "submit_completion X pytest data =
     bind_io (atomically (read_tx (check_map_exists (cc_code data)))) (\<lambda>map_exists.
     if \<not> map_exists then raise_io (Runs (MapNotFoundError (cc_code data))) else
     bind_io (atomically (submission_tx X data)) (\<lambda>(completion_id, verification_id_to_delete, non_pb).
     bind_io (case verification_id_to_delete of
         Some v \<Rightarrow> if v = 0 then return_io () else bind_io (publish_run X pytest ''api.completion.verification.delete''
             (VerificationMessageDelete v) None) (\<lambda>_. return_io ())
       | None \<Rightarrow> return_io ()) (\<lambda>_.
     case non_pb of
       Some (i, cy) \<Rightarrow> dispatch_non_pb_tournament X pytest i cy data
     | None \<Rightarrow> (case completion_id of
         None \<Rightarrow> raise_io (Py (ValueError ''Completion ID is null after insert''))
       | Some i \<Rightarrow> if i = 0 then raise_io (Py (ValueError ''Completion ID is null after insert'')) else
           bind_io (atomically (read_tx (fetch_suspicious_flags (cc_user_id data)))) (\<lambda>flags.
           if no_video data \<and> flags = []
           then bind_io (send_io (Emitted (OcrRequested \<lparr>oq_completion_id = i, oq_user_id = cc_user_id data,
                  oq_code = cc_code data, oq_time = cc_time data, oq_screenshot = cc_screenshot data\<rparr>)))
                (\<lambda>_. return_io \<lparr>sj_job_status = None, sj_completion_id = i\<rparr>)
           else bind_io (publish_run X pytest ''api.completion.submission'' (CompletionCreated i)
                  (submission_key (cc_user_id data) i))
                (\<lambda>job. return_io \<lparr>sj_job_status = Some job, sj_completion_id = i\<rparr>))))))"

subsection \<open>Automatic verification\<close>

text \<open>The text recognition is another service: \<open>ocr\<close> answers with what it read or fails.\<close>

type_synonym ocr_service = "string \<Rightarrow> string \<Rightarrow> rat \<Rightarrow> string list \<Rightarrow> err + extracted_result"

definition read_screenshot :: "run_env \<Rightarrow> ocr_service \<Rightarrow> int \<Rightarrow> string \<Rightarrow> rat \<Rightarrow> string \<Rightarrow> (string list \<times> extracted_result) cio" where
  "read_screenshot X ocr user_id code time screenshot =
     bind_io (atomically (read_tx (fetch_all_user_names (rx_ties X ''usernames'') user_id))) (\<lambda>names.
     bind_io (lift_io (ocr screenshot code time (map py_upper names))) (\<lambda>extracted.
     return_io (map py_upper names, extracted)))"

definition user_match :: "string list \<Rightarrow> extracted_result \<Rightarrow> bool" where
  "user_match names extracted \<longleftrightarrow> (case ex_name extracted of None \<Rightarrow> False | Some n \<Rightarrow> n \<in> set names)"

definition ocr_match :: "string \<Rightarrow> rat \<Rightarrow> string list \<Rightarrow> extracted_result \<Rightarrow> bool" where
  "ocr_match code time names extracted \<longleftrightarrow>
     ex_code extracted = Some code \<and> ex_time extracted = Some time \<and> user_match names extracted"

definition autoverify_notice :: "int \<Rightarrow> string \<Rightarrow> string \<Rightarrow> string \<Rightarrow> string \<Rightarrow> int \<Rightarrow> create_request" where
  "autoverify_notice user_id what run code id_key i =
     \<lparr>nc_user_id = user_id, nc_event_type = ''auto_verify_failed'', nc_title = ''Auto-Verification Failed'',
      nc_body = ''Auto-verification '' @ what @ '' for your '' @ run @ '' on '' @ code
        @ ''. Your submission is now awaiting manual verification.'',
      nc_discord_message = None, nc_metadata = Some [(id_key, JInt i), (''map_code'', JStr code)]\<rparr>"

definition bot_verdict :: verification_update where
  "bot_verdict = \<lparr>vu_verified_by = bot_user_id, vu_verified = True, vu_reason = Some ''Auto Verified by Genji Shimada.''\<rparr>"

definition attempt_auto_verify :: "run_env \<Rightarrow> ocr_service \<Rightarrow> int \<Rightarrow> int \<Rightarrow> string \<Rightarrow> rat \<Rightarrow> string \<Rightarrow> unit cio" where
  "attempt_auto_verify X ocr completion_id user_id code time screenshot =
     (let to_queue = publish_run X False ''api.completion.submission'' (CompletionCreated completion_id)
            (submission_key user_id completion_id);
          notice = (\<lambda>what. notify_user X False (autoverify_notice user_id what ''completion'' code ''completion_id'' completion_id))
      in catch_io
        (bind_io (read_screenshot X ocr user_id code time screenshot) (\<lambda>(names, extracted).
         if ocr_match code time names extracted
         then bind_io (verify_completion_with_pool X False False completion_id bot_verdict) (\<lambda>_. return_io ())
         else
           bind_io (publish_run X False ''api.completion.autoverification.failed'' (FailedAutoverify
              \<lparr>fv_submitted_code = code, fv_submitted_time = time, fv_submitted_user_names = names, fv_user_id = user_id,
               fv_extracted = extracted, fv_code_match = (ex_code extracted = Some code),
               fv_time_match = (ex_time extracted = Some time), fv_user_match = user_match names extracted,
               fv_screenshot = screenshot\<rparr>) None) (\<lambda>_.
           bind_io to_queue (\<lambda>_. notice ''failed''))))
        (\<lambda>_. bind_io to_queue (\<lambda>_. notice ''encountered an error'')))"

definition publish_tournament_mod_review :: "run_env \<Rightarrow> int \<Rightarrow> int \<Rightarrow> int \<Rightarrow> rat \<Rightarrow> string \<Rightarrow> unit cio" where
  "publish_tournament_mod_review X i cycle_id user_id time screenshot =
     bind_io (publish_run X False ''api.tournament.completion.created'' (TournamentCompletionCreated
        \<lparr>tv_completion_id = i, tv_cycle_id = cycle_id, tv_user_id = user_id, tv_time = time, tv_video = None,
         tv_screenshot = screenshot\<rparr>) (Some (''tournament:submission:'' @ str_of_int user_id @ '':'' @ str_of_int i)))
       (\<lambda>_. return_io ())"

definition verify_tournament_run :: "run_env \<Rightarrow> int \<Rightarrow> unit cio" where
  "verify_tournament_run X i = bind_io (on_tourney (verify_tournament_completion (rx_env X) (rx_outages X) False
      (rx_meanwhile X) i)) (\<lambda>_. return_io ())"

text \<open>The verdict runs outside the \<open>try\<close>.\<close>

definition attempt_tournament_auto_verify ::
  "run_env \<Rightarrow> ocr_service \<Rightarrow> int \<Rightarrow> int \<Rightarrow> int \<Rightarrow> string \<Rightarrow> rat \<Rightarrow> string \<Rightarrow> unit cio" where
  "attempt_tournament_auto_verify X ocr i cycle_id user_id code time screenshot =
     (let review = publish_tournament_mod_review X i cycle_id user_id time screenshot;
          notice = (\<lambda>what. notify_user X False
            (autoverify_notice user_id what ''tournament completion'' code ''tournament_completion_id'' i))
      in (\<lambda>w. case read_screenshot X ocr user_id code time screenshot w of
            (Inl e, w') \<Rightarrow> bind_io review (\<lambda>_. notice ''encountered an error'') w'
          | (Inr (names, extracted), w') \<Rightarrow>
              (if ocr_match code time names extracted then verify_tournament_run X i
               else bind_io review (\<lambda>_. notice ''failed'')) w'))"

subsection \<open>Edits and moderation\<close>

definition edit_completion :: "run_env \<Rightarrow> int \<Rightarrow> completion_patch \<Rightarrow> unit cio" where
  "edit_completion X record_id data =
     bind_io (atomically (read_tx (check_completion_exists record_id))) (\<lambda>exists.
     if \<not> exists then raise_io (Runs (CompletionNotFoundError record_id))
     else run_repo_write (repo_edit_completion (rx_ties X ''best'') record_id data)
       (DuplicateCompletionError 0 ''unknown'') (CompletionNotFoundError record_id))"

definition newline :: string where
  "newline = [CHR 0x0A]"

definition starred :: "string \<Rightarrow> string" where
  "starred s = ''**'' @ s @ ''**''"

text \<open>A step of the moderation returns its messages and whether the skill scores may change.\<close>

definition change_time :: "run_env \<Rightarrow> int \<Rightarrow> moderation_info \<Rightarrow> moderate_request \<Rightarrow> string list cio" where
  "change_time X completion_id info data = (case mo_time data of
      None \<Rightarrow> return_io []
    | Some new_time \<Rightarrow> (case mo_time_change_reason data of
        None \<Rightarrow> raise_io (Py (ValueError ''time_change_reason is required when changing time''))
      | Some reason \<Rightarrow>
          bind_io (run_repo_write (update_completion_time (rx_ties X ''best'') completion_id new_time)
             (DuplicateCompletionError (mi_user_id info) (py_text (mi_code info))) (CompletionNotFoundError completion_id)) (\<lambda>_.
          return_io [''Your completion time on '' @ starred (py_text (mi_code info)) @ '' was changed from ''
            @ starred (float_str (mi_old_time info) @ ''s'') @ '' to '' @ starred (float_str new_time @ ''s'') @ ''.''
            @ newline @ ''Reason: '' @ reason])))"

definition change_verified :: "run_env \<Rightarrow> bool \<Rightarrow> int \<Rightarrow> moderation_info \<Rightarrow> moderate_request \<Rightarrow> (string list \<times> bool) cio" where
  "change_verified X pytest completion_id info data = (case mo_verified data of
      None \<Rightarrow> return_io ([], False)
    | Some verified \<Rightarrow>
        bind_io (run_repo_write (update_completion_verified completion_id verified)
           (DuplicateCompletionError (mi_user_id info) (py_text (mi_code info))) (CompletionNotFoundError completion_id)) (\<lambda>_.
        if verified = mi_old_verified info then return_io ([], False)
        else if verified then
          bind_io (update_quest_progress_for_completion X pytest (mi_user_id info) (mi_code info) (mi_old_time info)) (\<lambda>_.
          return_io ([''Your completion on '' @ starred (py_text (mi_code info)) @ '' has been verified by a moderator.''], True))
        else
          bind_io (revert_quest_progress_for_completion X (mi_user_id info) (mi_code info) (mi_old_time info)) (\<lambda>_.
          return_io ([''Your completion on '' @ starred (py_text (mi_code info)) @ '' has been unverified by a moderator.''
            @ (case mo_verification_reason data of Some (Some r) \<Rightarrow> if r = [] then [] else newline @ ''Reason: '' @ r | _ \<Rightarrow> [])], True))))"

definition mark_flag :: "int \<Rightarrow> moderation_info \<Rightarrow> moderate_request \<Rightarrow> (string list \<times> bool) cio" where
  "mark_flag completion_id info data = (if \<not> mo_mark_suspicious data then return_io ([], False)
     else case (mo_suspicious_context data, mo_suspicious_flag_type data) of
       (Some context, Some flag_type) \<Rightarrow>
         bind_io (atomically (read_tx (check_suspicious_flag_exists completion_id))) (\<lambda>existing.
         if existing then return_io ([], False)
         else bind_io (run_repo_write (insert_suspicious_flag_by_completion_id completion_id context flag_type
              (mo_moderated_by data)) (DuplicateFlagError completion_id) (CompletionNotFoundError completion_id)) (\<lambda>_.
           return_io ([''Your completion on '' @ starred (py_text (mi_code info)) @ '' has been flagged as suspicious (''
             @ flag_type @ '').'' @ newline @ ''Context: '' @ context], True)))
     | _ \<Rightarrow> raise_io (Py (ValueError ''suspicious_context and suspicious_flag_type are required when marking as suspicious'')))"

definition unmark_flag :: "int \<Rightarrow> moderation_info \<Rightarrow> moderate_request \<Rightarrow> (string list \<times> bool) cio" where
  "unmark_flag completion_id info data = (if \<not> mo_unmark_suspicious data then return_io ([], False)
     else bind_io (atomically (delete_suspicious_flag completion_id)) (\<lambda>deleted.
       return_io (if 0 < deleted then ([''The suspicious flag on your completion for '' @ starred (py_text (mi_code info))
         @ '' has been removed.''], True) else ([], False))))"

fun join_with :: "string \<Rightarrow> string list \<Rightarrow> string" where
  "join_with sep [] = []"
| "join_with sep [s] = s"
| "join_with sep (s # t # ss) = s @ sep @ join_with sep (t # ss)"

definition moderation_notice :: "int \<Rightarrow> moderation_info \<Rightarrow> string list \<Rightarrow> create_request" where
  "moderation_notice completion_id info messages = (let body = join_with (newline @ newline) messages
     in \<lparr>nc_user_id = mi_user_id info, nc_event_type = ''record_edited'',
         nc_title = ''Completion Updated - '' @ py_text (mi_code info), nc_body = body, nc_discord_message = Some body,
         nc_metadata = Some [(''map_code'', json_str (mi_code info)), (''completion_id'', JInt completion_id)]\<rparr>)"

definition moderate_completion :: "run_env \<Rightarrow> bool \<Rightarrow> int \<Rightarrow> moderate_request \<Rightarrow> unit cio" where
  "moderate_completion X pytest completion_id data =
     bind_io (atomically (read_tx (fetch_completion_for_moderation completion_id))) (\<lambda>completion_info. case completion_info of
        None \<Rightarrow> raise_io (Runs (CompletionNotFoundError completion_id))
      | Some info \<Rightarrow>
          bind_io (change_time X completion_id info data) (\<lambda>m1.
          bind_io (change_verified X pytest completion_id info data) (\<lambda>(m2, d2).
          bind_io (mark_flag completion_id info data) (\<lambda>(m3, d3).
          bind_io (unmark_flag completion_id info data) (\<lambda>(m4, d4).
          let messages = m1 @ m2 @ m3 @ m4 in
          bind_io (if messages = [] then return_io ()
                   else notify_user X pytest (moderation_notice completion_id info messages)) (\<lambda>_.
          if d2 \<or> d3 \<or> d4 then emit_skill_recompute True ''skill.recompute.requested:moderate'' ''PLAYER_ACTION''
             (Some (mi_user_id info))
          else return_io ()))))))"

subsection \<open>Flags, upvotes and ratings\<close>

definition or_none_zero :: "int option \<Rightarrow> int" where
  "or_none_zero v = (case v of None \<Rightarrow> 0 | Some n \<Rightarrow> n)"

definition set_suspicious_flags :: "run_env \<Rightarrow> bool \<Rightarrow> flag_request \<Rightarrow> unit cio" where
  "set_suspicious_flags X request data =
     bind_io (run_repo_write (insert_suspicious_flag (rx_ties X ''message'') data)
       (DuplicateFlagError (or_none_zero (fq_verification_id data)))
       (CompletionNotFoundError (or_none_zero (fq_verification_id data)))) (\<lambda>_.
     bind_io (atomically (read_tx (fetch_completion_owner_by_message (rx_ties X ''owner'') (fq_message_id data)
       (fq_verification_id data)))) (\<lambda>owner_id.
     emit_skill_recompute request ''skill.recompute.requested:flag'' ''PLAYER_ACTION'' owner_id))"

definition remove_suspicious_flags :: "run_env \<Rightarrow> bool \<Rightarrow> int option \<Rightarrow> int option \<Rightarrow> int cio" where
  "remove_suspicious_flags X request message_id verification_id =
     bind_io (atomically (delete_suspicious_flag_by_message (rx_ties X ''message'') message_id verification_id)) (\<lambda>removed.
     bind_io (atomically (read_tx (fetch_completion_owner_by_message (rx_ties X ''owner'') message_id verification_id))) (\<lambda>owner_id.
     bind_io (emit_skill_recompute request ''skill.recompute.requested:unflag'' ''PLAYER_ACTION'' owner_id) (\<lambda>_.
     return_io removed)))"

record upvote_response =
  ur_job_status :: "job_status_response option"
  ur_upvotes :: "int option"

definition upvote_submission :: "run_env \<Rightarrow> bool \<Rightarrow> int \<Rightarrow> int \<Rightarrow> upvote_response cio" where
  "upvote_submission X pytest user_id message_id =
     bind_io (catch_io (atomically (insert_upvote user_id message_id)) (\<lambda>e. case e of
         Repo (UniqueConstraintViolationError c t) \<Rightarrow> raise_io (Runs (DuplicateUpvoteError user_id message_id))
       | Repo (ForeignKeyViolationError c t) \<Rightarrow> raise_io (Runs (CompletionNotFoundError message_id))
       | _ \<Rightarrow> raise_io e)) (\<lambda>count. case count of
       None \<Rightarrow> raise_io (Runs (DuplicateUpvoteError user_id message_id))
     | Some n \<Rightarrow>
         if n \<noteq> 0 \<and> n mod 10 = 0
         then bind_io (publish_run X pytest ''api.completion.upvote''
                (UpvoteUpdate \<lparr>uu_user_id = user_id, uu_message_id = message_id\<rparr>) None)
              (\<lambda>job. return_io \<lparr>ur_job_status = Some job, ur_upvotes = Some n\<rparr>)
         else return_io \<lparr>ur_job_status = None, ur_upvotes = Some n\<rparr>)"

definition set_quality_vote_for_map_code :: "string \<Rightarrow> int \<Rightarrow> int \<Rightarrow> unit cio" where
  "set_quality_vote_for_map_code code user_id quality =
     bind_io (atomically (read_tx (check_map_exists code))) (\<lambda>map_exists.
     if \<not> map_exists then raise_io (Runs (MapNotFoundError code))
     else catch_io (atomically (upsert_quality_vote code user_id quality)) (\<lambda>e. case e of
         Repo (UniqueConstraintViolationError c t) \<Rightarrow> raise_io (Runs (DuplicateQualityVoteError user_id 0))
       | Repo (ForeignKeyViolationError c t) \<Rightarrow>
           if sublist ''map'' (py_lower c) then raise_io (Runs (MapNotFoundError code))
           else raise_io (Runs (CompletionNotFoundError user_id))
       | _ \<Rightarrow> raise_io e))"

subsection \<open>Reads\<close>

definition get_suspicious_flags :: "int \<Rightarrow> cdb \<Rightarrow> flag_response list" where
  "get_suspicious_flags = fetch_suspicious_flags"

definition get_upvotes_from_message_id :: "int \<Rightarrow> cdb \<Rightarrow> int" where
  "get_upvotes_from_message_id = fetch_upvote_count"

definition get_pending_verifications :: "(nat \<Rightarrow> nat) \<Rightarrow> cdb \<Rightarrow> (int \<times> int) list" where
  "get_pending_verifications = fetch_pending_verifications"

definition check_for_previous_world_record :: "string \<Rightarrow> int \<Rightarrow> cdb \<Rightarrow> bool" where
  "check_for_previous_world_record = check_previous_world_record_xp"

end
