(* ===== verification/Complete_Rules.thy ===== *)
theory Complete_Rules
  imports Complete_Service Samples
begin

section \<open>Frames of the calls on completions\<close>

text \<open>
  The completions have tables of their own. A call of the economy, the tournaments or the
  notifications leaves them alone, whatever it does, and a call of this service changes them only
  by its own statements. Each statement is then described by what it does to these tables.
\<close>

named_theorems own_keeps

subsection \<open>The tables of the completions\<close>

type_synonym own_tables =
  "completion_run list \<times> flag_row list \<times> upvote_row list \<times> rating_row list \<times> int \<times> int"

definition own :: "cdb \<Rightarrow> own_tables" where
  "own db = (cd_runs db, cd_flags db, cd_upvotes db, cd_ratings db, next_run_id db, next_flag_id db)"

lemma own_put [simp]:
  "own (put_econ e db) = own db" "own (put_tourney t db) = own db" "own (put_ntf n db) = own db"
  by (simp_all add: own_def put_econ_def put_tourney_def put_ntf_def)

text \<open>A handler that runs in the world it starts in.\<close>

lemma keeps_io_here: "(\<And>w. keeps_io P (f w)) \<Longrightarrow> keeps_io P (\<lambda>w. f w w)"
  unfolding keeps_io_def by blast

lemma keeps_io_call:
  "(\<And>t db. P (put t db) = P db) \<Longrightarrow> keeps_io P (call_part get put m)"
  by (auto simp: keeps_io_def call_part_def split: prod.splits)

lemma keeps_own_call [own_keeps]:
  "keeps_io (\<lambda>db. Q (own db)) (on_store m)" "keeps_io (\<lambda>db. Q (own db)) (on_tourney m')"
  "keeps_io (\<lambda>db. Q (own db)) (on_notify m'')"
  unfolding on_store_def on_tourney_def on_notify_def by (intro keeps_io_call; simp)+

lemma keeps_own_in_tourney [own_keeps]: "keeps (\<lambda>db. Q (own db)) (in_tourney m)"
  by (auto simp: keeps_def in_tourney_def zoom_tx_def split: sum.splits)

lemma keeps_own_publish [own_keeps]:
  "keeps_io (\<lambda>db. Q (own db)) (publish_run X pytest key data k)"
  "keeps_io (\<lambda>db. Q (own db)) (notify_user X pytest request)"
  "keeps_io (\<lambda>db. Q (own db)) (publish_run_xp X events)"
  "keeps_io (\<lambda>db. Q (own db)) (emit_skill_recompute b reason cause actor)"
proof -
  show "keeps_io (\<lambda>db. Q (own db)) (publish_run X pytest key data k)"
    unfolding publish_run_def Let_def
    by (rule keeps_io_here [of _ "\<lambda>w. on_store (publish_message (job_env X (wdb w))
         (env_job_ids (job_env X (wdb w)) 0) pytest key data k)"])
      (intro own_keeps)
  show "keeps_io (\<lambda>db. Q (own db)) (notify_user X pytest request)"
    unfolding notify_user_def Let_def
    by (rule keeps_io_here [of _ "\<lambda>w. bind_io (on_notify (create_and_dispatch (job_env X (wdb w))
         (env_job_ids (job_env X (wdb w)) 0) pytest request)) (\<lambda>_. return_io ())"])
      (intro keeps_rules own_keeps)
  show "keeps_io (\<lambda>db. Q (own db)) (publish_run_xp X events)"
    unfolding publish_run_xp_def
    by (rule keeps_io_here [of _ "\<lambda>w. on_store (publish_xp_events (job_env X (wdb w)) False events)"]) (intro own_keeps)
  show "keeps_io (\<lambda>db. Q (own db)) (emit_skill_recompute b reason cause actor)"
    unfolding emit_skill_recompute_def by (intro keeps_rules)
qed

lemma keeps_own_quests [own_keeps]:
  "keeps_io (\<lambda>db. Q (own db)) (update_quest_progress_for_completion X pytest u code t)"
  "keeps_io (\<lambda>db. Q (own db)) (revert_quest_progress_for_completion X u code t)"
  unfolding update_quest_progress_for_completion_def revert_quest_progress_for_completion_def announce_quest_def
  by (intro keeps_rules own_keeps)+

lemma keeps_own_propagate [own_keeps]:
  "keeps_io (\<lambda>db. Q (own db)) (propagate_tournament_verdict X pooled pytest info v)"
  unfolding propagate_tournament_verdict_def propagate_statements_def award_statements_def
  by (intro keeps_rules own_keeps)

text \<open>In a transaction only the own statements count.\<close>

lemma keeps_translated [keeps_rules]: "keeps P m \<Longrightarrow> keeps P (translated f m)"
  by (auto simp: keeps_def translated_def split: sum.splits)

lemma keeps_run_repo_write: "keeps P m \<Longrightarrow> keeps_io P (run_repo_write m e1 e2)"
  unfolding run_repo_write_def
  by (intro keeps_io_catch keeps_atomically) (auto simp: keeps_io_def split: err.splits repository_error.splits)

end
