(* ===== verification/Complete_System.thy ===== *)
theory Complete_System
  imports Complete_Rules
begin

section \<open>The state of the completions\<close>

text \<open>
  What every call keeps of the tables of the completions: keys, references, and that a player has
  at most one run waiting for a verdict on a map.
\<close>

subsection \<open>The invariant\<close>

definition signed :: "completion_run \<Rightarrow> bool" where
  "signed c \<longleftrightarrow> (co_verified c \<and> \<not> co_legacy c \<longrightarrow> co_verified_by c \<noteq> None)"

definition instant_key :: "completion_run \<Rightarrow> int \<times> int \<times> int" where
  "instant_key c = (co_map_id c, co_user_id c, co_inserted_at c)"

definition one_pending :: "completion_run \<Rightarrow> completion_run \<Rightarrow> bool" where
  "one_pending c d \<longleftrightarrow> \<not> (is_pending c \<and> is_pending d \<and> co_user_id c = co_user_id d \<and> co_map_id c = co_map_id d)"

definition separate :: "completion_run \<Rightarrow> completion_run \<Rightarrow> bool" where
  "separate c d \<longleftrightarrow> co_id c \<noteq> co_id d \<and> instant_key c \<noteq> instant_key d
     \<and> (co_message_id c = None \<or> co_message_id c \<noteq> co_message_id d) \<and> one_pending c d"

definition rating_key :: "rating_row \<Rightarrow> int \<times> int" where
  "rating_key r = (ra_map_id r, ra_user_id r)"

definition run_rows_ok :: "int \<Rightarrow> completion_run list \<Rightarrow> bool" where
  "run_rows_ok n rs \<longleftrightarrow> sorted_wrt separate rs \<and> (\<forall>c \<in> set rs. co_id c < n \<and> signed c)"

definition flag_rows_ok :: "int \<Rightarrow> completion_run list \<Rightarrow> flag_row list \<Rightarrow> bool" where
  "flag_rows_ok n rs fs \<longleftrightarrow> distinct (map fg_id fs)
     \<and> (\<forall>f \<in> set fs. fg_id f < n \<and> fg_completion_id f \<in> co_id ` set rs)"

definition upvote_rows_ok :: "completion_run list \<Rightarrow> upvote_row list \<Rightarrow> bool" where
  "upvote_rows_ok rs us \<longleftrightarrow> distinct us \<and> (\<forall>u \<in> set us. Some (uv_message_id u) \<in> co_message_id ` set rs)"

definition rating_rows_ok :: "rating_row list \<Rightarrow> bool" where
  "rating_rows_ok ras \<longleftrightarrow> distinct (map rating_key ras) \<and> (\<forall>r \<in> set ras. 1 \<le> ra_quality r \<and> ra_quality r \<le> 10)"

definition tables_ok :: "own_tables \<Rightarrow> bool" where
  "tables_ok = (\<lambda>(rs, fs, us, ras, n, k). run_rows_ok n rs \<and> flag_rows_ok k rs fs \<and> upvote_rows_ok rs us \<and> rating_rows_ok ras)"

abbreviation runs_ok :: "cdb \<Rightarrow> bool" where
  "runs_ok \<equiv> \<lambda>db. tables_ok (own db)"

lemmas runs_ok_defs = tables_ok_def own_def run_rows_ok_def flag_rows_ok_def upvote_rows_ok_def rating_rows_ok_def

lemma runs_ok_iff: "runs_ok db \<longleftrightarrow> run_rows_ok (next_run_id db) (cd_runs db)
    \<and> flag_rows_ok (next_flag_id db) (cd_runs db) (cd_flags db) \<and> upvote_rows_ok (cd_runs db) (cd_upvotes db)
    \<and> rating_rows_ok (cd_ratings db)"
  by (simp add: tables_ok_def own_def)

subsection \<open>Updates of a run\<close>

text \<open>A quiet update keeps the keys of a run and never makes a judged run wait again.\<close>

definition quiet :: "(completion_run \<Rightarrow> completion_run) \<Rightarrow> bool" where
  "quiet f \<longleftrightarrow> (\<forall>c. co_id (f c) = co_id c \<and> co_user_id (f c) = co_user_id c \<and> co_map_id (f c) = co_map_id c
     \<and> co_inserted_at (f c) = co_inserted_at c \<and> co_message_id (f c) = co_message_id c
     \<and> (signed c \<longrightarrow> signed (f c) \<and> (is_pending (f c) \<longrightarrow> is_pending c)))"

lemma quiet_fieldsD:
  assumes "quiet f"
  shows "co_id (f c) = co_id c" "instant_key (f c) = instant_key c" "co_message_id (f c) = co_message_id c"
    "co_user_id (f c) = co_user_id c" "co_map_id (f c) = co_map_id c"
    "signed c \<Longrightarrow> signed (f c)" "signed c \<Longrightarrow> is_pending (f c) \<Longrightarrow> is_pending c"
  using assms by (auto simp: quiet_def instant_key_def)

lemma quiet_separate:
  assumes "quiet f" "separate c d" "signed c" "signed d"
  shows "separate (if P c then f c else c) (if P d then f d else d)"
  using assms(2) quiet_fieldsD [OF assms(1), of c] quiet_fieldsD [OF assms(1), of d] assms(3,4)
  unfolding separate_def one_pending_def by auto

lemma quiet_run_rows:
  assumes "quiet f" "run_rows_ok n rs"
  shows "run_rows_ok n (update_where P f rs)"
proof -
  have ok: "sorted_wrt separate rs" "\<And>c. c \<in> set rs \<Longrightarrow> co_id c < n \<and> signed c"
    using assms(2) by (auto simp: run_rows_ok_def)
  have "sorted_wrt separate (update_where P f rs)"
    by (rule sorted_wrt_update_where [OF ok(1)]) (rule quiet_separate [OF assms(1)], simp_all add: ok(2))
  then show ?thesis
    using ok(2) quiet_fieldsD [OF assms(1)] by (fastforce simp: run_rows_ok_def dest!: in_update_whereD)
qed

lemma quiet_images:
  assumes "quiet f"
  shows "co_id ` set (update_where P f rs) = co_id ` set rs"
    "co_message_id ` set (update_where P f rs) = co_message_id ` set rs"
  using map_update_where [of P co_id f rs] map_update_where [of P co_message_id f rs] quiet_fieldsD [OF assms]
  by (metis set_map)+

lemma set_runs_ok: "quiet f \<Longrightarrow> runs_ok db \<Longrightarrow> runs_ok (set_runs P f db)"
  by (simp add: runs_ok_iff set_runs_def quiet_run_rows quiet_images flag_rows_ok_def upvote_rows_ok_def)

lemma after_verified_ok: "runs_ok db \<Longrightarrow> runs_ok (after_verified i v db)"
proof -
  have "rating_rows_ok (update_where P (\<lambda>r. r\<lparr>ra_verified := True\<rparr>) ras)" if "rating_rows_ok ras" for P ras
    using that map_update_where [of P rating_key "\<lambda>r. r\<lparr>ra_verified := True\<rparr>" ras]
    by (auto simp: rating_rows_ok_def rating_key_def dest!: in_update_whereD)
  then show "runs_ok db \<Longrightarrow> runs_ok (after_verified i v db)"
    by (auto simp: runs_ok_iff after_verified_def ratings_verify_on_completion_def split: option.split)
qed

lemmas quiet_simps = quiet_def signed_def is_pending_def

lemma keeps_runs_updates [own_keeps]:
  "keeps runs_ok (reject_completion i b)" "keeps runs_ok (set_completion_tournament_link i t)"
  "keeps runs_ok (update_verification i v b reason)" "keeps runs_ok (update_completion_time ties i x)"
  "keeps runs_ok (update_completion_verified i False)"
  unfolding update_verification_def set_completion_tournament_link_def update_completion_verified_def
  by (auto intro!: keepsI keeps_translated keeps_write set_runs_ok after_verified_ok
      simp: reject_completion_def update_completion_time_def quiet_simps split: if_splits option.splits sum.splits)

text \<open>
  An update that would make an unjudged run verified or wait is quiet on a run that has a judge.
\<close>

definition run_judged :: "int \<Rightarrow> cdb \<Rightarrow> bool" where
  "run_judged i db \<longleftrightarrow> (\<forall>c \<in> set (cd_runs db). co_id c = i \<longrightarrow> co_verified_by c \<noteq> None)"

lemma run_judged_own: "run_judged i db \<longleftrightarrow> (\<forall>c \<in> set (fst (own db)). co_id c = i \<longrightarrow> co_verified_by c \<noteq> None)"
  by (simp add: run_judged_def own_def)

lemma judged_set_runs_ok:
  assumes "quiet (\<lambda>c. if co_verified_by c = None then c else f c)" "runs_ok db" "run_judged i db"
  shows "runs_ok (set_runs (\<lambda>c. co_id c = i) f db)"
proof -
  let ?f = "\<lambda>c. if co_verified_by c = None then c else f c"
  have "update_where (\<lambda>c. co_id c = i) f (cd_runs db) = update_where (\<lambda>c. co_id c = i) ?f (cd_runs db)"
    using assms(3) unfolding update_where_def by (intro map_cong) (auto simp: run_judged_def)
  with set_runs_ok [OF assms(1,2), of "\<lambda>c. co_id c = i"] show ?thesis by (simp only: set_runs_def)
qed

lemma run_judged_update:
  "(\<And>c. co_id (f c) = co_id c \<and> (co_verified_by c \<noteq> None \<longrightarrow> co_verified_by (f c) \<noteq> None)) \<Longrightarrow>
     run_judged i db \<Longrightarrow> run_judged i (set_runs P f db)"
  by (auto simp: run_judged_def set_runs_def dest!: in_update_whereD split: if_splits)

lemma run_judged_after_verified [simp]: "run_judged i (after_verified j v db) = run_judged i db"
  by (simp add: run_judged_def after_verified_def ratings_verify_on_completion_def split: option.split)

lemma keeps_conj: "keeps P m \<Longrightarrow> keeps Q m \<Longrightarrow> keeps (\<lambda>s. P s \<and> Q s) m"
  unfolding keeps_def by blast

subsection \<open>Edits\<close>

lemma separate_pair: "sorted_wrt separate rs \<Longrightarrow> c \<in> set rs \<Longrightarrow> d \<in> set rs \<Longrightarrow> c \<noteq> d \<Longrightarrow> separate c d \<or> separate d c"
  by (induction rs) auto

lemma run_rows_unique:
  "run_rows_ok n rs \<Longrightarrow> c \<in> set rs \<Longrightarrow> d \<in> set rs \<Longrightarrow> co_id c = co_id d \<Longrightarrow> c = d"
  using separate_pair [of rs c d] by (auto simp: run_rows_ok_def separate_def)

text \<open>A free message id for one run whose old message nobody has upvoted.\<close>

lemma set_message_ok:
  assumes "runs_ok db" and free: "\<forall>r \<in> set (cd_runs db). co_message_id r \<noteq> Some m"
    and alone: "\<forall>r \<in> set (cd_runs db). co_id r = i \<longrightarrow> (\<forall>u \<in> set (cd_upvotes db). co_message_id r \<noteq> Some (uv_message_id u))"
  shows "runs_ok (set_runs (\<lambda>r. co_id r = i) (\<lambda>r. r\<lparr>co_message_id := Some m\<rparr>) db)"
proof -
  let ?f = "\<lambda>r. r\<lparr>co_message_id := Some m\<rparr>"
  let ?rs = "update_where (\<lambda>r. co_id r = i) ?f (cd_runs db)"
  have ok: "sorted_wrt separate (cd_runs db)" "\<And>c. c \<in> set (cd_runs db) \<Longrightarrow> co_id c < next_run_id db \<and> signed c"
    "flag_rows_ok (next_flag_id db) (cd_runs db) (cd_flags db)" "upvote_rows_ok (cd_runs db) (cd_upvotes db)"
    "rating_rows_ok (cd_ratings db)"
    using assms(1) by (auto simp: runs_ok_iff run_rows_ok_def)
  have "sorted_wrt separate ?rs"
  proof (rule sorted_wrt_update_where [OF ok(1)])
    fix x y assume xy: "x \<in> set (cd_runs db)" "y \<in> set (cd_runs db)" "separate x y"
    then have "co_message_id x \<noteq> Some m" "co_message_id y \<noteq> Some m" using free by auto
    with xy(3) show "separate (if co_id x = i then ?f x else x) (if co_id y = i then ?f y else y)"
      by (auto simp: separate_def instant_key_def one_pending_def is_pending_def)
  qed
  moreover have "\<forall>c \<in> set ?rs. co_id c < next_run_id db \<and> signed c"
    using ok(2) by (fastforce simp: signed_def dest!: in_update_whereD)
  moreover have "flag_rows_ok (next_flag_id db) ?rs (cd_flags db)"
    using ok(3) map_update_where [of "\<lambda>r. co_id r = i" co_id ?f "cd_runs db"]
    by (simp add: flag_rows_ok_def flip: set_map)
  moreover have "Some (uv_message_id u) \<in> co_message_id ` set ?rs" if "u \<in> set (cd_upvotes db)" for u
  proof -
    from that ok(4) obtain c where c: "c \<in> set (cd_runs db)" "co_message_id c = Some (uv_message_id u)"
      by (auto simp: upvote_rows_ok_def image_iff)
    with alone that have "co_id c \<noteq> i" by auto
    with c have "c \<in> set ?rs" by (simp add: set_update_where)
    with c(2) show ?thesis by (simp add: rev_image_eqI)
  qed
  ultimately show ?thesis
    using ok(4,5) by (simp add: runs_ok_iff set_runs_def run_rows_ok_def upvote_rows_ok_def)
qed

lemma quiet_patch:
  "cq_legacy p \<noteq> Some False \<Longrightarrow> quiet (\<lambda>r. (build_completion_patch p r)\<lparr>co_message_id := co_message_id r\<rparr>)"
  by (auto simp: quiet_simps build_completion_patch_def or_old_def split: option.splits)

lemma patch_message: "co_message_id (build_completion_patch p r) =
    (case cq_message_id p of Some m \<Rightarrow> Some m | None \<Rightarrow> co_message_id r)"
  by (simp add: build_completion_patch_def or_old_def split: option.split)

lemma same_message: "r\<lparr>co_message_id := co_message_id r\<rparr> = (r :: completion_run)"
  by (cases r) simp

lemma quiet_patch_judged:
  "quiet (\<lambda>r. if co_verified_by r = None then r else (build_completion_patch p r)\<lparr>co_message_id := co_message_id r\<rparr>)"
  by (auto simp: quiet_simps build_completion_patch_def or_old_def split: option.splits)

lemma edit_runs_ok:
  assumes "runs_ok db0" "cq_legacy p \<noteq> Some False \<or> run_judged i db0" "repo_edit_completion ties i p db0 = Inr (x, db0')"
  shows "runs_ok db0'"
proof -
  let ?f = "build_completion_patch p"
  let ?g = "\<lambda>r. (?f r)\<lparr>co_message_id := co_message_id r\<rparr>"
  have edit: "runs_ok (set_runs (\<lambda>r. co_id r = i) ?f db)"
    if ok: "runs_ok db" and judge: "cq_legacy p \<noteq> Some False \<or> run_judged i db" and c: "run_by_id i db = Some c"
      and move: "co_message_id (?f c) \<noteq> co_message_id c \<Longrightarrow> \<not> has_row (\<lambda>r. co_message_id r = co_message_id (?f c)) (cd_runs db)
         \<and> \<not> has_row (\<lambda>u. co_message_id c = Some (uv_message_id u)) (cd_upvotes db)" for db c
  proof -
    from c have here: "c \<in> set (cd_runs db)" "co_id c = i" by (auto simp: run_by_id_def dest: first_where_SomeD)
    then have only: "r = c" if "r \<in> set (cd_runs db)" "co_id r = i" for r
      using ok run_rows_unique that by (fastforce simp: runs_ok_iff)
    have quietly: "runs_ok (set_runs (\<lambda>r. co_id r = i) ?g db)"
      using judge set_runs_ok [OF quiet_patch ok] judged_set_runs_ok [OF quiet_patch_judged ok] by blast
    show ?thesis
    proof (cases "co_message_id (?f c) = co_message_id c")
      case True
      have "?g c = ?f c" by (simp only: True [symmetric] same_message)
      then have "?f r = ?g r" if "r \<in> set (cd_runs db)" "co_id r = i" for r
        by (simp only: only [OF that])
      then have "update_where (\<lambda>r. co_id r = i) ?f (cd_runs db) = update_where (\<lambda>r. co_id r = i) ?g (cd_runs db)"
        unfolding update_where_def by (intro map_cong [OF refl] if_cong refl)
      with quietly show ?thesis by (simp only: set_runs_def)
    next
      case False
      then obtain m where m: "cq_message_id p = Some m" by (auto simp: patch_message split: option.splits)
      let ?m = "\<lambda>r. r\<lparr>co_message_id := Some m\<rparr>"
      have "runs_ok (set_runs (\<lambda>r. co_id r = i) ?m (set_runs (\<lambda>r. co_id r = i) ?g db))"
      proof (rule set_message_ok [OF quietly])
        show "\<forall>r \<in> set (cd_runs (set_runs (\<lambda>r. co_id r = i) ?g db)). co_message_id r \<noteq> Some m"
          using move [OF False] m by (auto simp: set_runs_def has_row_iff patch_message dest!: in_update_whereD split: if_splits)
        show "\<forall>r \<in> set (cd_runs (set_runs (\<lambda>r. co_id r = i) ?g db)). co_id r = i \<longrightarrow>
            (\<forall>u \<in> set (cd_upvotes (set_runs (\<lambda>r. co_id r = i) ?g db)). co_message_id r \<noteq> Some (uv_message_id u))"
          using move [OF False] only
          by (auto simp: set_runs_def has_row_iff build_completion_patch_def dest!: in_update_whereD split: if_splits)
      qed
      moreover have "set_runs (\<lambda>r. co_id r = i) ?m (set_runs (\<lambda>r. co_id r = i) ?g db) = set_runs (\<lambda>r. co_id r = i) ?f db"
        using m by (auto simp: set_runs_def update_where_def build_completion_patch_def or_old_def)
      ultimately show ?thesis by simp
    qed
  qed
  show ?thesis using assms
    by (auto simp: repo_edit_completion_def translated_def Let_def intro: edit split: option.splits if_splits sum.splits)
qed

lemma keeps_edit [own_keeps]: "cq_legacy p \<noteq> Some False \<Longrightarrow> keeps runs_ok (repo_edit_completion ties i p)"
  by (rule keepsI) (blast intro: edit_runs_ok)

lemma keeps_edit_judged: "keeps (\<lambda>db. runs_ok db \<and> run_judged i db) (repo_edit_completion ties i p)"
proof (rule keepsI)
  fix db x db' assume ok: "runs_ok db \<and> run_judged i db" and run: "repo_edit_completion ties i p db = Inr (x, db')"
  have "run_judged i db'" using run ok
    by (auto simp: repo_edit_completion_def translated_def Let_def build_completion_patch_def split: option.splits if_splits sum.splits
        intro!: run_judged_update)
  with edit_runs_ok [OF _ _ run] ok show "runs_ok db' \<and> run_judged i db'" by blast
qed

subsection \<open>Flags, upvotes and ratings\<close>

lemma keeps_flags [own_keeps]:
  "keeps runs_ok (add_flag i context ty u)" "keeps runs_ok (delete_suspicious_flag i)"
proof -
  show "keeps runs_ok (add_flag i context ty u)"
  proof (rule keepsI)
    fix db x db' assume ok: "runs_ok db" and run: "add_flag i context ty u db = Inr (x, db')"
    from run have "check_completion_exists i db"
      and db': "db' = db\<lparr>next_flag_id := next_flag_id db + 1, cd_flags := cd_flags db @ [\<lparr>fg_id = next_flag_id db,
            fg_completion_id = i, fg_context = context, fg_flag_type = ty, fg_flagged_by = u\<rparr>]\<rparr>"
      by (auto simp: add_flag_def split: if_splits)
    then have "i \<in> co_id ` set (cd_runs db)" by (auto simp: check_completion_exists_def has_row_iff)
    with ok show "runs_ok db'" unfolding db' by (fastforce simp: runs_ok_iff flag_rows_ok_def)
  qed
  show "keeps runs_ok (delete_suspicious_flag i)"
    by (rule keepsI) (auto simp: delete_suspicious_flag_def runs_ok_iff flag_rows_ok_def distinct_map_filter)
qed

lemma keeps_flag_requests [own_keeps]:
  "keeps runs_ok (insert_suspicious_flag ties data)"
  "keeps runs_ok (insert_suspicious_flag_by_completion_id i context ty u)"
  "keeps runs_ok (delete_suspicious_flag_by_message ties m v)"
proof -
  note flags = keepsD [OF keeps_flags(1)] keepsD [OF keeps_flags(2)]
  show "keeps runs_ok (insert_suspicious_flag ties data)"
    unfolding insert_suspicious_flag_def by (intro keeps_translated keepsI) (auto intro: flags split: option.splits)
  show "keeps runs_ok (insert_suspicious_flag_by_completion_id i context ty u)"
    unfolding insert_suspicious_flag_by_completion_id_def by (intro keeps_translated keeps_flags)
  show "keeps runs_ok (delete_suspicious_flag_by_message ties m v)"
    unfolding delete_suspicious_flag_by_message_def by (intro keepsI) (auto intro: flags split: option.splits)
qed

lemma keeps_upvote [own_keeps]: "keeps runs_ok (insert_upvote u m)"
  unfolding insert_upvote_def
  by (intro keeps_translated keepsI)
    (auto simp: runs_ok_iff upvote_rows_ok_def has_row_iff rev_image_eqI split: if_splits)

lemma keeps_rating [own_keeps]: "keeps runs_ok (upsert_quality_vote code u q)"
proof -
  have set_q: "rating_rows_ok (update_where P (\<lambda>r. r\<lparr>ra_quality := q\<rparr>) ras)"
    if "rating_rows_ok ras" "1 \<le> q" "q \<le> 10" for P ras
    using that map_update_where [of P rating_key "\<lambda>r. r\<lparr>ra_quality := q\<rparr>" ras]
    by (auto simp: rating_rows_ok_def rating_key_def dest!: in_update_whereD)
  have add_q: "rating_rows_ok (ras @ [\<lparr>ra_map_id = m, ra_user_id = u, ra_quality = q, ra_verified = False\<rparr>])"
    if "rating_rows_ok ras" "1 \<le> q" "q \<le> 10" "\<not> has_row (same_rating m u) ras" for m ras
    using that by (auto simp: rating_rows_ok_def rating_key_def has_row_iff same_rating_def)
  show ?thesis
    unfolding upsert_quality_vote_def
    by (intro keeps_translated keepsI) (auto simp: runs_ok_iff intro: set_q add_q split: option.splits if_splits)
qed

subsection \<open>Submissions\<close>

definition waits :: "int \<Rightarrow> string \<Rightarrow> cdb \<Rightarrow> bool" where
  "waits u code db \<longleftrightarrow> (\<exists>m c. map_by_code (Some code) db = Some m \<and> c \<in> set (cd_runs db) \<and> is_pending c
     \<and> co_user_id c = u \<and> co_map_id c = mp_id m)"

lemma sorted_rows_empty: "sort_key k (order_by_random ties xs) = [] \<longleftrightarrow> xs = []"
  by (metis length_0_conv length_sort order_by_random_Nil)

lemma no_pending: "get_pending_verification ties u code db = None \<longleftrightarrow> \<not> waits u code db"
proof (cases "map_by_code (Some code) db")
  case (Some m)
  let ?rs = "filter (\<lambda>c. co_user_id c = u \<and> co_map_id c = mp_id m \<and> is_pending c) (cd_runs db)"
  have "get_pending_verification ties u code db = None \<longleftrightarrow> sort_key co_time (order_by_random ties ?rs) = []"
    unfolding get_pending_verification_def Some by (simp split: list.split)
  also have "\<dots> \<longleftrightarrow> ?rs = []" by (rule sorted_rows_empty)
  also have "\<dots> \<longleftrightarrow> \<not> waits u code db" using Some by (auto simp: waits_def filter_empty_conv)
  finally show ?thesis .
qed (simp add: get_pending_verification_def waits_def)

lemma some_pending:
  assumes "get_pending_verification ties u code db = Some p"
  obtains m c where "map_by_code (Some code) db = Some m" "c \<in> set (cd_runs db)" "is_pending c" "co_user_id c = u"
    "co_map_id c = mp_id m" "pd_id p = co_id c" "pd_time p = fl (co_time c)" "pd_verification_id p = co_verification_id c"
proof -
  from assms obtain m c cs where m: "map_by_code (Some code) db = Some m"
    and sorted: "sort_key co_time (order_by_random ties (filter (\<lambda>c. co_user_id c = u \<and> co_map_id c = mp_id m \<and> is_pending c)
        (cd_runs db))) = c # cs" (is "sort_key _ (order_by_random _ ?rs) = _")
    and p: "p = \<lparr>pd_id = co_id c, pd_time = fl (co_time c), pd_verification_id = co_verification_id c\<rparr>"
    by (auto simp: get_pending_verification_def split: option.splits list.splits)
  have "c \<in> set (sort_key co_time (order_by_random ties ?rs))" by (simp only: sorted list.set_intros)
  then have "c \<in> set ?rs" by simp
  with m p that show ?thesis by auto
qed

text \<open>The rejected run was the only one that waited.\<close>

lemma reject_run: "reject_completion i b db = Inr (x, db') \<Longrightarrow>
    db' = set_runs (\<lambda>c. co_id c = i) (\<lambda>c. c\<lparr>co_verified_by := Some b\<rparr>) db"
  by (auto simp: reject_completion_def split: if_splits)

lemma set_runs_econ [simp]: "map_by_code code (set_runs P f db) = map_by_code code db"
  "user_missing u (set_runs P f db) = user_missing u db"
  by (simp_all add: map_by_code_def user_missing_def set_runs_def econ_view_def user_exists_def split: option.split)

lemma supersede_waits:
  assumes "runs_ok db" "supersede_pending None data (get_pending_verification ties (cc_user_id data) (cc_code data) db) db = Inr (x, db')"
  shows "\<not> waits (cc_user_id data) (cc_code data) db'" "runs_ok db'"
proof -
  let ?p = "get_pending_verification ties (cc_user_id data) (cc_code data) db"
  have "\<not> waits (cc_user_id data) (cc_code data) db' \<and> runs_ok db'"
  proof (cases ?p)
    case None
    with assms show ?thesis by (auto simp: supersede_pending_def no_pending)
  next
    case (Some p)
    from some_pending [OF this] obtain m c where c: "map_by_code (Some (cc_code data)) db = Some m"
      "c \<in> set (cd_runs db)" "is_pending c" "co_user_id c = cc_user_id data" "co_map_id c = mp_id m" "pd_id p = co_id c" .
    from assms(2) Some have rej: "reject_completion (pd_id p) bot_user_id db = Inr ((), db')"
      by (auto simp: supersede_pending_def bind_tx_def split: if_splits sum.splits)
    from keepsD [OF keeps_runs_updates(1) assms(1) this] have ok: "runs_ok db'" .
    have "\<not> waits (cc_user_id data) (cc_code data) db'"
    proof
      assume "waits (cc_user_id data) (cc_code data) db'"
      with c(1) obtain d where d: "d \<in> set (cd_runs db')" "is_pending d" "co_user_id d = cc_user_id data" "co_map_id d = mp_id m"
        by (auto simp: waits_def reject_run [OF rej])
      then have "d \<in> set (cd_runs db)" "co_id d \<noteq> pd_id p"
        by (auto simp: reject_run [OF rej] set_runs_def is_pending_def dest!: in_update_whereD split: if_splits)
      with c d assms(1) separate_pair [of "cd_runs db" c d] show False
        by (auto simp: runs_ok_iff run_rows_ok_def separate_def one_pending_def)
    qed
    with ok show ?thesis by simp
  qed
  then show "\<not> waits (cc_user_id data) (cc_code data) db'" "runs_ok db'" by simp_all
qed

lemma insert_run:
  assumes "insert_completion E ties code u t shot video db = Inr (i, db')"
  obtains (missing) "map_by_code (Some code) db = None" "i = None" "db' = db"
  | (inserted) m x where "map_by_code (Some code) db = Some m" "numeric_10_2 (float_text t) = Inr x" "i = Some (next_run_id db)"
      "db' = db\<lparr>cd_runs := cd_runs db @ [new_run E (next_run_id db) m u x shot video (completion_flag m video db)],
         next_run_id := next_run_id db + 1\<rparr>"
      "speed_rules_ok ties None (new_run E (next_run_id db) m u x shot video (completion_flag m video db)) db"
      "\<not> has_row (\<lambda>c. co_map_id c = mp_id m \<and> co_user_id c = u \<and> co_inserted_at c = env_now E) (cd_runs db)"
      "\<not> user_missing u db"
  using assms
  by (auto simp: insert_completion_def translated_def Let_def new_run_def split: option.splits sum.splits if_splits)

lemma insert_runs_ok:
  assumes "runs_ok db" "\<not> waits u code db" "insert_completion E ties code u t shot video db = Inr (i, db')"
  shows "runs_ok db'"
  using assms(3)
proof (cases rule: insert_run)
  case missing
  with assms(1) show ?thesis by simp
next
  case (inserted m x)
  let ?new = "new_run E (next_run_id db) m u x shot video (completion_flag m video db)"
  have alone: "separate c ?new" if "c \<in> set (cd_runs db)" for c
    using that inserted(1,6) assms(1,2)
    by (auto simp: separate_def instant_key_def one_pending_def waits_def has_row_iff new_run_def runs_ok_iff run_rows_ok_def)
  have rows: "run_rows_ok (next_run_id db') (cd_runs db')"
    using assms(1) alone by (auto simp: inserted(4) runs_ok_iff run_rows_ok_def sorted_wrt_append signed_def new_run_def
        intro: less_trans [OF _ zless_add1_eq [THEN iffD2]])
  then show ?thesis
    using assms(1) by (simp add: inserted(4) runs_ok_iff flag_rows_ok_def upvote_rows_ok_def)
qed

lemma submission_runs_ok:
  assumes "runs_ok db" "resolve_active_cycle X (cc_code data) db = None" "submission_tx X data db = Inr (r, db')"
  shows "runs_ok db'"
proof -
  from assms(2,3) obtain v db1 i non_pb where first: "supersede_pending None data
       (get_pending_verification (rx_ties X ''pending'') (cc_user_id data) (cc_code data) db) db = Inr (v, db1)"
    and second: "insert_or_relax X None data db1 = Inr ((i, non_pb), db')"
    by (auto simp: submission_tx_def elim!: bind_txE split: option.splits)
  from second have "insert_completion (rx_env X) (rx_ties X ''best'') (cc_code data) (cc_user_id data) (cc_time data)
       (cc_screenshot data) (cc_video data) db1 = Inr (i, db')"
    by (auto simp: insert_or_relax_def split: sum.splits err.splits pg_error.splits)
  with supersede_waits [OF assms(1) first] show ?thesis using insert_runs_ok by blast
qed

subsection \<open>Calls\<close>

lemma keeps_io_after:
  assumes "P (wdb (snd (m w)))" "\<And>x. keeps_io P (k x)"
  shows "P (wdb (snd (bind_io m k w)))"
  using assms(1) keeps_ioD [OF assms(2)] by (cases "m w") (auto simp: bind_io_def split: sum.split)

lemma submit_runs_ok:
  assumes "runs_ok (wdb w)" "resolve_active_cycle X (cc_code data) (wdb w) = None"
  shows "runs_ok (wdb (snd (submit_completion X pytest data w)))"
proof (cases "check_map_exists (cc_code data) (wdb w)")
  case True
  have "runs_ok (wdb (snd (atomically (submission_tx X data) w)))"
    using assms submission_runs_ok by (auto simp: atomically_def split: sum.split)
  with True show ?thesis
    unfolding submit_completion_def dispatch_non_pb_tournament_def
    by (simp del: bind_if_io) (rule keeps_io_after, assumption, intro keeps_rules own_keeps)
qed (use assms(1) in \<open>simp add: submit_completion_def\<close>)

lemma keeps_verify [own_keeps]: "keeps_io runs_ok (verify_completion X pooled request pytest i data)"
  unfolding verify_completion_def by (intro keeps_rules own_keeps keeps_run_repo_write)

lemma keeps_edit_completion: "cq_legacy p \<noteq> Some False \<Longrightarrow> keeps_io runs_ok (edit_completion X i p)"
  unfolding edit_completion_def by (intro keeps_rules own_keeps keeps_run_repo_write)

lemma keeps_change_verified:
  assumes "mo_verified data \<noteq> Some True"
  shows "keeps_io runs_ok (change_verified X pytest i info data)"
proof (cases "mo_verified data")
  case (Some v)
  with assms have "v = False" by simp
  with Some show ?thesis
    unfolding change_verified_def by (auto intro!: keeps_rules own_keeps keeps_run_repo_write)
qed (simp add: change_verified_def keeps_rules)

lemma keeps_moderate: "mo_verified data \<noteq> Some True \<Longrightarrow> keeps_io runs_ok (moderate_completion X pytest i data)"
  unfolding moderate_completion_def change_time_def mark_flag_def unmark_flag_def
  by (auto split: option.split intro!: keeps_rules own_keeps keeps_run_repo_write keeps_change_verified)

text \<open>On a run with a judge an edit may lift the legacy mark and a moderator may verify.\<close>

abbreviation judged_ok :: "int \<Rightarrow> cdb \<Rightarrow> bool" where
  "judged_ok i \<equiv> \<lambda>db. runs_ok db \<and> run_judged i db"

lemma keeps_judged_own:
  assumes "\<And>Q. keeps_io (\<lambda>db. Q (own db)) m"
  shows "keeps_io (judged_ok i) m"
  unfolding run_judged_own
  using assms [of "\<lambda>t. tables_ok t \<and> (\<forall>c \<in> set (fst t). co_id c = i \<longrightarrow> co_verified_by c \<noteq> None)"] .

lemmas keeps_judged_frames = keeps_judged_own [OF keeps_own_publish(2)] keeps_judged_own [OF keeps_own_publish(4)]
  keeps_judged_own [OF keeps_own_quests(1)] keeps_judged_own [OF keeps_own_quests(2)]

lemma keeps_judged_updates:
  "keeps (judged_ok i) (update_completion_time ties j x)" "keeps (judged_ok i) (update_completion_verified i v)"
  "keeps (judged_ok i) (insert_suspicious_flag_by_completion_id j context ty u)" "keeps (judged_ok i) (delete_suspicious_flag j)"
proof -
  have flags: "keeps (run_judged i) (insert_suspicious_flag_by_completion_id j context ty u)"
    "keeps (run_judged i) (delete_suspicious_flag j)"
    by (auto simp: keeps_def insert_suspicious_flag_by_completion_id_def translated_def add_flag_def delete_suspicious_flag_def
        run_judged_def split: if_splits sum.splits)
  show "keeps (judged_ok i) (insert_suspicious_flag_by_completion_id j context ty u)"
    by (rule keeps_conj [OF keeps_flag_requests(2) flags(1)])
  show "keeps (judged_ok i) (delete_suspicious_flag j)" by (rule keeps_conj [OF keeps_flags(2) flags(2)])
  have "keeps (run_judged i) (update_completion_time ties j x)"
    by (rule keepsI) (auto simp: update_completion_time_def intro!: run_judged_update split: option.splits sum.splits if_splits)
  then show "keeps (judged_ok i) (update_completion_time ties j x)" by (rule keeps_conj [OF keeps_runs_updates(4)])
  have quiet: "quiet (\<lambda>c. if co_verified_by c = None then c else c\<lparr>co_verified := v\<rparr>)" by (auto simp: quiet_simps)
  show "keeps (judged_ok i) (update_completion_verified i v)"
    unfolding update_completion_verified_def
    by (intro keeps_write) (auto intro!: after_verified_ok judged_set_runs_ok [OF quiet] run_judged_update)
qed

lemma keeps_edit_call_judged: "keeps_io (judged_ok i) (edit_completion X i p)"
  unfolding edit_completion_def by (intro keeps_rules keeps_run_repo_write keeps_edit_judged)

lemma keeps_moderate_judged: "keeps_io (judged_ok i) (moderate_completion X pytest i data)"
  unfolding moderate_completion_def change_time_def change_verified_def mark_flag_def unmark_flag_def
  by (auto split: option.split intro!: keeps_rules keeps_run_repo_write keeps_judged_updates keeps_judged_frames)

lemma keeps_small_calls:
  "keeps_io runs_ok (set_suspicious_flags X request flag)" "keeps_io runs_ok (remove_suspicious_flags X request m v)"
  "keeps_io runs_ok (upvote_submission X pytest u message)" "keeps_io runs_ok (set_quality_vote_for_map_code code u q)"
  unfolding set_suspicious_flags_def remove_suspicious_flags_def upvote_submission_def set_quality_vote_for_map_code_def
  by (intro keeps_rules own_keeps keeps_run_repo_write;
      auto simp: keeps_io_def split: err.splits repository_error.splits)+

lemma keeps_auto_verify:
  "keeps_io runs_ok (attempt_auto_verify X ocr i u code t shot)"
  unfolding attempt_auto_verify_def read_screenshot_def verify_completion_with_pool_def Let_def
  by (intro keeps_rules own_keeps)

text \<open>
  The calls that touch the tables of the completions, off the maps of running tournaments. Left out are the
  two calls that can make a run wait again behind the back of the invariant: lifting the legacy mark of a run
  nobody has judged, and verifying such a run by moderation, which records no judge.
\<close>

inductive run_call :: "cworld \<Rightarrow> cworld \<Rightarrow> bool" where
  submit_call: "resolve_active_cycle X (cc_code data) (wdb w) = None \<Longrightarrow> run_call w (snd (submit_completion X pytest data w))"
| verify_call: "run_call w (snd (verify_completion X pooled request pytest i data w))"
| edit_call: "cq_legacy p \<noteq> Some False \<or> run_judged i (wdb w) \<Longrightarrow> run_call w (snd (edit_completion X i p w))"
| moderate_call: "mo_verified change \<noteq> Some True \<or> run_judged i (wdb w) \<Longrightarrow> run_call w (snd (moderate_completion X pytest i change w))"
| auto_call: "run_call w (snd (attempt_auto_verify X ocr i u code t shot w))"
| flag_call: "run_call w (snd (set_suspicious_flags X request flag w))"
| unflag_call: "run_call w (snd (remove_suspicious_flags X request m v w))"
| upvote_call: "run_call w (snd (upvote_submission X pytest u message w))"
| rate_call: "run_call w (snd (set_quality_vote_for_map_code code u q w))"

inductive_cases run_callE: "run_call w w'"

lemma edit_call_ok:
  "cq_legacy p \<noteq> Some False \<or> run_judged i (wdb w) \<Longrightarrow> runs_ok (wdb w) \<Longrightarrow> runs_ok (wdb (snd (edit_completion X i p w)))"
  using keeps_ioD [OF keeps_edit_completion] keeps_ioD [OF keeps_edit_call_judged] by blast

lemma moderate_call_ok:
  "mo_verified change \<noteq> Some True \<or> run_judged i (wdb w) \<Longrightarrow> runs_ok (wdb w) \<Longrightarrow>
     runs_ok (wdb (snd (moderate_completion X pytest i change w)))"
  using keeps_ioD [OF keeps_moderate] keeps_ioD [OF keeps_moderate_judged] by blast

lemma run_call_ok: "run_call w w' \<Longrightarrow> runs_ok (wdb w) \<Longrightarrow> runs_ok (wdb w')"
  by (erule run_callE; hypsubst)
    (auto intro: submit_runs_ok keeps_ioD [OF keeps_verify] keeps_ioD [OF keeps_auto_verify] keeps_ioD [OF keeps_small_calls(1)]
      edit_call_ok moderate_call_ok keeps_ioD [OF keeps_small_calls(2)] keeps_ioD [OF keeps_small_calls(3)] keeps_ioD [OF keeps_small_calls(4)])

definition run_reach :: "cworld \<Rightarrow> cworld \<Rightarrow> bool" where
  "run_reach = run_call\<^sup>*\<^sup>*"

lemma run_reach_ok: "run_reach w w' \<Longrightarrow> runs_ok (wdb w) \<Longrightarrow> runs_ok (wdb w')"
  unfolding run_reach_def by (induction rule: rtranclp_induct) (auto dest: run_call_ok)

lemma runs_ok_pending:
  assumes "runs_ok db" "c \<in> set (cd_runs db)" "d \<in> set (cd_runs db)" "is_pending c" "is_pending d"
    "co_user_id c = co_user_id d" "co_map_id c = co_map_id d"
  shows "c = d"
  using assms separate_pair [of "cd_runs db" c d]
  by (auto simp: runs_ok_iff run_rows_ok_def separate_def one_pending_def)

end
