(* ===== verification/Complete_Props.thy ===== *)
theory Complete_Props
  imports Complete_System Tourney_Samples Quest_Provision
begin

section \<open>Properties of the completions\<close>

subsection \<open>A concrete state\<close>

text \<open>One run of player 1 on map 7 that waits for its verdict; with or without the cycle of \<open>sample_tdb\<close>.\<close>

definition demo_run :: completion_run where
  "demo_run = \<lparr>co_id = 1, co_map_id = 7, co_user_id = 1, co_time = 42, co_screenshot = ''s'', co_video = Some ''v'',
     co_verified = False, co_verification_id = Some 900, co_message_id = Some 800, co_completion = False,
     co_inserted_at = 50, co_verified_by = None, co_legacy = False, co_legacy_medal = None, co_wr_xp_check = False,
     co_reason = None, co_tournament_id = None\<rparr>"

definition demo_db :: "cycle_row list \<Rightarrow> cdb" where
  "demo_db cs = \<lparr>cd_tourney = sample_tdb\<lparr>cycles := cs, economy := sample_db\<lparr>users := users sample_db @
       [\<lparr>usr_id = bot_user_id, usr_nickname = None, usr_global_name = None, usr_coins = 0\<rparr>]\<rparr>\<rparr>,
     cd_maps = [], cd_usernames = [],
     cd_ntf = \<lparr>ntf_econ = sample_db, ntf_events = [], ntf_preferences = [], ntf_deliveries = [], next_event_id = 1\<rparr>,
     cd_runs = [demo_run], cd_flags = [], cd_upvotes = [], cd_ratings = [], next_run_id = 2, next_flag_id = 1\<rparr>"

definition demo_world :: cworld where
  "demo_world = \<lparr>wdb = demo_db [], wmq = []\<rparr>"

definition demo_X :: run_env where
  "demo_X = \<lparr>rx_env = sample_env, rx_outages = no_outage, rx_rolls = \<lparr>ql_keys = (\<lambda>_. id), ql_bounty = sample_rolls\<rparr>,
     rx_ties = (\<lambda>_. id), rx_meanwhile = id\<rparr>"

lemma demo_runs [simp]: "cd_runs (demo_db cs) = [demo_run]"
  by (simp add: demo_db_def)

lemma demo_votes [simp]: "cd_upvotes (demo_db cs) = []"
  by (simp add: demo_db_def)

lemma demo_users: "user_missing u (demo_db cs) \<longleftrightarrow> u \<notin> {1, 2, bot_user_id}"
  by (auto simp: user_missing_def user_exists_def demo_db_def econ_view_def)

lemma demo_ok: "runs_ok (demo_db cs)"
  by (simp add: runs_ok_iff run_rows_ok_def flag_rows_ok_def upvote_rows_ok_def rating_rows_ok_def demo_db_def
      demo_run_def signed_def)

subsection \<open>Verdicts\<close>

text \<open>What of the economy counts: all but the jobs and the view of the runs.\<close>

definition holdings :: "cdb \<Rightarrow> econ" where
  "holdings db = (econ_view db)\<lparr>jobs := [], completions := []\<rparr>"

lemma holdings_put: "holdings (put_econ e db) = e\<lparr>jobs := [], completions := []\<rparr>"
  by (simp add: holdings_def econ_view_def put_econ_def)

lemma holdings_runs [simp]: "holdings (set_runs P f db) = holdings db" "holdings (after_verified i v db) = holdings db"
  by (simp_all add: holdings_def econ_view_def set_runs_def after_verified_def ratings_verify_on_completion_def split: option.split)

lemma keeps_holdings_store:
  assumes "keeps_io (\<lambda>e. e\<lparr>jobs := [], completions := []\<rparr> = h) m"
  shows "keeps_io (\<lambda>db. holdings db = h) (on_store m)"
  unfolding keeps_io_def
proof (intro allI impI)
  fix w r w' assume start: "holdings (wdb w) = h" and run: "on_store m w = (r, w')"
  obtain q v where mv: "m \<lparr>wdb = econ_view (wdb w), wmq = []\<rparr> = (q, v)" by fastforce
  have "(wdb v)\<lparr>jobs := [], completions := []\<rparr> = h"
    using keeps_ioD [OF assms, of "\<lparr>wdb = econ_view (wdb w), wmq = []\<rparr>"] start mv by (simp add: holdings_def)
  moreover have "wdb w' = put_econ (wdb v) (wdb w)" using run mv by (auto simp: on_store_def call_part_def)
  ultimately show "holdings (wdb w') = h" by (simp only: holdings_put)
qed

lemma keeps_holdings_publish: "keeps_io (\<lambda>db. holdings db = h) (publish_run X pytest key data k)"
proof -
  have "keeps_io (\<lambda>e. e\<lparr>jobs := [], completions := []\<rparr> = h) (publish_message E j pytest key data k)" for E j
    unfolding publish_message_def insert_job_def by (intro keeps_rules keeps_write) simp
  then show ?thesis
    unfolding publish_run_def Let_def
    by (intro keeps_io_here [of _ "\<lambda>w. on_store (publish_message (job_env X (wdb w))
         (env_job_ids (job_env X (wdb w)) 0) pytest key data k)"] keeps_holdings_store)
qed

lemma write_verdict:
  assumes "check_completion_exists i (wdb w)"
  shows "run_repo_write (update_verification i v b reason) e1 e2 w =
    (if user_missing b (wdb w) then (Inl (Runs e2), w)
     else (Inr (), w\<lparr>wdb := after_verified i v (set_runs (\<lambda>c. co_id c = i)
       (\<lambda>c. c\<lparr>co_verified := v, co_verified_by := Some b, co_reason := reason\<rparr>) (wdb w))\<rparr>))"
  using assms by (simp add: run_repo_write_def update_verification_def translated_def repo_error_def catch_io_def atomically_def)

lemma run_exists: "check_completion_exists i db \<longleftrightarrow> run_by_id i db \<noteq> None"
  by (auto simp: check_completion_exists_def run_by_id_def first_where_None has_row_iff)

lemma after_verified_runs [simp]: "cd_runs (after_verified i v db) = cd_runs db"
  by (simp add: after_verified_def ratings_verify_on_completion_def split: option.split)

definition judged :: "verification_update \<Rightarrow> completion_run \<Rightarrow> completion_run" where
  "judged data c = c\<lparr>co_verified := vu_verified data, co_verified_by := Some (vu_verified_by data), co_reason := vu_reason data\<rparr>"

text \<open>What follows the committed verdict.\<close>

definition after_verdict ::
  "run_env \<Rightarrow> bool \<Rightarrow> bool \<Rightarrow> bool \<Rightarrow> int \<Rightarrow> verification_update \<Rightarrow> moderation_info \<Rightarrow> job_status_response cio" where
  "after_verdict X pooled request pytest i data info =
     bind_io (if vu_verified data \<and> \<not> mi_old_verified info
       then update_quest_progress_for_completion X pytest (mi_user_id info) (mi_code info) (mi_old_time info)
       else return_io ()) (\<lambda>_.
     bind_io (if \<not> vu_verified data \<and> mi_old_verified info
       then revert_quest_progress_for_completion X (mi_user_id info) (mi_code info) (mi_old_time info)
       else return_io ()) (\<lambda>_.
     bind_io (propagate_tournament_verdict X pooled pytest info (vu_verified data)) (\<lambda>_.
     bind_io (emit_skill_recompute request (if vu_verified data then ''skill.recompute.requested:verify''
       else ''skill.recompute.requested:un-verify'') ''PLAYER_ACTION'' (Some (mi_user_id info))) (\<lambda>_.
     publish_run X pytest ''api.completion.verification'' (VerificationChanged \<lparr>vg_completion_id = i,
       vg_verified = vu_verified data, vg_verified_by = vu_verified_by data, vg_reason = vu_reason data\<rparr>)
       (Some (''completion:verify:'' @ str_of_int i))))))"

definition info_of :: "cdb \<Rightarrow> completion_run \<Rightarrow> moderation_info" where
  "info_of db c = \<lparr>mi_user_id = co_user_id c, mi_code = code_of_map (co_map_id c) db, mi_old_time = fl (co_time c),
      mi_old_verified = co_verified c, mi_tournament_id = co_tournament_id c\<rparr>"

lemma verify_run:
  assumes "run_by_id i (wdb w) = Some c"
  shows "verify_completion X pooled request pytest i data w =
    (if user_missing (vu_verified_by data) (wdb w) then (Inl (Runs (CompletionNotFoundError i)), w)
     else after_verdict X pooled request pytest i data (info_of (wdb w) c)
       (w\<lparr>wdb := after_verified i (vu_verified data) (set_runs (\<lambda>c. co_id c = i) (judged data) (wdb w))\<rparr>))"
proof -
  have "verify_completion X pooled request pytest i data w =
      bind_io (run_repo_write (update_verification i (vu_verified data) (vu_verified_by data) (vu_reason data))
         (DuplicateVerificationError i) (CompletionNotFoundError i))
        (\<lambda>_. after_verdict X pooled request pytest i data (info_of (wdb w) c)) w"
    using assms unfolding after_verdict_def
    by (simp add: verify_completion_def run_exists fetch_completion_for_moderation_def info_of_def del: bind_if_io)
  with assms show ?thesis by (simp add: bind_io_def [of "run_repo_write _ _ _"] write_verdict run_exists judged_def [abs_def])
qed

lemma keeps_after_verdict:
  "keeps_io (\<lambda>db. Q (own db)) (after_verdict X pooled request pytest i data info)"
  unfolding after_verdict_def by (intro keeps_rules own_keeps)

lemma verdict_runs:
  assumes "run_by_id i (wdb w) = Some c" "\<not> user_missing (vu_verified_by data) (wdb w)"
  shows "cd_runs (wdb (snd (verify_completion X pooled request pytest i data w)))
      = update_where (\<lambda>c. co_id c = i) (judged data) (cd_runs (wdb w))"
  using assms keeps_ioD [OF keeps_after_verdict [of "\<lambda>t. fst t = update_where (\<lambda>c. co_id c = i) (judged data) (cd_runs (wdb w))"]]
  by (simp add: verify_run own_def set_runs_def)

text \<open>
  No participation is left to pay for a tournament run: its row or its cycle is gone, or the ledger has the
  participation of the player in the cycle.
\<close>

definition participation_done :: "int \<Rightarrow> int \<Rightarrow> tdb \<Rightarrow> bool" where
  "participation_done i u t = (case fetch_tournament_completion i t of None \<Rightarrow> True
    | Some r \<Rightarrow> (case fetch_cycle (tc_cycle_id r) t of None \<Rightarrow> True | Some c \<Rightarrow> granted (cy_id c) u ''participation'' t))"

definition nothing_to_pay :: "completion_run \<Rightarrow> cdb \<Rightarrow> bool" where
  "nothing_to_pay c db = (case co_tournament_id c of None \<Rightarrow> True
    | Some i \<Rightarrow> participation_done i (co_user_id c) (tourney_view db))"

lemma tournament_verdict_set: "\<exists>x cs. set_tournament_verified i v t = Inr (x, t\<lparr>tcompletions := cs\<rparr>)"
  by (auto simp: set_tournament_verified_def Let_def bind_tx_def)

lemma granted_claim:
  assumes "granted k u reason t"
  shows "claim_xp_grant k u reason a t = Inr (False, t) \<or> (\<exists>e. claim_xp_grant k u reason a t = Inl e)"
  using assms by (auto simp: claim_xp_grant_def)

lemma granted_award:
  assumes "granted k u ''participation'' t" "award_participation k g u t = Inr (events, t')"
  shows "events = [] \<and> t' = t"
proof (cases "fetch_category g t")
  case None
  with assms(2) show ?thesis by (simp add: award_participation_def bind_tx_def)
next
  case (Some c)
  with assms(2) granted_claim [OF assms(1), of "ca_participation_xp c"] show ?thesis
    by (auto simp: award_participation_def ledger_grant_xp_def bind_tx_def split: if_splits)
qed

lemma granted_frame [simp]: "granted k u reason (t\<lparr>tcompletions := cs\<rparr>) = granted k u reason t"
  by (simp add: granted_def)

lemma propagate_tx_pays_nothing:
  assumes "propagate_tx i v u t = Inr ((cy, events, row), t')" "v \<Longrightarrow> participation_done i u t"
  shows "events = [] \<and> economy t' = economy t"
proof (cases "\<exists>r c. fetch_tournament_completion i t = Some r \<and> fetch_cycle (tc_cycle_id r) t = Some c")
  case False
  with assms(1) show ?thesis by (auto simp: propagate_tx_def bind_tx_def split: option.splits)
next
  case True
  then obtain r c where rc: "fetch_tournament_completion i t = Some r" "fetch_cycle (tc_cycle_id r) t = Some c" by blast
  obtain x cs where set: "set_tournament_verified i v t = Inr (x, t\<lparr>tcompletions := cs\<rparr>)" using tournament_verdict_set by blast
  show ?thesis
  proof (cases v)
    case True
    with assms(2) rc have paid: "granted (cy_id c) u ''participation'' (t\<lparr>tcompletions := cs\<rparr>)"
      by (simp add: participation_done_def)
    with assms(1) rc set True granted_award [OF paid, of "cy_category_id c"] show ?thesis
      by (fastforce simp: propagate_tx_def bind_tx_def split: sum.splits)
  qed (use assms(1) rc set in \<open>auto simp: propagate_tx_def bind_tx_def\<close>)
qed

lemma view_put [simp]:
  "economy (tourney_view db) = econ_view db" "put_tourney t (put_tourney t' db) = put_tourney t db"
  "economy t = econ_view db \<Longrightarrow> tourney_view (put_tourney t db) = t"
  "economy t = econ_view db \<Longrightarrow> holdings (put_tourney t db) = holdings db"
  by (cases t; simp add: tourney_view_def econ_view_def put_tourney_def holdings_def)+

lemma tourney_statement:
  "atomically (in_tourney m) w = (case m (tourney_view (wdb w)) of Inl e \<Rightarrow> (Inl e, w)
     | Inr (x, t) \<Rightarrow> (Inr x, w\<lparr>wdb := put_tourney t (wdb w)\<rparr>))"
  by (auto simp: atomically_def in_tourney_def zoom_tx_def split: sum.split)

text \<open>The same, statement by statement, on a connection without a transaction.\<close>

lemma award_statements_pay_nothing:
  assumes "granted (cy_id c) u ''participation'' t" "economy t = econ_view db"
    and "award_statements c u (w\<lparr>wdb := put_tourney t db\<rparr>) = (r, w')"
  shows "wdb w' = put_tourney t db \<and> (\<forall>events. r = Inr events \<longrightarrow> events = [])"
proof (cases "fetch_category (cy_category_id c) t")
  case None
  with assms(2,3) show ?thesis by (auto simp: award_statements_def bind_io_def tourney_statement)
next
  case (Some g)
  with assms(2,3) granted_claim [OF assms(1), of "ca_participation_xp g"] show ?thesis
    by (auto simp: award_statements_def bind_io_def tourney_statement split: if_splits)
qed

lemma statements_pay_nothing:
  assumes "propagate_statements i v u w = (r, w')" "v \<Longrightarrow> participation_done i u (tourney_view (wdb w))"
  shows "holdings (wdb w') = holdings (wdb w) \<and> (\<forall>cy events row. r = Inr (cy, events, row) \<longrightarrow> events = [])"
proof -
  let ?t = "tourney_view (wdb w)"
  show ?thesis
  proof (cases "\<exists>x c. fetch_tournament_completion i ?t = Some x \<and> fetch_cycle (tc_cycle_id x) ?t = Some c")
    case False
    with assms(1) show ?thesis by (auto simp: propagate_statements_def bind_io_def tourney_statement split: option.splits)
  next
    case True
    then obtain x c where xc: "fetch_tournament_completion i ?t = Some x" "fetch_cycle (tc_cycle_id x) ?t = Some c" by blast
    obtain y cs where set: "set_tournament_verified i v ?t = Inr (y, ?t\<lparr>tcompletions := cs\<rparr>)" using tournament_verdict_set by blast
    let ?w = "w\<lparr>wdb := put_tourney (?t\<lparr>tcompletions := cs\<rparr>) (wdb w)\<rparr>"
    have run: "propagate_statements i v u w = bind_io (if v then award_statements c u else return_io [])
        (\<lambda>events. return_io (Some c, events, y)) ?w"
      using xc set by (simp add: propagate_statements_def bind_io_def [of "atomically _"] tourney_statement)
    show ?thesis
    proof (cases v)
      case True
      with assms(2) xc have paid: "granted (cy_id c) u ''participation'' (?t\<lparr>tcompletions := cs\<rparr>)"
        by (simp add: participation_done_def)
      obtain q w1 where "award_statements c u ?w = (q, w1)" by fastforce
      with award_statements_pay_nothing [OF paid _ this] True assms(1) [unfolded run] show ?thesis
        by (auto simp: bind_io_def split: sum.splits)
    qed (use assms(1) [unfolded run] in \<open>auto simp: bind_io_def\<close>)
  qed
qed

lemma propagate_pays_nothing:
  assumes "\<And>i. v \<Longrightarrow> mi_tournament_id info = Some i \<Longrightarrow> participation_done i (mi_user_id info) (tourney_view (wdb w))"
  shows "holdings (wdb (snd (propagate_tournament_verdict X pooled pytest info v w))) = holdings (wdb w)"
proof (cases "mi_tournament_id info")
  case None
  then show ?thesis by (simp add: propagate_tournament_verdict_def)
next
  case (Some i)
  let ?m = "if pooled then propagate_statements i v (mi_user_id info)
      else atomically (in_tourney (propagate_tx i v (mi_user_id info)))"
  let ?k = "\<lambda>(cycle, events, updated). case (cycle, updated) of
          (Some cy, Some row) \<Rightarrow>
            bind_io (if v \<and> events \<noteq> [] then publish_run_xp X events else return_io ()) (\<lambda>_.
            bind_io (publish_run X pytest ''api.tournament.verification.changed'' (TournamentVerificationChanged
                \<lparr>vc_tournament_completion_id = i, vc_cycle_id = cy_id cy, vc_user_id = mi_user_id info,
                 vc_verified = v, vc_time = fl (tc_time row)\<rparr>)
              (Some (''tournament:'' @ (if v then ''verify'' else ''reject'') @ '':'' @ str_of_int i))) (\<lambda>_. return_io ()))
        | _ \<Rightarrow> return_io ()"
  obtain r w1 where m: "?m w = (r, w1)" by fastforce
  have paid: "holdings (wdb w1) = holdings (wdb w) \<and> (\<forall>cy events row. r = Inr (cy, events, row) \<longrightarrow> events = [])"
  proof (cases pooled)
    case True
    with m statements_pay_nothing [of i v "mi_user_id info" w r w1] assms Some show ?thesis by auto
  next
    case False
    show ?thesis
    proof (cases "propagate_tx i v (mi_user_id info) (tourney_view (wdb w))")
      case (Inl e)
      with m False show ?thesis by (auto simp: tourney_statement)
    next
      case (Inr p)
      obtain cy events row t' where p: "p = ((cy, events, row), t')" by (metis prod.collapse)
      from propagate_tx_pays_nothing [OF Inr [unfolded p]] assms Some have "events = [] \<and> economy t' = econ_view (wdb w)" by simp
      with m False Inr show ?thesis by (auto simp: tourney_statement p)
    qed
  qed
  have keep: "keeps_io (\<lambda>db. holdings db = h) (?k (cy, [], row))" for h cy row
    by (auto split: option.split intro!: keeps_rules keeps_holdings_publish)
  have run: "propagate_tournament_verdict X pooled pytest info v w = bind_io ?m ?k w"
    unfolding propagate_tournament_verdict_def Some option.case by (rule refl)
  show ?thesis
  proof (cases r)
    case (Inl e)
    with paid m show ?thesis unfolding run bind_io_def m by simp
  next
    case (Inr p)
    obtain cy events row where p: "p = (cy, events, row)" by (metis prod.collapse)
    with paid Inr have bind: "bind_io ?m ?k w = ?k (cy, [], row) w1" unfolding bind_io_def m by simp
    show ?thesis unfolding run bind by (rule keeps_ioD [OF keep]) (use paid in simp)
  qed
qed

lemma participation_done_view [simp]: "participation_done i u (tourney_view db) = participation_done i u (cd_tourney db)"
  by (simp add: participation_done_def tourney_view_def fetch_tournament_completion_def fetch_cycle_def granted_def
      cong: option.case_cong)

lemma verdict_tourney [simp]:
  "cd_tourney (after_verified i v (set_runs P f db)) = cd_tourney db"
  by (simp add: after_verified_def ratings_verify_on_completion_def set_runs_def split: option.split)

lemma verdict_holdings:
  assumes "run_by_id i (wdb w) = Some c" "\<not> user_missing (vu_verified_by data) (wdb w)"
    and "co_verified c = vu_verified data" "vu_verified data \<Longrightarrow> nothing_to_pay c (wdb w)"
  shows "holdings (wdb (snd (verify_completion X pooled request pytest i data w))) = holdings (wdb w)"
proof -
  let ?w = "w\<lparr>wdb := after_verified i (vu_verified data) (set_runs (\<lambda>c. co_id c = i) (judged data) (wdb w))\<rparr>"
  let ?m = "propagate_tournament_verdict X pooled pytest (info_of (wdb w) c) (vu_verified data)"
  have emit: "keeps_io P (emit_skill_recompute b x y z)" for P b x y z
    unfolding emit_skill_recompute_def by (intro keeps_rules)
  have "holdings (wdb (snd (?m ?w))) = holdings (wdb ?w)"
    by (rule propagate_pays_nothing) (use assms(4) in \<open>simp add: nothing_to_pay_def info_of_def\<close>)
  then have paid: "holdings (wdb (snd (?m ?w))) = holdings (wdb w)" by simp
  have "verify_completion X pooled request pytest i data w = after_verdict X pooled request pytest i data (info_of (wdb w) c) ?w"
    using assms(1,2) by (simp add: verify_run)
  also have "\<dots> = bind_io ?m (\<lambda>_. bind_io (emit_skill_recompute request (if vu_verified data
         then ''skill.recompute.requested:verify'' else ''skill.recompute.requested:un-verify'') ''PLAYER_ACTION''
         (Some (mi_user_id (info_of (wdb w) c)))) (\<lambda>_.
       publish_run X pytest ''api.completion.verification'' (VerificationChanged \<lparr>vg_completion_id = i,
         vg_verified = vu_verified data, vg_verified_by = vu_verified_by data, vg_reason = vu_reason data\<rparr>)
         (Some (''completion:verify:'' @ str_of_int i)))) ?w" (is "_ = bind_io _ ?k _")
    using assms(3) by (simp add: after_verdict_def info_of_def)
  finally have run: "verify_completion X pooled request pytest i data w = bind_io ?m ?k ?w" .
  have keep: "keeps_io (\<lambda>db. holdings db = holdings (wdb w)) (?k x)" for x
    by (intro keeps_rules emit keeps_holdings_publish)
  show ?thesis unfolding run
    by (rule keeps_io_after [where P = "\<lambda>db. holdings db = holdings (wdb w)"]) (rule paid, rule keep)
qed

text \<open>C12: a verdict on a run is committed first: for a missing run or judge the call fails with nothing changed;
  otherwise, even if the quests, the tournament or the message fail later, exactly the run in question bears the
  verdict, the judge and the reason afterwards. A verdict that repeats the one before leaves coins, XP, keys, quests
  and every other holding as they are, if it is a rejection, if the run is outside tournaments, or if the ledger
  already has the participation of its player; what remains is a verified tournament run whose participation was
  never paid, and there the repetition pays it.\<close>

theorem run_verdict_outcome:
  "case verify_completion X pooled request pytest i data w of (r, w') \<Rightarrow>
     if run_by_id i (wdb w) = None \<or> user_missing (vu_verified_by data) (wdb w)
     then r = Inl (Runs (CompletionNotFoundError i)) \<and> w' = w
     else cd_runs (wdb w') = update_where (\<lambda>c. co_id c = i) (judged data) (cd_runs (wdb w))
       \<and> (case run_by_id i (wdb w) of Some c \<Rightarrow> co_verified c = vu_verified data
            \<longrightarrow> (vu_verified data \<longrightarrow> nothing_to_pay c (wdb w))
            \<longrightarrow> holdings (wdb w') = holdings (wdb w) | None \<Rightarrow> True)"
proof (cases "run_by_id i (wdb w)")
  case None
  then show ?thesis by (simp add: verify_completion_def run_exists)
next
  case (Some c)
  show ?thesis
  proof (cases "user_missing (vu_verified_by data) (wdb w)")
    case True
    with Some show ?thesis by (simp add: verify_run)
  next
    case False
    obtain r w' where run: "verify_completion X pooled request pytest i data w = (r, w')" by fastforce
    with verdict_runs [OF Some False, of X pooled request pytest] verdict_holdings [OF Some False, of X pooled request pytest]
      Some False show ?thesis by simp
  qed
qed

definition demo_verdict :: "int \<Rightarrow> verification_update" where
  "demo_verdict judge = \<lparr>vu_verified_by = judge, vu_verified = True, vu_reason = None\<rparr>"

theorem run_verdict_outcome_witness:
  "map co_verified (cd_runs (wdb (snd (verify_completion demo_X False True False 1 (demo_verdict 2) demo_world)))) = [True]
   \<and> fst (verify_completion demo_X False True False 1 (demo_verdict 9) demo_world) = Inl (Runs (CompletionNotFoundError 1))"
proof
  note facts = demo_world_def demo_verdict_def demo_users run_by_id_def demo_run_def bot_user_id_def judged_def
  show "map co_verified (cd_runs (wdb (snd (verify_completion demo_X False True False 1 (demo_verdict 2) demo_world)))) = [True]"
    using run_verdict_outcome [where X = demo_X and pooled = False and request = True and pytest = False and i = 1
        and data = "demo_verdict 2" and w = demo_world]
    by (auto simp: facts split: prod.splits)
  show "fst (verify_completion demo_X False True False 1 (demo_verdict 9) demo_world) = Inl (Runs (CompletionNotFoundError 1))"
    using run_verdict_outcome [where X = demo_X and pooled = False and request = True and pytest = False and i = 1
        and data = "demo_verdict 9" and w = demo_world]
    by (auto simp: facts split: prod.splits)
qed

subsection \<open>Automatic verification\<close>

lemma read_screenshot_run:
  "read_screenshot X ocr u code t shot w =
     (let names = map py_upper (fetch_all_user_names (rx_ties X ''usernames'') u (wdb w))
      in (case ocr shot code t names of Inl e \<Rightarrow> Inl e | Inr ex \<Rightarrow> Inr (names, ex), w))"
  by (simp add: read_screenshot_def Let_def) (simp add: bind_io_def split: sum.split)

definition recognised :: "run_env \<Rightarrow> ocr_service \<Rightarrow> int \<Rightarrow> string \<Rightarrow> rat \<Rightarrow> string \<Rightarrow> cdb \<Rightarrow> bool" where
  "recognised X ocr u code t shot db \<longleftrightarrow>
     (let names = map py_upper (fetch_all_user_names (rx_ties X ''usernames'') u db)
      in case ocr shot code t names of Inl e \<Rightarrow> False
         | Inr ex \<Rightarrow> ex_code ex = Some code \<and> ex_time ex = Some t \<and> (\<exists>n \<in> set names. ex_name ex = Some n))"

lemma recognised_iff: "recognised X ocr u code t shot db \<longleftrightarrow>
    (let names = map py_upper (fetch_all_user_names (rx_ties X ''usernames'') u db)
     in case ocr shot code t names of Inl e \<Rightarrow> False | Inr ex \<Rightarrow> ocr_match code t names ex)"
  by (auto simp: recognised_def ocr_match_def user_match_def Let_def split: sum.split option.split)

text \<open>The handler of the exception leaves the runs alone.\<close>

lemma runs_after_catch:
  assumes "\<And>e Q. keeps_io (\<lambda>db. Q (own db)) (h e)"
  shows "cd_runs (wdb (snd (catch_io m h w))) = cd_runs (wdb (snd (m w)))"
proof -
  obtain r v where mw: "m w = (r, v)" by fastforce
  have "cd_runs (wdb (snd (h e v))) = cd_runs (wdb v)" for e
    using keeps_ioD [OF assms [of "\<lambda>t. fst t = cd_runs (wdb v)"], of v] by (simp add: own_def)
  with mw show ?thesis by (cases r) (simp_all add: catch_io_def)
qed

lemma verify_runs:
  "cd_runs (wdb (snd (verify_completion X pooled request pytest i data w))) =
     (if run_by_id i (wdb w) = None \<or> user_missing (vu_verified_by data) (wdb w) then cd_runs (wdb w)
      else update_where (\<lambda>c. co_id c = i) (judged data) (cd_runs (wdb w)))"
proof (cases "run_by_id i (wdb w)")
  case None
  then show ?thesis by (simp add: verify_completion_def run_exists)
next
  case (Some c)
  then show ?thesis using verdict_runs [OF Some] verify_run [OF Some] by simp
qed

text \<open>C13: the bot verifies a run only on evidence: the attempt changes no run but the one in question, and that one
  exactly when the screenshot was read and its map code, its time and one of the player's names all agree with the
  submission, in which case the run is verified in the name of the bot, whatever fails afterwards.\<close>

theorem auto_verify_sound:
  "cd_runs (wdb (snd (attempt_auto_verify X ocr i u code t shot w))) =
     (if recognised X ocr u code t shot (wdb w) \<and> run_by_id i (wdb w) \<noteq> None \<and> \<not> user_missing bot_user_id (wdb w)
      then update_where (\<lambda>c. co_id c = i) (judged bot_verdict) (cd_runs (wdb w)) else cd_runs (wdb w))"
proof -
  let ?names = "map py_upper (fetch_all_user_names (rx_ties X ''usernames'') u (wdb w))"
  let ?queue = "publish_run X False ''api.completion.submission'' (CompletionCreated i) (submission_key u i)"
  let ?notice = "\<lambda>what. notify_user X False (autoverify_notice u what ''completion'' code ''completion_id'' i)"
  let ?failed = "\<lambda>(names, ex). publish_run X False ''api.completion.autoverification.failed'' (FailedAutoverify
              \<lparr>fv_submitted_code = code, fv_submitted_time = t, fv_submitted_user_names = names, fv_user_id = u,
               fv_extracted = ex, fv_code_match = (ex_code ex = Some code),
               fv_time_match = (ex_time ex = Some t), fv_user_match = user_match names ex,
               fv_screenshot = shot\<rparr>) None"
  let ?body = "bind_io (read_screenshot X ocr u code t shot) (\<lambda>(names, ex).
         if ocr_match code t names ex
         then bind_io (verify_completion_with_pool X False False i bot_verdict) (\<lambda>_. return_io ())
         else bind_io (?failed (names, ex)) (\<lambda>_. bind_io ?queue (\<lambda>_. ?notice ''failed'')))"
  have "cd_runs (wdb (snd (attempt_auto_verify X ocr i u code t shot w))) = cd_runs (wdb (snd (?body w)))"
    unfolding attempt_auto_verify_def Let_def split_conv
    by (rule runs_after_catch) (intro keeps_rules own_keeps)
  also have "\<dots> = (if recognised X ocr u code t shot (wdb w)
      then cd_runs (wdb (snd (verify_completion X True False False i bot_verdict w))) else cd_runs (wdb w))"
  proof (cases "ocr shot code t ?names")
    case (Inl e)
    then show ?thesis by (simp add: recognised_iff bind_io_def read_screenshot_run Let_def)
  next
    case (Inr ex)
    then have start: "?body w = (if ocr_match code t ?names ex
         then bind_io (verify_completion_with_pool X False False i bot_verdict) (\<lambda>_. return_io ())
         else bind_io (?failed (?names, ex)) (\<lambda>_. bind_io ?queue (\<lambda>_. ?notice ''failed''))) w"
      by (simp add: bind_io_def [of "read_screenshot _ _ _ _ _ _"] read_screenshot_run Let_def)
    have quiet: "keeps_io (\<lambda>db. Q (own db)) (bind_io (?failed (?names, ex)) (\<lambda>_. bind_io ?queue (\<lambda>_. ?notice ''failed'')))" for Q
      by (simp only: split_conv) (intro keeps_rules own_keeps)
    have same: "cd_runs (wdb (snd (bind_io (?failed (?names, ex)) (\<lambda>_. bind_io ?queue (\<lambda>_. ?notice ''failed'')) w))) = cd_runs (wdb w)"
      using keeps_ioD [OF quiet [of "\<lambda>t. fst t = cd_runs (wdb w)"], of w] by (simp only: own_def fst_conv)
    have last: "snd (bind_io m (\<lambda>_. return_io ()) w) = snd (m w)" for m :: "job_status_response cio"
      by (simp add: bind_io_def split: prod.split sum.split)
    show ?thesis
      unfolding start using Inr same by (simp add: recognised_iff Let_def verify_completion_with_pool_def last)
  qed
  finally show ?thesis by (simp add: verify_runs bot_verdict_def)
qed

definition demo_ocr :: ocr_service where
  "demo_ocr = (\<lambda>shot code t names. Inr \<lparr>ex_name = Some (hd names), ex_time = Some t, ex_code = Some code\<rparr>)"

lemma demo_names: "fetch_all_user_names (rx_ties demo_X ''usernames'') 1 (demo_db []) = [''Ana'']"
  by code_simp

theorem auto_verify_sound_witness:
  "map co_verified (cd_runs (wdb (snd (attempt_auto_verify demo_X demo_ocr 1 1 ''ABCDE'' 42 ''s'' demo_world)))) = [True]
   \<and> map co_verified (cd_runs (wdb (snd (attempt_auto_verify demo_X (\<lambda>_ _ _ _. Inl Amqp) 1 1 ''ABCDE'' 42 ''s'' demo_world)))) = [False]"
proof
  note facts = demo_world_def demo_users run_by_id_def recognised_def demo_names demo_ocr_def
  show "map co_verified (cd_runs (wdb (snd (attempt_auto_verify demo_X demo_ocr 1 1 ''ABCDE'' 42 ''s'' demo_world)))) = [True]"
    unfolding auto_verify_sound by (simp add: facts) (simp add: demo_run_def judged_def bot_verdict_def)
  show "map co_verified (cd_runs (wdb (snd (attempt_auto_verify demo_X (\<lambda>_ _ _ _. Inl Amqp) 1 1 ''ABCDE'' 42 ''s'' demo_world)))) = [False]"
    unfolding auto_verify_sound by (simp add: facts) (simp add: demo_run_def)
qed

subsection \<open>Upvotes\<close>

lemma votes_after_publish: "cd_upvotes (wdb (snd (publish_run X pytest key data k w))) = cd_upvotes (wdb w)"
  using keeps_ioD [OF keeps_own_publish(1) [of "\<lambda>t. fst (snd (snd t)) = cd_upvotes (wdb w)"], of w] by (simp add: own_def)

text \<open>C16: a vote counts once: a second vote of the same user for the same message is refused, a vote of an unknown user
  or for a message without a run is refused, both with nothing changed; any other vote is stored for good and raises
  the count of its message by one, the count is answered, and a message follows for each tenth vote and no other.\<close>

theorem upvote_outcome:
  "case upvote_submission X pytest u m w of (r, w') \<Rightarrow>
     if has_row (\<lambda>v. uv_user_id v = u \<and> uv_message_id v = m) (cd_upvotes (wdb w))
     then r = Inl (Runs (DuplicateUpvoteError u m)) \<and> w' = w
     else if user_missing u (wdb w) \<or> \<not> has_row (\<lambda>c. co_message_id c = Some m) (cd_runs (wdb w))
     then r = Inl (Runs (CompletionNotFoundError m)) \<and> w' = w
     else get_upvotes_from_message_id m (wdb w') = get_upvotes_from_message_id m (wdb w) + 1
       \<and> (case r of Inr resp \<Rightarrow> ur_upvotes resp = Some (get_upvotes_from_message_id m (wdb w'))
                \<and> (ur_job_status resp \<noteq> None \<longleftrightarrow> 10 dvd get_upvotes_from_message_id m (wdb w'))
            | Inl e \<Rightarrow> 10 dvd get_upvotes_from_message_id m (wdb w'))
       \<and> (wmq w' = wmq w \<or> 10 dvd get_upvotes_from_message_id m (wdb w'))"
proof -
  let ?n = "fetch_upvote_count m (wdb w) + 1"
  let ?db = "(wdb w)\<lparr>cd_upvotes := cd_upvotes (wdb w) @ [\<lparr>uv_user_id = u, uv_message_id = m\<rparr>]\<rparr>"
  show ?thesis
  proof (cases "has_row (\<lambda>v. uv_user_id v = u \<and> uv_message_id v = m) (cd_upvotes (wdb w))
      \<or> user_missing u (wdb w) \<or> \<not> has_row (\<lambda>c. co_message_id c = Some m) (cd_runs (wdb w))")
    case True
    then show ?thesis
      by (auto simp: upvote_submission_def insert_upvote_def translated_def repo_error_def catch_io_def atomically_def bind_io_def)
  next
    case False
    let ?publish = "publish_run X pytest ''api.completion.upvote'' (UpvoteUpdate \<lparr>uu_user_id = u, uu_message_id = m\<rparr>) None"
    have count: "get_upvotes_from_message_id m db = ?n" if "cd_upvotes db = cd_upvotes ?db" for db
      using that by (simp add: get_upvotes_from_message_id_def fetch_upvote_count_def)
    have "0 < ?n" by (simp add: fetch_upvote_count_def)
    with False have run: "upvote_submission X pytest u m w =
        (if 10 dvd ?n then bind_io ?publish (\<lambda>job. return_io \<lparr>ur_job_status = Some job, ur_upvotes = Some ?n\<rparr>)
         else return_io \<lparr>ur_job_status = None, ur_upvotes = Some ?n\<rparr>) (w\<lparr>wdb := ?db\<rparr>)"
      by (simp add: upvote_submission_def insert_upvote_def translated_def catch_io_def atomically_def bind_io_def [of "\<lambda>w. _ w"]
          dvd_eq_mod_eq_0)
    obtain r v where sent: "?publish (w\<lparr>wdb := ?db\<rparr>) = (r, v)" by fastforce
    then have stored: "cd_upvotes (wdb v) = cd_upvotes ?db"
      using votes_after_publish [of X pytest "''api.completion.upvote''" "UpvoteUpdate \<lparr>uu_user_id = u, uu_message_id = m\<rparr>" None
          "w\<lparr>wdb := ?db\<rparr>"] by simp
    have before: "get_upvotes_from_message_id m (wdb w) + 1 = ?n" by (simp add: get_upvotes_from_message_id_def)
    show ?thesis
      using False by (simp add: run bind_io_def sent count [OF stored] count [of ?db] before split: sum.split)
  qed
qed

theorem upvote_outcome_witness:
  "map ur_upvotes (case fst (upvote_submission demo_X False 2 800 demo_world) of Inr r \<Rightarrow> [r] | Inl e \<Rightarrow> []) = [Some 1]
   \<and> fst (upvote_submission demo_X False 2 801 demo_world) = Inl (Runs (CompletionNotFoundError 801))"
proof
  note facts = demo_world_def demo_users demo_run_def get_upvotes_from_message_id_def fetch_upvote_count_def
  show "map ur_upvotes (case fst (upvote_submission demo_X False 2 800 demo_world) of Inr r \<Rightarrow> [r] | Inl e \<Rightarrow> []) = [Some 1]"
    using upvote_outcome [where X = demo_X and pytest = False and u = 2 and m = 800 and w = demo_world]
    by (auto simp: facts split: prod.splits sum.splits)
  show "fst (upvote_submission demo_X False 2 801 demo_world) = Inl (Runs (CompletionNotFoundError 801))"
    using upvote_outcome [where X = demo_X and pytest = False and u = 2 and m = 801 and w = demo_world]
    by (auto simp: facts split: prod.splits)
qed

subsection \<open>Slower runs of a tournament\<close>

text \<open>C15: on the map of a running tournament a run that the speed rule turns away is lost: with no slower run of the
  player waiting, the submission fails with the error of an aborted transaction, nothing is stored and nothing is
  sent, although the code means to record it as a tournament run.\<close>

theorem slower_tournament_run_lost:
  assumes "check_map_exists (cc_code data) (wdb w)" "resolve_active_cycle X (cc_code data) (wdb w) = Some cy"
    and "\<forall>p. get_pending_verification (rx_ties X ''pending'') (cc_user_id data) (cc_code data) (wdb w) = Some p
       \<longrightarrow> pd_time p \<le> cc_time data"
    and "map_by_code (Some (cc_code data)) (wdb w) = Some m" "numeric_10_2 (float_text (cc_time data)) = Inr t"
    and "\<not> speed_rules_ok (rx_ties X ''best'') None (new_run (rx_env X) (next_run_id (wdb w)) m (cc_user_id data) t
       (cc_screenshot data) (cc_video data) (completion_flag m (cc_video data) (wdb w))) (wdb w)"
  shows "submit_completion X pytest data w = (Inl (Pg InFailedSqlTransaction), w)"
proof -
  let ?p = "get_pending_verification (rx_ties X ''pending'') (cc_user_id data) (cc_code data) (wdb w)"
  have "supersede_pending (Some cy) data ?p (wdb w) = Inr (None, wdb w)"
    using assms(3) by (cases ?p) (auto simp: supersede_pending_def)
  moreover have "insert_or_relax X (Some cy) data (wdb w) = Inl (Pg InFailedSqlTransaction)"
    using assms(4-6) by (simp add: insert_or_relax_def insert_completion_def translated_def repo_error_def in_failed_transaction_def)
  ultimately have "submission_tx X data (wdb w) = Inl (Pg InFailedSqlTransaction)"
    using assms(2) by (simp add: submission_tx_def bind_tx_def)
  with assms(1) show ?thesis by (simp add: submit_completion_def bind_atomically_Inl)
qed

definition demo_cup :: cworld where
  "demo_cup = \<lparr>wdb = demo_db (cycles sample_tdb), wmq = []\<rparr>"

definition demo_submission :: "rat \<Rightarrow> completion_create_request" where
  "demo_submission t = \<lparr>cc_code = ''ABCDE'', cc_user_id = 1, cc_time = t, cc_screenshot = ''s'', cc_video = None\<rparr>"

lemma demo_numeric: "numeric_10_2 (float_text 50) = Inr 50" "numeric_10_2 (float_text 40) = Inr 40"
  by code_simp+

definition demo_map_row :: map_row where
  "demo_map_row = \<lparr>mp_id = 7, mp_code = Some ''ABCDE'', mp_name = ''Hanamura'',
    mp_category = ''Classic'', mp_difficulty = ''Hell'', mp_official = True, mp_archived = False, mp_original_code = None\<rparr>"

lemma demo_map: "map_by_code (Some ''ABCDE'') (demo_db cs) = Some demo_map_row"
  by (simp add: map_by_code_def demo_db_def econ_view_def sample_db_def demo_map_row_def)

lemma one_row [simp]: "order_by_random ties [x] = [x]"
  by (simp add: order_by_random_def)

lemma demo_pending: "get_pending_verification ties 1 ''ABCDE'' (demo_db cs) =
    Some \<lparr>pd_id = 1, pd_time = 42, pd_verification_id = Some 900\<rparr>"
  by (simp add: get_pending_verification_def demo_map demo_map_row_def demo_run_def is_pending_def fl_numeral)

lemma demo_exists: "check_map_exists ''ABCDE'' (demo_db cs)"
  by (simp add: check_map_exists_def demo_db_def econ_view_def sample_db_def)

lemma demo_best: "fastest_rival ties None (new_run E i demo_map_row 1 t shot video flag) (demo_db cs) = Some demo_run"
  by (simp add: demo_map_row_def fastest_rival_def rival_runs_def new_run_def demo_run_def live_run_def demo_db_def econ_view_def sample_db_def)

theorem slower_tournament_run_lost_witness:
  "submit_completion demo_X False (demo_submission 50) demo_cup = (Inl (Pg InFailedSqlTransaction), demo_cup)"
proof (rule slower_tournament_run_lost)
  show "check_map_exists (cc_code (demo_submission 50)) (wdb demo_cup)"
    by (simp add: demo_submission_def demo_cup_def demo_exists)
  show "resolve_active_cycle demo_X (cc_code (demo_submission 50)) (wdb demo_cup) = Some (cycles sample_tdb ! 1)"
    by (simp add: demo_submission_def demo_cup_def resolve_active_cycle_def fetch_map_metadata_by_code_def demo_map
        demo_map_row_def get_active_cycle_by_map_id_def tourney_view_def) (simp add: demo_db_def sample_tdb_def)
  show "map_by_code (Some (cc_code (demo_submission 50))) (wdb demo_cup) = Some demo_map_row"
    by (simp add: demo_submission_def demo_cup_def demo_map)
  show "numeric_10_2 (float_text (cc_time (demo_submission 50))) = Inr 50"
    by (simp add: demo_submission_def demo_numeric)
  show "\<not> speed_rules_ok (rx_ties demo_X ''best'') None (new_run (rx_env demo_X) (next_run_id (wdb demo_cup)) demo_map_row
      (cc_user_id (demo_submission 50)) 50 (cc_screenshot (demo_submission 50)) (cc_video (demo_submission 50))
      (completion_flag demo_map_row (cc_video (demo_submission 50)) (wdb demo_cup))) (wdb demo_cup)"
    by (simp add: demo_submission_def demo_cup_def speed_rules_ok_def demo_best completion_flag_def)
      (simp add: new_run_def demo_run_def demo_X_def sample_env_def)
qed (simp add: demo_submission_def demo_cup_def demo_pending)

end
