(* ===== verification/Complete_Submit.thy ===== *)
theory Complete_Submit
  imports Complete_Props
begin

section \<open>Submissions of runs\<close>

text \<open>
  What a submission does off the maps of running tournaments: which runs are turned away, which run
  it replaces, and where the new one goes. The last section is the invariant of all calls.
\<close>

subsection \<open>Runs that wait and runs that have passed\<close>

text \<open>The runs of a player on a map that wait for a verdict, and those that have passed.\<close>

definition waiting :: "completion_create_request \<Rightarrow> map_row \<Rightarrow> completion_run \<Rightarrow> bool" where
  "waiting data m c \<longleftrightarrow> is_pending c \<and> co_user_id c = cc_user_id data \<and> co_map_id c = mp_id m"

definition passed :: "completion_create_request \<Rightarrow> map_row \<Rightarrow> completion_run \<Rightarrow> bool" where
  "passed data m c \<longleftrightarrow> co_verified c \<and> \<not> co_legacy c \<and> co_user_id c = cc_user_id data \<and> co_map_id c = mp_id m"

definition superseded :: "completion_create_request \<Rightarrow> map_row \<Rightarrow> completion_run list \<Rightarrow> completion_run list" where
  "superseded data m = update_where (waiting data m) (\<lambda>c. c\<lparr>co_verified_by := Some bot_user_id\<rparr>)"

text \<open>A full run has to beat every run of the player that has passed, a run that only completes the map may also
  follow one when the fastest of them was no full run either.\<close>

definition fast_enough :: "completion_create_request \<Rightarrow> map_row \<Rightarrow> rat \<Rightarrow> bool \<Rightarrow> completion_run list \<Rightarrow> bool" where
  "fast_enough data m t flag rs \<longleftrightarrow> (\<forall>c \<in> set rs. passed data m c \<longrightarrow> t < co_time c)
     \<or> \<not> flag \<and> (\<exists>c \<in> set rs. passed data m c \<and> co_completion c \<and> (\<forall>d \<in> set rs. passed data m d \<longrightarrow> co_time c \<le> co_time d))"

definition too_slow :: "completion_create_request \<Rightarrow> map_row \<Rightarrow> rat \<Rightarrow> bool \<Rightarrow> completion_run list \<Rightarrow> bool" where
  "too_slow data m t flag rs \<longleftrightarrow> (\<exists>c \<in> set rs. passed data m c \<and> co_time c \<le> t \<and> (flag \<or> \<not> co_completion c))"

lemma supersede_run:
  assumes "runs_ok db" "map_by_code (Some (cc_code data)) db = Some m"
  shows "case supersede_pending None data (get_pending_verification ties (cc_user_id data) (cc_code data) db) db of
     Inl e \<Rightarrow> (\<exists>c \<in> set (cd_runs db). waiting data m c \<and> fl (co_time c) \<le> cc_time data
           \<and> e = Runs (SlowerThanPendingError (cc_time data) (fl (co_time c))))
         \<or> user_missing bot_user_id db \<and> e = Pg (ForeignKeyViolation ''completions_verified_by_fkey'')
   | Inr (v, db1) \<Rightarrow> db1 = db\<lparr>cd_runs := superseded data m (cd_runs db)\<rparr>
         \<and> (\<forall>c \<in> set (cd_runs db). waiting data m c \<longrightarrow> cc_time data < fl (co_time c))"
proof (cases "get_pending_verification ties (cc_user_id data) (cc_code data) db")
  case None
  then have "\<not> has_row (waiting data m) (cd_runs db)"
    using assms(2) by (auto simp: no_pending waits_def has_row_iff waiting_def)
  then have same: "superseded data m (cd_runs db) = cd_runs db" by (simp add: superseded_def update_where_none)
  have "db\<lparr>cd_runs := cd_runs db\<rparr> = db" by (cases db) simp
  with None same \<open>\<not> has_row _ _\<close> show ?thesis by (simp add: supersede_pending_def has_row_iff)
next
  case (Some p)
  from some_pending [OF this] obtain m' c where m': "map_by_code (Some (cc_code data)) db = Some m'"
    and c: "c \<in> set (cd_runs db)" "is_pending c" "co_user_id c = cc_user_id data" "co_map_id c = mp_id m'"
    "pd_id p = co_id c" "pd_time p = fl (co_time c)" .
  from m' assms(2) c(2-4) have waits: "waiting data m c" by (simp add: waiting_def)
  note c = c(1) waits c(5,6)
  have only: "d = c" if "d \<in> set (cd_runs db)" "waiting data m d" for d
    using runs_ok_pending [OF assms(1) that(1) c(1)] that(2) c(2) by (simp add: waiting_def)
  have here: "d = c" if "d \<in> set (cd_runs db)" "co_id d = co_id c" for d
    using assms(1) run_rows_unique that c(1) by (fastforce simp: runs_ok_iff)
  have rows: "update_where (\<lambda>d. co_id d = co_id c) f (cd_runs db) = update_where (waiting data m) f (cd_runs db)" for f
    by (rule update_where_cong) (use only here c(2) in blast)
  have "check_completion_exists (co_id c) db" using c(1) by (auto simp: check_completion_exists_def has_row_iff)
  then have reject: "reject_completion (co_id c) bot_user_id db = (if user_missing bot_user_id db
      then Inl (Pg (ForeignKeyViolation ''completions_verified_by_fkey''))
      else Inr ((), db\<lparr>cd_runs := superseded data m (cd_runs db)\<rparr>))"
    by (simp add: reject_completion_def set_runs_def rows superseded_def)
  show ?thesis
  proof (cases "fl (co_time c) \<le> cc_time data")
    case True
    with Some c show ?thesis by (auto simp: supersede_pending_def)
  next
    case False
    then have "\<forall>d \<in> set (cd_runs db). waiting data m d \<longrightarrow> cc_time data < fl (co_time d)" using only by force
    with False Some c(3,4) show ?thesis
      by (simp add: supersede_pending_def bind_tx_def reject not_less not_le)
  qed
qed

lemma map_by_code_D: "map_by_code (Some code) db = Some m \<Longrightarrow> m \<in> set (maps_tbl (econ_view db))"
  by (auto simp: map_by_code_def dest: first_where_SomeD)

lemma runs_view [simp]: "maps_tbl (econ_view (db\<lparr>cd_runs := rs\<rparr>)) = maps_tbl (econ_view db)"
  "users (econ_view (db\<lparr>cd_runs := rs\<rparr>)) = users (econ_view db)"
  by (simp_all add: econ_view_def)

lemma rivals_passed:
  assumes "map_by_code (Some (cc_code data)) db = Some m"
  shows "set (rival_runs None (new_run E i m (cc_user_id data) t shot video flag) (db\<lparr>cd_runs := superseded data m (cd_runs db)\<rparr>))
    = {c \<in> set (cd_runs db). passed data m c}"
proof -
  have m: "has_row (\<lambda>m'. mp_id m' = mp_id m) (maps_tbl (econ_view db))"
    using map_by_code_D [OF assms] by (auto simp: has_row_iff)
  have "c \<in> set (superseded data m rs) \<and> co_user_id c = cc_user_id data \<and> co_map_id c = mp_id m \<and> live_run c
      \<longleftrightarrow> c \<in> set rs \<and> passed data m c" for c rs
    by (induction rs) (auto simp: superseded_def waiting_def passed_def live_run_def is_pending_def)
  moreover have "has_row (\<lambda>m'. mp_id m' = co_map_id c) (maps_tbl (econ_view db))" if "co_map_id c = mp_id m" for c
    using m that by simp
  ultimately show ?thesis by (auto simp: rival_runs_def new_run_def)
qed

lemma fastest_None: "fastest_rival ties skip new db = None \<longleftrightarrow> set (rival_runs skip new db) = {}"
  using sorted_rows_empty [of co_time ties "rival_runs skip new db"]
  by (cases "sort_key co_time (order_by_random ties (rival_runs skip new db))") (simp_all add: fastest_rival_def)

lemma fastest_Some:
  assumes "fastest_rival ties skip new db = Some c"
  shows "c \<in> set (rival_runs skip new db)" "\<forall>d \<in> set (rival_runs skip new db). co_time c \<le> co_time d"
proof -
  let ?rs = "sort_key co_time (order_by_random ties (rival_runs skip new db))"
  from assms obtain cs where cs: "?rs = c # cs" by (auto simp: fastest_rival_def split: list.splits)
  have all: "set ?rs = set (rival_runs skip new db)" by simp
  show "c \<in> set (rival_runs skip new db)" unfolding all [symmetric] cs by simp
  have "sorted (map co_time (c # cs))" unfolding cs [symmetric] by simp
  then show "\<forall>d \<in> set (rival_runs skip new db). co_time c \<le> co_time d" unfolding all [symmetric] cs by auto
qed

lemma speed_passed:
  assumes "map_by_code (Some (cc_code data)) db = Some m" "\<forall>c \<in> set (cd_runs db). co_inserted_at c \<le> env_now E"
  shows "if speed_rules_ok ties None (new_run E i m (cc_user_id data) t shot video flag) (db\<lparr>cd_runs := superseded data m (cd_runs db)\<rparr>)
    then fast_enough data m t flag (cd_runs db) else too_slow data m t flag (cd_runs db)"
    (is "if speed_rules_ok ties None ?new ?db then _ else _")
proof -
  note rivals = rivals_passed [OF assms(1), of E i t shot video flag]
  show ?thesis
  proof (cases "fastest_rival ties None ?new ?db")
    case None
    then have "{c \<in> set (cd_runs db). passed data m c} = {}" unfolding fastest_None rivals .
    then have "fast_enough data m t flag (cd_runs db)" by (auto simp: fast_enough_def)
    with None show ?thesis by (simp add: speed_rules_ok_def)
  next
    case (Some c)
    from fastest_Some [OF this] rivals have c: "c \<in> set (cd_runs db)" "passed data m c"
      "\<And>d. d \<in> set (cd_runs db) \<Longrightarrow> passed data m d \<Longrightarrow> co_time c \<le> co_time d" by auto
    then have "\<not> env_now E < co_inserted_at c" using assms(2) by auto
    with Some have ok: "speed_rules_ok ties None ?new ?db \<longleftrightarrow> t < co_time c \<or> \<not> flag \<and> co_completion c"
      by (simp add: speed_rules_ok_def new_run_def) blast
    have "fast_enough data m t flag (cd_runs db)" if "t < co_time c"
      using that c(3) by (force simp: fast_enough_def)
    moreover have "fast_enough data m t flag (cd_runs db)" if "\<not> flag" "co_completion c"
      using that c by (auto simp: fast_enough_def)
    moreover have "too_slow data m t flag (cd_runs db)" if "\<not> t < co_time c" "flag \<or> \<not> co_completion c"
      using that c(1,2) by (auto simp: too_slow_def not_less)
    ultimately show ?thesis unfolding ok by (auto split: if_split)
  qed
qed

subsection \<open>The transaction\<close>

definition refused :: "run_env \<Rightarrow> completion_create_request \<Rightarrow> cdb \<Rightarrow> err \<Rightarrow> bool" where
  "refused X data db e \<longleftrightarrow> (case map_by_code (Some (cc_code data)) db of None \<Rightarrow> False | Some m \<Rightarrow>
     (\<exists>c \<in> set (cd_runs db). waiting data m c \<and> fl (co_time c) \<le> cc_time data
        \<and> e = Runs (SlowerThanPendingError (cc_time data) (fl (co_time c))))
   \<or> e = Pg (ForeignKeyViolation ''completions_verified_by_fkey'') \<and> user_missing bot_user_id db
   \<or> numeric_10_2 (float_text (cc_time data)) = Inl e
   \<or> (case numeric_10_2 (float_text (cc_time data)) of Inl _ \<Rightarrow> False | Inr t \<Rightarrow>
        e = Pg (CheckViolation []) \<and> too_slow data m t (completion_flag m (cc_video data) db) (cd_runs db))
   \<or> e = Runs (DuplicateCompletionError (cc_user_id data) (cc_code data))
        \<and> has_row (\<lambda>c. co_map_id c = mp_id m \<and> co_user_id c = cc_user_id data \<and> co_inserted_at c = env_now (rx_env X)) (cd_runs db)
   \<or> e = Runs (CompletionNotFoundError (cc_user_id data)) \<and> user_missing (cc_user_id data) db)"

definition accepted_run :: "run_env \<Rightarrow> completion_create_request \<Rightarrow> map_row \<Rightarrow> rat \<Rightarrow> cdb \<Rightarrow> completion_run" where
  "accepted_run X data m t db = new_run (rx_env X) (next_run_id db) m (cc_user_id data) t (cc_screenshot data) (cc_video data)
     (completion_flag m (cc_video data) db)"

lemma user_id_constraint: "sublist ''user_id'' ''completions_user_id_fkey''"
  unfolding sublist_def by (intro exI [of _ "''completions_''"] exI [of _ "''_fkey''"]) simp

lemma numeric_error: "numeric_10_2 x = Inl e \<Longrightarrow> \<exists>p. e = Pg p \<and> (\<forall>c. p \<noteq> CheckViolation c \<and> p \<noteq> UniqueViolation c \<and> p \<noteq> ForeignKeyViolation c)"
  by (auto simp: numeric_10_2_def Let_def split: if_splits)

lemma submission_tx_outcome:
  assumes "runs_ok db" "map_by_code (Some (cc_code data)) db = Some m" "resolve_active_cycle X (cc_code data) db = None"
    "\<forall>c \<in> set (cd_runs db). co_inserted_at c \<le> env_now (rx_env X)"
  shows "case submission_tx X data db of
     Inl e \<Rightarrow> refused X data db e
   | Inr ((i, v, non_pb), db') \<Rightarrow> i = Some (next_run_id db) \<and> non_pb = None
       \<and> (\<exists>t. numeric_10_2 (float_text (cc_time data)) = Inr t
           \<and> fast_enough data m t (completion_flag m (cc_video data) db) (cd_runs db)
           \<and> (\<forall>c \<in> set (cd_runs db). waiting data m c \<longrightarrow> cc_time data < fl (co_time c))
           \<and> cd_runs db' = superseded data m (cd_runs db) @ [accepted_run X data m t db])"
proof -
  let ?s = "supersede_pending None data (get_pending_verification (rx_ties X ''pending'') (cc_user_id data) (cc_code data) db) db"
  note sup = supersede_run [OF assms(1,2), of "rx_ties X ''pending''"]
  have start: "submission_tx X data db = bind_tx (\<lambda>_. ?s) (\<lambda>v. bind_tx (insert_or_relax X None data)
      (\<lambda>(i, non_pb). return_tx (i, v, non_pb))) db"
    using assms(3) by (simp add: submission_tx_def bind_tx_def split_def split: sum.split)
  show ?thesis
  proof (cases ?s)
    case (Inl e)
    with sup start assms(2) show ?thesis by (auto simp: bind_tx_def refused_def)
  next
    case (Inr vd)
    let ?db = "db\<lparr>cd_runs := superseded data m (cd_runs db)\<rparr>"
    obtain v where vd: "vd = (v, ?db)" and faster: "\<forall>c \<in> set (cd_runs db). waiting data m c \<longrightarrow> cc_time data < fl (co_time c)"
      using sup Inr by (cases vd) auto
    have same: "map_by_code (Some (cc_code data)) ?db = Some m" "user_missing u ?db = user_missing u db"
      "completion_flag m video ?db = completion_flag m video db" "next_run_id ?db = next_run_id db" for u video
      using assms(2) by (simp_all add: map_by_code_def user_missing_def user_exists_def completion_flag_def in_playtest_def)
    have keys: "has_row (\<lambda>c. co_map_id c = a \<and> co_user_id c = b \<and> co_inserted_at c = n) (cd_runs ?db)
        = has_row (\<lambda>c. co_map_id c = a \<and> co_user_id c = b \<and> co_inserted_at c = n) (cd_runs db)" for a b n
      by (simp add: superseded_def has_row_update_where)
    show ?thesis
    proof (cases "numeric_10_2 (float_text (cc_time data))")
      case (Inl e)
      with numeric_error [OF this] \<open>?s = Inr vd\<close> start assms(2) same(1) show ?thesis
        by (auto simp: vd bind_tx_def insert_or_relax_def insert_completion_def translated_def repo_error_def refused_def
            submission_error_def split: pg_error.splits)
    next
      case (Inr t)
      let ?new = "new_run (rx_env X) (next_run_id db) m (cc_user_id data) t (cc_screenshot data) (cc_video data)
         (completion_flag m (cc_video data) db)"
      note speed = speed_passed [OF assms(2,4), of "rx_ties X ''best''" "next_run_id db" t "cc_screenshot data" "cc_video data"
          "completion_flag m (cc_video data) db"]
      have ins: "insert_completion (rx_env X) (rx_ties X ''best'') (cc_code data) (cc_user_id data) (cc_time data)
          (cc_screenshot data) (cc_video data) ?db =
        (if \<not> speed_rules_ok (rx_ties X ''best'') None ?new ?db then Inl (Pg (CheckViolation []))
         else if has_row (\<lambda>c. co_map_id c = mp_id m \<and> co_user_id c = cc_user_id data \<and> co_inserted_at c = env_now (rx_env X)) (cd_runs db)
         then Inl (Repo (UniqueConstraintViolationError ''completions_map_id_user_id_inserted_at_key'' ''core.completions''))
         else if user_missing (cc_user_id data) db
         then Inl (Repo (ForeignKeyViolationError ''completions_user_id_fkey'' ''core.completions''))
         else Inr (Some (next_run_id db), ?db\<lparr>cd_runs := superseded data m (cd_runs db) @ [?new], next_run_id := next_run_id db + 1\<rparr>))"
        unfolding insert_completion_def translated_def same option.case Inr sum.case Let_def keys
        by (simp add: repo_error_def constraint_or_unknown_def new_run_def)
      show ?thesis
        using speed faster assms(2) start \<open>?s = Inr vd\<close> Inr
        by (simp add: vd bind_tx_def insert_or_relax_def ins refused_def submission_error_def user_id_constraint
            accepted_run_def split: if_splits)
    qed
  qed
qed

subsection \<open>What follows the transaction\<close>

definition ocr_request :: "int \<Rightarrow> completion_create_request \<Rightarrow> outgoing" where
  "ocr_request i data = Emitted (OcrRequested \<lparr>oq_completion_id = i, oq_user_id = cc_user_id data,
     oq_code = cc_code data, oq_time = cc_time data, oq_screenshot = cc_screenshot data\<rparr>)"

definition dispatch_run :: "run_env \<Rightarrow> bool \<Rightarrow> completion_create_request \<Rightarrow> int \<Rightarrow> int option \<Rightarrow> submission_response cio" where
  "dispatch_run X pytest data i v =
     bind_io (case v of
         Some v \<Rightarrow> if v = 0 then return_io () else bind_io (publish_run X pytest ''api.completion.verification.delete''
             (VerificationMessageDelete v) None) (\<lambda>_. return_io ())
       | None \<Rightarrow> return_io ()) (\<lambda>_.
     bind_io (atomically (read_tx (fetch_suspicious_flags (cc_user_id data)))) (\<lambda>flags.
     if no_video data \<and> flags = []
     then bind_io (send_io (ocr_request i data)) (\<lambda>_. return_io \<lparr>sj_job_status = None, sj_completion_id = i\<rparr>)
     else bind_io (publish_run X pytest ''api.completion.submission'' (CompletionCreated i) (submission_key (cc_user_id data) i))
            (\<lambda>job. return_io \<lparr>sj_job_status = Some job, sj_completion_id = i\<rparr>)))"

lemma submit_run:
  assumes "check_map_exists (cc_code data) (wdb w)" "submission_tx X data (wdb w) = Inr ((Some i, v, None), db)" "i \<noteq> 0"
  shows "submit_completion X pytest data w = dispatch_run X pytest data i v (w\<lparr>wdb := db\<rparr>)"
  using assms(1,3) unfolding submit_completion_def dispatch_run_def ocr_request_def
  by (simp add: bind_atomically_Inr [where m = "submission_tx X data", OF assms(2)])

lemma dispatch_own: "own (wdb (snd (dispatch_run X pytest data i v w))) = own (wdb w)"
proof -
  have "keeps_io (\<lambda>db. Q (own db)) (dispatch_run X pytest data i v)" for Q
    unfolding dispatch_run_def by (intro keeps_rules own_keeps)
  from keeps_ioD [OF this [of "\<lambda>t. t = own (wdb w)"]] show ?thesis by simp
qed

lemma flags_frame:
  assumes "own db = own db'" "holdings db = holdings db'"
  shows "fetch_suspicious_flags u db = fetch_suspicious_flags u db'"
proof -
  have "users (econ_view db) = users (econ_view db')"
    using arg_cong [OF assms(2), of users] by (simp add: holdings_def)
  then have "user_missing u db = user_missing u db'" by (simp add: user_missing_def user_exists_def)
  with assms(1) show ?thesis
    by (simp add: fetch_suspicious_flags_def run_by_id_def own_def cong: option.case_cong)
qed

lemma publish_frame:
  assumes "publish_run X pytest key data k w = (r, w')"
  shows "fetch_suspicious_flags u (wdb w') = fetch_suspicious_flags u (wdb w)"
proof (rule flags_frame)
  show "own (wdb w') = own (wdb w)"
    using keeps_ioD [OF keeps_own_publish(1) [of "\<lambda>t. t = own (wdb w)"], of w X pytest key data k] assms by simp
  show "holdings (wdb w') = holdings (wdb w)"
    using keeps_ioD [OF keeps_holdings_publish [of "holdings (wdb w)"], of w X pytest key data k] assms by simp
qed

lemma dispatch_result:
  assumes "dispatch_run X pytest data i v w = (Inr resp, w')"
  shows "sj_completion_id resp = i \<and>
    (if no_video data \<and> fetch_suspicious_flags (cc_user_id data) (wdb w') = []
     then sj_job_status resp = None \<and> wmq w' \<noteq> [] \<and> last (wmq w') = ocr_request i data else sj_job_status resp \<noteq> None)"
proof -
  from assms obtain w1 where w1: "(if no_video data \<and> fetch_suspicious_flags (cc_user_id data) (wdb w1) = []
     then bind_io (send_io (ocr_request i data)) (\<lambda>_. return_io \<lparr>sj_job_status = None, sj_completion_id = i\<rparr>)
     else bind_io (publish_run X pytest ''api.completion.submission'' (CompletionCreated i) (submission_key (cc_user_id data) i))
            (\<lambda>job. return_io \<lparr>sj_job_status = Some job, sj_completion_id = i\<rparr>)) w1 = (Inr resp, w')"
    unfolding dispatch_run_def by (elim bind_ioE [where m = "case v of None \<Rightarrow> _ | Some v \<Rightarrow> _ v"]) (simp only: atomically_read)
  show ?thesis
  proof (cases "no_video data \<and> fetch_suspicious_flags (cc_user_id data) (wdb w1) = []")
    case True
    with w1 show ?thesis by auto
  next
    case False
    with w1 obtain job where "publish_run X pytest ''api.completion.submission'' (CompletionCreated i)
        (submission_key (cc_user_id data) i) w1 = (Inr job, w')" "resp = \<lparr>sj_job_status = Some job, sj_completion_id = i\<rparr>"
      by (auto elim!: bind_ioE)
    with publish_frame [OF this(1)] False show ?thesis by auto
  qed
qed

subsection \<open>A submission\<close>

text \<open>C11: off the maps of running tournaments a submission is refused for a stated reason with nothing changed - the map
  is unknown or archived, a run of the player waits that is not slower, a run that has passed is not slower, the time
  does not fit its column, a run was stored at the same instant or the player is unknown - or exactly one run is
  added: it waits for its verdict, it beats what has passed, and every slower run of the player that waited is rejected
  in the name of the bot. The answer then names the new run, which goes to the text recognition if it has no video and
  the player no flag, and to the queue of the moderators otherwise.\<close>

theorem submit_outcome:
  assumes "runs_ok (wdb w)" "0 < next_run_id (wdb w)" "resolve_active_cycle X (cc_code data) (wdb w) = None"
    and "\<forall>c \<in> set (cd_runs (wdb w)). co_inserted_at c \<le> env_now (rx_env X)"
  shows "case submit_completion X pytest data w of (r, w') \<Rightarrow>
     (\<exists>e. r = Inl e \<and> w' = w \<and>
        (if check_map_exists (cc_code data) (wdb w) then refused X data (wdb w) e else e = Runs (MapNotFoundError (cc_code data))))
   \<or> (\<exists>m t. map_by_code (Some (cc_code data)) (wdb w) = Some m \<and> numeric_10_2 (float_text (cc_time data)) = Inr t
        \<and> fast_enough data m t (completion_flag m (cc_video data) (wdb w)) (cd_runs (wdb w))
        \<and> (\<forall>c \<in> set (cd_runs (wdb w)). waiting data m c \<longrightarrow> cc_time data < fl (co_time c))
        \<and> cd_runs (wdb w') = superseded data m (cd_runs (wdb w)) @ [accepted_run X data m t (wdb w)]
        \<and> (\<forall>resp. r = Inr resp \<longrightarrow> sj_completion_id resp = next_run_id (wdb w) \<and>
             (if no_video data \<and> get_suspicious_flags (cc_user_id data) (wdb w') = []
              then sj_job_status resp = None \<and> last (wmq w') = ocr_request (next_run_id (wdb w)) data
              else sj_job_status resp \<noteq> None)))"
proof (cases "check_map_exists (cc_code data) (wdb w)")
  case False
  then show ?thesis by (simp add: submit_completion_def)
next
  case True
  then obtain m where m: "map_by_code (Some (cc_code data)) (wdb w) = Some m"
    by (cases "map_by_code (Some (cc_code data)) (wdb w)")
      (auto simp: check_map_exists_def map_by_code_def first_where_None has_row_iff)
  note tx = submission_tx_outcome [OF assms(1) m assms(3,4)]
  show ?thesis
  proof (cases "submission_tx X data (wdb w)")
    case (Inl e)
    with tx True show ?thesis by (simp add: submit_completion_def bind_atomically_Inl)
  next
    case (Inr x)
    then obtain v db where x: "submission_tx X data (wdb w) = Inr ((Some (next_run_id (wdb w)), v, None), db)"
      using tx by (cases x) auto
    have run: "submit_completion X pytest data w = dispatch_run X pytest data (next_run_id (wdb w)) v (w\<lparr>wdb := db\<rparr>)"
      by (rule submit_run [OF True x]) (use assms(2) in simp)
    obtain r w' where rw: "submit_completion X pytest data w = (r, w')" by fastforce
    note sent = rw [unfolded run]
    have "own (wdb w') = own db"
      using dispatch_own [of X pytest data "next_run_id (wdb w)" v "w\<lparr>wdb := db\<rparr>"] unfolding sent by simp
    then have "cd_runs (wdb w') = cd_runs db" by (simp add: own_def)
    moreover have "sj_completion_id resp = next_run_id (wdb w) \<and>
             (if no_video data \<and> get_suspicious_flags (cc_user_id data) (wdb w') = []
              then sj_job_status resp = None \<and> last (wmq w') = ocr_request (next_run_id (wdb w)) data
              else sj_job_status resp \<noteq> None)" if "r = Inr resp" for resp
      using dispatch_result [OF sent [unfolded that]]
      by (simp add: get_suspicious_flags_def split: if_splits)
    ultimately show ?thesis using tx m unfolding x rw by auto
  qed
qed

lemma demo_submit_ready:
  "runs_ok (wdb demo_world)" "0 < next_run_id (wdb demo_world)"
  "resolve_active_cycle demo_X (cc_code (demo_submission t)) (wdb demo_world) = None"
  "\<forall>c \<in> set (cd_runs (wdb demo_world)). co_inserted_at c \<le> env_now (rx_env demo_X)"
proof -
  show "runs_ok (wdb demo_world)" by (simp add: demo_world_def demo_ok)
  show "0 < next_run_id (wdb demo_world)" by (simp add: demo_world_def demo_db_def)
  show "resolve_active_cycle demo_X (cc_code (demo_submission t)) (wdb demo_world) = None"
    by (simp add: demo_submission_def demo_world_def resolve_active_cycle_def fetch_map_metadata_by_code_def demo_map
        demo_map_row_def get_active_cycle_by_map_id_def tourney_view_def)
      (simp add: demo_db_def order_by_random_def)
  show "\<forall>c \<in> set (cd_runs (wdb demo_world)). co_inserted_at c \<le> env_now (rx_env demo_X)"
    by (simp add: demo_world_def demo_run_def demo_X_def sample_env_def)
qed

lemma demo_submission_facts:
  "check_map_exists (cc_code (demo_submission t)) (wdb demo_world)"
  "map_by_code (Some (cc_code (demo_submission t))) (wdb demo_world) = Some demo_map_row"
  "cc_time (demo_submission t) = t" "cd_runs (wdb demo_world) = [demo_run]" "cc_user_id (demo_submission t) = 1"
  by (simp_all add: demo_submission_def demo_world_def demo_exists demo_map)

lemma demo_waits: "waiting (demo_submission t) demo_map_row demo_run" "\<not> passed (demo_submission t) demo_map_row demo_run"
  "co_time demo_run = 42" "fl 42 = 42"
  by (simp_all add: waiting_def passed_def demo_submission_def demo_map_row_def demo_run_def is_pending_def fl_numeral)

lemma demo_refused: "refused demo_X (demo_submission t) (wdb demo_world) e \<longleftrightarrow>
    42 \<le> t \<and> e = Runs (SlowerThanPendingError t 42) \<or> numeric_10_2 (float_text t) = Inl e"
  by (simp add: refused_def demo_submission_facts demo_waits too_slow_def split: sum.split)
    (auto simp: demo_world_def demo_users demo_X_def sample_env_def demo_run_def)

theorem submit_outcome_witness:
  "map (\<lambda>c. (co_id c, is_pending c)) (cd_runs (wdb (snd (submit_completion demo_X False (demo_submission 40) demo_world))))
     = [(1, False), (2, True)]
   \<and> fst (submit_completion demo_X False (demo_submission 50) demo_world) = Inl (Runs (SlowerThanPendingError 50 42))"
proof
  note outcome = submit_outcome [OF demo_submit_ready, where pytest = False]
  note facts = demo_submission_facts demo_waits demo_refused demo_numeric superseded_def accepted_run_def
  show "map (\<lambda>c. (co_id c, is_pending c)) (cd_runs (wdb (snd (submit_completion demo_X False (demo_submission 40) demo_world))))
     = [(1, False), (2, True)]"
    using outcome [of 40]
    by (simp add: facts split: prod.splits) (auto simp: is_pending_def new_run_def demo_run_def demo_world_def demo_db_def)
  show "fst (submit_completion demo_X False (demo_submission 50) demo_world) = Inl (Runs (SlowerThanPendingError 50 42))"
    using outcome [of 50] by (simp add: facts split: prod.splits)
qed

subsection \<open>All calls\<close>

text \<open>C14: no sequence of the calls of \<open>run_call\<close> leaves a player with two runs waiting on one map; ids, messages and
  instants stay unique, flags and upvotes refer to runs, upvotes and ratings are given once, ratings stay within 1 and
  10. The calls are submissions off the maps of running tournaments, verdicts, automatic verdicts, edits, moderation,
  flags, upvotes and ratings; two are left out, because they break the claim: an edit that lifts the legacy mark of a
  run nobody has judged, and a moderation that verifies such a run (\<open>moderated_run_waits_again\<close>).\<close>

theorem one_run_waits:
  assumes "run_reach w w'" "runs_ok (wdb w)"
  shows "runs_ok (wdb w') \<and> (\<forall>c \<in> set (cd_runs (wdb w')). \<forall>d \<in> set (cd_runs (wdb w')). is_pending c \<longrightarrow> is_pending d
     \<longrightarrow> co_user_id c = co_user_id d \<longrightarrow> co_map_id c = co_map_id d \<longrightarrow> c = d)"
proof -
  have "runs_ok (wdb w')" by (rule run_reach_ok [OF assms])
  with runs_ok_pending [OF this] show ?thesis by blast
qed

theorem one_run_waits_witness:
  "runs_ok (wdb (snd (verify_completion demo_X False True False 1 (demo_verdict 2)
     (snd (submit_completion demo_X False (demo_submission 40) demo_world)))))"
proof -
  let ?w = "snd (submit_completion demo_X False (demo_submission 40) demo_world)"
  have "run_call demo_world ?w" by (rule run_call.submit_call [OF demo_submit_ready(3)])
  moreover have "run_call ?w (snd (verify_completion demo_X False True False 1 (demo_verdict 2) ?w))" by (rule run_call.verify_call)
  ultimately have "run_reach demo_world (snd (verify_completion demo_X False True False 1 (demo_verdict 2) ?w))"
    unfolding run_reach_def by (rule converse_rtranclp_into_rtranclp [OF _ r_into_rtranclp])
  from one_run_waits [OF this demo_submit_ready(1)] show ?thesis by (rule conjunct1)
qed

text \<open>
  The second call left out breaks it: the moderation panel verifies a run without a judge, so withdrawing the verdict
  makes the run wait again, beside whatever was submitted since.
\<close>

lemma updated_row: "r \<in> set rows \<Longrightarrow> P r \<Longrightarrow> f r \<in> set (update_where P f rows)"
  by (auto simp: update_where_def)

lemma verified_rows: "update_completion_verified i v db = Inr (x, db') \<Longrightarrow>
    cd_runs db' = update_where (\<lambda>c. co_id c = i) (\<lambda>c. c\<lparr>co_verified := v\<rparr>) (cd_runs db)"
  by (drule sym) (simp add: update_completion_verified_def set_runs_def)

lemma moderated_run_waits_again:
  assumes "update_completion_verified i True db = Inr ((), db1)" "update_completion_verified i False db1 = Inr ((), db2)"
    and "c \<in> set (cd_runs db)" "co_id c = i" "is_pending c"
  shows "c \<in> set (cd_runs db2) \<and> \<not> (\<exists>d \<in> set (cd_runs db1). co_id d = i \<and> is_pending d)"
proof -
  have db1: "cd_runs db1 = update_where (\<lambda>c. co_id c = i) (\<lambda>c. c\<lparr>co_verified := True\<rparr>) (cd_runs db)"
    and db2: "cd_runs db2 = update_where (\<lambda>c. co_id c = i) (\<lambda>c. c\<lparr>co_verified := False\<rparr>) (cd_runs db1)"
    using verified_rows [OF assms(1)] verified_rows [OF assms(2)] .
  have "c\<lparr>co_verified := True\<rparr> \<in> set (cd_runs db1)"
    unfolding db1 by (rule updated_row) (use assms(3,4) in simp_all)
  then have "(c\<lparr>co_verified := True\<rparr>)\<lparr>co_verified := False\<rparr> \<in> set (cd_runs db2)"
    unfolding db2 by (rule updated_row) (use assms(4) in simp)
  moreover have "(c\<lparr>co_verified := True\<rparr>)\<lparr>co_verified := False\<rparr> = c" using assms(5) by (cases c) (simp add: is_pending_def)
  ultimately have "c \<in> set (cd_runs db2)" by (simp only:)
  moreover have "\<not> is_pending d" if "d \<in> set (cd_runs db1)" "co_id d = i" for d
  proof -
    from in_update_whereD [OF that(1) [unfolded db1]] obtain r
      where "d = (if co_id r = i then r\<lparr>co_verified := True\<rparr> else r)" by blast
    with that(2) show ?thesis by (cases "co_id r = i") (simp_all add: is_pending_def)
  qed
  ultimately show ?thesis by blast
qed

end
