(* ===== verification/Spec2Isabelle.thy ===== *)
theory Spec2Isabelle
  imports Lootbox_Props Quest_Props Quest_Claims Store_Props Quest_Schedule Quest_Events Quest_Provision Tourney_Props
    Skill_Guarantees Notify_Props Playtest_Props Complete_Submit
begin

text \<open>
  Genji Shimada: economy, tournaments, skill score, notifications, playtests and completions of the API.

  The program. Genji Shimada is the back end of a game community: a PostgreSQL database, an HTTP API
  (\<open>src/apps/api\<close>, Litestar and asyncpg), an SDK of message structs (\<open>src/libs/sdk\<close>) and a
  Discord bot that consumes messages from RabbitMQ. Services hold the logic; repositories hold one
  SQL statement per method; a service method runs its statements in one or several transactions and
  may publish messages. This development models the economy: coins, lootbox keys, rewards and XP
  (\<open>lootbox_service.py\<close>, \<open>lootbox_repository.py\<close>), the store and the quests
  (\<open>store_service.py\<close>, \<open>store_repository.py\<close> and the PL/pgSQL functions of migrations 0013
  to 0015), message publishing (\<open>base.py\<close>), and the tournaments: editions, map selection, verdicts,
  rewards and the outbox (\<open>tournament_service.py\<close>, \<open>tournament_reward_service.py\<close>,
  \<open>tournament_outbox_service.py\<close>, \<open>tournaments_repository.py\<close> and the scheduled function of
  migrations 0024 and 0025), the skill score (\<open>skill_service.py\<close>, \<open>skill_repository.py\<close>), the
  notifications (\<open>notifications_service.py\<close>, \<open>notifications_repository.py\<close>), the playtests
  (\<open>playtest_service.py\<close>, \<open>playtest_repository.py\<close>) and the completions, the runs of players on
  maps (\<open>completions_service.py\<close>, \<open>completions_repository.py\<close> but for its listings), which call
  all of the others.

  How code becomes definitions. A transaction is a function \<open>tx\<close> from the database to an error
  or a result with the new database: an error rolls back. A service method is a function
  \<open>io\<close> on a world (database and published messages) whose effects stay when it fails later;
  \<open>atomically\<close> runs a transaction in it. Tables are lists of records in insertion order, one
  field per column the code reads; a primary key, unique index, check or foreign key is a check of
  the statement and a conjunct of \<open>db_ok\<close>. Python errors, PostgreSQL errors and the domain
  errors of \<open>services/exceptions\<close> are constructors of \<open>err\<close>. JSON columns are \<open>dict\<close>
  values with Python's truthiness, comparison and conversion errors. Floats are rationals with the
  binary64 rounding \<open>fl\<close> written at every operation. Times are microseconds. What the code gets
  from outside - the clock, random numbers, fresh uuids, the broker, the keys of
  \<open>ORDER BY random()\<close> - is an argument (\<open>env\<close>, \<open>quest_rolls\<close>, \<open>bounty_rolls\<close>,
  \<open>gacha\<close>), so every theorem holds for all its values. \<open>msgspec.convert\<close> and
  \<open>msgspec.structs.asdict\<close> are library code and arguments of the methods that call them.

  The theories and what they model:
  \<^item> \<open>Prelude\<close>: the two monads with their simp and elimination rules, \<open>keeps\<close> (a statement
    preserves a predicate) with its rule collection, list tables, SQL integer helpers.
  \<^item> \<open>Float64\<close>: binary64 rounding, its error bound, exactness on integers and monotonicity.
    \<open>Py_Json\<close>: JSON values and the Python operations the quest code applies to them.
  \<^item> \<open>Economy_Db\<close>: rows, tables, \<open>db_ok\<close>, errors, the environment. \<open>Samples\<close>: a small
    concrete database the witnesses run on.
  \<^item> \<open>Ledger\<close> (locale \<open>ledger\<close>: what payment and deduction promise) and \<open>Till\<close> (locale
    \<open>till\<close> extends it with sales); both are interpreted on \<open>add_user_coins\<close>,
    \<open>deduct_user_coins\<close> and the purchase rows (\<open>Lootbox_Repo\<close>, \<open>Store_Sales\<close>).
  \<^item> \<open>Sdk_Lootbox\<close>, \<open>Sdk_Store\<close>: the structs of \<open>lootbox.py\<close>, \<open>xp.py\<close>,
    \<open>store.py\<close> with their computed fields.
  \<^item> \<open>Lootbox_Repo\<close>, \<open>Lootbox_Service\<close>, \<open>Lootbox_Props\<close>: every method of the lootbox
    repository and service, publishing, and their properties.
  \<^item> \<open>Store_Repo\<close>: every method of the store repository the services use, item and quest
    tables alike. \<open>Store_Service\<close>: prices, purchases, item rotation. \<open>Quest_Rotation\<close>: the
    PL/pgSQL functions of the weekly quest rotation. \<open>Quest_Bounty\<close>: personal bounties.
    \<open>Quest_Engine\<close>: matching events, computing, reverting and completing progress.
    \<open>Quest_Service\<close>: provisioning, the quest list, events, claims, the admin update, the
    quest configuration.
  \<^item> \<open>Quest_Tracker\<close> (locale \<open>map_tracker\<close>: the contract of quests that count maps, with
    interpretations on the three kinds) and \<open>Quest_Kinds\<close> (its interpretation on the dispatching
    functions themselves), used by \<open>Quest_Props\<close>.
  \<^item> \<open>Store_Invariants\<close>, \<open>Economy\<close>: every statement and every service method keeps
    \<open>db_ok\<close>; \<open>econ_step\<close> and \<open>econ_reach\<close> are the calls and their sequences.
    \<open>Quest_Rows\<close>: what can happen to one progress row, and what the automatic claim pays.
  \<^item> \<open>Store_Sales\<close>, \<open>Store_Props\<close>: purchases, prices and the item rotation.
    \<open>Quest_Claims\<close>, \<open>Quest_Events\<close>, \<open>Quest_Provision\<close>, \<open>Quest_Schedule\<close>:
    claims, the effect of an event, provisioning and bounties, the weekly schedule.

  The tournaments run on the economy: \<open>tdb\<close> is the schema \<open>tournaments\<close> beside the economy's
  tables, \<open>in_econ\<close> runs a statement of the economy on the same connection and \<open>on_econ\<close> a call of
  another service. The outbox publishes inside its open transaction, on connections of its own: \<open>ptx\<close>
  has the transaction's database and the committed world side by side, and an error discards the
  first only. \<open>outages\<close> gives the state of the broker at each message, \<open>set_order\<close> the order
  in which Python walks a set, \<open>calendar\<close> what PostgreSQL knows of time zones, \<open>meanwhile\<close>
  what other calls commit between the two transactions of a verdict.
  \<^item> \<open>Sdk_Tournament\<close>, \<open>Tourney_Db\<close>, \<open>Tourney_Repo\<close>: structs, tables, statements.
    \<open>Tourney_Rewards\<close>: the ledger, placements, participation and streaks. \<open>Tourney_Outbox\<close>:
    the poll. \<open>Tourney_Verdicts\<close>: verify, reject and forced results. \<open>Tourney_Editions\<close>: map
    selection, the first edition and the scheduled transition.
  \<^item> \<open>Tourney_Steps\<close>: the locales \<open>step_relation\<close> and \<open>tourney_relation\<close>, which carry a
    relation of databases through the combinators of the three monads. \<open>Tourney_System\<close>: the calls as
    a step relation, and the locale \<open>commit_relation\<close>, which carries a relation respected by every
    transaction along every run. They are interpreted on the ledger's account (\<open>Tourney_Ledger\<close>), on
    the lifecycle (\<open>Tourney_Lifecycle\<close>) and on calls that only publish (\<open>Tourney_Rulings\<close>).
  \<^item> \<open>Tourney_Awards\<close>, \<open>Tourney_Replay\<close>: what settling an edition does to streaks and ledger, and
    that a second time does nothing. \<open>Tourney_Poll\<close>: the shape of a poll. \<open>Tourney_Broker\<close>: a
    simulation of polls against different brokers. \<open>Tourney_Standings\<close>: the leaderboard, the choice of
    maps, the cycles of the next edition. \<open>Tourney_Samples\<close>, \<open>Tourney_Props\<close>: a concrete
    tournament and the properties.

  The skill score is a schema of its own (\<open>skdb\<close>), rebuilt as a whole from the verified runs. A
  rebuild reads its weights and its inputs, and then replaces the snapshot and appends to the history and
  the change feed in one transaction; \<open>rb_meanwhile\<close> is what others commit in between. The module-level
  guard of \<open>recompute_all\<close> is an automaton: \<open>recompute_enter\<close> is a trigger up to its first
  \<open>await\<close>, \<open>loop_head\<close> what follows a rebuild, \<open>recompute_abort\<close> an exception. \<open>x ** y\<close> on
  floats is the argument \<open>pow\<close>; \<open>ties\<close>, \<open>order\<close> and \<open>set_order\<close> are the choices PostgreSQL
  and Python leave open.
  \<^item> \<open>Skill_Score\<close>: the score of a run, the breakdown of a player with Python's compensated
    \<open>sum\<close>, the difference of two breakdowns. \<open>Skill_Db\<close>: the input query, the tables and the
    repository. \<open>Skill_Service\<close>: rebuild, guard, reads and configuration.
  \<^item> \<open>Skill_Rules\<close>: rounding is monotone and idempotent; the shape of breakdowns and differences.
    \<open>Skill_Ranks\<close>: the rows of the input query, and that PostgreSQL's binary search for a tier
    counts the boundaries reached. \<open>Skill_System\<close>: runs of the guard, what a rebuild that commits has
    done (\<open>rebuilt\<close>), the calls as a step relation and the invariant of the change feed.
    \<open>Skill_Props\<close>, \<open>Skill_Guarantees\<close>: a concrete player base and the properties.

  Notifications (\<open>ndb\<close>) and playtests (\<open>pdb\<close>) keep their tables beside the economy's, which
  hold the users, the maps' difficulties, the completions and the jobs; \<open>ntf_base\<close> and \<open>pt_base\<close>
  run the base service on them.
  \<^item> \<open>Sdk_Events\<close>: kinds and channels of notifications, the events of both services, the bands and
    midpoints of the difficulties. \<open>Float_Rules\<close>: rounding is monotone and idempotent, and how the
    text of a double meets the bounds of a numeric column.
  \<^item> \<open>Notify_Db\<close>, \<open>Notify_Service\<close>: the two files' methods. \<open>Notify_Rules\<close>: the locale
    \<open>assignments\<close> (defaults overridden by entries, the last one winning), interpreted on the stored
    preferences, the calls as a step relation and what they keep of the events. \<open>Notify_Props\<close>.
  \<^item> \<open>Playtest_Db\<close>, \<open>Playtest_Service\<close>: the two files' methods with the triggers of
    \<open>core.maps\<close> and \<open>playtests.votes\<close>, and PostgreSQL's \<open>avg\<close> with its scale.
    \<open>Playtest_Rules\<close>: the difficulty of a number by the SDK and by the trigger. \<open>Playtest_System\<close>:
    the invariant \<open>playtests_ok\<close>, kept by each statement and each call. \<open>Playtest_Props\<close>.

  The completions (\<open>cdb\<close>) own the runs, flags, upvotes and ratings; the database of the tournaments with
  the economy in it and that of the notifications are parts of theirs. \<open>econ_view\<close>, \<open>tourney_view\<close>
  and \<open>ntf_view\<close> show each of these services the runs as its own tables have them, and \<open>call_part\<close> runs
  its calls. What is sent is a message for the broker or an event for a listener of the process
  (\<open>outgoing\<close>); the listeners' handlers are calls of their own. \<open>run_env\<close> holds what a call gets from
  outside, \<open>ocr\<close> is the text recognition.
  \<^item> \<open>Sdk_Completions\<close>: requests, events and numbers in texts. \<open>Complete_Db\<close>: tables, views, the
    speed trigger of migration 0033 and the statements. \<open>Complete_Service\<close>: submissions, verdicts with
    their quests and tournament rows, automatic verdicts, edits, moderation, flags, upvotes, ratings.
  \<^item> \<open>Complete_Rules\<close>: the calls of other services leave the tables of the completions alone.
    \<open>Complete_System\<close>: the invariant \<open>runs_ok\<close>, kept by each statement, and the calls as a step
    relation. \<open>Complete_Props\<close>: verdicts, automatic verdicts, upvotes, slower runs of a tournament.
    \<open>Complete_Submit\<close>: the speed rule in terms of the runs that have passed, and submissions.

  What the properties show. Purchases and claims: the outcome on every branch, which error wins, and
  that a refusal changes nothing; coins are conserved, spent coins equal recorded purchases, no
  balance is overdrawn; rewards are paid once. Quests: from its initial progress no event raises a
  Python error, a counting quest is complete exactly when enough distinct maps were played, a
  reverted completion leaves the progress as before; an event changes exactly the user's rows of
  the current week; a completed row settles. Schedule: the next rotation is the first configured
  moment, a weekly check that commits pays every completed quest and moves the schedule by a week, and
  checks commit until the schedule has caught up as long as those quests can be paid. Whole system: every
  sequence of calls keeps the constraints of the database. Tournaments: along every sequence of the calls
  of \<open>tour_step\<close> the XP paid is the worth of the ledger, nothing is paid twice and every row only moves
  forward; a poll is all or nothing, blind to lost messages, and harmless when it repeats; a due edition is
  followed by the next unless transitions are paused; every outcome of a verdict, and what a race of two verdicts leaves behind; what the
  leaderboard query and the map fallback really compute. Skill score: what a run and a player score, that
  a difference drops nothing, that a rebuild is all or nothing and its changes form a chain, that every
  trigger is served and the loop of the guard ends, what tiers mean. Notifications: preferences take
  effect, are shown as they decide and route each notification; none is lost, and the tray empties.
  Playtests: every call keeps votes and difficulties consistent, what a vote and an approval do on each
  branch, how far the announced difficulty can be from the stored one, and that a chosen one is exact.
  Completions: when a submission is refused, what an accepted one replaces and where it goes; a verdict
  is committed before anything that may fail, and repeating it pays nothing but a participation never paid; the bot verifies on evidence
  only; a player has at most one run waiting on a map, but for two calls of moderators; a slower run on a tournament's map is lost.

  Where the model is bounded. Integers of \<open>int4\<close> columns are range-checked where the database
  checks them. \<open>users.coins\<close> may be NULL in the schema; the field \<open>usr_coins\<close> is an
  integer, and the one statement that could write NULL there (the automatic claim of quests whose data names no
  reward) is an \<open>OutsideModel\<close> error. Python integers are unbounded. A float total or a list comparison that the code would
  compute in a way no stored value can reach is the error \<open>OutsideModel\<close>, never a result. Floats
  have no largest value: a product beyond the range of doubles stays a number instead of becoming
  infinite. No loop needs fuel: the loops run over lists, but for the binary search of a tier, whose range
  shrinks, and the loop of the guard, which is a property.

  Not modelled. Two transactions that interleave: a transaction is one step, as its row locks and
  the advisory locks of provisioning and of the scheduled transition make it for the rows it writes;
  the window between the two transactions of a verdict is modelled. One poller runs at a time, so
  \<open>SKIP LOCKED\<close> skips nothing. Where the database orders by a name it is ordered by code points,
  not by a collation. The encoding of messages, HTTP controllers, connection pools and the Discord bot,
  which are input and output. Of the tournaments: category administration, rerolls, map choices
  (administrators' calls that delete cycles and runs, so no step of \<open>tour_step\<close>) and the listings. Of
  the completions: the listings of the repository (leaderboards, dashboards, records, submissions), which
  are SELECTs over many tables, and tables of other components that refer to runs. A statement that
  fails inside a transaction and is caught there aborts it: \<open>in_failed_transaction\<close> is the one place.
  The other services of the API - maps, users, authentication, content - are separate components; of
  them only the rows that the modelled code reads (maps, medals, users and their names) are here. The
  notification events the weekly rotation of quests inserts are a table of the economy of their own.
  Next in the plan: the listings of the completions, the maps service, the rest of the tournaments.
\<close>

end
